(* ===== verification/Prelude.thy ===== *)
theory Prelude
  imports Main "HOL-Library.Word"
begin

text \<open>
  Shared vocabulary of the development: the outcome of running a piece of the C runtime
  (a value and the new world, or the way the run stopped), the statements the C code is
  made of (assertion, pointer read, pointer write, call through a procedure pointer), the
  translation of a \<open>switch\<close> over constants, and list and bit lemmas that several
  components share.

  A program is a function from the world to \<open>Inr (result, world)\<close> or to \<open>Inl e\<close>, where
  \<open>e\<close> says how the run stopped. Statements are written in continuation style: each takes
  the rest of the function as its last argument, so that a definition reads top to bottom
  like the C body it translates. Pointers and handles are natural numbers and 0 is NULL.
\<close>

unbundle bit_operations_syntax

section \<open>Outcomes and statements\<close>

datatype cgpu_error =
    AssertFail string      \<comment> \<open>a failed cgpu_assert of a debug build\<close>
  | NullDeref              \<comment> \<open>a read or write through NULL\<close>
  | DanglingDeref          \<comment> \<open>a read or write through a pointer to no live object\<close>
  | NullCall               \<comment> \<open>a call through a NULL procedure pointer\<close>
  | OutOfBounds string     \<comment> \<open>an access outside the named array\<close>
  | DivisionByZero string  \<comment> \<open>a division by the named value, which is zero\<close>
  | Uninitialized string   \<comment> \<open>a read of a variable that was never written\<close>
  | Unreachable string     \<comment> \<open>SKR_UNREACHABLE_CODE\<close>
  | Diverges string        \<comment> \<open>the named loop does not end\<close>

type_synonym ('w, 'a) prog = "'w \<Rightarrow> cgpu_error + 'a \<times> 'w"

type_synonym ptr = nat

abbreviation (input) NULL :: ptr where "NULL \<equiv> 0"

named_theorems prog_simps "evaluation of the statements of a program"
named_theorems api_defs "definitions of the CGPU front end"
named_theorems vk_defs "definitions of the Vulkan backend"
named_theorems table_defs "definitions of the root signature tables"

definition ret :: "'a \<Rightarrow> ('w, 'a) prog" where
  "ret a = (\<lambda>w. Inr (a, w))"

definition fail :: "cgpu_error \<Rightarrow> ('w, 'a) prog" where
  "fail e = (\<lambda>w. Inl e)"

definition bindP :: "('w, 'a) prog \<Rightarrow> ('a \<Rightarrow> ('w, 'b) prog) \<Rightarrow> ('w, 'b) prog" where
  "bindP m k = (\<lambda>w. case m w of Inl e \<Rightarrow> Inl e | Inr (a, w') \<Rightarrow> k a w')"

text \<open>
  \<open>cgpu_assert\<close> (include/cgpu/cgpu_config.h) is \<open>assert\<close> in a debug build and evaluates its
  argument without any effect in a release build; the flag \<open>dbg\<close> is the build.
\<close>

definition assertc :: "bool \<Rightarrow> bool \<Rightarrow> string \<Rightarrow> ('w, 'a) prog \<Rightarrow> ('w, 'a) prog" where
  "assertc dbg c msg k = (if dbg \<and> \<not> c then fail (AssertFail msg) else k)"

text \<open>Reading the object a pointer points to, in one of the world's object maps.\<close>

definition deref :: "('w \<Rightarrow> ptr \<rightharpoonup> 'o) \<Rightarrow> ptr \<Rightarrow> ('o \<Rightarrow> ('w, 'a) prog) \<Rightarrow> ('w, 'a) prog" where
  "deref sel p k =
     (\<lambda>w. if p = NULL then Inl NullDeref
          else case sel w p of None \<Rightarrow> Inl DanglingDeref | Some x \<Rightarrow> k x w)"

text \<open>A step of the world that cannot stop, and the value of an expression over the world.\<close>

definition modify :: "('w \<Rightarrow> 'w) \<Rightarrow> ('w, 'a) prog \<Rightarrow> ('w, 'a) prog" where
  "modify f k = (\<lambda>w. k (f w))"

definition gets :: "('w \<Rightarrow> 'b) \<Rightarrow> ('b \<Rightarrow> ('w, 'a) prog) \<Rightarrow> ('w, 'a) prog" where
  "gets f k = (\<lambda>w. k (f w) w)"

text \<open>Indexing a C array of known extent.\<close>

definition index_of :: "string \<Rightarrow> 'b list \<Rightarrow> nat \<Rightarrow> ('b \<Rightarrow> ('w, 'a) prog) \<Rightarrow> ('w, 'a) prog" where
  "index_of name xs i k = (if i < length xs then k (xs ! i) else fail (OutOfBounds name))"

text \<open>Writing an element of a C array of known extent; the rest sees the new contents.\<close>

definition update_at ::
    "string \<Rightarrow> 'b list \<Rightarrow> nat \<Rightarrow> 'b \<Rightarrow> ('b list \<Rightarrow> ('w, 'a) prog) \<Rightarrow> ('w, 'a) prog" where
  "update_at name xs i x k =
     (if i < length xs then k (xs[i := x]) else fail (OutOfBounds name))"

text \<open>Reading a local variable that may not have been written.\<close>

definition initialized :: "string \<Rightarrow> 'b option \<Rightarrow> ('b \<Rightarrow> ('w, 'a) prog) \<Rightarrow> ('w, 'a) prog" where
  "initialized name x k = (case x of None \<Rightarrow> fail (Uninitialized name) | Some v \<Rightarrow> k v)"

text \<open>A call through a procedure pointer: the pointer is NULL or a procedure.\<close>

definition proc :: "'f option \<Rightarrow> ('f \<Rightarrow> ('w, 'a) prog) \<Rightarrow> ('w, 'a) prog" where
  "proc f k = (case f of None \<Rightarrow> fail NullCall | Some g \<Rightarrow> k g)"

text \<open>The idiom \<open>cgpu_assert(fn && msg); fn(..)\<close> of the front end.\<close>

definition checked_proc ::
    "bool \<Rightarrow> 'f option \<Rightarrow> string \<Rightarrow> ('f \<Rightarrow> ('w, 'a) prog) \<Rightarrow> ('w, 'a) prog" where
  "checked_proc dbg f msg k = assertc dbg (f \<noteq> None) msg (proc f k)"

text \<open>\<open>for (x : xs) body\<close> with a body that only changes the world.\<close>

fun for_each :: "'x list \<Rightarrow> ('x \<Rightarrow> ('w, unit) prog) \<Rightarrow> ('w, unit) prog" where
  "for_each [] body = ret ()"
| "for_each (x # xs) body = bindP (body x) (\<lambda>_. for_each xs body)"

text \<open>\<open>for (x : xs) ys.push_back(body x)\<close>.\<close>

fun map_each :: "'x list \<Rightarrow> ('x \<Rightarrow> ('w, 'y) prog) \<Rightarrow> ('w, 'y list) prog" where
  "map_each [] body = ret []"
| "map_each (x # xs) body =
     bindP (body x) (\<lambda>y. bindP (map_each xs body) (\<lambda>ys. ret (y # ys)))"

lemma ret_run [simp, prog_simps]: "ret a w = Inr (a, w)"
  by (simp add: ret_def)

lemma fail_run [simp, prog_simps]: "fail e w = Inl e"
  by (simp add: fail_def)

lemma bindP_run [prog_simps]:
  "bindP m k w = (case m w of Inl e \<Rightarrow> Inl e | Inr (a, w') \<Rightarrow> k a w')"
  by (simp add: bindP_def)

lemma assertc_run [prog_simps]:
  "assertc dbg c msg k w = (if dbg \<and> \<not> c then Inl (AssertFail msg) else k w)"
  by (simp add: assertc_def)

lemma deref_run [prog_simps]:
  "deref sel p k w =
     (if p = NULL then Inl NullDeref
      else case sel w p of None \<Rightarrow> Inl DanglingDeref | Some x \<Rightarrow> k x w)"
  by (simp add: deref_def)

lemma modify_run [prog_simps]: "modify f k w = k (f w) "
  by (simp add: modify_def)

lemma gets_run [prog_simps]: "gets f k w = k (f w) w"
  by (simp add: gets_def)

lemma index_of_run [prog_simps]:
  "index_of name xs i k w = (if i < length xs then k (xs ! i) w else Inl (OutOfBounds name))"
  by (simp add: index_of_def)

lemma update_at_run [prog_simps]:
  "update_at name xs i x k w =
     (if i < length xs then k (xs[i := x]) w else Inl (OutOfBounds name))"
  by (simp add: update_at_def)

lemma initialized_run [prog_simps]:
  "initialized name x k w = (case x of None \<Rightarrow> Inl (Uninitialized name) | Some v \<Rightarrow> k v w)"
  by (simp add: initialized_def split: option.split)

lemma proc_run [prog_simps]:
  "proc f k w = (case f of None \<Rightarrow> Inl NullCall | Some g \<Rightarrow> k g w)"
  by (simp add: proc_def split: option.split)

lemma checked_proc_run [prog_simps]:
  "checked_proc dbg f msg k w =
     (case f of None \<Rightarrow> Inl (if dbg then AssertFail msg else NullCall) | Some g \<Rightarrow> k g w)"
  by (simp add: checked_proc_def prog_simps split: option.split)

text \<open>A loop over a list whose body is a function of the world: the fold of its runs.\<close>

lemma for_each_Nil_run [simp, prog_simps]: "for_each [] body w = Inr ((), w)"
  by simp

lemma for_each_Cons_run [prog_simps]:
  "for_each (x # xs) body w =
     (case body x w of Inl e \<Rightarrow> Inl e | Inr (_, w') \<Rightarrow> for_each xs body w')"
  by (simp add: bindP_run)

lemma for_each_append:
  "for_each (xs @ ys) body w =
     (case for_each xs body w of Inl e \<Rightarrow> Inl e | Inr (_, w') \<Rightarrow> for_each ys body w')"
  by (induction xs arbitrary: w) (simp_all add: prog_simps split: sum.split)

section \<open>Switch over constants\<close>

text \<open>\<open>switch (x) { case k1: return v1; ... default: return d; }\<close>\<close>

definition c_switch :: "('k \<times> 'v) list \<Rightarrow> 'v \<Rightarrow> 'k \<Rightarrow> 'v" where
  "c_switch cases d x = (case map_of cases x of None \<Rightarrow> d | Some v \<Rightarrow> v)"

text \<open>Only the scrutinee is simplified, so that evaluating a long switch stays linear.\<close>

lemma c_switch_weak_cong [cong]: "x = y \<Longrightarrow> c_switch cs d x = c_switch cs d y"
  by simp

lemma c_switch_Nil [simp]: "c_switch [] d x = d"
  by (simp add: c_switch_def)

lemma c_switch_Cons [simp]:
  "c_switch ((k, v) # cs) d x = (if x = k then v else c_switch cs d x)"
  by (simp add: c_switch_def)

lemma c_switch_cases: "c_switch cs d x = d \<or> (x, c_switch cs d x) \<in> set cs"
  by (auto simp: c_switch_def split: option.split dest: map_of_SomeD)

lemma c_switch_all:
  assumes "P d" and "list_all (\<lambda>(k, v). P v) cs"
  shows "P (c_switch cs d x)"
  using assms by (induction cs) auto

lemma c_switch_rule:
  assumes "list_all (\<lambda>(k, v). P k v) cs" and "x \<notin> fst ` set cs \<Longrightarrow> P x d"
  shows "P x (c_switch cs d x)"
  using assms by (induction cs) auto

lemma c_switch_in:
  assumes "distinct (map fst cs)" and "(k, v) \<in> set cs"
  shows "c_switch cs d k = v"
  using assms by (simp add: c_switch_def)

lemma c_switch_beyond:
  assumes "list_all (\<lambda>(k, v). 0 \<le> k \<and> k < n) cs" and "x < 0 \<or> (n :: int) \<le> x"
  shows "c_switch cs d x = d"
  using assms by (induction cs) auto

lemma c_switch_notin: "x \<notin> fst ` set cs \<Longrightarrow> c_switch cs d x = d"
  by (induction cs) auto

lemma c_switch_subset:
  assumes "list_all (\<lambda>k. k \<in> set ks) (map fst cs)" and "x \<notin> set ks"
  shows "c_switch cs d x = d"
  using assms by (intro c_switch_notin) (auto simp: list_all_iff)

end
