(* ===== verification/CGPU_Flags.thy ===== *)
theory CGPU_Flags
  imports Prelude
begin

text \<open>
  The enumerations of include/cgpu/flags.h and the format utilities at its end.

  An enumeration whose values the code only compares or uses as an array index is a
  datatype with the source's enumerators (the \<open>_COUNT\<close> and \<open>_MAX_ENUM\<close> enumerators
  included: they are values of the C type and reach \<open>default:\<close> branches). Enumerations of
  bits are constants of type 32 word, since the code combines and tests them bitwise.
  \<open>ECGPUFormat\<close> has 239 enumerators, which the code stores in bit fields and compares; its
  values are the integers of the header. \<open>ECGPUSampleCount\<close> is numeric as well,
  because the front end compares it with 0, which is no enumerator.
\<close>

section \<open>Formats\<close>

type_synonym u32 = "32 word"
type_synonym u64 = "64 word"

type_synonym ECGPUFormat = int

abbreviation (input) CGPU_FORMAT_UNDEFINED :: ECGPUFormat where "CGPU_FORMAT_UNDEFINED \<equiv> 0"
abbreviation (input) CGPU_FORMAT_R1_UNORM :: ECGPUFormat where "CGPU_FORMAT_R1_UNORM \<equiv> 1"
abbreviation (input) CGPU_FORMAT_R2_UNORM :: ECGPUFormat where "CGPU_FORMAT_R2_UNORM \<equiv> 2"
abbreviation (input) CGPU_FORMAT_R4_UNORM :: ECGPUFormat where "CGPU_FORMAT_R4_UNORM \<equiv> 3"
abbreviation (input) CGPU_FORMAT_R4G4_UNORM :: ECGPUFormat where "CGPU_FORMAT_R4G4_UNORM \<equiv> 4"
abbreviation (input) CGPU_FORMAT_G4R4_UNORM :: ECGPUFormat where "CGPU_FORMAT_G4R4_UNORM \<equiv> 5"
abbreviation (input) CGPU_FORMAT_A8_UNORM :: ECGPUFormat where "CGPU_FORMAT_A8_UNORM \<equiv> 6"
abbreviation (input) CGPU_FORMAT_R8_UNORM :: ECGPUFormat where "CGPU_FORMAT_R8_UNORM \<equiv> 7"
abbreviation (input) CGPU_FORMAT_R8_SNORM :: ECGPUFormat where "CGPU_FORMAT_R8_SNORM \<equiv> 8"
abbreviation (input) CGPU_FORMAT_R8_UINT :: ECGPUFormat where "CGPU_FORMAT_R8_UINT \<equiv> 9"
abbreviation (input) CGPU_FORMAT_R8_SINT :: ECGPUFormat where "CGPU_FORMAT_R8_SINT \<equiv> 10"
abbreviation (input) CGPU_FORMAT_R8_SRGB :: ECGPUFormat where "CGPU_FORMAT_R8_SRGB \<equiv> 11"
abbreviation (input) CGPU_FORMAT_B2G3R3_UNORM :: ECGPUFormat where "CGPU_FORMAT_B2G3R3_UNORM \<equiv> 12"
abbreviation (input) CGPU_FORMAT_R4G4B4A4_UNORM :: ECGPUFormat where "CGPU_FORMAT_R4G4B4A4_UNORM \<equiv> 13"
abbreviation (input) CGPU_FORMAT_R4G4B4X4_UNORM :: ECGPUFormat where "CGPU_FORMAT_R4G4B4X4_UNORM \<equiv> 14"
abbreviation (input) CGPU_FORMAT_B4G4R4A4_UNORM :: ECGPUFormat where "CGPU_FORMAT_B4G4R4A4_UNORM \<equiv> 15"
abbreviation (input) CGPU_FORMAT_B4G4R4X4_UNORM :: ECGPUFormat where "CGPU_FORMAT_B4G4R4X4_UNORM \<equiv> 16"
abbreviation (input) CGPU_FORMAT_A4R4G4B4_UNORM :: ECGPUFormat where "CGPU_FORMAT_A4R4G4B4_UNORM \<equiv> 17"
abbreviation (input) CGPU_FORMAT_X4R4G4B4_UNORM :: ECGPUFormat where "CGPU_FORMAT_X4R4G4B4_UNORM \<equiv> 18"
abbreviation (input) CGPU_FORMAT_A4B4G4R4_UNORM :: ECGPUFormat where "CGPU_FORMAT_A4B4G4R4_UNORM \<equiv> 19"
abbreviation (input) CGPU_FORMAT_X4B4G4R4_UNORM :: ECGPUFormat where "CGPU_FORMAT_X4B4G4R4_UNORM \<equiv> 20"
abbreviation (input) CGPU_FORMAT_R5G6B5_UNORM :: ECGPUFormat where "CGPU_FORMAT_R5G6B5_UNORM \<equiv> 21"
abbreviation (input) CGPU_FORMAT_B5G6R5_UNORM :: ECGPUFormat where "CGPU_FORMAT_B5G6R5_UNORM \<equiv> 22"
abbreviation (input) CGPU_FORMAT_R5G5B5A1_UNORM :: ECGPUFormat where "CGPU_FORMAT_R5G5B5A1_UNORM \<equiv> 23"
abbreviation (input) CGPU_FORMAT_B5G5R5A1_UNORM :: ECGPUFormat where "CGPU_FORMAT_B5G5R5A1_UNORM \<equiv> 24"
abbreviation (input) CGPU_FORMAT_A1B5G5R5_UNORM :: ECGPUFormat where "CGPU_FORMAT_A1B5G5R5_UNORM \<equiv> 25"
abbreviation (input) CGPU_FORMAT_A1R5G5B5_UNORM :: ECGPUFormat where "CGPU_FORMAT_A1R5G5B5_UNORM \<equiv> 26"
abbreviation (input) CGPU_FORMAT_R5G5B5X1_UNORM :: ECGPUFormat where "CGPU_FORMAT_R5G5B5X1_UNORM \<equiv> 27"
abbreviation (input) CGPU_FORMAT_B5G5R5X1_UNORM :: ECGPUFormat where "CGPU_FORMAT_B5G5R5X1_UNORM \<equiv> 28"
abbreviation (input) CGPU_FORMAT_X1R5G5B5_UNORM :: ECGPUFormat where "CGPU_FORMAT_X1R5G5B5_UNORM \<equiv> 29"
abbreviation (input) CGPU_FORMAT_X1B5G5R5_UNORM :: ECGPUFormat where "CGPU_FORMAT_X1B5G5R5_UNORM \<equiv> 30"
abbreviation (input) CGPU_FORMAT_B2G3R3A8_UNORM :: ECGPUFormat where "CGPU_FORMAT_B2G3R3A8_UNORM \<equiv> 31"
abbreviation (input) CGPU_FORMAT_R8G8_UNORM :: ECGPUFormat where "CGPU_FORMAT_R8G8_UNORM \<equiv> 32"
abbreviation (input) CGPU_FORMAT_R8G8_SNORM :: ECGPUFormat where "CGPU_FORMAT_R8G8_SNORM \<equiv> 33"
abbreviation (input) CGPU_FORMAT_G8R8_UNORM :: ECGPUFormat where "CGPU_FORMAT_G8R8_UNORM \<equiv> 34"
abbreviation (input) CGPU_FORMAT_G8R8_SNORM :: ECGPUFormat where "CGPU_FORMAT_G8R8_SNORM \<equiv> 35"
abbreviation (input) CGPU_FORMAT_R8G8_UINT :: ECGPUFormat where "CGPU_FORMAT_R8G8_UINT \<equiv> 36"
abbreviation (input) CGPU_FORMAT_R8G8_SINT :: ECGPUFormat where "CGPU_FORMAT_R8G8_SINT \<equiv> 37"
abbreviation (input) CGPU_FORMAT_R8G8_SRGB :: ECGPUFormat where "CGPU_FORMAT_R8G8_SRGB \<equiv> 38"
abbreviation (input) CGPU_FORMAT_R16_UNORM :: ECGPUFormat where "CGPU_FORMAT_R16_UNORM \<equiv> 39"
abbreviation (input) CGPU_FORMAT_R16_SNORM :: ECGPUFormat where "CGPU_FORMAT_R16_SNORM \<equiv> 40"
abbreviation (input) CGPU_FORMAT_R16_UINT :: ECGPUFormat where "CGPU_FORMAT_R16_UINT \<equiv> 41"
abbreviation (input) CGPU_FORMAT_R16_SINT :: ECGPUFormat where "CGPU_FORMAT_R16_SINT \<equiv> 42"
abbreviation (input) CGPU_FORMAT_R16_SFLOAT :: ECGPUFormat where "CGPU_FORMAT_R16_SFLOAT \<equiv> 43"
abbreviation (input) CGPU_FORMAT_R16_SBFLOAT :: ECGPUFormat where "CGPU_FORMAT_R16_SBFLOAT \<equiv> 44"
abbreviation (input) CGPU_FORMAT_R8G8B8_UNORM :: ECGPUFormat where "CGPU_FORMAT_R8G8B8_UNORM \<equiv> 45"
abbreviation (input) CGPU_FORMAT_R8G8B8_SNORM :: ECGPUFormat where "CGPU_FORMAT_R8G8B8_SNORM \<equiv> 46"
abbreviation (input) CGPU_FORMAT_R8G8B8_UINT :: ECGPUFormat where "CGPU_FORMAT_R8G8B8_UINT \<equiv> 47"
abbreviation (input) CGPU_FORMAT_R8G8B8_SINT :: ECGPUFormat where "CGPU_FORMAT_R8G8B8_SINT \<equiv> 48"
abbreviation (input) CGPU_FORMAT_R8G8B8_SRGB :: ECGPUFormat where "CGPU_FORMAT_R8G8B8_SRGB \<equiv> 49"
abbreviation (input) CGPU_FORMAT_B8G8R8_UNORM :: ECGPUFormat where "CGPU_FORMAT_B8G8R8_UNORM \<equiv> 50"
abbreviation (input) CGPU_FORMAT_B8G8R8_SNORM :: ECGPUFormat where "CGPU_FORMAT_B8G8R8_SNORM \<equiv> 51"
abbreviation (input) CGPU_FORMAT_B8G8R8_UINT :: ECGPUFormat where "CGPU_FORMAT_B8G8R8_UINT \<equiv> 52"
abbreviation (input) CGPU_FORMAT_B8G8R8_SINT :: ECGPUFormat where "CGPU_FORMAT_B8G8R8_SINT \<equiv> 53"
abbreviation (input) CGPU_FORMAT_B8G8R8_SRGB :: ECGPUFormat where "CGPU_FORMAT_B8G8R8_SRGB \<equiv> 54"
abbreviation (input) CGPU_FORMAT_R8G8B8A8_UNORM :: ECGPUFormat where "CGPU_FORMAT_R8G8B8A8_UNORM \<equiv> 55"
abbreviation (input) CGPU_FORMAT_R8G8B8A8_SNORM :: ECGPUFormat where "CGPU_FORMAT_R8G8B8A8_SNORM \<equiv> 56"
abbreviation (input) CGPU_FORMAT_R8G8B8A8_UINT :: ECGPUFormat where "CGPU_FORMAT_R8G8B8A8_UINT \<equiv> 57"
abbreviation (input) CGPU_FORMAT_R8G8B8A8_SINT :: ECGPUFormat where "CGPU_FORMAT_R8G8B8A8_SINT \<equiv> 58"
abbreviation (input) CGPU_FORMAT_R8G8B8A8_SRGB :: ECGPUFormat where "CGPU_FORMAT_R8G8B8A8_SRGB \<equiv> 59"
abbreviation (input) CGPU_FORMAT_B8G8R8A8_UNORM :: ECGPUFormat where "CGPU_FORMAT_B8G8R8A8_UNORM \<equiv> 60"
abbreviation (input) CGPU_FORMAT_B8G8R8A8_SNORM :: ECGPUFormat where "CGPU_FORMAT_B8G8R8A8_SNORM \<equiv> 61"
abbreviation (input) CGPU_FORMAT_B8G8R8A8_UINT :: ECGPUFormat where "CGPU_FORMAT_B8G8R8A8_UINT \<equiv> 62"
abbreviation (input) CGPU_FORMAT_B8G8R8A8_SINT :: ECGPUFormat where "CGPU_FORMAT_B8G8R8A8_SINT \<equiv> 63"
abbreviation (input) CGPU_FORMAT_B8G8R8A8_SRGB :: ECGPUFormat where "CGPU_FORMAT_B8G8R8A8_SRGB \<equiv> 64"
abbreviation (input) CGPU_FORMAT_R8G8B8X8_UNORM :: ECGPUFormat where "CGPU_FORMAT_R8G8B8X8_UNORM \<equiv> 65"
abbreviation (input) CGPU_FORMAT_B8G8R8X8_UNORM :: ECGPUFormat where "CGPU_FORMAT_B8G8R8X8_UNORM \<equiv> 66"
abbreviation (input) CGPU_FORMAT_R16G16_UNORM :: ECGPUFormat where "CGPU_FORMAT_R16G16_UNORM \<equiv> 67"
abbreviation (input) CGPU_FORMAT_G16R16_UNORM :: ECGPUFormat where "CGPU_FORMAT_G16R16_UNORM \<equiv> 68"
abbreviation (input) CGPU_FORMAT_R16G16_SNORM :: ECGPUFormat where "CGPU_FORMAT_R16G16_SNORM \<equiv> 69"
abbreviation (input) CGPU_FORMAT_G16R16_SNORM :: ECGPUFormat where "CGPU_FORMAT_G16R16_SNORM \<equiv> 70"
abbreviation (input) CGPU_FORMAT_R16G16_UINT :: ECGPUFormat where "CGPU_FORMAT_R16G16_UINT \<equiv> 71"
abbreviation (input) CGPU_FORMAT_R16G16_SINT :: ECGPUFormat where "CGPU_FORMAT_R16G16_SINT \<equiv> 72"
abbreviation (input) CGPU_FORMAT_R16G16_SFLOAT :: ECGPUFormat where "CGPU_FORMAT_R16G16_SFLOAT \<equiv> 73"
abbreviation (input) CGPU_FORMAT_R16G16_SBFLOAT :: ECGPUFormat where "CGPU_FORMAT_R16G16_SBFLOAT \<equiv> 74"
abbreviation (input) CGPU_FORMAT_R32_UINT :: ECGPUFormat where "CGPU_FORMAT_R32_UINT \<equiv> 75"
abbreviation (input) CGPU_FORMAT_R32_SINT :: ECGPUFormat where "CGPU_FORMAT_R32_SINT \<equiv> 76"
abbreviation (input) CGPU_FORMAT_R32_SFLOAT :: ECGPUFormat where "CGPU_FORMAT_R32_SFLOAT \<equiv> 77"
abbreviation (input) CGPU_FORMAT_A2R10G10B10_UNORM :: ECGPUFormat where "CGPU_FORMAT_A2R10G10B10_UNORM \<equiv> 78"
abbreviation (input) CGPU_FORMAT_A2R10G10B10_UINT :: ECGPUFormat where "CGPU_FORMAT_A2R10G10B10_UINT \<equiv> 79"
abbreviation (input) CGPU_FORMAT_A2R10G10B10_SNORM :: ECGPUFormat where "CGPU_FORMAT_A2R10G10B10_SNORM \<equiv> 80"
abbreviation (input) CGPU_FORMAT_A2R10G10B10_SINT :: ECGPUFormat where "CGPU_FORMAT_A2R10G10B10_SINT \<equiv> 81"
abbreviation (input) CGPU_FORMAT_A2B10G10R10_UNORM :: ECGPUFormat where "CGPU_FORMAT_A2B10G10R10_UNORM \<equiv> 82"
abbreviation (input) CGPU_FORMAT_A2B10G10R10_UINT :: ECGPUFormat where "CGPU_FORMAT_A2B10G10R10_UINT \<equiv> 83"
abbreviation (input) CGPU_FORMAT_A2B10G10R10_SNORM :: ECGPUFormat where "CGPU_FORMAT_A2B10G10R10_SNORM \<equiv> 84"
abbreviation (input) CGPU_FORMAT_A2B10G10R10_SINT :: ECGPUFormat where "CGPU_FORMAT_A2B10G10R10_SINT \<equiv> 85"
abbreviation (input) CGPU_FORMAT_R10G10B10A2_UNORM :: ECGPUFormat where "CGPU_FORMAT_R10G10B10A2_UNORM \<equiv> 86"
abbreviation (input) CGPU_FORMAT_R10G10B10A2_UINT :: ECGPUFormat where "CGPU_FORMAT_R10G10B10A2_UINT \<equiv> 87"
abbreviation (input) CGPU_FORMAT_R10G10B10A2_SNORM :: ECGPUFormat where "CGPU_FORMAT_R10G10B10A2_SNORM \<equiv> 88"
abbreviation (input) CGPU_FORMAT_R10G10B10A2_SINT :: ECGPUFormat where "CGPU_FORMAT_R10G10B10A2_SINT \<equiv> 89"
abbreviation (input) CGPU_FORMAT_B10G10R10A2_UNORM :: ECGPUFormat where "CGPU_FORMAT_B10G10R10A2_UNORM \<equiv> 90"
abbreviation (input) CGPU_FORMAT_B10G10R10A2_UINT :: ECGPUFormat where "CGPU_FORMAT_B10G10R10A2_UINT \<equiv> 91"
abbreviation (input) CGPU_FORMAT_B10G10R10A2_SNORM :: ECGPUFormat where "CGPU_FORMAT_B10G10R10A2_SNORM \<equiv> 92"
abbreviation (input) CGPU_FORMAT_B10G10R10A2_SINT :: ECGPUFormat where "CGPU_FORMAT_B10G10R10A2_SINT \<equiv> 93"
abbreviation (input) CGPU_FORMAT_B10G11R11_UFLOAT :: ECGPUFormat where "CGPU_FORMAT_B10G11R11_UFLOAT \<equiv> 94"
abbreviation (input) CGPU_FORMAT_E5B9G9R9_UFLOAT :: ECGPUFormat where "CGPU_FORMAT_E5B9G9R9_UFLOAT \<equiv> 95"
abbreviation (input) CGPU_FORMAT_R16G16B16_UNORM :: ECGPUFormat where "CGPU_FORMAT_R16G16B16_UNORM \<equiv> 96"
abbreviation (input) CGPU_FORMAT_R16G16B16_SNORM :: ECGPUFormat where "CGPU_FORMAT_R16G16B16_SNORM \<equiv> 97"
abbreviation (input) CGPU_FORMAT_R16G16B16_UINT :: ECGPUFormat where "CGPU_FORMAT_R16G16B16_UINT \<equiv> 98"
abbreviation (input) CGPU_FORMAT_R16G16B16_SINT :: ECGPUFormat where "CGPU_FORMAT_R16G16B16_SINT \<equiv> 99"
abbreviation (input) CGPU_FORMAT_R16G16B16_SFLOAT :: ECGPUFormat where "CGPU_FORMAT_R16G16B16_SFLOAT \<equiv> 100"
abbreviation (input) CGPU_FORMAT_R16G16B16_SBFLOAT :: ECGPUFormat where "CGPU_FORMAT_R16G16B16_SBFLOAT \<equiv> 101"
abbreviation (input) CGPU_FORMAT_R16G16B16A16_UNORM :: ECGPUFormat where "CGPU_FORMAT_R16G16B16A16_UNORM \<equiv> 102"
abbreviation (input) CGPU_FORMAT_R16G16B16A16_SNORM :: ECGPUFormat where "CGPU_FORMAT_R16G16B16A16_SNORM \<equiv> 103"
abbreviation (input) CGPU_FORMAT_R16G16B16A16_UINT :: ECGPUFormat where "CGPU_FORMAT_R16G16B16A16_UINT \<equiv> 104"
abbreviation (input) CGPU_FORMAT_R16G16B16A16_SINT :: ECGPUFormat where "CGPU_FORMAT_R16G16B16A16_SINT \<equiv> 105"
abbreviation (input) CGPU_FORMAT_R16G16B16A16_SFLOAT :: ECGPUFormat where "CGPU_FORMAT_R16G16B16A16_SFLOAT \<equiv> 106"
abbreviation (input) CGPU_FORMAT_R16G16B16A16_SBFLOAT :: ECGPUFormat where "CGPU_FORMAT_R16G16B16A16_SBFLOAT \<equiv> 107"
abbreviation (input) CGPU_FORMAT_R32G32_UINT :: ECGPUFormat where "CGPU_FORMAT_R32G32_UINT \<equiv> 108"
abbreviation (input) CGPU_FORMAT_R32G32_SINT :: ECGPUFormat where "CGPU_FORMAT_R32G32_SINT \<equiv> 109"
abbreviation (input) CGPU_FORMAT_R32G32_SFLOAT :: ECGPUFormat where "CGPU_FORMAT_R32G32_SFLOAT \<equiv> 110"
abbreviation (input) CGPU_FORMAT_R32G32B32_UINT :: ECGPUFormat where "CGPU_FORMAT_R32G32B32_UINT \<equiv> 111"
abbreviation (input) CGPU_FORMAT_R32G32B32_SINT :: ECGPUFormat where "CGPU_FORMAT_R32G32B32_SINT \<equiv> 112"
abbreviation (input) CGPU_FORMAT_R32G32B32_SFLOAT :: ECGPUFormat where "CGPU_FORMAT_R32G32B32_SFLOAT \<equiv> 113"
abbreviation (input) CGPU_FORMAT_R32G32B32A32_UINT :: ECGPUFormat where "CGPU_FORMAT_R32G32B32A32_UINT \<equiv> 114"
abbreviation (input) CGPU_FORMAT_R32G32B32A32_SINT :: ECGPUFormat where "CGPU_FORMAT_R32G32B32A32_SINT \<equiv> 115"
abbreviation (input) CGPU_FORMAT_R32G32B32A32_SFLOAT :: ECGPUFormat where "CGPU_FORMAT_R32G32B32A32_SFLOAT \<equiv> 116"
abbreviation (input) CGPU_FORMAT_R64_UINT :: ECGPUFormat where "CGPU_FORMAT_R64_UINT \<equiv> 117"
abbreviation (input) CGPU_FORMAT_R64_SINT :: ECGPUFormat where "CGPU_FORMAT_R64_SINT \<equiv> 118"
abbreviation (input) CGPU_FORMAT_R64_SFLOAT :: ECGPUFormat where "CGPU_FORMAT_R64_SFLOAT \<equiv> 119"
abbreviation (input) CGPU_FORMAT_R64G64_UINT :: ECGPUFormat where "CGPU_FORMAT_R64G64_UINT \<equiv> 120"
abbreviation (input) CGPU_FORMAT_R64G64_SINT :: ECGPUFormat where "CGPU_FORMAT_R64G64_SINT \<equiv> 121"
abbreviation (input) CGPU_FORMAT_R64G64_SFLOAT :: ECGPUFormat where "CGPU_FORMAT_R64G64_SFLOAT \<equiv> 122"
abbreviation (input) CGPU_FORMAT_R64G64B64_UINT :: ECGPUFormat where "CGPU_FORMAT_R64G64B64_UINT \<equiv> 123"
abbreviation (input) CGPU_FORMAT_R64G64B64_SINT :: ECGPUFormat where "CGPU_FORMAT_R64G64B64_SINT \<equiv> 124"
abbreviation (input) CGPU_FORMAT_R64G64B64_SFLOAT :: ECGPUFormat where "CGPU_FORMAT_R64G64B64_SFLOAT \<equiv> 125"
abbreviation (input) CGPU_FORMAT_R64G64B64A64_UINT :: ECGPUFormat where "CGPU_FORMAT_R64G64B64A64_UINT \<equiv> 126"
abbreviation (input) CGPU_FORMAT_R64G64B64A64_SINT :: ECGPUFormat where "CGPU_FORMAT_R64G64B64A64_SINT \<equiv> 127"
abbreviation (input) CGPU_FORMAT_R64G64B64A64_SFLOAT :: ECGPUFormat where "CGPU_FORMAT_R64G64B64A64_SFLOAT \<equiv> 128"
abbreviation (input) CGPU_FORMAT_D16_UNORM :: ECGPUFormat where "CGPU_FORMAT_D16_UNORM \<equiv> 129"
abbreviation (input) CGPU_FORMAT_X8_D24_UNORM :: ECGPUFormat where "CGPU_FORMAT_X8_D24_UNORM \<equiv> 130"
abbreviation (input) CGPU_FORMAT_D32_SFLOAT :: ECGPUFormat where "CGPU_FORMAT_D32_SFLOAT \<equiv> 131"
abbreviation (input) CGPU_FORMAT_S8_UINT :: ECGPUFormat where "CGPU_FORMAT_S8_UINT \<equiv> 132"
abbreviation (input) CGPU_FORMAT_D16_UNORM_S8_UINT :: ECGPUFormat where "CGPU_FORMAT_D16_UNORM_S8_UINT \<equiv> 133"
abbreviation (input) CGPU_FORMAT_D24_UNORM_S8_UINT :: ECGPUFormat where "CGPU_FORMAT_D24_UNORM_S8_UINT \<equiv> 134"
abbreviation (input) CGPU_FORMAT_D32_SFLOAT_S8_UINT :: ECGPUFormat where "CGPU_FORMAT_D32_SFLOAT_S8_UINT \<equiv> 135"
abbreviation (input) CGPU_FORMAT_DXBC1_RGB_UNORM :: ECGPUFormat where "CGPU_FORMAT_DXBC1_RGB_UNORM \<equiv> 136"
abbreviation (input) CGPU_FORMAT_DXBC1_RGB_SRGB :: ECGPUFormat where "CGPU_FORMAT_DXBC1_RGB_SRGB \<equiv> 137"
abbreviation (input) CGPU_FORMAT_DXBC1_RGBA_UNORM :: ECGPUFormat where "CGPU_FORMAT_DXBC1_RGBA_UNORM \<equiv> 138"
abbreviation (input) CGPU_FORMAT_DXBC1_RGBA_SRGB :: ECGPUFormat where "CGPU_FORMAT_DXBC1_RGBA_SRGB \<equiv> 139"
abbreviation (input) CGPU_FORMAT_DXBC2_UNORM :: ECGPUFormat where "CGPU_FORMAT_DXBC2_UNORM \<equiv> 140"
abbreviation (input) CGPU_FORMAT_DXBC2_SRGB :: ECGPUFormat where "CGPU_FORMAT_DXBC2_SRGB \<equiv> 141"
abbreviation (input) CGPU_FORMAT_DXBC3_UNORM :: ECGPUFormat where "CGPU_FORMAT_DXBC3_UNORM \<equiv> 142"
abbreviation (input) CGPU_FORMAT_DXBC3_SRGB :: ECGPUFormat where "CGPU_FORMAT_DXBC3_SRGB \<equiv> 143"
abbreviation (input) CGPU_FORMAT_DXBC4_UNORM :: ECGPUFormat where "CGPU_FORMAT_DXBC4_UNORM \<equiv> 144"
abbreviation (input) CGPU_FORMAT_DXBC4_SNORM :: ECGPUFormat where "CGPU_FORMAT_DXBC4_SNORM \<equiv> 145"
abbreviation (input) CGPU_FORMAT_DXBC5_UNORM :: ECGPUFormat where "CGPU_FORMAT_DXBC5_UNORM \<equiv> 146"
abbreviation (input) CGPU_FORMAT_DXBC5_SNORM :: ECGPUFormat where "CGPU_FORMAT_DXBC5_SNORM \<equiv> 147"
abbreviation (input) CGPU_FORMAT_DXBC6H_UFLOAT :: ECGPUFormat where "CGPU_FORMAT_DXBC6H_UFLOAT \<equiv> 148"
abbreviation (input) CGPU_FORMAT_DXBC6H_SFLOAT :: ECGPUFormat where "CGPU_FORMAT_DXBC6H_SFLOAT \<equiv> 149"
abbreviation (input) CGPU_FORMAT_DXBC7_UNORM :: ECGPUFormat where "CGPU_FORMAT_DXBC7_UNORM \<equiv> 150"
abbreviation (input) CGPU_FORMAT_DXBC7_SRGB :: ECGPUFormat where "CGPU_FORMAT_DXBC7_SRGB \<equiv> 151"
abbreviation (input) CGPU_FORMAT_PVRTC1_2BPP_UNORM :: ECGPUFormat where "CGPU_FORMAT_PVRTC1_2BPP_UNORM \<equiv> 152"
abbreviation (input) CGPU_FORMAT_PVRTC1_4BPP_UNORM :: ECGPUFormat where "CGPU_FORMAT_PVRTC1_4BPP_UNORM \<equiv> 153"
abbreviation (input) CGPU_FORMAT_PVRTC2_2BPP_UNORM :: ECGPUFormat where "CGPU_FORMAT_PVRTC2_2BPP_UNORM \<equiv> 154"
abbreviation (input) CGPU_FORMAT_PVRTC2_4BPP_UNORM :: ECGPUFormat where "CGPU_FORMAT_PVRTC2_4BPP_UNORM \<equiv> 155"
abbreviation (input) CGPU_FORMAT_PVRTC1_2BPP_SRGB :: ECGPUFormat where "CGPU_FORMAT_PVRTC1_2BPP_SRGB \<equiv> 156"
abbreviation (input) CGPU_FORMAT_PVRTC1_4BPP_SRGB :: ECGPUFormat where "CGPU_FORMAT_PVRTC1_4BPP_SRGB \<equiv> 157"
abbreviation (input) CGPU_FORMAT_PVRTC2_2BPP_SRGB :: ECGPUFormat where "CGPU_FORMAT_PVRTC2_2BPP_SRGB \<equiv> 158"
abbreviation (input) CGPU_FORMAT_PVRTC2_4BPP_SRGB :: ECGPUFormat where "CGPU_FORMAT_PVRTC2_4BPP_SRGB \<equiv> 159"
abbreviation (input) CGPU_FORMAT_ETC2_R8G8B8_UNORM :: ECGPUFormat where "CGPU_FORMAT_ETC2_R8G8B8_UNORM \<equiv> 160"
abbreviation (input) CGPU_FORMAT_ETC2_R8G8B8_SRGB :: ECGPUFormat where "CGPU_FORMAT_ETC2_R8G8B8_SRGB \<equiv> 161"
abbreviation (input) CGPU_FORMAT_ETC2_R8G8B8A1_UNORM :: ECGPUFormat where "CGPU_FORMAT_ETC2_R8G8B8A1_UNORM \<equiv> 162"
abbreviation (input) CGPU_FORMAT_ETC2_R8G8B8A1_SRGB :: ECGPUFormat where "CGPU_FORMAT_ETC2_R8G8B8A1_SRGB \<equiv> 163"
abbreviation (input) CGPU_FORMAT_ETC2_R8G8B8A8_UNORM :: ECGPUFormat where "CGPU_FORMAT_ETC2_R8G8B8A8_UNORM \<equiv> 164"
abbreviation (input) CGPU_FORMAT_ETC2_R8G8B8A8_SRGB :: ECGPUFormat where "CGPU_FORMAT_ETC2_R8G8B8A8_SRGB \<equiv> 165"
abbreviation (input) CGPU_FORMAT_ETC2_EAC_R11_UNORM :: ECGPUFormat where "CGPU_FORMAT_ETC2_EAC_R11_UNORM \<equiv> 166"
abbreviation (input) CGPU_FORMAT_ETC2_EAC_R11_SNORM :: ECGPUFormat where "CGPU_FORMAT_ETC2_EAC_R11_SNORM \<equiv> 167"
abbreviation (input) CGPU_FORMAT_ETC2_EAC_R11G11_UNORM :: ECGPUFormat where "CGPU_FORMAT_ETC2_EAC_R11G11_UNORM \<equiv> 168"
abbreviation (input) CGPU_FORMAT_ETC2_EAC_R11G11_SNORM :: ECGPUFormat where "CGPU_FORMAT_ETC2_EAC_R11G11_SNORM \<equiv> 169"
abbreviation (input) CGPU_FORMAT_ASTC_4x4_UNORM :: ECGPUFormat where "CGPU_FORMAT_ASTC_4x4_UNORM \<equiv> 170"
abbreviation (input) CGPU_FORMAT_ASTC_4x4_SRGB :: ECGPUFormat where "CGPU_FORMAT_ASTC_4x4_SRGB \<equiv> 171"
abbreviation (input) CGPU_FORMAT_ASTC_5x4_UNORM :: ECGPUFormat where "CGPU_FORMAT_ASTC_5x4_UNORM \<equiv> 172"
abbreviation (input) CGPU_FORMAT_ASTC_5x4_SRGB :: ECGPUFormat where "CGPU_FORMAT_ASTC_5x4_SRGB \<equiv> 173"
abbreviation (input) CGPU_FORMAT_ASTC_5x5_UNORM :: ECGPUFormat where "CGPU_FORMAT_ASTC_5x5_UNORM \<equiv> 174"
abbreviation (input) CGPU_FORMAT_ASTC_5x5_SRGB :: ECGPUFormat where "CGPU_FORMAT_ASTC_5x5_SRGB \<equiv> 175"
abbreviation (input) CGPU_FORMAT_ASTC_6x5_UNORM :: ECGPUFormat where "CGPU_FORMAT_ASTC_6x5_UNORM \<equiv> 176"
abbreviation (input) CGPU_FORMAT_ASTC_6x5_SRGB :: ECGPUFormat where "CGPU_FORMAT_ASTC_6x5_SRGB \<equiv> 177"
abbreviation (input) CGPU_FORMAT_ASTC_6x6_UNORM :: ECGPUFormat where "CGPU_FORMAT_ASTC_6x6_UNORM \<equiv> 178"
abbreviation (input) CGPU_FORMAT_ASTC_6x6_SRGB :: ECGPUFormat where "CGPU_FORMAT_ASTC_6x6_SRGB \<equiv> 179"
abbreviation (input) CGPU_FORMAT_ASTC_8x5_UNORM :: ECGPUFormat where "CGPU_FORMAT_ASTC_8x5_UNORM \<equiv> 180"
abbreviation (input) CGPU_FORMAT_ASTC_8x5_SRGB :: ECGPUFormat where "CGPU_FORMAT_ASTC_8x5_SRGB \<equiv> 181"
abbreviation (input) CGPU_FORMAT_ASTC_8x6_UNORM :: ECGPUFormat where "CGPU_FORMAT_ASTC_8x6_UNORM \<equiv> 182"
abbreviation (input) CGPU_FORMAT_ASTC_8x6_SRGB :: ECGPUFormat where "CGPU_FORMAT_ASTC_8x6_SRGB \<equiv> 183"
abbreviation (input) CGPU_FORMAT_ASTC_8x8_UNORM :: ECGPUFormat where "CGPU_FORMAT_ASTC_8x8_UNORM \<equiv> 184"
abbreviation (input) CGPU_FORMAT_ASTC_8x8_SRGB :: ECGPUFormat where "CGPU_FORMAT_ASTC_8x8_SRGB \<equiv> 185"
abbreviation (input) CGPU_FORMAT_ASTC_10x5_UNORM :: ECGPUFormat where "CGPU_FORMAT_ASTC_10x5_UNORM \<equiv> 186"
abbreviation (input) CGPU_FORMAT_ASTC_10x5_SRGB :: ECGPUFormat where "CGPU_FORMAT_ASTC_10x5_SRGB \<equiv> 187"
abbreviation (input) CGPU_FORMAT_ASTC_10x6_UNORM :: ECGPUFormat where "CGPU_FORMAT_ASTC_10x6_UNORM \<equiv> 188"
abbreviation (input) CGPU_FORMAT_ASTC_10x6_SRGB :: ECGPUFormat where "CGPU_FORMAT_ASTC_10x6_SRGB \<equiv> 189"
abbreviation (input) CGPU_FORMAT_ASTC_10x8_UNORM :: ECGPUFormat where "CGPU_FORMAT_ASTC_10x8_UNORM \<equiv> 190"
abbreviation (input) CGPU_FORMAT_ASTC_10x8_SRGB :: ECGPUFormat where "CGPU_FORMAT_ASTC_10x8_SRGB \<equiv> 191"
abbreviation (input) CGPU_FORMAT_ASTC_10x10_UNORM :: ECGPUFormat where "CGPU_FORMAT_ASTC_10x10_UNORM \<equiv> 192"
abbreviation (input) CGPU_FORMAT_ASTC_10x10_SRGB :: ECGPUFormat where "CGPU_FORMAT_ASTC_10x10_SRGB \<equiv> 193"
abbreviation (input) CGPU_FORMAT_ASTC_12x10_UNORM :: ECGPUFormat where "CGPU_FORMAT_ASTC_12x10_UNORM \<equiv> 194"
abbreviation (input) CGPU_FORMAT_ASTC_12x10_SRGB :: ECGPUFormat where "CGPU_FORMAT_ASTC_12x10_SRGB \<equiv> 195"
abbreviation (input) CGPU_FORMAT_ASTC_12x12_UNORM :: ECGPUFormat where "CGPU_FORMAT_ASTC_12x12_UNORM \<equiv> 196"
abbreviation (input) CGPU_FORMAT_ASTC_12x12_SRGB :: ECGPUFormat where "CGPU_FORMAT_ASTC_12x12_SRGB \<equiv> 197"
abbreviation (input) CGPU_FORMAT_CLUT_P4 :: ECGPUFormat where "CGPU_FORMAT_CLUT_P4 \<equiv> 198"
abbreviation (input) CGPU_FORMAT_CLUT_P4A4 :: ECGPUFormat where "CGPU_FORMAT_CLUT_P4A4 \<equiv> 199"
abbreviation (input) CGPU_FORMAT_CLUT_P8 :: ECGPUFormat where "CGPU_FORMAT_CLUT_P8 \<equiv> 200"
abbreviation (input) CGPU_FORMAT_CLUT_P8A8 :: ECGPUFormat where "CGPU_FORMAT_CLUT_P8A8 \<equiv> 201"
abbreviation (input) CGPU_FORMAT_R4G4B4A4_UNORM_PACK16 :: ECGPUFormat where "CGPU_FORMAT_R4G4B4A4_UNORM_PACK16 \<equiv> 202"
abbreviation (input) CGPU_FORMAT_B4G4R4A4_UNORM_PACK16 :: ECGPUFormat where "CGPU_FORMAT_B4G4R4A4_UNORM_PACK16 \<equiv> 203"
abbreviation (input) CGPU_FORMAT_R5G6B5_UNORM_PACK16 :: ECGPUFormat where "CGPU_FORMAT_R5G6B5_UNORM_PACK16 \<equiv> 204"
abbreviation (input) CGPU_FORMAT_B5G6R5_UNORM_PACK16 :: ECGPUFormat where "CGPU_FORMAT_B5G6R5_UNORM_PACK16 \<equiv> 205"
abbreviation (input) CGPU_FORMAT_R5G5B5A1_UNORM_PACK16 :: ECGPUFormat where "CGPU_FORMAT_R5G5B5A1_UNORM_PACK16 \<equiv> 206"
abbreviation (input) CGPU_FORMAT_B5G5R5A1_UNORM_PACK16 :: ECGPUFormat where "CGPU_FORMAT_B5G5R5A1_UNORM_PACK16 \<equiv> 207"
abbreviation (input) CGPU_FORMAT_A1R5G5B5_UNORM_PACK16 :: ECGPUFormat where "CGPU_FORMAT_A1R5G5B5_UNORM_PACK16 \<equiv> 208"
abbreviation (input) CGPU_FORMAT_G16B16G16R16_422_UNORM :: ECGPUFormat where "CGPU_FORMAT_G16B16G16R16_422_UNORM \<equiv> 209"
abbreviation (input) CGPU_FORMAT_B16G16R16G16_422_UNORM :: ECGPUFormat where "CGPU_FORMAT_B16G16R16G16_422_UNORM \<equiv> 210"
abbreviation (input) CGPU_FORMAT_R12X4G12X4B12X4A12X4_UNORM_4PACK16 :: ECGPUFormat where "CGPU_FORMAT_R12X4G12X4B12X4A12X4_UNORM_4PACK16 \<equiv> 211"
abbreviation (input) CGPU_FORMAT_G12X4B12X4G12X4R12X4_422_UNORM_4PACK16 :: ECGPUFormat where "CGPU_FORMAT_G12X4B12X4G12X4R12X4_422_UNORM_4PACK16 \<equiv> 212"
abbreviation (input) CGPU_FORMAT_B12X4G12X4R12X4G12X4_422_UNORM_4PACK16 :: ECGPUFormat where "CGPU_FORMAT_B12X4G12X4R12X4G12X4_422_UNORM_4PACK16 \<equiv> 213"
abbreviation (input) CGPU_FORMAT_R10X6G10X6B10X6A10X6_UNORM_4PACK16 :: ECGPUFormat where "CGPU_FORMAT_R10X6G10X6B10X6A10X6_UNORM_4PACK16 \<equiv> 214"
abbreviation (input) CGPU_FORMAT_G10X6B10X6G10X6R10X6_422_UNORM_4PACK16 :: ECGPUFormat where "CGPU_FORMAT_G10X6B10X6G10X6R10X6_422_UNORM_4PACK16 \<equiv> 215"
abbreviation (input) CGPU_FORMAT_B10X6G10X6R10X6G10X6_422_UNORM_4PACK16 :: ECGPUFormat where "CGPU_FORMAT_B10X6G10X6R10X6G10X6_422_UNORM_4PACK16 \<equiv> 216"
abbreviation (input) CGPU_FORMAT_G8B8G8R8_422_UNORM :: ECGPUFormat where "CGPU_FORMAT_G8B8G8R8_422_UNORM \<equiv> 217"
abbreviation (input) CGPU_FORMAT_B8G8R8G8_422_UNORM :: ECGPUFormat where "CGPU_FORMAT_B8G8R8G8_422_UNORM \<equiv> 218"
abbreviation (input) CGPU_FORMAT_G8_B8_R8_3PLANE_420_UNORM :: ECGPUFormat where "CGPU_FORMAT_G8_B8_R8_3PLANE_420_UNORM \<equiv> 219"
abbreviation (input) CGPU_FORMAT_G8_B8R8_2PLANE_420_UNORM :: ECGPUFormat where "CGPU_FORMAT_G8_B8R8_2PLANE_420_UNORM \<equiv> 220"
abbreviation (input) CGPU_FORMAT_G8_B8_R8_3PLANE_422_UNORM :: ECGPUFormat where "CGPU_FORMAT_G8_B8_R8_3PLANE_422_UNORM \<equiv> 221"
abbreviation (input) CGPU_FORMAT_G8_B8R8_2PLANE_422_UNORM :: ECGPUFormat where "CGPU_FORMAT_G8_B8R8_2PLANE_422_UNORM \<equiv> 222"
abbreviation (input) CGPU_FORMAT_G8_B8_R8_3PLANE_444_UNORM :: ECGPUFormat where "CGPU_FORMAT_G8_B8_R8_3PLANE_444_UNORM \<equiv> 223"
abbreviation (input) CGPU_FORMAT_G10X6_B10X6_R10X6_3PLANE_420_UNORM_3PACK16 :: ECGPUFormat where "CGPU_FORMAT_G10X6_B10X6_R10X6_3PLANE_420_UNORM_3PACK16 \<equiv> 224"
abbreviation (input) CGPU_FORMAT_G10X6_B10X6_R10X6_3PLANE_422_UNORM_3PACK16 :: ECGPUFormat where "CGPU_FORMAT_G10X6_B10X6_R10X6_3PLANE_422_UNORM_3PACK16 \<equiv> 225"
abbreviation (input) CGPU_FORMAT_G10X6_B10X6_R10X6_3PLANE_444_UNORM_3PACK16 :: ECGPUFormat where "CGPU_FORMAT_G10X6_B10X6_R10X6_3PLANE_444_UNORM_3PACK16 \<equiv> 226"
abbreviation (input) CGPU_FORMAT_G10X6_B10X6R10X6_2PLANE_420_UNORM_3PACK16 :: ECGPUFormat where "CGPU_FORMAT_G10X6_B10X6R10X6_2PLANE_420_UNORM_3PACK16 \<equiv> 227"
abbreviation (input) CGPU_FORMAT_G10X6_B10X6R10X6_2PLANE_422_UNORM_3PACK16 :: ECGPUFormat where "CGPU_FORMAT_G10X6_B10X6R10X6_2PLANE_422_UNORM_3PACK16 \<equiv> 228"
abbreviation (input) CGPU_FORMAT_G12X4_B12X4_R12X4_3PLANE_420_UNORM_3PACK16 :: ECGPUFormat where "CGPU_FORMAT_G12X4_B12X4_R12X4_3PLANE_420_UNORM_3PACK16 \<equiv> 229"
abbreviation (input) CGPU_FORMAT_G12X4_B12X4_R12X4_3PLANE_422_UNORM_3PACK16 :: ECGPUFormat where "CGPU_FORMAT_G12X4_B12X4_R12X4_3PLANE_422_UNORM_3PACK16 \<equiv> 230"
abbreviation (input) CGPU_FORMAT_G12X4_B12X4_R12X4_3PLANE_444_UNORM_3PACK16 :: ECGPUFormat where "CGPU_FORMAT_G12X4_B12X4_R12X4_3PLANE_444_UNORM_3PACK16 \<equiv> 231"
abbreviation (input) CGPU_FORMAT_G12X4_B12X4R12X4_2PLANE_420_UNORM_3PACK16 :: ECGPUFormat where "CGPU_FORMAT_G12X4_B12X4R12X4_2PLANE_420_UNORM_3PACK16 \<equiv> 232"
abbreviation (input) CGPU_FORMAT_G12X4_B12X4R12X4_2PLANE_422_UNORM_3PACK16 :: ECGPUFormat where "CGPU_FORMAT_G12X4_B12X4R12X4_2PLANE_422_UNORM_3PACK16 \<equiv> 233"
abbreviation (input) CGPU_FORMAT_G16_B16_R16_3PLANE_420_UNORM :: ECGPUFormat where "CGPU_FORMAT_G16_B16_R16_3PLANE_420_UNORM \<equiv> 234"
abbreviation (input) CGPU_FORMAT_G16_B16_R16_3PLANE_422_UNORM :: ECGPUFormat where "CGPU_FORMAT_G16_B16_R16_3PLANE_422_UNORM \<equiv> 235"
abbreviation (input) CGPU_FORMAT_G16_B16_R16_3PLANE_444_UNORM :: ECGPUFormat where "CGPU_FORMAT_G16_B16_R16_3PLANE_444_UNORM \<equiv> 236"
abbreviation (input) CGPU_FORMAT_G16_B16R16_2PLANE_420_UNORM :: ECGPUFormat where "CGPU_FORMAT_G16_B16R16_2PLANE_420_UNORM \<equiv> 237"
abbreviation (input) CGPU_FORMAT_G16_B16R16_2PLANE_422_UNORM :: ECGPUFormat where "CGPU_FORMAT_G16_B16R16_2PLANE_422_UNORM \<equiv> 238"

abbreviation (input) CGPU_FORMAT_COUNT :: ECGPUFormat where "CGPU_FORMAT_COUNT \<equiv> CGPU_FORMAT_G16_B16R16_2PLANE_422_UNORM + 1"

text \<open>The enumerators of \<open>ECGPUFormat\<close> in the order of the header.\<close>

definition ECGPUFormat_enumerators_lo :: "ECGPUFormat list" where
  "ECGPUFormat_enumerators_lo =
     [CGPU_FORMAT_UNDEFINED,
      CGPU_FORMAT_R1_UNORM,
      CGPU_FORMAT_R2_UNORM,
      CGPU_FORMAT_R4_UNORM,
      CGPU_FORMAT_R4G4_UNORM,
      CGPU_FORMAT_G4R4_UNORM,
      CGPU_FORMAT_A8_UNORM,
      CGPU_FORMAT_R8_UNORM,
      CGPU_FORMAT_R8_SNORM,
      CGPU_FORMAT_R8_UINT,
      CGPU_FORMAT_R8_SINT,
      CGPU_FORMAT_R8_SRGB,
      CGPU_FORMAT_B2G3R3_UNORM,
      CGPU_FORMAT_R4G4B4A4_UNORM,
      CGPU_FORMAT_R4G4B4X4_UNORM,
      CGPU_FORMAT_B4G4R4A4_UNORM,
      CGPU_FORMAT_B4G4R4X4_UNORM,
      CGPU_FORMAT_A4R4G4B4_UNORM,
      CGPU_FORMAT_X4R4G4B4_UNORM,
      CGPU_FORMAT_A4B4G4R4_UNORM,
      CGPU_FORMAT_X4B4G4R4_UNORM,
      CGPU_FORMAT_R5G6B5_UNORM,
      CGPU_FORMAT_B5G6R5_UNORM,
      CGPU_FORMAT_R5G5B5A1_UNORM,
      CGPU_FORMAT_B5G5R5A1_UNORM,
      CGPU_FORMAT_A1B5G5R5_UNORM,
      CGPU_FORMAT_A1R5G5B5_UNORM,
      CGPU_FORMAT_R5G5B5X1_UNORM,
      CGPU_FORMAT_B5G5R5X1_UNORM,
      CGPU_FORMAT_X1R5G5B5_UNORM,
      CGPU_FORMAT_X1B5G5R5_UNORM,
      CGPU_FORMAT_B2G3R3A8_UNORM,
      CGPU_FORMAT_R8G8_UNORM,
      CGPU_FORMAT_R8G8_SNORM,
      CGPU_FORMAT_G8R8_UNORM,
      CGPU_FORMAT_G8R8_SNORM,
      CGPU_FORMAT_R8G8_UINT,
      CGPU_FORMAT_R8G8_SINT,
      CGPU_FORMAT_R8G8_SRGB,
      CGPU_FORMAT_R16_UNORM,
      CGPU_FORMAT_R16_SNORM,
      CGPU_FORMAT_R16_UINT,
      CGPU_FORMAT_R16_SINT,
      CGPU_FORMAT_R16_SFLOAT,
      CGPU_FORMAT_R16_SBFLOAT,
      CGPU_FORMAT_R8G8B8_UNORM,
      CGPU_FORMAT_R8G8B8_SNORM,
      CGPU_FORMAT_R8G8B8_UINT,
      CGPU_FORMAT_R8G8B8_SINT,
      CGPU_FORMAT_R8G8B8_SRGB,
      CGPU_FORMAT_B8G8R8_UNORM,
      CGPU_FORMAT_B8G8R8_SNORM,
      CGPU_FORMAT_B8G8R8_UINT,
      CGPU_FORMAT_B8G8R8_SINT,
      CGPU_FORMAT_B8G8R8_SRGB,
      CGPU_FORMAT_R8G8B8A8_UNORM,
      CGPU_FORMAT_R8G8B8A8_SNORM,
      CGPU_FORMAT_R8G8B8A8_UINT,
      CGPU_FORMAT_R8G8B8A8_SINT,
      CGPU_FORMAT_R8G8B8A8_SRGB,
      CGPU_FORMAT_B8G8R8A8_UNORM,
      CGPU_FORMAT_B8G8R8A8_SNORM,
      CGPU_FORMAT_B8G8R8A8_UINT,
      CGPU_FORMAT_B8G8R8A8_SINT,
      CGPU_FORMAT_B8G8R8A8_SRGB,
      CGPU_FORMAT_R8G8B8X8_UNORM,
      CGPU_FORMAT_B8G8R8X8_UNORM,
      CGPU_FORMAT_R16G16_UNORM,
      CGPU_FORMAT_G16R16_UNORM,
      CGPU_FORMAT_R16G16_SNORM,
      CGPU_FORMAT_G16R16_SNORM,
      CGPU_FORMAT_R16G16_UINT,
      CGPU_FORMAT_R16G16_SINT,
      CGPU_FORMAT_R16G16_SFLOAT,
      CGPU_FORMAT_R16G16_SBFLOAT,
      CGPU_FORMAT_R32_UINT,
      CGPU_FORMAT_R32_SINT,
      CGPU_FORMAT_R32_SFLOAT,
      CGPU_FORMAT_A2R10G10B10_UNORM,
      CGPU_FORMAT_A2R10G10B10_UINT,
      CGPU_FORMAT_A2R10G10B10_SNORM,
      CGPU_FORMAT_A2R10G10B10_SINT,
      CGPU_FORMAT_A2B10G10R10_UNORM,
      CGPU_FORMAT_A2B10G10R10_UINT,
      CGPU_FORMAT_A2B10G10R10_SNORM,
      CGPU_FORMAT_A2B10G10R10_SINT,
      CGPU_FORMAT_R10G10B10A2_UNORM,
      CGPU_FORMAT_R10G10B10A2_UINT,
      CGPU_FORMAT_R10G10B10A2_SNORM,
      CGPU_FORMAT_R10G10B10A2_SINT,
      CGPU_FORMAT_B10G10R10A2_UNORM,
      CGPU_FORMAT_B10G10R10A2_UINT,
      CGPU_FORMAT_B10G10R10A2_SNORM,
      CGPU_FORMAT_B10G10R10A2_SINT,
      CGPU_FORMAT_B10G11R11_UFLOAT,
      CGPU_FORMAT_E5B9G9R9_UFLOAT,
      CGPU_FORMAT_R16G16B16_UNORM,
      CGPU_FORMAT_R16G16B16_SNORM,
      CGPU_FORMAT_R16G16B16_UINT,
      CGPU_FORMAT_R16G16B16_SINT,
      CGPU_FORMAT_R16G16B16_SFLOAT,
      CGPU_FORMAT_R16G16B16_SBFLOAT,
      CGPU_FORMAT_R16G16B16A16_UNORM,
      CGPU_FORMAT_R16G16B16A16_SNORM,
      CGPU_FORMAT_R16G16B16A16_UINT,
      CGPU_FORMAT_R16G16B16A16_SINT,
      CGPU_FORMAT_R16G16B16A16_SFLOAT,
      CGPU_FORMAT_R16G16B16A16_SBFLOAT,
      CGPU_FORMAT_R32G32_UINT,
      CGPU_FORMAT_R32G32_SINT,
      CGPU_FORMAT_R32G32_SFLOAT,
      CGPU_FORMAT_R32G32B32_UINT,
      CGPU_FORMAT_R32G32B32_SINT,
      CGPU_FORMAT_R32G32B32_SFLOAT,
      CGPU_FORMAT_R32G32B32A32_UINT,
      CGPU_FORMAT_R32G32B32A32_SINT,
      CGPU_FORMAT_R32G32B32A32_SFLOAT,
      CGPU_FORMAT_R64_UINT]"

definition ECGPUFormat_enumerators_hi :: "ECGPUFormat list" where
  "ECGPUFormat_enumerators_hi =
     [CGPU_FORMAT_R64_SINT,
      CGPU_FORMAT_R64_SFLOAT,
      CGPU_FORMAT_R64G64_UINT,
      CGPU_FORMAT_R64G64_SINT,
      CGPU_FORMAT_R64G64_SFLOAT,
      CGPU_FORMAT_R64G64B64_UINT,
      CGPU_FORMAT_R64G64B64_SINT,
      CGPU_FORMAT_R64G64B64_SFLOAT,
      CGPU_FORMAT_R64G64B64A64_UINT,
      CGPU_FORMAT_R64G64B64A64_SINT,
      CGPU_FORMAT_R64G64B64A64_SFLOAT,
      CGPU_FORMAT_D16_UNORM,
      CGPU_FORMAT_X8_D24_UNORM,
      CGPU_FORMAT_D32_SFLOAT,
      CGPU_FORMAT_S8_UINT,
      CGPU_FORMAT_D16_UNORM_S8_UINT,
      CGPU_FORMAT_D24_UNORM_S8_UINT,
      CGPU_FORMAT_D32_SFLOAT_S8_UINT,
      CGPU_FORMAT_DXBC1_RGB_UNORM,
      CGPU_FORMAT_DXBC1_RGB_SRGB,
      CGPU_FORMAT_DXBC1_RGBA_UNORM,
      CGPU_FORMAT_DXBC1_RGBA_SRGB,
      CGPU_FORMAT_DXBC2_UNORM,
      CGPU_FORMAT_DXBC2_SRGB,
      CGPU_FORMAT_DXBC3_UNORM,
      CGPU_FORMAT_DXBC3_SRGB,
      CGPU_FORMAT_DXBC4_UNORM,
      CGPU_FORMAT_DXBC4_SNORM,
      CGPU_FORMAT_DXBC5_UNORM,
      CGPU_FORMAT_DXBC5_SNORM,
      CGPU_FORMAT_DXBC6H_UFLOAT,
      CGPU_FORMAT_DXBC6H_SFLOAT,
      CGPU_FORMAT_DXBC7_UNORM,
      CGPU_FORMAT_DXBC7_SRGB,
      CGPU_FORMAT_PVRTC1_2BPP_UNORM,
      CGPU_FORMAT_PVRTC1_4BPP_UNORM,
      CGPU_FORMAT_PVRTC2_2BPP_UNORM,
      CGPU_FORMAT_PVRTC2_4BPP_UNORM,
      CGPU_FORMAT_PVRTC1_2BPP_SRGB,
      CGPU_FORMAT_PVRTC1_4BPP_SRGB,
      CGPU_FORMAT_PVRTC2_2BPP_SRGB,
      CGPU_FORMAT_PVRTC2_4BPP_SRGB,
      CGPU_FORMAT_ETC2_R8G8B8_UNORM,
      CGPU_FORMAT_ETC2_R8G8B8_SRGB,
      CGPU_FORMAT_ETC2_R8G8B8A1_UNORM,
      CGPU_FORMAT_ETC2_R8G8B8A1_SRGB,
      CGPU_FORMAT_ETC2_R8G8B8A8_UNORM,
      CGPU_FORMAT_ETC2_R8G8B8A8_SRGB,
      CGPU_FORMAT_ETC2_EAC_R11_UNORM,
      CGPU_FORMAT_ETC2_EAC_R11_SNORM,
      CGPU_FORMAT_ETC2_EAC_R11G11_UNORM,
      CGPU_FORMAT_ETC2_EAC_R11G11_SNORM,
      CGPU_FORMAT_ASTC_4x4_UNORM,
      CGPU_FORMAT_ASTC_4x4_SRGB,
      CGPU_FORMAT_ASTC_5x4_UNORM,
      CGPU_FORMAT_ASTC_5x4_SRGB,
      CGPU_FORMAT_ASTC_5x5_UNORM,
      CGPU_FORMAT_ASTC_5x5_SRGB,
      CGPU_FORMAT_ASTC_6x5_UNORM,
      CGPU_FORMAT_ASTC_6x5_SRGB,
      CGPU_FORMAT_ASTC_6x6_UNORM,
      CGPU_FORMAT_ASTC_6x6_SRGB,
      CGPU_FORMAT_ASTC_8x5_UNORM,
      CGPU_FORMAT_ASTC_8x5_SRGB,
      CGPU_FORMAT_ASTC_8x6_UNORM,
      CGPU_FORMAT_ASTC_8x6_SRGB,
      CGPU_FORMAT_ASTC_8x8_UNORM,
      CGPU_FORMAT_ASTC_8x8_SRGB,
      CGPU_FORMAT_ASTC_10x5_UNORM,
      CGPU_FORMAT_ASTC_10x5_SRGB,
      CGPU_FORMAT_ASTC_10x6_UNORM,
      CGPU_FORMAT_ASTC_10x6_SRGB,
      CGPU_FORMAT_ASTC_10x8_UNORM,
      CGPU_FORMAT_ASTC_10x8_SRGB,
      CGPU_FORMAT_ASTC_10x10_UNORM,
      CGPU_FORMAT_ASTC_10x10_SRGB,
      CGPU_FORMAT_ASTC_12x10_UNORM,
      CGPU_FORMAT_ASTC_12x10_SRGB,
      CGPU_FORMAT_ASTC_12x12_UNORM,
      CGPU_FORMAT_ASTC_12x12_SRGB,
      CGPU_FORMAT_CLUT_P4,
      CGPU_FORMAT_CLUT_P4A4,
      CGPU_FORMAT_CLUT_P8,
      CGPU_FORMAT_CLUT_P8A8,
      CGPU_FORMAT_R4G4B4A4_UNORM_PACK16,
      CGPU_FORMAT_B4G4R4A4_UNORM_PACK16,
      CGPU_FORMAT_R5G6B5_UNORM_PACK16,
      CGPU_FORMAT_B5G6R5_UNORM_PACK16,
      CGPU_FORMAT_R5G5B5A1_UNORM_PACK16,
      CGPU_FORMAT_B5G5R5A1_UNORM_PACK16,
      CGPU_FORMAT_A1R5G5B5_UNORM_PACK16,
      CGPU_FORMAT_G16B16G16R16_422_UNORM,
      CGPU_FORMAT_B16G16R16G16_422_UNORM,
      CGPU_FORMAT_R12X4G12X4B12X4A12X4_UNORM_4PACK16,
      CGPU_FORMAT_G12X4B12X4G12X4R12X4_422_UNORM_4PACK16,
      CGPU_FORMAT_B12X4G12X4R12X4G12X4_422_UNORM_4PACK16,
      CGPU_FORMAT_R10X6G10X6B10X6A10X6_UNORM_4PACK16,
      CGPU_FORMAT_G10X6B10X6G10X6R10X6_422_UNORM_4PACK16,
      CGPU_FORMAT_B10X6G10X6R10X6G10X6_422_UNORM_4PACK16,
      CGPU_FORMAT_G8B8G8R8_422_UNORM,
      CGPU_FORMAT_B8G8R8G8_422_UNORM,
      CGPU_FORMAT_G8_B8_R8_3PLANE_420_UNORM,
      CGPU_FORMAT_G8_B8R8_2PLANE_420_UNORM,
      CGPU_FORMAT_G8_B8_R8_3PLANE_422_UNORM,
      CGPU_FORMAT_G8_B8R8_2PLANE_422_UNORM,
      CGPU_FORMAT_G8_B8_R8_3PLANE_444_UNORM,
      CGPU_FORMAT_G10X6_B10X6_R10X6_3PLANE_420_UNORM_3PACK16,
      CGPU_FORMAT_G10X6_B10X6_R10X6_3PLANE_422_UNORM_3PACK16,
      CGPU_FORMAT_G10X6_B10X6_R10X6_3PLANE_444_UNORM_3PACK16,
      CGPU_FORMAT_G10X6_B10X6R10X6_2PLANE_420_UNORM_3PACK16,
      CGPU_FORMAT_G10X6_B10X6R10X6_2PLANE_422_UNORM_3PACK16,
      CGPU_FORMAT_G12X4_B12X4_R12X4_3PLANE_420_UNORM_3PACK16,
      CGPU_FORMAT_G12X4_B12X4_R12X4_3PLANE_422_UNORM_3PACK16,
      CGPU_FORMAT_G12X4_B12X4_R12X4_3PLANE_444_UNORM_3PACK16,
      CGPU_FORMAT_G12X4_B12X4R12X4_2PLANE_420_UNORM_3PACK16,
      CGPU_FORMAT_G12X4_B12X4R12X4_2PLANE_422_UNORM_3PACK16,
      CGPU_FORMAT_G16_B16_R16_3PLANE_420_UNORM,
      CGPU_FORMAT_G16_B16_R16_3PLANE_422_UNORM,
      CGPU_FORMAT_G16_B16_R16_3PLANE_444_UNORM,
      CGPU_FORMAT_G16_B16R16_2PLANE_420_UNORM,
      CGPU_FORMAT_G16_B16R16_2PLANE_422_UNORM]"

definition ECGPUFormat_enumerators :: "ECGPUFormat list" where
  "ECGPUFormat_enumerators = ECGPUFormat_enumerators_lo @ ECGPUFormat_enumerators_hi"

section \<open>Enumerations\<close>

datatype (plugins only: code) ECGPUFilterType =
    CGPU_FILTER_TYPE_NEAREST
  | CGPU_FILTER_TYPE_LINEAR
  | CGPU_FILTER_TYPE_MAX_ENUM_BIT

datatype (plugins only: code) ECGPUAddressMode =
    CGPU_ADDRESS_MODE_MIRROR
  | CGPU_ADDRESS_MODE_REPEAT
  | CGPU_ADDRESS_MODE_CLAMP_TO_EDGE
  | CGPU_ADDRESS_MODE_CLAMP_TO_BORDER
  | CGPU_ADDRESS_MODE_MAX_ENUM_BIT

datatype (plugins only: code) ECGPUMipMapMode =
    CGPU_MIPMAP_MODE_NEAREST
  | CGPU_MIPMAP_MODE_LINEAR
  | CGPU_MIPMAP_MODE_MAX_ENUM_BIT

datatype (plugins only: code) ECGPULoadAction =
    CGPU_LOAD_ACTION_DONTCARE
  | CGPU_LOAD_ACTION_LOAD
  | CGPU_LOAD_ACTION_CLEAR
  | CGPU_LOAD_ACTION_COUNT
  | CGPU_LOAD_ACTION_MAX_ENUM_BIT

datatype (plugins only: code) ECGPUStoreAction =
    CGPU_STORE_ACTION_STORE
  | CGPU_STORE_ACTION_DISCARD
  | CGPU_STORE_ACTION_COUNT
  | CGPU_STORE_ACTION_MAX_ENUM_BIT

datatype (plugins only: code) ECGPUPrimitiveTopology =
    CGPU_PRIM_TOPO_POINT_LIST
  | CGPU_PRIM_TOPO_LINE_LIST
  | CGPU_PRIM_TOPO_LINE_STRIP
  | CGPU_PRIM_TOPO_TRI_LIST
  | CGPU_PRIM_TOPO_TRI_STRIP
  | CGPU_PRIM_TOPO_PATCH_LIST
  | CGPU_PRIM_TOPO_COUNT
  | CGPU_PRIM_TOPO_MAX_ENUM_BIT

datatype (plugins only: code) ECGPUBlendConstant =
    CGPU_BLEND_CONST_ZERO
  | CGPU_BLEND_CONST_ONE
  | CGPU_BLEND_CONST_SRC_COLOR
  | CGPU_BLEND_CONST_ONE_MINUS_SRC_COLOR
  | CGPU_BLEND_CONST_DST_COLOR
  | CGPU_BLEND_CONST_ONE_MINUS_DST_COLOR
  | CGPU_BLEND_CONST_SRC_ALPHA
  | CGPU_BLEND_CONST_ONE_MINUS_SRC_ALPHA
  | CGPU_BLEND_CONST_DST_ALPHA
  | CGPU_BLEND_CONST_ONE_MINUS_DST_ALPHA
  | CGPU_BLEND_CONST_SRC_ALPHA_SATURATE
  | CGPU_BLEND_CONST_BLEND_FACTOR
  | CGPU_BLEND_CONST_ONE_MINUS_BLEND_FACTOR
  | CGPU_BLEND_CONST_COUNT
  | CGPU_BLEND_CONST_MAX_ENUM_BIT

datatype (plugins only: code) ECGPUCullMode =
    CGPU_CULL_MODE_NONE
  | CGPU_CULL_MODE_BACK
  | CGPU_CULL_MODE_FRONT
  | CGPU_CULL_MODE_BOTH
  | CGPU_CULL_MODE_COUNT
  | CGPU_CULL_MODE_MAX_ENUM_BIT

datatype (plugins only: code) ECGPUFrontFace =
    CGPU_FRONT_FACE_CCW
  | CGPU_FRONT_FACE_CW
  | CGPU_FRONT_FACE_MAX_ENUM_BIT

datatype (plugins only: code) ECGPUFillMode =
    CGPU_FILL_MODE_SOLID
  | CGPU_FILL_MODE_WIREFRAME
  | CGPU_FILL_MODE_COUNT
  | CGPU_FILL_MODE_MAX_ENUM_BIT

datatype (plugins only: code) ECGPUVertexInputRate =
    CGPU_INPUT_RATE_VERTEX
  | CGPU_INPUT_RATE_INSTANCE
  | CGPU_INPUT_RATE_COUNT
  | CGPU_INPUT_RATE_MAX_ENUM_BIT

datatype (plugins only: code) ECGPUCompareMode =
    CGPU_CMP_NEVER
  | CGPU_CMP_LESS
  | CGPU_CMP_EQUAL
  | CGPU_CMP_LEQUAL
  | CGPU_CMP_GREATER
  | CGPU_CMP_NOTEQUAL
  | CGPU_CMP_GEQUAL
  | CGPU_CMP_ALWAYS
  | CGPU_CMP_COUNT
  | CGPU_CMP_MAX_ENUM_BIT

datatype (plugins only: code) ECGPUStencilOp =
    CGPU_STENCIL_OP_KEEP
  | CGPU_STENCIL_OP_SET_ZERO
  | CGPU_STENCIL_OP_REPLACE
  | CGPU_STENCIL_OP_INVERT
  | CGPU_STENCIL_OP_INCR
  | CGPU_STENCIL_OP_DECR
  | CGPU_STENCIL_OP_INCR_SAT
  | CGPU_STENCIL_OP_DECR_SAT
  | CGPU_STENCIL_OP_COUNT
  | CGPU_STENCIL_OP_MAX_ENUM_BIT

datatype (plugins only: code) ECGPUBlendMode =
    CGPU_BLEND_MODE_ADD
  | CGPU_BLEND_MODE_SUBTRACT
  | CGPU_BLEND_MODE_REVERSE_SUBTRACT
  | CGPU_BLEND_MODE_MIN
  | CGPU_BLEND_MODE_MAX
  | CGPU_BLEND_MODE_COUNT
  | CGPU_BLEND_MODE_MAX_ENUM_BIT

datatype (plugins only: code) ECGPUTextureDimension =
    CGPU_TEX_DIMENSION_1D
  | CGPU_TEX_DIMENSION_2D
  | CGPU_TEX_DIMENSION_2DMS
  | CGPU_TEX_DIMENSION_3D
  | CGPU_TEX_DIMENSION_CUBE
  | CGPU_TEX_DIMENSION_1D_ARRAY
  | CGPU_TEX_DIMENSION_2D_ARRAY
  | CGPU_TEX_DIMENSION_2DMS_ARRAY
  | CGPU_TEX_DIMENSION_CUBE_ARRAY
  | CGPU_TEX_DIMENSION_COUNT
  | CGPU_TEX_DIMENSION_UNDEFINED
  | CGPU_TEX_DIMENSION_MAX_ENUM_BIT

type_synonym ECGPUShaderStage = u32
abbreviation (input) CGPU_SHADER_STAGE_NONE :: ECGPUShaderStage where "CGPU_SHADER_STAGE_NONE \<equiv> 0"
abbreviation (input) CGPU_SHADER_STAGE_VERT :: ECGPUShaderStage where "CGPU_SHADER_STAGE_VERT \<equiv> 0x00000001"
abbreviation (input) CGPU_SHADER_STAGE_TESC :: ECGPUShaderStage where "CGPU_SHADER_STAGE_TESC \<equiv> 0x00000002"
abbreviation (input) CGPU_SHADER_STAGE_TESE :: ECGPUShaderStage where "CGPU_SHADER_STAGE_TESE \<equiv> 0x00000004"
abbreviation (input) CGPU_SHADER_STAGE_GEOM :: ECGPUShaderStage where "CGPU_SHADER_STAGE_GEOM \<equiv> 0x00000008"
abbreviation (input) CGPU_SHADER_STAGE_FRAG :: ECGPUShaderStage where "CGPU_SHADER_STAGE_FRAG \<equiv> 0x00000010"
abbreviation (input) CGPU_SHADER_STAGE_COMPUTE :: ECGPUShaderStage where "CGPU_SHADER_STAGE_COMPUTE \<equiv> 0x00000020"
abbreviation (input) CGPU_SHADER_STAGE_RAYTRACING :: ECGPUShaderStage where "CGPU_SHADER_STAGE_RAYTRACING \<equiv> 0x00000040"
abbreviation (input) CGPU_SHADER_STAGE_ALL_GRAPHICS :: ECGPUShaderStage where "CGPU_SHADER_STAGE_ALL_GRAPHICS \<equiv> (CGPU_SHADER_STAGE_VERT OR CGPU_SHADER_STAGE_TESC OR CGPU_SHADER_STAGE_TESE OR CGPU_SHADER_STAGE_GEOM OR CGPU_SHADER_STAGE_FRAG)"
abbreviation (input) CGPU_SHADER_STAGE_HULL :: ECGPUShaderStage where "CGPU_SHADER_STAGE_HULL \<equiv> CGPU_SHADER_STAGE_TESC"
abbreviation (input) CGPU_SHADER_STAGE_DOMAIN :: ECGPUShaderStage where "CGPU_SHADER_STAGE_DOMAIN \<equiv> CGPU_SHADER_STAGE_TESE"
abbreviation (input) CGPU_SHADER_STAGE_COUNT :: ECGPUShaderStage where "CGPU_SHADER_STAGE_COUNT \<equiv> 6"
abbreviation (input) CGPU_SHADER_STAGE_MAX_ENUM_BIT :: ECGPUShaderStage where "CGPU_SHADER_STAGE_MAX_ENUM_BIT \<equiv> 0x7FFFFFFF"

datatype (plugins only: code) ECGPUFenceStatus =
    CGPU_FENCE_STATUS_COMPLETE
  | CGPU_FENCE_STATUS_INCOMPLETE
  | CGPU_FENCE_STATUS_NOTSUBMITTED
  | CGPU_FENCE_STATUS_MAX_ENUM_BIT

datatype (plugins only: code) ECGPUQueryType =
    CGPU_QUERY_TYPE_TIMESTAMP
  | CGPU_QUERY_TYPE_PIPELINE_STATISTICS
  | CGPU_QUERY_TYPE_OCCLUSION
  | CGPU_QUERY_TYPE_COUNT

type_synonym ECGPUResourceState = u32
abbreviation (input) CGPU_RESOURCE_STATE_UNDEFINED :: ECGPUResourceState where "CGPU_RESOURCE_STATE_UNDEFINED \<equiv> 0"
abbreviation (input) CGPU_RESOURCE_STATE_VERTEX_AND_CONSTANT_BUFFER :: ECGPUResourceState where "CGPU_RESOURCE_STATE_VERTEX_AND_CONSTANT_BUFFER \<equiv> 0x1"
abbreviation (input) CGPU_RESOURCE_STATE_INDEX_BUFFER :: ECGPUResourceState where "CGPU_RESOURCE_STATE_INDEX_BUFFER \<equiv> 0x2"
abbreviation (input) CGPU_RESOURCE_STATE_RENDER_TARGET :: ECGPUResourceState where "CGPU_RESOURCE_STATE_RENDER_TARGET \<equiv> 0x4"
abbreviation (input) CGPU_RESOURCE_STATE_UNORDERED_ACCESS :: ECGPUResourceState where "CGPU_RESOURCE_STATE_UNORDERED_ACCESS \<equiv> 0x8"
abbreviation (input) CGPU_RESOURCE_STATE_DEPTH_WRITE :: ECGPUResourceState where "CGPU_RESOURCE_STATE_DEPTH_WRITE \<equiv> 0x10"
abbreviation (input) CGPU_RESOURCE_STATE_DEPTH_READ :: ECGPUResourceState where "CGPU_RESOURCE_STATE_DEPTH_READ \<equiv> 0x20"
abbreviation (input) CGPU_RESOURCE_STATE_NON_PIXEL_SHADER_RESOURCE :: ECGPUResourceState where "CGPU_RESOURCE_STATE_NON_PIXEL_SHADER_RESOURCE \<equiv> 0x40"
abbreviation (input) CGPU_RESOURCE_STATE_PIXEL_SHADER_RESOURCE :: ECGPUResourceState where "CGPU_RESOURCE_STATE_PIXEL_SHADER_RESOURCE \<equiv> 0x80"
abbreviation (input) CGPU_RESOURCE_STATE_SHADER_RESOURCE :: ECGPUResourceState where "CGPU_RESOURCE_STATE_SHADER_RESOURCE \<equiv> (0x40 OR 0x80)"
abbreviation (input) CGPU_RESOURCE_STATE_STREAM_OUT :: ECGPUResourceState where "CGPU_RESOURCE_STATE_STREAM_OUT \<equiv> 0x100"
abbreviation (input) CGPU_RESOURCE_STATE_INDIRECT_ARGUMENT :: ECGPUResourceState where "CGPU_RESOURCE_STATE_INDIRECT_ARGUMENT \<equiv> 0x200"
abbreviation (input) CGPU_RESOURCE_STATE_COPY_DEST :: ECGPUResourceState where "CGPU_RESOURCE_STATE_COPY_DEST \<equiv> 0x400"
abbreviation (input) CGPU_RESOURCE_STATE_COPY_SOURCE :: ECGPUResourceState where "CGPU_RESOURCE_STATE_COPY_SOURCE \<equiv> 0x800"
abbreviation (input) CGPU_RESOURCE_STATE_GENERIC_READ :: ECGPUResourceState where "CGPU_RESOURCE_STATE_GENERIC_READ \<equiv> (((((0x1 OR 0x2) OR 0x40) OR 0x80) OR 0x200) OR 0x800)"
abbreviation (input) CGPU_RESOURCE_STATE_PRESENT :: ECGPUResourceState where "CGPU_RESOURCE_STATE_PRESENT \<equiv> 0x1000"
abbreviation (input) CGPU_RESOURCE_STATE_COMMON :: ECGPUResourceState where "CGPU_RESOURCE_STATE_COMMON \<equiv> 0x2000"
abbreviation (input) CGPU_RESOURCE_STATE_ACCELERATION_STRUCTURE :: ECGPUResourceState where "CGPU_RESOURCE_STATE_ACCELERATION_STRUCTURE \<equiv> 0x4000"
abbreviation (input) CGPU_RESOURCE_STATE_SHADING_RATE_SOURCE :: ECGPUResourceState where "CGPU_RESOURCE_STATE_SHADING_RATE_SOURCE \<equiv> 0x8000"
abbreviation (input) CGPU_RESOURCE_STATE_RESOLVE_DEST :: ECGPUResourceState where "CGPU_RESOURCE_STATE_RESOLVE_DEST \<equiv> 0x10000"
abbreviation (input) CGPU_RESOURCE_STATE_MAX_ENUM_BIT :: ECGPUResourceState where "CGPU_RESOURCE_STATE_MAX_ENUM_BIT \<equiv> 0x7FFFFFFF"

datatype (plugins only: code) ECGPUMemoryUsage =
    CGPU_MEM_USAGE_UNKNOWN
  | CGPU_MEM_USAGE_GPU_ONLY
  | CGPU_MEM_USAGE_CPU_ONLY
  | CGPU_MEM_USAGE_CPU_TO_GPU
  | CGPU_MEM_USAGE_GPU_TO_CPU
  | CGPU_MEM_USAGE_COUNT
  | CGPU_MEM_USAGE_MAX_ENUM

type_synonym ECGPUBufferCreationFlag = u32
abbreviation (input) CGPU_BCF_NONE :: ECGPUBufferCreationFlag where "CGPU_BCF_NONE \<equiv> 0"
abbreviation (input) CGPU_BCF_OWN_MEMORY_BIT :: ECGPUBufferCreationFlag where "CGPU_BCF_OWN_MEMORY_BIT \<equiv> 0x02"
abbreviation (input) CGPU_BCF_PERSISTENT_MAP_BIT :: ECGPUBufferCreationFlag where "CGPU_BCF_PERSISTENT_MAP_BIT \<equiv> 0x04"
abbreviation (input) CGPU_BCF_ESRAM :: ECGPUBufferCreationFlag where "CGPU_BCF_ESRAM \<equiv> 0x08"
abbreviation (input) CGPU_BCF_NO_DESCRIPTOR_VIEW_CREATION :: ECGPUBufferCreationFlag where "CGPU_BCF_NO_DESCRIPTOR_VIEW_CREATION \<equiv> 0x10"
abbreviation (input) CGPU_BCF_HOST_VISIBLE :: ECGPUBufferCreationFlag where "CGPU_BCF_HOST_VISIBLE \<equiv> 0x20"
abbreviation (input) CGPU_BCF_MAX_ENUM_BIT :: ECGPUBufferCreationFlag where "CGPU_BCF_MAX_ENUM_BIT \<equiv> 0x7FFFFFFF"

type_synonym ECGPUTextureCreationFlag = u32
abbreviation (input) CGPU_TCF_NONE :: ECGPUTextureCreationFlag where "CGPU_TCF_NONE \<equiv> 0"
abbreviation (input) CGPU_TCF_OWN_MEMORY_BIT :: ECGPUTextureCreationFlag where "CGPU_TCF_OWN_MEMORY_BIT \<equiv> 0x01"
abbreviation (input) CGPU_TCF_EXPORT_BIT :: ECGPUTextureCreationFlag where "CGPU_TCF_EXPORT_BIT \<equiv> 0x02"
abbreviation (input) CGPU_TCF_EXPORT_ADAPTER_BIT :: ECGPUTextureCreationFlag where "CGPU_TCF_EXPORT_ADAPTER_BIT \<equiv> 0x04"
abbreviation (input) CGPU_TCF_IMPORT_BIT :: ECGPUTextureCreationFlag where "CGPU_TCF_IMPORT_BIT \<equiv> 0x08"
abbreviation (input) CGPU_TCF_ESRAM :: ECGPUTextureCreationFlag where "CGPU_TCF_ESRAM \<equiv> 0x10"
abbreviation (input) CGPU_TCF_ON_TILE :: ECGPUTextureCreationFlag where "CGPU_TCF_ON_TILE \<equiv> 0x20"
abbreviation (input) CGPU_TCF_NO_COMPRESSION :: ECGPUTextureCreationFlag where "CGPU_TCF_NO_COMPRESSION \<equiv> 0x40"
abbreviation (input) CGPU_TCF_FORCE_2D :: ECGPUTextureCreationFlag where "CGPU_TCF_FORCE_2D \<equiv> 0x80"
abbreviation (input) CGPU_TCF_FORCE_3D :: ECGPUTextureCreationFlag where "CGPU_TCF_FORCE_3D \<equiv> 0x100"
abbreviation (input) CGPU_TCF_ALLOW_DISPLAY_TARGET :: ECGPUTextureCreationFlag where "CGPU_TCF_ALLOW_DISPLAY_TARGET \<equiv> 0x200"
abbreviation (input) CGPU_TCF_NORMAL_MAP :: ECGPUTextureCreationFlag where "CGPU_TCF_NORMAL_MAP \<equiv> 0x800"
abbreviation (input) CGPU_TCF_FRAG_MASK :: ECGPUTextureCreationFlag where "CGPU_TCF_FRAG_MASK \<equiv> 0x2000"
abbreviation (input) CGPU_TCF_MAX_ENUM_BIT :: ECGPUTextureCreationFlag where "CGPU_TCF_MAX_ENUM_BIT \<equiv> 0x7FFFFFFF"

type_synonym ECGPUSampleCount = nat
abbreviation (input) CGPU_SAMPLE_COUNT_1 :: ECGPUSampleCount where "CGPU_SAMPLE_COUNT_1 \<equiv> 1"
abbreviation (input) CGPU_SAMPLE_COUNT_2 :: ECGPUSampleCount where "CGPU_SAMPLE_COUNT_2 \<equiv> 2"
abbreviation (input) CGPU_SAMPLE_COUNT_4 :: ECGPUSampleCount where "CGPU_SAMPLE_COUNT_4 \<equiv> 4"
abbreviation (input) CGPU_SAMPLE_COUNT_8 :: ECGPUSampleCount where "CGPU_SAMPLE_COUNT_8 \<equiv> 8"
abbreviation (input) CGPU_SAMPLE_COUNT_16 :: ECGPUSampleCount where "CGPU_SAMPLE_COUNT_16 \<equiv> 16"
abbreviation (input) CGPU_SAMPLE_COUNT_MAX_ENUM_BIT :: ECGPUSampleCount where "CGPU_SAMPLE_COUNT_MAX_ENUM_BIT \<equiv> 0x7FFFFFFF"

datatype (plugins only: code) ECGPUPipelineType =
    CGPU_PIPELINE_TYPE_NONE
  | CGPU_PIPELINE_TYPE_COMPUTE
  | CGPU_PIPELINE_TYPE_GRAPHICS
  | CGPU_PIPELINE_TYPE_RAYTRACING
  | CGPU_PIPELINE_TYPE_COUNT
  | CGPU_PIPELINE_TYPE_MAX_ENUM_BIT

type_synonym ECGPUResourceType = u32
abbreviation (input) CGPU_RESOURCE_TYPE_NONE :: ECGPUResourceType where "CGPU_RESOURCE_TYPE_NONE \<equiv> 0"
abbreviation (input) CGPU_RESOURCE_TYPE_SAMPLER :: ECGPUResourceType where "CGPU_RESOURCE_TYPE_SAMPLER \<equiv> 0x01"
abbreviation (input) CGPU_RESOURCE_TYPE_TEXTURE :: ECGPUResourceType where "CGPU_RESOURCE_TYPE_TEXTURE \<equiv> push_bit 1 CGPU_RESOURCE_TYPE_SAMPLER"
abbreviation (input) CGPU_RESOURCE_TYPE_RENDER_TARGET :: ECGPUResourceType where "CGPU_RESOURCE_TYPE_RENDER_TARGET \<equiv> push_bit 1 CGPU_RESOURCE_TYPE_TEXTURE"
abbreviation (input) CGPU_RESOURCE_TYPE_DEPTH_STENCIL :: ECGPUResourceType where "CGPU_RESOURCE_TYPE_DEPTH_STENCIL \<equiv> push_bit 1 CGPU_RESOURCE_TYPE_RENDER_TARGET"
abbreviation (input) CGPU_RESOURCE_TYPE_RW_TEXTURE :: ECGPUResourceType where "CGPU_RESOURCE_TYPE_RW_TEXTURE \<equiv> push_bit 1 CGPU_RESOURCE_TYPE_DEPTH_STENCIL"
abbreviation (input) CGPU_RESOURCE_TYPE_BUFFER :: ECGPUResourceType where "CGPU_RESOURCE_TYPE_BUFFER \<equiv> push_bit 1 CGPU_RESOURCE_TYPE_RW_TEXTURE"
abbreviation (input) CGPU_RESOURCE_TYPE_BUFFER_RAW :: ECGPUResourceType where "CGPU_RESOURCE_TYPE_BUFFER_RAW \<equiv> (CGPU_RESOURCE_TYPE_BUFFER OR push_bit 1 CGPU_RESOURCE_TYPE_BUFFER)"
abbreviation (input) CGPU_RESOURCE_TYPE_RW_BUFFER :: ECGPUResourceType where "CGPU_RESOURCE_TYPE_RW_BUFFER \<equiv> push_bit 2 CGPU_RESOURCE_TYPE_BUFFER"
abbreviation (input) CGPU_RESOURCE_TYPE_RW_BUFFER_RAW :: ECGPUResourceType where "CGPU_RESOURCE_TYPE_RW_BUFFER_RAW \<equiv> (CGPU_RESOURCE_TYPE_RW_BUFFER OR push_bit 1 CGPU_RESOURCE_TYPE_RW_BUFFER)"
abbreviation (input) CGPU_RESOURCE_TYPE_UNIFORM_BUFFER :: ECGPUResourceType where "CGPU_RESOURCE_TYPE_UNIFORM_BUFFER \<equiv> push_bit 2 CGPU_RESOURCE_TYPE_RW_BUFFER"
abbreviation (input) CGPU_RESOURCE_TYPE_PUSH_CONSTANT :: ECGPUResourceType where "CGPU_RESOURCE_TYPE_PUSH_CONSTANT \<equiv> push_bit 1 CGPU_RESOURCE_TYPE_UNIFORM_BUFFER"
abbreviation (input) CGPU_RESOURCE_TYPE_VERTEX_BUFFER :: ECGPUResourceType where "CGPU_RESOURCE_TYPE_VERTEX_BUFFER \<equiv> push_bit 1 CGPU_RESOURCE_TYPE_PUSH_CONSTANT"
abbreviation (input) CGPU_RESOURCE_TYPE_INDEX_BUFFER :: ECGPUResourceType where "CGPU_RESOURCE_TYPE_INDEX_BUFFER \<equiv> push_bit 1 CGPU_RESOURCE_TYPE_VERTEX_BUFFER"
abbreviation (input) CGPU_RESOURCE_TYPE_INDIRECT_BUFFER :: ECGPUResourceType where "CGPU_RESOURCE_TYPE_INDIRECT_BUFFER \<equiv> push_bit 1 CGPU_RESOURCE_TYPE_INDEX_BUFFER"
abbreviation (input) CGPU_RESOURCE_TYPE_TEXTURE_CUBE :: ECGPUResourceType where "CGPU_RESOURCE_TYPE_TEXTURE_CUBE \<equiv> (CGPU_RESOURCE_TYPE_TEXTURE OR push_bit 1 CGPU_RESOURCE_TYPE_INDIRECT_BUFFER)"
abbreviation (input) CGPU_RESOURCE_TYPE_RENDER_TARGET_MIP_SLICES :: ECGPUResourceType where "CGPU_RESOURCE_TYPE_RENDER_TARGET_MIP_SLICES \<equiv> push_bit 2 CGPU_RESOURCE_TYPE_INDIRECT_BUFFER"
abbreviation (input) CGPU_RESOURCE_TYPE_RENDER_TARGET_ARRAY_SLICES :: ECGPUResourceType where "CGPU_RESOURCE_TYPE_RENDER_TARGET_ARRAY_SLICES \<equiv> push_bit 1 CGPU_RESOURCE_TYPE_RENDER_TARGET_MIP_SLICES"
abbreviation (input) CGPU_RESOURCE_TYPE_RENDER_TARGET_DEPTH_SLICES :: ECGPUResourceType where "CGPU_RESOURCE_TYPE_RENDER_TARGET_DEPTH_SLICES \<equiv> push_bit 1 CGPU_RESOURCE_TYPE_RENDER_TARGET_ARRAY_SLICES"
abbreviation (input) CGPU_RESOURCE_TYPE_RAY_TRACING :: ECGPUResourceType where "CGPU_RESOURCE_TYPE_RAY_TRACING \<equiv> push_bit 1 CGPU_RESOURCE_TYPE_RENDER_TARGET_DEPTH_SLICES"
abbreviation (input) CGPU_RESOURCE_TYPE_INPUT_ATTACHMENT :: ECGPUResourceType where "CGPU_RESOURCE_TYPE_INPUT_ATTACHMENT \<equiv> push_bit 1 CGPU_RESOURCE_TYPE_RAY_TRACING"
abbreviation (input) CGPU_RESOURCE_TYPE_TEXEL_BUFFER :: ECGPUResourceType where "CGPU_RESOURCE_TYPE_TEXEL_BUFFER \<equiv> push_bit 1 CGPU_RESOURCE_TYPE_INPUT_ATTACHMENT"
abbreviation (input) CGPU_RESOURCE_TYPE_RW_TEXEL_BUFFER :: ECGPUResourceType where "CGPU_RESOURCE_TYPE_RW_TEXEL_BUFFER \<equiv> push_bit 1 CGPU_RESOURCE_TYPE_TEXEL_BUFFER"
abbreviation (input) CGPU_RESOURCE_TYPE_COMBINED_IMAGE_SAMPLER :: ECGPUResourceType where "CGPU_RESOURCE_TYPE_COMBINED_IMAGE_SAMPLER \<equiv> push_bit 1 CGPU_RESOURCE_TYPE_RW_TEXEL_BUFFER"
abbreviation (input) CGPU_RESOURCE_TYPE_MAX_ENUM_BIT :: ECGPUResourceType where "CGPU_RESOURCE_TYPE_MAX_ENUM_BIT \<equiv> 0x7FFFFFFF"

type_synonym ECGPUTexutreViewUsage = u32
abbreviation (input) CGPU_TVU_SRV :: ECGPUTexutreViewUsage where "CGPU_TVU_SRV \<equiv> 0x01"
abbreviation (input) CGPU_TVU_RTV_DSV :: ECGPUTexutreViewUsage where "CGPU_TVU_RTV_DSV \<equiv> 0x02"
abbreviation (input) CGPU_TVU_UAV :: ECGPUTexutreViewUsage where "CGPU_TVU_UAV \<equiv> 0x04"
abbreviation (input) CGPU_TVU_MAX_ENUM_BIT :: ECGPUTexutreViewUsage where "CGPU_TVU_MAX_ENUM_BIT \<equiv> 0x7FFFFFFF"

type_synonym ECGPUTextureViewAspect = u32
abbreviation (input) CGPU_TVA_COLOR :: ECGPUTextureViewAspect where "CGPU_TVA_COLOR \<equiv> 0x01"
abbreviation (input) CGPU_TVA_DEPTH :: ECGPUTextureViewAspect where "CGPU_TVA_DEPTH \<equiv> 0x02"
abbreviation (input) CGPU_TVA_STENCIL :: ECGPUTextureViewAspect where "CGPU_TVA_STENCIL \<equiv> 0x04"
abbreviation (input) CGPU_TVA_MAX_ENUM_BIT :: ECGPUTextureViewAspect where "CGPU_TVA_MAX_ENUM_BIT \<equiv> 0x7FFFFFFF"

type_synonym CGPUShaderStages = u32
type_synonym CGPUResourceTypes = u32
type_synonym CGPUResourceStates = u32
type_synonym CGPUBufferCreationFlags = u32
type_synonym CGPUTextureCreationFlags = u32
type_synonym CGPUTexutreViewUsages = u32
type_synonym CGPUTextureViewAspects = u32

section \<open>Format utilities\<close>

definition FormatUtil_IsDepthStencilFormat :: "ECGPUFormat \<Rightarrow> bool" where
  "FormatUtil_IsDepthStencilFormat fmt = c_switch
     [(CGPU_FORMAT_D24_UNORM_S8_UINT, True),
      (CGPU_FORMAT_D32_SFLOAT_S8_UINT, True),
      (CGPU_FORMAT_D32_SFLOAT, True),
      (CGPU_FORMAT_X8_D24_UNORM, True),
      (CGPU_FORMAT_D16_UNORM, True),
      (CGPU_FORMAT_D16_UNORM_S8_UINT, True)] False fmt"

definition FormatUtil_IsDepthOnlyFormat :: "ECGPUFormat \<Rightarrow> bool" where
  "FormatUtil_IsDepthOnlyFormat fmt = c_switch
     [(CGPU_FORMAT_D32_SFLOAT, True),
      (CGPU_FORMAT_D16_UNORM, True)] False fmt"

definition FormatUtil_BitSizeOfBlock :: "ECGPUFormat \<Rightarrow> int" where
  "FormatUtil_BitSizeOfBlock fmt = c_switch
     [(CGPU_FORMAT_UNDEFINED, 0),
      (CGPU_FORMAT_R1_UNORM, 8),
      (CGPU_FORMAT_R2_UNORM, 8),
      (CGPU_FORMAT_R4_UNORM, 8),
      (CGPU_FORMAT_R4G4_UNORM, 8),
      (CGPU_FORMAT_G4R4_UNORM, 8),
      (CGPU_FORMAT_A8_UNORM, 8),
      (CGPU_FORMAT_R8_UNORM, 8),
      (CGPU_FORMAT_R8_SNORM, 8),
      (CGPU_FORMAT_R8_UINT, 8),
      (CGPU_FORMAT_R8_SINT, 8),
      (CGPU_FORMAT_R8_SRGB, 8),
      (CGPU_FORMAT_B2G3R3_UNORM, 8),
      (CGPU_FORMAT_R4G4B4A4_UNORM, 16),
      (CGPU_FORMAT_R4G4B4X4_UNORM, 16),
      (CGPU_FORMAT_B4G4R4A4_UNORM, 16),
      (CGPU_FORMAT_B4G4R4X4_UNORM, 16),
      (CGPU_FORMAT_A4R4G4B4_UNORM, 16),
      (CGPU_FORMAT_X4R4G4B4_UNORM, 16),
      (CGPU_FORMAT_A4B4G4R4_UNORM, 16),
      (CGPU_FORMAT_X4B4G4R4_UNORM, 16),
      (CGPU_FORMAT_R5G6B5_UNORM, 16),
      (CGPU_FORMAT_B5G6R5_UNORM, 16),
      (CGPU_FORMAT_R5G5B5A1_UNORM, 16),
      (CGPU_FORMAT_B5G5R5A1_UNORM, 16),
      (CGPU_FORMAT_A1B5G5R5_UNORM, 16),
      (CGPU_FORMAT_A1R5G5B5_UNORM, 16),
      (CGPU_FORMAT_R5G5B5X1_UNORM, 16),
      (CGPU_FORMAT_B5G5R5X1_UNORM, 16),
      (CGPU_FORMAT_X1R5G5B5_UNORM, 16),
      (CGPU_FORMAT_X1B5G5R5_UNORM, 16),
      (CGPU_FORMAT_B2G3R3A8_UNORM, 16),
      (CGPU_FORMAT_R8G8_UNORM, 16),
      (CGPU_FORMAT_R8G8_SNORM, 16),
      (CGPU_FORMAT_G8R8_UNORM, 16),
      (CGPU_FORMAT_G8R8_SNORM, 16),
      (CGPU_FORMAT_R8G8_UINT, 16),
      (CGPU_FORMAT_R8G8_SINT, 16),
      (CGPU_FORMAT_R8G8_SRGB, 16),
      (CGPU_FORMAT_R16_UNORM, 16),
      (CGPU_FORMAT_R16_SNORM, 16),
      (CGPU_FORMAT_R16_UINT, 16),
      (CGPU_FORMAT_R16_SINT, 16),
      (CGPU_FORMAT_R16_SFLOAT, 16),
      (CGPU_FORMAT_R16_SBFLOAT, 16),
      (CGPU_FORMAT_R8G8B8_UNORM, 24),
      (CGPU_FORMAT_R8G8B8_SNORM, 24),
      (CGPU_FORMAT_R8G8B8_UINT, 24),
      (CGPU_FORMAT_R8G8B8_SINT, 24),
      (CGPU_FORMAT_R8G8B8_SRGB, 24),
      (CGPU_FORMAT_B8G8R8_UNORM, 24),
      (CGPU_FORMAT_B8G8R8_SNORM, 24),
      (CGPU_FORMAT_B8G8R8_UINT, 24),
      (CGPU_FORMAT_B8G8R8_SINT, 24),
      (CGPU_FORMAT_B8G8R8_SRGB, 24),
      (CGPU_FORMAT_R16G16B16_UNORM, 48),
      (CGPU_FORMAT_R16G16B16_SNORM, 48),
      (CGPU_FORMAT_R16G16B16_UINT, 48),
      (CGPU_FORMAT_R16G16B16_SINT, 48),
      (CGPU_FORMAT_R16G16B16_SFLOAT, 48),
      (CGPU_FORMAT_R16G16B16_SBFLOAT, 48),
      (CGPU_FORMAT_R16G16B16A16_UNORM, 64),
      (CGPU_FORMAT_R16G16B16A16_SNORM, 64),
      (CGPU_FORMAT_R16G16B16A16_UINT, 64),
      (CGPU_FORMAT_R16G16B16A16_SINT, 64),
      (CGPU_FORMAT_R16G16B16A16_SFLOAT, 64),
      (CGPU_FORMAT_R16G16B16A16_SBFLOAT, 64),
      (CGPU_FORMAT_R32G32_UINT, 64),
      (CGPU_FORMAT_R32G32_SINT, 64),
      (CGPU_FORMAT_R32G32_SFLOAT, 64),
      (CGPU_FORMAT_R32G32B32_UINT, 96),
      (CGPU_FORMAT_R32G32B32_SINT, 96),
      (CGPU_FORMAT_R32G32B32_SFLOAT, 96),
      (CGPU_FORMAT_R32G32B32A32_UINT, 128),
      (CGPU_FORMAT_R32G32B32A32_SINT, 128),
      (CGPU_FORMAT_R32G32B32A32_SFLOAT, 128),
      (CGPU_FORMAT_R64_UINT, 64),
      (CGPU_FORMAT_R64_SINT, 64),
      (CGPU_FORMAT_R64_SFLOAT, 64),
      (CGPU_FORMAT_R64G64_UINT, 128),
      (CGPU_FORMAT_R64G64_SINT, 128),
      (CGPU_FORMAT_R64G64_SFLOAT, 128),
      (CGPU_FORMAT_R64G64B64_UINT, 192),
      (CGPU_FORMAT_R64G64B64_SINT, 192),
      (CGPU_FORMAT_R64G64B64_SFLOAT, 192),
      (CGPU_FORMAT_R64G64B64A64_UINT, 256),
      (CGPU_FORMAT_R64G64B64A64_SINT, 256),
      (CGPU_FORMAT_R64G64B64A64_SFLOAT, 256),
      (CGPU_FORMAT_D16_UNORM, 16),
      (CGPU_FORMAT_S8_UINT, 8),
      (CGPU_FORMAT_D32_SFLOAT_S8_UINT, 64),
      (CGPU_FORMAT_DXBC1_RGB_UNORM, 64),
      (CGPU_FORMAT_DXBC1_RGB_SRGB, 64),
      (CGPU_FORMAT_DXBC1_RGBA_UNORM, 64),
      (CGPU_FORMAT_DXBC1_RGBA_SRGB, 64),
      (CGPU_FORMAT_DXBC2_UNORM, 128),
      (CGPU_FORMAT_DXBC2_SRGB, 128),
      (CGPU_FORMAT_DXBC3_UNORM, 128),
      (CGPU_FORMAT_DXBC3_SRGB, 128),
      (CGPU_FORMAT_DXBC4_UNORM, 64),
      (CGPU_FORMAT_DXBC4_SNORM, 64),
      (CGPU_FORMAT_DXBC5_UNORM, 128),
      (CGPU_FORMAT_DXBC5_SNORM, 128),
      (CGPU_FORMAT_DXBC6H_UFLOAT, 128),
      (CGPU_FORMAT_DXBC6H_SFLOAT, 128),
      (CGPU_FORMAT_DXBC7_UNORM, 128),
      (CGPU_FORMAT_DXBC7_SRGB, 128),
      (CGPU_FORMAT_PVRTC1_2BPP_UNORM, 64),
      (CGPU_FORMAT_PVRTC1_4BPP_UNORM, 64),
      (CGPU_FORMAT_PVRTC2_2BPP_UNORM, 64),
      (CGPU_FORMAT_PVRTC2_4BPP_UNORM, 64),
      (CGPU_FORMAT_PVRTC1_2BPP_SRGB, 64),
      (CGPU_FORMAT_PVRTC1_4BPP_SRGB, 64),
      (CGPU_FORMAT_PVRTC2_2BPP_SRGB, 64),
      (CGPU_FORMAT_PVRTC2_4BPP_SRGB, 64),
      (CGPU_FORMAT_ETC2_R8G8B8_UNORM, 64),
      (CGPU_FORMAT_ETC2_R8G8B8_SRGB, 64),
      (CGPU_FORMAT_ETC2_R8G8B8A1_UNORM, 64),
      (CGPU_FORMAT_ETC2_R8G8B8A1_SRGB, 64),
      (CGPU_FORMAT_ETC2_R8G8B8A8_UNORM, 64),
      (CGPU_FORMAT_ETC2_R8G8B8A8_SRGB, 64),
      (CGPU_FORMAT_ETC2_EAC_R11_UNORM, 64),
      (CGPU_FORMAT_ETC2_EAC_R11_SNORM, 64),
      (CGPU_FORMAT_ETC2_EAC_R11G11_UNORM, 64),
      (CGPU_FORMAT_ETC2_EAC_R11G11_SNORM, 64),
      (CGPU_FORMAT_ASTC_4x4_UNORM, 128),
      (CGPU_FORMAT_ASTC_4x4_SRGB, 128),
      (CGPU_FORMAT_ASTC_5x4_UNORM, 128),
      (CGPU_FORMAT_ASTC_5x4_SRGB, 128),
      (CGPU_FORMAT_ASTC_5x5_UNORM, 128),
      (CGPU_FORMAT_ASTC_5x5_SRGB, 128),
      (CGPU_FORMAT_ASTC_6x5_UNORM, 128),
      (CGPU_FORMAT_ASTC_6x5_SRGB, 128),
      (CGPU_FORMAT_ASTC_6x6_UNORM, 128),
      (CGPU_FORMAT_ASTC_6x6_SRGB, 128),
      (CGPU_FORMAT_ASTC_8x5_UNORM, 128),
      (CGPU_FORMAT_ASTC_8x5_SRGB, 128),
      (CGPU_FORMAT_ASTC_8x6_UNORM, 128),
      (CGPU_FORMAT_ASTC_8x6_SRGB, 128),
      (CGPU_FORMAT_ASTC_8x8_UNORM, 128),
      (CGPU_FORMAT_ASTC_8x8_SRGB, 128),
      (CGPU_FORMAT_ASTC_10x5_UNORM, 128),
      (CGPU_FORMAT_ASTC_10x5_SRGB, 128),
      (CGPU_FORMAT_ASTC_10x6_UNORM, 128),
      (CGPU_FORMAT_ASTC_10x6_SRGB, 128),
      (CGPU_FORMAT_ASTC_10x8_UNORM, 128),
      (CGPU_FORMAT_ASTC_10x8_SRGB, 128),
      (CGPU_FORMAT_ASTC_10x10_UNORM, 128),
      (CGPU_FORMAT_ASTC_10x10_SRGB, 128),
      (CGPU_FORMAT_ASTC_12x10_UNORM, 128),
      (CGPU_FORMAT_ASTC_12x10_SRGB, 128),
      (CGPU_FORMAT_ASTC_12x12_UNORM, 128),
      (CGPU_FORMAT_ASTC_12x12_SRGB, 128),
      (CGPU_FORMAT_CLUT_P4, 8),
      (CGPU_FORMAT_CLUT_P4A4, 8),
      (CGPU_FORMAT_CLUT_P8, 8),
      (CGPU_FORMAT_CLUT_P8A8, 16),
      (CGPU_FORMAT_G16B16G16R16_422_UNORM, 8),
      (CGPU_FORMAT_B16G16R16G16_422_UNORM, 8),
      (CGPU_FORMAT_R12X4G12X4B12X4A12X4_UNORM_4PACK16, 8),
      (CGPU_FORMAT_G12X4B12X4G12X4R12X4_422_UNORM_4PACK16, 8),
      (CGPU_FORMAT_B12X4G12X4R12X4G12X4_422_UNORM_4PACK16, 8),
      (CGPU_FORMAT_R10X6G10X6B10X6A10X6_UNORM_4PACK16, 8),
      (CGPU_FORMAT_G10X6B10X6G10X6R10X6_422_UNORM_4PACK16, 8),
      (CGPU_FORMAT_B10X6G10X6R10X6G10X6_422_UNORM_4PACK16, 8),
      (CGPU_FORMAT_G8B8G8R8_422_UNORM, 4),
      (CGPU_FORMAT_B8G8R8G8_422_UNORM, 4)] 32 fmt"

definition FormatUtil_WidthOfBlock :: "ECGPUFormat \<Rightarrow> int" where
  "FormatUtil_WidthOfBlock fmt = c_switch
     [(CGPU_FORMAT_UNDEFINED, 1),
      (CGPU_FORMAT_R1_UNORM, 8),
      (CGPU_FORMAT_R2_UNORM, 4),
      (CGPU_FORMAT_R4_UNORM, 2),
      (CGPU_FORMAT_DXBC1_RGB_UNORM, 4),
      (CGPU_FORMAT_DXBC1_RGB_SRGB, 4),
      (CGPU_FORMAT_DXBC1_RGBA_UNORM, 4),
      (CGPU_FORMAT_DXBC1_RGBA_SRGB, 4),
      (CGPU_FORMAT_DXBC2_UNORM, 4),
      (CGPU_FORMAT_DXBC2_SRGB, 4),
      (CGPU_FORMAT_DXBC3_UNORM, 4),
      (CGPU_FORMAT_DXBC3_SRGB, 4),
      (CGPU_FORMAT_DXBC4_UNORM, 4),
      (CGPU_FORMAT_DXBC4_SNORM, 4),
      (CGPU_FORMAT_DXBC5_UNORM, 4),
      (CGPU_FORMAT_DXBC5_SNORM, 4),
      (CGPU_FORMAT_DXBC6H_UFLOAT, 4),
      (CGPU_FORMAT_DXBC6H_SFLOAT, 4),
      (CGPU_FORMAT_DXBC7_UNORM, 4),
      (CGPU_FORMAT_DXBC7_SRGB, 4),
      (CGPU_FORMAT_PVRTC1_2BPP_UNORM, 8),
      (CGPU_FORMAT_PVRTC1_4BPP_UNORM, 4),
      (CGPU_FORMAT_PVRTC2_2BPP_UNORM, 8),
      (CGPU_FORMAT_PVRTC2_4BPP_UNORM, 4),
      (CGPU_FORMAT_PVRTC1_2BPP_SRGB, 8),
      (CGPU_FORMAT_PVRTC1_4BPP_SRGB, 4),
      (CGPU_FORMAT_PVRTC2_2BPP_SRGB, 8),
      (CGPU_FORMAT_PVRTC2_4BPP_SRGB, 4),
      (CGPU_FORMAT_ETC2_R8G8B8_UNORM, 4),
      (CGPU_FORMAT_ETC2_R8G8B8_SRGB, 4),
      (CGPU_FORMAT_ETC2_R8G8B8A1_UNORM, 4),
      (CGPU_FORMAT_ETC2_R8G8B8A1_SRGB, 4),
      (CGPU_FORMAT_ETC2_R8G8B8A8_UNORM, 4),
      (CGPU_FORMAT_ETC2_R8G8B8A8_SRGB, 4),
      (CGPU_FORMAT_ETC2_EAC_R11_UNORM, 4),
      (CGPU_FORMAT_ETC2_EAC_R11_SNORM, 4),
      (CGPU_FORMAT_ETC2_EAC_R11G11_UNORM, 4),
      (CGPU_FORMAT_ETC2_EAC_R11G11_SNORM, 4),
      (CGPU_FORMAT_ASTC_4x4_UNORM, 4),
      (CGPU_FORMAT_ASTC_4x4_SRGB, 4),
      (CGPU_FORMAT_ASTC_5x4_UNORM, 5),
      (CGPU_FORMAT_ASTC_5x4_SRGB, 5),
      (CGPU_FORMAT_ASTC_5x5_UNORM, 5),
      (CGPU_FORMAT_ASTC_5x5_SRGB, 5),
      (CGPU_FORMAT_ASTC_6x5_UNORM, 6),
      (CGPU_FORMAT_ASTC_6x5_SRGB, 6),
      (CGPU_FORMAT_ASTC_6x6_UNORM, 6),
      (CGPU_FORMAT_ASTC_6x6_SRGB, 6),
      (CGPU_FORMAT_ASTC_8x5_UNORM, 8),
      (CGPU_FORMAT_ASTC_8x5_SRGB, 8),
      (CGPU_FORMAT_ASTC_8x6_UNORM, 8),
      (CGPU_FORMAT_ASTC_8x6_SRGB, 8),
      (CGPU_FORMAT_ASTC_8x8_UNORM, 8),
      (CGPU_FORMAT_ASTC_8x8_SRGB, 8),
      (CGPU_FORMAT_ASTC_10x5_UNORM, 10),
      (CGPU_FORMAT_ASTC_10x5_SRGB, 10),
      (CGPU_FORMAT_ASTC_10x6_UNORM, 10),
      (CGPU_FORMAT_ASTC_10x6_SRGB, 10),
      (CGPU_FORMAT_ASTC_10x8_UNORM, 10),
      (CGPU_FORMAT_ASTC_10x8_SRGB, 10),
      (CGPU_FORMAT_ASTC_10x10_UNORM, 10),
      (CGPU_FORMAT_ASTC_10x10_SRGB, 10),
      (CGPU_FORMAT_ASTC_12x10_UNORM, 12),
      (CGPU_FORMAT_ASTC_12x10_SRGB, 12),
      (CGPU_FORMAT_ASTC_12x12_UNORM, 12),
      (CGPU_FORMAT_ASTC_12x12_SRGB, 12),
      (CGPU_FORMAT_CLUT_P4, 2)] 1 fmt"

definition FormatUtil_HeightOfBlock :: "ECGPUFormat \<Rightarrow> int" where
  "FormatUtil_HeightOfBlock fmt = c_switch
     [(CGPU_FORMAT_UNDEFINED, 1),
      (CGPU_FORMAT_DXBC1_RGB_UNORM, 4),
      (CGPU_FORMAT_DXBC1_RGB_SRGB, 4),
      (CGPU_FORMAT_DXBC1_RGBA_UNORM, 4),
      (CGPU_FORMAT_DXBC1_RGBA_SRGB, 4),
      (CGPU_FORMAT_DXBC2_UNORM, 4),
      (CGPU_FORMAT_DXBC2_SRGB, 4),
      (CGPU_FORMAT_DXBC3_UNORM, 4),
      (CGPU_FORMAT_DXBC3_SRGB, 4),
      (CGPU_FORMAT_DXBC4_UNORM, 4),
      (CGPU_FORMAT_DXBC4_SNORM, 4),
      (CGPU_FORMAT_DXBC5_UNORM, 4),
      (CGPU_FORMAT_DXBC5_SNORM, 4),
      (CGPU_FORMAT_DXBC6H_UFLOAT, 4),
      (CGPU_FORMAT_DXBC6H_SFLOAT, 4),
      (CGPU_FORMAT_DXBC7_UNORM, 4),
      (CGPU_FORMAT_DXBC7_SRGB, 4),
      (CGPU_FORMAT_PVRTC1_2BPP_UNORM, 4),
      (CGPU_FORMAT_PVRTC1_4BPP_UNORM, 4),
      (CGPU_FORMAT_PVRTC2_2BPP_UNORM, 4),
      (CGPU_FORMAT_PVRTC2_4BPP_UNORM, 4),
      (CGPU_FORMAT_PVRTC1_2BPP_SRGB, 4),
      (CGPU_FORMAT_PVRTC1_4BPP_SRGB, 4),
      (CGPU_FORMAT_PVRTC2_2BPP_SRGB, 4),
      (CGPU_FORMAT_PVRTC2_4BPP_SRGB, 4),
      (CGPU_FORMAT_ETC2_R8G8B8_UNORM, 4),
      (CGPU_FORMAT_ETC2_R8G8B8_SRGB, 4),
      (CGPU_FORMAT_ETC2_R8G8B8A1_UNORM, 4),
      (CGPU_FORMAT_ETC2_R8G8B8A1_SRGB, 4),
      (CGPU_FORMAT_ETC2_R8G8B8A8_UNORM, 4),
      (CGPU_FORMAT_ETC2_R8G8B8A8_SRGB, 4),
      (CGPU_FORMAT_ETC2_EAC_R11_UNORM, 4),
      (CGPU_FORMAT_ETC2_EAC_R11_SNORM, 4),
      (CGPU_FORMAT_ETC2_EAC_R11G11_UNORM, 4),
      (CGPU_FORMAT_ETC2_EAC_R11G11_SNORM, 4),
      (CGPU_FORMAT_ASTC_4x4_UNORM, 4),
      (CGPU_FORMAT_ASTC_4x4_SRGB, 4),
      (CGPU_FORMAT_ASTC_5x4_UNORM, 4),
      (CGPU_FORMAT_ASTC_5x4_SRGB, 4),
      (CGPU_FORMAT_ASTC_5x5_UNORM, 5),
      (CGPU_FORMAT_ASTC_5x5_SRGB, 5),
      (CGPU_FORMAT_ASTC_6x5_UNORM, 5),
      (CGPU_FORMAT_ASTC_6x5_SRGB, 5),
      (CGPU_FORMAT_ASTC_6x6_UNORM, 6),
      (CGPU_FORMAT_ASTC_6x6_SRGB, 6),
      (CGPU_FORMAT_ASTC_8x5_UNORM, 5),
      (CGPU_FORMAT_ASTC_8x5_SRGB, 5),
      (CGPU_FORMAT_ASTC_8x6_UNORM, 6),
      (CGPU_FORMAT_ASTC_8x6_SRGB, 6),
      (CGPU_FORMAT_ASTC_8x8_UNORM, 8),
      (CGPU_FORMAT_ASTC_8x8_SRGB, 8),
      (CGPU_FORMAT_ASTC_10x5_UNORM, 5),
      (CGPU_FORMAT_ASTC_10x5_SRGB, 5),
      (CGPU_FORMAT_ASTC_10x6_UNORM, 6),
      (CGPU_FORMAT_ASTC_10x6_SRGB, 6),
      (CGPU_FORMAT_ASTC_10x8_UNORM, 8),
      (CGPU_FORMAT_ASTC_10x8_SRGB, 8),
      (CGPU_FORMAT_ASTC_10x10_UNORM, 10),
      (CGPU_FORMAT_ASTC_10x10_SRGB, 10),
      (CGPU_FORMAT_ASTC_12x10_UNORM, 10),
      (CGPU_FORMAT_ASTC_12x10_SRGB, 10),
      (CGPU_FORMAT_ASTC_12x12_UNORM, 12),
      (CGPU_FORMAT_ASTC_12x12_SRGB, 12)] 1 fmt"

end
