(* ===== verification/Vk_Formats.thy ===== *)
theory Vk_Formats
  imports CGPU_Flags
begin

text \<open>
  The translation between CGPU and Vulkan formats, include/cgpu/backend/vulkan/cgpu_vulkan.inl.

  The numbers of \<open>VkFormat\<close> are those of the Vulkan headers, which are outside this repository:
  they are part of the binary interface of Vulkan and never change.
\<close>

section \<open>Vulkan formats\<close>

type_synonym VkFormat = int

abbreviation (input) VK_FORMAT_UNDEFINED :: VkFormat where "VK_FORMAT_UNDEFINED \<equiv> 0"
abbreviation (input) VK_FORMAT_R4G4_UNORM_PACK8 :: VkFormat where "VK_FORMAT_R4G4_UNORM_PACK8 \<equiv> 1"
abbreviation (input) VK_FORMAT_R4G4B4A4_UNORM_PACK16 :: VkFormat where "VK_FORMAT_R4G4B4A4_UNORM_PACK16 \<equiv> 2"
abbreviation (input) VK_FORMAT_B4G4R4A4_UNORM_PACK16 :: VkFormat where "VK_FORMAT_B4G4R4A4_UNORM_PACK16 \<equiv> 3"
abbreviation (input) VK_FORMAT_B5G6R5_UNORM_PACK16 :: VkFormat where "VK_FORMAT_B5G6R5_UNORM_PACK16 \<equiv> 5"
abbreviation (input) VK_FORMAT_R5G6B5_UNORM_PACK16 :: VkFormat where "VK_FORMAT_R5G6B5_UNORM_PACK16 \<equiv> 4"
abbreviation (input) VK_FORMAT_R5G5B5A1_UNORM_PACK16 :: VkFormat where "VK_FORMAT_R5G5B5A1_UNORM_PACK16 \<equiv> 6"
abbreviation (input) VK_FORMAT_B5G5R5A1_UNORM_PACK16 :: VkFormat where "VK_FORMAT_B5G5R5A1_UNORM_PACK16 \<equiv> 7"
abbreviation (input) VK_FORMAT_A1R5G5B5_UNORM_PACK16 :: VkFormat where "VK_FORMAT_A1R5G5B5_UNORM_PACK16 \<equiv> 8"
abbreviation (input) VK_FORMAT_A2B10G10R10_UNORM_PACK32 :: VkFormat where "VK_FORMAT_A2B10G10R10_UNORM_PACK32 \<equiv> 64"
abbreviation (input) VK_FORMAT_R8_UNORM :: VkFormat where "VK_FORMAT_R8_UNORM \<equiv> 9"
abbreviation (input) VK_FORMAT_R8_SNORM :: VkFormat where "VK_FORMAT_R8_SNORM \<equiv> 10"
abbreviation (input) VK_FORMAT_R8_UINT :: VkFormat where "VK_FORMAT_R8_UINT \<equiv> 13"
abbreviation (input) VK_FORMAT_R8_SINT :: VkFormat where "VK_FORMAT_R8_SINT \<equiv> 14"
abbreviation (input) VK_FORMAT_R8_SRGB :: VkFormat where "VK_FORMAT_R8_SRGB \<equiv> 15"
abbreviation (input) VK_FORMAT_R8G8_UNORM :: VkFormat where "VK_FORMAT_R8G8_UNORM \<equiv> 16"
abbreviation (input) VK_FORMAT_R8G8_SNORM :: VkFormat where "VK_FORMAT_R8G8_SNORM \<equiv> 17"
abbreviation (input) VK_FORMAT_R8G8_UINT :: VkFormat where "VK_FORMAT_R8G8_UINT \<equiv> 20"
abbreviation (input) VK_FORMAT_R8G8_SINT :: VkFormat where "VK_FORMAT_R8G8_SINT \<equiv> 21"
abbreviation (input) VK_FORMAT_R8G8_SRGB :: VkFormat where "VK_FORMAT_R8G8_SRGB \<equiv> 22"
abbreviation (input) VK_FORMAT_R8G8B8_UNORM :: VkFormat where "VK_FORMAT_R8G8B8_UNORM \<equiv> 23"
abbreviation (input) VK_FORMAT_R8G8B8_SNORM :: VkFormat where "VK_FORMAT_R8G8B8_SNORM \<equiv> 24"
abbreviation (input) VK_FORMAT_R8G8B8_UINT :: VkFormat where "VK_FORMAT_R8G8B8_UINT \<equiv> 27"
abbreviation (input) VK_FORMAT_R8G8B8_SINT :: VkFormat where "VK_FORMAT_R8G8B8_SINT \<equiv> 28"
abbreviation (input) VK_FORMAT_R8G8B8_SRGB :: VkFormat where "VK_FORMAT_R8G8B8_SRGB \<equiv> 29"
abbreviation (input) VK_FORMAT_B8G8R8_UNORM :: VkFormat where "VK_FORMAT_B8G8R8_UNORM \<equiv> 30"
abbreviation (input) VK_FORMAT_B8G8R8_SNORM :: VkFormat where "VK_FORMAT_B8G8R8_SNORM \<equiv> 31"
abbreviation (input) VK_FORMAT_B8G8R8_UINT :: VkFormat where "VK_FORMAT_B8G8R8_UINT \<equiv> 34"
abbreviation (input) VK_FORMAT_B8G8R8_SINT :: VkFormat where "VK_FORMAT_B8G8R8_SINT \<equiv> 35"
abbreviation (input) VK_FORMAT_B8G8R8_SRGB :: VkFormat where "VK_FORMAT_B8G8R8_SRGB \<equiv> 36"
abbreviation (input) VK_FORMAT_R8G8B8A8_UNORM :: VkFormat where "VK_FORMAT_R8G8B8A8_UNORM \<equiv> 37"
abbreviation (input) VK_FORMAT_R8G8B8A8_SNORM :: VkFormat where "VK_FORMAT_R8G8B8A8_SNORM \<equiv> 38"
abbreviation (input) VK_FORMAT_R8G8B8A8_UINT :: VkFormat where "VK_FORMAT_R8G8B8A8_UINT \<equiv> 41"
abbreviation (input) VK_FORMAT_R8G8B8A8_SINT :: VkFormat where "VK_FORMAT_R8G8B8A8_SINT \<equiv> 42"
abbreviation (input) VK_FORMAT_R8G8B8A8_SRGB :: VkFormat where "VK_FORMAT_R8G8B8A8_SRGB \<equiv> 43"
abbreviation (input) VK_FORMAT_B8G8R8A8_UNORM :: VkFormat where "VK_FORMAT_B8G8R8A8_UNORM \<equiv> 44"
abbreviation (input) VK_FORMAT_B8G8R8A8_SNORM :: VkFormat where "VK_FORMAT_B8G8R8A8_SNORM \<equiv> 45"
abbreviation (input) VK_FORMAT_B8G8R8A8_UINT :: VkFormat where "VK_FORMAT_B8G8R8A8_UINT \<equiv> 48"
abbreviation (input) VK_FORMAT_B8G8R8A8_SINT :: VkFormat where "VK_FORMAT_B8G8R8A8_SINT \<equiv> 49"
abbreviation (input) VK_FORMAT_B8G8R8A8_SRGB :: VkFormat where "VK_FORMAT_B8G8R8A8_SRGB \<equiv> 50"
abbreviation (input) VK_FORMAT_R16_UNORM :: VkFormat where "VK_FORMAT_R16_UNORM \<equiv> 70"
abbreviation (input) VK_FORMAT_R16_SNORM :: VkFormat where "VK_FORMAT_R16_SNORM \<equiv> 71"
abbreviation (input) VK_FORMAT_R16_UINT :: VkFormat where "VK_FORMAT_R16_UINT \<equiv> 74"
abbreviation (input) VK_FORMAT_R16_SINT :: VkFormat where "VK_FORMAT_R16_SINT \<equiv> 75"
abbreviation (input) VK_FORMAT_R16_SFLOAT :: VkFormat where "VK_FORMAT_R16_SFLOAT \<equiv> 76"
abbreviation (input) VK_FORMAT_R16G16_UNORM :: VkFormat where "VK_FORMAT_R16G16_UNORM \<equiv> 77"
abbreviation (input) VK_FORMAT_R16G16_SNORM :: VkFormat where "VK_FORMAT_R16G16_SNORM \<equiv> 78"
abbreviation (input) VK_FORMAT_R16G16_UINT :: VkFormat where "VK_FORMAT_R16G16_UINT \<equiv> 81"
abbreviation (input) VK_FORMAT_R16G16_SINT :: VkFormat where "VK_FORMAT_R16G16_SINT \<equiv> 82"
abbreviation (input) VK_FORMAT_R16G16_SFLOAT :: VkFormat where "VK_FORMAT_R16G16_SFLOAT \<equiv> 83"
abbreviation (input) VK_FORMAT_R16G16B16_UNORM :: VkFormat where "VK_FORMAT_R16G16B16_UNORM \<equiv> 84"
abbreviation (input) VK_FORMAT_R16G16B16_SNORM :: VkFormat where "VK_FORMAT_R16G16B16_SNORM \<equiv> 85"
abbreviation (input) VK_FORMAT_R16G16B16_UINT :: VkFormat where "VK_FORMAT_R16G16B16_UINT \<equiv> 88"
abbreviation (input) VK_FORMAT_R16G16B16_SINT :: VkFormat where "VK_FORMAT_R16G16B16_SINT \<equiv> 89"
abbreviation (input) VK_FORMAT_R16G16B16_SFLOAT :: VkFormat where "VK_FORMAT_R16G16B16_SFLOAT \<equiv> 90"
abbreviation (input) VK_FORMAT_R16G16B16A16_UNORM :: VkFormat where "VK_FORMAT_R16G16B16A16_UNORM \<equiv> 91"
abbreviation (input) VK_FORMAT_R16G16B16A16_SNORM :: VkFormat where "VK_FORMAT_R16G16B16A16_SNORM \<equiv> 92"
abbreviation (input) VK_FORMAT_R16G16B16A16_UINT :: VkFormat where "VK_FORMAT_R16G16B16A16_UINT \<equiv> 95"
abbreviation (input) VK_FORMAT_R16G16B16A16_SINT :: VkFormat where "VK_FORMAT_R16G16B16A16_SINT \<equiv> 96"
abbreviation (input) VK_FORMAT_R16G16B16A16_SFLOAT :: VkFormat where "VK_FORMAT_R16G16B16A16_SFLOAT \<equiv> 97"
abbreviation (input) VK_FORMAT_R32_UINT :: VkFormat where "VK_FORMAT_R32_UINT \<equiv> 98"
abbreviation (input) VK_FORMAT_R32_SINT :: VkFormat where "VK_FORMAT_R32_SINT \<equiv> 99"
abbreviation (input) VK_FORMAT_R32_SFLOAT :: VkFormat where "VK_FORMAT_R32_SFLOAT \<equiv> 100"
abbreviation (input) VK_FORMAT_R32G32_UINT :: VkFormat where "VK_FORMAT_R32G32_UINT \<equiv> 101"
abbreviation (input) VK_FORMAT_R32G32_SINT :: VkFormat where "VK_FORMAT_R32G32_SINT \<equiv> 102"
abbreviation (input) VK_FORMAT_R32G32_SFLOAT :: VkFormat where "VK_FORMAT_R32G32_SFLOAT \<equiv> 103"
abbreviation (input) VK_FORMAT_R32G32B32_UINT :: VkFormat where "VK_FORMAT_R32G32B32_UINT \<equiv> 104"
abbreviation (input) VK_FORMAT_R32G32B32_SINT :: VkFormat where "VK_FORMAT_R32G32B32_SINT \<equiv> 105"
abbreviation (input) VK_FORMAT_R32G32B32_SFLOAT :: VkFormat where "VK_FORMAT_R32G32B32_SFLOAT \<equiv> 106"
abbreviation (input) VK_FORMAT_R32G32B32A32_UINT :: VkFormat where "VK_FORMAT_R32G32B32A32_UINT \<equiv> 107"
abbreviation (input) VK_FORMAT_R32G32B32A32_SINT :: VkFormat where "VK_FORMAT_R32G32B32A32_SINT \<equiv> 108"
abbreviation (input) VK_FORMAT_R32G32B32A32_SFLOAT :: VkFormat where "VK_FORMAT_R32G32B32A32_SFLOAT \<equiv> 109"
abbreviation (input) VK_FORMAT_R64_UINT :: VkFormat where "VK_FORMAT_R64_UINT \<equiv> 110"
abbreviation (input) VK_FORMAT_R64_SINT :: VkFormat where "VK_FORMAT_R64_SINT \<equiv> 111"
abbreviation (input) VK_FORMAT_R64_SFLOAT :: VkFormat where "VK_FORMAT_R64_SFLOAT \<equiv> 112"
abbreviation (input) VK_FORMAT_R64G64_UINT :: VkFormat where "VK_FORMAT_R64G64_UINT \<equiv> 113"
abbreviation (input) VK_FORMAT_R64G64_SINT :: VkFormat where "VK_FORMAT_R64G64_SINT \<equiv> 114"
abbreviation (input) VK_FORMAT_R64G64_SFLOAT :: VkFormat where "VK_FORMAT_R64G64_SFLOAT \<equiv> 115"
abbreviation (input) VK_FORMAT_R64G64B64_UINT :: VkFormat where "VK_FORMAT_R64G64B64_UINT \<equiv> 116"
abbreviation (input) VK_FORMAT_R64G64B64_SINT :: VkFormat where "VK_FORMAT_R64G64B64_SINT \<equiv> 117"
abbreviation (input) VK_FORMAT_R64G64B64_SFLOAT :: VkFormat where "VK_FORMAT_R64G64B64_SFLOAT \<equiv> 118"
abbreviation (input) VK_FORMAT_R64G64B64A64_UINT :: VkFormat where "VK_FORMAT_R64G64B64A64_UINT \<equiv> 119"
abbreviation (input) VK_FORMAT_R64G64B64A64_SINT :: VkFormat where "VK_FORMAT_R64G64B64A64_SINT \<equiv> 120"
abbreviation (input) VK_FORMAT_R64G64B64A64_SFLOAT :: VkFormat where "VK_FORMAT_R64G64B64A64_SFLOAT \<equiv> 121"
abbreviation (input) VK_FORMAT_A2R10G10B10_UNORM_PACK32 :: VkFormat where "VK_FORMAT_A2R10G10B10_UNORM_PACK32 \<equiv> 58"
abbreviation (input) VK_FORMAT_A2R10G10B10_UINT_PACK32 :: VkFormat where "VK_FORMAT_A2R10G10B10_UINT_PACK32 \<equiv> 62"
abbreviation (input) VK_FORMAT_A2B10G10R10_UINT_PACK32 :: VkFormat where "VK_FORMAT_A2B10G10R10_UINT_PACK32 \<equiv> 68"
abbreviation (input) VK_FORMAT_B10G11R11_UFLOAT_PACK32 :: VkFormat where "VK_FORMAT_B10G11R11_UFLOAT_PACK32 \<equiv> 122"
abbreviation (input) VK_FORMAT_E5B9G9R9_UFLOAT_PACK32 :: VkFormat where "VK_FORMAT_E5B9G9R9_UFLOAT_PACK32 \<equiv> 123"
abbreviation (input) VK_FORMAT_G16B16G16R16_422_UNORM :: VkFormat where "VK_FORMAT_G16B16G16R16_422_UNORM \<equiv> 1000156027"
abbreviation (input) VK_FORMAT_B16G16R16G16_422_UNORM :: VkFormat where "VK_FORMAT_B16G16R16G16_422_UNORM \<equiv> 1000156028"
abbreviation (input) VK_FORMAT_R12X4G12X4B12X4A12X4_UNORM_4PACK16 :: VkFormat where "VK_FORMAT_R12X4G12X4B12X4A12X4_UNORM_4PACK16 \<equiv> 1000156019"
abbreviation (input) VK_FORMAT_G12X4B12X4G12X4R12X4_422_UNORM_4PACK16 :: VkFormat where "VK_FORMAT_G12X4B12X4G12X4R12X4_422_UNORM_4PACK16 \<equiv> 1000156020"
abbreviation (input) VK_FORMAT_B12X4G12X4R12X4G12X4_422_UNORM_4PACK16 :: VkFormat where "VK_FORMAT_B12X4G12X4R12X4G12X4_422_UNORM_4PACK16 \<equiv> 1000156021"
abbreviation (input) VK_FORMAT_R10X6G10X6B10X6A10X6_UNORM_4PACK16 :: VkFormat where "VK_FORMAT_R10X6G10X6B10X6A10X6_UNORM_4PACK16 \<equiv> 1000156009"
abbreviation (input) VK_FORMAT_G10X6B10X6G10X6R10X6_422_UNORM_4PACK16 :: VkFormat where "VK_FORMAT_G10X6B10X6G10X6R10X6_422_UNORM_4PACK16 \<equiv> 1000156010"
abbreviation (input) VK_FORMAT_B10X6G10X6R10X6G10X6_422_UNORM_4PACK16 :: VkFormat where "VK_FORMAT_B10X6G10X6R10X6G10X6_422_UNORM_4PACK16 \<equiv> 1000156011"
abbreviation (input) VK_FORMAT_G8B8G8R8_422_UNORM :: VkFormat where "VK_FORMAT_G8B8G8R8_422_UNORM \<equiv> 1000156000"
abbreviation (input) VK_FORMAT_B8G8R8G8_422_UNORM :: VkFormat where "VK_FORMAT_B8G8R8G8_422_UNORM \<equiv> 1000156001"
abbreviation (input) VK_FORMAT_G8_B8_R8_3PLANE_420_UNORM :: VkFormat where "VK_FORMAT_G8_B8_R8_3PLANE_420_UNORM \<equiv> 1000156002"
abbreviation (input) VK_FORMAT_G8_B8R8_2PLANE_420_UNORM :: VkFormat where "VK_FORMAT_G8_B8R8_2PLANE_420_UNORM \<equiv> 1000156003"
abbreviation (input) VK_FORMAT_G8_B8_R8_3PLANE_422_UNORM :: VkFormat where "VK_FORMAT_G8_B8_R8_3PLANE_422_UNORM \<equiv> 1000156004"
abbreviation (input) VK_FORMAT_G8_B8R8_2PLANE_422_UNORM :: VkFormat where "VK_FORMAT_G8_B8R8_2PLANE_422_UNORM \<equiv> 1000156005"
abbreviation (input) VK_FORMAT_G8_B8_R8_3PLANE_444_UNORM :: VkFormat where "VK_FORMAT_G8_B8_R8_3PLANE_444_UNORM \<equiv> 1000156006"
abbreviation (input) VK_FORMAT_G10X6_B10X6_R10X6_3PLANE_420_UNORM_3PACK16 :: VkFormat where "VK_FORMAT_G10X6_B10X6_R10X6_3PLANE_420_UNORM_3PACK16 \<equiv> 1000156012"
abbreviation (input) VK_FORMAT_G10X6_B10X6_R10X6_3PLANE_422_UNORM_3PACK16 :: VkFormat where "VK_FORMAT_G10X6_B10X6_R10X6_3PLANE_422_UNORM_3PACK16 \<equiv> 1000156014"
abbreviation (input) VK_FORMAT_G10X6_B10X6_R10X6_3PLANE_444_UNORM_3PACK16 :: VkFormat where "VK_FORMAT_G10X6_B10X6_R10X6_3PLANE_444_UNORM_3PACK16 \<equiv> 1000156016"
abbreviation (input) VK_FORMAT_G10X6_B10X6R10X6_2PLANE_420_UNORM_3PACK16 :: VkFormat where "VK_FORMAT_G10X6_B10X6R10X6_2PLANE_420_UNORM_3PACK16 \<equiv> 1000156013"
abbreviation (input) VK_FORMAT_G10X6_B10X6R10X6_2PLANE_422_UNORM_3PACK16 :: VkFormat where "VK_FORMAT_G10X6_B10X6R10X6_2PLANE_422_UNORM_3PACK16 \<equiv> 1000156015"
abbreviation (input) VK_FORMAT_G12X4_B12X4_R12X4_3PLANE_420_UNORM_3PACK16 :: VkFormat where "VK_FORMAT_G12X4_B12X4_R12X4_3PLANE_420_UNORM_3PACK16 \<equiv> 1000156022"
abbreviation (input) VK_FORMAT_G12X4_B12X4_R12X4_3PLANE_422_UNORM_3PACK16 :: VkFormat where "VK_FORMAT_G12X4_B12X4_R12X4_3PLANE_422_UNORM_3PACK16 \<equiv> 1000156024"
abbreviation (input) VK_FORMAT_G12X4_B12X4_R12X4_3PLANE_444_UNORM_3PACK16 :: VkFormat where "VK_FORMAT_G12X4_B12X4_R12X4_3PLANE_444_UNORM_3PACK16 \<equiv> 1000156026"
abbreviation (input) VK_FORMAT_G12X4_B12X4R12X4_2PLANE_420_UNORM_3PACK16 :: VkFormat where "VK_FORMAT_G12X4_B12X4R12X4_2PLANE_420_UNORM_3PACK16 \<equiv> 1000156023"
abbreviation (input) VK_FORMAT_G12X4_B12X4R12X4_2PLANE_422_UNORM_3PACK16 :: VkFormat where "VK_FORMAT_G12X4_B12X4R12X4_2PLANE_422_UNORM_3PACK16 \<equiv> 1000156025"
abbreviation (input) VK_FORMAT_G16_B16_R16_3PLANE_420_UNORM :: VkFormat where "VK_FORMAT_G16_B16_R16_3PLANE_420_UNORM \<equiv> 1000156029"
abbreviation (input) VK_FORMAT_G16_B16_R16_3PLANE_422_UNORM :: VkFormat where "VK_FORMAT_G16_B16_R16_3PLANE_422_UNORM \<equiv> 1000156031"
abbreviation (input) VK_FORMAT_G16_B16_R16_3PLANE_444_UNORM :: VkFormat where "VK_FORMAT_G16_B16_R16_3PLANE_444_UNORM \<equiv> 1000156033"
abbreviation (input) VK_FORMAT_G16_B16R16_2PLANE_420_UNORM :: VkFormat where "VK_FORMAT_G16_B16R16_2PLANE_420_UNORM \<equiv> 1000156030"
abbreviation (input) VK_FORMAT_G16_B16R16_2PLANE_422_UNORM :: VkFormat where "VK_FORMAT_G16_B16R16_2PLANE_422_UNORM \<equiv> 1000156032"
abbreviation (input) VK_FORMAT_D16_UNORM :: VkFormat where "VK_FORMAT_D16_UNORM \<equiv> 124"
abbreviation (input) VK_FORMAT_X8_D24_UNORM_PACK32 :: VkFormat where "VK_FORMAT_X8_D24_UNORM_PACK32 \<equiv> 125"
abbreviation (input) VK_FORMAT_D32_SFLOAT :: VkFormat where "VK_FORMAT_D32_SFLOAT \<equiv> 126"
abbreviation (input) VK_FORMAT_S8_UINT :: VkFormat where "VK_FORMAT_S8_UINT \<equiv> 127"
abbreviation (input) VK_FORMAT_D16_UNORM_S8_UINT :: VkFormat where "VK_FORMAT_D16_UNORM_S8_UINT \<equiv> 128"
abbreviation (input) VK_FORMAT_D24_UNORM_S8_UINT :: VkFormat where "VK_FORMAT_D24_UNORM_S8_UINT \<equiv> 129"
abbreviation (input) VK_FORMAT_D32_SFLOAT_S8_UINT :: VkFormat where "VK_FORMAT_D32_SFLOAT_S8_UINT \<equiv> 130"
abbreviation (input) VK_FORMAT_BC1_RGB_UNORM_BLOCK :: VkFormat where "VK_FORMAT_BC1_RGB_UNORM_BLOCK \<equiv> 131"
abbreviation (input) VK_FORMAT_BC1_RGB_SRGB_BLOCK :: VkFormat where "VK_FORMAT_BC1_RGB_SRGB_BLOCK \<equiv> 132"
abbreviation (input) VK_FORMAT_BC1_RGBA_UNORM_BLOCK :: VkFormat where "VK_FORMAT_BC1_RGBA_UNORM_BLOCK \<equiv> 133"
abbreviation (input) VK_FORMAT_BC1_RGBA_SRGB_BLOCK :: VkFormat where "VK_FORMAT_BC1_RGBA_SRGB_BLOCK \<equiv> 134"
abbreviation (input) VK_FORMAT_BC2_UNORM_BLOCK :: VkFormat where "VK_FORMAT_BC2_UNORM_BLOCK \<equiv> 135"
abbreviation (input) VK_FORMAT_BC2_SRGB_BLOCK :: VkFormat where "VK_FORMAT_BC2_SRGB_BLOCK \<equiv> 136"
abbreviation (input) VK_FORMAT_BC3_UNORM_BLOCK :: VkFormat where "VK_FORMAT_BC3_UNORM_BLOCK \<equiv> 137"
abbreviation (input) VK_FORMAT_BC3_SRGB_BLOCK :: VkFormat where "VK_FORMAT_BC3_SRGB_BLOCK \<equiv> 138"
abbreviation (input) VK_FORMAT_BC4_UNORM_BLOCK :: VkFormat where "VK_FORMAT_BC4_UNORM_BLOCK \<equiv> 139"
abbreviation (input) VK_FORMAT_BC4_SNORM_BLOCK :: VkFormat where "VK_FORMAT_BC4_SNORM_BLOCK \<equiv> 140"
abbreviation (input) VK_FORMAT_BC5_UNORM_BLOCK :: VkFormat where "VK_FORMAT_BC5_UNORM_BLOCK \<equiv> 141"
abbreviation (input) VK_FORMAT_BC5_SNORM_BLOCK :: VkFormat where "VK_FORMAT_BC5_SNORM_BLOCK \<equiv> 142"
abbreviation (input) VK_FORMAT_BC6H_UFLOAT_BLOCK :: VkFormat where "VK_FORMAT_BC6H_UFLOAT_BLOCK \<equiv> 143"
abbreviation (input) VK_FORMAT_BC6H_SFLOAT_BLOCK :: VkFormat where "VK_FORMAT_BC6H_SFLOAT_BLOCK \<equiv> 144"
abbreviation (input) VK_FORMAT_BC7_UNORM_BLOCK :: VkFormat where "VK_FORMAT_BC7_UNORM_BLOCK \<equiv> 145"
abbreviation (input) VK_FORMAT_BC7_SRGB_BLOCK :: VkFormat where "VK_FORMAT_BC7_SRGB_BLOCK \<equiv> 146"
abbreviation (input) VK_FORMAT_PVRTC1_2BPP_UNORM_BLOCK_IMG :: VkFormat where "VK_FORMAT_PVRTC1_2BPP_UNORM_BLOCK_IMG \<equiv> 1000054000"
abbreviation (input) VK_FORMAT_PVRTC1_4BPP_UNORM_BLOCK_IMG :: VkFormat where "VK_FORMAT_PVRTC1_4BPP_UNORM_BLOCK_IMG \<equiv> 1000054001"
abbreviation (input) VK_FORMAT_PVRTC1_2BPP_SRGB_BLOCK_IMG :: VkFormat where "VK_FORMAT_PVRTC1_2BPP_SRGB_BLOCK_IMG \<equiv> 1000054004"
abbreviation (input) VK_FORMAT_PVRTC1_4BPP_SRGB_BLOCK_IMG :: VkFormat where "VK_FORMAT_PVRTC1_4BPP_SRGB_BLOCK_IMG \<equiv> 1000054005"
abbreviation (input) VK_FORMAT_ETC2_R8G8B8_UNORM_BLOCK :: VkFormat where "VK_FORMAT_ETC2_R8G8B8_UNORM_BLOCK \<equiv> 147"
abbreviation (input) VK_FORMAT_ETC2_R8G8B8A1_UNORM_BLOCK :: VkFormat where "VK_FORMAT_ETC2_R8G8B8A1_UNORM_BLOCK \<equiv> 149"
abbreviation (input) VK_FORMAT_ETC2_R8G8B8A8_UNORM_BLOCK :: VkFormat where "VK_FORMAT_ETC2_R8G8B8A8_UNORM_BLOCK \<equiv> 151"
abbreviation (input) VK_FORMAT_ETC2_R8G8B8_SRGB_BLOCK :: VkFormat where "VK_FORMAT_ETC2_R8G8B8_SRGB_BLOCK \<equiv> 148"
abbreviation (input) VK_FORMAT_ETC2_R8G8B8A1_SRGB_BLOCK :: VkFormat where "VK_FORMAT_ETC2_R8G8B8A1_SRGB_BLOCK \<equiv> 150"
abbreviation (input) VK_FORMAT_ETC2_R8G8B8A8_SRGB_BLOCK :: VkFormat where "VK_FORMAT_ETC2_R8G8B8A8_SRGB_BLOCK \<equiv> 152"
abbreviation (input) VK_FORMAT_EAC_R11_UNORM_BLOCK :: VkFormat where "VK_FORMAT_EAC_R11_UNORM_BLOCK \<equiv> 153"
abbreviation (input) VK_FORMAT_EAC_R11G11_UNORM_BLOCK :: VkFormat where "VK_FORMAT_EAC_R11G11_UNORM_BLOCK \<equiv> 155"
abbreviation (input) VK_FORMAT_EAC_R11_SNORM_BLOCK :: VkFormat where "VK_FORMAT_EAC_R11_SNORM_BLOCK \<equiv> 154"
abbreviation (input) VK_FORMAT_EAC_R11G11_SNORM_BLOCK :: VkFormat where "VK_FORMAT_EAC_R11G11_SNORM_BLOCK \<equiv> 156"
abbreviation (input) VK_FORMAT_ASTC_4x4_UNORM_BLOCK :: VkFormat where "VK_FORMAT_ASTC_4x4_UNORM_BLOCK \<equiv> 157"
abbreviation (input) VK_FORMAT_ASTC_4x4_SRGB_BLOCK :: VkFormat where "VK_FORMAT_ASTC_4x4_SRGB_BLOCK \<equiv> 158"
abbreviation (input) VK_FORMAT_ASTC_5x4_UNORM_BLOCK :: VkFormat where "VK_FORMAT_ASTC_5x4_UNORM_BLOCK \<equiv> 159"
abbreviation (input) VK_FORMAT_ASTC_5x4_SRGB_BLOCK :: VkFormat where "VK_FORMAT_ASTC_5x4_SRGB_BLOCK \<equiv> 160"
abbreviation (input) VK_FORMAT_ASTC_5x5_UNORM_BLOCK :: VkFormat where "VK_FORMAT_ASTC_5x5_UNORM_BLOCK \<equiv> 161"
abbreviation (input) VK_FORMAT_ASTC_5x5_SRGB_BLOCK :: VkFormat where "VK_FORMAT_ASTC_5x5_SRGB_BLOCK \<equiv> 162"
abbreviation (input) VK_FORMAT_ASTC_6x5_UNORM_BLOCK :: VkFormat where "VK_FORMAT_ASTC_6x5_UNORM_BLOCK \<equiv> 163"
abbreviation (input) VK_FORMAT_ASTC_6x5_SRGB_BLOCK :: VkFormat where "VK_FORMAT_ASTC_6x5_SRGB_BLOCK \<equiv> 164"
abbreviation (input) VK_FORMAT_ASTC_6x6_UNORM_BLOCK :: VkFormat where "VK_FORMAT_ASTC_6x6_UNORM_BLOCK \<equiv> 165"
abbreviation (input) VK_FORMAT_ASTC_6x6_SRGB_BLOCK :: VkFormat where "VK_FORMAT_ASTC_6x6_SRGB_BLOCK \<equiv> 166"
abbreviation (input) VK_FORMAT_ASTC_8x5_UNORM_BLOCK :: VkFormat where "VK_FORMAT_ASTC_8x5_UNORM_BLOCK \<equiv> 167"
abbreviation (input) VK_FORMAT_ASTC_8x5_SRGB_BLOCK :: VkFormat where "VK_FORMAT_ASTC_8x5_SRGB_BLOCK \<equiv> 168"
abbreviation (input) VK_FORMAT_ASTC_8x6_UNORM_BLOCK :: VkFormat where "VK_FORMAT_ASTC_8x6_UNORM_BLOCK \<equiv> 169"
abbreviation (input) VK_FORMAT_ASTC_8x6_SRGB_BLOCK :: VkFormat where "VK_FORMAT_ASTC_8x6_SRGB_BLOCK \<equiv> 170"
abbreviation (input) VK_FORMAT_ASTC_8x8_UNORM_BLOCK :: VkFormat where "VK_FORMAT_ASTC_8x8_UNORM_BLOCK \<equiv> 171"
abbreviation (input) VK_FORMAT_ASTC_8x8_SRGB_BLOCK :: VkFormat where "VK_FORMAT_ASTC_8x8_SRGB_BLOCK \<equiv> 172"
abbreviation (input) VK_FORMAT_ASTC_10x5_UNORM_BLOCK :: VkFormat where "VK_FORMAT_ASTC_10x5_UNORM_BLOCK \<equiv> 173"
abbreviation (input) VK_FORMAT_ASTC_10x5_SRGB_BLOCK :: VkFormat where "VK_FORMAT_ASTC_10x5_SRGB_BLOCK \<equiv> 174"
abbreviation (input) VK_FORMAT_ASTC_10x6_UNORM_BLOCK :: VkFormat where "VK_FORMAT_ASTC_10x6_UNORM_BLOCK \<equiv> 175"
abbreviation (input) VK_FORMAT_ASTC_10x6_SRGB_BLOCK :: VkFormat where "VK_FORMAT_ASTC_10x6_SRGB_BLOCK \<equiv> 176"
abbreviation (input) VK_FORMAT_ASTC_10x8_UNORM_BLOCK :: VkFormat where "VK_FORMAT_ASTC_10x8_UNORM_BLOCK \<equiv> 177"
abbreviation (input) VK_FORMAT_ASTC_10x8_SRGB_BLOCK :: VkFormat where "VK_FORMAT_ASTC_10x8_SRGB_BLOCK \<equiv> 178"
abbreviation (input) VK_FORMAT_ASTC_10x10_UNORM_BLOCK :: VkFormat where "VK_FORMAT_ASTC_10x10_UNORM_BLOCK \<equiv> 179"
abbreviation (input) VK_FORMAT_ASTC_10x10_SRGB_BLOCK :: VkFormat where "VK_FORMAT_ASTC_10x10_SRGB_BLOCK \<equiv> 180"
abbreviation (input) VK_FORMAT_ASTC_12x10_UNORM_BLOCK :: VkFormat where "VK_FORMAT_ASTC_12x10_UNORM_BLOCK \<equiv> 181"
abbreviation (input) VK_FORMAT_ASTC_12x10_SRGB_BLOCK :: VkFormat where "VK_FORMAT_ASTC_12x10_SRGB_BLOCK \<equiv> 182"
abbreviation (input) VK_FORMAT_ASTC_12x12_UNORM_BLOCK :: VkFormat where "VK_FORMAT_ASTC_12x12_UNORM_BLOCK \<equiv> 183"
abbreviation (input) VK_FORMAT_ASTC_12x12_SRGB_BLOCK :: VkFormat where "VK_FORMAT_ASTC_12x12_SRGB_BLOCK \<equiv> 184"
abbreviation (input) VK_FORMAT_PVRTC2_2BPP_UNORM_BLOCK_IMG :: VkFormat where "VK_FORMAT_PVRTC2_2BPP_UNORM_BLOCK_IMG \<equiv> 1000054002"
abbreviation (input) VK_FORMAT_PVRTC2_4BPP_UNORM_BLOCK_IMG :: VkFormat where "VK_FORMAT_PVRTC2_4BPP_UNORM_BLOCK_IMG \<equiv> 1000054003"
abbreviation (input) VK_FORMAT_PVRTC2_2BPP_SRGB_BLOCK_IMG :: VkFormat where "VK_FORMAT_PVRTC2_2BPP_SRGB_BLOCK_IMG \<equiv> 1000054006"
abbreviation (input) VK_FORMAT_PVRTC2_4BPP_SRGB_BLOCK_IMG :: VkFormat where "VK_FORMAT_PVRTC2_4BPP_SRGB_BLOCK_IMG \<equiv> 1000054007"
abbreviation (input) VK_FORMAT_A8B8G8R8_UNORM_PACK32 :: VkFormat where "VK_FORMAT_A8B8G8R8_UNORM_PACK32 \<equiv> 51"
abbreviation (input) VK_FORMAT_R8_USCALED :: VkFormat where "VK_FORMAT_R8_USCALED \<equiv> 11"
abbreviation (input) VK_FORMAT_R8_SSCALED :: VkFormat where "VK_FORMAT_R8_SSCALED \<equiv> 12"
abbreviation (input) VK_FORMAT_R8G8_USCALED :: VkFormat where "VK_FORMAT_R8G8_USCALED \<equiv> 18"
abbreviation (input) VK_FORMAT_R8G8_SSCALED :: VkFormat where "VK_FORMAT_R8G8_SSCALED \<equiv> 19"
abbreviation (input) VK_FORMAT_R8G8B8_USCALED :: VkFormat where "VK_FORMAT_R8G8B8_USCALED \<equiv> 25"
abbreviation (input) VK_FORMAT_R8G8B8_SSCALED :: VkFormat where "VK_FORMAT_R8G8B8_SSCALED \<equiv> 26"
abbreviation (input) VK_FORMAT_B8G8R8_USCALED :: VkFormat where "VK_FORMAT_B8G8R8_USCALED \<equiv> 32"
abbreviation (input) VK_FORMAT_B8G8R8_SSCALED :: VkFormat where "VK_FORMAT_B8G8R8_SSCALED \<equiv> 33"
abbreviation (input) VK_FORMAT_R8G8B8A8_USCALED :: VkFormat where "VK_FORMAT_R8G8B8A8_USCALED \<equiv> 39"
abbreviation (input) VK_FORMAT_R8G8B8A8_SSCALED :: VkFormat where "VK_FORMAT_R8G8B8A8_SSCALED \<equiv> 40"
abbreviation (input) VK_FORMAT_B8G8R8A8_USCALED :: VkFormat where "VK_FORMAT_B8G8R8A8_USCALED \<equiv> 46"
abbreviation (input) VK_FORMAT_B8G8R8A8_SSCALED :: VkFormat where "VK_FORMAT_B8G8R8A8_SSCALED \<equiv> 47"
abbreviation (input) VK_FORMAT_A8B8G8R8_SNORM_PACK32 :: VkFormat where "VK_FORMAT_A8B8G8R8_SNORM_PACK32 \<equiv> 52"
abbreviation (input) VK_FORMAT_A8B8G8R8_USCALED_PACK32 :: VkFormat where "VK_FORMAT_A8B8G8R8_USCALED_PACK32 \<equiv> 53"
abbreviation (input) VK_FORMAT_A8B8G8R8_SSCALED_PACK32 :: VkFormat where "VK_FORMAT_A8B8G8R8_SSCALED_PACK32 \<equiv> 54"
abbreviation (input) VK_FORMAT_A8B8G8R8_UINT_PACK32 :: VkFormat where "VK_FORMAT_A8B8G8R8_UINT_PACK32 \<equiv> 55"
abbreviation (input) VK_FORMAT_A8B8G8R8_SINT_PACK32 :: VkFormat where "VK_FORMAT_A8B8G8R8_SINT_PACK32 \<equiv> 56"
abbreviation (input) VK_FORMAT_A8B8G8R8_SRGB_PACK32 :: VkFormat where "VK_FORMAT_A8B8G8R8_SRGB_PACK32 \<equiv> 57"
abbreviation (input) VK_FORMAT_A2R10G10B10_SNORM_PACK32 :: VkFormat where "VK_FORMAT_A2R10G10B10_SNORM_PACK32 \<equiv> 59"
abbreviation (input) VK_FORMAT_A2R10G10B10_USCALED_PACK32 :: VkFormat where "VK_FORMAT_A2R10G10B10_USCALED_PACK32 \<equiv> 60"
abbreviation (input) VK_FORMAT_A2R10G10B10_SSCALED_PACK32 :: VkFormat where "VK_FORMAT_A2R10G10B10_SSCALED_PACK32 \<equiv> 61"
abbreviation (input) VK_FORMAT_A2R10G10B10_SINT_PACK32 :: VkFormat where "VK_FORMAT_A2R10G10B10_SINT_PACK32 \<equiv> 63"
abbreviation (input) VK_FORMAT_A2B10G10R10_SNORM_PACK32 :: VkFormat where "VK_FORMAT_A2B10G10R10_SNORM_PACK32 \<equiv> 65"
abbreviation (input) VK_FORMAT_A2B10G10R10_USCALED_PACK32 :: VkFormat where "VK_FORMAT_A2B10G10R10_USCALED_PACK32 \<equiv> 66"
abbreviation (input) VK_FORMAT_A2B10G10R10_SSCALED_PACK32 :: VkFormat where "VK_FORMAT_A2B10G10R10_SSCALED_PACK32 \<equiv> 67"
abbreviation (input) VK_FORMAT_A2B10G10R10_SINT_PACK32 :: VkFormat where "VK_FORMAT_A2B10G10R10_SINT_PACK32 \<equiv> 69"
abbreviation (input) VK_FORMAT_R16_USCALED :: VkFormat where "VK_FORMAT_R16_USCALED \<equiv> 72"
abbreviation (input) VK_FORMAT_R16_SSCALED :: VkFormat where "VK_FORMAT_R16_SSCALED \<equiv> 73"
abbreviation (input) VK_FORMAT_R16G16_USCALED :: VkFormat where "VK_FORMAT_R16G16_USCALED \<equiv> 79"
abbreviation (input) VK_FORMAT_R16G16_SSCALED :: VkFormat where "VK_FORMAT_R16G16_SSCALED \<equiv> 80"
abbreviation (input) VK_FORMAT_R16G16B16_USCALED :: VkFormat where "VK_FORMAT_R16G16B16_USCALED \<equiv> 86"
abbreviation (input) VK_FORMAT_R16G16B16_SSCALED :: VkFormat where "VK_FORMAT_R16G16B16_SSCALED \<equiv> 87"
abbreviation (input) VK_FORMAT_R16G16B16A16_USCALED :: VkFormat where "VK_FORMAT_R16G16B16A16_USCALED \<equiv> 93"
abbreviation (input) VK_FORMAT_R16G16B16A16_SSCALED :: VkFormat where "VK_FORMAT_R16G16B16A16_SSCALED \<equiv> 94"
abbreviation (input) VK_FORMAT_R10X6_UNORM_PACK16 :: VkFormat where "VK_FORMAT_R10X6_UNORM_PACK16 \<equiv> 1000156007"
abbreviation (input) VK_FORMAT_R10X6G10X6_UNORM_2PACK16 :: VkFormat where "VK_FORMAT_R10X6G10X6_UNORM_2PACK16 \<equiv> 1000156008"
abbreviation (input) VK_FORMAT_R12X4_UNORM_PACK16 :: VkFormat where "VK_FORMAT_R12X4_UNORM_PACK16 \<equiv> 1000156017"
abbreviation (input) VK_FORMAT_R12X4G12X4_UNORM_2PACK16 :: VkFormat where "VK_FORMAT_R12X4G12X4_UNORM_2PACK16 \<equiv> 1000156018"

section \<open>The two translations\<close>

definition VkUtil_FormatTranslateToVk :: "ECGPUFormat \<Rightarrow> VkFormat" where
  "VkUtil_FormatTranslateToVk format = c_switch
     [(CGPU_FORMAT_UNDEFINED, VK_FORMAT_UNDEFINED),
      (CGPU_FORMAT_G4R4_UNORM, VK_FORMAT_R4G4_UNORM_PACK8),
      (CGPU_FORMAT_A4B4G4R4_UNORM, VK_FORMAT_R4G4B4A4_UNORM_PACK16),
      (CGPU_FORMAT_A4R4G4B4_UNORM, VK_FORMAT_B4G4R4A4_UNORM_PACK16),
      (CGPU_FORMAT_R5G6B5_UNORM, VK_FORMAT_B5G6R5_UNORM_PACK16),
      (CGPU_FORMAT_B5G6R5_UNORM, VK_FORMAT_R5G6B5_UNORM_PACK16),
      (CGPU_FORMAT_A1B5G5R5_UNORM, VK_FORMAT_R5G5B5A1_UNORM_PACK16),
      (CGPU_FORMAT_A1R5G5B5_UNORM, VK_FORMAT_B5G5R5A1_UNORM_PACK16),
      (CGPU_FORMAT_B5G5R5A1_UNORM, VK_FORMAT_A1R5G5B5_UNORM_PACK16),
      (CGPU_FORMAT_A2B10G10R10_UNORM, VK_FORMAT_A2B10G10R10_UNORM_PACK32),
      (CGPU_FORMAT_R8_UNORM, VK_FORMAT_R8_UNORM),
      (CGPU_FORMAT_R8_SNORM, VK_FORMAT_R8_SNORM),
      (CGPU_FORMAT_R8_UINT, VK_FORMAT_R8_UINT),
      (CGPU_FORMAT_R8_SINT, VK_FORMAT_R8_SINT),
      (CGPU_FORMAT_R8_SRGB, VK_FORMAT_R8_SRGB),
      (CGPU_FORMAT_R8G8_UNORM, VK_FORMAT_R8G8_UNORM),
      (CGPU_FORMAT_R8G8_SNORM, VK_FORMAT_R8G8_SNORM),
      (CGPU_FORMAT_R8G8_UINT, VK_FORMAT_R8G8_UINT),
      (CGPU_FORMAT_R8G8_SINT, VK_FORMAT_R8G8_SINT),
      (CGPU_FORMAT_R8G8_SRGB, VK_FORMAT_R8G8_SRGB),
      (CGPU_FORMAT_R8G8B8_UNORM, VK_FORMAT_R8G8B8_UNORM),
      (CGPU_FORMAT_R8G8B8_SNORM, VK_FORMAT_R8G8B8_SNORM),
      (CGPU_FORMAT_R8G8B8_UINT, VK_FORMAT_R8G8B8_UINT),
      (CGPU_FORMAT_R8G8B8_SINT, VK_FORMAT_R8G8B8_SINT),
      (CGPU_FORMAT_R8G8B8_SRGB, VK_FORMAT_R8G8B8_SRGB),
      (CGPU_FORMAT_B8G8R8_UNORM, VK_FORMAT_B8G8R8_UNORM),
      (CGPU_FORMAT_B8G8R8_SNORM, VK_FORMAT_B8G8R8_SNORM),
      (CGPU_FORMAT_B8G8R8_UINT, VK_FORMAT_B8G8R8_UINT),
      (CGPU_FORMAT_B8G8R8_SINT, VK_FORMAT_B8G8R8_SINT),
      (CGPU_FORMAT_B8G8R8_SRGB, VK_FORMAT_B8G8R8_SRGB),
      (CGPU_FORMAT_R8G8B8A8_UNORM, VK_FORMAT_R8G8B8A8_UNORM),
      (CGPU_FORMAT_R8G8B8A8_SNORM, VK_FORMAT_R8G8B8A8_SNORM),
      (CGPU_FORMAT_R8G8B8A8_UINT, VK_FORMAT_R8G8B8A8_UINT),
      (CGPU_FORMAT_R8G8B8A8_SINT, VK_FORMAT_R8G8B8A8_SINT),
      (CGPU_FORMAT_R8G8B8A8_SRGB, VK_FORMAT_R8G8B8A8_SRGB),
      (CGPU_FORMAT_B8G8R8A8_UNORM, VK_FORMAT_B8G8R8A8_UNORM),
      (CGPU_FORMAT_B8G8R8A8_SNORM, VK_FORMAT_B8G8R8A8_SNORM),
      (CGPU_FORMAT_B8G8R8A8_UINT, VK_FORMAT_B8G8R8A8_UINT),
      (CGPU_FORMAT_B8G8R8A8_SINT, VK_FORMAT_B8G8R8A8_SINT),
      (CGPU_FORMAT_B8G8R8A8_SRGB, VK_FORMAT_B8G8R8A8_SRGB),
      (CGPU_FORMAT_R16_UNORM, VK_FORMAT_R16_UNORM),
      (CGPU_FORMAT_R16_SNORM, VK_FORMAT_R16_SNORM),
      (CGPU_FORMAT_R16_UINT, VK_FORMAT_R16_UINT),
      (CGPU_FORMAT_R16_SINT, VK_FORMAT_R16_SINT),
      (CGPU_FORMAT_R16_SFLOAT, VK_FORMAT_R16_SFLOAT),
      (CGPU_FORMAT_R16G16_UNORM, VK_FORMAT_R16G16_UNORM),
      (CGPU_FORMAT_R16G16_SNORM, VK_FORMAT_R16G16_SNORM),
      (CGPU_FORMAT_R16G16_UINT, VK_FORMAT_R16G16_UINT),
      (CGPU_FORMAT_R16G16_SINT, VK_FORMAT_R16G16_SINT),
      (CGPU_FORMAT_R16G16_SFLOAT, VK_FORMAT_R16G16_SFLOAT),
      (CGPU_FORMAT_R16G16B16_UNORM, VK_FORMAT_R16G16B16_UNORM),
      (CGPU_FORMAT_R16G16B16_SNORM, VK_FORMAT_R16G16B16_SNORM),
      (CGPU_FORMAT_R16G16B16_UINT, VK_FORMAT_R16G16B16_UINT),
      (CGPU_FORMAT_R16G16B16_SINT, VK_FORMAT_R16G16B16_SINT),
      (CGPU_FORMAT_R16G16B16_SFLOAT, VK_FORMAT_R16G16B16_SFLOAT),
      (CGPU_FORMAT_R16G16B16A16_UNORM, VK_FORMAT_R16G16B16A16_UNORM),
      (CGPU_FORMAT_R16G16B16A16_SNORM, VK_FORMAT_R16G16B16A16_SNORM),
      (CGPU_FORMAT_R16G16B16A16_UINT, VK_FORMAT_R16G16B16A16_UINT),
      (CGPU_FORMAT_R16G16B16A16_SINT, VK_FORMAT_R16G16B16A16_SINT),
      (CGPU_FORMAT_R16G16B16A16_SFLOAT, VK_FORMAT_R16G16B16A16_SFLOAT),
      (CGPU_FORMAT_R32_UINT, VK_FORMAT_R32_UINT),
      (CGPU_FORMAT_R32_SINT, VK_FORMAT_R32_SINT),
      (CGPU_FORMAT_R32_SFLOAT, VK_FORMAT_R32_SFLOAT),
      (CGPU_FORMAT_R32G32_UINT, VK_FORMAT_R32G32_UINT),
      (CGPU_FORMAT_R32G32_SINT, VK_FORMAT_R32G32_SINT),
      (CGPU_FORMAT_R32G32_SFLOAT, VK_FORMAT_R32G32_SFLOAT),
      (CGPU_FORMAT_R32G32B32_UINT, VK_FORMAT_R32G32B32_UINT),
      (CGPU_FORMAT_R32G32B32_SINT, VK_FORMAT_R32G32B32_SINT),
      (CGPU_FORMAT_R32G32B32_SFLOAT, VK_FORMAT_R32G32B32_SFLOAT),
      (CGPU_FORMAT_R32G32B32A32_UINT, VK_FORMAT_R32G32B32A32_UINT),
      (CGPU_FORMAT_R32G32B32A32_SINT, VK_FORMAT_R32G32B32A32_SINT),
      (CGPU_FORMAT_R32G32B32A32_SFLOAT, VK_FORMAT_R32G32B32A32_SFLOAT),
      (CGPU_FORMAT_R64_UINT, VK_FORMAT_R64_UINT),
      (CGPU_FORMAT_R64_SINT, VK_FORMAT_R64_SINT),
      (CGPU_FORMAT_R64_SFLOAT, VK_FORMAT_R64_SFLOAT),
      (CGPU_FORMAT_R64G64_UINT, VK_FORMAT_R64G64_UINT),
      (CGPU_FORMAT_R64G64_SINT, VK_FORMAT_R64G64_SINT),
      (CGPU_FORMAT_R64G64_SFLOAT, VK_FORMAT_R64G64_SFLOAT),
      (CGPU_FORMAT_R64G64B64_UINT, VK_FORMAT_R64G64B64_UINT),
      (CGPU_FORMAT_R64G64B64_SINT, VK_FORMAT_R64G64B64_SINT),
      (CGPU_FORMAT_R64G64B64_SFLOAT, VK_FORMAT_R64G64B64_SFLOAT),
      (CGPU_FORMAT_R64G64B64A64_UINT, VK_FORMAT_R64G64B64A64_UINT),
      (CGPU_FORMAT_R64G64B64A64_SINT, VK_FORMAT_R64G64B64A64_SINT),
      (CGPU_FORMAT_R64G64B64A64_SFLOAT, VK_FORMAT_R64G64B64A64_SFLOAT),
      (CGPU_FORMAT_B10G10R10A2_UNORM, VK_FORMAT_A2R10G10B10_UNORM_PACK32),
      (CGPU_FORMAT_B10G10R10A2_UINT, VK_FORMAT_A2R10G10B10_UINT_PACK32),
      (CGPU_FORMAT_R10G10B10A2_UNORM, VK_FORMAT_A2B10G10R10_UNORM_PACK32),
      (CGPU_FORMAT_R10G10B10A2_UINT, VK_FORMAT_A2B10G10R10_UINT_PACK32),
      (CGPU_FORMAT_B10G11R11_UFLOAT, VK_FORMAT_B10G11R11_UFLOAT_PACK32),
      (CGPU_FORMAT_E5B9G9R9_UFLOAT, VK_FORMAT_E5B9G9R9_UFLOAT_PACK32),
      (CGPU_FORMAT_G16B16G16R16_422_UNORM, VK_FORMAT_G16B16G16R16_422_UNORM),
      (CGPU_FORMAT_B16G16R16G16_422_UNORM, VK_FORMAT_B16G16R16G16_422_UNORM),
      (CGPU_FORMAT_R12X4G12X4B12X4A12X4_UNORM_4PACK16, VK_FORMAT_R12X4G12X4B12X4A12X4_UNORM_4PACK16),
      (CGPU_FORMAT_G12X4B12X4G12X4R12X4_422_UNORM_4PACK16, VK_FORMAT_G12X4B12X4G12X4R12X4_422_UNORM_4PACK16),
      (CGPU_FORMAT_B12X4G12X4R12X4G12X4_422_UNORM_4PACK16, VK_FORMAT_B12X4G12X4R12X4G12X4_422_UNORM_4PACK16),
      (CGPU_FORMAT_R10X6G10X6B10X6A10X6_UNORM_4PACK16, VK_FORMAT_R10X6G10X6B10X6A10X6_UNORM_4PACK16),
      (CGPU_FORMAT_G10X6B10X6G10X6R10X6_422_UNORM_4PACK16, VK_FORMAT_G10X6B10X6G10X6R10X6_422_UNORM_4PACK16),
      (CGPU_FORMAT_B10X6G10X6R10X6G10X6_422_UNORM_4PACK16, VK_FORMAT_B10X6G10X6R10X6G10X6_422_UNORM_4PACK16),
      (CGPU_FORMAT_G8B8G8R8_422_UNORM, VK_FORMAT_G8B8G8R8_422_UNORM),
      (CGPU_FORMAT_B8G8R8G8_422_UNORM, VK_FORMAT_B8G8R8G8_422_UNORM),
      (CGPU_FORMAT_G8_B8_R8_3PLANE_420_UNORM, VK_FORMAT_G8_B8_R8_3PLANE_420_UNORM),
      (CGPU_FORMAT_G8_B8R8_2PLANE_420_UNORM, VK_FORMAT_G8_B8R8_2PLANE_420_UNORM),
      (CGPU_FORMAT_G8_B8_R8_3PLANE_422_UNORM, VK_FORMAT_G8_B8_R8_3PLANE_422_UNORM),
      (CGPU_FORMAT_G8_B8R8_2PLANE_422_UNORM, VK_FORMAT_G8_B8R8_2PLANE_422_UNORM),
      (CGPU_FORMAT_G8_B8_R8_3PLANE_444_UNORM, VK_FORMAT_G8_B8_R8_3PLANE_444_UNORM),
      (CGPU_FORMAT_G10X6_B10X6_R10X6_3PLANE_420_UNORM_3PACK16, VK_FORMAT_G10X6_B10X6_R10X6_3PLANE_420_UNORM_3PACK16),
      (CGPU_FORMAT_G10X6_B10X6_R10X6_3PLANE_422_UNORM_3PACK16, VK_FORMAT_G10X6_B10X6_R10X6_3PLANE_422_UNORM_3PACK16),
      (CGPU_FORMAT_G10X6_B10X6_R10X6_3PLANE_444_UNORM_3PACK16, VK_FORMAT_G10X6_B10X6_R10X6_3PLANE_444_UNORM_3PACK16),
      (CGPU_FORMAT_G10X6_B10X6R10X6_2PLANE_420_UNORM_3PACK16, VK_FORMAT_G10X6_B10X6R10X6_2PLANE_420_UNORM_3PACK16),
      (CGPU_FORMAT_G10X6_B10X6R10X6_2PLANE_422_UNORM_3PACK16, VK_FORMAT_G10X6_B10X6R10X6_2PLANE_422_UNORM_3PACK16),
      (CGPU_FORMAT_G12X4_B12X4_R12X4_3PLANE_420_UNORM_3PACK16, VK_FORMAT_G12X4_B12X4_R12X4_3PLANE_420_UNORM_3PACK16),
      (CGPU_FORMAT_G12X4_B12X4_R12X4_3PLANE_422_UNORM_3PACK16, VK_FORMAT_G12X4_B12X4_R12X4_3PLANE_422_UNORM_3PACK16),
      (CGPU_FORMAT_G12X4_B12X4_R12X4_3PLANE_444_UNORM_3PACK16, VK_FORMAT_G12X4_B12X4_R12X4_3PLANE_444_UNORM_3PACK16),
      (CGPU_FORMAT_G12X4_B12X4R12X4_2PLANE_420_UNORM_3PACK16, VK_FORMAT_G12X4_B12X4R12X4_2PLANE_420_UNORM_3PACK16),
      (CGPU_FORMAT_G12X4_B12X4R12X4_2PLANE_422_UNORM_3PACK16, VK_FORMAT_G12X4_B12X4R12X4_2PLANE_422_UNORM_3PACK16),
      (CGPU_FORMAT_G16_B16_R16_3PLANE_420_UNORM, VK_FORMAT_G16_B16_R16_3PLANE_420_UNORM),
      (CGPU_FORMAT_G16_B16_R16_3PLANE_422_UNORM, VK_FORMAT_G16_B16_R16_3PLANE_422_UNORM),
      (CGPU_FORMAT_G16_B16_R16_3PLANE_444_UNORM, VK_FORMAT_G16_B16_R16_3PLANE_444_UNORM),
      (CGPU_FORMAT_G16_B16R16_2PLANE_420_UNORM, VK_FORMAT_G16_B16R16_2PLANE_420_UNORM),
      (CGPU_FORMAT_G16_B16R16_2PLANE_422_UNORM, VK_FORMAT_G16_B16R16_2PLANE_422_UNORM),
      (CGPU_FORMAT_D16_UNORM, VK_FORMAT_D16_UNORM),
      (CGPU_FORMAT_X8_D24_UNORM, VK_FORMAT_X8_D24_UNORM_PACK32),
      (CGPU_FORMAT_D32_SFLOAT, VK_FORMAT_D32_SFLOAT),
      (CGPU_FORMAT_S8_UINT, VK_FORMAT_S8_UINT),
      (CGPU_FORMAT_D16_UNORM_S8_UINT, VK_FORMAT_D16_UNORM_S8_UINT),
      (CGPU_FORMAT_D24_UNORM_S8_UINT, VK_FORMAT_D24_UNORM_S8_UINT),
      (CGPU_FORMAT_D32_SFLOAT_S8_UINT, VK_FORMAT_D32_SFLOAT_S8_UINT),
      (CGPU_FORMAT_DXBC1_RGB_UNORM, VK_FORMAT_BC1_RGB_UNORM_BLOCK),
      (CGPU_FORMAT_DXBC1_RGB_SRGB, VK_FORMAT_BC1_RGB_SRGB_BLOCK),
      (CGPU_FORMAT_DXBC1_RGBA_UNORM, VK_FORMAT_BC1_RGBA_UNORM_BLOCK),
      (CGPU_FORMAT_DXBC1_RGBA_SRGB, VK_FORMAT_BC1_RGBA_SRGB_BLOCK),
      (CGPU_FORMAT_DXBC2_UNORM, VK_FORMAT_BC2_UNORM_BLOCK),
      (CGPU_FORMAT_DXBC2_SRGB, VK_FORMAT_BC2_SRGB_BLOCK),
      (CGPU_FORMAT_DXBC3_UNORM, VK_FORMAT_BC3_UNORM_BLOCK),
      (CGPU_FORMAT_DXBC3_SRGB, VK_FORMAT_BC3_SRGB_BLOCK),
      (CGPU_FORMAT_DXBC4_UNORM, VK_FORMAT_BC4_UNORM_BLOCK),
      (CGPU_FORMAT_DXBC4_SNORM, VK_FORMAT_BC4_SNORM_BLOCK),
      (CGPU_FORMAT_DXBC5_UNORM, VK_FORMAT_BC5_UNORM_BLOCK),
      (CGPU_FORMAT_DXBC5_SNORM, VK_FORMAT_BC5_SNORM_BLOCK),
      (CGPU_FORMAT_DXBC6H_UFLOAT, VK_FORMAT_BC6H_UFLOAT_BLOCK),
      (CGPU_FORMAT_DXBC6H_SFLOAT, VK_FORMAT_BC6H_SFLOAT_BLOCK),
      (CGPU_FORMAT_DXBC7_UNORM, VK_FORMAT_BC7_UNORM_BLOCK),
      (CGPU_FORMAT_DXBC7_SRGB, VK_FORMAT_BC7_SRGB_BLOCK),
      (CGPU_FORMAT_PVRTC1_2BPP_UNORM, VK_FORMAT_PVRTC1_2BPP_UNORM_BLOCK_IMG),
      (CGPU_FORMAT_PVRTC1_4BPP_UNORM, VK_FORMAT_PVRTC1_4BPP_UNORM_BLOCK_IMG),
      (CGPU_FORMAT_PVRTC1_2BPP_SRGB, VK_FORMAT_PVRTC1_2BPP_SRGB_BLOCK_IMG),
      (CGPU_FORMAT_PVRTC1_4BPP_SRGB, VK_FORMAT_PVRTC1_4BPP_SRGB_BLOCK_IMG),
      (CGPU_FORMAT_ETC2_R8G8B8_UNORM, VK_FORMAT_ETC2_R8G8B8_UNORM_BLOCK),
      (CGPU_FORMAT_ETC2_R8G8B8A1_UNORM, VK_FORMAT_ETC2_R8G8B8A1_UNORM_BLOCK),
      (CGPU_FORMAT_ETC2_R8G8B8A8_UNORM, VK_FORMAT_ETC2_R8G8B8A8_UNORM_BLOCK),
      (CGPU_FORMAT_ETC2_R8G8B8_SRGB, VK_FORMAT_ETC2_R8G8B8_SRGB_BLOCK),
      (CGPU_FORMAT_ETC2_R8G8B8A1_SRGB, VK_FORMAT_ETC2_R8G8B8A1_SRGB_BLOCK),
      (CGPU_FORMAT_ETC2_R8G8B8A8_SRGB, VK_FORMAT_ETC2_R8G8B8A8_SRGB_BLOCK),
      (CGPU_FORMAT_ETC2_EAC_R11_UNORM, VK_FORMAT_EAC_R11_UNORM_BLOCK),
      (CGPU_FORMAT_ETC2_EAC_R11G11_UNORM, VK_FORMAT_EAC_R11G11_UNORM_BLOCK),
      (CGPU_FORMAT_ETC2_EAC_R11_SNORM, VK_FORMAT_EAC_R11_SNORM_BLOCK),
      (CGPU_FORMAT_ETC2_EAC_R11G11_SNORM, VK_FORMAT_EAC_R11G11_SNORM_BLOCK),
      (CGPU_FORMAT_ASTC_4x4_UNORM, VK_FORMAT_ASTC_4x4_UNORM_BLOCK),
      (CGPU_FORMAT_ASTC_4x4_SRGB, VK_FORMAT_ASTC_4x4_SRGB_BLOCK),
      (CGPU_FORMAT_ASTC_5x4_UNORM, VK_FORMAT_ASTC_5x4_UNORM_BLOCK),
      (CGPU_FORMAT_ASTC_5x4_SRGB, VK_FORMAT_ASTC_5x4_SRGB_BLOCK),
      (CGPU_FORMAT_ASTC_5x5_UNORM, VK_FORMAT_ASTC_5x5_UNORM_BLOCK),
      (CGPU_FORMAT_ASTC_5x5_SRGB, VK_FORMAT_ASTC_5x5_SRGB_BLOCK),
      (CGPU_FORMAT_ASTC_6x5_UNORM, VK_FORMAT_ASTC_6x5_UNORM_BLOCK),
      (CGPU_FORMAT_ASTC_6x5_SRGB, VK_FORMAT_ASTC_6x5_SRGB_BLOCK),
      (CGPU_FORMAT_ASTC_6x6_UNORM, VK_FORMAT_ASTC_6x6_UNORM_BLOCK),
      (CGPU_FORMAT_ASTC_6x6_SRGB, VK_FORMAT_ASTC_6x6_SRGB_BLOCK),
      (CGPU_FORMAT_ASTC_8x5_UNORM, VK_FORMAT_ASTC_8x5_UNORM_BLOCK),
      (CGPU_FORMAT_ASTC_8x5_SRGB, VK_FORMAT_ASTC_8x5_SRGB_BLOCK),
      (CGPU_FORMAT_ASTC_8x6_UNORM, VK_FORMAT_ASTC_8x6_UNORM_BLOCK),
      (CGPU_FORMAT_ASTC_8x6_SRGB, VK_FORMAT_ASTC_8x6_SRGB_BLOCK),
      (CGPU_FORMAT_ASTC_8x8_UNORM, VK_FORMAT_ASTC_8x8_UNORM_BLOCK),
      (CGPU_FORMAT_ASTC_8x8_SRGB, VK_FORMAT_ASTC_8x8_SRGB_BLOCK),
      (CGPU_FORMAT_ASTC_10x5_UNORM, VK_FORMAT_ASTC_10x5_UNORM_BLOCK),
      (CGPU_FORMAT_ASTC_10x5_SRGB, VK_FORMAT_ASTC_10x5_SRGB_BLOCK),
      (CGPU_FORMAT_ASTC_10x6_UNORM, VK_FORMAT_ASTC_10x6_UNORM_BLOCK),
      (CGPU_FORMAT_ASTC_10x6_SRGB, VK_FORMAT_ASTC_10x6_SRGB_BLOCK),
      (CGPU_FORMAT_ASTC_10x8_UNORM, VK_FORMAT_ASTC_10x8_UNORM_BLOCK),
      (CGPU_FORMAT_ASTC_10x8_SRGB, VK_FORMAT_ASTC_10x8_SRGB_BLOCK),
      (CGPU_FORMAT_ASTC_10x10_UNORM, VK_FORMAT_ASTC_10x10_UNORM_BLOCK),
      (CGPU_FORMAT_ASTC_10x10_SRGB, VK_FORMAT_ASTC_10x10_SRGB_BLOCK),
      (CGPU_FORMAT_ASTC_12x10_UNORM, VK_FORMAT_ASTC_12x10_UNORM_BLOCK),
      (CGPU_FORMAT_ASTC_12x10_SRGB, VK_FORMAT_ASTC_12x10_SRGB_BLOCK),
      (CGPU_FORMAT_ASTC_12x12_UNORM, VK_FORMAT_ASTC_12x12_UNORM_BLOCK),
      (CGPU_FORMAT_ASTC_12x12_SRGB, VK_FORMAT_ASTC_12x12_SRGB_BLOCK),
      (CGPU_FORMAT_PVRTC2_2BPP_UNORM, VK_FORMAT_PVRTC2_2BPP_UNORM_BLOCK_IMG),
      (CGPU_FORMAT_PVRTC2_4BPP_UNORM, VK_FORMAT_PVRTC2_4BPP_UNORM_BLOCK_IMG),
      (CGPU_FORMAT_PVRTC2_2BPP_SRGB, VK_FORMAT_PVRTC2_2BPP_SRGB_BLOCK_IMG),
      (CGPU_FORMAT_PVRTC2_4BPP_SRGB, VK_FORMAT_PVRTC2_4BPP_SRGB_BLOCK_IMG)] VK_FORMAT_UNDEFINED format"

definition VkUtil_FormatTranslateToCGPU :: "VkFormat \<Rightarrow> ECGPUFormat" where
  "VkUtil_FormatTranslateToCGPU format = c_switch
     [(VK_FORMAT_UNDEFINED, CGPU_FORMAT_UNDEFINED),
      (VK_FORMAT_R4G4_UNORM_PACK8, CGPU_FORMAT_G4R4_UNORM),
      (VK_FORMAT_R4G4B4A4_UNORM_PACK16, CGPU_FORMAT_A4B4G4R4_UNORM),
      (VK_FORMAT_B4G4R4A4_UNORM_PACK16, CGPU_FORMAT_A4R4G4B4_UNORM),
      (VK_FORMAT_R5G6B5_UNORM_PACK16, CGPU_FORMAT_B5G6R5_UNORM),
      (VK_FORMAT_B5G6R5_UNORM_PACK16, CGPU_FORMAT_R5G6B5_UNORM),
      (VK_FORMAT_R5G5B5A1_UNORM_PACK16, CGPU_FORMAT_A1B5G5R5_UNORM),
      (VK_FORMAT_B5G5R5A1_UNORM_PACK16, CGPU_FORMAT_A1R5G5B5_UNORM),
      (VK_FORMAT_A1R5G5B5_UNORM_PACK16, CGPU_FORMAT_B5G5R5A1_UNORM),
      (VK_FORMAT_R8_UNORM, CGPU_FORMAT_R8_UNORM),
      (VK_FORMAT_R8_SNORM, CGPU_FORMAT_R8_SNORM),
      (VK_FORMAT_R8_UINT, CGPU_FORMAT_R8_UINT),
      (VK_FORMAT_R8_SINT, CGPU_FORMAT_R8_SINT),
      (VK_FORMAT_R8_SRGB, CGPU_FORMAT_R8_SRGB),
      (VK_FORMAT_R8G8_UNORM, CGPU_FORMAT_R8G8_UNORM),
      (VK_FORMAT_R8G8_SNORM, CGPU_FORMAT_R8G8_SNORM),
      (VK_FORMAT_R8G8_UINT, CGPU_FORMAT_R8G8_UINT),
      (VK_FORMAT_R8G8_SINT, CGPU_FORMAT_R8G8_SINT),
      (VK_FORMAT_R8G8_SRGB, CGPU_FORMAT_R8G8_SRGB),
      (VK_FORMAT_R8G8B8_UNORM, CGPU_FORMAT_R8G8B8_UNORM),
      (VK_FORMAT_R8G8B8_SNORM, CGPU_FORMAT_R8G8B8_SNORM),
      (VK_FORMAT_R8G8B8_UINT, CGPU_FORMAT_R8G8B8_UINT),
      (VK_FORMAT_R8G8B8_SINT, CGPU_FORMAT_R8G8B8_SINT),
      (VK_FORMAT_R8G8B8_SRGB, CGPU_FORMAT_R8G8B8_SRGB),
      (VK_FORMAT_B8G8R8_UNORM, CGPU_FORMAT_B8G8R8_UNORM),
      (VK_FORMAT_B8G8R8_SNORM, CGPU_FORMAT_B8G8R8_SNORM),
      (VK_FORMAT_B8G8R8_UINT, CGPU_FORMAT_B8G8R8_UINT),
      (VK_FORMAT_B8G8R8_SINT, CGPU_FORMAT_B8G8R8_SINT),
      (VK_FORMAT_B8G8R8_SRGB, CGPU_FORMAT_B8G8R8_SRGB),
      (VK_FORMAT_R8G8B8A8_UNORM, CGPU_FORMAT_R8G8B8A8_UNORM),
      (VK_FORMAT_R8G8B8A8_SNORM, CGPU_FORMAT_R8G8B8A8_SNORM),
      (VK_FORMAT_R8G8B8A8_UINT, CGPU_FORMAT_R8G8B8A8_UINT),
      (VK_FORMAT_R8G8B8A8_SINT, CGPU_FORMAT_R8G8B8A8_SINT),
      (VK_FORMAT_R8G8B8A8_SRGB, CGPU_FORMAT_R8G8B8A8_SRGB),
      (VK_FORMAT_B8G8R8A8_UNORM, CGPU_FORMAT_B8G8R8A8_UNORM),
      (VK_FORMAT_B8G8R8A8_SNORM, CGPU_FORMAT_B8G8R8A8_SNORM),
      (VK_FORMAT_B8G8R8A8_UINT, CGPU_FORMAT_B8G8R8A8_UINT),
      (VK_FORMAT_B8G8R8A8_SINT, CGPU_FORMAT_B8G8R8A8_SINT),
      (VK_FORMAT_B8G8R8A8_SRGB, CGPU_FORMAT_B8G8R8A8_SRGB),
      (VK_FORMAT_A2R10G10B10_UNORM_PACK32, CGPU_FORMAT_A2R10G10B10_UNORM),
      (VK_FORMAT_A2R10G10B10_UINT_PACK32, CGPU_FORMAT_A2R10G10B10_UINT),
      (VK_FORMAT_A2B10G10R10_UNORM_PACK32, CGPU_FORMAT_A2B10G10R10_UNORM),
      (VK_FORMAT_A2B10G10R10_UINT_PACK32, CGPU_FORMAT_A2B10G10R10_UINT),
      (VK_FORMAT_R16_UNORM, CGPU_FORMAT_R16_UNORM),
      (VK_FORMAT_R16_SNORM, CGPU_FORMAT_R16_SNORM),
      (VK_FORMAT_R16_UINT, CGPU_FORMAT_R16_UINT),
      (VK_FORMAT_R16_SINT, CGPU_FORMAT_R16_SINT),
      (VK_FORMAT_R16_SFLOAT, CGPU_FORMAT_R16_SFLOAT),
      (VK_FORMAT_R16G16_UNORM, CGPU_FORMAT_R16G16_UNORM),
      (VK_FORMAT_R16G16_SNORM, CGPU_FORMAT_R16G16_SNORM),
      (VK_FORMAT_R16G16_UINT, CGPU_FORMAT_R16G16_UINT),
      (VK_FORMAT_R16G16_SINT, CGPU_FORMAT_R16G16_SINT),
      (VK_FORMAT_R16G16_SFLOAT, CGPU_FORMAT_R16G16_SFLOAT),
      (VK_FORMAT_R16G16B16_UNORM, CGPU_FORMAT_R16G16B16_UNORM),
      (VK_FORMAT_R16G16B16_SNORM, CGPU_FORMAT_R16G16B16_SNORM),
      (VK_FORMAT_R16G16B16_UINT, CGPU_FORMAT_R16G16B16_UINT),
      (VK_FORMAT_R16G16B16_SINT, CGPU_FORMAT_R16G16B16_SINT),
      (VK_FORMAT_R16G16B16_SFLOAT, CGPU_FORMAT_R16G16B16_SFLOAT),
      (VK_FORMAT_R16G16B16A16_UNORM, CGPU_FORMAT_R16G16B16A16_UNORM),
      (VK_FORMAT_R16G16B16A16_SNORM, CGPU_FORMAT_R16G16B16A16_SNORM),
      (VK_FORMAT_R16G16B16A16_UINT, CGPU_FORMAT_R16G16B16A16_UINT),
      (VK_FORMAT_R16G16B16A16_SINT, CGPU_FORMAT_R16G16B16A16_SINT),
      (VK_FORMAT_R16G16B16A16_SFLOAT, CGPU_FORMAT_R16G16B16A16_SFLOAT),
      (VK_FORMAT_R32_UINT, CGPU_FORMAT_R32_UINT),
      (VK_FORMAT_R32_SINT, CGPU_FORMAT_R32_SINT),
      (VK_FORMAT_R32_SFLOAT, CGPU_FORMAT_R32_SFLOAT),
      (VK_FORMAT_R32G32_UINT, CGPU_FORMAT_R32G32_UINT),
      (VK_FORMAT_R32G32_SINT, CGPU_FORMAT_R32G32_SINT),
      (VK_FORMAT_R32G32_SFLOAT, CGPU_FORMAT_R32G32_SFLOAT),
      (VK_FORMAT_R32G32B32_UINT, CGPU_FORMAT_R32G32B32_UINT),
      (VK_FORMAT_R32G32B32_SINT, CGPU_FORMAT_R32G32B32_SINT),
      (VK_FORMAT_R32G32B32_SFLOAT, CGPU_FORMAT_R32G32B32_SFLOAT),
      (VK_FORMAT_R32G32B32A32_UINT, CGPU_FORMAT_R32G32B32A32_UINT),
      (VK_FORMAT_R32G32B32A32_SINT, CGPU_FORMAT_R32G32B32A32_SINT),
      (VK_FORMAT_R32G32B32A32_SFLOAT, CGPU_FORMAT_R32G32B32A32_SFLOAT),
      (VK_FORMAT_R64_UINT, CGPU_FORMAT_R64_UINT),
      (VK_FORMAT_R64_SINT, CGPU_FORMAT_R64_SINT),
      (VK_FORMAT_R64_SFLOAT, CGPU_FORMAT_R64_SFLOAT),
      (VK_FORMAT_R64G64_UINT, CGPU_FORMAT_R64G64_UINT),
      (VK_FORMAT_R64G64_SINT, CGPU_FORMAT_R64G64_SINT),
      (VK_FORMAT_R64G64_SFLOAT, CGPU_FORMAT_R64G64_SFLOAT),
      (VK_FORMAT_R64G64B64_UINT, CGPU_FORMAT_R64G64B64_UINT),
      (VK_FORMAT_R64G64B64_SINT, CGPU_FORMAT_R64G64B64_SINT),
      (VK_FORMAT_R64G64B64_SFLOAT, CGPU_FORMAT_R64G64B64_SFLOAT),
      (VK_FORMAT_R64G64B64A64_UINT, CGPU_FORMAT_R64G64B64A64_UINT),
      (VK_FORMAT_R64G64B64A64_SINT, CGPU_FORMAT_R64G64B64A64_SINT),
      (VK_FORMAT_R64G64B64A64_SFLOAT, CGPU_FORMAT_R64G64B64A64_SFLOAT),
      (VK_FORMAT_B10G11R11_UFLOAT_PACK32, CGPU_FORMAT_B10G11R11_UFLOAT),
      (VK_FORMAT_E5B9G9R9_UFLOAT_PACK32, CGPU_FORMAT_E5B9G9R9_UFLOAT),
      (VK_FORMAT_D16_UNORM, CGPU_FORMAT_D16_UNORM),
      (VK_FORMAT_X8_D24_UNORM_PACK32, CGPU_FORMAT_X8_D24_UNORM),
      (VK_FORMAT_D32_SFLOAT, CGPU_FORMAT_D32_SFLOAT),
      (VK_FORMAT_S8_UINT, CGPU_FORMAT_S8_UINT),
      (VK_FORMAT_D16_UNORM_S8_UINT, CGPU_FORMAT_D16_UNORM_S8_UINT),
      (VK_FORMAT_D24_UNORM_S8_UINT, CGPU_FORMAT_D24_UNORM_S8_UINT),
      (VK_FORMAT_D32_SFLOAT_S8_UINT, CGPU_FORMAT_D32_SFLOAT_S8_UINT),
      (VK_FORMAT_BC1_RGB_UNORM_BLOCK, CGPU_FORMAT_DXBC1_RGB_UNORM),
      (VK_FORMAT_BC1_RGB_SRGB_BLOCK, CGPU_FORMAT_DXBC1_RGB_SRGB),
      (VK_FORMAT_BC1_RGBA_UNORM_BLOCK, CGPU_FORMAT_DXBC1_RGBA_UNORM),
      (VK_FORMAT_BC1_RGBA_SRGB_BLOCK, CGPU_FORMAT_DXBC1_RGBA_SRGB),
      (VK_FORMAT_BC2_UNORM_BLOCK, CGPU_FORMAT_DXBC2_UNORM),
      (VK_FORMAT_BC2_SRGB_BLOCK, CGPU_FORMAT_DXBC2_SRGB),
      (VK_FORMAT_BC3_UNORM_BLOCK, CGPU_FORMAT_DXBC3_UNORM),
      (VK_FORMAT_BC3_SRGB_BLOCK, CGPU_FORMAT_DXBC3_SRGB),
      (VK_FORMAT_BC4_UNORM_BLOCK, CGPU_FORMAT_DXBC4_UNORM),
      (VK_FORMAT_BC4_SNORM_BLOCK, CGPU_FORMAT_DXBC4_SNORM),
      (VK_FORMAT_BC5_UNORM_BLOCK, CGPU_FORMAT_DXBC5_UNORM),
      (VK_FORMAT_BC5_SNORM_BLOCK, CGPU_FORMAT_DXBC5_SNORM),
      (VK_FORMAT_BC6H_UFLOAT_BLOCK, CGPU_FORMAT_DXBC6H_UFLOAT),
      (VK_FORMAT_BC6H_SFLOAT_BLOCK, CGPU_FORMAT_DXBC6H_SFLOAT),
      (VK_FORMAT_BC7_UNORM_BLOCK, CGPU_FORMAT_DXBC7_UNORM),
      (VK_FORMAT_BC7_SRGB_BLOCK, CGPU_FORMAT_DXBC7_SRGB),
      (VK_FORMAT_ETC2_R8G8B8_UNORM_BLOCK, CGPU_FORMAT_ETC2_R8G8B8_UNORM),
      (VK_FORMAT_ETC2_R8G8B8_SRGB_BLOCK, CGPU_FORMAT_ETC2_R8G8B8_SRGB),
      (VK_FORMAT_ETC2_R8G8B8A1_UNORM_BLOCK, CGPU_FORMAT_ETC2_R8G8B8A1_UNORM),
      (VK_FORMAT_ETC2_R8G8B8A1_SRGB_BLOCK, CGPU_FORMAT_ETC2_R8G8B8A1_SRGB),
      (VK_FORMAT_ETC2_R8G8B8A8_UNORM_BLOCK, CGPU_FORMAT_ETC2_R8G8B8A8_UNORM),
      (VK_FORMAT_ETC2_R8G8B8A8_SRGB_BLOCK, CGPU_FORMAT_ETC2_R8G8B8A8_SRGB),
      (VK_FORMAT_EAC_R11_UNORM_BLOCK, CGPU_FORMAT_ETC2_EAC_R11_UNORM),
      (VK_FORMAT_EAC_R11_SNORM_BLOCK, CGPU_FORMAT_ETC2_EAC_R11_SNORM),
      (VK_FORMAT_EAC_R11G11_UNORM_BLOCK, CGPU_FORMAT_ETC2_EAC_R11G11_UNORM),
      (VK_FORMAT_EAC_R11G11_SNORM_BLOCK, CGPU_FORMAT_ETC2_EAC_R11G11_SNORM),
      (VK_FORMAT_ASTC_4x4_UNORM_BLOCK, CGPU_FORMAT_ASTC_4x4_UNORM),
      (VK_FORMAT_ASTC_4x4_SRGB_BLOCK, CGPU_FORMAT_ASTC_4x4_SRGB),
      (VK_FORMAT_ASTC_5x4_UNORM_BLOCK, CGPU_FORMAT_ASTC_5x4_UNORM),
      (VK_FORMAT_ASTC_5x4_SRGB_BLOCK, CGPU_FORMAT_ASTC_5x4_SRGB),
      (VK_FORMAT_ASTC_5x5_UNORM_BLOCK, CGPU_FORMAT_ASTC_5x5_UNORM),
      (VK_FORMAT_ASTC_5x5_SRGB_BLOCK, CGPU_FORMAT_ASTC_5x5_SRGB),
      (VK_FORMAT_ASTC_6x5_UNORM_BLOCK, CGPU_FORMAT_ASTC_6x5_UNORM),
      (VK_FORMAT_ASTC_6x5_SRGB_BLOCK, CGPU_FORMAT_ASTC_6x5_SRGB),
      (VK_FORMAT_ASTC_6x6_UNORM_BLOCK, CGPU_FORMAT_ASTC_6x6_UNORM),
      (VK_FORMAT_ASTC_6x6_SRGB_BLOCK, CGPU_FORMAT_ASTC_6x6_SRGB),
      (VK_FORMAT_ASTC_8x5_UNORM_BLOCK, CGPU_FORMAT_ASTC_8x5_UNORM),
      (VK_FORMAT_ASTC_8x5_SRGB_BLOCK, CGPU_FORMAT_ASTC_8x5_SRGB),
      (VK_FORMAT_ASTC_8x6_UNORM_BLOCK, CGPU_FORMAT_ASTC_8x6_UNORM),
      (VK_FORMAT_ASTC_8x6_SRGB_BLOCK, CGPU_FORMAT_ASTC_8x6_SRGB),
      (VK_FORMAT_ASTC_8x8_UNORM_BLOCK, CGPU_FORMAT_ASTC_8x8_UNORM),
      (VK_FORMAT_ASTC_8x8_SRGB_BLOCK, CGPU_FORMAT_ASTC_8x8_SRGB),
      (VK_FORMAT_ASTC_10x5_UNORM_BLOCK, CGPU_FORMAT_ASTC_10x5_UNORM),
      (VK_FORMAT_ASTC_10x5_SRGB_BLOCK, CGPU_FORMAT_ASTC_10x5_SRGB),
      (VK_FORMAT_ASTC_10x6_UNORM_BLOCK, CGPU_FORMAT_ASTC_10x6_UNORM),
      (VK_FORMAT_ASTC_10x6_SRGB_BLOCK, CGPU_FORMAT_ASTC_10x6_SRGB),
      (VK_FORMAT_ASTC_10x8_UNORM_BLOCK, CGPU_FORMAT_ASTC_10x8_UNORM),
      (VK_FORMAT_ASTC_10x8_SRGB_BLOCK, CGPU_FORMAT_ASTC_10x8_SRGB),
      (VK_FORMAT_ASTC_10x10_UNORM_BLOCK, CGPU_FORMAT_ASTC_10x10_UNORM),
      (VK_FORMAT_ASTC_10x10_SRGB_BLOCK, CGPU_FORMAT_ASTC_10x10_SRGB),
      (VK_FORMAT_ASTC_12x10_UNORM_BLOCK, CGPU_FORMAT_ASTC_12x10_UNORM),
      (VK_FORMAT_ASTC_12x10_SRGB_BLOCK, CGPU_FORMAT_ASTC_12x10_SRGB),
      (VK_FORMAT_ASTC_12x12_UNORM_BLOCK, CGPU_FORMAT_ASTC_12x12_UNORM),
      (VK_FORMAT_ASTC_12x12_SRGB_BLOCK, CGPU_FORMAT_ASTC_12x12_SRGB),
      (VK_FORMAT_PVRTC1_2BPP_UNORM_BLOCK_IMG, CGPU_FORMAT_PVRTC1_2BPP_UNORM),
      (VK_FORMAT_PVRTC1_4BPP_UNORM_BLOCK_IMG, CGPU_FORMAT_PVRTC1_4BPP_UNORM),
      (VK_FORMAT_PVRTC1_2BPP_SRGB_BLOCK_IMG, CGPU_FORMAT_PVRTC1_2BPP_SRGB),
      (VK_FORMAT_PVRTC1_4BPP_SRGB_BLOCK_IMG, CGPU_FORMAT_PVRTC1_4BPP_SRGB),
      (VK_FORMAT_G16B16G16R16_422_UNORM, CGPU_FORMAT_G16B16G16R16_422_UNORM),
      (VK_FORMAT_B16G16R16G16_422_UNORM, CGPU_FORMAT_B16G16R16G16_422_UNORM),
      (VK_FORMAT_R12X4G12X4B12X4A12X4_UNORM_4PACK16, CGPU_FORMAT_R12X4G12X4B12X4A12X4_UNORM_4PACK16),
      (VK_FORMAT_G12X4B12X4G12X4R12X4_422_UNORM_4PACK16, CGPU_FORMAT_G12X4B12X4G12X4R12X4_422_UNORM_4PACK16),
      (VK_FORMAT_B12X4G12X4R12X4G12X4_422_UNORM_4PACK16, CGPU_FORMAT_B12X4G12X4R12X4G12X4_422_UNORM_4PACK16),
      (VK_FORMAT_R10X6G10X6B10X6A10X6_UNORM_4PACK16, CGPU_FORMAT_R10X6G10X6B10X6A10X6_UNORM_4PACK16),
      (VK_FORMAT_G10X6B10X6G10X6R10X6_422_UNORM_4PACK16, CGPU_FORMAT_G10X6B10X6G10X6R10X6_422_UNORM_4PACK16),
      (VK_FORMAT_B10X6G10X6R10X6G10X6_422_UNORM_4PACK16, CGPU_FORMAT_B10X6G10X6R10X6G10X6_422_UNORM_4PACK16),
      (VK_FORMAT_G8B8G8R8_422_UNORM, CGPU_FORMAT_G8B8G8R8_422_UNORM),
      (VK_FORMAT_B8G8R8G8_422_UNORM, CGPU_FORMAT_B8G8R8G8_422_UNORM),
      (VK_FORMAT_G8_B8_R8_3PLANE_420_UNORM, CGPU_FORMAT_G8_B8_R8_3PLANE_420_UNORM),
      (VK_FORMAT_G8_B8R8_2PLANE_420_UNORM, CGPU_FORMAT_G8_B8R8_2PLANE_420_UNORM),
      (VK_FORMAT_G8_B8_R8_3PLANE_422_UNORM, CGPU_FORMAT_G8_B8_R8_3PLANE_422_UNORM),
      (VK_FORMAT_G8_B8R8_2PLANE_422_UNORM, CGPU_FORMAT_G8_B8R8_2PLANE_422_UNORM),
      (VK_FORMAT_G8_B8_R8_3PLANE_444_UNORM, CGPU_FORMAT_G8_B8_R8_3PLANE_444_UNORM),
      (VK_FORMAT_G10X6_B10X6_R10X6_3PLANE_420_UNORM_3PACK16, CGPU_FORMAT_G10X6_B10X6_R10X6_3PLANE_420_UNORM_3PACK16),
      (VK_FORMAT_G10X6_B10X6_R10X6_3PLANE_422_UNORM_3PACK16, CGPU_FORMAT_G10X6_B10X6_R10X6_3PLANE_422_UNORM_3PACK16),
      (VK_FORMAT_G10X6_B10X6_R10X6_3PLANE_444_UNORM_3PACK16, CGPU_FORMAT_G10X6_B10X6_R10X6_3PLANE_444_UNORM_3PACK16),
      (VK_FORMAT_G10X6_B10X6R10X6_2PLANE_420_UNORM_3PACK16, CGPU_FORMAT_G10X6_B10X6R10X6_2PLANE_420_UNORM_3PACK16),
      (VK_FORMAT_G10X6_B10X6R10X6_2PLANE_422_UNORM_3PACK16, CGPU_FORMAT_G10X6_B10X6R10X6_2PLANE_422_UNORM_3PACK16),
      (VK_FORMAT_G12X4_B12X4_R12X4_3PLANE_420_UNORM_3PACK16, CGPU_FORMAT_G12X4_B12X4_R12X4_3PLANE_420_UNORM_3PACK16),
      (VK_FORMAT_G12X4_B12X4_R12X4_3PLANE_422_UNORM_3PACK16, CGPU_FORMAT_G12X4_B12X4_R12X4_3PLANE_422_UNORM_3PACK16),
      (VK_FORMAT_G12X4_B12X4_R12X4_3PLANE_444_UNORM_3PACK16, CGPU_FORMAT_G12X4_B12X4_R12X4_3PLANE_444_UNORM_3PACK16),
      (VK_FORMAT_G12X4_B12X4R12X4_2PLANE_420_UNORM_3PACK16, CGPU_FORMAT_G12X4_B12X4R12X4_2PLANE_420_UNORM_3PACK16),
      (VK_FORMAT_G12X4_B12X4R12X4_2PLANE_422_UNORM_3PACK16, CGPU_FORMAT_G12X4_B12X4R12X4_2PLANE_422_UNORM_3PACK16),
      (VK_FORMAT_G16_B16_R16_3PLANE_420_UNORM, CGPU_FORMAT_G16_B16_R16_3PLANE_420_UNORM),
      (VK_FORMAT_G16_B16_R16_3PLANE_422_UNORM, CGPU_FORMAT_G16_B16_R16_3PLANE_422_UNORM),
      (VK_FORMAT_G16_B16_R16_3PLANE_444_UNORM, CGPU_FORMAT_G16_B16_R16_3PLANE_444_UNORM),
      (VK_FORMAT_G16_B16R16_2PLANE_420_UNORM, CGPU_FORMAT_G16_B16R16_2PLANE_420_UNORM),
      (VK_FORMAT_G16_B16R16_2PLANE_422_UNORM, CGPU_FORMAT_G16_B16R16_2PLANE_422_UNORM),
      (VK_FORMAT_A8B8G8R8_UNORM_PACK32, CGPU_FORMAT_UNDEFINED),
      (VK_FORMAT_R8_USCALED, CGPU_FORMAT_UNDEFINED),
      (VK_FORMAT_R8_SSCALED, CGPU_FORMAT_UNDEFINED),
      (VK_FORMAT_R8G8_USCALED, CGPU_FORMAT_UNDEFINED),
      (VK_FORMAT_R8G8_SSCALED, CGPU_FORMAT_UNDEFINED),
      (VK_FORMAT_R8G8B8_USCALED, CGPU_FORMAT_UNDEFINED),
      (VK_FORMAT_R8G8B8_SSCALED, CGPU_FORMAT_UNDEFINED),
      (VK_FORMAT_B8G8R8_USCALED, CGPU_FORMAT_UNDEFINED),
      (VK_FORMAT_B8G8R8_SSCALED, CGPU_FORMAT_UNDEFINED),
      (VK_FORMAT_R8G8B8A8_USCALED, CGPU_FORMAT_UNDEFINED),
      (VK_FORMAT_R8G8B8A8_SSCALED, CGPU_FORMAT_UNDEFINED),
      (VK_FORMAT_B8G8R8A8_USCALED, CGPU_FORMAT_UNDEFINED),
      (VK_FORMAT_B8G8R8A8_SSCALED, CGPU_FORMAT_UNDEFINED),
      (VK_FORMAT_A8B8G8R8_SNORM_PACK32, CGPU_FORMAT_UNDEFINED),
      (VK_FORMAT_A8B8G8R8_USCALED_PACK32, CGPU_FORMAT_UNDEFINED),
      (VK_FORMAT_A8B8G8R8_SSCALED_PACK32, CGPU_FORMAT_UNDEFINED),
      (VK_FORMAT_A8B8G8R8_UINT_PACK32, CGPU_FORMAT_UNDEFINED),
      (VK_FORMAT_A8B8G8R8_SINT_PACK32, CGPU_FORMAT_UNDEFINED),
      (VK_FORMAT_A8B8G8R8_SRGB_PACK32, CGPU_FORMAT_UNDEFINED),
      (VK_FORMAT_A2R10G10B10_SNORM_PACK32, CGPU_FORMAT_UNDEFINED),
      (VK_FORMAT_A2R10G10B10_USCALED_PACK32, CGPU_FORMAT_UNDEFINED),
      (VK_FORMAT_A2R10G10B10_SSCALED_PACK32, CGPU_FORMAT_UNDEFINED),
      (VK_FORMAT_A2R10G10B10_SINT_PACK32, CGPU_FORMAT_UNDEFINED),
      (VK_FORMAT_A2B10G10R10_SNORM_PACK32, CGPU_FORMAT_UNDEFINED),
      (VK_FORMAT_A2B10G10R10_USCALED_PACK32, CGPU_FORMAT_UNDEFINED),
      (VK_FORMAT_A2B10G10R10_SSCALED_PACK32, CGPU_FORMAT_UNDEFINED),
      (VK_FORMAT_A2B10G10R10_SINT_PACK32, CGPU_FORMAT_UNDEFINED),
      (VK_FORMAT_R16_USCALED, CGPU_FORMAT_UNDEFINED),
      (VK_FORMAT_R16_SSCALED, CGPU_FORMAT_UNDEFINED),
      (VK_FORMAT_R16G16_USCALED, CGPU_FORMAT_UNDEFINED),
      (VK_FORMAT_R16G16_SSCALED, CGPU_FORMAT_UNDEFINED),
      (VK_FORMAT_R16G16B16_USCALED, CGPU_FORMAT_UNDEFINED),
      (VK_FORMAT_R16G16B16_SSCALED, CGPU_FORMAT_UNDEFINED),
      (VK_FORMAT_R16G16B16A16_USCALED, CGPU_FORMAT_UNDEFINED),
      (VK_FORMAT_R16G16B16A16_SSCALED, CGPU_FORMAT_UNDEFINED),
      (VK_FORMAT_R10X6_UNORM_PACK16, CGPU_FORMAT_UNDEFINED),
      (VK_FORMAT_R10X6G10X6_UNORM_2PACK16, CGPU_FORMAT_UNDEFINED),
      (VK_FORMAT_R12X4_UNORM_PACK16, CGPU_FORMAT_UNDEFINED),
      (VK_FORMAT_R12X4G12X4_UNORM_2PACK16, CGPU_FORMAT_UNDEFINED),
      (VK_FORMAT_PVRTC2_2BPP_UNORM_BLOCK_IMG, CGPU_FORMAT_UNDEFINED),
      (VK_FORMAT_PVRTC2_4BPP_UNORM_BLOCK_IMG, CGPU_FORMAT_UNDEFINED),
      (VK_FORMAT_PVRTC2_2BPP_SRGB_BLOCK_IMG, CGPU_FORMAT_UNDEFINED),
      (VK_FORMAT_PVRTC2_4BPP_SRGB_BLOCK_IMG, CGPU_FORMAT_UNDEFINED)] CGPU_FORMAT_UNDEFINED format"

end
