(* ===== verification/Format_Facts.thy ===== *)
theory Format_Facts
  imports Vk_Formats
begin

text \<open>
  What the format tables promise: the enumeration is contiguous, the block geometry is
  consistent, and the translation to Vulkan and back.
\<close>

section \<open>Facts about the format utilities\<close>

lemma ECGPUFormat_enumerators_upt: "ECGPUFormat_enumerators = [0..CGPU_FORMAT_COUNT - 1]"
  by code_simp

lemma BitSizeOfBlock_mod8:
  "FormatUtil_BitSizeOfBlock f mod 8 = 0
   \<longleftrightarrow> f \<noteq> CGPU_FORMAT_G8B8G8R8_422_UNORM \<and> f \<noteq> CGPU_FORMAT_B8G8R8G8_422_UNORM"
  unfolding FormatUtil_BitSizeOfBlock_def
  by (rule c_switch_rule [where P = "\<lambda>f v. v mod 8 = 0
        \<longleftrightarrow> f \<noteq> CGPU_FORMAT_G8B8G8R8_422_UNORM \<and> f \<noteq> CGPU_FORMAT_B8G8R8G8_422_UNORM"])
    simp_all

text \<open>Width and height are decided together: the keys of the height switch are among those
  of the width switch, where the bit size follows.\<close>

definition block_shape_ok :: "ECGPUFormat \<Rightarrow> int \<Rightarrow> bool" where
  "block_shape_ok f w \<longleftrightarrow>
     1 \<le> w \<and> 1 \<le> FormatUtil_HeightOfBlock f
     \<and> (FormatUtil_HeightOfBlock f = 1
        \<or> FormatUtil_BitSizeOfBlock f \<in> {64, 128} \<and> 4 \<le> w)
     \<and> (w = 1 \<or> 1 < FormatUtil_HeightOfBlock f \<or> FormatUtil_BitSizeOfBlock f = 8)"

lemma WidthOfBlock_shape: "block_shape_ok f (FormatUtil_WidthOfBlock f)"
  unfolding FormatUtil_WidthOfBlock_def
  apply (rule c_switch_rule [where P = block_shape_ok])
  subgoal
    by (simp add: block_shape_ok_def FormatUtil_HeightOfBlock_def FormatUtil_BitSizeOfBlock_def)
  subgoal
    by (simp add: block_shape_ok_def FormatUtil_HeightOfBlock_def)
  done


lemma IsDepthOnly_IsDepthStencil:
  "FormatUtil_IsDepthOnlyFormat f \<Longrightarrow> FormatUtil_IsDepthStencilFormat f"
  by (simp add: FormatUtil_IsDepthOnlyFormat_def FormatUtil_IsDepthStencilFormat_def
      split: if_splits)


text \<open>What comes back, as a function of the format and of its translation.\<close>

definition format_back :: "ECGPUFormat \<Rightarrow> VkFormat \<Rightarrow> ECGPUFormat" where
  "format_back f v =
     (if f = CGPU_FORMAT_B10G10R10A2_UNORM then CGPU_FORMAT_A2R10G10B10_UNORM
      else if f = CGPU_FORMAT_B10G10R10A2_UINT then CGPU_FORMAT_A2R10G10B10_UINT
      else if f = CGPU_FORMAT_R10G10B10A2_UNORM then CGPU_FORMAT_A2B10G10R10_UNORM
      else if f = CGPU_FORMAT_R10G10B10A2_UINT then CGPU_FORMAT_A2B10G10R10_UINT
      else if f \<in> {CGPU_FORMAT_PVRTC2_2BPP_UNORM, CGPU_FORMAT_PVRTC2_4BPP_UNORM,
                    CGPU_FORMAT_PVRTC2_2BPP_SRGB, CGPU_FORMAT_PVRTC2_4BPP_SRGB}
        \<or> v = VK_FORMAT_UNDEFINED then CGPU_FORMAT_UNDEFINED
      else f)"

lemma ToCGPU_ToVk:
  "VkUtil_FormatTranslateToCGPU (VkUtil_FormatTranslateToVk f)
   = format_back f (VkUtil_FormatTranslateToVk f)"
  unfolding VkUtil_FormatTranslateToVk_def
  apply (rule c_switch_rule [where P = "\<lambda>f v. VkUtil_FormatTranslateToCGPU v = format_back f v"])
  subgoal by (simp add: VkUtil_FormatTranslateToCGPU_def format_back_def)
  subgoal by (simp add: VkUtil_FormatTranslateToCGPU_def format_back_def)
  done

text \<open>
  Property C28: a CGPU format translated to Vulkan and back. The eight formats listed change:
  four 10:10:10:2 formats come back as their A2 twins, which the forward table does not know,
  and the PVRTC2 formats come back as undefined, because the backward table drops them. Every
  other format that has a Vulkan translation comes back unchanged.
\<close>

theorem format_roundtrip:
  "VkUtil_FormatTranslateToCGPU (VkUtil_FormatTranslateToVk f) =
     (if f = CGPU_FORMAT_B10G10R10A2_UNORM then CGPU_FORMAT_A2R10G10B10_UNORM
      else if f = CGPU_FORMAT_B10G10R10A2_UINT then CGPU_FORMAT_A2R10G10B10_UINT
      else if f = CGPU_FORMAT_R10G10B10A2_UNORM then CGPU_FORMAT_A2B10G10R10_UNORM
      else if f = CGPU_FORMAT_R10G10B10A2_UINT then CGPU_FORMAT_A2B10G10R10_UINT
      else if f \<in> {CGPU_FORMAT_PVRTC2_2BPP_UNORM, CGPU_FORMAT_PVRTC2_4BPP_UNORM,
                    CGPU_FORMAT_PVRTC2_2BPP_SRGB, CGPU_FORMAT_PVRTC2_4BPP_SRGB}
        \<or> VkUtil_FormatTranslateToVk f = VK_FORMAT_UNDEFINED then CGPU_FORMAT_UNDEFINED
      else f)"
  using ToCGPU_ToVk [of f] by (simp only: format_back_def)

end
