(* ===== verification/CGPU_Desc.thy ===== *)
theory CGPU_Desc
  imports CGPU_Flags
begin

text \<open>
  The descriptors of include/cgpu/api.h: the structures a caller fills in and passes by
  pointer. A structure is a record with a field per member; the fields of one structure share
  a prefix, because record fields have one name space. An array member and its count are one
  list, whose length is the count, unless the code compares the pointer with NULL. A pointer
  to a structure is an option, a handle is a number (0 is NULL), a \<open>char8_t*\<close> is an optional
  string and a \<open>float\<close> is its 32 bit pattern, which the modelled code only passes on.
\<close>

type_synonym f32 = "32 word"

abbreviation (input) CGPU_MAX_MRT_COUNT :: nat where "CGPU_MAX_MRT_COUNT \<equiv> 8"

section \<open>Enumerations of api.h\<close>

datatype (plugins only: code) ECGPUBackend =
    CGPU_BACKEND_VULKAN
  | CGPU_BACKEND_D3D12
  | CGPU_BACKEND_XBOX_D3D12
  | CGPU_BACKEND_AGC
  | CGPU_BACKEND_METAL
  | CGPU_BACKEND_COUNT
  | CGPU_BACKEND_MAX_ENUM_BIT

datatype (plugins only: code) ECGPUQueueType =
    CGPU_QUEUE_TYPE_GRAPHICS
  | CGPU_QUEUE_TYPE_COMPUTE
  | CGPU_QUEUE_TYPE_TRANSFER
  | CGPU_QUEUE_TYPE_COUNT
  | CGPU_QUEUE_TYPE_MAX_ENUM_BIT

text \<open>Handles are pointers to the objects of \<open>CGPU_Objects\<close>.\<close>

type_synonym CGPUInstanceId = ptr
type_synonym CGPUAdapterId = ptr
type_synonym CGPUDeviceId = ptr
type_synonym CGPUQueueId = ptr
type_synonym CGPUFenceId = ptr
type_synonym CGPUSemaphoreId = ptr
type_synonym CGPUCommandPoolId = ptr
type_synonym CGPUCommandBufferId = ptr
type_synonym CGPUQueryPoolId = ptr
type_synonym CGPUBufferId = ptr
type_synonym CGPUTextureId = ptr
type_synonym CGPUTextureViewId = ptr
type_synonym CGPUSamplerId = ptr
type_synonym CGPUShaderLibraryId = ptr
type_synonym CGPURootSignatureId = ptr
type_synonym CGPURootSignaturePoolId = ptr
type_synonym CGPUDescriptorSetId = ptr
type_synonym CGPUComputePipelineId = ptr
type_synonym CGPURenderPipelineId = ptr
type_synonym CGPUSwapChainId = ptr
type_synonym CGPUSurfaceId = ptr
type_synonym CGPUComputePassEncoderId = ptr
type_synonym CGPURenderPassEncoderId = ptr

section \<open>Instance, queues and commands\<close>

text \<open>The extension of include/cgpu/extensions/cgpu_vulkan_exts.h that may be chained to the
  descriptor of an instance; an array of names that is not there is None.\<close>

record CGPUVulkanInstanceDescriptor =
  vid_backend :: ECGPUBackend
  vid_ppInstanceLayers :: "string list option"
  vid_ppInstanceExtensions :: "string list option"
  vid_ppDeviceExtensions :: "string list option"
  vid_pDebugUtilsMessenger :: ptr
  vid_pDebugReportMessenger :: ptr

record CGPUInstanceDescriptor =
  id_chained :: "CGPUVulkanInstanceDescriptor option"
  id_backend :: ECGPUBackend
  id_enable_debug_layer :: bool
  id_enable_gpu_based_validation :: bool
  id_enable_set_name :: bool

record CGPUQueueGroupDescriptor =
  qg_queueType :: ECGPUQueueType
  qg_queueCount :: nat

record CGPUDeviceDescriptor =
  dd_disable_pipeline_cache :: bool
  dd_queueGroups :: "CGPUQueueGroupDescriptor list"

record CGPUQueueSubmitDescriptor =
  sd_cmds :: "CGPUCommandBufferId list"
  sd_signal_fence :: CGPUFenceId
  sd_wait_semaphores :: "CGPUSemaphoreId list"
  sd_signal_semaphores :: "CGPUSemaphoreId list"

record CGPUQueuePresentDescriptor =
  pd_swapchain :: CGPUSwapChainId
  pd_wait_semaphores :: "CGPUSemaphoreId list"
  pd_index :: nat

record CGPUQueryPoolDescriptor =
  qpd_type :: ECGPUQueryType
  qpd_query_count :: nat

record CGPUQueryDescriptor =
  qd_index :: nat
  qd_stage :: ECGPUShaderStage

record CGPUAcquireNextDescriptor =
  an_signal_semaphore :: CGPUSemaphoreId
  an_fence :: CGPUFenceId

record CGPUTextureSubresource =
  ts_aspects :: CGPUTextureViewAspects
  ts_mip_level :: nat
  ts_base_array_layer :: nat
  ts_layer_count :: nat

record CGPUBufferToBufferTransfer =
  b2b_dst :: CGPUBufferId
  b2b_dst_offset :: nat
  b2b_src :: CGPUBufferId
  b2b_src_offset :: nat
  b2b_size :: nat

record CGPUTextureToTextureTransfer =
  t2t_src :: CGPUTextureId
  t2t_src_subresource :: CGPUTextureSubresource
  t2t_dst :: CGPUTextureId
  t2t_dst_subresource :: CGPUTextureSubresource

record CGPUBufferToTextureTransfer =
  b2t_dst :: CGPUTextureId
  b2t_dst_subresource :: CGPUTextureSubresource
  b2t_src :: CGPUBufferId
  b2t_src_offset :: nat

record CGPUBufferBarrier =
  bbar_buffer :: CGPUBufferId
  bbar_src_state :: ECGPUResourceState
  bbar_dst_state :: ECGPUResourceState
  bbar_queue_acquire :: bool
  bbar_queue_release :: bool
  bbar_queue_type :: ECGPUQueueType

record CGPUTextureBarrier =
  tbar_texture :: CGPUTextureId
  tbar_src_state :: ECGPUResourceState
  tbar_dst_state :: ECGPUResourceState
  tbar_queue_acquire :: bool
  tbar_queue_release :: bool
  tbar_queue_type :: ECGPUQueueType
  tbar_subresource_barrier :: bool
  tbar_mip_level :: nat
  tbar_array_layer :: nat

record CGPUResourceBarrierDescriptor =
  rb_buffer_barriers :: "CGPUBufferBarrier list"
  rb_texture_barriers :: "CGPUTextureBarrier list"

record CGPUCommandBufferDescriptor =
  cbd_is_secondary :: bool

record CGPUEventInfo =
  ev_name :: string

record CGPUMarkerInfo =
  mk_name :: string

section \<open>Passes\<close>

text \<open>\<open>CGPUClearValue\<close> is a union of four floats with a depth and a stencil value; the code
  that reads it knows which.\<close>

record CGPUClearValue =
  cv_r :: f32
  cv_g :: f32
  cv_b :: f32
  cv_a :: f32

record CGPUComputePassDescriptor =
  cpd_name :: "string option"

record CGPUColorAttachment =
  ca_view :: CGPUTextureViewId
  ca_resolve_view :: CGPUTextureViewId
  ca_load_action :: ECGPULoadAction
  ca_store_action :: ECGPUStoreAction
  ca_clear_color :: CGPUClearValue

record CGPUDepthStencilAttachment =
  ds_view :: CGPUTextureViewId
  ds_depth_load_action :: ECGPULoadAction
  ds_depth_store_action :: ECGPUStoreAction
  ds_clear_depth :: f32
  ds_write_depth :: bool
  ds_stencil_load_action :: ECGPULoadAction
  ds_stencil_store_action :: ECGPUStoreAction
  ds_clear_stencil :: nat
  ds_write_stencil :: bool

record CGPURenderPassDescriptor =
  rpd_name :: "string option"
  rpd_sample_count :: ECGPUSampleCount
  rpd_color_attachments :: "CGPUColorAttachment list"
  rpd_depth_stencil :: "CGPUDepthStencilAttachment option"

section \<open>Root signatures, descriptor sets and pipelines\<close>

record CGPUPipelineShaderDescriptor =
  psd_library :: CGPUShaderLibraryId
  psd_entry :: string
  psd_stage :: ECGPUShaderStage

record CGPURootSignaturePoolDescriptor =
  rspd_name :: "string option"

record CGPURootSignatureDescriptor =
  rsd_shaders :: "CGPUPipelineShaderDescriptor list"
  rsd_static_samplers :: "CGPUSamplerId list"
  rsd_static_sampler_names :: "string list"
  rsd_push_constant_names :: "string list"
  rsd_pool :: CGPURootSignaturePoolId

record CGPUDescriptorSetDescriptor =
  dsd_root_signature :: CGPURootSignatureId
  dsd_set_index :: nat

text \<open>The second union of \<open>CGPUDescriptorData\<close> is an array of handles; the resource type says
  of what. Of the first union the Vulkan backend reads only the buffer ranges.\<close>

record CGPUDescriptorData =
  ddata_name :: "string option"
  ddata_binding :: nat
  ddata_buffer_ranges :: "(nat \<times> nat) list option"
  ddata_handles :: "ptr list option"
  ddata_count :: nat

record CGPUComputePipelineDescriptor =
  cppd_root_signature :: CGPURootSignatureId
  cppd_compute_shader :: CGPUPipelineShaderDescriptor

record CGPUBlendStateDescriptor =
  bs_src_factors :: "ECGPUBlendConstant list"
  bs_dst_factors :: "ECGPUBlendConstant list"
  bs_src_alpha_factors :: "ECGPUBlendConstant list"
  bs_dst_alpha_factors :: "ECGPUBlendConstant list"
  bs_blend_modes :: "ECGPUBlendMode list"
  bs_blend_alpha_modes :: "ECGPUBlendMode list"
  bs_masks :: "nat list"
  bs_alpha_to_coverage :: bool
  bs_independent_blend :: bool

record CGPUDepthStateDesc =
  dst_depth_test :: bool
  dst_depth_write :: bool
  dst_depth_func :: ECGPUCompareMode
  dst_stencil_test :: bool
  dst_stencil_read_mask :: nat
  dst_stencil_write_mask :: nat
  dst_stencil_front_func :: ECGPUCompareMode
  dst_stencil_front_fail :: ECGPUStencilOp
  dst_depth_front_fail :: ECGPUStencilOp
  dst_stencil_front_pass :: ECGPUStencilOp
  dst_stencil_back_func :: ECGPUCompareMode
  dst_stencil_back_fail :: ECGPUStencilOp
  dst_depth_back_fail :: ECGPUStencilOp
  dst_stencil_back_pass :: ECGPUStencilOp

record CGPURasterizerStateDescriptor =
  ras_cull_mode :: ECGPUCullMode
  ras_depth_bias :: int
  ras_slope_scaled_depth_bias :: f32
  ras_fill_mode :: ECGPUFillMode
  ras_front_face :: ECGPUFrontFace
  ras_enable_multi_sample :: bool
  ras_enable_scissor :: bool
  ras_enable_depth_clamp :: bool

record CGPUVertexAttribute =
  va_semantic_name :: string
  va_array_size :: nat
  va_format :: ECGPUFormat
  va_binding :: nat
  va_offset :: nat
  va_elem_stride :: nat
  va_rate :: ECGPUVertexInputRate

text \<open>\<open>CGPUVertexLayout\<close> is an attribute count and an array of CGPU_MAX_VERTEX_ATTRIBS
  attributes; the count may exceed the array, so it is kept apart.\<close>

record CGPUVertexLayout =
  vl_attribute_count :: nat
  vl_attributes :: "CGPUVertexAttribute list"

record CGPURenderPipelineDescriptor =
  rppd_root_signature :: CGPURootSignatureId
  rppd_vertex_shader :: "CGPUPipelineShaderDescriptor option"
  rppd_tesc_shader :: "CGPUPipelineShaderDescriptor option"
  rppd_tese_shader :: "CGPUPipelineShaderDescriptor option"
  rppd_geom_shader :: "CGPUPipelineShaderDescriptor option"
  rppd_fragment_shader :: "CGPUPipelineShaderDescriptor option"
  rppd_vertex_layout :: "CGPUVertexLayout option"
  rppd_blend_state :: "CGPUBlendStateDescriptor option"
  rppd_depth_state :: "CGPUDepthStateDesc option"
  rppd_rasterizer_state :: "CGPURasterizerStateDescriptor option"
  rppd_color_formats :: "ECGPUFormat list"
  rppd_sample_count :: ECGPUSampleCount
  rppd_sample_quality :: nat
  rppd_color_resolve_disable_mask :: u32
  rppd_depth_stencil_format :: ECGPUFormat
  rppd_prim_topology :: ECGPUPrimitiveTopology
  rppd_enable_indirect_command :: bool

section \<open>Resources\<close>

record CGPUShaderLibraryDescriptor =
  sld_name :: string
  sld_code :: "u32 list"
  sld_code_size :: nat
  sld_stage :: ECGPUShaderStage

record CGPUBufferRange =
  br_offset :: nat
  br_size :: nat

record CGPUBufferDescriptor =
  bd_size :: nat
  bd_name :: "string option"
  bd_descriptors :: CGPUResourceTypes
  bd_memory_usage :: ECGPUMemoryUsage
  bd_format :: ECGPUFormat
  bd_flags :: CGPUBufferCreationFlags
  bd_first_element :: nat
  bd_elemet_count :: nat
  bd_element_stride :: nat
  bd_start_state :: ECGPUResourceState
  bd_prefer_on_device :: bool
  bd_prefer_on_host :: bool

record CGPUTextureDescriptor =
  td_name :: "string option"
  td_native_handle :: ptr
  td_flags :: CGPUTextureCreationFlags
  td_width :: nat
  td_height :: nat
  td_depth :: nat
  td_array_size :: nat
  td_format :: ECGPUFormat
  td_mip_levels :: nat
  td_sample_count :: ECGPUSampleCount
  td_sample_quality :: nat
  td_owner_queue :: CGPUQueueId
  td_start_state :: ECGPUResourceState
  td_descriptors :: CGPUResourceTypes
  td_is_dedicated :: bool
  td_is_aliasing :: bool

record CGPUTextureViewDescriptor =
  tvd_name :: "string option"
  tvd_texture :: CGPUTextureId
  tvd_format :: ECGPUFormat
  tvd_usages :: CGPUTexutreViewUsages
  tvd_aspects :: CGPUTextureViewAspects
  tvd_dims :: ECGPUTextureDimension
  tvd_base_array_layer :: nat
  tvd_array_layer_count :: nat
  tvd_base_mip_level :: nat
  tvd_mip_level_count :: nat

record CGPUTextureAliasingBindDescriptor =
  tab_aliased :: CGPUTextureId
  tab_aliasing :: CGPUTextureId

record CGPUSamplerDescriptor =
  smp_min_filter :: ECGPUFilterType
  smp_mag_filter :: ECGPUFilterType
  smp_mipmap_mode :: ECGPUMipMapMode
  smp_address_u :: ECGPUAddressMode
  smp_address_v :: ECGPUAddressMode
  smp_address_w :: ECGPUAddressMode
  smp_mip_lod_bias :: f32
  smp_max_anisotropy :: f32
  smp_compare_func :: ECGPUCompareMode

record CGPUSwapChainDescriptor =
  scd_presentQueues :: "CGPUQueueId list option"
  scd_presentQueuesCount :: nat
  scd_surface :: CGPUSurfaceId
  scd_imageCount :: nat
  scd_width :: nat
  scd_height :: nat
  scd_enableVsync :: bool
  scd_useFlipSwapEffect :: bool
  scd_format :: ECGPUFormat

end
