(* ===== verification/Vk_Types.thy ===== *)
theory Vk_Types
  imports Vk_Formats
begin

text \<open>
  The vocabulary of the Vulkan API that the backend uses. The API itself is outside this
  repository: its enumerators are modelled by name, its flag words by the set of the named
  bits, its handles by numbers (0 is VK_NULL_HANDLE), and its entry points by the calls the
  backend issues. What a call answers is a parameter of the model (the driver of
  \<open>CGPU_Env\<close>).
\<close>

type_synonym VkHandle = nat

abbreviation (input) VK_NULL_HANDLE :: VkHandle where "VK_NULL_HANDLE \<equiv> 0"

section \<open>Results and flag bits\<close>

datatype (plugins only: code) VkResult =
    VK_SUCCESS
  | VK_SUBOPTIMAL_KHR
  | VK_ERROR_OUT_OF_DATE_KHR
  | VK_ERROR_OUT_OF_HOST_MEMORY
  | VK_ERROR_OUT_OF_DEVICE_MEMORY
  | VK_RESULT_OTHER nat

datatype (plugins only: code) VkQueueFlagBit =
    VK_QUEUE_GRAPHICS_BIT
  | VK_QUEUE_COMPUTE_BIT
  | VK_QUEUE_TRANSFER_BIT
  | VK_QUEUE_OTHER_BIT nat

datatype (plugins only: code) VkAccessFlagBit =
    VK_ACCESS_INDIRECT_COMMAND_READ_BIT
  | VK_ACCESS_INDEX_READ_BIT
  | VK_ACCESS_VERTEX_ATTRIBUTE_READ_BIT
  | VK_ACCESS_UNIFORM_READ_BIT
  | VK_ACCESS_INPUT_ATTACHMENT_READ_BIT
  | VK_ACCESS_SHADER_READ_BIT
  | VK_ACCESS_SHADER_WRITE_BIT
  | VK_ACCESS_COLOR_ATTACHMENT_READ_BIT
  | VK_ACCESS_COLOR_ATTACHMENT_WRITE_BIT
  | VK_ACCESS_DEPTH_STENCIL_ATTACHMENT_READ_BIT
  | VK_ACCESS_DEPTH_STENCIL_ATTACHMENT_WRITE_BIT
  | VK_ACCESS_TRANSFER_READ_BIT
  | VK_ACCESS_TRANSFER_WRITE_BIT
  | VK_ACCESS_HOST_READ_BIT
  | VK_ACCESS_HOST_WRITE_BIT
  | VK_ACCESS_MEMORY_READ_BIT

type_synonym VkAccessFlags = "VkAccessFlagBit set"

datatype (plugins only: code) VkPipelineStageFlagBit =
    VK_PIPELINE_STAGE_TOP_OF_PIPE_BIT
  | VK_PIPELINE_STAGE_DRAW_INDIRECT_BIT
  | VK_PIPELINE_STAGE_VERTEX_INPUT_BIT
  | VK_PIPELINE_STAGE_VERTEX_SHADER_BIT
  | VK_PIPELINE_STAGE_TESSELLATION_CONTROL_SHADER_BIT
  | VK_PIPELINE_STAGE_TESSELLATION_EVALUATION_SHADER_BIT
  | VK_PIPELINE_STAGE_GEOMETRY_SHADER_BIT
  | VK_PIPELINE_STAGE_FRAGMENT_SHADER_BIT
  | VK_PIPELINE_STAGE_EARLY_FRAGMENT_TESTS_BIT
  | VK_PIPELINE_STAGE_LATE_FRAGMENT_TESTS_BIT
  | VK_PIPELINE_STAGE_COLOR_ATTACHMENT_OUTPUT_BIT
  | VK_PIPELINE_STAGE_COMPUTE_SHADER_BIT
  | VK_PIPELINE_STAGE_TRANSFER_BIT
  | VK_PIPELINE_STAGE_HOST_BIT
  | VK_PIPELINE_STAGE_BOTTOM_OF_PIPE_BIT
  | VK_PIPELINE_STAGE_ALL_COMMANDS_BIT
  | VK_PIPELINE_STAGE_RAY_TRACING_SHADER_BIT_KHR

type_synonym VkPipelineStageFlags = "VkPipelineStageFlagBit set"

datatype (plugins only: code) VkImageLayout =
    VK_IMAGE_LAYOUT_UNDEFINED
  | VK_IMAGE_LAYOUT_GENERAL
  | VK_IMAGE_LAYOUT_COLOR_ATTACHMENT_OPTIMAL
  | VK_IMAGE_LAYOUT_DEPTH_STENCIL_ATTACHMENT_OPTIMAL
  | VK_IMAGE_LAYOUT_SHADER_READ_ONLY_OPTIMAL
  | VK_IMAGE_LAYOUT_TRANSFER_SRC_OPTIMAL
  | VK_IMAGE_LAYOUT_TRANSFER_DST_OPTIMAL
  | VK_IMAGE_LAYOUT_PRESENT_SRC_KHR
  | VK_IMAGE_LAYOUT_FRAGMENT_DENSITY_MAP_OPTIMAL_EXT

text \<open>Aspect masks are kept as words, because textures store them in a bit field; the values are
  those of the Vulkan headers.\<close>

type_synonym VkImageAspectFlags = u32

abbreviation (input) VK_IMAGE_ASPECT_COLOR_BIT :: VkImageAspectFlags where "VK_IMAGE_ASPECT_COLOR_BIT \<equiv> 1"
abbreviation (input) VK_IMAGE_ASPECT_DEPTH_BIT :: VkImageAspectFlags where "VK_IMAGE_ASPECT_DEPTH_BIT \<equiv> 2"
abbreviation (input) VK_IMAGE_ASPECT_STENCIL_BIT :: VkImageAspectFlags where "VK_IMAGE_ASPECT_STENCIL_BIT \<equiv> 4"

datatype (plugins only: code) VkImageUsageFlagBit =
    VK_IMAGE_USAGE_TRANSFER_SRC_BIT
  | VK_IMAGE_USAGE_TRANSFER_DST_BIT
  | VK_IMAGE_USAGE_SAMPLED_BIT
  | VK_IMAGE_USAGE_STORAGE_BIT
  | VK_IMAGE_USAGE_COLOR_ATTACHMENT_BIT
  | VK_IMAGE_USAGE_DEPTH_STENCIL_ATTACHMENT_BIT

datatype (plugins only: code) VkImageCreateFlagBit =
    VK_IMAGE_CREATE_CUBE_COMPATIBLE_BIT
  | VK_IMAGE_CREATE_2D_ARRAY_COMPATIBLE_BIT

datatype (plugins only: code) VkBufferUsageFlagBit =
    VK_BUFFER_USAGE_TRANSFER_SRC_BIT
  | VK_BUFFER_USAGE_TRANSFER_DST_BIT
  | VK_BUFFER_USAGE_UNIFORM_TEXEL_BUFFER_BIT
  | VK_BUFFER_USAGE_STORAGE_TEXEL_BUFFER_BIT
  | VK_BUFFER_USAGE_UNIFORM_BUFFER_BIT
  | VK_BUFFER_USAGE_STORAGE_BUFFER_BIT
  | VK_BUFFER_USAGE_INDEX_BUFFER_BIT
  | VK_BUFFER_USAGE_VERTEX_BUFFER_BIT
  | VK_BUFFER_USAGE_INDIRECT_BUFFER_BIT

datatype (plugins only: code) VkFormatFeatureFlagBit =
    VK_FORMAT_FEATURE_SAMPLED_IMAGE_BIT
  | VK_FORMAT_FEATURE_STORAGE_IMAGE_BIT
  | VK_FORMAT_FEATURE_UNIFORM_TEXEL_BUFFER_BIT
  | VK_FORMAT_FEATURE_STORAGE_TEXEL_BUFFER_BIT
  | VK_FORMAT_FEATURE_COLOR_ATTACHMENT_BIT
  | VK_FORMAT_FEATURE_DEPTH_STENCIL_ATTACHMENT_BIT
  | VK_FORMAT_FEATURE_OTHER_BIT nat

datatype (plugins only: code) VkShaderStageFlagBit =
    VK_SHADER_STAGE_VERTEX_BIT
  | VK_SHADER_STAGE_TESSELLATION_CONTROL_BIT
  | VK_SHADER_STAGE_TESSELLATION_EVALUATION_BIT
  | VK_SHADER_STAGE_GEOMETRY_BIT
  | VK_SHADER_STAGE_FRAGMENT_BIT
  | VK_SHADER_STAGE_COMPUTE_BIT

type_synonym VkShaderStageFlags = "VkShaderStageFlagBit set"

text \<open>\<open>VK_SHADER_STAGE_ALL_GRAPHICS\<close> is, in the Vulkan headers, the union of the five graphics bits.\<close>

definition VK_SHADER_STAGE_ALL_GRAPHICS :: VkShaderStageFlags where
  "VK_SHADER_STAGE_ALL_GRAPHICS =
     {VK_SHADER_STAGE_VERTEX_BIT, VK_SHADER_STAGE_TESSELLATION_CONTROL_BIT,
      VK_SHADER_STAGE_TESSELLATION_EVALUATION_BIT, VK_SHADER_STAGE_GEOMETRY_BIT,
      VK_SHADER_STAGE_FRAGMENT_BIT}"

section \<open>Plain enumerations\<close>

datatype (plugins only: code) VkDescriptorType =
    VK_DESCRIPTOR_TYPE_SAMPLER
  | VK_DESCRIPTOR_TYPE_COMBINED_IMAGE_SAMPLER
  | VK_DESCRIPTOR_TYPE_SAMPLED_IMAGE
  | VK_DESCRIPTOR_TYPE_STORAGE_IMAGE
  | VK_DESCRIPTOR_TYPE_UNIFORM_TEXEL_BUFFER
  | VK_DESCRIPTOR_TYPE_STORAGE_TEXEL_BUFFER
  | VK_DESCRIPTOR_TYPE_UNIFORM_BUFFER
  | VK_DESCRIPTOR_TYPE_STORAGE_BUFFER
  | VK_DESCRIPTOR_TYPE_UNIFORM_BUFFER_DYNAMIC
  | VK_DESCRIPTOR_TYPE_STORAGE_BUFFER_DYNAMIC
  | VK_DESCRIPTOR_TYPE_INPUT_ATTACHMENT
  | VK_DESCRIPTOR_TYPE_MAX_ENUM

datatype (plugins only: code) VkQueryType =
    VK_QUERY_TYPE_OCCLUSION
  | VK_QUERY_TYPE_PIPELINE_STATISTICS
  | VK_QUERY_TYPE_TIMESTAMP
  | VK_QUERY_TYPE_MAX_ENUM

datatype (plugins only: code) VkPipelineBindPoint =
    VK_PIPELINE_BIND_POINT_GRAPHICS
  | VK_PIPELINE_BIND_POINT_COMPUTE
  | VK_PIPELINE_BIND_POINT_MAX_ENUM

datatype (plugins only: code) VkSampleCountFlagBits =
    VK_SAMPLE_COUNT_1_BIT
  | VK_SAMPLE_COUNT_2_BIT
  | VK_SAMPLE_COUNT_4_BIT
  | VK_SAMPLE_COUNT_8_BIT
  | VK_SAMPLE_COUNT_16_BIT

datatype (plugins only: code) VkAttachmentLoadOp =
    VK_ATTACHMENT_LOAD_OP_LOAD
  | VK_ATTACHMENT_LOAD_OP_CLEAR
  | VK_ATTACHMENT_LOAD_OP_DONT_CARE

datatype (plugins only: code) VkAttachmentStoreOp =
    VK_ATTACHMENT_STORE_OP_STORE
  | VK_ATTACHMENT_STORE_OP_DONT_CARE

datatype (plugins only: code) VkIndexType =
    VK_INDEX_TYPE_UINT16
  | VK_INDEX_TYPE_UINT32
  | VK_INDEX_TYPE_UINT8_EXT

datatype (plugins only: code) VkCompareOp =
    VK_COMPARE_OP_NEVER
  | VK_COMPARE_OP_LESS
  | VK_COMPARE_OP_EQUAL
  | VK_COMPARE_OP_LESS_OR_EQUAL
  | VK_COMPARE_OP_GREATER
  | VK_COMPARE_OP_NOT_EQUAL
  | VK_COMPARE_OP_GREATER_OR_EQUAL
  | VK_COMPARE_OP_ALWAYS

datatype (plugins only: code) VkStencilOp =
    VK_STENCIL_OP_KEEP
  | VK_STENCIL_OP_ZERO
  | VK_STENCIL_OP_REPLACE
  | VK_STENCIL_OP_INVERT
  | VK_STENCIL_OP_INCREMENT_AND_WRAP
  | VK_STENCIL_OP_DECREMENT_AND_WRAP
  | VK_STENCIL_OP_INCREMENT_AND_CLAMP
  | VK_STENCIL_OP_DECREMENT_AND_CLAMP

datatype (plugins only: code) VkBlendFactor =
    VK_BLEND_FACTOR_ZERO
  | VK_BLEND_FACTOR_ONE
  | VK_BLEND_FACTOR_SRC_COLOR
  | VK_BLEND_FACTOR_ONE_MINUS_SRC_COLOR
  | VK_BLEND_FACTOR_DST_COLOR
  | VK_BLEND_FACTOR_ONE_MINUS_DST_COLOR
  | VK_BLEND_FACTOR_SRC_ALPHA
  | VK_BLEND_FACTOR_ONE_MINUS_SRC_ALPHA
  | VK_BLEND_FACTOR_DST_ALPHA
  | VK_BLEND_FACTOR_ONE_MINUS_DST_ALPHA
  | VK_BLEND_FACTOR_SRC_ALPHA_SATURATE
  | VK_BLEND_FACTOR_CONSTANT_COLOR
  | VK_BLEND_FACTOR_ONE_MINUS_CONSTANT_COLOR

datatype (plugins only: code) VkBlendOp =
    VK_BLEND_OP_ADD
  | VK_BLEND_OP_SUBTRACT
  | VK_BLEND_OP_REVERSE_SUBTRACT
  | VK_BLEND_OP_MIN
  | VK_BLEND_OP_MAX

datatype (plugins only: code) VkCullMode = VK_CULL_MODE_NONE | VK_CULL_MODE_FRONT_BIT | VK_CULL_MODE_BACK_BIT

datatype (plugins only: code) VkPolygonMode = VK_POLYGON_MODE_FILL | VK_POLYGON_MODE_LINE

datatype (plugins only: code) VkFrontFace = VK_FRONT_FACE_COUNTER_CLOCKWISE | VK_FRONT_FACE_CLOCKWISE

datatype (plugins only: code) VkVertexInputRate = VK_VERTEX_INPUT_RATE_VERTEX | VK_VERTEX_INPUT_RATE_INSTANCE

datatype (plugins only: code) VkPrimitiveTopology =
    VK_PRIMITIVE_TOPOLOGY_POINT_LIST
  | VK_PRIMITIVE_TOPOLOGY_LINE_LIST
  | VK_PRIMITIVE_TOPOLOGY_LINE_STRIP
  | VK_PRIMITIVE_TOPOLOGY_TRIANGLE_LIST
  | VK_PRIMITIVE_TOPOLOGY_TRIANGLE_STRIP
  | VK_PRIMITIVE_TOPOLOGY_PATCH_LIST

datatype (plugins only: code) VkFilter = VK_FILTER_NEAREST | VK_FILTER_LINEAR

datatype (plugins only: code) VkSamplerMipmapMode =
    VK_SAMPLER_MIPMAP_MODE_NEAREST
  | VK_SAMPLER_MIPMAP_MODE_LINEAR
  | VK_SAMPLER_MIPMAP_MODE_MAX_ENUM

datatype (plugins only: code) VkSamplerAddressMode =
    VK_SAMPLER_ADDRESS_MODE_REPEAT
  | VK_SAMPLER_ADDRESS_MODE_MIRRORED_REPEAT
  | VK_SAMPLER_ADDRESS_MODE_CLAMP_TO_EDGE
  | VK_SAMPLER_ADDRESS_MODE_CLAMP_TO_BORDER

datatype (plugins only: code) VkImageType =
    VK_IMAGE_TYPE_1D
  | VK_IMAGE_TYPE_2D
  | VK_IMAGE_TYPE_3D
  | VK_IMAGE_TYPE_MAX_ENUM

datatype (plugins only: code) VkImageViewType =
    VK_IMAGE_VIEW_TYPE_1D
  | VK_IMAGE_VIEW_TYPE_2D
  | VK_IMAGE_VIEW_TYPE_3D
  | VK_IMAGE_VIEW_TYPE_CUBE
  | VK_IMAGE_VIEW_TYPE_1D_ARRAY
  | VK_IMAGE_VIEW_TYPE_2D_ARRAY
  | VK_IMAGE_VIEW_TYPE_CUBE_ARRAY
  | VK_IMAGE_VIEW_TYPE_MAX_ENUM

datatype (plugins only: code) VkPresentModeKHR =
    VK_PRESENT_MODE_IMMEDIATE_KHR
  | VK_PRESENT_MODE_MAILBOX_KHR
  | VK_PRESENT_MODE_FIFO_KHR
  | VK_PRESENT_MODE_FIFO_RELAXED_KHR
  | VK_PRESENT_MODE_OTHER nat

text \<open>Color spaces, transforms of the surface and alpha modes have the values of the Vulkan headers.\<close>

type_synonym VkColorSpaceKHR = nat

abbreviation (input) VK_COLOR_SPACE_SRGB_NONLINEAR_KHR :: VkColorSpaceKHR where "VK_COLOR_SPACE_SRGB_NONLINEAR_KHR \<equiv> 0"
abbreviation (input) VK_COLOR_SPACE_HDR10_ST2084_EXT :: VkColorSpaceKHR where "VK_COLOR_SPACE_HDR10_ST2084_EXT \<equiv> 1000104008"
abbreviation (input) VK_SURFACE_TRANSFORM_IDENTITY_BIT_KHR :: nat where "VK_SURFACE_TRANSFORM_IDENTITY_BIT_KHR \<equiv> 1"
abbreviation (input) VK_COMPOSITE_ALPHA_OPAQUE_BIT_KHR :: nat where "VK_COMPOSITE_ALPHA_OPAQUE_BIT_KHR \<equiv> 1"
abbreviation (input) VK_COMPOSITE_ALPHA_PRE_MULTIPLIED_BIT_KHR :: nat where "VK_COMPOSITE_ALPHA_PRE_MULTIPLIED_BIT_KHR \<equiv> 2"
abbreviation (input) VK_COMPOSITE_ALPHA_POST_MULTIPLIED_BIT_KHR :: nat where "VK_COMPOSITE_ALPHA_POST_MULTIPLIED_BIT_KHR \<equiv> 4"
abbreviation (input) VK_COMPOSITE_ALPHA_INHERIT_BIT_KHR :: nat where "VK_COMPOSITE_ALPHA_INHERIT_BIT_KHR \<equiv> 8"

datatype (plugins only: code) VkPhysicalDeviceType =
    VK_PHYSICAL_DEVICE_TYPE_OTHER
  | VK_PHYSICAL_DEVICE_TYPE_INTEGRATED_GPU
  | VK_PHYSICAL_DEVICE_TYPE_DISCRETE_GPU
  | VK_PHYSICAL_DEVICE_TYPE_VIRTUAL_GPU
  | VK_PHYSICAL_DEVICE_TYPE_CPU

datatype (plugins only: code) VkMemoryPropertyFlagBit =
    VK_MEMORY_PROPERTY_DEVICE_LOCAL_BIT
  | VK_MEMORY_PROPERTY_HOST_VISIBLE_BIT
  | VK_MEMORY_PROPERTY_OTHER_BIT nat

datatype (plugins only: code) VkMemoryHeapFlagBit =
    VK_MEMORY_HEAP_DEVICE_LOCAL_BIT
  | VK_MEMORY_HEAP_OTHER_BIT nat

section \<open>Structures passed to the driver\<close>

record VkSubmitInfo =
  pCommandBuffers :: "VkHandle list"
  waitSemaphoreCount :: nat
  pWaitSemaphores :: "VkHandle list"
  signalSemaphoreCount :: nat
  pSignalSemaphores :: "VkHandle list"

record VkPresentInfoKHR =
  present_waitSemaphoreCount :: nat
  present_pWaitSemaphores :: "VkHandle list"
  present_pSwapchain :: VkHandle
  present_imageIndex :: nat

text \<open>Queue family indices are 32 bit; \<open>VK_QUEUE_FAMILY_IGNORED\<close> and the \<open>VK_REMAINING\<close>
  constants are \<open>~0U\<close> in the Vulkan headers.\<close>

abbreviation (input) VK_QUEUE_FAMILY_IGNORED :: u32 where "VK_QUEUE_FAMILY_IGNORED \<equiv> - 1"
abbreviation (input) VK_REMAINING_MIP_LEVELS :: u32 where "VK_REMAINING_MIP_LEVELS \<equiv> - 1"
abbreviation (input) VK_REMAINING_ARRAY_LAYERS :: u32 where "VK_REMAINING_ARRAY_LAYERS \<equiv> - 1"
abbreviation (input) VK_ATTACHMENT_UNUSED :: u32 where "VK_ATTACHMENT_UNUSED \<equiv> - 1"

record VkBufferMemoryBarrier =
  bb_srcAccessMask :: VkAccessFlags
  bb_dstAccessMask :: VkAccessFlags
  bb_srcQueueFamilyIndex :: u32
  bb_dstQueueFamilyIndex :: u32
  bb_buffer :: VkHandle

record VkImageMemoryBarrier =
  ib_srcAccessMask :: VkAccessFlags
  ib_dstAccessMask :: VkAccessFlags
  ib_oldLayout :: VkImageLayout
  ib_newLayout :: VkImageLayout
  ib_srcQueueFamilyIndex :: u32
  ib_dstQueueFamilyIndex :: u32
  ib_image :: VkHandle
  ib_aspectMask :: u32
  ib_baseMipLevel :: u32
  ib_levelCount :: u32
  ib_baseArrayLayer :: u32
  ib_layerCount :: u32

record VkBufferImageCopy =
  bic_bufferOffset :: nat
  bic_bufferRowLength :: nat
  bic_bufferImageHeight :: nat
  bic_aspectMask :: u32
  bic_mipLevel :: nat
  bic_baseArrayLayer :: nat
  bic_layerCount :: nat
  bic_width :: nat
  bic_height :: nat
  bic_depth :: nat

record VkImageCopy =
  ic_srcAspectMask :: u32
  ic_srcMipLevel :: nat
  ic_srcBaseArrayLayer :: nat
  ic_srcLayerCount :: nat
  ic_dstAspectMask :: u32
  ic_dstMipLevel :: nat
  ic_dstBaseArrayLayer :: nat
  ic_dstLayerCount :: nat
  ic_width :: nat
  ic_height :: nat
  ic_depth :: nat

record VkAttachmentDescription =
  ad_format :: VkFormat
  ad_samples :: VkSampleCountFlagBits
  ad_loadOp :: VkAttachmentLoadOp
  ad_storeOp :: VkAttachmentStoreOp
  ad_stencilLoadOp :: VkAttachmentLoadOp
  ad_stencilStoreOp :: VkAttachmentStoreOp
  ad_initialLayout :: VkImageLayout
  ad_finalLayout :: VkImageLayout

record VkAttachmentReference =
  ar_attachment :: u32
  ar_layout :: VkImageLayout

record VkRenderPassCreateInfo =
  rpi_attachments :: "VkAttachmentDescription list"
  rpi_colorAttachments :: "VkAttachmentReference list"
  rpi_resolveAttachments :: "VkAttachmentReference list option"
  rpi_depthStencilAttachment :: "VkAttachmentReference option"

record VkFramebufferCreateInfo =
  fbi_renderPass :: VkHandle
  fbi_attachments :: "VkHandle list"
  fbi_width :: nat
  fbi_height :: nat
  fbi_layers :: nat

text \<open>\<open>VkClearValue\<close> is a union; the code writes one of its two views.\<close>

datatype (plugins only: code) VkClearValue =
    VkClearColor "32 word" "32 word" "32 word" "32 word"
  | VkClearDepthStencil "32 word" nat

record VkRenderPassBeginInfo =
  rpb_renderPass :: VkHandle
  rpb_framebuffer :: VkHandle
  rpb_width :: nat
  rpb_height :: nat
  rpb_clearValueCount :: nat
  rpb_pClearValues :: "VkClearValue list"

record VkPushConstantRange =
  pcr_stageFlags :: VkShaderStageFlags
  pcr_offset :: nat
  pcr_size :: nat

record VkDescriptorSetLayoutBinding =
  dsl_binding :: nat
  dsl_descriptorType :: VkDescriptorType
  dsl_descriptorCount :: nat
  dsl_stageFlags :: VkShaderStageFlags
  dsl_pImmutableSamplers :: "VkHandle option"

record VkDescriptorUpdateTemplateEntry =
  due_dstBinding :: nat
  due_dstArrayElement :: nat
  due_descriptorCount :: nat
  due_descriptorType :: VkDescriptorType
  due_offset :: nat
  due_stride :: nat

record VkDescriptorUpdateTemplateCreateInfo =
  dut_pDescriptorUpdateEntries :: "VkDescriptorUpdateTemplateEntry list"
  dut_descriptorUpdateEntryCount :: nat
  dut_descriptorSetLayout :: VkHandle
  dut_pipelineBindPoint :: VkPipelineBindPoint
  dut_pipelineLayout :: VkHandle
  dut_set :: nat

record VkBufferCreateInfo =
  bci_size :: nat
  bci_usage :: "VkBufferUsageFlagBit set"

record VkBufferViewCreateInfo =
  bvc_buffer :: VkHandle
  bvc_format :: VkFormat
  bvc_offset :: nat
  bvc_range :: nat

text \<open>\<open>ici_external\<close> tells whether an external memory structure is chained.\<close>

record VkImageCreateInfo =
  ici_flags :: "VkImageCreateFlagBit set"
  ici_imageType :: VkImageType
  ici_format :: VkFormat
  ici_width :: nat
  ici_height :: nat
  ici_depth :: nat
  ici_mipLevels :: nat
  ici_arrayLayers :: nat
  ici_samples :: VkSampleCountFlagBits
  ici_usage :: "VkImageUsageFlagBit set"
  ici_external :: bool

record VkImageViewCreateInfo =
  ivc_image :: VkHandle
  ivc_viewType :: VkImageViewType
  ivc_format :: VkFormat
  ivc_aspectMask :: u32
  ivc_baseMipLevel :: nat
  ivc_levelCount :: nat
  ivc_baseArrayLayer :: nat
  ivc_layerCount :: nat

record VkSamplerCreateInfo =
  sci_magFilter :: VkFilter
  sci_minFilter :: VkFilter
  sci_mipmapMode :: VkSamplerMipmapMode
  sci_addressModeU :: VkSamplerAddressMode
  sci_addressModeV :: VkSamplerAddressMode
  sci_addressModeW :: VkSamplerAddressMode
  sci_mipLodBias :: "32 word"
  sci_anisotropyEnable :: bool
  sci_maxAnisotropy :: "32 word"
  sci_compareEnable :: bool
  sci_compareOp :: VkCompareOp
  sci_maxLod :: "32 word"

text \<open>
  The Vulkan Memory Allocator: the usages are its values, the flags its bits;
  \<open>vma_prefers_host_visible\<close> is the one bit of the preferred memory properties that is ever set,
  \<open>vma_exports\<close> whether an export structure is passed along.
\<close>

abbreviation (input) VMA_MEMORY_USAGE_GPU_ONLY :: nat where "VMA_MEMORY_USAGE_GPU_ONLY \<equiv> 1"
abbreviation (input) VMA_MEMORY_USAGE_AUTO :: nat where "VMA_MEMORY_USAGE_AUTO \<equiv> 7"
abbreviation (input) VMA_MEMORY_USAGE_AUTO_PREFER_DEVICE :: nat where "VMA_MEMORY_USAGE_AUTO_PREFER_DEVICE \<equiv> 8"
abbreviation (input) VMA_MEMORY_USAGE_AUTO_PREFER_HOST :: nat where "VMA_MEMORY_USAGE_AUTO_PREFER_HOST \<equiv> 9"

datatype (plugins only: code) VmaAllocationCreateFlagBit =
    VMA_ALLOCATION_CREATE_DEDICATED_MEMORY_BIT
  | VMA_ALLOCATION_CREATE_MAPPED_BIT
  | VMA_ALLOCATION_CREATE_CAN_ALIAS_BIT
  | VMA_ALLOCATION_CREATE_HOST_ACCESS_SEQUENTIAL_WRITE_BIT
  | VMA_ALLOCATION_CREATE_HOST_ACCESS_RANDOM_BIT

record VmaAllocationCreateInfo =
  vma_usage :: nat
  vma_flags :: "VmaAllocationCreateFlagBit set"
  vma_prefers_host_visible :: bool
  vma_exports :: bool

text \<open>
  The state of a graphics pipeline. The members that the code always fills with the same
  constants (one dynamic viewport and scissor, no logic operation, no restart) are left out.
\<close>

record VkVertexInputBindingDescription =
  vib_binding :: nat
  vib_stride :: nat
  vib_inputRate :: VkVertexInputRate

record VkVertexInputAttributeDescription =
  via_location :: nat
  via_binding :: nat
  via_format :: VkFormat
  via_offset :: nat

record VkPipelineShaderStageCreateInfo =
  pss_stage :: VkShaderStageFlagBit
  pss_module :: VkHandle
  pss_pName :: string

record VkStencilOpState =
  sos_failOp :: VkStencilOp
  sos_passOp :: VkStencilOp
  sos_depthFailOp :: VkStencilOp
  sos_compareOp :: VkCompareOp
  sos_compareMask :: nat
  sos_writeMask :: nat

record VkPipelineDepthStencilStateCreateInfo =
  pds_depthTestEnable :: bool
  pds_depthWriteEnable :: bool
  pds_depthCompareOp :: VkCompareOp
  pds_stencilTestEnable :: bool
  pds_front :: VkStencilOpState
  pds_back :: VkStencilOpState

record VkPipelineRasterizationStateCreateInfo =
  prs_depthClampEnable :: bool
  prs_polygonMode :: VkPolygonMode
  prs_cullMode :: VkCullMode
  prs_frontFace :: VkFrontFace
  prs_depthBiasEnable :: bool
  prs_depthBiasConstantFactor :: "32 word"
  prs_depthBiasSlopeFactor :: "32 word"

record VkPipelineColorBlendAttachmentState =
  cba_blendEnable :: bool
  cba_srcColorBlendFactor :: VkBlendFactor
  cba_dstColorBlendFactor :: VkBlendFactor
  cba_colorBlendOp :: VkBlendOp
  cba_srcAlphaBlendFactor :: VkBlendFactor
  cba_dstAlphaBlendFactor :: VkBlendFactor
  cba_alphaBlendOp :: VkBlendOp
  cba_colorWriteMask :: nat

record VkGraphicsPipelineCreateInfo =
  gpi_pStages :: "VkPipelineShaderStageCreateInfo list"
  gpi_vertexBindingDescriptionCount :: nat
  gpi_pVertexBindingDescriptions :: "VkVertexInputBindingDescription list"
  gpi_vertexAttributeDescriptionCount :: nat
  gpi_pVertexAttributeDescriptions :: "VkVertexInputAttributeDescription list"
  gpi_topology :: VkPrimitiveTopology
  gpi_rasterizationSamples :: VkSampleCountFlagBits
  gpi_rasterization :: VkPipelineRasterizationStateCreateInfo
  gpi_depthStencil :: VkPipelineDepthStencilStateCreateInfo
  gpi_attachmentCount :: nat
  gpi_pAttachments :: "VkPipelineColorBlendAttachmentState list"
  gpi_layout :: VkHandle
  gpi_renderPass :: VkHandle

text \<open>
  \<open>VkDescriptorUpdateData\<close> of cgpu_vulkan.h is a union of an image (sampler, view, layout), a
  buffer (handle, offset, range) and a texel view: three machine words, of which the layout
  takes the lower half of the third.
\<close>

record VkDescriptorUpdateData =
  upd_handle :: nat
  upd_second :: nat
  upd_third :: nat

record VkSurfaceFormatKHR =
  sf_format :: VkFormat
  sf_colorSpace :: VkColorSpaceKHR

record VkSurfaceCapabilitiesKHR =
  minImageCount :: nat
  maxImageCount :: nat
  minImageExtent :: "nat \<times> nat"
  maxImageExtent :: "nat \<times> nat"
  supportedTransforms :: nat
  currentTransform :: nat
  supportedCompositeAlpha :: nat

record VkSwapchainCreateInfoKHR =
  sci_surface :: VkHandle
  sci_minImageCount :: nat
  sci_imageFormat :: VkFormat
  sci_imageColorSpace :: VkColorSpaceKHR
  sci_imageExtent :: "nat \<times> nat"
  sci_imageUsage :: "VkImageUsageFlagBit set"
  sci_queueFamilyIndex :: u32
  sci_preTransform :: nat
  sci_compositeAlpha :: nat
  sci_presentMode :: VkPresentModeKHR

record VkDeviceQueueCreateInfo =
  dqi_queueFamilyIndex :: u32
  dqi_queueCount :: nat

text \<open>The features of the device are handed over as they were queried.\<close>

record VkDeviceCreateInfo =
  dci_pQueueCreateInfos :: "VkDeviceQueueCreateInfo list"
  dci_ppEnabledExtensionNames :: "string list"
  dci_ppEnabledLayerNames :: "string list"

record VkInstanceCreateInfo =
  ici_ppEnabledLayerNames :: "string list"
  ici_ppEnabledExtensionNames :: "string list"
  ici_gpu_assisted_validation :: bool

section \<open>Calls\<close>

text \<open>Queries with a count return the count when they are passed no array.\<close>

datatype (plugins only: code) vk_setup_call =
    VolkInitialize
  | VkCreateInstance VkInstanceCreateInfo
  | VkDestroyInstance VkHandle
  | VolkLoadInstance VkHandle
  | VkCreateDebugUtilsMessengerEXT VkHandle ptr
  | VkDestroyDebugUtilsMessengerEXT VkHandle VkHandle
  | VkCreateDebugReportCallbackEXT VkHandle ptr
  | VkCreateDevice VkHandle VkDeviceCreateInfo
  | VkDestroyDevice VkHandle
  | VkCreatePipelineCache VkHandle
  | VkDestroyPipelineCache VkHandle VkHandle
  | VmaCreateAllocator VkHandle VkHandle VkHandle bool
  | VmaDestroyAllocator VkHandle
  | VkCreateDescriptorPool VkHandle "(VkDescriptorType \<times> nat) list" nat
  | VkDestroyDescriptorPool VkHandle VkHandle
  | VkGetPhysicalDeviceSurfaceCapabilitiesKHR VkHandle VkHandle
  | VkGetPhysicalDeviceSurfaceFormatsKHR VkHandle VkHandle bool
  | VkGetPhysicalDeviceSurfacePresentModesKHR VkHandle VkHandle bool
  | VkGetPhysicalDeviceSurfaceSupportKHR VkHandle nat VkHandle
  | VkCreateSwapchainKHR VkHandle VkSwapchainCreateInfoKHR
  | VkGetSwapchainImagesKHR VkHandle VkHandle bool

datatype (plugins only: code) vk_sync_call =
    VkCreateFence VkHandle
  | VkDestroyFence VkHandle VkHandle
  | VkWaitForFences VkHandle "VkHandle list"
  | VkResetFences VkHandle "VkHandle list"
  | VkGetFenceStatus VkHandle VkHandle
  | VkCreateSemaphore VkHandle
  | VkDestroySemaphore VkHandle VkHandle

datatype (plugins only: code) vk_queue_call =
    VkGetDeviceQueue VkHandle u32 nat
  | VkQueueSubmit VkHandle VkSubmitInfo VkHandle
  | VkQueueWaitIdle VkHandle
  | VkQueuePresentKHR VkHandle VkPresentInfoKHR
  | VkAcquireNextImageKHR VkHandle VkHandle VkHandle VkHandle
  | VkDestroySwapchainKHR VkHandle VkHandle
  | MutexInit ptr
  | MutexAcquire ptr
  | MutexRelease ptr
  | MutexDestroy ptr

datatype (plugins only: code) vk_pool_call =
    VkCreateCommandPool VkHandle u32
  | VkDestroyCommandPool VkHandle VkHandle
  | VkResetCommandPool VkHandle VkHandle
  | VkAllocateCommandBuffers VkHandle VkHandle bool
  | VkFreeCommandBuffers VkHandle VkHandle VkHandle
  | VkCreateQueryPool VkHandle VkQueryType nat
  | VkDestroyQueryPool VkHandle VkHandle

datatype (plugins only: code) vk_record_call =
    VkBeginCommandBuffer VkHandle
  | VkEndCommandBuffer VkHandle
  | VkCmdPipelineBarrier VkHandle VkPipelineStageFlags VkPipelineStageFlags
      "VkBufferMemoryBarrier list" "VkImageMemoryBarrier list"
  | VkCmdCopyBuffer VkHandle VkHandle VkHandle nat nat nat
  | VkCmdCopyBufferToImage VkHandle VkHandle VkHandle VkImageLayout VkBufferImageCopy
  | VkCmdCopyImage VkHandle VkHandle VkImageLayout VkHandle VkImageLayout VkImageCopy
  | VkCmdWriteTimestamp VkHandle VkPipelineStageFlagBit VkHandle nat
  | VkCmdResetQueryPool VkHandle VkHandle nat nat
  | VkCmdCopyQueryPoolResults VkHandle VkHandle nat nat VkHandle
  | VkCmdDebugMarkerBeginEXT VkHandle string
  | VkCmdDebugMarkerInsertEXT VkHandle string
  | VkCmdDebugMarkerEndEXT VkHandle
  | VkCmdBeginDebugUtilsLabelEXT VkHandle string
  | VkCmdInsertDebugUtilsLabelEXT VkHandle string
  | VkCmdEndDebugUtilsLabelEXT VkHandle

datatype (plugins only: code) vk_pass_call =
    VkCmdBindDescriptorSets VkHandle VkPipelineBindPoint VkHandle nat VkHandle
  | VkCmdPushConstants VkHandle VkHandle VkShaderStageFlags nat ptr
  | VkCmdBindPipeline VkHandle VkPipelineBindPoint VkHandle
  | VkCmdDispatch VkHandle nat nat nat
  | VkCmdBeginRenderPass VkHandle VkRenderPassBeginInfo
  | VkCmdEndRenderPass VkHandle
  | VkCmdSetViewport VkHandle "32 word" "32 word" "32 word" "32 word" "32 word" "32 word"
  | VkCmdSetScissor VkHandle nat nat nat nat
  | VkCmdBindVertexBuffers VkHandle "VkHandle list" "nat list"
  | VkCmdBindIndexBuffer VkHandle VkHandle nat VkIndexType
  | VkCmdDraw VkHandle nat nat nat nat
  | VkCmdDrawIndexed VkHandle nat nat nat nat nat

datatype (plugins only: code) vk_object_call =
    VkCreateRenderPass VkHandle VkRenderPassCreateInfo
  | VkDestroyRenderPass VkHandle VkHandle
  | VkCreateFramebuffer VkHandle VkFramebufferCreateInfo
  | VkDestroyFramebuffer VkHandle VkHandle
  | VkCreateDescriptorSetLayout VkHandle "VkDescriptorSetLayoutBinding list"
  | VkDestroyDescriptorSetLayout VkHandle VkHandle
  | VkAllocateDescriptorSets VkHandle VkHandle "VkHandle list"
  | VkFreeDescriptorSets VkHandle VkHandle "VkHandle list"
  | VkCreatePipelineLayout VkHandle "VkHandle list" "VkPushConstantRange list"
  | VkDestroyPipelineLayout VkHandle VkHandle
  | VkCreateDescriptorUpdateTemplate VkHandle VkDescriptorUpdateTemplateCreateInfo
  | VkDestroyDescriptorUpdateTemplate VkHandle VkHandle
  | VkCreateComputePipelines VkHandle VkHandle VkHandle string VkHandle
  | VkCreateGraphicsPipelines VkHandle VkHandle VkGraphicsPipelineCreateInfo
  | VkDestroyPipeline VkHandle VkHandle
  | VkUpdateDescriptorSetWithTemplate VkHandle VkHandle VkHandle "VkDescriptorUpdateData list"

datatype (plugins only: code) vk_resource_call =
    VmaCreateBuffer VkHandle VkBufferCreateInfo VmaAllocationCreateInfo
  | VmaDestroyBuffer VkHandle VkHandle VkHandle
  | VmaMapMemory VkHandle VkHandle
  | VmaUnmapMemory VkHandle VkHandle
  | VmaCreateImage VkHandle VkImageCreateInfo VmaAllocationCreateInfo
  | VmaDestroyImage VkHandle VkHandle VkHandle
  | VmaBindImageMemory VkHandle VkHandle VkHandle
  | VkGetPhysicalDeviceFormatProperties VkHandle VkFormat
  | VkCreateBufferView VkHandle VkBufferViewCreateInfo
  | VkDestroyBufferView VkHandle VkHandle
  | VkCreateImage VkHandle VkImageCreateInfo
  | VkDestroyImage VkHandle VkHandle
  | VkGetImageMemoryRequirements VkHandle VkHandle
  | VkCreateImageView VkHandle VkImageViewCreateInfo
  | VkDestroyImageView VkHandle VkHandle
  | VkCreateSampler VkHandle VkSamplerCreateInfo
  | VkDestroySampler VkHandle VkHandle
  | VkCreateShaderModule VkHandle "u32 list" nat
  | VkDestroyShaderModule VkHandle VkHandle
  | VkDebugMarkerSetObjectNameEXT VkHandle VkHandle string
  | VkSetDebugUtilsObjectNameEXT VkHandle VkHandle string

datatype (plugins only: code) vk_call =
    VkSync vk_sync_call
  | VkQueue vk_queue_call
  | VkPool vk_pool_call
  | VkRecord vk_record_call
  | VkPass vk_pass_call
  | VkObject vk_object_call
  | VkResource vk_resource_call
  | VkSetup vk_setup_call

section \<open>Keys of the pass caches\<close>

text \<open>The descriptors of vulkan_utils.h that key the render pass and framebuffer caches. The
  arrays have CGPU_MAX_MRT_COUNT (8) elements, the image views twice that and one. Two arrays
  of resolve actions that nothing ever writes are left out.\<close>

record VkUtil_RenderPassDesc =
  pColorFormats :: "ECGPUFormat list"
  pLoadActionsColor :: "ECGPULoadAction list"
  pStoreActionsColor :: "ECGPUStoreAction list"
  pResolveMasks :: "bool list"
  mColorAttachmentCount :: nat
  mSampleCount :: ECGPUSampleCount
  mDepthStencilFormat :: ECGPUFormat
  mLoadActionDepth :: ECGPULoadAction
  mStoreActionDepth :: ECGPUStoreAction
  mLoadActionStencil :: ECGPULoadAction
  mStoreActionStencil :: ECGPUStoreAction

record VkUtil_FramebufferDesc =
  fb_pRenderPass :: VkHandle
  fb_mAttachmentCount :: nat
  fb_pImageViews :: "VkHandle list"
  fb_mWidth :: nat
  fb_mHeight :: nat
  fb_mLayers :: nat

section \<open>SPIRV-Reflect\<close>

text \<open>What the reflection of a shader module by SPIRV-Reflect holds, as far as the code reads it. A
  set is the list of its bindings; the formats of inputs are Vulkan formats.\<close>

record SpvReflectDescriptorBinding =
  sb_name :: string
  sb_set :: nat
  sb_binding :: nat
  sb_descriptor_type :: nat
  sb_image_dim :: nat
  sb_image_ms :: nat
  sb_count :: nat
  sb_type_flags :: u32

record SpvReflectBlockVariable =
  sv_size :: nat
  sv_offset :: nat

record SpvReflectInterfaceVariable =
  si_name :: "string option"
  si_semantic :: "string option"
  si_format :: VkFormat

record SpvReflectEntryPoint =
  se_name :: string
  se_shader_stage :: u32
  se_local_size :: "nat \<times> nat \<times> nat"

record SpvReflectShaderModule =
  sm_source_language :: u32
  sm_shader_stage :: u32
  sm_entry_points :: "SpvReflectEntryPoint list"
  sm_input_variables :: "SpvReflectInterfaceVariable list"
  sm_push_constants :: "SpvReflectBlockVariable list"
  sm_descriptor_sets :: "SpvReflectDescriptorBinding list list"

section \<open>Answers\<close>

text \<open>What the driver answers: a result code and the values it writes through out parameters.\<close>

record vk_reply =
  vk_result :: VkResult
  vk_outs :: "nat list"

definition vk_out :: "vk_reply \<Rightarrow> nat \<Rightarrow> nat" where
  "vk_out r i = (if i < length (vk_outs r) then vk_outs r ! i else 0)"

text \<open>
  Feature masks are 32 bit answers; the bits that the code tests have the values of the Vulkan
  headers. The format properties are answered as linear, optimal and buffer features.
\<close>

definition format_feature_bits :: "(VkFormatFeatureFlagBit \<times> nat) list" where
  "format_feature_bits =
     [(VK_FORMAT_FEATURE_SAMPLED_IMAGE_BIT, 0), (VK_FORMAT_FEATURE_STORAGE_IMAGE_BIT, 1),
      (VK_FORMAT_FEATURE_UNIFORM_TEXEL_BUFFER_BIT, 3), (VK_FORMAT_FEATURE_STORAGE_TEXEL_BUFFER_BIT, 4),
      (VK_FORMAT_FEATURE_COLOR_ATTACHMENT_BIT, 7), (VK_FORMAT_FEATURE_DEPTH_STENCIL_ATTACHMENT_BIT, 9)]"

definition format_features :: "nat \<Rightarrow> VkFormatFeatureFlagBit set" where
  "format_features m = set (map fst (filter (\<lambda>(b, i). bit m i) format_feature_bits))"

definition optimalTilingFeatures :: "vk_reply \<Rightarrow> VkFormatFeatureFlagBit set" where
  "optimalTilingFeatures r = format_features (vk_out r 1)"

definition bufferFeatures :: "vk_reply \<Rightarrow> VkFormatFeatureFlagBit set" where
  "bufferFeatures r = format_features (vk_out r 2)"

text \<open>The answers of the surface: its capabilities, pairs of format and color space, present modes.\<close>

definition surface_capabilities :: "vk_reply \<Rightarrow> VkSurfaceCapabilitiesKHR" where
  "surface_capabilities r = \<lparr>minImageCount = vk_out r 0, maxImageCount = vk_out r 1,
     minImageExtent = (vk_out r 2, vk_out r 3), maxImageExtent = (vk_out r 4, vk_out r 5),
     supportedTransforms = vk_out r 6, currentTransform = vk_out r 7, supportedCompositeAlpha = vk_out r 8\<rparr>"

fun surface_formats_of :: "nat list \<Rightarrow> VkSurfaceFormatKHR list" where
  "surface_formats_of (f # c # rest) = \<lparr>sf_format = int f, sf_colorSpace = c\<rparr> # surface_formats_of rest"
| "surface_formats_of _ = []"

definition present_mode_of :: "nat \<Rightarrow> VkPresentModeKHR" where
  "present_mode_of n =
     (if n = 0 then VK_PRESENT_MODE_IMMEDIATE_KHR else if n = 1 then VK_PRESENT_MODE_MAILBOX_KHR
      else if n = 2 then VK_PRESENT_MODE_FIFO_KHR else if n = 3 then VK_PRESENT_MODE_FIFO_RELAXED_KHR
      else VK_PRESENT_MODE_OTHER n)"

end
