(* ===== verification/CGPU_Objects.thy ===== *)
theory CGPU_Objects
  imports CGPU_Desc Vk_Types
begin

text \<open>
  The objects of the GPU layer and the world they live in. An API object (include/cgpu/api.h)
  is a record, and the object the Vulkan backend allocates for it
  (include/cgpu/backend/vulkan/cgpu_vulkan.h) extends that record with the backend's members,
  as \<open>CGPUFence_Vulkan\<close> holds a \<open>CGPUFence super\<close>. Members that only feed debug tools are
  left out.

  The world maps the address of every live object to its record, one map per type. An
  allocation takes a fresh address, so live objects of all types have different addresses;
  the allocation itself is taken to succeed. The trace is the list of driver calls so far.
\<close>

section \<open>Reflection data\<close>

record CGPUShaderResource =
  res_name :: "string option"
  res_name_hash :: nat
  res_type :: ECGPUResourceType
  res_dim :: ECGPUTextureDimension
  res_set :: nat
  res_binding :: nat
  res_size :: nat
  res_offset :: nat
  res_stages :: CGPUShaderStages

text \<open>The member \<open>semantics\<close> of a vertex input is never written.\<close>

record CGPUVertexInput =
  vin_name :: "string option"
  vin_format :: ECGPUFormat

record CGPUShaderReflection =
  refl_entry_name :: string
  refl_stage :: ECGPUShaderStage
  refl_vertex_inputs :: "CGPUVertexInput list"
  refl_shader_resources :: "CGPUShaderResource list"
  refl_thread_group_sizes :: "nat \<times> nat \<times> nat"

record CGPUParameterTable =
  tab_resources :: "CGPUShaderResource list"
  tab_set_index :: nat

section \<open>Instance, adapter and device\<close>

record CGPUInstance =
  inst_proc_table :: ptr
  inst_surfaces_table :: ptr
  inst_runtime_table :: ptr
  inst_backend :: ECGPUBackend
  inst_enable_set_name :: bool

record CGPUInstance_Vulkan = CGPUInstance +
  pVkInstance :: VkHandle
  pVkDebugUtilsMessenger :: VkHandle
  pVkDebugReport :: VkHandle
  pVulkanAdapters :: "CGPUAdapterId list"
  inst_pLayerNames :: "string list"
  inst_pLayersTable :: "string \<rightharpoonup> bool"
  inst_pExtensionNames :: "string list"
  inst_pExtensionsTable :: "string \<rightharpoonup> bool"
  device_group_creation :: bool
  debug_utils :: bool
  debug_report :: bool

record CGPUFormatSupport =
  fs_shader_read :: bool
  fs_shader_write :: bool
  fs_render_target_write :: bool

record CGPUVendorPreset =
  vp_device_id :: nat
  vp_vendor_id :: nat
  vp_driver_version :: nat
  vp_gpu_name :: string

record CGPUAdapterDetail =
  uniform_buffer_alignment :: nat
  upload_buffer_texture_alignment :: nat
  upload_buffer_texture_row_alignment :: nat
  max_vertex_input_bindings :: nat
  wave_lane_count :: nat
  host_visible_vram_budget :: nat
  support_host_visible_vram :: bool
  multidraw_indirect :: bool
  support_geom_shader :: bool
  support_tessellation :: bool
  is_uma :: bool
  is_virtual :: bool
  is_cpu :: bool
  format_supports :: "CGPUFormatSupport list"
  vendor_preset :: CGPUVendorPreset

record VkQueueFamilyProperties =
  queueFlags :: "VkQueueFlagBit set"
  queueCount :: nat

record CGPUAdapter =
  adapter_instance :: CGPUInstanceId
  adapter_proc_table_cache :: ptr

text \<open>\<open>mQueueFamilyIndices\<close> is an array of \<open>int64_t\<close> indexed by the queue type, -1 for no family.\<close>

record CGPUAdapter_Vulkan = CGPUAdapter +
  pPhysicalDevice :: VkHandle
  mQueueFamilyIndices :: "int list"
  pQueueFamilyProperties :: "VkQueueFamilyProperties list"
  adapter_detail :: CGPUAdapterDetail
  maxVertexInputBindings :: nat
  timestampPeriod :: f32
  external_memory :: bool
  adp_pLayerNames :: "string list"
  adp_pLayersTable :: "string \<rightharpoonup> bool"
  adp_pExtensionNames :: "string list"
  adp_pExtensionsTable :: "string \<rightharpoonup> bool"
  debug_marker :: bool
  dedicated_allocation :: bool
  memory_req2 :: bool
  draw_indirect_count :: bool
  amd_draw_indirect_count :: bool
  amd_gcn_shader :: bool
  descriptor_indexing :: bool
  sampler_ycbcr :: bool
  nv_diagnostic_checkpoints :: bool
  nv_diagnostic_config :: bool

record CGPUDevice =
  device_adapter :: CGPUAdapterId
  device_proc_table_cache :: ptr

record CGPUDevice_Vulkan = CGPUDevice +
  pVkDevice :: VkHandle
  pPipelineCache :: VkHandle
  pDescriptorPool :: ptr
  pVmaAllocator :: VkHandle
  pPassTable :: ptr

text \<open>The descriptor pool and the pass caches of a device (vulkan_utils.h,
  cgpu_vulkan_instance.cpp); the caches are keyed by the hash of the descriptor.\<close>

record VkUtil_DescriptorPool =
  dp_Device :: CGPUDeviceId
  pVkDescPool :: VkHandle
  dp_pMutex :: ptr

record CGPUCachedRenderPass =
  crp_pass :: VkHandle
  crp_timestamp :: nat

record CGPUCachedFramebuffer =
  cfb_framebuffer :: VkHandle
  cfb_timestamp :: nat

record CGPUVkPassTable =
  cached_renderpasses :: "nat \<rightharpoonup> CGPUCachedRenderPass"
  cached_framebuffers :: "nat \<rightharpoonup> CGPUCachedFramebuffer"

section \<open>Queues, fences and semaphores\<close>

record CGPUQueue =
  queue_device :: CGPUDeviceId
  queue_type :: ECGPUQueueType
  queue_index :: nat

text \<open>\<open>mVkQueueFamilyIndex\<close> is a bit field of 5 bits.\<close>

record CGPUQueue_Vulkan = CGPUQueue +
  pVkQueue :: VkHandle
  mVkQueueFamilyIndex :: nat
  pInnerCmdPool :: CGPUCommandPoolId
  pInnerCmdBuffer :: CGPUCommandBufferId
  pInnerFence :: CGPUFenceId
  queue_pMutex :: ptr

record CGPUFence =
  fence_device :: CGPUDeviceId

record CGPUFence_Vulkan = CGPUFence +
  pVkFence :: VkHandle
  mSubmitted :: bool

record CGPUSemaphore =
  semaphore_device :: CGPUDeviceId

record CGPUSemaphore_Vulkan = CGPUSemaphore +
  pVkSemaphore :: VkHandle
  mSignaled :: bool

section \<open>Command pools, command buffers and queries\<close>

record CGPUCommandPool =
  pool_queue :: CGPUQueueId

record CGPUCommandPool_Vulkan = CGPUCommandPool +
  pVkCmdPool :: VkHandle

text \<open>\<open>mType\<close> is a bit field of 3 bits, which holds every queue type.\<close>

record CGPUCommandBuffer =
  cmd_device :: CGPUDeviceId
  cmd_pool :: CGPUCommandPoolId
  current_dispatch :: ECGPUPipelineType

record CGPUCommandBuffer_Vulkan = CGPUCommandBuffer +
  pVkCmdBuf :: VkHandle
  pBoundPipelineLayout :: VkHandle
  pRenderPass :: VkHandle
  mType :: ECGPUQueueType

record CGPUQueryPool =
  query_pool_device :: CGPUDeviceId
  query_pool_count :: nat

record CGPUQueryPool_Vulkan = CGPUQueryPool +
  pVkQueryPool :: VkHandle
  query_mType :: VkQueryType

section \<open>Resources\<close>

text \<open>\<open>size\<close> is a bit field of 32 bits, \<open>descriptors\<close> of 20 and \<open>memory_usage\<close> of 3.\<close>

record CGPUBuffer =
  buffer_device :: CGPUDeviceId
  cpu_mapped_address :: nat
  buffer_size :: nat
  buffer_descriptors :: u32
  buffer_memory_usage :: ECGPUMemoryUsage

record CGPUBuffer_Vulkan = CGPUBuffer +
  pVkBuffer :: VkHandle
  pVkStorageTexelView :: VkHandle
  pVkUniformTexelView :: VkHandle
  buffer_pVkAllocation :: VkHandle
  buffer_mOffset :: nat

text \<open>The two addresses that no buffer has, which creation returns for want of memory.\<close>

definition CGPU_BUFFER_OUT_OF_HOST_MEMORY :: CGPUBufferId where "CGPU_BUFFER_OUT_OF_HOST_MEMORY = 1"
definition CGPU_BUFFER_OUT_OF_DEVICE_MEMORY :: CGPUBufferId where "CGPU_BUFFER_OUT_OF_DEVICE_MEMORY = 3"

record CGPUTexture =
  texture_device :: CGPUDeviceId
  texture_sample_count :: ECGPUSampleCount
  texture_width :: nat
  texture_height :: nat
  texture_depth :: nat
  texture_mip_levels :: nat
  texture_array_size_minus_one :: nat
  texture_format :: ECGPUFormat
  texture_aspect_mask :: u32
  texture_is_cube :: bool
  texture_is_dedicated :: bool
  texture_owns_image :: bool
  texture_is_aliasing :: bool
  texture_can_alias :: bool

record CGPUTexture_Vulkan = CGPUTexture +
  mImageType :: VkImageType
  pVkImage :: VkHandle
  texture_pVkAllocation :: VkHandle

record CGPUTextureView =
  view_device :: CGPUDeviceId
  view_info :: CGPUTextureViewDescriptor

record CGPUTextureView_Vulkan = CGPUTextureView +
  pVkRTVDSVDescriptor :: VkHandle
  pVkSRVDescriptor :: VkHandle
  pVkUAVDescriptor :: VkHandle

record CGPUSampler =
  sampler_device :: CGPUDeviceId

record CGPUSampler_Vulkan = CGPUSampler +
  pVkSampler :: VkHandle

record CGPUShaderLibrary =
  library_device :: CGPUDeviceId
  library_name :: string
  entry_reflections :: "CGPUShaderReflection list"

record CGPUShaderLibrary_Vulkan = CGPUShaderLibrary +
  mShaderModule :: VkHandle

record CGPUSwapChain =
  swapchain_device :: CGPUDeviceId
  back_buffers :: "CGPUTextureId list"

record CGPUSwapChain_Vulkan = CGPUSwapChain +
  pVkSurface :: VkHandle
  pVkSwapChain :: VkHandle

section \<open>Root signatures, descriptor sets and pipelines\<close>

record CGPURootSignature =
  rs_device :: CGPUDeviceId
  rs_tables :: "CGPUParameterTable list"
  rs_push_constants :: "CGPUShaderResource list"
  rs_static_samplers :: "CGPUShaderResource list"
  rs_pipeline_type :: ECGPUPipelineType
  rs_pool :: CGPURootSignaturePoolId
  rs_pool_sig :: CGPURootSignatureId

record SetLayout_Vulkan =
  sl_layout :: VkHandle
  sl_pUpdateTemplate :: VkHandle
  sl_mUpdateEntriesCount :: nat
  sl_pEmptyDescSet :: VkHandle

text \<open>\<open>mSetLayoutCount\<close> is the length of \<open>pSetLayouts\<close>. Signatures of a pool share these
  arrays by pointer; their contents do not change after creation, so the model copies them.\<close>

record CGPURootSignature_Vulkan = CGPURootSignature +
  pPipelineLayout :: VkHandle
  pSetLayouts :: "SetLayout_Vulkan list"
  pPushConstRanges :: "VkPushConstantRange list"

text \<open>The pool of root_sig_pool.cpp: the maps are keyed by the hash value of the
  characteristic, since \<open>RSCharacteristic\<close> is compared through its conversion to \<open>size_t\<close>.\<close>

record CGPURootSignaturePoolImpl =
  rsp_device :: CGPUDeviceId
  characterMap :: "nat \<rightharpoonup> CGPURootSignatureId"
  biCharacterMap :: "CGPURootSignatureId \<rightharpoonup> nat"
  counterMap :: "CGPURootSignatureId \<rightharpoonup> nat"

record CGPUDescriptorSet =
  set_root_signature :: CGPURootSignatureId
  set_index :: nat

record CGPUDescriptorSet_Vulkan = CGPUDescriptorSet +
  pVkDescriptorSet :: VkHandle
  pUpdateData :: "VkDescriptorUpdateData list"

record CGPUComputePipeline =
  cpipe_device :: CGPUDeviceId
  cpipe_root_signature :: CGPURootSignatureId

record CGPUComputePipeline_Vulkan = CGPUComputePipeline +
  cpipe_pVkPipeline :: VkHandle

record CGPURenderPipeline =
  rpipe_device :: CGPUDeviceId
  rpipe_root_signature :: CGPURootSignatureId

record CGPURenderPipeline_Vulkan = CGPURenderPipeline +
  rpipe_pVkPipeline :: VkHandle

section \<open>The runtime table\<close>

record CreatedQueue =
  cq_device :: CGPUDeviceId
  cq_type :: ECGPUQueueType
  cq_index :: nat
  cq_queue :: CGPUQueueId

record CGPURuntimeTable =
  created_queues :: "CreatedQueue list"

section \<open>The world\<close>

record vk_objects_a =
  runtime_tables :: "ptr \<rightharpoonup> CGPURuntimeTable"
  instances :: "ptr \<rightharpoonup> CGPUInstance_Vulkan"
  adapters :: "ptr \<rightharpoonup> CGPUAdapter_Vulkan"
  devices :: "ptr \<rightharpoonup> CGPUDevice_Vulkan"
  queues :: "ptr \<rightharpoonup> CGPUQueue_Vulkan"
  fences :: "ptr \<rightharpoonup> CGPUFence_Vulkan"
  semaphores :: "ptr \<rightharpoonup> CGPUSemaphore_Vulkan"
  cmd_pools :: "ptr \<rightharpoonup> CGPUCommandPool_Vulkan"
  cmds :: "ptr \<rightharpoonup> CGPUCommandBuffer_Vulkan"
  query_pools :: "ptr \<rightharpoonup> CGPUQueryPool_Vulkan"

record vk_world = vk_objects_a +
  buffers :: "ptr \<rightharpoonup> CGPUBuffer_Vulkan"
  textures :: "ptr \<rightharpoonup> CGPUTexture_Vulkan"
  texture_views :: "ptr \<rightharpoonup> CGPUTextureView_Vulkan"
  samplers :: "ptr \<rightharpoonup> CGPUSampler_Vulkan"
  libraries :: "ptr \<rightharpoonup> CGPUShaderLibrary_Vulkan"
  swapchains :: "ptr \<rightharpoonup> CGPUSwapChain_Vulkan"
  root_sigs :: "ptr \<rightharpoonup> CGPURootSignature_Vulkan"
  rs_pools :: "ptr \<rightharpoonup> CGPURootSignaturePoolImpl"
  desc_sets :: "ptr \<rightharpoonup> CGPUDescriptorSet_Vulkan"
  compute_pipelines :: "ptr \<rightharpoonup> CGPUComputePipeline_Vulkan"
  render_pipelines :: "ptr \<rightharpoonup> CGPURenderPipeline_Vulkan"
  desc_pools :: "ptr \<rightharpoonup> VkUtil_DescriptorPool"
  pass_tables :: "ptr \<rightharpoonup> CGPUVkPassTable"
  next_addr :: nat
  trace :: "vk_call list"

type_synonym 'a vk_prog = "(vk_world, 'a) prog"

end
