(* ===== verification/CGPU_Env.thy ===== *)
theory CGPU_Env
  imports CGPU_Objects
begin

text \<open>
  What surrounds a run: the procedure table of include/cgpu/api.h (a pointer of the table is
  NULL or a procedure), the environment of the front end (the build and the tables in
  memory), the driver that answers the Vulkan calls, and the statements on the world that the
  other theories share: allocation, release, writing a member, calling the driver.

  The record \<open>CGPUProcTable\<close> is declared in steps only because a record of eighty fields is
  slow to define; its fields are the members of the C structure in its order.
\<close>

section \<open>The procedure table\<close>

record procs_instance =
  create_instance :: "(CGPUInstanceDescriptor \<Rightarrow> CGPUInstanceId vk_prog) option"
  query_instance_features :: "(CGPUInstanceId \<Rightarrow> bool vk_prog) option"
  free_instance :: "(CGPUInstanceId \<Rightarrow> unit vk_prog) option"
  enum_adapters :: "(CGPUInstanceId \<Rightarrow> bool \<Rightarrow> (CGPUAdapterId list \<times> nat) vk_prog) option"
  query_adapter_detail :: "(CGPUAdapterId \<Rightarrow> CGPUAdapterDetail vk_prog) option"
  query_queue_count :: "(CGPUAdapterId \<Rightarrow> ECGPUQueueType \<Rightarrow> nat vk_prog) option"
  create_device :: "(CGPUAdapterId \<Rightarrow> CGPUDeviceDescriptor \<Rightarrow> CGPUDeviceId vk_prog) option"
  free_device :: "(CGPUDeviceId \<Rightarrow> unit vk_prog) option"

record procs_objects = procs_instance +
  create_fence :: "(CGPUDeviceId \<Rightarrow> CGPUFenceId vk_prog) option"
  wait_fences :: "(CGPUFenceId list \<Rightarrow> unit vk_prog) option"
  query_fence_status :: "(CGPUFenceId \<Rightarrow> ECGPUFenceStatus vk_prog) option"
  free_fence :: "(CGPUFenceId \<Rightarrow> unit vk_prog) option"
  create_semaphore :: "(CGPUDeviceId \<Rightarrow> CGPUSemaphoreId vk_prog) option"
  free_semaphore :: "(CGPUSemaphoreId \<Rightarrow> unit vk_prog) option"
  create_root_signature_pool ::
    "(CGPUDeviceId \<Rightarrow> CGPURootSignaturePoolDescriptor \<Rightarrow> CGPURootSignaturePoolId vk_prog) option"
  free_root_signature_pool :: "(CGPURootSignaturePoolId \<Rightarrow> unit vk_prog) option"
  create_root_signature ::
    "(CGPUDeviceId \<Rightarrow> CGPURootSignatureDescriptor \<Rightarrow> CGPURootSignatureId vk_prog) option"
  free_root_signature :: "(CGPURootSignatureId \<Rightarrow> unit vk_prog) option"
  create_descriptor_set ::
    "(CGPUDeviceId \<Rightarrow> CGPUDescriptorSetDescriptor \<Rightarrow> CGPUDescriptorSetId vk_prog) option"
  update_descriptor_set :: "(CGPUDescriptorSetId \<Rightarrow> CGPUDescriptorData list \<Rightarrow> unit vk_prog) option"
  free_descriptor_set :: "(CGPUDescriptorSetId \<Rightarrow> unit vk_prog) option"
  create_compute_pipeline ::
    "(CGPUDeviceId \<Rightarrow> CGPUComputePipelineDescriptor \<Rightarrow> CGPUComputePipelineId vk_prog) option"
  free_compute_pipeline :: "(CGPUComputePipelineId \<Rightarrow> unit vk_prog) option"
  create_render_pipeline ::
    "(CGPUDeviceId \<Rightarrow> CGPURenderPipelineDescriptor \<Rightarrow> CGPURenderPipelineId vk_prog) option"
  free_render_pipeline :: "(CGPURenderPipelineId \<Rightarrow> unit vk_prog) option"
  create_query_pool :: "(CGPUDeviceId \<Rightarrow> CGPUQueryPoolDescriptor \<Rightarrow> CGPUQueryPoolId vk_prog) option"
  free_query_pool :: "(CGPUQueryPoolId \<Rightarrow> unit vk_prog) option"

record procs_queue = procs_objects +
  get_queue :: "(CGPUDeviceId \<Rightarrow> ECGPUQueueType \<Rightarrow> nat \<Rightarrow> CGPUQueueId vk_prog) option"
  submit_queue :: "(CGPUQueueId \<Rightarrow> CGPUQueueSubmitDescriptor \<Rightarrow> unit vk_prog) option"
  wait_queue_idle :: "(CGPUQueueId \<Rightarrow> unit vk_prog) option"
  queue_present :: "(CGPUQueueId \<Rightarrow> CGPUQueuePresentDescriptor \<Rightarrow> unit vk_prog) option"
  queue_get_timestamp_period :: "(CGPUQueueId \<Rightarrow> f32 vk_prog) option"
  free_queue :: "(CGPUQueueId \<Rightarrow> unit vk_prog) option"
  create_command_pool :: "(CGPUQueueId \<Rightarrow> CGPUCommandPoolId vk_prog) option"
  create_command_buffer ::
    "(CGPUCommandPoolId \<Rightarrow> CGPUCommandBufferDescriptor \<Rightarrow> CGPUCommandBufferId vk_prog) option"
  reset_command_pool :: "(CGPUCommandPoolId \<Rightarrow> unit vk_prog) option"
  free_command_buffer :: "(CGPUCommandBufferId \<Rightarrow> unit vk_prog) option"
  free_command_pool :: "(CGPUCommandPoolId \<Rightarrow> unit vk_prog) option"

record procs_resource = procs_queue +
  create_shader_library ::
    "(CGPUDeviceId \<Rightarrow> CGPUShaderLibraryDescriptor \<Rightarrow> CGPUShaderLibraryId vk_prog) option"
  free_shader_library :: "(CGPUShaderLibraryId \<Rightarrow> unit vk_prog) option"
  create_buffer :: "(CGPUDeviceId \<Rightarrow> CGPUBufferDescriptor \<Rightarrow> CGPUBufferId vk_prog) option"
  map_buffer :: "(CGPUBufferId \<Rightarrow> CGPUBufferRange option \<Rightarrow> unit vk_prog) option"
  unmap_buffer :: "(CGPUBufferId \<Rightarrow> unit vk_prog) option"
  free_buffer :: "(CGPUBufferId \<Rightarrow> unit vk_prog) option"
  create_sampler :: "(CGPUDeviceId \<Rightarrow> CGPUSamplerDescriptor \<Rightarrow> CGPUSamplerId vk_prog) option"
  free_sampler :: "(CGPUSamplerId \<Rightarrow> unit vk_prog) option"
  create_texture :: "(CGPUDeviceId \<Rightarrow> CGPUTextureDescriptor \<Rightarrow> CGPUTextureId vk_prog) option"
  free_texture :: "(CGPUTextureId \<Rightarrow> unit vk_prog) option"
  create_texture_view ::
    "(CGPUDeviceId \<Rightarrow> CGPUTextureViewDescriptor \<Rightarrow> CGPUTextureViewId vk_prog) option"
  free_texture_view :: "(CGPUTextureViewId \<Rightarrow> unit vk_prog) option"
  try_bind_aliasing_texture ::
    "(CGPUDeviceId \<Rightarrow> CGPUTextureAliasingBindDescriptor \<Rightarrow> bool vk_prog) option"
  create_swapchain :: "(CGPUDeviceId \<Rightarrow> CGPUSwapChainDescriptor \<Rightarrow> CGPUSwapChainId vk_prog) option"
  acquire_next_image :: "(CGPUSwapChainId \<Rightarrow> CGPUAcquireNextDescriptor \<Rightarrow> u32 vk_prog) option"
  free_swapchain :: "(CGPUSwapChainId \<Rightarrow> unit vk_prog) option"

record procs_cmd = procs_resource +
  cmd_begin :: "(CGPUCommandBufferId \<Rightarrow> unit vk_prog) option"
  cmd_transfer_buffer_to_buffer ::
    "(CGPUCommandBufferId \<Rightarrow> CGPUBufferToBufferTransfer \<Rightarrow> unit vk_prog) option"
  cmd_transfer_buffer_to_texture ::
    "(CGPUCommandBufferId \<Rightarrow> CGPUBufferToTextureTransfer \<Rightarrow> unit vk_prog) option"
  cmd_transfer_texture_to_texture ::
    "(CGPUCommandBufferId \<Rightarrow> CGPUTextureToTextureTransfer \<Rightarrow> unit vk_prog) option"
  cmd_resource_barrier ::
    "(CGPUCommandBufferId \<Rightarrow> CGPUResourceBarrierDescriptor \<Rightarrow> unit vk_prog) option"
  cmd_begin_query ::
    "(CGPUCommandBufferId \<Rightarrow> CGPUQueryPoolId \<Rightarrow> CGPUQueryDescriptor \<Rightarrow> unit vk_prog) option"
  cmd_end_query ::
    "(CGPUCommandBufferId \<Rightarrow> CGPUQueryPoolId \<Rightarrow> CGPUQueryDescriptor \<Rightarrow> unit vk_prog) option"
  cmd_reset_query_pool ::
    "(CGPUCommandBufferId \<Rightarrow> CGPUQueryPoolId \<Rightarrow> nat \<Rightarrow> nat \<Rightarrow> unit vk_prog) option"
  cmd_resolve_query ::
    "(CGPUCommandBufferId \<Rightarrow> CGPUQueryPoolId \<Rightarrow> CGPUBufferId \<Rightarrow> nat \<Rightarrow> nat \<Rightarrow> unit vk_prog) option"
  cmd_end :: "(CGPUCommandBufferId \<Rightarrow> unit vk_prog) option"
  cmd_begin_compute_pass ::
    "(CGPUCommandBufferId \<Rightarrow> CGPUComputePassDescriptor \<Rightarrow> CGPUComputePassEncoderId vk_prog) option"
  compute_encoder_bind_descriptor_set ::
    "(CGPUComputePassEncoderId \<Rightarrow> CGPUDescriptorSetId \<Rightarrow> unit vk_prog) option"
  compute_encoder_push_constants ::
    "(CGPUComputePassEncoderId \<Rightarrow> CGPURootSignatureId \<Rightarrow> string \<Rightarrow> ptr \<Rightarrow> unit vk_prog) option"
  compute_encoder_bind_pipeline ::
    "(CGPUComputePassEncoderId \<Rightarrow> CGPUComputePipelineId \<Rightarrow> unit vk_prog) option"
  compute_encoder_dispatch ::
    "(CGPUComputePassEncoderId \<Rightarrow> nat \<Rightarrow> nat \<Rightarrow> nat \<Rightarrow> unit vk_prog) option"
  cmd_end_compute_pass ::
    "(CGPUCommandBufferId \<Rightarrow> CGPUComputePassEncoderId \<Rightarrow> unit vk_prog) option"

record CGPUProcTable = procs_cmd +
  cmd_begin_render_pass ::
    "(CGPUCommandBufferId \<Rightarrow> CGPURenderPassDescriptor \<Rightarrow> CGPURenderPassEncoderId vk_prog) option"
  render_encoder_bind_descriptor_set ::
    "(CGPURenderPassEncoderId \<Rightarrow> CGPUDescriptorSetId \<Rightarrow> unit vk_prog) option"
  render_encoder_bind_pipeline ::
    "(CGPURenderPassEncoderId \<Rightarrow> CGPURenderPipelineId \<Rightarrow> unit vk_prog) option"
  render_encoder_bind_vertex_buffers ::
    "(CGPURenderPassEncoderId \<Rightarrow> CGPUBufferId list \<Rightarrow> nat list option \<Rightarrow> nat list option
      \<Rightarrow> unit vk_prog) option"
  render_encoder_bind_index_buffer ::
    "(CGPURenderPassEncoderId \<Rightarrow> CGPUBufferId \<Rightarrow> nat \<Rightarrow> nat \<Rightarrow> unit vk_prog) option"
  render_encoder_push_constants ::
    "(CGPURenderPassEncoderId \<Rightarrow> CGPURootSignatureId \<Rightarrow> string \<Rightarrow> ptr \<Rightarrow> unit vk_prog) option"
  render_encoder_set_viewport ::
    "(CGPURenderPassEncoderId \<Rightarrow> f32 \<Rightarrow> f32 \<Rightarrow> f32 \<Rightarrow> f32 \<Rightarrow> f32 \<Rightarrow> f32 \<Rightarrow> unit vk_prog) option"
  render_encoder_set_scissor ::
    "(CGPURenderPassEncoderId \<Rightarrow> nat \<Rightarrow> nat \<Rightarrow> nat \<Rightarrow> nat \<Rightarrow> unit vk_prog) option"
  render_encoder_draw :: "(CGPURenderPassEncoderId \<Rightarrow> nat \<Rightarrow> nat \<Rightarrow> unit vk_prog) option"
  render_encoder_draw_instanced ::
    "(CGPURenderPassEncoderId \<Rightarrow> nat \<Rightarrow> nat \<Rightarrow> nat \<Rightarrow> nat \<Rightarrow> unit vk_prog) option"
  render_encoder_draw_indexed ::
    "(CGPURenderPassEncoderId \<Rightarrow> nat \<Rightarrow> nat \<Rightarrow> nat \<Rightarrow> unit vk_prog) option"
  render_encoder_draw_indexed_instanced ::
    "(CGPURenderPassEncoderId \<Rightarrow> nat \<Rightarrow> nat \<Rightarrow> nat \<Rightarrow> nat \<Rightarrow> nat \<Rightarrow> unit vk_prog) option"
  cmd_end_render_pass :: "(CGPUCommandBufferId \<Rightarrow> CGPURenderPassEncoderId \<Rightarrow> unit vk_prog) option"
  cmd_begin_event :: "(CGPUCommandBufferId \<Rightarrow> CGPUEventInfo \<Rightarrow> unit vk_prog) option"
  cmd_set_marker :: "(CGPUCommandBufferId \<Rightarrow> CGPUMarkerInfo \<Rightarrow> unit vk_prog) option"
  cmd_end_event :: "(CGPUCommandBufferId \<Rightarrow> unit vk_prog) option"

section \<open>Environments\<close>

text \<open>
  \<open>debug\<close> tells a debug build, where \<open>cgpu_assert\<close> is active. \<open>proc_tables\<close> maps the address of
  a procedure table to the table, and \<open>vk_table\<close> is the address of \<open>tbl_vk\<close>. The modelled
  platform is one where Vulkan is the only backend that is compiled in.
\<close>

record cgpu_env =
  debug :: bool
  vk_table :: ptr
  proc_tables :: "ptr \<rightharpoonup> CGPUProcTable"

text \<open>
  The driver answers a call depending on the calls before it. What else the backend takes from
  outside the repository: \<open>cgpu_hash\<close> (utils/hash.h, which is XXH64 of the bytes with a
  seed) on the structures and names it is applied to, and the addition of two floats and the
  conversion of integers to floats of the target, the reflection of a shader module by
  SPIRV-Reflect with whether it succeeded, the Vulkan implementation, and the order in which the
  hash maps of the pass caches are walked.
\<close>

text \<open>
  What the Vulkan implementation is: its layers and extensions, its physical devices and their
  properties, which do not change while it is loaded, and which entry points of extensions
  were found. They are queried without effect.
\<close>

record VkMemoryType =
  mt_propertyFlags :: "VkMemoryPropertyFlagBit set"
  mt_heapIndex :: nat

record VkMemoryHeap =
  mh_flags :: "VkMemoryHeapFlagBit set"
  mh_size :: nat

record VkPhysicalDeviceInfo =
  phys_deviceType :: VkPhysicalDeviceType
  phys_deviceID :: nat
  phys_vendorID :: nat
  phys_driverVersion :: nat
  phys_deviceName :: string
  minUniformBufferOffsetAlignment :: nat
  optimalBufferCopyOffsetAlignment :: nat
  optimalBufferCopyRowPitchAlignment :: nat
  phys_maxVertexInputBindings :: nat
  maxDrawIndirectCount :: nat
  phys_timestampPeriod :: f32
  subgroupSize :: nat
  geometryShader :: bool
  tessellationShader :: bool
  phys_queue_families :: "VkQueueFamilyProperties list"
  phys_layers :: "string list"
  phys_extensions :: "string list"
  phys_memoryTypes :: "VkMemoryType list"
  phys_memoryHeaps :: "VkMemoryHeap list"
  phys_heapBudget :: "nat list"

record vk_platform =
  instance_layers :: "string list"
  instance_extensions :: "string list"
  physical_devices :: "VkHandle list"
  physical_device :: "VkHandle \<Rightarrow> VkPhysicalDeviceInfo"
  loaded_debug_utils :: bool
  loaded_debug_report :: bool
  loaded_memory_properties2 :: bool

type_synonym vk_driver = "vk_call list \<Rightarrow> vk_call \<Rightarrow> vk_reply"

record vk_env =
  vk_debug :: bool
  vk_drv :: vk_driver
  hash_render_pass :: "VkUtil_RenderPassDesc \<Rightarrow> ptr \<Rightarrow> nat"
  hash_framebuffer :: "VkUtil_FramebufferDesc \<Rightarrow> ptr \<Rightarrow> nat"
  hash_name :: "string \<Rightarrow> ptr \<Rightarrow> nat"
  spv_reflect :: "nat \<Rightarrow> u32 list \<Rightarrow> bool \<times> SpvReflectShaderModule"
  float_add :: "f32 \<Rightarrow> f32 \<Rightarrow> f32"
  float_of_int :: "int \<Rightarrow> f32"
  vk_plat :: vk_platform
  pass_order :: "CGPUVkPassTable \<Rightarrow> nat list"
  framebuffer_order :: "CGPUVkPassTable \<Rightarrow> nat list"

definition table_at :: "cgpu_env \<Rightarrow> ptr \<Rightarrow> (CGPUProcTable \<Rightarrow> 'a vk_prog) \<Rightarrow> 'a vk_prog" where
  "table_at E p k = deref (\<lambda>_. proc_tables E) p k"

section \<open>Statements on the world\<close>

text \<open>Updating the object a pointer points to, in one of the object maps.\<close>

definition store ::
    "('w \<Rightarrow> ptr \<rightharpoonup> 'o) \<Rightarrow> (((ptr \<rightharpoonup> 'o) \<Rightarrow> (ptr \<rightharpoonup> 'o)) \<Rightarrow> 'w \<Rightarrow> 'w) \<Rightarrow> ptr \<Rightarrow> ('o \<Rightarrow> 'o)
      \<Rightarrow> ('w, 'a) prog \<Rightarrow> ('w, 'a) prog" where
  "store sel upd p g k = deref sel p (\<lambda>x. modify (upd (\<lambda>m. m(p \<mapsto> g x))) k)"

text \<open>A descriptor passed by pointer that the callee reads without a check of its own.\<close>

definition desc_ptr :: "'d option \<Rightarrow> ('d \<Rightarrow> 'a vk_prog) \<Rightarrow> 'a vk_prog" where
  "desc_ptr desc k = (case desc of None \<Rightarrow> fail NullDeref | Some d \<Rightarrow> k d)"

text \<open>\<open>cgpu_calloc\<close> of one object with the given initial contents.\<close>

definition calloc ::
    "(((ptr \<rightharpoonup> 'o) \<Rightarrow> (ptr \<rightharpoonup> 'o)) \<Rightarrow> vk_world \<Rightarrow> vk_world) \<Rightarrow> 'o \<Rightarrow> (ptr \<Rightarrow> 'a vk_prog) \<Rightarrow> 'a vk_prog" where
  "calloc upd x k =
     (\<lambda>w. let p = next_addr w in
          k p (upd (\<lambda>m. m(p \<mapsto> x)) (w\<lparr>next_addr := Suc p\<rparr>)))"

text \<open>\<open>cgpu_free\<close>: the object is gone; \<open>free(NULL)\<close> does nothing.\<close>

definition release ::
    "(((ptr \<rightharpoonup> 'o) \<Rightarrow> (ptr \<rightharpoonup> 'o)) \<Rightarrow> vk_world \<Rightarrow> vk_world) \<Rightarrow> ptr \<Rightarrow> 'a vk_prog \<Rightarrow> 'a vk_prog" where
  "release upd p k = modify (upd (\<lambda>m. m(p := None))) k"

text \<open>A driver call: it is appended to the trace and its answer goes to the rest of the code.\<close>

definition vk_do :: "vk_env \<Rightarrow> vk_call \<Rightarrow> (vk_reply \<Rightarrow> 'a vk_prog) \<Rightarrow> 'a vk_prog" where
  "vk_do V c k = (\<lambda>w. k (vk_drv V (trace w) c) (w\<lparr>trace := trace w @ [c]\<rparr>))"

text \<open>\<open>CHECK_VKRESULT\<close> of vulkan_utils.h: a failure is logged and asserts.\<close>

definition CHECK_VKRESULT :: "vk_env \<Rightarrow> vk_reply \<Rightarrow> 'a vk_prog \<Rightarrow> 'a vk_prog" where
  "CHECK_VKRESULT V r k = assertc (vk_debug V) (vk_result r = VK_SUCCESS) ''0'' k"

lemma table_at_run [prog_simps]:
  "table_at E p k w =
     (if p = NULL then Inl NullDeref
      else case proc_tables E p of None \<Rightarrow> Inl DanglingDeref | Some t \<Rightarrow> k t w)"
  by (simp add: table_at_def deref_run)

lemma store_run [prog_simps]:
  "store sel upd p g k w =
     (if p = NULL then Inl NullDeref
      else case sel w p of None \<Rightarrow> Inl DanglingDeref
           | Some x \<Rightarrow> k (upd (\<lambda>m. m(p \<mapsto> g x)) w))"
  by (simp add: store_def deref_run modify_run split: option.split)

lemma calloc_run [prog_simps]:
  "calloc upd x k w =
     k (next_addr w) (upd (\<lambda>m. m(next_addr w \<mapsto> x)) (w\<lparr>next_addr := Suc (next_addr w)\<rparr>))"
  by (simp add: calloc_def Let_def)

lemma release_run [prog_simps]: "release upd p k w = k (upd (\<lambda>m. m(p := None)) w)"
  by (simp add: release_def modify_run)

lemma vk_do_run [prog_simps]:
  "vk_do V c k w = k (vk_drv V (trace w) c) (w\<lparr>trace := trace w @ [c]\<rparr>)"
  by (simp add: vk_do_def)

lemma CHECK_VKRESULT_run [prog_simps]:
  "CHECK_VKRESULT V r k w =
     (if vk_debug V \<and> vk_result r \<noteq> VK_SUCCESS then Inl (AssertFail ''0'') else k w)"
  by (simp add: CHECK_VKRESULT_def assertc_run)

end
