(* ===== verification/Root_Sig_Table.thy ===== *)
theory Root_Sig_Table
  imports CGPU_Env "HOL-Library.Product_Lexorder"
begin

text \<open>
  The parameter tables of a root signature, src/gpu/cgpu/common/root_sig_table.cpp: the shader
  resources of all stages are collected, split into push constants, static samplers and table
  resources, merged across stages, sorted and cut into one table per descriptor set.

  Names are never NULL in reflection data (\<open>strcmp\<close> would crash), and copying a name
  (\<open>duplicate_string\<close>) does not change its value.
\<close>

section \<open>Classification\<close>

definition CGPUUtil_ShaderResourceIsStaticSampler ::
    "CGPUShaderResource \<Rightarrow> CGPURootSignatureDescriptor \<Rightarrow> bool" where
  "CGPUUtil_ShaderResourceIsStaticSampler resource desc =
     (case find (\<lambda>name. res_name resource = Some name) (rsd_static_sampler_names desc) of
        Some _ \<Rightarrow> res_type resource = CGPU_RESOURCE_TYPE_SAMPLER
      | None \<Rightarrow> False)"

definition CGPUUtil_ShaderResourceIsRootConst ::
    "CGPUShaderResource \<Rightarrow> CGPURootSignatureDescriptor \<Rightarrow> bool" where
  "CGPUUtil_ShaderResourceIsRootConst resource desc =
     (if res_type resource = CGPU_RESOURCE_TYPE_PUSH_CONSTANT then True
      else find (\<lambda>name. res_name resource = Some name) (rsd_push_constant_names desc) \<noteq> None)"

section \<open>Merging\<close>

text \<open>
  The loop that the three merges share: the stages of a resource are or-ed into every element
  that coincides with it, and a resource that coincides with none is appended.
\<close>

definition join_stages :: "CGPUShaderResource \<Rightarrow> CGPUShaderResource \<Rightarrow> CGPUShaderResource" where
  "join_stages x r = x\<lparr>res_stages := res_stages x OR res_stages r\<rparr>"

definition merge_into ::
    "(CGPUShaderResource \<Rightarrow> CGPUShaderResource \<Rightarrow> bool) \<Rightarrow> CGPUShaderResource
      \<Rightarrow> CGPUShaderResource list \<Rightarrow> CGPUShaderResource list" where
  "merge_into same r xs =
     (if list_ex (\<lambda>x. same x r) xs
      then map (\<lambda>x. if same x r then join_stages x r else x) xs
      else xs @ [r])"

definition same_push_constant :: "CGPUShaderResource \<Rightarrow> CGPUShaderResource \<Rightarrow> bool" where
  "same_push_constant x r \<longleftrightarrow>
     res_name_hash x = res_name_hash r \<and> res_set x = res_set r \<and> res_binding x = res_binding r
     \<and> res_size x = res_size r"

definition same_static_sampler :: "CGPUShaderResource \<Rightarrow> CGPUShaderResource \<Rightarrow> bool" where
  "same_static_sampler x r \<longleftrightarrow>
     res_name_hash x = res_name_hash r \<and> res_set x = res_set r \<and> res_binding x = res_binding r"

definition same_table_resource :: "CGPUShaderResource \<Rightarrow> CGPUShaderResource \<Rightarrow> bool" where
  "same_table_resource x r \<longleftrightarrow>
     res_set x = res_set r \<and> res_binding x = res_binding r \<and> res_type x = res_type r"

section \<open>Collection\<close>

record rs_collection =
  all_resources :: "CGPUShaderResource list"
  all_push_constants :: "CGPUShaderResource list"
  all_static_samplers :: "CGPUShaderResource list"
  collected_pipeline_type :: ECGPUPipelineType

definition collect_resource ::
    "CGPURootSignatureDescriptor \<Rightarrow> CGPUShaderResource \<Rightarrow> rs_collection \<Rightarrow> rs_collection" where
  "collect_resource desc r c =
     (if CGPUUtil_ShaderResourceIsRootConst r desc
      then c\<lparr>all_push_constants := merge_into same_push_constant r (all_push_constants c)\<rparr>
      else if CGPUUtil_ShaderResourceIsStaticSampler r desc
      then c\<lparr>all_static_samplers := merge_into same_static_sampler r (all_static_samplers c)\<rparr>
      else c\<lparr>all_resources := all_resources c @ [r]\<rparr>)"

definition pipeline_type_of_stage :: "ECGPUShaderStage \<Rightarrow> ECGPUPipelineType" where
  "pipeline_type_of_stage stage =
     (if stage AND CGPU_SHADER_STAGE_COMPUTE \<noteq> 0 then CGPU_PIPELINE_TYPE_COMPUTE
      else if stage AND CGPU_SHADER_STAGE_RAYTRACING \<noteq> 0 then CGPU_PIPELINE_TYPE_RAYTRACING
      else CGPU_PIPELINE_TYPE_GRAPHICS)"

definition collect_reflection ::
    "CGPURootSignatureDescriptor \<Rightarrow> CGPUShaderReflection \<Rightarrow> rs_collection \<Rightarrow> rs_collection" where
  "collect_reflection desc reflection c =
     (fold (collect_resource desc) (refl_shader_resources reflection) c)
       \<lparr>collected_pipeline_type := pipeline_type_of_stage (refl_stage reflection)\<rparr>"

definition collect_reflections ::
    "CGPURootSignatureDescriptor \<Rightarrow> CGPUShaderReflection list \<Rightarrow> rs_collection" where
  "collect_reflections desc refls =
     fold (collect_reflection desc) refls
       \<lparr>all_resources = [], all_push_constants = [], all_static_samplers = [],
        collected_pipeline_type = CGPU_PIPELINE_TYPE_NONE\<rparr>"

section \<open>Tables\<close>

text \<open>One step of the merge of the table resources: \<open>valid_sets\<close> is an ordered set.\<close>

definition merge_table_resource ::
    "CGPUShaderResource \<Rightarrow> CGPUShaderResource list \<times> nat list \<Rightarrow> CGPUShaderResource list \<times> nat list" where
  "merge_table_resource r = (\<lambda>(RST_resources, valid_sets).
     (merge_into same_table_resource r RST_resources,
      if list_ex (\<lambda>x. same_table_resource x r) RST_resources then valid_sets
      else insort_insert (res_set r) valid_sets))"

definition by_set_and_binding :: "CGPUShaderResource list \<Rightarrow> CGPUShaderResource list" where
  "by_set_and_binding = sort_key (\<lambda>r. (res_set r, res_binding r))"

definition slice_tables :: "CGPUShaderResource list \<Rightarrow> nat list \<Rightarrow> CGPUParameterTable list" where
  "slice_tables RST_resources valid_sets =
     map (\<lambda>s. \<lparr>tab_resources = filter (\<lambda>r. res_set r = s) RST_resources, tab_set_index = s\<rparr>)
       valid_sets"

record rs_param_tables =
  param_tables :: "CGPUParameterTable list"
  param_push_constants :: "CGPUShaderResource list"
  param_static_samplers :: "CGPUShaderResource list"
  param_pipeline_type :: ECGPUPipelineType

definition build_param_tables ::
    "CGPURootSignatureDescriptor \<Rightarrow> CGPUShaderReflection list \<Rightarrow> rs_param_tables" where
  "build_param_tables desc refls =
     (let c = collect_reflections desc refls;
          (RST_resources, valid_sets) = fold merge_table_resource (all_resources c) ([], []) in
      \<lparr>param_tables = slice_tables (by_set_and_binding RST_resources) valid_sets,
       param_push_constants = all_push_constants c,
       param_static_samplers = by_set_and_binding (all_static_samplers c),
       param_pipeline_type = collected_pipeline_type c\<rparr>)"

section \<open>The root signature\<close>

text \<open>The reflection of a shader: the entry of that name, or the first one. The array of picked
  reflections has 32 elements.\<close>

fun pick_reflections ::
    "CGPUPipelineShaderDescriptor list \<Rightarrow> nat \<Rightarrow> CGPUShaderReflection list vk_prog" where
  "pick_reflections [] i = ret []"
| "pick_reflections (shader # shaders) i =
     deref libraries (psd_library shader) (\<lambda>L.
     bindP (case find (\<lambda>e. psd_entry shader = refl_entry_name e) (entry_reflections L) of
              Some e \<Rightarrow> ret e
            | None \<Rightarrow> index_of ''library->entry_reflections'' (entry_reflections L) 0 ret) (\<lambda>e.
     if i < 32 then bindP (pick_reflections shaders (Suc i)) (\<lambda>es. ret (e # es))
     else fail (OutOfBounds ''entry_reflections'')))"

definition CGPUUtil_InitRSParamTables ::
    "CGPURootSignatureId \<Rightarrow> CGPURootSignatureDescriptor \<Rightarrow> 'a vk_prog \<Rightarrow> 'a vk_prog" where
  "CGPUUtil_InitRSParamTables RS desc k =
     bindP (pick_reflections (rsd_shaders desc) 0) (\<lambda>refls.
     let t = build_param_tables desc refls in
     store root_sigs root_sigs_update RS
       (\<lambda>X. X\<lparr>rs_tables := param_tables t, rs_push_constants := param_push_constants t,
             rs_static_samplers := param_static_samplers t,
             rs_pipeline_type := param_pipeline_type t\<rparr>) k)"

text \<open>\<open>CGPUUtil_FreeRSParamTables\<close> releases the arrays and the names; the members keep their
  dangling pointers, and no caller reads them again.\<close>

definition CGPUUtil_FreeRSParamTables :: "CGPURootSignatureId \<Rightarrow> 'a vk_prog \<Rightarrow> 'a vk_prog" where
  "CGPUUtil_FreeRSParamTables RS k = deref root_sigs RS (\<lambda>_. k)"

lemmas root_sig_table_defs [table_defs] =
  collect_resource_def collect_reflection_def collect_reflections_def merge_table_resource_def
  by_set_and_binding_def slice_tables_def build_param_tables_def

section \<open>Merging by a key\<close>

text \<open>
  The contract of the three merges: two resources coincide when they have the same key, and
  joining stages does not change it.
\<close>

locale merge_by_key =
  fixes same :: "CGPUShaderResource \<Rightarrow> CGPUShaderResource \<Rightarrow> bool"
    and key :: "CGPUShaderResource \<Rightarrow> 'k"
  assumes same_key: "same x r \<longleftrightarrow> key x = key r"
    and key_join: "key (join_stages x r) = key x"
begin

definition merge_all :: "CGPUShaderResource list \<Rightarrow> CGPUShaderResource list" where
  "merge_all rs = fold (merge_into same) rs []"

lemma merge_all_Nil [simp]: "merge_all [] = []"
  by (simp add: merge_all_def)

lemma merge_all_snoc [simp]: "merge_all (rs @ [r]) = merge_into same r (merge_all rs)"
  by (simp add: merge_all_def)

lemma coincides_iff: "list_ex (\<lambda>x. same x r) xs \<longleftrightarrow> key r \<in> key ` set xs"
  by (metis (mono_tags, lifting) image_iff list_ex_iff same_key)

lemma merge_into_keys:
  "map key (merge_into same r xs) =
     (if key r \<in> key ` set xs then map key xs else map key xs @ [key r])"
  by (auto simp: merge_into_def coincides_iff key_join)

lemma merge_all_keys: "key ` set (merge_all rs) = key ` set rs"
proof (induction rs rule: rev_induct)
  case (snoc r rs)
  have "key ` set (merge_into same r (merge_all rs)) = set (map key (merge_into same r (merge_all rs)))"
    by simp
  also have "\<dots> = insert (key r) (key ` set (merge_all rs))"
    unfolding merge_into_keys by auto
  finally show ?case
    by (simp add: snoc)
qed simp

lemma merge_all_distinct: "distinct (map key (merge_all rs))"
proof (induction rs rule: rev_induct)
  case (snoc r rs)
  then show ?case
    by (simp add: merge_into_keys)
qed simp

text \<open>The stages of a merged resource are those of all the resources with its key.\<close>

definition stages_of :: "'k \<Rightarrow> CGPUShaderResource list \<Rightarrow> CGPUShaderStages" where
  "stages_of k rs = fold (\<lambda>r s. s OR res_stages r) (filter (\<lambda>r. key r = k) rs) 0"

lemma stages_of_Nil [simp]: "stages_of k [] = 0"
  by (simp add: stages_of_def)

lemma stages_of_snoc [simp]:
  "stages_of k (rs @ [r]) =
     (if key r = k then stages_of k rs OR res_stages r else stages_of k rs)"
  by (simp add: stages_of_def)

lemma stages_of_absent: "k \<notin> key ` set rs \<Longrightarrow> stages_of k rs = 0"
  by (induction rs rule: rev_induct) auto

lemma merge_all_stages: "x \<in> set (merge_all rs) \<Longrightarrow> res_stages x = stages_of (key x) rs"
proof (induction rs arbitrary: x rule: rev_induct)
  case (snoc r rs)
  show ?case
  proof (cases "key r \<in> key ` set (merge_all rs)")
    case True
    then obtain y where y: "y \<in> set (merge_all rs)" "x = (if same y r then join_stages y r else y)"
      using snoc.prems by (auto simp: merge_into_def coincides_iff)
    then show ?thesis
      using snoc.IH [OF y(1)] by (auto simp: same_key key_join) (simp add: join_stages_def)
  next
    case False
    then have "x \<in> set (merge_all rs) \<or> x = r"
      using snoc.prems by (auto simp: merge_into_def coincides_iff)
    moreover have "stages_of (key r) rs = 0"
      using False by (simp add: stages_of_absent merge_all_keys)
    ultimately show ?thesis
      using snoc.IH False by (auto simp: image_iff)
  qed
qed simp

end

definition push_constant_key :: "CGPUShaderResource \<Rightarrow> nat \<times> nat \<times> nat \<times> nat" where
  "push_constant_key r = (res_name_hash r, res_set r, res_binding r, res_size r)"

definition static_sampler_key :: "CGPUShaderResource \<Rightarrow> nat \<times> nat \<times> nat" where
  "static_sampler_key r = (res_name_hash r, res_set r, res_binding r)"

definition table_key :: "CGPUShaderResource \<Rightarrow> nat \<times> nat \<times> ECGPUResourceType" where
  "table_key r = (res_set r, res_binding r, res_type r)"

interpretation push_constants: merge_by_key same_push_constant push_constant_key
  by unfold_locales (auto simp: same_push_constant_def push_constant_key_def join_stages_def)

interpretation static_samplers: merge_by_key same_static_sampler static_sampler_key
  by unfold_locales (auto simp: same_static_sampler_def static_sampler_key_def join_stages_def)

interpretation table_resources: merge_by_key same_table_resource table_key
  by unfold_locales (auto simp: same_table_resource_def table_key_def join_stages_def)

end
