(* ===== verification/Root_Sig_Facts.thy ===== *)
theory Root_Sig_Facts
  imports Root_Sig_Table "HOL-Library.Multiset"
begin

text \<open>
  What the parameter tables of a root signature promise, from the merge contract: every
  reflected resource is in exactly one place, once per key, with the stages of all the shaders
  that use it, and the tables are ordered.
\<close>

section \<open>Collection as filters\<close>

definition reflected :: "CGPUShaderReflection list \<Rightarrow> CGPUShaderResource list" where
  "reflected refls = concat (map refl_shader_resources refls)"

definition is_root_const :: "CGPURootSignatureDescriptor \<Rightarrow> CGPUShaderResource \<Rightarrow> bool" where
  "is_root_const desc r \<longleftrightarrow> CGPUUtil_ShaderResourceIsRootConst r desc"

definition is_static_sampler :: "CGPURootSignatureDescriptor \<Rightarrow> CGPUShaderResource \<Rightarrow> bool" where
  "is_static_sampler desc r \<longleftrightarrow>
     \<not> CGPUUtil_ShaderResourceIsRootConst r desc \<and> CGPUUtil_ShaderResourceIsStaticSampler r desc"

definition is_table_resource :: "CGPURootSignatureDescriptor \<Rightarrow> CGPUShaderResource \<Rightarrow> bool" where
  "is_table_resource desc r \<longleftrightarrow>
     \<not> CGPUUtil_ShaderResourceIsRootConst r desc \<and> \<not> CGPUUtil_ShaderResourceIsStaticSampler r desc"

lemma fold_collect_resource:
  "fold (collect_resource desc) rs c =
     c\<lparr>all_resources := all_resources c @ filter (is_table_resource desc) rs,
       all_push_constants :=
         fold (merge_into same_push_constant) (filter (is_root_const desc) rs) (all_push_constants c),
       all_static_samplers :=
         fold (merge_into same_static_sampler) (filter (is_static_sampler desc) rs) (all_static_samplers c)\<rparr>"
  by (induction rs arbitrary: c)
    (auto simp: collect_resource_def is_table_resource_def is_root_const_def is_static_sampler_def)

lemma fold_collect_reflection:
  "fold (collect_reflection desc) refls c =
     (fold (collect_resource desc) (reflected refls) c)
       \<lparr>collected_pipeline_type :=
          (if refls = [] then collected_pipeline_type c
           else pipeline_type_of_stage (refl_stage (last refls)))\<rparr>"
  by (induction refls arbitrary: c)
    (simp_all add: collect_reflection_def reflected_def fold_collect_resource)

lemma collect_reflections_eq:
  "collect_reflections desc refls =
     \<lparr>all_resources = filter (is_table_resource desc) (reflected refls),
      all_push_constants = push_constants.merge_all (filter (is_root_const desc) (reflected refls)),
      all_static_samplers = static_samplers.merge_all (filter (is_static_sampler desc) (reflected refls)),
      collected_pipeline_type =
        (if refls = [] then CGPU_PIPELINE_TYPE_NONE
         else pipeline_type_of_stage (refl_stage (last refls)))\<rparr>"
  by (simp add: collect_reflections_def fold_collect_reflection fold_collect_resource
      push_constants.merge_all_def static_samplers.merge_all_def)

section \<open>The table resources and the valid sets\<close>

lemma fold_merge_table_resource:
  "fst (fold merge_table_resource rs ([], [])) = table_resources.merge_all rs"
  "sorted (snd (fold merge_table_resource rs ([], [])))"
  "distinct (snd (fold merge_table_resource rs ([], [])))"
  "set (snd (fold merge_table_resource rs ([], []))) = res_set ` set rs"
proof (induction rs rule: rev_induct)
  case (snoc r rs)
  obtain xs vs where f: "fold merge_table_resource rs ([], []) = (xs, vs)"
    by fastforce
  have xs: "xs = table_resources.merge_all rs" and vs: "sorted vs" "distinct vs" "set vs = res_set ` set rs"
    using snoc f by simp_all
  have sets: "res_set r \<in> res_set ` set rs" if "list_ex (\<lambda>x. same_table_resource x r) xs"
  proof -
    have "table_key r \<in> table_key ` set rs"
      using that by (simp add: xs table_resources.coincides_iff table_resources.merge_all_keys)
    then show ?thesis
      by (auto simp: table_key_def)
  qed
  show "fst (fold merge_table_resource (rs @ [r]) ([], [])) = table_resources.merge_all (rs @ [r])"
    by (simp add: f merge_table_resource_def xs)
  show "sorted (snd (fold merge_table_resource (rs @ [r]) ([], [])))"
    by (simp add: f merge_table_resource_def vs sorted_insort_insert)
  show "distinct (snd (fold merge_table_resource (rs @ [r]) ([], [])))"
    by (simp add: f merge_table_resource_def vs distinct_insort_insert)
  show "set (snd (fold merge_table_resource (rs @ [r]) ([], []))) = res_set ` set (rs @ [r])"
    using sets by (simp add: f merge_table_resource_def vs set_insort_insert insert_absorb)
qed simp_all

lemma by_set_and_binding_simps [simp]:
  "set (by_set_and_binding rs) = set rs"
  "distinct (map key (by_set_and_binding rs)) \<longleftrightarrow> distinct (map key rs)"
  "sorted (map (\<lambda>r. (res_set r, res_binding r)) (by_set_and_binding rs))"
proof -
  have "mset (map key (by_set_and_binding rs)) = mset (map key rs)"
    by (metis by_set_and_binding_def mset_map mset_sort)
  then show "distinct (map key (by_set_and_binding rs)) \<longleftrightarrow> distinct (map key rs)"
    using mset_eq_imp_distinct_iff by blast
qed (simp_all add: by_set_and_binding_def)

text \<open>Cutting a list sorted by set and binding into sets keeps each table sorted by binding.\<close>

lemma sorted_filter_binding:
  assumes "sorted (map (\<lambda>r. (res_set r, res_binding r)) rs)"
  shows "sorted (map res_binding (filter (\<lambda>r. res_set r = s) rs))"
  using assms by (induction rs) (auto simp: less_eq_prod_def)

lemma concat_slices_set:
  assumes "set vs = res_set ` set rs"
  shows "set (concat (map tab_resources (slice_tables rs vs))) = set rs"
  using assms by (auto simp: slice_tables_def)

lemma concat_slices_distinct:
  assumes "distinct (map table_key rs)" and "distinct vs"
  shows "distinct (map table_key (concat (map tab_resources (slice_tables rs vs))))"
proof -
  have inj: "inj_on table_key (set rs)" and d: "distinct rs"
    using assms(1) by (simp_all add: distinct_map)
  have sub: "set (concat (map tab_resources (slice_tables rs vs))) \<subseteq> set rs"
    by (auto simp: slice_tables_def)
  have "distinct (concat (map (\<lambda>s. filter (\<lambda>r. res_set r = s) rs) vs))"
    using assms(2) d by (induction vs) auto
  then show ?thesis
    using inj sub by (simp add: distinct_map slice_tables_def comp_def inj_on_subset)
qed

section \<open>The parameter tables\<close>

text \<open>
  Property C16: the tables of a root signature have strictly ascending set indices, none is
  empty, a table holds resources of its own set only, in ascending order of binding, and the
  static samplers are ordered by set and binding.
\<close>

theorem param_tables_ordered:
  "sorted_wrt (<) (map tab_set_index (param_tables (build_param_tables desc refls)))
   \<and> list_all (\<lambda>T. tab_resources T \<noteq> []
        \<and> list_all (\<lambda>r. res_set r = tab_set_index T) (tab_resources T)
        \<and> sorted (map res_binding (tab_resources T)))
      (param_tables (build_param_tables desc refls))
   \<and> sorted (map (\<lambda>r. (res_set r, res_binding r)) (param_static_samplers (build_param_tables desc refls)))"
proof -
  define rs where "rs = filter (is_table_resource desc) (reflected refls)"
  obtain xs vs where f: "fold merge_table_resource rs ([], []) = (xs, vs)"
    by fastforce
  have xs: "xs = table_resources.merge_all rs"
    and vs: "sorted vs" "distinct vs" "set vs = res_set ` set rs"
    using fold_merge_table_resource [of rs] f by simp_all
  have sets: "res_set ` set xs = res_set ` set rs"
    using table_resources.merge_all_keys [of rs] unfolding xs table_key_def
    by (metis (no_types, lifting) fst_conv image_cong image_image)
  have "param_tables (build_param_tables desc refls) = slice_tables (by_set_and_binding xs) vs"
    by (simp add: build_param_tables_def collect_reflections_eq f flip: rs_def)
  moreover have "filter (\<lambda>r. res_set r = s) (by_set_and_binding xs) \<noteq> []" if "s \<in> set vs" for s
    using that vs(3) sets by (metis (mono_tags, lifting) by_set_and_binding_simps(1) filter_empty_conv imageE)
  ultimately show ?thesis
    using vs by (auto simp: slice_tables_def comp_def list_all_iff sorted_filter_binding
        build_param_tables_def Let_def strict_sorted_iff split: prod.split)
qed

text \<open>
  Property C6: nothing is lost and nothing is invented by the tables. The keys (set, binding,
  type) of the table resources are exactly those of the reflected resources that are neither
  root constants nor static samplers, each key occurs once in all the tables together, and a
  table resource has the stages of all the reflected resources with its key.
\<close>

theorem param_tables_lossless:
  "table_key ` set (concat (map tab_resources (param_tables (build_param_tables desc refls))))
     = table_key ` set (filter (is_table_resource desc) (reflected refls))
   \<and> distinct (map table_key (concat (map tab_resources (param_tables (build_param_tables desc refls)))))
   \<and> list_all (\<lambda>x. res_stages x =
        fold (\<lambda>r s. s OR res_stages r)
          (filter (\<lambda>r. is_table_resource desc r \<and> table_key r = table_key x) (reflected refls)) 0)
      (concat (map tab_resources (param_tables (build_param_tables desc refls))))"
proof -
  define rs where "rs = filter (is_table_resource desc) (reflected refls)"
  obtain xs vs where f: "fold merge_table_resource rs ([], []) = (xs, vs)"
    by fastforce
  have xs: "xs = table_resources.merge_all rs"
    and vs: "distinct vs" "set vs = res_set ` set rs"
    using fold_merge_table_resource [of rs] f by simp_all
  have keys: "table_key ` set xs = table_key ` set rs"
    by (simp add: xs table_resources.merge_all_keys)
  have "res_set ` set xs = res_set ` set rs"
    using keys unfolding table_key_def
    by (metis (no_types, lifting) fst_conv image_cong image_image)
  then have set_eq: "set (concat (map tab_resources (slice_tables (by_set_and_binding xs) vs))) = set xs"
    using concat_slices_set [of vs "by_set_and_binding xs"] vs(2) by simp
  have tables: "param_tables (build_param_tables desc refls) = slice_tables (by_set_and_binding xs) vs"
    by (simp add: build_param_tables_def collect_reflections_eq f flip: rs_def)
  have d: "distinct (map table_key (concat (map tab_resources (slice_tables (by_set_and_binding xs) vs))))"
    using concat_slices_distinct [of "by_set_and_binding xs" vs] vs(1)
    by (simp add: xs table_resources.merge_all_distinct)
  have "res_stages x = fold (\<lambda>r s. s OR res_stages r) (filter (\<lambda>r. table_key r = table_key x) rs) 0"
    if "x \<in> set xs" for x
    using table_resources.merge_all_stages [of x rs] that
    by (simp add: xs table_resources.stages_of_def)
  then show ?thesis
    using d keys set_eq
    by (simp add: tables list_all_iff rs_def filter_filter conj_commute del: set_concat)
qed

text \<open>
  Property C23: the push constants and the static samplers of a root signature are the reflected
  resources of those classes, once per key, with the stages of all the shaders that use them,
  and every reflected resource belongs to exactly one of the three classes.
\<close>

theorem param_constants_and_samplers:
  "distinct (map push_constant_key (param_push_constants (build_param_tables desc refls)))
   \<and> push_constant_key ` set (param_push_constants (build_param_tables desc refls))
       = push_constant_key ` set (filter (is_root_const desc) (reflected refls))
   \<and> list_all (\<lambda>x. res_stages x =
        fold (\<lambda>r s. s OR res_stages r)
          (filter (\<lambda>r. push_constant_key r = push_constant_key x)
             (filter (is_root_const desc) (reflected refls))) 0)
      (param_push_constants (build_param_tables desc refls))
   \<and> distinct (map static_sampler_key (param_static_samplers (build_param_tables desc refls)))
   \<and> static_sampler_key ` set (param_static_samplers (build_param_tables desc refls))
       = static_sampler_key ` set (filter (is_static_sampler desc) (reflected refls))
   \<and> list_all (\<lambda>x. res_stages x =
        fold (\<lambda>r s. s OR res_stages r)
          (filter (\<lambda>r. static_sampler_key r = static_sampler_key x)
             (filter (is_static_sampler desc) (reflected refls))) 0)
      (param_static_samplers (build_param_tables desc refls))
   \<and> length (filter (is_root_const desc) rs) + length (filter (is_static_sampler desc) rs)
       + length (filter (is_table_resource desc) rs) = length rs"
proof -
  have "length (filter (is_root_const desc) rs) + length (filter (is_static_sampler desc) rs)
          + length (filter (is_table_resource desc) rs) = length rs"
    by (induction rs) (auto simp: is_root_const_def is_static_sampler_def is_table_resource_def)
  moreover have
    "param_push_constants (build_param_tables desc refls)
       = push_constants.merge_all (filter (is_root_const desc) (reflected refls))"
    "param_static_samplers (build_param_tables desc refls)
       = by_set_and_binding (static_samplers.merge_all (filter (is_static_sampler desc) (reflected refls)))"
    by (simp_all add: build_param_tables_def collect_reflections_eq Let_def split: prod.split)
  ultimately show ?thesis
    by (simp add: push_constants.merge_all_distinct static_samplers.merge_all_distinct
        push_constants.merge_all_keys static_samplers.merge_all_keys list_all_iff
        push_constants.merge_all_stages static_samplers.merge_all_stages
        push_constants.stages_of_def static_samplers.stages_of_def del: filter_filter)
qed

end
