(* ===== verification/Vk_Translate.thy ===== *)
theory Vk_Translate
  imports CGPU_Env
begin

text \<open>
  The translations of src/gpu/cgpu/vulkan/vulkan_utils.inl and the translation arrays of
  include/cgpu/backend/vulkan/cgpu_vulkan.h: CGPU flags and enumerators to their Vulkan
  counterparts. A function that asserts takes the rest of the code as an argument.
\<close>

section \<open>Arrays indexed by an enumerator\<close>

text \<open>The value of an enumerator, by its position in the declaration; the sentinels
  \<open>MAX_ENUM_BIT\<close> are \<open>0x7FFFFFFF\<close>.\<close>

definition max_enum_bit :: nat where "max_enum_bit = 0x7FFFFFFF"

fun load_action_value :: "ECGPULoadAction \<Rightarrow> nat" where
  "load_action_value CGPU_LOAD_ACTION_DONTCARE = 0"
| "load_action_value CGPU_LOAD_ACTION_LOAD = 1"
| "load_action_value CGPU_LOAD_ACTION_CLEAR = 2"
| "load_action_value CGPU_LOAD_ACTION_COUNT = 3"
| "load_action_value CGPU_LOAD_ACTION_MAX_ENUM_BIT = max_enum_bit"

fun store_action_value :: "ECGPUStoreAction \<Rightarrow> nat" where
  "store_action_value CGPU_STORE_ACTION_STORE = 0"
| "store_action_value CGPU_STORE_ACTION_DISCARD = 1"
| "store_action_value CGPU_STORE_ACTION_COUNT = 2"
| "store_action_value CGPU_STORE_ACTION_MAX_ENUM_BIT = max_enum_bit"

fun pipeline_type_value :: "ECGPUPipelineType \<Rightarrow> nat" where
  "pipeline_type_value CGPU_PIPELINE_TYPE_NONE = 0"
| "pipeline_type_value CGPU_PIPELINE_TYPE_COMPUTE = 1"
| "pipeline_type_value CGPU_PIPELINE_TYPE_GRAPHICS = 2"
| "pipeline_type_value CGPU_PIPELINE_TYPE_RAYTRACING = 3"
| "pipeline_type_value CGPU_PIPELINE_TYPE_COUNT = 4"
| "pipeline_type_value CGPU_PIPELINE_TYPE_MAX_ENUM_BIT = max_enum_bit"

fun queue_type_value :: "ECGPUQueueType \<Rightarrow> nat" where
  "queue_type_value CGPU_QUEUE_TYPE_GRAPHICS = 0"
| "queue_type_value CGPU_QUEUE_TYPE_COMPUTE = 1"
| "queue_type_value CGPU_QUEUE_TYPE_TRANSFER = 2"
| "queue_type_value CGPU_QUEUE_TYPE_COUNT = 3"
| "queue_type_value CGPU_QUEUE_TYPE_MAX_ENUM_BIT = max_enum_bit"

definition gPipelineBindPoint :: "VkPipelineBindPoint list" where
  "gPipelineBindPoint =
     [VK_PIPELINE_BIND_POINT_MAX_ENUM, VK_PIPELINE_BIND_POINT_COMPUTE,
      VK_PIPELINE_BIND_POINT_GRAPHICS]"

text \<open>An array of CGPU_STORE_ACTION_COUNT elements with an initialiser for each of them.\<close>

definition gVkAttachmentStoreOpTranslator :: "VkAttachmentStoreOp list" where
  "gVkAttachmentStoreOpTranslator =
     [VK_ATTACHMENT_STORE_OP_STORE, VK_ATTACHMENT_STORE_OP_DONT_CARE]"

definition gVkAttachmentLoadOpTranslator :: "VkAttachmentLoadOp list" where
  "gVkAttachmentLoadOpTranslator =
     [VK_ATTACHMENT_LOAD_OP_DONT_CARE, VK_ATTACHMENT_LOAD_OP_LOAD, VK_ATTACHMENT_LOAD_OP_CLEAR]"

section \<open>Samplers, images and buffers\<close>

fun compare_mode_value :: "ECGPUCompareMode \<Rightarrow> nat" where
  "compare_mode_value CGPU_CMP_NEVER = 0"
| "compare_mode_value CGPU_CMP_LESS = 1"
| "compare_mode_value CGPU_CMP_EQUAL = 2"
| "compare_mode_value CGPU_CMP_LEQUAL = 3"
| "compare_mode_value CGPU_CMP_GREATER = 4"
| "compare_mode_value CGPU_CMP_NOTEQUAL = 5"
| "compare_mode_value CGPU_CMP_GEQUAL = 6"
| "compare_mode_value CGPU_CMP_ALWAYS = 7"
| "compare_mode_value CGPU_CMP_COUNT = 8"
| "compare_mode_value CGPU_CMP_MAX_ENUM_BIT = max_enum_bit"

definition gVkComparisonFuncTranslator :: "VkCompareOp list" where
  "gVkComparisonFuncTranslator =
     [VK_COMPARE_OP_NEVER, VK_COMPARE_OP_LESS, VK_COMPARE_OP_EQUAL, VK_COMPARE_OP_LESS_OR_EQUAL,
      VK_COMPARE_OP_GREATER, VK_COMPARE_OP_NOT_EQUAL, VK_COMPARE_OP_GREATER_OR_EQUAL, VK_COMPARE_OP_ALWAYS]"

fun memory_usage_value :: "ECGPUMemoryUsage \<Rightarrow> nat" where
  "memory_usage_value CGPU_MEM_USAGE_UNKNOWN = 0"
| "memory_usage_value CGPU_MEM_USAGE_GPU_ONLY = 1"
| "memory_usage_value CGPU_MEM_USAGE_CPU_ONLY = 2"
| "memory_usage_value CGPU_MEM_USAGE_CPU_TO_GPU = 3"
| "memory_usage_value CGPU_MEM_USAGE_GPU_TO_CPU = 4"
| "memory_usage_value CGPU_MEM_USAGE_COUNT = 5"
| "memory_usage_value CGPU_MEM_USAGE_MAX_ENUM = max_enum_bit"

definition VkUtil_SampleCountTranslateToVk :: "ECGPUSampleCount \<Rightarrow> VkSampleCountFlagBits" where
  "VkUtil_SampleCountTranslateToVk count = c_switch
     [(CGPU_SAMPLE_COUNT_1, VK_SAMPLE_COUNT_1_BIT),
      (CGPU_SAMPLE_COUNT_2, VK_SAMPLE_COUNT_2_BIT),
      (CGPU_SAMPLE_COUNT_4, VK_SAMPLE_COUNT_4_BIT),
      (CGPU_SAMPLE_COUNT_8, VK_SAMPLE_COUNT_8_BIT),
      (CGPU_SAMPLE_COUNT_16, VK_SAMPLE_COUNT_16_BIT)] VK_SAMPLE_COUNT_1_BIT count"

definition VkUtil_DescriptorTypesToImageUsage :: "CGPUResourceTypes \<Rightarrow> VkImageUsageFlagBit set" where
  "VkUtil_DescriptorTypesToImageUsage descriptors =
     (if CGPU_RESOURCE_TYPE_TEXTURE = (descriptors AND CGPU_RESOURCE_TYPE_TEXTURE)
      then {VK_IMAGE_USAGE_SAMPLED_BIT} else {})
     \<union> (if CGPU_RESOURCE_TYPE_RW_TEXTURE = (descriptors AND CGPU_RESOURCE_TYPE_RW_TEXTURE)
        then {VK_IMAGE_USAGE_STORAGE_BIT} else {})"

fun VkUtil_TranslateFilterType :: "ECGPUFilterType \<Rightarrow> VkFilter" where
  "VkUtil_TranslateFilterType CGPU_FILTER_TYPE_NEAREST = VK_FILTER_NEAREST"
| "VkUtil_TranslateFilterType CGPU_FILTER_TYPE_LINEAR = VK_FILTER_LINEAR"
| "VkUtil_TranslateFilterType _ = VK_FILTER_LINEAR"

definition VkUtil_TranslateMipMapMode ::
    "vk_env \<Rightarrow> ECGPUMipMapMode \<Rightarrow> (VkSamplerMipmapMode \<Rightarrow> 'a vk_prog) \<Rightarrow> 'a vk_prog" where
  "VkUtil_TranslateMipMapMode V mipMapMode k =
     (case mipMapMode of
        CGPU_MIPMAP_MODE_NEAREST \<Rightarrow> k VK_SAMPLER_MIPMAP_MODE_NEAREST
      | CGPU_MIPMAP_MODE_LINEAR \<Rightarrow> k VK_SAMPLER_MIPMAP_MODE_LINEAR
      | _ \<Rightarrow> assertc (vk_debug V) False ''Invalid Mip Map Mode'' (
             k VK_SAMPLER_MIPMAP_MODE_MAX_ENUM))"

fun VkUtil_TranslateAddressMode :: "ECGPUAddressMode \<Rightarrow> VkSamplerAddressMode" where
  "VkUtil_TranslateAddressMode CGPU_ADDRESS_MODE_MIRROR = VK_SAMPLER_ADDRESS_MODE_MIRRORED_REPEAT"
| "VkUtil_TranslateAddressMode CGPU_ADDRESS_MODE_REPEAT = VK_SAMPLER_ADDRESS_MODE_REPEAT"
| "VkUtil_TranslateAddressMode CGPU_ADDRESS_MODE_CLAMP_TO_EDGE =
     VK_SAMPLER_ADDRESS_MODE_CLAMP_TO_EDGE"
| "VkUtil_TranslateAddressMode CGPU_ADDRESS_MODE_CLAMP_TO_BORDER =
     VK_SAMPLER_ADDRESS_MODE_CLAMP_TO_BORDER"
| "VkUtil_TranslateAddressMode _ = VK_SAMPLER_ADDRESS_MODE_REPEAT"

definition VkUtil_DeterminAspectMask :: "VkFormat \<Rightarrow> bool \<Rightarrow> VkImageAspectFlags" where
  "VkUtil_DeterminAspectMask format includeStencilBit =
     (if format = VK_FORMAT_D16_UNORM \<or> format = VK_FORMAT_X8_D24_UNORM_PACK32
         \<or> format = VK_FORMAT_D32_SFLOAT
      then VK_IMAGE_ASPECT_DEPTH_BIT
      else if format = VK_FORMAT_S8_UINT then VK_IMAGE_ASPECT_STENCIL_BIT
      else if format = VK_FORMAT_D16_UNORM_S8_UINT \<or> format = VK_FORMAT_D24_UNORM_S8_UINT
              \<or> format = VK_FORMAT_D32_SFLOAT_S8_UINT
      then (if includeStencilBit then VK_IMAGE_ASPECT_DEPTH_BIT OR VK_IMAGE_ASPECT_STENCIL_BIT
            else VK_IMAGE_ASPECT_DEPTH_BIT)
      else VK_IMAGE_ASPECT_COLOR_BIT)"

text \<open>\<open>if (flags & bit)\<close>: the test of a flag word against a mask.\<close>

definition has_any :: "u32 \<Rightarrow> u32 \<Rightarrow> bool" where
  "has_any flags bits \<longleftrightarrow> flags AND bits \<noteq> 0"

definition VkUtil_DescriptorTypesToBufferUsage ::
    "CGPUResourceTypes \<Rightarrow> bool \<Rightarrow> VkBufferUsageFlagBit set" where
  "VkUtil_DescriptorTypesToBufferUsage descriptors texel =
     {VK_BUFFER_USAGE_TRANSFER_SRC_BIT}
     \<union> (if has_any descriptors CGPU_RESOURCE_TYPE_UNIFORM_BUFFER
        then {VK_BUFFER_USAGE_UNIFORM_BUFFER_BIT} else {})
     \<union> (if has_any descriptors CGPU_RESOURCE_TYPE_RW_BUFFER
        then {VK_BUFFER_USAGE_STORAGE_BUFFER_BIT}
             \<union> (if texel then {VK_BUFFER_USAGE_STORAGE_TEXEL_BUFFER_BIT} else {})
        else {})
     \<union> (if has_any descriptors CGPU_RESOURCE_TYPE_BUFFER
        then {VK_BUFFER_USAGE_STORAGE_BUFFER_BIT}
             \<union> (if texel then {VK_BUFFER_USAGE_UNIFORM_TEXEL_BUFFER_BIT} else {})
        else {})
     \<union> (if has_any descriptors CGPU_RESOURCE_TYPE_INDEX_BUFFER
        then {VK_BUFFER_USAGE_INDEX_BUFFER_BIT} else {})
     \<union> (if has_any descriptors CGPU_RESOURCE_TYPE_VERTEX_BUFFER
        then {VK_BUFFER_USAGE_VERTEX_BUFFER_BIT} else {})
     \<union> (if has_any descriptors CGPU_RESOURCE_TYPE_INDIRECT_BUFFER
        then {VK_BUFFER_USAGE_INDIRECT_BUFFER_BIT} else {})"

section \<open>Shader stages and resource types\<close>

definition VkUtil_TranslateShaderUsages :: "CGPUShaderStages \<Rightarrow> VkShaderStageFlags" where
  "VkUtil_TranslateShaderUsages shader_stages =
     (if CGPU_SHADER_STAGE_ALL_GRAPHICS = (shader_stages AND CGPU_SHADER_STAGE_ALL_GRAPHICS)
      then VK_SHADER_STAGE_ALL_GRAPHICS
      else
        (if CGPU_SHADER_STAGE_VERT = (shader_stages AND CGPU_SHADER_STAGE_VERT)
         then {VK_SHADER_STAGE_VERTEX_BIT} else {})
        \<union> (if CGPU_SHADER_STAGE_TESC = (shader_stages AND CGPU_SHADER_STAGE_TESC)
           then {VK_SHADER_STAGE_TESSELLATION_CONTROL_BIT} else {})
        \<union> (if CGPU_SHADER_STAGE_TESE = (shader_stages AND CGPU_SHADER_STAGE_TESE)
           then {VK_SHADER_STAGE_TESSELLATION_EVALUATION_BIT} else {})
        \<union> (if CGPU_SHADER_STAGE_GEOM = (shader_stages AND CGPU_SHADER_STAGE_GEOM)
           then {VK_SHADER_STAGE_GEOMETRY_BIT} else {})
        \<union> (if CGPU_SHADER_STAGE_FRAG = (shader_stages AND CGPU_SHADER_STAGE_FRAG)
           then {VK_SHADER_STAGE_FRAGMENT_BIT} else {})
        \<union> (if CGPU_SHADER_STAGE_COMPUTE = (shader_stages AND CGPU_SHADER_STAGE_COMPUTE)
           then {VK_SHADER_STAGE_COMPUTE_BIT} else {}))"

definition VkUtil_TranslateResourceType ::
    "vk_env \<Rightarrow> ECGPUResourceType \<Rightarrow> (VkDescriptorType \<Rightarrow> 'a vk_prog) \<Rightarrow> 'a vk_prog" where
  "VkUtil_TranslateResourceType V type k =
     (case c_switch
        [(CGPU_RESOURCE_TYPE_NONE, None),
         (CGPU_RESOURCE_TYPE_SAMPLER, Some VK_DESCRIPTOR_TYPE_SAMPLER),
         (CGPU_RESOURCE_TYPE_TEXTURE, Some VK_DESCRIPTOR_TYPE_SAMPLED_IMAGE),
         (CGPU_RESOURCE_TYPE_UNIFORM_BUFFER, Some VK_DESCRIPTOR_TYPE_UNIFORM_BUFFER),
         (CGPU_RESOURCE_TYPE_RW_TEXTURE, Some VK_DESCRIPTOR_TYPE_STORAGE_IMAGE),
         (CGPU_RESOURCE_TYPE_BUFFER, Some VK_DESCRIPTOR_TYPE_STORAGE_BUFFER),
         (CGPU_RESOURCE_TYPE_RW_BUFFER, Some VK_DESCRIPTOR_TYPE_STORAGE_BUFFER),
         (CGPU_RESOURCE_TYPE_INPUT_ATTACHMENT, Some VK_DESCRIPTOR_TYPE_INPUT_ATTACHMENT),
         (CGPU_RESOURCE_TYPE_TEXEL_BUFFER, Some VK_DESCRIPTOR_TYPE_UNIFORM_TEXEL_BUFFER),
         (CGPU_RESOURCE_TYPE_RW_TEXEL_BUFFER, Some VK_DESCRIPTOR_TYPE_STORAGE_TEXEL_BUFFER),
         (CGPU_RESOURCE_TYPE_COMBINED_IMAGE_SAMPLER,
          Some VK_DESCRIPTOR_TYPE_COMBINED_IMAGE_SAMPLER)] None type of
        Some t \<Rightarrow> k t
      | None \<Rightarrow> assertc (vk_debug V) False ''Invalid DescriptorInfo Type'' (
                k VK_DESCRIPTOR_TYPE_MAX_ENUM))"

section \<open>Resource states\<close>

definition VkUtil_ResourceStateToImageLayout :: "ECGPUResourceState \<Rightarrow> VkImageLayout" where
  "VkUtil_ResourceStateToImageLayout usage =
     (if has_any usage CGPU_RESOURCE_STATE_COPY_SOURCE then VK_IMAGE_LAYOUT_TRANSFER_SRC_OPTIMAL
      else if has_any usage CGPU_RESOURCE_STATE_COPY_DEST then VK_IMAGE_LAYOUT_TRANSFER_DST_OPTIMAL
      else if has_any usage CGPU_RESOURCE_STATE_RENDER_TARGET
      then VK_IMAGE_LAYOUT_COLOR_ATTACHMENT_OPTIMAL
      else if has_any usage CGPU_RESOURCE_STATE_RESOLVE_DEST
      then VK_IMAGE_LAYOUT_COLOR_ATTACHMENT_OPTIMAL
      else if has_any usage CGPU_RESOURCE_STATE_DEPTH_WRITE
      then VK_IMAGE_LAYOUT_DEPTH_STENCIL_ATTACHMENT_OPTIMAL
      else if has_any usage CGPU_RESOURCE_STATE_UNORDERED_ACCESS then VK_IMAGE_LAYOUT_GENERAL
      else if has_any usage CGPU_RESOURCE_STATE_SHADER_RESOURCE
      then VK_IMAGE_LAYOUT_SHADER_READ_ONLY_OPTIMAL
      else if has_any usage CGPU_RESOURCE_STATE_PRESENT then VK_IMAGE_LAYOUT_PRESENT_SRC_KHR
      else if usage = CGPU_RESOURCE_STATE_COMMON then VK_IMAGE_LAYOUT_GENERAL
      else if usage = CGPU_RESOURCE_STATE_SHADING_RATE_SOURCE
      then VK_IMAGE_LAYOUT_FRAGMENT_DENSITY_MAP_OPTIMAL_EXT
      else VK_IMAGE_LAYOUT_UNDEFINED)"

definition VkUtil_ResourceStateToVkAccessFlags :: "ECGPUResourceState \<Rightarrow> VkAccessFlags" where
  "VkUtil_ResourceStateToVkAccessFlags state =
     (if has_any state CGPU_RESOURCE_STATE_COPY_SOURCE then {VK_ACCESS_TRANSFER_READ_BIT} else {})
     \<union> (if has_any state CGPU_RESOURCE_STATE_COPY_DEST then {VK_ACCESS_TRANSFER_WRITE_BIT} else {})
     \<union> (if has_any state CGPU_RESOURCE_STATE_VERTEX_AND_CONSTANT_BUFFER
        then {VK_ACCESS_UNIFORM_READ_BIT, VK_ACCESS_VERTEX_ATTRIBUTE_READ_BIT} else {})
     \<union> (if has_any state CGPU_RESOURCE_STATE_INDEX_BUFFER then {VK_ACCESS_INDEX_READ_BIT} else {})
     \<union> (if has_any state CGPU_RESOURCE_STATE_UNORDERED_ACCESS
        then {VK_ACCESS_SHADER_READ_BIT, VK_ACCESS_SHADER_WRITE_BIT} else {})
     \<union> (if has_any state CGPU_RESOURCE_STATE_INDIRECT_ARGUMENT
        then {VK_ACCESS_INDIRECT_COMMAND_READ_BIT} else {})
     \<union> (if has_any state CGPU_RESOURCE_STATE_RENDER_TARGET
        then {VK_ACCESS_COLOR_ATTACHMENT_READ_BIT, VK_ACCESS_COLOR_ATTACHMENT_WRITE_BIT} else {})
     \<union> (if has_any state CGPU_RESOURCE_STATE_RESOLVE_DEST
        then {VK_ACCESS_COLOR_ATTACHMENT_READ_BIT, VK_ACCESS_COLOR_ATTACHMENT_WRITE_BIT} else {})
     \<union> (if has_any state CGPU_RESOURCE_STATE_DEPTH_WRITE
        then {VK_ACCESS_DEPTH_STENCIL_ATTACHMENT_WRITE_BIT} else {})
     \<union> (if has_any state CGPU_RESOURCE_STATE_SHADER_RESOURCE then {VK_ACCESS_SHADER_READ_BIT} else {})
     \<union> (if has_any state CGPU_RESOURCE_STATE_PRESENT then {VK_ACCESS_MEMORY_READ_BIT} else {})"

text \<open>The body of the graphics case and the part shared by graphics and compute queues.\<close>

definition graphics_stage_flags :: "CGPUAdapterDetail \<Rightarrow> VkAccessFlags \<Rightarrow> VkPipelineStageFlags" where
  "graphics_stage_flags detail accessFlags =
     (if accessFlags \<inter> {VK_ACCESS_INDEX_READ_BIT, VK_ACCESS_VERTEX_ATTRIBUTE_READ_BIT} \<noteq> {}
      then {VK_PIPELINE_STAGE_VERTEX_INPUT_BIT} else {})
     \<union> (if accessFlags \<inter> {VK_ACCESS_UNIFORM_READ_BIT, VK_ACCESS_SHADER_READ_BIT,
                           VK_ACCESS_SHADER_WRITE_BIT} \<noteq> {}
        then {VK_PIPELINE_STAGE_VERTEX_SHADER_BIT, VK_PIPELINE_STAGE_FRAGMENT_SHADER_BIT}
             \<union> (if support_geom_shader detail then {VK_PIPELINE_STAGE_GEOMETRY_SHADER_BIT} else {})
             \<union> (if support_tessellation detail
                then {VK_PIPELINE_STAGE_TESSELLATION_CONTROL_SHADER_BIT,
                      VK_PIPELINE_STAGE_TESSELLATION_EVALUATION_SHADER_BIT} else {})
             \<union> {VK_PIPELINE_STAGE_COMPUTE_SHADER_BIT}
        else {})
     \<union> (if VK_ACCESS_INPUT_ATTACHMENT_READ_BIT \<in> accessFlags
        then {VK_PIPELINE_STAGE_FRAGMENT_SHADER_BIT} else {})
     \<union> (if accessFlags \<inter> {VK_ACCESS_COLOR_ATTACHMENT_READ_BIT,
                           VK_ACCESS_COLOR_ATTACHMENT_WRITE_BIT} \<noteq> {}
        then {VK_PIPELINE_STAGE_COLOR_ATTACHMENT_OUTPUT_BIT} else {})
     \<union> (if accessFlags \<inter> {VK_ACCESS_DEPTH_STENCIL_ATTACHMENT_READ_BIT,
                           VK_ACCESS_DEPTH_STENCIL_ATTACHMENT_WRITE_BIT} \<noteq> {}
        then {VK_PIPELINE_STAGE_EARLY_FRAGMENT_TESTS_BIT,
              VK_PIPELINE_STAGE_LATE_FRAGMENT_TESTS_BIT} else {})"

definition common_stage_flags :: "VkAccessFlags \<Rightarrow> VkPipelineStageFlags \<Rightarrow> VkPipelineStageFlags" where
  "common_stage_flags accessFlags flags =
     (let flags = flags
        \<union> (if VK_ACCESS_INDIRECT_COMMAND_READ_BIT \<in> accessFlags
           then {VK_PIPELINE_STAGE_DRAW_INDIRECT_BIT} else {})
        \<union> (if accessFlags \<inter> {VK_ACCESS_TRANSFER_READ_BIT, VK_ACCESS_TRANSFER_WRITE_BIT} \<noteq> {}
           then {VK_PIPELINE_STAGE_TRANSFER_BIT} else {})
        \<union> (if accessFlags \<inter> {VK_ACCESS_HOST_READ_BIT, VK_ACCESS_HOST_WRITE_BIT} \<noteq> {}
           then {VK_PIPELINE_STAGE_HOST_BIT} else {})
      in if flags = {} then {VK_PIPELINE_STAGE_TOP_OF_PIPE_BIT} else flags)"

definition VkUtil_DeterminePipelineStageFlags ::
    "CGPUAdapterDetail \<Rightarrow> VkAccessFlags \<Rightarrow> ECGPUQueueType \<Rightarrow> VkPipelineStageFlags" where
  "VkUtil_DeterminePipelineStageFlags detail accessFlags queueType =
     (case queueType of
        CGPU_QUEUE_TYPE_GRAPHICS \<Rightarrow>
          common_stage_flags accessFlags (graphics_stage_flags detail accessFlags)
      | CGPU_QUEUE_TYPE_COMPUTE \<Rightarrow>
          (if accessFlags \<inter> {VK_ACCESS_INDEX_READ_BIT, VK_ACCESS_VERTEX_ATTRIBUTE_READ_BIT} \<noteq> {}
              \<or> VK_ACCESS_INPUT_ATTACHMENT_READ_BIT \<in> accessFlags
              \<or> accessFlags \<inter> {VK_ACCESS_COLOR_ATTACHMENT_READ_BIT,
                                 VK_ACCESS_COLOR_ATTACHMENT_WRITE_BIT} \<noteq> {}
              \<or> accessFlags \<inter> {VK_ACCESS_DEPTH_STENCIL_ATTACHMENT_READ_BIT,
                                 VK_ACCESS_DEPTH_STENCIL_ATTACHMENT_WRITE_BIT} \<noteq> {}
           then {VK_PIPELINE_STAGE_ALL_COMMANDS_BIT}
           else common_stage_flags accessFlags
                  (if accessFlags \<inter> {VK_ACCESS_UNIFORM_READ_BIT, VK_ACCESS_SHADER_READ_BIT,
                                     VK_ACCESS_SHADER_WRITE_BIT} \<noteq> {}
                   then {VK_PIPELINE_STAGE_COMPUTE_SHADER_BIT} else {}))
      | CGPU_QUEUE_TYPE_TRANSFER \<Rightarrow> {VK_PIPELINE_STAGE_ALL_COMMANDS_BIT}
      | _ \<Rightarrow> common_stage_flags accessFlags {})"

definition VkUtil_ShaderStagesToPipelineStage :: "ECGPUShaderStage \<Rightarrow> VkPipelineStageFlagBit" where
  "VkUtil_ShaderStagesToPipelineStage stage = c_switch
     [(CGPU_SHADER_STAGE_ALL_GRAPHICS, VK_PIPELINE_STAGE_BOTTOM_OF_PIPE_BIT),
      (CGPU_SHADER_STAGE_NONE, VK_PIPELINE_STAGE_TOP_OF_PIPE_BIT),
      (CGPU_SHADER_STAGE_VERT, VK_PIPELINE_STAGE_VERTEX_SHADER_BIT),
      (CGPU_SHADER_STAGE_TESC, VK_PIPELINE_STAGE_TESSELLATION_CONTROL_SHADER_BIT),
      (CGPU_SHADER_STAGE_TESE, VK_PIPELINE_STAGE_TESSELLATION_EVALUATION_SHADER_BIT),
      (CGPU_SHADER_STAGE_GEOM, VK_PIPELINE_STAGE_GEOMETRY_SHADER_BIT),
      (CGPU_SHADER_STAGE_FRAG, VK_PIPELINE_STAGE_FRAGMENT_SHADER_BIT),
      (CGPU_SHADER_STAGE_COMPUTE, VK_PIPELINE_STAGE_COMPUTE_SHADER_BIT),
      (CGPU_SHADER_STAGE_RAYTRACING, VK_PIPELINE_STAGE_RAY_TRACING_SHADER_BIT_KHR)]
     VK_PIPELINE_STAGE_TOP_OF_PIPE_BIT stage"

end
