(* ===== verification/Vk_Sync.thy ===== *)
theory Vk_Sync
  imports Vk_Translate
begin

text \<open>
  Fences, semaphores and queues of src/gpu/cgpu/vulkan/cgpu_vulkan.c: creation, waiting,
  submission, presentation, the acquisition of swapchain images, and the queues of the device
  tables. Each queue call takes the queue's mutex; the calls of skr_acquire_mutex and
  skr_release_mutex are in the trace with the driver calls.
\<close>

section \<open>Fences\<close>

definition cgpu_create_fence_vulkan :: "vk_env \<Rightarrow> CGPUDeviceId \<Rightarrow> CGPUFenceId vk_prog" where
  "cgpu_create_fence_vulkan V device =
     calloc fences_update \<lparr>fence_device = NULL, pVkFence = VK_NULL_HANDLE, mSubmitted = False\<rparr> (\<lambda>F.
     assertc (vk_debug V) (F \<noteq> NULL) ''F'' (
     deref devices device (\<lambda>D.
     vk_do V (VkSync (VkCreateFence (pVkDevice D))) (\<lambda>r.
     store fences fences_update F (pVkFence_update (\<lambda>_. vk_out r 0)) (
     CHECK_VKRESULT V r (
     store fences fences_update F (mSubmitted_update (\<lambda>_. False)) (
     ret F)))))))"

text \<open>The fences that are submitted, in the order given: \<open>vfences\<close> of the code.\<close>

fun submitted_fences :: "CGPUFenceId list \<Rightarrow> VkHandle list vk_prog" where
  "submitted_fences [] = ret []"
| "submitted_fences (f # fs) =
     deref fences f (\<lambda>F.
     bindP (submitted_fences fs) (\<lambda>vs.
     ret (if mSubmitted F then pVkFence F # vs else vs)))"

definition cgpu_wait_fences_vulkan :: "vk_env \<Rightarrow> CGPUFenceId list \<Rightarrow> unit vk_prog" where
  "cgpu_wait_fences_vulkan V fs =
     index_of ''fences'' fs 0 (\<lambda>first.
     deref fences first (\<lambda>F0.
     bindP (submitted_fences fs) (\<lambda>vfences.
     bindP (if vfences \<noteq> []
            then deref devices (fence_device F0) (\<lambda>D.
                 vk_do V (VkSync (VkWaitForFences (pVkDevice D) vfences)) (\<lambda>_.
                 vk_do V (VkSync (VkResetFences (pVkDevice D) vfences)) (\<lambda>_.
                 ret ())))
            else ret ()) (\<lambda>_.
     for_each fs (\<lambda>f.
       store fences fences_update f (mSubmitted_update (\<lambda>_. False)) (ret ()))))))"

definition cgpu_query_fence_status_vulkan :: "vk_env \<Rightarrow> CGPUFenceId \<Rightarrow> ECGPUFenceStatus vk_prog" where
  "cgpu_query_fence_status_vulkan V fence =
     deref fences fence (\<lambda>F.
     if mSubmitted F
     then deref devices (fence_device F) (\<lambda>D.
          vk_do V (VkSync (VkGetFenceStatus (pVkDevice D) (pVkFence F))) (\<lambda>r.
          ret (if vk_result r = VK_SUCCESS then CGPU_FENCE_STATUS_COMPLETE
               else CGPU_FENCE_STATUS_INCOMPLETE)))
     else ret CGPU_FENCE_STATUS_NOTSUBMITTED)"

definition cgpu_free_fence_vulkan :: "vk_env \<Rightarrow> CGPUFenceId \<Rightarrow> unit vk_prog" where
  "cgpu_free_fence_vulkan V fence =
     deref fences fence (\<lambda>F.
     deref devices (fence_device F) (\<lambda>D.
     vk_do V (VkSync (VkDestroyFence (pVkDevice D) (pVkFence F))) (\<lambda>_.
     release fences_update fence (
     ret ()))))"

section \<open>Semaphores\<close>

definition cgpu_create_semaphore_vulkan :: "vk_env \<Rightarrow> CGPUDeviceId \<Rightarrow> CGPUSemaphoreId vk_prog" where
  "cgpu_create_semaphore_vulkan V device =
     calloc semaphores_update
       \<lparr>semaphore_device = NULL, pVkSemaphore = VK_NULL_HANDLE, mSignaled = False\<rparr> (\<lambda>S.
     deref devices device (\<lambda>D.
     vk_do V (VkSync (VkCreateSemaphore (pVkDevice D))) (\<lambda>r.
     store semaphores semaphores_update S (pVkSemaphore_update (\<lambda>_. vk_out r 0)) (
     CHECK_VKRESULT V r (
     store semaphores semaphores_update S (mSignaled_update (\<lambda>_. False)) (
     ret S))))))"

definition cgpu_free_semaphore_vulkan :: "vk_env \<Rightarrow> CGPUSemaphoreId \<Rightarrow> unit vk_prog" where
  "cgpu_free_semaphore_vulkan V semaphore =
     deref semaphores semaphore (\<lambda>S.
     deref devices (semaphore_device S) (\<lambda>D.
     vk_do V (VkSync (VkDestroySemaphore (pVkDevice D) (pVkSemaphore S))) (\<lambda>_.
     release semaphores_update semaphore (
     ret ()))))"

section \<open>Submission\<close>

text \<open>The first loop: a signaled semaphore is put in the array and taken as waited for.\<close>

fun collect_wait_semaphores ::
    "CGPUSemaphoreId list \<Rightarrow> VkHandle list \<Rightarrow> nat \<Rightarrow> (VkHandle list \<times> nat) vk_prog" where
  "collect_wait_semaphores [] wait_semaphores waitCount = ret (wait_semaphores, waitCount)"
| "collect_wait_semaphores (s # ss) wait_semaphores waitCount =
     deref semaphores s (\<lambda>S.
     if mSignaled S
     then update_at ''wait_semaphores'' wait_semaphores waitCount (pVkSemaphore S) (\<lambda>wait_semaphores.
          store semaphores semaphores_update s (mSignaled_update (\<lambda>_. False)) (
          collect_wait_semaphores ss wait_semaphores (Suc waitCount)))
     else collect_wait_semaphores ss wait_semaphores waitCount)"

text \<open>The second loop: a semaphore that is not signaled is to be signaled. It writes the array
  \<open>wait_semaphores\<close>, not \<open>signal_semaphores\<close>.\<close>

fun collect_signal_semaphores ::
    "CGPUSemaphoreId list \<Rightarrow> VkHandle list \<Rightarrow> nat \<Rightarrow> (VkHandle list \<times> nat) vk_prog" where
  "collect_signal_semaphores [] wait_semaphores signalCount = ret (wait_semaphores, signalCount)"
| "collect_signal_semaphores (s # ss) wait_semaphores signalCount =
     deref semaphores s (\<lambda>S.
     if \<not> mSignaled S
     then update_at ''wait_semaphores'' wait_semaphores signalCount (pVkSemaphore S) (\<lambda>wait_semaphores.
          store semaphores semaphores_update s (mSignaled_update (\<lambda>_. True)) (
          collect_signal_semaphores ss wait_semaphores (Suc signalCount)))
     else collect_signal_semaphores ss wait_semaphores signalCount)"

definition acquire_queue_mutex :: "vk_env \<Rightarrow> CGPUQueue_Vulkan \<Rightarrow> 'a vk_prog \<Rightarrow> 'a vk_prog" where
  "acquire_queue_mutex V Q k =
     (if queue_pMutex Q \<noteq> NULL then vk_do V (VkQueue (MutexAcquire (queue_pMutex Q))) (\<lambda>_. k) else k)"

definition release_queue_mutex :: "vk_env \<Rightarrow> CGPUQueue_Vulkan \<Rightarrow> 'a vk_prog \<Rightarrow> 'a vk_prog" where
  "release_queue_mutex V Q k =
     (if queue_pMutex Q \<noteq> NULL then vk_do V (VkQueue (MutexRelease (queue_pMutex Q))) (\<lambda>_. k) else k)"

text \<open>\<open>F ? F->pVkFence : VK_NULL_HANDLE\<close>, and the same for a semaphore.\<close>

definition fence_handle :: "CGPUFenceId \<Rightarrow> (VkHandle \<Rightarrow> 'a vk_prog) \<Rightarrow> 'a vk_prog" where
  "fence_handle F k = (if F \<noteq> NULL then deref fences F (\<lambda>X. k (pVkFence X)) else k VK_NULL_HANDLE)"

definition semaphore_handle :: "CGPUSemaphoreId \<Rightarrow> (VkHandle \<Rightarrow> 'a vk_prog) \<Rightarrow> 'a vk_prog" where
  "semaphore_handle S k =
     (if S \<noteq> NULL then deref semaphores S (\<lambda>X. k (pVkSemaphore X)) else k VK_NULL_HANDLE)"

definition set_submitted :: "CGPUFenceId \<Rightarrow> bool \<Rightarrow> 'a vk_prog \<Rightarrow> 'a vk_prog" where
  "set_submitted F b k =
     (if F \<noteq> NULL then store fences fences_update F (mSubmitted_update (\<lambda>_. b)) k else k)"

definition set_signaled :: "CGPUSemaphoreId \<Rightarrow> bool \<Rightarrow> 'a vk_prog \<Rightarrow> 'a vk_prog" where
  "set_signaled S b k =
     (if S \<noteq> NULL then store semaphores semaphores_update S (mSignaled_update (\<lambda>_. b)) k else k)"

definition cgpu_submit_queue_vulkan ::
    "vk_env \<Rightarrow> CGPUQueueId \<Rightarrow> CGPUQueueSubmitDescriptor \<Rightarrow> unit vk_prog" where
  "cgpu_submit_queue_vulkan V queue desc =
     deref queues queue (\<lambda>Q.
     assertc (vk_debug V) (sd_cmds desc \<noteq> []) ''CmdCount > 0'' (
     assertc (vk_debug V) (pVkQueue Q \<noteq> VK_NULL_HANDLE) ''Q->pVkQueue != VK_NULL_HANDLE'' (
     bindP (map_each (sd_cmds desc) (\<lambda>c. deref cmds c (\<lambda>C. ret (pVkCmdBuf C)))) (\<lambda>vkCmds.
     bindP (collect_wait_semaphores (sd_wait_semaphores desc)
              (replicate (length (sd_wait_semaphores desc) + 1) VK_NULL_HANDLE) 0)
       (\<lambda>(wait_semaphores, waitCount).
     let signal_semaphores = replicate (length (sd_signal_semaphores desc) + 1) VK_NULL_HANDLE in
     bindP (collect_signal_semaphores (sd_signal_semaphores desc) wait_semaphores 0)
       (\<lambda>(wait_semaphores, signalCount).
     let submit_info = \<lparr>pCommandBuffers = vkCmds, waitSemaphoreCount = waitCount,
                        pWaitSemaphores = signal_semaphores, signalSemaphoreCount = signalCount,
                        pSignalSemaphores = wait_semaphores\<rparr> in
     acquire_queue_mutex V Q (
     deref devices (queue_device Q) (\<lambda>_.
     fence_handle (sd_signal_fence desc) (\<lambda>vkFence.
     vk_do V (VkQueue (VkQueueSubmit (pVkQueue Q) submit_info vkFence)) (\<lambda>res.
     CHECK_VKRESULT V res (
     set_submitted (sd_signal_fence desc) True (
     release_queue_mutex V Q (
     ret ())))))))))))))"

definition cgpu_wait_queue_idle_vulkan :: "vk_env \<Rightarrow> CGPUQueueId \<Rightarrow> unit vk_prog" where
  "cgpu_wait_queue_idle_vulkan V queue =
     deref queues queue (\<lambda>Q.
     deref devices (queue_device Q) (\<lambda>_.
     vk_do V (VkQueue (VkQueueWaitIdle (pVkQueue Q))) (\<lambda>_.
     ret ())))"

section \<open>Presentation\<close>

definition cgpu_queue_present_vulkan ::
    "vk_env \<Rightarrow> CGPUQueueId \<Rightarrow> CGPUQueuePresentDescriptor \<Rightarrow> unit vk_prog" where
  "cgpu_queue_present_vulkan V queue desc =
     deref queues queue (\<lambda>Q.
     if pd_swapchain desc \<noteq> NULL
     then bindP (collect_wait_semaphores (pd_wait_semaphores desc)
                   (replicate (length (pd_wait_semaphores desc) + 1) VK_NULL_HANDLE) 0)
            (\<lambda>(wait_semaphores, waitCount).
          deref swapchains (pd_swapchain desc) (\<lambda>SC.
          let present_info = \<lparr>present_waitSemaphoreCount = waitCount,
                              present_pWaitSemaphores = wait_semaphores,
                              present_pSwapchain = pVkSwapChain SC,
                              present_imageIndex = pd_index desc\<rparr> in
          acquire_queue_mutex V Q (
          deref devices (queue_device Q) (\<lambda>_.
          vk_do V (VkQueue (VkQueuePresentKHR (pVkQueue Q) present_info)) (\<lambda>r.
          release_queue_mutex V Q (
          if vk_result r \<noteq> VK_SUCCESS \<and> vk_result r \<noteq> VK_SUBOPTIMAL_KHR
             \<and> vk_result r \<noteq> VK_ERROR_OUT_OF_DATE_KHR
          then assertc (vk_debug V) False ''Present failed!'' (ret ())
          else ret ()))))))
     else ret ())"

text \<open>The index is what the driver wrote; the sentinel for an outdated swapchain is \<open>-1\<close>.\<close>

definition cgpu_acquire_next_image_vulkan ::
    "vk_env \<Rightarrow> CGPUSwapChainId \<Rightarrow> CGPUAcquireNextDescriptor \<Rightarrow> u32 vk_prog" where
  "cgpu_acquire_next_image_vulkan V swapchain desc =
     deref swapchains swapchain (\<lambda>SC.
     semaphore_handle (an_signal_semaphore desc) (\<lambda>vsemaphore.
     fence_handle (an_fence desc) (\<lambda>vfence.
     deref devices (swapchain_device SC) (\<lambda>D.
     vk_do V (VkQueue (VkAcquireNextImageKHR (pVkDevice D) (pVkSwapChain SC) vsemaphore vfence)) (\<lambda>r.
     if vk_result r = VK_ERROR_OUT_OF_DATE_KHR
     then set_submitted (an_fence desc) False (
          bindP (if an_fence desc \<noteq> NULL
                 then vk_do V (VkSync (VkResetFences (pVkDevice D) [vfence])) (\<lambda>_. ret ())
                 else ret ()) (\<lambda>_.
          set_signaled (an_signal_semaphore desc) False (
          ret (- 1))))
     else if vk_result r = VK_SUCCESS
     then set_submitted (an_fence desc) True (
          set_signaled (an_signal_semaphore desc) True (
          ret (word_of_nat (vk_out r 0))))
     else ret (word_of_nat (vk_out r 0)))))))"

text \<open>The textures of the back buffers stand in the memory of the swapchain.\<close>

definition cgpu_free_swapchain_vulkan :: "vk_env \<Rightarrow> CGPUSwapChainId \<Rightarrow> unit vk_prog" where
  "cgpu_free_swapchain_vulkan V swapchain =
     deref swapchains swapchain (\<lambda>SC.
     deref devices (swapchain_device SC) (\<lambda>D.
     vk_do V (VkQueue (VkDestroySwapchainKHR (pVkDevice D) (pVkSwapChain SC))) (\<lambda>_.
     modify (textures_update (\<lambda>m. m |` (- set (back_buffers SC)))) (
     release swapchains_update swapchain (
     ret ())))))"

definition cgpu_queue_get_timestamp_period_ns_vulkan :: "vk_env \<Rightarrow> CGPUQueueId \<Rightarrow> f32 vk_prog" where
  "cgpu_queue_get_timestamp_period_ns_vulkan V queue =
     deref queues queue (\<lambda>Q.
     deref devices (queue_device Q) (\<lambda>D.
     deref adapters (device_adapter D) (\<lambda>A.
     ret (timestampPeriod A))))"

lemmas vk_sync_defs [vk_defs] =
  cgpu_create_fence_vulkan_def cgpu_wait_fences_vulkan_def cgpu_query_fence_status_vulkan_def
  cgpu_free_fence_vulkan_def cgpu_create_semaphore_vulkan_def cgpu_free_semaphore_vulkan_def
  cgpu_submit_queue_vulkan_def cgpu_wait_queue_idle_vulkan_def cgpu_queue_present_vulkan_def
  cgpu_acquire_next_image_vulkan_def cgpu_free_swapchain_vulkan_def
  cgpu_queue_get_timestamp_period_ns_vulkan_def acquire_queue_mutex_def release_queue_mutex_def
  fence_handle_def semaphore_handle_def set_submitted_def set_signaled_def

end
