(* ===== verification/Vk_Command.thy ===== *)
theory Vk_Command
  imports Vk_Sync
begin

text \<open>
  Command pools, command buffers and the commands recorded outside render passes
  (src/gpu/cgpu/vulkan/cgpu_vulkan.c and cgpu_vulkan_resources.c): barriers, queries, copies,
  debug markers, descriptor binding and compute dispatch.
\<close>

section \<open>Pools and buffers\<close>

text \<open>\<open>(uint32_t)A->mQueueFamilyIndices[type]\<close>.\<close>

definition queue_family :: "CGPUAdapter_Vulkan \<Rightarrow> ECGPUQueueType \<Rightarrow> (u32 \<Rightarrow> 'a vk_prog) \<Rightarrow> 'a vk_prog" where
  "queue_family A type k =
     index_of ''mQueueFamilyIndices'' (mQueueFamilyIndices A) (queue_type_value type) (\<lambda>i.
     k (word_of_int i))"

definition allocate_transient_command_pool ::
    "vk_env \<Rightarrow> CGPUDeviceId \<Rightarrow> CGPUQueueId \<Rightarrow> (VkHandle \<Rightarrow> 'a vk_prog) \<Rightarrow> 'a vk_prog" where
  "allocate_transient_command_pool V D queue k =
     deref queues queue (\<lambda>Q.
     deref devices (queue_device Q) (\<lambda>QD.
     deref adapters (device_adapter QD) (\<lambda>A.
     queue_family A (queue_type Q) (\<lambda>family.
     deref devices D (\<lambda>D.
     vk_do V (VkPool (VkCreateCommandPool (pVkDevice D) family)) (\<lambda>r.
     CHECK_VKRESULT V r (
     k (vk_out r 0))))))))"

definition free_transient_command_pool ::
    "vk_env \<Rightarrow> CGPUDeviceId \<Rightarrow> VkHandle \<Rightarrow> 'a vk_prog \<Rightarrow> 'a vk_prog" where
  "free_transient_command_pool V D pool k =
     deref devices D (\<lambda>D. vk_do V (VkPool (VkDestroyCommandPool (pVkDevice D) pool)) (\<lambda>_. k))"

definition cgpu_create_command_pool_vulkan :: "vk_env \<Rightarrow> CGPUQueueId \<Rightarrow> CGPUCommandPoolId vk_prog" where
  "cgpu_create_command_pool_vulkan V queue =
     deref queues queue (\<lambda>Q.
     calloc cmd_pools_update \<lparr>pool_queue = NULL, pVkCmdPool = VK_NULL_HANDLE\<rparr> (\<lambda>P.
     allocate_transient_command_pool V (queue_device Q) queue (\<lambda>vkPool.
     store cmd_pools cmd_pools_update P (pVkCmdPool_update (\<lambda>_. vkPool)) (
     ret P))))"

definition cgpu_create_command_buffer_vulkan ::
    "vk_env \<Rightarrow> CGPUCommandPoolId \<Rightarrow> CGPUCommandBufferDescriptor \<Rightarrow> CGPUCommandBufferId vk_prog" where
  "cgpu_create_command_buffer_vulkan V pool desc =
     assertc (vk_debug V) (pool \<noteq> NULL) ''pool'' (
     deref cmd_pools pool (\<lambda>P.
     deref queues (pool_queue P) (\<lambda>Q.
     calloc cmds_update
       \<lparr>cmd_device = NULL, cmd_pool = NULL, current_dispatch = CGPU_PIPELINE_TYPE_NONE,
        pVkCmdBuf = VK_NULL_HANDLE, pBoundPipelineLayout = VK_NULL_HANDLE,
        pRenderPass = VK_NULL_HANDLE, mType = CGPU_QUEUE_TYPE_GRAPHICS\<rparr> (\<lambda>Cmd.
     assertc (vk_debug V) (Cmd \<noteq> NULL) ''Cmd'' (
     store cmds cmds_update Cmd (mType_update (\<lambda>_. queue_type Q)) (
     deref devices (queue_device Q) (\<lambda>D.
     vk_do V (VkPool (VkAllocateCommandBuffers (pVkDevice D) (pVkCmdPool P) (cbd_is_secondary desc))) (\<lambda>r.
     store cmds cmds_update Cmd (pVkCmdBuf_update (\<lambda>_. vk_out r 0)) (
     CHECK_VKRESULT V r (
     ret Cmd))))))))))"

definition cgpu_reset_command_pool_vulkan :: "vk_env \<Rightarrow> CGPUCommandPoolId \<Rightarrow> unit vk_prog" where
  "cgpu_reset_command_pool_vulkan V pool =
     deref cmd_pools pool (\<lambda>P.
     deref queues (pool_queue P) (\<lambda>Q.
     deref devices (queue_device Q) (\<lambda>D.
     vk_do V (VkPool (VkResetCommandPool (pVkDevice D) (pVkCmdPool P))) (\<lambda>r.
     CHECK_VKRESULT V r (
     ret ())))))"

definition cgpu_free_command_buffer_vulkan :: "vk_env \<Rightarrow> CGPUCommandBufferId \<Rightarrow> unit vk_prog" where
  "cgpu_free_command_buffer_vulkan V cmd =
     deref cmds cmd (\<lambda>Cmd.
     deref cmd_pools (cmd_pool Cmd) (\<lambda>P.
     deref queues (pool_queue P) (\<lambda>Q.
     deref devices (queue_device Q) (\<lambda>D.
     vk_do V (VkPool (VkFreeCommandBuffers (pVkDevice D) (pVkCmdPool P) (pVkCmdBuf Cmd))) (\<lambda>_.
     release cmds_update cmd (
     ret ()))))))"

definition cgpu_free_command_pool_vulkan :: "vk_env \<Rightarrow> CGPUCommandPoolId \<Rightarrow> unit vk_prog" where
  "cgpu_free_command_pool_vulkan V pool =
     deref cmd_pools pool (\<lambda>P.
     deref queues (pool_queue P) (\<lambda>Q.
     free_transient_command_pool V (queue_device Q) (pVkCmdPool P) (
     release cmd_pools_update pool (
     ret ()))))"

section \<open>Begin, end and markers\<close>

text \<open>The command buffer and the device whose function table is used.\<close>

definition with_cmd ::
    "CGPUCommandBufferId \<Rightarrow> (CGPUCommandBuffer_Vulkan \<Rightarrow> CGPUDevice_Vulkan \<Rightarrow> 'a vk_prog) \<Rightarrow> 'a vk_prog" where
  "with_cmd cmd k = deref cmds cmd (\<lambda>Cmd. deref devices (cmd_device Cmd) (\<lambda>D. k Cmd D))"

definition cgpu_cmd_begin_vulkan :: "vk_env \<Rightarrow> CGPUCommandBufferId \<Rightarrow> unit vk_prog" where
  "cgpu_cmd_begin_vulkan V cmd =
     with_cmd cmd (\<lambda>Cmd D.
     vk_do V (VkRecord (VkBeginCommandBuffer (pVkCmdBuf Cmd))) (\<lambda>r.
     CHECK_VKRESULT V r (
     store cmds cmds_update cmd (pBoundPipelineLayout_update (\<lambda>_. VK_NULL_HANDLE)) (
     ret ()))))"

definition cgpu_cmd_end_vulkan :: "vk_env \<Rightarrow> CGPUCommandBufferId \<Rightarrow> unit vk_prog" where
  "cgpu_cmd_end_vulkan V cmd =
     with_cmd cmd (\<lambda>Cmd D.
     vk_do V (VkRecord (VkEndCommandBuffer (pVkCmdBuf Cmd))) (\<lambda>r.
     CHECK_VKRESULT V r (
     ret ())))"

text \<open>The instance a command buffer belongs to, through its device and adapter.\<close>

definition with_cmd_instance ::
    "CGPUCommandBufferId \<Rightarrow> (CGPUCommandBuffer_Vulkan \<Rightarrow> CGPUInstance_Vulkan \<Rightarrow> 'a vk_prog) \<Rightarrow> 'a vk_prog" where
  "with_cmd_instance cmd k =
     with_cmd cmd (\<lambda>Cmd D.
     deref adapters (device_adapter D) (\<lambda>A.
     deref instances (adapter_instance A) (\<lambda>I. k Cmd I)))"

definition record_when :: "bool \<Rightarrow> vk_env \<Rightarrow> vk_record_call \<Rightarrow> 'a vk_prog \<Rightarrow> 'a vk_prog" where
  "record_when b V c k = (if b then vk_do V (VkRecord c) (\<lambda>_. k) else k)"

definition cgpu_cmd_begin_event_vulkan ::
    "vk_env \<Rightarrow> CGPUCommandBufferId \<Rightarrow> CGPUEventInfo \<Rightarrow> unit vk_prog" where
  "cgpu_cmd_begin_event_vulkan V cmd event =
     with_cmd_instance cmd (\<lambda>Cmd I.
     record_when (debug_report I) V (VkCmdDebugMarkerBeginEXT (pVkCmdBuf Cmd) (ev_name event)) (
     record_when (debug_utils I) V (VkCmdBeginDebugUtilsLabelEXT (pVkCmdBuf Cmd) (ev_name event)) (
     ret ())))"

definition cgpu_cmd_set_marker_vulkan ::
    "vk_env \<Rightarrow> CGPUCommandBufferId \<Rightarrow> CGPUMarkerInfo \<Rightarrow> unit vk_prog" where
  "cgpu_cmd_set_marker_vulkan V cmd marker =
     with_cmd_instance cmd (\<lambda>Cmd I.
     record_when (debug_utils I) V (VkCmdInsertDebugUtilsLabelEXT (pVkCmdBuf Cmd) (mk_name marker)) (
     record_when (debug_report I) V (VkCmdDebugMarkerInsertEXT (pVkCmdBuf Cmd) (mk_name marker)) (
     ret ())))"

definition cgpu_cmd_end_event_vulkan :: "vk_env \<Rightarrow> CGPUCommandBufferId \<Rightarrow> unit vk_prog" where
  "cgpu_cmd_end_event_vulkan V cmd =
     with_cmd_instance cmd (\<lambda>Cmd I.
     record_when (debug_report I) V (VkCmdDebugMarkerEndEXT (pVkCmdBuf Cmd)) (
     record_when (debug_utils I) V (VkCmdEndDebugUtilsLabelEXT (pVkCmdBuf Cmd)) (
     ret ())))"

section \<open>Barriers\<close>

text \<open>The queue families of a barrier: (source, destination). A release and an acquire both
  transfer the ownership, in opposite directions.\<close>

definition barrier_families ::
    "CGPUAdapter_Vulkan \<Rightarrow> ECGPUQueueType \<Rightarrow> ECGPUQueueType \<Rightarrow> bool \<Rightarrow> bool
      \<Rightarrow> (u32 \<times> u32 \<Rightarrow> 'a vk_prog) \<Rightarrow> 'a vk_prog" where
  "barrier_families A cmd_type other_type acquires releases k =
     (if acquires
      then queue_family A cmd_type (\<lambda>dst. queue_family A other_type (\<lambda>src. k (src, dst)))
      else if releases
      then queue_family A cmd_type (\<lambda>src. queue_family A other_type (\<lambda>dst. k (src, dst)))
      else k (VK_QUEUE_FAMILY_IGNORED, VK_QUEUE_FAMILY_IGNORED))"

definition buffer_barrier_vulkan ::
    "CGPUAdapter_Vulkan \<Rightarrow> CGPUCommandBuffer_Vulkan \<Rightarrow> CGPUBufferBarrier
      \<Rightarrow> VkBufferMemoryBarrier vk_prog" where
  "buffer_barrier_vulkan A Cmd b =
     (let (srcAccess, dstAccess) =
        (if CGPU_RESOURCE_STATE_UNORDERED_ACCESS = bbar_src_state b
            \<and> CGPU_RESOURCE_STATE_UNORDERED_ACCESS = bbar_dst_state b
         then ({VK_ACCESS_SHADER_WRITE_BIT}, {VK_ACCESS_SHADER_WRITE_BIT, VK_ACCESS_SHADER_READ_BIT})
         else (VkUtil_ResourceStateToVkAccessFlags (bbar_src_state b),
               VkUtil_ResourceStateToVkAccessFlags (bbar_dst_state b))) in
      deref buffers (bbar_buffer b) (\<lambda>B.
      barrier_families A (mType Cmd) (bbar_queue_type b) (bbar_queue_acquire b) (bbar_queue_release b)
        (\<lambda>(src, dst).
      ret \<lparr>bb_srcAccessMask = srcAccess, bb_dstAccessMask = dstAccess,
           bb_srcQueueFamilyIndex = src, bb_dstQueueFamilyIndex = dst,
           bb_buffer = pVkBuffer B\<rparr>)))"

definition texture_barrier_vulkan ::
    "CGPUAdapter_Vulkan \<Rightarrow> CGPUCommandBuffer_Vulkan \<Rightarrow> CGPUTextureBarrier
      \<Rightarrow> VkImageMemoryBarrier vk_prog" where
  "texture_barrier_vulkan A Cmd b =
     (let uav = CGPU_RESOURCE_STATE_UNORDERED_ACCESS = tbar_src_state b
                \<and> CGPU_RESOURCE_STATE_UNORDERED_ACCESS = tbar_dst_state b;
          known = tbar_src_state b \<noteq> CGPU_RESOURCE_STATE_UNDEFINED in
      deref textures (tbar_texture b) (\<lambda>T.
      barrier_families A (mType Cmd) (tbar_queue_type b)
        (tbar_queue_acquire b \<and> known) (tbar_queue_release b \<and> known) (\<lambda>(src, dst).
      ret \<lparr>ib_srcAccessMask =
             (if uav then {VK_ACCESS_SHADER_WRITE_BIT}
              else VkUtil_ResourceStateToVkAccessFlags (tbar_src_state b)),
           ib_dstAccessMask =
             (if uav then {VK_ACCESS_SHADER_WRITE_BIT, VK_ACCESS_SHADER_READ_BIT}
              else VkUtil_ResourceStateToVkAccessFlags (tbar_dst_state b)),
           ib_oldLayout = (if uav then VK_IMAGE_LAYOUT_GENERAL
                           else VkUtil_ResourceStateToImageLayout (tbar_src_state b)),
           ib_newLayout = (if uav then VK_IMAGE_LAYOUT_GENERAL
                           else VkUtil_ResourceStateToImageLayout (tbar_dst_state b)),
           ib_srcQueueFamilyIndex = src, ib_dstQueueFamilyIndex = dst,
           ib_image = pVkImage T, ib_aspectMask = texture_aspect_mask T,
           ib_baseMipLevel = (if tbar_subresource_barrier b then word_of_nat (tbar_mip_level b) else 0),
           ib_levelCount = (if tbar_subresource_barrier b then 1 else VK_REMAINING_MIP_LEVELS),
           ib_baseArrayLayer = (if tbar_subresource_barrier b then word_of_nat (tbar_array_layer b) else 0),
           ib_layerCount = (if tbar_subresource_barrier b then 1 else VK_REMAINING_ARRAY_LAYERS)\<rparr>)))"

definition cgpu_cmd_resource_barrier_vulkan ::
    "vk_env \<Rightarrow> CGPUCommandBufferId \<Rightarrow> CGPUResourceBarrierDescriptor \<Rightarrow> unit vk_prog" where
  "cgpu_cmd_resource_barrier_vulkan V cmd desc =
     with_cmd cmd (\<lambda>Cmd D.
     deref adapters (device_adapter D) (\<lambda>A.
     bindP (map_each (rb_buffer_barriers desc) (buffer_barrier_vulkan A Cmd)) (\<lambda>BBs.
     bindP (map_each (rb_texture_barriers desc) (texture_barrier_vulkan A Cmd)) (\<lambda>TBs.
     let srcAccessFlags = \<Union> (set (map bb_srcAccessMask BBs @ map ib_srcAccessMask TBs));
         dstAccessFlags = \<Union> (set (map bb_dstAccessMask BBs @ map ib_dstAccessMask TBs));
         srcStageMask = VkUtil_DeterminePipelineStageFlags (adapter_detail A) srcAccessFlags (mType Cmd);
         dstStageMask = VkUtil_DeterminePipelineStageFlags (adapter_detail A) dstAccessFlags (mType Cmd) in
     if BBs \<noteq> [] \<or> TBs \<noteq> []
     then vk_do V (VkRecord (VkCmdPipelineBarrier (pVkCmdBuf Cmd) srcStageMask dstStageMask BBs TBs)) (\<lambda>_.
          ret ())
     else ret ()))))"

section \<open>Query pools\<close>

definition VkUtil_ToVkQueryType ::
    "vk_env \<Rightarrow> ECGPUQueryType \<Rightarrow> (VkQueryType \<Rightarrow> 'a vk_prog) \<Rightarrow> 'a vk_prog" where
  "VkUtil_ToVkQueryType V type k =
     (case type of
        CGPU_QUERY_TYPE_TIMESTAMP \<Rightarrow> k VK_QUERY_TYPE_TIMESTAMP
      | CGPU_QUERY_TYPE_PIPELINE_STATISTICS \<Rightarrow> k VK_QUERY_TYPE_PIPELINE_STATISTICS
      | CGPU_QUERY_TYPE_OCCLUSION \<Rightarrow> k VK_QUERY_TYPE_OCCLUSION
      | _ \<Rightarrow> assertc (vk_debug V) False ''Invalid query heap type'' (k VK_QUERY_TYPE_MAX_ENUM))"

definition cgpu_create_query_pool_vulkan ::
    "vk_env \<Rightarrow> CGPUDeviceId \<Rightarrow> CGPUQueryPoolDescriptor \<Rightarrow> CGPUQueryPoolId vk_prog" where
  "cgpu_create_query_pool_vulkan V device desc =
     calloc query_pools_update
       \<lparr>query_pool_device = NULL, query_pool_count = 0, pVkQueryPool = VK_NULL_HANDLE,
        query_mType = VK_QUERY_TYPE_OCCLUSION\<rparr> (\<lambda>P.
     VkUtil_ToVkQueryType V (qpd_type desc) (\<lambda>type.
     store query_pools query_pools_update P
       (\<lambda>X. X\<lparr>query_mType := type, query_pool_count := qpd_query_count desc\<rparr>) (
     deref devices device (\<lambda>D.
     vk_do V (VkPool (VkCreateQueryPool (pVkDevice D) type (qpd_query_count desc))) (\<lambda>r.
     store query_pools query_pools_update P (pVkQueryPool_update (\<lambda>_. vk_out r 0)) (
     CHECK_VKRESULT V r (
     ret P)))))))"

definition cgpu_free_query_pool_vulkan :: "vk_env \<Rightarrow> CGPUQueryPoolId \<Rightarrow> unit vk_prog" where
  "cgpu_free_query_pool_vulkan V pool =
     deref query_pools pool (\<lambda>P.
     deref devices (query_pool_device P) (\<lambda>D.
     vk_do V (VkPool (VkDestroyQueryPool (pVkDevice D) (pVkQueryPool P))) (\<lambda>_.
     release query_pools_update pool (
     ret ()))))"

definition cgpu_cmd_begin_query_vulkan ::
    "vk_env \<Rightarrow> CGPUCommandBufferId \<Rightarrow> CGPUQueryPoolId \<Rightarrow> CGPUQueryDescriptor \<Rightarrow> unit vk_prog" where
  "cgpu_cmd_begin_query_vulkan V cmd pool desc =
     with_cmd cmd (\<lambda>Cmd D.
     deref query_pools pool (\<lambda>P.
     case query_mType P of
       VK_QUERY_TYPE_TIMESTAMP \<Rightarrow>
         vk_do V (VkRecord (VkCmdWriteTimestamp (pVkCmdBuf Cmd)
                   (VkUtil_ShaderStagesToPipelineStage (qd_stage desc)) (pVkQueryPool P) (qd_index desc)))
           (\<lambda>_. ret ())
     | _ \<Rightarrow> ret ()))"

definition cgpu_cmd_reset_query_pool_vulkan ::
    "vk_env \<Rightarrow> CGPUCommandBufferId \<Rightarrow> CGPUQueryPoolId \<Rightarrow> nat \<Rightarrow> nat \<Rightarrow> unit vk_prog" where
  "cgpu_cmd_reset_query_pool_vulkan V cmd pool start_query query_count =
     deref query_pools pool (\<lambda>P.
     deref cmds cmd (\<lambda>Cmd.
     deref devices (query_pool_device P) (\<lambda>_.
     vk_do V (VkRecord (VkCmdResetQueryPool (pVkCmdBuf Cmd) (pVkQueryPool P) start_query query_count))
       (\<lambda>_. ret ()))))"

definition cgpu_cmd_resolve_query_vulkan ::
    "vk_env \<Rightarrow> CGPUCommandBufferId \<Rightarrow> CGPUQueryPoolId \<Rightarrow> CGPUBufferId \<Rightarrow> nat \<Rightarrow> nat \<Rightarrow> unit vk_prog" where
  "cgpu_cmd_resolve_query_vulkan V cmd pool readback start_query query_count =
     deref query_pools pool (\<lambda>P.
     deref cmds cmd (\<lambda>Cmd.
     deref buffers readback (\<lambda>B.
     deref devices (query_pool_device P) (\<lambda>_.
     vk_do V (VkRecord (VkCmdCopyQueryPoolResults (pVkCmdBuf Cmd) (pVkQueryPool P)
               start_query query_count (pVkBuffer B))) (\<lambda>_. ret ())))))"

section \<open>Copies\<close>

definition cgpu_cmd_transfer_buffer_to_buffer_vulkan ::
    "vk_env \<Rightarrow> CGPUCommandBufferId \<Rightarrow> CGPUBufferToBufferTransfer \<Rightarrow> unit vk_prog" where
  "cgpu_cmd_transfer_buffer_to_buffer_vulkan V cmd desc =
     with_cmd cmd (\<lambda>Cmd D.
     deref buffers (b2b_src desc) (\<lambda>Src.
     deref buffers (b2b_dst desc) (\<lambda>Dst.
     vk_do V (VkRecord (VkCmdCopyBuffer (pVkCmdBuf Cmd) (pVkBuffer Src) (pVkBuffer Dst)
               (b2b_src_offset desc) (b2b_dst_offset desc) (b2b_size desc))) (\<lambda>_. ret ()))))"

text \<open>\<open>cgpu_max(1, extent >> mip)\<close>.\<close>

definition mip_extent :: "nat \<Rightarrow> nat \<Rightarrow> nat" where
  "mip_extent extent mip = max 1 (drop_bit mip extent)"

text \<open>The row length and the image height are counted in texels by Vulkan; the code multiplies
  the extent in texels by the size of a block. Both are unsigned 32 bit products.\<close>

definition cgpu_cmd_transfer_buffer_to_texture_vulkan ::
    "vk_env \<Rightarrow> CGPUCommandBufferId \<Rightarrow> CGPUBufferToTextureTransfer \<Rightarrow> unit vk_prog" where
  "cgpu_cmd_transfer_buffer_to_texture_vulkan V cmd desc =
     with_cmd cmd (\<lambda>Cmd D.
     deref textures (b2t_dst desc) (\<lambda>Dst.
     deref buffers (b2t_src desc) (\<lambda>Src.
     let fmt = texture_format Dst;
         sub = b2t_dst_subresource desc;
         width = mip_extent (texture_width Dst) (ts_mip_level sub);
         height = mip_extent (texture_height Dst) (ts_mip_level sub);
         depth = mip_extent (texture_depth Dst) (ts_mip_level sub) in
     vk_do V (VkRecord (VkCmdCopyBufferToImage (pVkCmdBuf Cmd) (pVkBuffer Src) (pVkImage Dst)
               VK_IMAGE_LAYOUT_TRANSFER_DST_OPTIMAL
               \<lparr>bic_bufferOffset = b2t_src_offset desc,
                bic_bufferRowLength = width * nat (FormatUtil_WidthOfBlock fmt) mod 2 ^ 32,
                bic_bufferImageHeight = height * nat (FormatUtil_HeightOfBlock fmt) mod 2 ^ 32,
                bic_aspectMask = texture_aspect_mask Dst, bic_mipLevel = ts_mip_level sub,
                bic_baseArrayLayer = ts_base_array_layer sub, bic_layerCount = ts_layer_count sub,
                bic_width = width, bic_height = height, bic_depth = depth\<rparr>)) (\<lambda>_. ret ()))))"

definition cgpu_cmd_transfer_texture_to_texture_vulkan ::
    "vk_env \<Rightarrow> CGPUCommandBufferId \<Rightarrow> CGPUTextureToTextureTransfer \<Rightarrow> unit vk_prog" where
  "cgpu_cmd_transfer_texture_to_texture_vulkan V cmd desc =
     with_cmd cmd (\<lambda>Cmd D.
     deref textures (t2t_dst desc) (\<lambda>Dst.
     deref textures (t2t_src desc) (\<lambda>Src.
     let src = t2t_src_subresource desc; dst = t2t_dst_subresource desc in
     vk_do V (VkRecord (VkCmdCopyImage (pVkCmdBuf Cmd) (pVkImage Src) VK_IMAGE_LAYOUT_TRANSFER_SRC_OPTIMAL
               (pVkImage Dst) VK_IMAGE_LAYOUT_TRANSFER_DST_OPTIMAL
               \<lparr>ic_srcAspectMask = ts_aspects src, ic_srcMipLevel = ts_mip_level src,
                ic_srcBaseArrayLayer = ts_base_array_layer src, ic_srcLayerCount = ts_layer_count src,
                ic_dstAspectMask = ts_aspects dst, ic_dstMipLevel = ts_mip_level dst,
                ic_dstBaseArrayLayer = ts_base_array_layer dst, ic_dstLayerCount = ts_layer_count dst,
                ic_width = mip_extent (texture_width Dst) (ts_mip_level dst),
                ic_height = mip_extent (texture_height Dst) (ts_mip_level dst),
                ic_depth = mip_extent (texture_depth Dst) (ts_mip_level dst)\<rparr>)) (\<lambda>_. ret ()))))"

section \<open>Binding\<close>

text \<open>
  The two functions that bind a descriptor set differ in the bind point. When the pipeline
  layout changes, the empty descriptor set of every other set of the root signature is bound
  first.
\<close>

definition bind_empty_sets ::
    "vk_env \<Rightarrow> VkPipelineBindPoint \<Rightarrow> CGPUCommandBuffer_Vulkan \<Rightarrow> CGPURootSignature_Vulkan \<Rightarrow> nat
      \<Rightarrow> unit vk_prog" where
  "bind_empty_sets V bind_point Cmd RS index =
     for_each [0..<length (pSetLayouts RS)] (\<lambda>i.
       if sl_pEmptyDescSet (pSetLayouts RS ! i) \<noteq> VK_NULL_HANDLE \<and> index \<noteq> i
       then vk_do V (VkPass (VkCmdBindDescriptorSets (pVkCmdBuf Cmd) bind_point (pPipelineLayout RS) i
                      (sl_pEmptyDescSet (pSetLayouts RS ! i)))) (\<lambda>_. ret ())
       else ret ())"

definition bind_descriptor_set_vulkan ::
    "vk_env \<Rightarrow> VkPipelineBindPoint \<Rightarrow> ptr \<Rightarrow> CGPUDescriptorSetId \<Rightarrow> unit vk_prog" where
  "bind_descriptor_set_vulkan V bind_point encoder dset =
     deref desc_sets dset (\<lambda>Set.
     deref root_sigs (set_root_signature Set) (\<lambda>RS.
     deref cmds encoder (\<lambda>Cmd.
     deref devices (rs_device RS) (\<lambda>_.
     bindP (if pBoundPipelineLayout Cmd \<noteq> pPipelineLayout RS
            then store cmds cmds_update encoder (pBoundPipelineLayout_update (\<lambda>_. pPipelineLayout RS)) (
                 bind_empty_sets V bind_point Cmd RS (set_index Set))
            else ret ()) (\<lambda>_.
     vk_do V (VkPass (VkCmdBindDescriptorSets (pVkCmdBuf Cmd) bind_point (pPipelineLayout RS)
               (set_index Set) (pVkDescriptorSet Set))) (\<lambda>_. ret ()))))))"

definition cgpu_compute_encoder_bind_descriptor_set_vulkan ::
    "vk_env \<Rightarrow> CGPUComputePassEncoderId \<Rightarrow> CGPUDescriptorSetId \<Rightarrow> unit vk_prog" where
  "cgpu_compute_encoder_bind_descriptor_set_vulkan V encoder dset =
     bind_descriptor_set_vulkan V VK_PIPELINE_BIND_POINT_COMPUTE encoder dset"

definition cgpu_render_encoder_bind_descriptor_set_vulkan ::
    "vk_env \<Rightarrow> CGPURenderPassEncoderId \<Rightarrow> CGPUDescriptorSetId \<Rightarrow> unit vk_prog" where
  "cgpu_render_encoder_bind_descriptor_set_vulkan V encoder dset =
     bind_descriptor_set_vulkan V VK_PIPELINE_BIND_POINT_GRAPHICS encoder dset"

text \<open>The first push constant range is the one that is pushed; the name is not looked at.\<close>

definition push_constants_vulkan ::
    "vk_env \<Rightarrow> ptr \<Rightarrow> CGPURootSignatureId \<Rightarrow> ptr \<Rightarrow> unit vk_prog" where
  "push_constants_vulkan V encoder rs data =
     deref root_sigs rs (\<lambda>RS.
     deref devices (rs_device RS) (\<lambda>_.
     deref cmds encoder (\<lambda>Cmd.
     index_of ''pPushConstRanges'' (pPushConstRanges RS) 0 (\<lambda>pc.
     vk_do V (VkPass (VkCmdPushConstants (pVkCmdBuf Cmd) (pPipelineLayout RS)
               (pcr_stageFlags pc) (pcr_size pc) data)) (\<lambda>_. ret ())))))"

definition cgpu_compute_encoder_push_constants_vulkan ::
    "vk_env \<Rightarrow> CGPUComputePassEncoderId \<Rightarrow> CGPURootSignatureId \<Rightarrow> string \<Rightarrow> ptr \<Rightarrow> unit vk_prog" where
  "cgpu_compute_encoder_push_constants_vulkan V encoder rs name data =
     push_constants_vulkan V encoder rs data"

definition cgpu_render_encoder_push_constants_vulkan ::
    "vk_env \<Rightarrow> CGPURenderPassEncoderId \<Rightarrow> CGPURootSignatureId \<Rightarrow> string \<Rightarrow> ptr \<Rightarrow> unit vk_prog" where
  "cgpu_render_encoder_push_constants_vulkan V encoder rs name data =
     push_constants_vulkan V encoder rs data"

section \<open>Compute passes\<close>

definition cgpu_cmd_begin_compute_pass_vulkan ::
    "vk_env \<Rightarrow> CGPUCommandBufferId \<Rightarrow> CGPUComputePassDescriptor \<Rightarrow> CGPUComputePassEncoderId vk_prog" where
  "cgpu_cmd_begin_compute_pass_vulkan V cmd desc = ret cmd"

definition cgpu_compute_encoder_bind_pipeline_vulkan ::
    "vk_env \<Rightarrow> CGPUComputePassEncoderId \<Rightarrow> CGPUComputePipelineId \<Rightarrow> unit vk_prog" where
  "cgpu_compute_encoder_bind_pipeline_vulkan V encoder pipeline =
     deref compute_pipelines pipeline (\<lambda>PPL.
     deref devices (cpipe_device PPL) (\<lambda>_.
     deref cmds encoder (\<lambda>Cmd.
     vk_do V (VkPass (VkCmdBindPipeline (pVkCmdBuf Cmd) VK_PIPELINE_BIND_POINT_COMPUTE
               (cpipe_pVkPipeline PPL))) (\<lambda>_. ret ()))))"

definition cgpu_compute_encoder_dispatch_vulkan ::
    "vk_env \<Rightarrow> CGPUComputePassEncoderId \<Rightarrow> nat \<Rightarrow> nat \<Rightarrow> nat \<Rightarrow> unit vk_prog" where
  "cgpu_compute_encoder_dispatch_vulkan V encoder X Y Z =
     with_cmd encoder (\<lambda>Cmd D.
     vk_do V (VkPass (VkCmdDispatch (pVkCmdBuf Cmd) X Y Z)) (\<lambda>_. ret ()))"

definition cgpu_cmd_end_compute_pass_vulkan ::
    "vk_env \<Rightarrow> CGPUCommandBufferId \<Rightarrow> CGPUComputePassEncoderId \<Rightarrow> unit vk_prog" where
  "cgpu_cmd_end_compute_pass_vulkan V cmd encoder = ret ()"

end
