(* ===== verification/Vk_Pass.thy ===== *)
theory Vk_Pass
  imports Vk_Command
begin

text \<open>
  Render passes of src/gpu/cgpu/vulkan/cgpu_vulkan.c: the caches of VkRenderPass and
  VkFramebuffer objects (cgpu_vulkan_instance.cpp), the creation of both, the beginning and
  the end of a pass and the commands recorded inside one.
\<close>

section \<open>The caches\<close>

definition VkUtil_FramebufferTableTryFind ::
    "vk_env \<Rightarrow> ptr \<Rightarrow> VkUtil_FramebufferDesc \<Rightarrow> (VkHandle \<Rightarrow> 'a vk_prog) \<Rightarrow> 'a vk_prog" where
  "VkUtil_FramebufferTableTryFind V table desc k =
     deref pass_tables table (\<lambda>T.
     k (case cached_framebuffers T (hash_framebuffer V desc table) of
          None \<Rightarrow> VK_NULL_HANDLE
        | Some c \<Rightarrow> cfb_framebuffer c))"

definition VkUtil_FramebufferTableAdd ::
    "vk_env \<Rightarrow> ptr \<Rightarrow> VkUtil_FramebufferDesc \<Rightarrow> VkHandle \<Rightarrow> 'a vk_prog \<Rightarrow> 'a vk_prog" where
  "VkUtil_FramebufferTableAdd V table desc framebuffer k =
     store pass_tables pass_tables_update table
       (cached_framebuffers_update (\<lambda>m. m(hash_framebuffer V desc table \<mapsto>
          \<lparr>cfb_framebuffer = framebuffer, cfb_timestamp = 0\<rparr>))) k"

definition VkUtil_RenderPassTableTryFind ::
    "vk_env \<Rightarrow> ptr \<Rightarrow> VkUtil_RenderPassDesc \<Rightarrow> (VkHandle \<Rightarrow> 'a vk_prog) \<Rightarrow> 'a vk_prog" where
  "VkUtil_RenderPassTableTryFind V table desc k =
     deref pass_tables table (\<lambda>T.
     k (case cached_renderpasses T (hash_render_pass V desc table) of
          None \<Rightarrow> VK_NULL_HANDLE
        | Some c \<Rightarrow> crp_pass c))"

definition VkUtil_RenderPassTableAdd ::
    "vk_env \<Rightarrow> ptr \<Rightarrow> VkUtil_RenderPassDesc \<Rightarrow> VkHandle \<Rightarrow> 'a vk_prog \<Rightarrow> 'a vk_prog" where
  "VkUtil_RenderPassTableAdd V table desc pass k =
     store pass_tables pass_tables_update table
       (cached_renderpasses_update (\<lambda>m. m(hash_render_pass V desc table \<mapsto>
          \<lparr>crp_pass = pass, crp_timestamp = 0\<rparr>))) k"

section \<open>Creating framebuffers and render passes\<close>

definition VkUtil_FindOrCreateFrameBuffer ::
    "vk_env \<Rightarrow> CGPUDeviceId \<Rightarrow> VkUtil_FramebufferDesc \<Rightarrow> (VkHandle \<Rightarrow> 'a vk_prog) \<Rightarrow> 'a vk_prog" where
  "VkUtil_FindOrCreateFrameBuffer V device desc k =
     deref devices device (\<lambda>D.
     VkUtil_FramebufferTableTryFind V (pPassTable D) desc (\<lambda>found.
     if found \<noteq> VK_NULL_HANDLE then k found
     else
     assertc (vk_debug V) (VK_NULL_HANDLE \<noteq> pVkDevice D) ''VK_NULL_HANDLE != D->pVkDevice'' (
     vk_do V (VkObject (VkCreateFramebuffer (pVkDevice D)
               \<lparr>fbi_renderPass = fb_pRenderPass desc,
                fbi_attachments = take (fb_mAttachmentCount desc) (fb_pImageViews desc),
                fbi_width = fb_mWidth desc, fbi_height = fb_mHeight desc,
                fbi_layers = fb_mLayers desc\<rparr>)) (\<lambda>r.
     CHECK_VKRESULT V r (
     VkUtil_FramebufferTableAdd V (pPassTable D) desc (vk_out r 0) (
     k (vk_out r 0)))))))"

definition VkUtil_FreeFramebuffer :: "vk_env \<Rightarrow> CGPUDeviceId \<Rightarrow> VkHandle \<Rightarrow> unit vk_prog" where
  "VkUtil_FreeFramebuffer V device pFramebuffer =
     deref devices device (\<lambda>D.
     vk_do V (VkObject (VkDestroyFramebuffer (pVkDevice D) pFramebuffer)) (\<lambda>_. ret ()))"

definition VkUtil_FreeRenderPass :: "vk_env \<Rightarrow> CGPUDeviceId \<Rightarrow> VkHandle \<Rightarrow> unit vk_prog" where
  "VkUtil_FreeRenderPass V device pass =
     deref devices device (\<lambda>D.
     vk_do V (VkObject (VkDestroyRenderPass (pVkDevice D) pass)) (\<lambda>_. ret ()))"

text \<open>The first loop. Members that are not written are zero: the first enumerators.\<close>

definition color_attachment :: "VkUtil_RenderPassDesc \<Rightarrow> nat \<Rightarrow> VkAttachmentDescription vk_prog" where
  "color_attachment desc i =
     index_of ''pColorFormats'' (pColorFormats desc) i (\<lambda>format.
     index_of ''pLoadActionsColor'' (pLoadActionsColor desc) i (\<lambda>load.
     index_of ''gVkAttachmentLoadOpTranslator'' gVkAttachmentLoadOpTranslator
       (load_action_value load) (\<lambda>loadOp.
     index_of ''pStoreActionsColor'' (pStoreActionsColor desc) i (\<lambda>store.
     index_of ''gVkAttachmentStoreOpTranslator'' gVkAttachmentStoreOpTranslator
       (store_action_value store) (\<lambda>storeOp.
     ret \<lparr>ad_format = VkUtil_FormatTranslateToVk format,
          ad_samples = VkUtil_SampleCountTranslateToVk (mSampleCount desc),
          ad_loadOp = loadOp, ad_storeOp = storeOp,
          ad_stencilLoadOp = VK_ATTACHMENT_LOAD_OP_LOAD,
          ad_stencilStoreOp = VK_ATTACHMENT_STORE_OP_STORE,
          ad_initialLayout = VK_IMAGE_LAYOUT_COLOR_ATTACHMENT_OPTIMAL,
          ad_finalLayout = VK_IMAGE_LAYOUT_COLOR_ATTACHMENT_OPTIMAL\<rparr>)))))"

text \<open>The second loop, over the color slots: the resolve attachments get the numbers from
  \<open>ssidx\<close> on, and a slot without one refers to VK_ATTACHMENT_UNUSED. The formats and masks
  have an element for every slot, because the first loop has read them.\<close>

fun resolve_attachments ::
    "VkUtil_RenderPassDesc \<Rightarrow> nat list \<Rightarrow> nat \<Rightarrow> VkAttachmentDescription list \<times> VkAttachmentReference list" where
  "resolve_attachments desc [] ssidx = ([], [])"
| "resolve_attachments desc (i # slots) ssidx =
     (if pResolveMasks desc ! i
      then (case resolve_attachments desc slots (Suc ssidx) of (ds, refs) \<Rightarrow>
             (\<lparr>ad_format = VkUtil_FormatTranslateToVk (pColorFormats desc ! i),
               ad_samples = VK_SAMPLE_COUNT_1_BIT,
               ad_loadOp = VK_ATTACHMENT_LOAD_OP_CLEAR, ad_storeOp = VK_ATTACHMENT_STORE_OP_STORE,
               ad_stencilLoadOp = VK_ATTACHMENT_LOAD_OP_LOAD,
               ad_stencilStoreOp = VK_ATTACHMENT_STORE_OP_STORE,
               ad_initialLayout = VK_IMAGE_LAYOUT_UNDEFINED,
               ad_finalLayout = VK_IMAGE_LAYOUT_COLOR_ATTACHMENT_OPTIMAL\<rparr> # ds,
              \<lparr>ar_attachment = word_of_nat ssidx,
               ar_layout = VK_IMAGE_LAYOUT_COLOR_ATTACHMENT_OPTIMAL\<rparr> # refs))
      else (case resolve_attachments desc slots ssidx of (ds, refs) \<Rightarrow>
             (ds, \<lparr>ar_attachment = VK_ATTACHMENT_UNUSED,
                   ar_layout = VK_IMAGE_LAYOUT_UNDEFINED\<rparr> # refs)))"

definition depth_attachment :: "VkUtil_RenderPassDesc \<Rightarrow> VkAttachmentDescription vk_prog" where
  "depth_attachment desc =
     index_of ''gVkAttachmentLoadOpTranslator'' gVkAttachmentLoadOpTranslator
       (load_action_value (mLoadActionDepth desc)) (\<lambda>loadOp.
     index_of ''gVkAttachmentStoreOpTranslator'' gVkAttachmentStoreOpTranslator
       (store_action_value (mStoreActionDepth desc)) (\<lambda>storeOp.
     index_of ''gVkAttachmentLoadOpTranslator'' gVkAttachmentLoadOpTranslator
       (load_action_value (mLoadActionStencil desc)) (\<lambda>stencilLoadOp.
     index_of ''gVkAttachmentStoreOpTranslator'' gVkAttachmentStoreOpTranslator
       (store_action_value (mStoreActionStencil desc)) (\<lambda>stencilStoreOp.
     ret \<lparr>ad_format = VkUtil_FormatTranslateToVk (mDepthStencilFormat desc),
          ad_samples = VkUtil_SampleCountTranslateToVk (mSampleCount desc),
          ad_loadOp = loadOp, ad_storeOp = storeOp,
          ad_stencilLoadOp = stencilLoadOp, ad_stencilStoreOp = stencilStoreOp,
          ad_initialLayout = VK_IMAGE_LAYOUT_DEPTH_STENCIL_ATTACHMENT_OPTIMAL,
          ad_finalLayout = VK_IMAGE_LAYOUT_DEPTH_STENCIL_ATTACHMENT_OPTIMAL\<rparr>))))"

definition render_pass_create_info :: "VkUtil_RenderPassDesc \<Rightarrow> VkRenderPassCreateInfo vk_prog" where
  "render_pass_create_info desc =
     (let colors = mColorAttachmentCount desc;
          has_depth = mDepthStencilFormat desc \<noteq> CGPU_FORMAT_UNDEFINED in
      bindP (map_each [0..<colors] (color_attachment desc)) (\<lambda>color_descs.
      let (resolve_descs, resolve_refs) = resolve_attachments desc [0..<colors] colors;
          ssidx = colors + length resolve_descs in
      bindP (if has_depth then bindP (depth_attachment desc) (\<lambda>d. ret [d]) else ret []) (\<lambda>depth_descs.
      ret \<lparr>rpi_attachments = color_descs @ resolve_descs @ depth_descs,
           rpi_colorAttachments = map (\<lambda>i. \<lparr>ar_attachment = word_of_nat i,
             ar_layout = VK_IMAGE_LAYOUT_COLOR_ATTACHMENT_OPTIMAL\<rparr>) [0..<colors],
           rpi_resolveAttachments = (if resolve_descs \<noteq> [] then Some resolve_refs else None),
           rpi_depthStencilAttachment =
             (if has_depth then Some \<lparr>ar_attachment = word_of_nat ssidx,
                ar_layout = VK_IMAGE_LAYOUT_DEPTH_STENCIL_ATTACHMENT_OPTIMAL\<rparr> else None)\<rparr>)))"

definition VkUtil_FindOrCreateRenderPass ::
    "vk_env \<Rightarrow> CGPUDeviceId \<Rightarrow> VkUtil_RenderPassDesc \<Rightarrow> (VkHandle \<Rightarrow> 'a vk_prog) \<Rightarrow> 'a vk_prog" where
  "VkUtil_FindOrCreateRenderPass V device desc k =
     deref devices device (\<lambda>D.
     VkUtil_RenderPassTableTryFind V (pPassTable D) desc (\<lambda>found.
     if found \<noteq> VK_NULL_HANDLE then k found
     else
     assertc (vk_debug V) (VK_NULL_HANDLE \<noteq> pVkDevice D) ''VK_NULL_HANDLE != D->pVkDevice'' (
     bindP (render_pass_create_info desc) (\<lambda>create_info.
     vk_do V (VkObject (VkCreateRenderPass (pVkDevice D) create_info)) (\<lambda>r.
     CHECK_VKRESULT V r (
     VkUtil_RenderPassTableAdd V (pPassTable D) desc (vk_out r 0) (
     k (vk_out r 0))))))))"

section \<open>Beginning a pass\<close>

text \<open>The format of the depth attachment: UNDEFINED when there is no attachment or no view.\<close>

definition depth_format_of ::
    "CGPUDepthStencilAttachment option \<Rightarrow> (ECGPUFormat \<Rightarrow> 'a vk_prog) \<Rightarrow> 'a vk_prog" where
  "depth_format_of ds k =
     (case ds of
        None \<Rightarrow> k CGPU_FORMAT_UNDEFINED
      | Some a \<Rightarrow>
          if ds_view a \<noteq> NULL
          then deref texture_views (ds_view a) (\<lambda>v. k (tvd_format (view_info v)))
          else k CGPU_FORMAT_UNDEFINED)"

text \<open>The descriptor before the loop over the color attachments.\<close>

definition initial_pass_desc :: "CGPURenderPassDescriptor \<Rightarrow> ECGPUFormat \<Rightarrow> VkUtil_RenderPassDesc" where
  "initial_pass_desc desc depth_format =
     \<lparr>pColorFormats = replicate CGPU_MAX_MRT_COUNT CGPU_FORMAT_UNDEFINED,
      pLoadActionsColor = replicate CGPU_MAX_MRT_COUNT CGPU_LOAD_ACTION_DONTCARE,
      pStoreActionsColor = replicate CGPU_MAX_MRT_COUNT CGPU_STORE_ACTION_STORE,
      pResolveMasks = replicate CGPU_MAX_MRT_COUNT False,
      mColorAttachmentCount = length (rpd_color_attachments desc),
      mSampleCount = rpd_sample_count desc,
      mDepthStencilFormat = depth_format,
      mLoadActionDepth = (case rpd_depth_stencil desc of None \<Rightarrow> CGPU_LOAD_ACTION_DONTCARE
                          | Some a \<Rightarrow> ds_depth_load_action a),
      mStoreActionDepth = (case rpd_depth_stencil desc of None \<Rightarrow> CGPU_STORE_ACTION_STORE
                           | Some a \<Rightarrow> ds_depth_store_action a),
      mLoadActionStencil = (case rpd_depth_stencil desc of None \<Rightarrow> CGPU_LOAD_ACTION_DONTCARE
                            | Some a \<Rightarrow> ds_stencil_load_action a),
      mStoreActionStencil = (case rpd_depth_stencil desc of None \<Rightarrow> CGPU_STORE_ACTION_STORE
                             | Some a \<Rightarrow> ds_stencil_store_action a)\<rparr>"

text \<open>The loop over the color attachments. \<open>Width\<close> and \<open>Height\<close> are those of the last one.\<close>

fun fill_color_attachments ::
    "ECGPUSampleCount \<Rightarrow> CGPUColorAttachment list \<Rightarrow> nat \<Rightarrow> VkUtil_RenderPassDesc \<Rightarrow> (nat \<times> nat) option
      \<Rightarrow> (VkUtil_RenderPassDesc \<times> (nat \<times> nat) option) vk_prog" where
  "fill_color_attachments samples [] i rpdesc extent = ret (rpdesc, extent)"
| "fill_color_attachments samples (ca # cas) i rpdesc extent =
     update_at ''pResolveMasks'' (pResolveMasks rpdesc) i
       (samples \<noteq> CGPU_SAMPLE_COUNT_1 \<and> ca_resolve_view ca \<noteq> NULL) (\<lambda>masks.
     deref texture_views (ca_view ca) (\<lambda>v.
     update_at ''pColorFormats'' (pColorFormats rpdesc) i (tvd_format (view_info v)) (\<lambda>formats.
     update_at ''pLoadActionsColor'' (pLoadActionsColor rpdesc) i (ca_load_action ca) (\<lambda>loads.
     update_at ''pStoreActionsColor'' (pStoreActionsColor rpdesc) i (ca_store_action ca) (\<lambda>stores.
     deref textures (tvd_texture (view_info v)) (\<lambda>T.
     fill_color_attachments samples cas (Suc i)
       (rpdesc\<lparr>pColorFormats := formats, pLoadActionsColor := loads,
               pStoreActionsColor := stores, pResolveMasks := masks\<rparr>)
       (Some (texture_width T, texture_height T))))))))"

text \<open>Adding one image view to the framebuffer descriptor.\<close>

definition add_image_view ::
    "VkHandle \<Rightarrow> VkUtil_FramebufferDesc \<Rightarrow> (VkUtil_FramebufferDesc \<Rightarrow> 'a vk_prog) \<Rightarrow> 'a vk_prog" where
  "add_image_view view fb k =
     update_at ''pImageViews'' (fb_pImageViews fb) (fb_mAttachmentCount fb) view (\<lambda>views.
     k (fb\<lparr>fb_pImageViews := views, fb_mAttachmentCount := fb_mAttachmentCount fb + 1\<rparr>))"

fun add_color_views ::
    "CGPUColorAttachment list \<Rightarrow> VkUtil_FramebufferDesc \<Rightarrow> VkUtil_FramebufferDesc vk_prog" where
  "add_color_views [] fb = ret fb"
| "add_color_views (ca # cas) fb =
     deref texture_views (ca_view ca) (\<lambda>TVV.
     add_image_view (pVkRTVDSVDescriptor TVV) fb (\<lambda>fb.
     add_color_views cas (fb\<lparr>fb_mLayers := tvd_array_layer_count (view_info TVV)\<rparr>)))"

fun add_resolve_views ::
    "ECGPUSampleCount \<Rightarrow> CGPUColorAttachment list \<Rightarrow> VkUtil_FramebufferDesc \<Rightarrow> VkUtil_FramebufferDesc vk_prog" where
  "add_resolve_views samples [] fb = ret fb"
| "add_resolve_views samples (ca # cas) fb =
     (if ca_resolve_view ca \<noteq> NULL \<and> samples \<noteq> CGPU_SAMPLE_COUNT_1
      then deref texture_views (ca_resolve_view ca) (\<lambda>TVV.
           add_image_view (pVkRTVDSVDescriptor TVV) fb (\<lambda>fb.
           add_resolve_views samples cas fb))
      else add_resolve_views samples cas fb)"

definition add_depth_view ::
    "CGPUDepthStencilAttachment option \<Rightarrow> VkUtil_FramebufferDesc \<Rightarrow> VkUtil_FramebufferDesc vk_prog" where
  "add_depth_view ds fb =
     (case ds of
        None \<Rightarrow> ret fb
      | Some a \<Rightarrow>
          if ds_view a \<noteq> NULL
          then deref texture_views (ds_view a) (\<lambda>TVV.
               add_image_view (pVkRTVDSVDescriptor TVV) fb (\<lambda>fb.
               ret (fb\<lparr>fb_mLayers := tvd_array_layer_count (view_info TVV)\<rparr>)))
          else ret fb)"

text \<open>
  The clear values. The colors come first; every resolve view then skips a value whatever the
  sample count, and a depth attachment adds one whether or not it has a view.
\<close>

definition pass_clear_values ::
    "CGPURenderPassDescriptor \<Rightarrow> (VkClearValue list \<times> nat) vk_prog" where
  "pass_clear_values desc =
     (let colors = map (\<lambda>ca. VkClearColor (cv_r (ca_clear_color ca)) (cv_g (ca_clear_color ca))
                               (cv_b (ca_clear_color ca)) (cv_a (ca_clear_color ca)))
                     (rpd_color_attachments desc);
          resolves = length (filter (\<lambda>ca. ca_resolve_view ca \<noteq> NULL) (rpd_color_attachments desc));
          idx = length colors + resolves;
          values = colors @ replicate (2 * CGPU_MAX_MRT_COUNT + 1 - length colors) (VkClearColor 0 0 0 0) in
      case rpd_depth_stencil desc of
        None \<Rightarrow> ret (values, idx)
      | Some a \<Rightarrow>
          update_at ''clearValues'' values idx (VkClearDepthStencil (ds_clear_depth a) (ds_clear_stencil a))
            (\<lambda>values. ret (values, Suc idx)))"

definition cgpu_cmd_begin_render_pass_vulkan ::
    "vk_env \<Rightarrow> CGPUCommandBufferId \<Rightarrow> CGPURenderPassDescriptor \<Rightarrow> CGPURenderPassEncoderId vk_prog" where
  "cgpu_cmd_begin_render_pass_vulkan V cmd desc =
     deref cmds cmd (\<lambda>Cmd.
     depth_format_of (rpd_depth_stencil desc) (\<lambda>depth_format.
     bindP (fill_color_attachments (rpd_sample_count desc) (rpd_color_attachments desc) 0
              (initial_pass_desc desc depth_format) None) (\<lambda>(rpdesc, extent).
     VkUtil_FindOrCreateRenderPass V (cmd_device Cmd) rpdesc (\<lambda>render_pass.
     initialized ''Width'' extent (\<lambda>(width, height).
     bindP (add_color_views (rpd_color_attachments desc)
              \<lparr>fb_pRenderPass = render_pass, fb_mAttachmentCount = 0,
               fb_pImageViews = replicate (CGPU_MAX_MRT_COUNT * 2 + 1) VK_NULL_HANDLE,
               fb_mWidth = width, fb_mHeight = height, fb_mLayers = 1\<rparr>) (\<lambda>fb.
     bindP (add_resolve_views (rpd_sample_count desc) (rpd_color_attachments desc) fb) (\<lambda>fb.
     bindP (add_depth_view (rpd_depth_stencil desc) fb) (\<lambda>fb.
     assertc (vk_debug V) (rpd_color_attachments desc \<noteq> [] \<longrightarrow> fb_mLayers fb = 1)
       ''MRT pass supports only one layer!'' (
     VkUtil_FindOrCreateFrameBuffer V (cmd_device Cmd) fb (\<lambda>framebuffer.
     bindP (pass_clear_values desc) (\<lambda>(values, count).
     deref devices (cmd_device Cmd) (\<lambda>_.
     vk_do V (VkPass (VkCmdBeginRenderPass (pVkCmdBuf Cmd)
               \<lparr>rpb_renderPass = render_pass, rpb_framebuffer = framebuffer,
                rpb_width = width, rpb_height = height,
                rpb_clearValueCount = count, rpb_pClearValues = values\<rparr>)) (\<lambda>_.
     store cmds cmds_update cmd (pRenderPass_update (\<lambda>_. render_pass)) (
     ret cmd))))))))))))))"

definition cgpu_cmd_end_render_pass_vulkan ::
    "vk_env \<Rightarrow> CGPUCommandBufferId \<Rightarrow> CGPURenderPassEncoderId \<Rightarrow> unit vk_prog" where
  "cgpu_cmd_end_render_pass_vulkan V cmd encoder =
     with_cmd cmd (\<lambda>Cmd D.
     vk_do V (VkPass (VkCmdEndRenderPass (pVkCmdBuf Cmd))) (\<lambda>_.
     store cmds cmds_update cmd (pRenderPass_update (\<lambda>_. VK_NULL_HANDLE)) (
     ret ())))"

section \<open>Commands inside a pass\<close>

text \<open>The sign bit of a float is the top bit of its pattern.\<close>

definition float_neg :: "f32 \<Rightarrow> f32" where "float_neg x = x XOR 0x80000000"

definition cgpu_render_encoder_set_viewport_vulkan ::
    "vk_env \<Rightarrow> CGPURenderPassEncoderId \<Rightarrow> f32 \<Rightarrow> f32 \<Rightarrow> f32 \<Rightarrow> f32 \<Rightarrow> f32 \<Rightarrow> f32 \<Rightarrow> unit vk_prog" where
  "cgpu_render_encoder_set_viewport_vulkan V encoder x y width height min_depth max_depth =
     with_cmd encoder (\<lambda>Cmd D.
     vk_do V (VkPass (VkCmdSetViewport (pVkCmdBuf Cmd) x (float_add V y height) width
               (float_neg height) min_depth max_depth)) (\<lambda>_. ret ()))"

definition cgpu_render_encoder_set_scissor_vulkan ::
    "vk_env \<Rightarrow> CGPURenderPassEncoderId \<Rightarrow> nat \<Rightarrow> nat \<Rightarrow> nat \<Rightarrow> nat \<Rightarrow> unit vk_prog" where
  "cgpu_render_encoder_set_scissor_vulkan V encoder x y width height =
     with_cmd encoder (\<lambda>Cmd D.
     vk_do V (VkPass (VkCmdSetScissor (pVkCmdBuf Cmd) x y width height)) (\<lambda>_. ret ()))"

definition cgpu_render_encoder_bind_pipeline_vulkan ::
    "vk_env \<Rightarrow> CGPURenderPassEncoderId \<Rightarrow> CGPURenderPipelineId \<Rightarrow> unit vk_prog" where
  "cgpu_render_encoder_bind_pipeline_vulkan V encoder pipeline =
     deref render_pipelines pipeline (\<lambda>PPL.
     deref devices (rpipe_device PPL) (\<lambda>_.
     deref cmds encoder (\<lambda>Cmd.
     vk_do V (VkPass (VkCmdBindPipeline (pVkCmdBuf Cmd) VK_PIPELINE_BIND_POINT_GRAPHICS
               (rpipe_pVkPipeline PPL))) (\<lambda>_. ret ()))))"

text \<open>The arrays of buffers and offsets have 64 elements. A NULL array of offsets is None.\<close>

fun fill_vertex_buffers ::
    "CGPUBufferId list \<Rightarrow> nat list option \<Rightarrow> nat list \<Rightarrow> VkHandle list \<Rightarrow> nat list
      \<Rightarrow> (VkHandle list \<times> nat list) vk_prog" where
  "fill_vertex_buffers bufs offsets [] vkBuffers vkOffsets = ret (vkBuffers, vkOffsets)"
| "fill_vertex_buffers bufs offsets (i # is) vkBuffers vkOffsets =
     index_of ''buffers'' bufs i (\<lambda>b.
     deref buffers b (\<lambda>B.
     update_at ''vkBuffers'' vkBuffers i (pVkBuffer B) (\<lambda>vkBuffers.
     bindP (case offsets of None \<Rightarrow> ret 0 | Some os \<Rightarrow> index_of ''offsets'' os i ret) (\<lambda>offset.
     update_at ''vkOffsets'' vkOffsets i offset (\<lambda>vkOffsets.
     fill_vertex_buffers bufs offsets is vkBuffers vkOffsets)))))"

definition cgpu_render_encoder_bind_vertex_buffers_vulkan ::
    "vk_env \<Rightarrow> CGPURenderPassEncoderId \<Rightarrow> CGPUBufferId list \<Rightarrow> nat list option \<Rightarrow> nat list option
      \<Rightarrow> unit vk_prog" where
  "cgpu_render_encoder_bind_vertex_buffers_vulkan V encoder bufs strides offsets =
     with_cmd encoder (\<lambda>Cmd D.
     deref adapters (device_adapter D) (\<lambda>A.
     let final_buffer_count = min (length bufs) (maxVertexInputBindings A) in
     bindP (fill_vertex_buffers bufs offsets [0..<final_buffer_count] (replicate 64 VK_NULL_HANDLE)
              (replicate 64 0)) (\<lambda>(vkBuffers, vkOffsets).
     vk_do V (VkPass (VkCmdBindVertexBuffers (pVkCmdBuf Cmd) (take final_buffer_count vkBuffers)
               (take final_buffer_count vkOffsets))) (\<lambda>_. ret ()))))"

definition cgpu_render_encoder_bind_index_buffer_vulkan ::
    "vk_env \<Rightarrow> CGPURenderPassEncoderId \<Rightarrow> CGPUBufferId \<Rightarrow> nat \<Rightarrow> nat \<Rightarrow> unit vk_prog" where
  "cgpu_render_encoder_bind_index_buffer_vulkan V encoder buffer index_stride offset =
     deref buffers buffer (\<lambda>Buffer.
     assertc (vk_debug V) (encoder \<noteq> NULL) ''Cmd'' (
     assertc (vk_debug V) (buffer \<noteq> NULL) ''buffer'' (
     deref cmds encoder (\<lambda>Cmd.
     assertc (vk_debug V) (VK_NULL_HANDLE \<noteq> pVkCmdBuf Cmd) ''VK_NULL_HANDLE != Cmd->pVkCmdBuf'' (
     assertc (vk_debug V) (VK_NULL_HANDLE \<noteq> pVkBuffer Buffer) ''VK_NULL_HANDLE != Buffer->pVkBuffer'' (
     let vk_index_type = (if index_stride = 2 then VK_INDEX_TYPE_UINT16
                          else if index_stride = 1 then VK_INDEX_TYPE_UINT8_EXT
                          else VK_INDEX_TYPE_UINT32) in
     deref devices (buffer_device Buffer) (\<lambda>_.
     vk_do V (VkPass (VkCmdBindIndexBuffer (pVkCmdBuf Cmd) (pVkBuffer Buffer) offset vk_index_type))
       (\<lambda>_. ret ()))))))))"

definition cgpu_render_encoder_draw_vulkan ::
    "vk_env \<Rightarrow> CGPURenderPassEncoderId \<Rightarrow> nat \<Rightarrow> nat \<Rightarrow> unit vk_prog" where
  "cgpu_render_encoder_draw_vulkan V encoder vertex_count first_vertex =
     with_cmd encoder (\<lambda>Cmd D.
     vk_do V (VkPass (VkCmdDraw (pVkCmdBuf Cmd) vertex_count 1 first_vertex 0)) (\<lambda>_. ret ()))"

definition cgpu_render_encoder_draw_instanced_vulkan ::
    "vk_env \<Rightarrow> CGPURenderPassEncoderId \<Rightarrow> nat \<Rightarrow> nat \<Rightarrow> nat \<Rightarrow> nat \<Rightarrow> unit vk_prog" where
  "cgpu_render_encoder_draw_instanced_vulkan V encoder vertex_count first_vertex instance_count first_instance =
     with_cmd encoder (\<lambda>Cmd D.
     vk_do V (VkPass (VkCmdDraw (pVkCmdBuf Cmd) vertex_count instance_count first_vertex first_instance))
       (\<lambda>_. ret ()))"

definition cgpu_render_encoder_draw_indexed_vulkan ::
    "vk_env \<Rightarrow> CGPURenderPassEncoderId \<Rightarrow> nat \<Rightarrow> nat \<Rightarrow> nat \<Rightarrow> unit vk_prog" where
  "cgpu_render_encoder_draw_indexed_vulkan V encoder index_count first_index first_vertex =
     with_cmd encoder (\<lambda>Cmd D.
     vk_do V (VkPass (VkCmdDrawIndexed (pVkCmdBuf Cmd) index_count 1 first_index first_vertex 0))
       (\<lambda>_. ret ()))"

definition cgpu_render_encoder_draw_indexed_instanced_vulkan ::
    "vk_env \<Rightarrow> CGPURenderPassEncoderId \<Rightarrow> nat \<Rightarrow> nat \<Rightarrow> nat \<Rightarrow> nat \<Rightarrow> nat \<Rightarrow> unit vk_prog" where
  "cgpu_render_encoder_draw_indexed_instanced_vulkan V encoder index_count first_index instance_count
       first_instance first_vertex =
     with_cmd encoder (\<lambda>Cmd D.
     vk_do V (VkPass (VkCmdDrawIndexed (pVkCmdBuf Cmd) index_count instance_count first_index first_vertex
               first_instance)) (\<lambda>_. ret ()))"

end
