(* ===== verification/Runtime_Table.thy ===== *)
theory Runtime_Table
  imports CGPU_Env
begin

text \<open>
  The runtime table of src/gpu/cgpu/common/cgpu.cpp: the list of the queues an instance has
  handed out, searched by device, type and index.
\<close>

section \<open>The list of created queues\<close>

text \<open>\<open>CreatedQueue::operator==\<close> compares the device and the union of type and index.\<close>

definition CreatedQueue_eq :: "CreatedQueue \<Rightarrow> CreatedQueue \<Rightarrow> bool" where
  "CreatedQueue_eq lhs rhs \<longleftrightarrow>
     cq_device lhs = cq_device rhs \<and> cq_type lhs = cq_type rhs \<and> cq_index lhs = cq_index rhs"

definition TryFindQueue ::
    "CGPURuntimeTable \<Rightarrow> CGPUDeviceId \<Rightarrow> ECGPUQueueType \<Rightarrow> nat \<Rightarrow> CGPUQueueId" where
  "TryFindQueue tbl device type index =
     (let to_find = \<lparr>cq_device = device, cq_type = type, cq_index = index, cq_queue = NULL\<rparr> in
      case find (\<lambda>q. CreatedQueue_eq q to_find) (created_queues tbl) of
        None \<Rightarrow> NULL
      | Some found \<Rightarrow> cq_queue found)"

definition AddNewQueue ::
    "CGPUDeviceId \<Rightarrow> CGPUQueueId \<Rightarrow> ECGPUQueueType \<Rightarrow> nat \<Rightarrow> CGPURuntimeTable \<Rightarrow> CGPURuntimeTable" where
  "AddNewQueue device queue type index tbl =
     tbl\<lparr>created_queues := created_queues tbl
           @ [\<lparr>cq_device = device, cq_type = type, cq_index = index, cq_queue = queue\<rparr>]\<rparr>"

section \<open>The table of an instance\<close>

definition cgpu_create_runtime_table :: "(ptr \<Rightarrow> 'a vk_prog) \<Rightarrow> 'a vk_prog" where
  "cgpu_create_runtime_table k = calloc runtime_tables_update \<lparr>created_queues = []\<rparr> k"

definition cgpu_free_runtime_table :: "ptr \<Rightarrow> 'a vk_prog \<Rightarrow> 'a vk_prog" where
  "cgpu_free_runtime_table table k = release runtime_tables_update table k"

text \<open>\<open>device->adapter->instance->runtime_table\<close>.\<close>

definition runtime_table_of :: "CGPUDeviceId \<Rightarrow> (ptr \<Rightarrow> 'a vk_prog) \<Rightarrow> 'a vk_prog" where
  "runtime_table_of device k =
     deref devices device (\<lambda>D.
     deref adapters (device_adapter D) (\<lambda>A.
     deref instances (adapter_instance A) (\<lambda>I.
     k (inst_runtime_table I))))"

definition cgpu_runtime_table_add_queue ::
    "CGPUQueueId \<Rightarrow> ECGPUQueueType \<Rightarrow> nat \<Rightarrow> 'a vk_prog \<Rightarrow> 'a vk_prog" where
  "cgpu_runtime_table_add_queue queue type index k =
     deref queues queue (\<lambda>Q.
     runtime_table_of (queue_device Q) (\<lambda>table.
     store runtime_tables runtime_tables_update table
       (AddNewQueue (queue_device Q) queue type index) k))"

definition cgpu_runtime_table_try_get_queue ::
    "CGPUDeviceId \<Rightarrow> ECGPUQueueType \<Rightarrow> nat \<Rightarrow> (CGPUQueueId \<Rightarrow> 'a vk_prog) \<Rightarrow> 'a vk_prog" where
  "cgpu_runtime_table_try_get_queue device type index k =
     runtime_table_of device (\<lambda>table.
     deref runtime_tables table (\<lambda>tbl. k (TryFindQueue tbl device type index)))"

lemmas runtime_table_defs [api_defs] =
  cgpu_create_runtime_table_def cgpu_free_runtime_table_def runtime_table_of_def
  cgpu_runtime_table_add_queue_def cgpu_runtime_table_try_get_queue_def

section \<open>Lookup after insertion\<close>

text \<open>
  The contract of a cache that never forgets. A lookup that finds nothing answers NULL, and
  the cached handles are not NULL.
\<close>

locale queue_cache =
  fixes lookup :: "'t \<Rightarrow> 'k \<Rightarrow> ptr"
    and insert :: "'k \<Rightarrow> ptr \<Rightarrow> 't \<Rightarrow> 't"
    and empty :: "'t"
    and inv :: "'t \<Rightarrow> bool"
  assumes lookup_empty: "lookup empty k = NULL"
    and inv_empty: "inv empty"
    and inv_insert: "inv t \<Longrightarrow> q \<noteq> NULL \<Longrightarrow> inv (insert k q t)"
    and lookup_insert_miss: "inv t \<Longrightarrow> lookup t k = NULL \<Longrightarrow> lookup (insert k q t) k = q"
    and lookup_insert_hit: "lookup t k \<noteq> NULL \<Longrightarrow> lookup (insert k' q t) k = lookup t k"
    and lookup_insert_other: "k \<noteq> k' \<Longrightarrow> lookup (insert k' q t) k = lookup t k"
begin

text \<open>Getting an entry, which creates it with the given value when it is missing.\<close>

definition get_or_add :: "'k \<Rightarrow> ptr \<Rightarrow> 't \<Rightarrow> ptr \<times> 't" where
  "get_or_add k fresh t =
     (if lookup t k \<noteq> NULL then (lookup t k, t) else (fresh, insert k fresh t))"

lemma get_or_add_inv:
  assumes "inv t" and "fresh \<noteq> NULL"
  shows "inv (snd (get_or_add k fresh t))"
  using assms by (simp add: get_or_add_def inv_insert)

lemma get_or_add_again:
  assumes "inv t" and "fresh \<noteq> NULL" and "get_or_add k fresh t = (q, t')"
  shows "get_or_add k other t' = (q, t')"
  using assms by (auto simp: get_or_add_def lookup_insert_miss split: if_splits)

lemma get_or_add_stable:
  assumes "lookup t k \<noteq> NULL"
  shows "lookup (snd (get_or_add k' fresh t)) k = lookup t k"
  using assms by (simp add: get_or_add_def lookup_insert_hit)

text \<open>However many other entries are asked for in between, an entry keeps its value.\<close>

lemma get_or_add_fold_stable:
  assumes "lookup t k \<noteq> NULL"
  shows "lookup (fold (\<lambda>(k', f) t. snd (get_or_add k' f t)) kfs t) k = lookup t k"
  using assms
proof (induction kfs arbitrary: t)
  case (Cons a kfs)
  obtain k' f where a: "a = (k', f)" by fastforce
  show ?case
    using Cons.IH [of "snd (get_or_add k' f t)"] Cons.prems get_or_add_stable [of t k k' f]
    by (simp add: a)
qed simp

end

definition rt_lookup :: "CGPURuntimeTable \<Rightarrow> CGPUDeviceId \<times> ECGPUQueueType \<times> nat \<Rightarrow> CGPUQueueId" where
  "rt_lookup tbl = (\<lambda>(device, type, index). TryFindQueue tbl device type index)"

definition rt_insert ::
    "CGPUDeviceId \<times> ECGPUQueueType \<times> nat \<Rightarrow> CGPUQueueId \<Rightarrow> CGPURuntimeTable \<Rightarrow> CGPURuntimeTable" where
  "rt_insert = (\<lambda>(device, type, index) queue. AddNewQueue device queue type index)"

text \<open>A table entry is never NULL, so a lookup answers NULL only when there is no entry.\<close>

definition rt_ok :: "CGPURuntimeTable \<Rightarrow> bool" where
  "rt_ok tbl \<longleftrightarrow> list_all (\<lambda>q. cq_queue q \<noteq> NULL) (created_queues tbl)"

lemma find_append: "find P (xs @ ys) = (case find P xs of None \<Rightarrow> find P ys | Some x \<Rightarrow> Some x)"
  by (induction xs) auto

lemma created_queues_Add [simp]:
  "created_queues (AddNewQueue device queue type index tbl) =
     created_queues tbl
     @ [\<lparr>cq_device = device, cq_type = type, cq_index = index, cq_queue = queue\<rparr>]"
  by (simp add: AddNewQueue_def)

lemma TryFindQueue_find:
  "TryFindQueue tbl device type index =
     (case find (\<lambda>q. cq_device q = device \<and> cq_type q = type \<and> cq_index q = index)
             (created_queues tbl) of
        Some found \<Rightarrow> cq_queue found
      | None \<Rightarrow> NULL)"
  by (simp add: TryFindQueue_def CreatedQueue_eq_def Let_def)

lemma rt_ok_find:
  "rt_ok tbl \<Longrightarrow> find P (created_queues tbl) = Some found \<Longrightarrow> cq_queue found \<noteq> NULL"
  by (auto simp: rt_ok_def list_all_iff find_Some_iff)

interpretation rt: queue_cache rt_lookup rt_insert "\<lparr>created_queues = []\<rparr>" rt_ok
proof unfold_locales
  show "rt_lookup \<lparr>created_queues = []\<rparr> k = NULL" for k
    by (cases k) (simp add: rt_lookup_def TryFindQueue_find)
  show "rt_ok \<lparr>created_queues = []\<rparr>"
    by (simp add: rt_ok_def)
  show "rt_ok (rt_insert k q t)" if "rt_ok t" and "q \<noteq> NULL" for t q k
    using that by (cases k) (simp add: rt_ok_def rt_insert_def)
  show "rt_lookup (rt_insert k q t) k = q" if "rt_ok t" and "rt_lookup t k = NULL" for t k q
    using that
    by (cases k) (auto simp: rt_lookup_def rt_insert_def TryFindQueue_find find_append
        dest: rt_ok_find split: option.splits)
  show "rt_lookup (rt_insert k' q t) k = rt_lookup t k" if "rt_lookup t k \<noteq> NULL" for t k k' q
    using that
    by (cases k; cases k') (auto simp: rt_lookup_def rt_insert_def TryFindQueue_find find_append
        split: option.splits)
  show "rt_lookup (rt_insert k' q t) k = rt_lookup t k" if "k \<noteq> k'" for t k k' q
    using that
    by (cases k; cases k') (auto simp: rt_lookup_def rt_insert_def TryFindQueue_find find_append
        split: option.splits)
qed

end
