(* ===== verification/CGPU_Api.thy ===== *)
theory CGPU_Api
  imports Runtime_Table
begin

text \<open>
  The front end, src/gpu/cgpu/common/cgpu.c: every function checks its handles, finds the
  procedure in the table its device (or instance) caches, calls it, and fills in the members
  of the result that belong to the API. The definitions follow the C functions one by one; an
  assertion and the pointer reads inside its argument are separate statements, because
  \<open>cgpu_assert\<close> evaluates its argument in every build.

  Functions of the host platform (surfaces) are left out.
\<close>

section \<open>Messages and the table of a device\<close>

definition null_device :: string where "null_device = ''fatal: call on NULL device!''"
definition null_cmd :: string where "null_cmd = ''fatal: call on NULL cmdbuffer!''"
definition null_queue :: string where "null_queue = ''fatal: call on NULL queue!''"
definition null_pool :: string where "null_pool = ''fatal: call on NULL pool!''"
definition null_instance :: string where "null_instance = ''fatal: can't destroy NULL instance!''"
definition null_adapter :: string where "null_adapter = ''fatal: call on NULL adapter!''"
definition null_encoder :: string where "null_encoder = ''fatal: call on NULL compute encoder!''"
definition null_fence :: string where "null_fence = ''fatal: call on NULL fence!''"
definition transfer_in_pass :: string where
  "transfer_in_pass = ''fatal: can't call transfer apis on commdn buffer while preparing dispatching!''"
definition barrier_in_pass :: string where
  "barrier_in_pass = ''fatal: can't call resource barriers in render/dispatch passes!''"

text \<open>\<open>device->proc_table_cache\<close>, dereferenced.\<close>

definition device_table :: "cgpu_env \<Rightarrow> CGPUDeviceId \<Rightarrow> (CGPUProcTable \<Rightarrow> 'a vk_prog) \<Rightarrow> 'a vk_prog" where
  "device_table E device k = deref devices device (\<lambda>D. table_at E (device_proc_table_cache D) k)"

section \<open>Instances and adapters\<close>

definition cgpu_create_instance ::
    "cgpu_env \<Rightarrow> CGPUInstanceDescriptor \<Rightarrow> CGPUInstanceId vk_prog" where
  "cgpu_create_instance E desc =
     assertc (debug E)
       (id_backend desc = CGPU_BACKEND_VULKAN \<or> id_backend desc = CGPU_BACKEND_D3D12
        \<or> id_backend desc = CGPU_BACKEND_METAL)
       ''CGPU support only vulkan & d3d12 & metal currently!'' (
     let tbl = (if id_backend desc = CGPU_BACKEND_VULKAN then vk_table E else NULL) in
     table_at E tbl (\<lambda>T.
     proc (create_instance T) (\<lambda>fn.
     bindP (fn desc) (\<lambda>instance.
     store instances instances_update instance
       (\<lambda>I. I\<lparr>inst_enable_set_name := id_enable_set_name desc, inst_backend := id_backend desc,
             inst_proc_table := tbl\<rparr>) (
     cgpu_create_runtime_table (\<lambda>rt.
     store instances instances_update instance (inst_runtime_table_update (\<lambda>_. rt)) (
     ret instance)))))))"

definition cgpu_instance_get_backend :: "CGPUInstanceId \<Rightarrow> ECGPUBackend vk_prog" where
  "cgpu_instance_get_backend instance = deref instances instance (\<lambda>I. ret (inst_backend I))"

definition instance_table ::
    "cgpu_env \<Rightarrow> CGPUInstanceId \<Rightarrow> (CGPUInstance_Vulkan \<Rightarrow> CGPUProcTable \<Rightarrow> 'a vk_prog) \<Rightarrow> 'a vk_prog" where
  "instance_table E instance k =
     deref instances instance (\<lambda>I. table_at E (inst_proc_table I) (\<lambda>T. k I T))"

definition cgpu_query_instance_features :: "cgpu_env \<Rightarrow> CGPUInstanceId \<Rightarrow> bool vk_prog" where
  "cgpu_query_instance_features E instance =
     assertc (debug E) (instance \<noteq> NULL) null_instance (
     instance_table E instance (\<lambda>I T.
     checked_proc (debug E) (query_instance_features T) ''query_instance_features Proc Missing!'' (\<lambda>fn.
     fn instance)))"

definition cgpu_free_instance :: "cgpu_env \<Rightarrow> CGPUInstanceId \<Rightarrow> unit vk_prog" where
  "cgpu_free_instance E instance =
     assertc (debug E) (instance \<noteq> NULL) null_instance (
     instance_table E instance (\<lambda>I T.
     assertc (debug E) (free_instance T \<noteq> None) ''free_instance Proc Missing!'' (
     cgpu_free_runtime_table (inst_runtime_table I) (
     proc (free_instance T) (\<lambda>fn.
     fn instance)))))"

text \<open>The flag tells whether the caller passes an array for the adapters or NULL.\<close>

definition cgpu_enum_adapters ::
    "cgpu_env \<Rightarrow> CGPUInstanceId \<Rightarrow> bool \<Rightarrow> (CGPUAdapterId list \<times> nat) vk_prog" where
  "cgpu_enum_adapters E instance array =
     assertc (debug E) (instance \<noteq> NULL) null_instance (
     instance_table E instance (\<lambda>I T.
     checked_proc (debug E) (enum_adapters T) ''enum_adapters Proc Missing!'' (\<lambda>fn.
     bindP (fn instance array) (\<lambda>(as, num).
     bindP (if array
            then for_each (take num as) (\<lambda>a.
                   store adapters adapters_update a
                     (\<lambda>A. A\<lparr>adapter_proc_table_cache := inst_proc_table I,
                           adapter_instance := instance\<rparr>) (ret ()))
            else ret ()) (\<lambda>_.
     ret (as, num))))))"

definition adapter_table ::
    "cgpu_env \<Rightarrow> CGPUAdapterId \<Rightarrow> (CGPUAdapter_Vulkan \<Rightarrow> CGPUProcTable \<Rightarrow> 'a vk_prog) \<Rightarrow> 'a vk_prog" where
  "adapter_table E adapter k =
     deref adapters adapter (\<lambda>A. table_at E (adapter_proc_table_cache A) (\<lambda>T. k A T))"

definition cgpu_query_adapter_detail :: "cgpu_env \<Rightarrow> CGPUAdapterId \<Rightarrow> CGPUAdapterDetail vk_prog" where
  "cgpu_query_adapter_detail E adapter =
     assertc (debug E) (adapter \<noteq> NULL) null_adapter (
     adapter_table E adapter (\<lambda>A T.
     checked_proc (debug E) (query_adapter_detail T) ''query_adapter_detail Proc Missing!'' (\<lambda>fn.
     fn adapter)))"

definition cgpu_query_queue_count :: "cgpu_env \<Rightarrow> CGPUAdapterId \<Rightarrow> ECGPUQueueType \<Rightarrow> nat vk_prog" where
  "cgpu_query_queue_count E adapter type =
     assertc (debug E) (adapter \<noteq> NULL) null_adapter (
     adapter_table E adapter (\<lambda>A T.
     checked_proc (debug E) (query_queue_count T) ''query_queue_count Proc Missing!'' (\<lambda>fn.
     fn adapter type)))"

definition cgpu_create_device ::
    "cgpu_env \<Rightarrow> CGPUAdapterId \<Rightarrow> CGPUDeviceDescriptor \<Rightarrow> CGPUDeviceId vk_prog" where
  "cgpu_create_device E adapter desc =
     assertc (debug E) (adapter \<noteq> NULL) null_adapter (
     adapter_table E adapter (\<lambda>A T.
     checked_proc (debug E) (create_device T) ''create_device Proc Missing!'' (\<lambda>fn.
     bindP (fn adapter desc) (\<lambda>device.
     if device \<noteq> NULL
     then store devices devices_update device
            (device_proc_table_cache_update (\<lambda>_. adapter_proc_table_cache A)) (ret device)
     else ret device))))"

section \<open>Fences and semaphores\<close>

definition cgpu_create_fence ::
    "cgpu_env \<Rightarrow> CGPUDeviceId \<Rightarrow> CGPUFenceId vk_prog" where
  "cgpu_create_fence E device =
     assertc (debug E) (device \<noteq> NULL) null_device (
     device_table E device (\<lambda>T.
     checked_proc (debug E) (create_fence T) ''create_fence Proc Missing!'' (\<lambda>fn.
     bindP (fn device) (\<lambda>obj.
     store fences fences_update obj (fence_device_update (\<lambda>_. device)) (
     ret obj)))))"

text \<open>A NULL array and a count of 0 are both the empty list.\<close>

definition cgpu_wait_fences :: "cgpu_env \<Rightarrow> CGPUFenceId list \<Rightarrow> unit vk_prog" where
  "cgpu_wait_fences E fs =
     (case fs of
        [] \<Rightarrow> ret ()
      | fence # _ \<Rightarrow>
          assertc (debug E) (fence \<noteq> NULL) null_fence (
          deref fences fence (\<lambda>F.
          assertc (debug E) (fence_device F \<noteq> NULL) null_device (
          device_table E (fence_device F) (\<lambda>T.
          checked_proc (debug E) (wait_fences T) ''wait_fences Proc Missing!'' (\<lambda>fn.
          fn fs))))))"

definition cgpu_query_fence_status ::
    "cgpu_env \<Rightarrow> CGPUFenceId \<Rightarrow> ECGPUFenceStatus vk_prog" where
  "cgpu_query_fence_status E fence =
     assertc (debug E) (fence \<noteq> NULL) ''fatal: call on NULL fence!'' (
     deref fences fence (\<lambda>X.
     assertc (debug E) (fence_device X \<noteq> NULL) null_device (
     device_table E (fence_device X) (\<lambda>T.
     checked_proc (debug E) (query_fence_status T) ''query_fence_status Proc Missing!'' (\<lambda>fn.
     fn fence)))))"

definition cgpu_free_fence ::
    "cgpu_env \<Rightarrow> CGPUFenceId \<Rightarrow> unit vk_prog" where
  "cgpu_free_fence E fence =
     assertc (debug E) (fence \<noteq> NULL) ''fatal: call on NULL fence!'' (
     deref fences fence (\<lambda>X.
     assertc (debug E) (fence_device X \<noteq> NULL) null_device (
     device_table E (fence_device X) (\<lambda>T.
     checked_proc (debug E) (free_fence T) ''free_fence Proc Missing!'' (\<lambda>fn.
     fn fence)))))"

definition cgpu_create_semaphore ::
    "cgpu_env \<Rightarrow> CGPUDeviceId \<Rightarrow> CGPUSemaphoreId vk_prog" where
  "cgpu_create_semaphore E device =
     assertc (debug E) (device \<noteq> NULL) null_device (
     device_table E device (\<lambda>T.
     checked_proc (debug E) (create_semaphore T) ''create_semaphore Proc Missing!'' (\<lambda>fn.
     bindP (fn device) (\<lambda>obj.
     store semaphores semaphores_update obj (semaphore_device_update (\<lambda>_. device)) (
     ret obj)))))"

definition cgpu_free_semaphore ::
    "cgpu_env \<Rightarrow> CGPUSemaphoreId \<Rightarrow> unit vk_prog" where
  "cgpu_free_semaphore E semaphore =
     assertc (debug E) (semaphore \<noteq> NULL) ''fatal: call on NULL semaphore!'' (
     deref semaphores semaphore (\<lambda>X.
     assertc (debug E) (semaphore_device X \<noteq> NULL) null_device (
     device_table E (semaphore_device X) (\<lambda>T.
     checked_proc (debug E) (free_semaphore T) ''free_semaphore Proc Missing!'' (\<lambda>fn.
     fn semaphore)))))"

section \<open>Root signatures and descriptor sets\<close>

definition cgpu_create_root_signature ::
    "cgpu_env \<Rightarrow> CGPUDeviceId \<Rightarrow> CGPURootSignatureDescriptor \<Rightarrow> CGPURootSignatureId vk_prog" where
  "cgpu_create_root_signature E device desc =
     assertc (debug E) (device \<noteq> NULL) null_device (
     device_table E device (\<lambda>T.
     checked_proc (debug E) (create_root_signature T) ''create_root_signature Proc Missing!'' (\<lambda>fn.
     bindP (fn device desc) (\<lambda>obj.
     store root_sigs root_sigs_update obj (rs_device_update (\<lambda>_. device)) (
     ret obj)))))"

definition cgpu_free_root_signature ::
    "cgpu_env \<Rightarrow> CGPURootSignatureId \<Rightarrow> unit vk_prog" where
  "cgpu_free_root_signature E signature =
     assertc (debug E) (signature \<noteq> NULL) ''fatal: call on NULL signature!'' (
     deref root_sigs signature (\<lambda>X.
     assertc (debug E) (rs_device X \<noteq> NULL) null_device (
     device_table E (rs_device X) (\<lambda>T.
     checked_proc (debug E) (free_root_signature T) ''free_root_signature Proc Missing!'' (\<lambda>fn.
     fn signature)))))"

definition cgpu_create_root_signature_pool ::
    "cgpu_env \<Rightarrow> CGPUDeviceId \<Rightarrow> CGPURootSignaturePoolDescriptor \<Rightarrow> CGPURootSignaturePoolId vk_prog" where
  "cgpu_create_root_signature_pool E device desc =
     assertc (debug E) (device \<noteq> NULL) null_device (
     device_table E device (\<lambda>T.
     checked_proc (debug E) (create_root_signature_pool T) ''create_root_signature_pool Proc Missing!'' (\<lambda>fn.
     bindP (fn device desc) (\<lambda>obj.
     store rs_pools rs_pools_update obj (rsp_device_update (\<lambda>_. device)) (
     ret obj)))))"

definition cgpu_free_root_signature_pool ::
    "cgpu_env \<Rightarrow> CGPURootSignaturePoolId \<Rightarrow> unit vk_prog" where
  "cgpu_free_root_signature_pool E pool =
     assertc (debug E) (pool \<noteq> NULL) ''fatal: call on NULL signature pool!'' (
     deref rs_pools pool (\<lambda>X.
     assertc (debug E) (rsp_device X \<noteq> NULL) null_device (
     device_table E (rsp_device X) (\<lambda>T.
     checked_proc (debug E) (free_root_signature_pool T) ''free_root_signature_pool Proc Missing!'' (\<lambda>fn.
     fn pool)))))"

definition cgpu_create_descriptor_set ::
    "cgpu_env \<Rightarrow> CGPUDeviceId \<Rightarrow> CGPUDescriptorSetDescriptor \<Rightarrow> CGPUDescriptorSetId vk_prog" where
  "cgpu_create_descriptor_set E device desc =
     assertc (debug E) (device \<noteq> NULL) null_device (
     device_table E device (\<lambda>T.
     checked_proc (debug E) (create_descriptor_set T) ''create_descriptor_set Proc Missing!'' (\<lambda>fn.
     bindP (fn device desc) (\<lambda>obj.
     store desc_sets desc_sets_update obj
       (\<lambda>S. S\<lparr>set_root_signature := dsd_root_signature desc, set_index := dsd_set_index desc\<rparr>) (
     ret obj)))))"

definition cgpu_update_descriptor_set ::
    "cgpu_env \<Rightarrow> CGPUDescriptorSetId \<Rightarrow> CGPUDescriptorData list \<Rightarrow> unit vk_prog" where
  "cgpu_update_descriptor_set E dset datas =
     assertc (debug E) (dset \<noteq> NULL) ''fatal: call on NULL descriptor set!'' (
     deref desc_sets dset (\<lambda>S.
     deref root_sigs (set_root_signature S) (\<lambda>RS.
     assertc (debug E) (rs_device RS \<noteq> NULL) null_device (
     device_table E (rs_device RS) (\<lambda>T.
     checked_proc (debug E) (update_descriptor_set T) ''update_descriptor_set Proc Missing!'' (\<lambda>fn.
     fn dset datas))))))"

definition cgpu_free_descriptor_set ::
    "cgpu_env \<Rightarrow> CGPUDescriptorSetId \<Rightarrow> unit vk_prog" where
  "cgpu_free_descriptor_set E dset =
     assertc (debug E) (dset \<noteq> NULL) ''fatal: call on NULL signature!'' (
     deref desc_sets dset (\<lambda>S.
     deref root_sigs (set_root_signature S) (\<lambda>RS.
     assertc (debug E) (rs_device RS \<noteq> NULL) null_device (
     device_table E (rs_device RS) (\<lambda>T.
     checked_proc (debug E) (free_descriptor_set T) ''free_descriptor_set Proc Missing!'' (\<lambda>fn.
     fn dset))))))"

section \<open>Pipelines\<close>

definition cgpu_create_compute_pipeline ::
    "cgpu_env \<Rightarrow> CGPUDeviceId \<Rightarrow> CGPUComputePipelineDescriptor \<Rightarrow> CGPUComputePipelineId vk_prog" where
  "cgpu_create_compute_pipeline E device desc =
     assertc (debug E) (device \<noteq> NULL) null_device (
     device_table E device (\<lambda>T.
     checked_proc (debug E) (create_compute_pipeline T) ''create_compute_pipeline Proc Missing!'' (\<lambda>fn.
     bindP (fn device desc) (\<lambda>obj.
     store compute_pipelines compute_pipelines_update obj (cpipe_device_update (\<lambda>_. device) \<circ> cpipe_root_signature_update (\<lambda>_. cppd_root_signature desc)) (
     ret obj)))))"

definition cgpu_free_compute_pipeline ::
    "cgpu_env \<Rightarrow> CGPUComputePipelineId \<Rightarrow> unit vk_prog" where
  "cgpu_free_compute_pipeline E pipeline =
     assertc (debug E) (pipeline \<noteq> NULL) ''fatal: call on NULL signature!'' (
     deref compute_pipelines pipeline (\<lambda>X.
     assertc (debug E) (cpipe_device X \<noteq> NULL) null_device (
     device_table E (cpipe_device X) (\<lambda>T.
     checked_proc (debug E) (free_compute_pipeline T) ''free_compute_pipeline Proc Missing!'' (\<lambda>fn.
     fn pipeline)))))"

text \<open>
  The members that the default descriptors do not name are zero: the first enumerator of
  their type. The arrays of the blend state have CGPU_MAX_MRT_COUNT elements.
\<close>

abbreviation (input) CGPU_COLOR_MASK_ALL :: nat where "CGPU_COLOR_MASK_ALL \<equiv> 15"

definition defaultBlendStateDesc :: CGPUBlendStateDescriptor where
  "defaultBlendStateDesc =
     \<lparr>bs_src_factors = CGPU_BLEND_CONST_ONE # replicate (CGPU_MAX_MRT_COUNT - 1) CGPU_BLEND_CONST_ZERO,
      bs_dst_factors = replicate CGPU_MAX_MRT_COUNT CGPU_BLEND_CONST_ZERO,
      bs_src_alpha_factors =
        CGPU_BLEND_CONST_ONE # replicate (CGPU_MAX_MRT_COUNT - 1) CGPU_BLEND_CONST_ZERO,
      bs_dst_alpha_factors = replicate CGPU_MAX_MRT_COUNT CGPU_BLEND_CONST_ZERO,
      bs_blend_modes = replicate CGPU_MAX_MRT_COUNT CGPU_BLEND_MODE_ADD,
      bs_blend_alpha_modes = replicate CGPU_MAX_MRT_COUNT CGPU_BLEND_MODE_ADD,
      bs_masks = CGPU_COLOR_MASK_ALL # replicate (CGPU_MAX_MRT_COUNT - 1) 0,
      bs_alpha_to_coverage = False,
      bs_independent_blend = False\<rparr>"

definition defaultRasterStateDesc :: CGPURasterizerStateDescriptor where
  "defaultRasterStateDesc =
     \<lparr>ras_cull_mode = CGPU_CULL_MODE_BACK, ras_depth_bias = 0, ras_slope_scaled_depth_bias = 0,
      ras_fill_mode = CGPU_FILL_MODE_SOLID, ras_front_face = CGPU_FRONT_FACE_CCW,
      ras_enable_multi_sample = False, ras_enable_scissor = False,
      ras_enable_depth_clamp = False\<rparr>"

definition defaultDepthStateDesc :: CGPUDepthStateDesc where
  "defaultDepthStateDesc =
     \<lparr>dst_depth_test = False, dst_depth_write = False, dst_depth_func = CGPU_CMP_NEVER,
      dst_stencil_test = False, dst_stencil_read_mask = 0, dst_stencil_write_mask = 0,
      dst_stencil_front_func = CGPU_CMP_NEVER, dst_stencil_front_fail = CGPU_STENCIL_OP_KEEP,
      dst_depth_front_fail = CGPU_STENCIL_OP_KEEP, dst_stencil_front_pass = CGPU_STENCIL_OP_KEEP,
      dst_stencil_back_func = CGPU_CMP_NEVER, dst_stencil_back_fail = CGPU_STENCIL_OP_KEEP,
      dst_depth_back_fail = CGPU_STENCIL_OP_KEEP, dst_stencil_back_pass = CGPU_STENCIL_OP_KEEP\<rparr>"

text \<open>The copy of the descriptor that \<open>cgpu_create_render_pipeline\<close> passes on.\<close>

definition normal_render_pipeline_desc ::
    "CGPURenderPipelineDescriptor \<Rightarrow> CGPURenderPipelineDescriptor" where
  "normal_render_pipeline_desc desc =
     desc\<lparr>rppd_sample_count := (if rppd_sample_count desc = 0 then 1 else rppd_sample_count desc),
          rppd_blend_state := (if rppd_blend_state desc = None then Some defaultBlendStateDesc
                               else rppd_blend_state desc),
          rppd_depth_state := (if rppd_depth_state desc = None then Some defaultDepthStateDesc
                               else rppd_depth_state desc),
          rppd_rasterizer_state := (if rppd_rasterizer_state desc = None
                                    then Some defaultRasterStateDesc
                                    else rppd_rasterizer_state desc)\<rparr>"

definition cgpu_create_render_pipeline ::
    "cgpu_env \<Rightarrow> CGPUDeviceId \<Rightarrow> CGPURenderPipelineDescriptor \<Rightarrow> CGPURenderPipelineId vk_prog" where
  "cgpu_create_render_pipeline E device desc =
     assertc (debug E) (device \<noteq> NULL) null_device (
     device_table E device (\<lambda>T.
     checked_proc (debug E) (create_render_pipeline T) ''create_render_pipeline Proc Missing!'' (\<lambda>fn.
     bindP (fn device (normal_render_pipeline_desc desc)) (\<lambda>obj.
     store render_pipelines render_pipelines_update obj
       (\<lambda>P. P\<lparr>rpipe_device := device, rpipe_root_signature := rppd_root_signature desc\<rparr>) (
     ret obj)))))"

definition cgpu_free_render_pipeline ::
    "cgpu_env \<Rightarrow> CGPURenderPipelineId \<Rightarrow> unit vk_prog" where
  "cgpu_free_render_pipeline E pipeline =
     assertc (debug E) (pipeline \<noteq> NULL) ''fatal: call on NULL signature!'' (
     deref render_pipelines pipeline (\<lambda>X.
     assertc (debug E) (rpipe_device X \<noteq> NULL) null_device (
     device_table E (rpipe_device X) (\<lambda>T.
     checked_proc (debug E) (free_render_pipeline T) ''free_render_pipeline Proc Missing!'' (\<lambda>fn.
     fn pipeline)))))"

definition cgpu_create_query_pool ::
    "cgpu_env \<Rightarrow> CGPUDeviceId \<Rightarrow> CGPUQueryPoolDescriptor \<Rightarrow> CGPUQueryPoolId vk_prog" where
  "cgpu_create_query_pool E device desc =
     assertc (debug E) (device \<noteq> NULL) null_device (
     device_table E device (\<lambda>T.
     checked_proc (debug E) (create_query_pool T) ''create_query_pool Proc Missing!'' (\<lambda>fn.
     bindP (fn device desc) (\<lambda>obj.
     store query_pools query_pools_update obj (query_pool_device_update (\<lambda>_. device)) (
     ret obj)))))"

definition cgpu_free_query_pool ::
    "cgpu_env \<Rightarrow> CGPUQueryPoolId \<Rightarrow> unit vk_prog" where
  "cgpu_free_query_pool E pool =
     assertc (debug E) (pool \<noteq> NULL) ''fatal: call on NULL pool!'' (
     deref query_pools pool (\<lambda>X.
     assertc (debug E) (query_pool_device X \<noteq> NULL) null_device (
     device_table E (query_pool_device X) (\<lambda>T.
     checked_proc (debug E) (free_query_pool T) ''free_query_pool Proc Missing!'' (\<lambda>fn.
     fn pool)))))"

section \<open>Devices and queues\<close>

definition cgpu_free_device ::
    "cgpu_env \<Rightarrow> CGPUDeviceId \<Rightarrow> unit vk_prog" where
  "cgpu_free_device E device =
     assertc (debug E) (device \<noteq> NULL) null_device (
     device_table E device (\<lambda>T.
     checked_proc (debug E) (free_device T) ''free_device Proc Missing!'' (\<lambda>fn.
     fn device)))"

text \<open>The assertion names \<open>free_device\<close>, although the procedure called is \<open>get_queue\<close>.\<close>

definition cgpu_get_queue ::
    "cgpu_env \<Rightarrow> CGPUDeviceId \<Rightarrow> ECGPUQueueType \<Rightarrow> nat \<Rightarrow> CGPUQueueId vk_prog" where
  "cgpu_get_queue E device type index =
     assertc (debug E) (device \<noteq> NULL) null_device (
     device_table E device (\<lambda>T.
     assertc (debug E) (free_device T \<noteq> None) ''free_device Proc Missing!'' (
     cgpu_runtime_table_try_get_queue device type index (\<lambda>created.
     if created \<noteq> NULL then ret created
     else
     proc (get_queue T) (\<lambda>fn.
     bindP (fn device type index) (\<lambda>queue.
     store queues queues_update queue
       (\<lambda>Q. Q\<lparr>queue_index := index, queue_type := type, queue_device := device\<rparr>) (
     cgpu_runtime_table_add_queue queue type index (
     ret queue))))))))"

definition cgpu_submit_queue ::
    "cgpu_env \<Rightarrow> CGPUQueueId \<Rightarrow> CGPUQueueSubmitDescriptor option \<Rightarrow> unit vk_prog" where
  "cgpu_submit_queue E queue desc =
     assertc (debug E) (desc \<noteq> None) ''fatal: call on NULL desc!'' (
     assertc (debug E) (queue \<noteq> NULL) null_queue (
     deref queues queue (\<lambda>Q.
     assertc (debug E) (queue_device Q \<noteq> NULL) null_device (
     device_table E (queue_device Q) (\<lambda>T.
     checked_proc (debug E) (submit_queue T) ''submit_queue Proc Missing!'' (\<lambda>fn.
     desc_ptr desc (\<lambda>d.
     fn queue d)))))))"

definition cgpu_queue_present ::
    "cgpu_env \<Rightarrow> CGPUQueueId \<Rightarrow> CGPUQueuePresentDescriptor option \<Rightarrow> unit vk_prog" where
  "cgpu_queue_present E queue desc =
     assertc (debug E) (desc \<noteq> None) ''fatal: call on NULL desc!'' (
     assertc (debug E) (queue \<noteq> NULL) null_queue (
     deref queues queue (\<lambda>Q.
     assertc (debug E) (queue_device Q \<noteq> NULL) null_device (
     device_table E (queue_device Q) (\<lambda>T.
     checked_proc (debug E) (queue_present T) ''queue_present Proc Missing!'' (\<lambda>fn.
     desc_ptr desc (\<lambda>d.
     fn queue d)))))))"

definition cgpu_wait_queue_idle ::
    "cgpu_env \<Rightarrow> CGPUQueueId \<Rightarrow> unit vk_prog" where
  "cgpu_wait_queue_idle E queue =
     assertc (debug E) (queue \<noteq> NULL) null_queue (
     deref queues queue (\<lambda>Q.
     assertc (debug E) (queue_device Q \<noteq> NULL) null_device (
     device_table E (queue_device Q) (\<lambda>T.
     checked_proc (debug E) (wait_queue_idle T) ''wait_queue_idle Proc Missing!'' (\<lambda>fn.
     fn queue)))))"

definition cgpu_queue_get_timestamp_period_ns ::
    "cgpu_env \<Rightarrow> CGPUQueueId \<Rightarrow> f32 vk_prog" where
  "cgpu_queue_get_timestamp_period_ns E queue =
     assertc (debug E) (queue \<noteq> NULL) null_queue (
     deref queues queue (\<lambda>Q.
     assertc (debug E) (queue_device Q \<noteq> NULL) null_device (
     device_table E (queue_device Q) (\<lambda>T.
     checked_proc (debug E) (queue_get_timestamp_period T) ''queue_get_timestamp_period Proc Missing!'' (\<lambda>fn.
     fn queue)))))"

definition cgpu_free_queue ::
    "cgpu_env \<Rightarrow> CGPUQueueId \<Rightarrow> unit vk_prog" where
  "cgpu_free_queue E queue =
     assertc (debug E) (queue \<noteq> NULL) null_queue (
     deref queues queue (\<lambda>Q.
     assertc (debug E) (queue_device Q \<noteq> NULL) null_device (
     device_table E (queue_device Q) (\<lambda>T.
     checked_proc (debug E) (free_queue T) ''free_queue Proc Missing!'' (\<lambda>fn.
     fn queue)))))"

section \<open>Command pools and command buffers\<close>

text \<open>The descriptor of a command pool has no content and is left out.\<close>

definition cgpu_create_command_pool ::
    "cgpu_env \<Rightarrow> CGPUQueueId \<Rightarrow> CGPUCommandPoolId vk_prog" where
  "cgpu_create_command_pool E queue =
     assertc (debug E) (queue \<noteq> NULL) null_queue (
     deref queues queue (\<lambda>Q.
     assertc (debug E) (queue_device Q \<noteq> NULL) null_device (
     device_table E (queue_device Q) (\<lambda>T.
     checked_proc (debug E) (create_command_pool T) ''create_command_pool Proc Missing!'' (\<lambda>fn.
     bindP (fn queue) (\<lambda>obj.
     store cmd_pools cmd_pools_update obj (pool_queue_update (\<lambda>_. queue)) (
     ret obj)))))))"

definition cgpu_create_command_buffer ::
    "cgpu_env \<Rightarrow> CGPUCommandPoolId \<Rightarrow> CGPUCommandBufferDescriptor \<Rightarrow> CGPUCommandBufferId vk_prog" where
  "cgpu_create_command_buffer E pool desc =
     assertc (debug E) (pool \<noteq> NULL) null_pool (
     deref cmd_pools pool (\<lambda>P.
     assertc (debug E) (pool_queue P \<noteq> NULL) null_queue (
     deref queues (pool_queue P) (\<lambda>Q.
     assertc (debug E) (queue_device Q \<noteq> NULL) null_device (
     device_table E (queue_device Q) (\<lambda>T.
     checked_proc (debug E) (create_command_buffer T) ''create_command_buffer Proc Missing!'' (\<lambda>fn.
     bindP (fn pool desc) (\<lambda>obj.
     store cmds cmds_update obj (\<lambda>C. C\<lparr>cmd_pool := pool, cmd_device := queue_device Q\<rparr>) (
     ret obj)))))))))"

definition cgpu_reset_command_pool ::
    "cgpu_env \<Rightarrow> CGPUCommandPoolId \<Rightarrow> unit vk_prog" where
  "cgpu_reset_command_pool E pool =
     assertc (debug E) (pool \<noteq> NULL) null_pool (
     deref cmd_pools pool (\<lambda>P.
     assertc (debug E) (pool_queue P \<noteq> NULL) null_queue (
     deref queues (pool_queue P) (\<lambda>Q.
     assertc (debug E) (queue_device Q \<noteq> NULL) null_device (
     device_table E (queue_device Q) (\<lambda>T.
     checked_proc (debug E) (reset_command_pool T) ''reset_command_pool Proc Missing!'' (\<lambda>fn.
     fn pool)))))))"

definition cgpu_free_command_buffer ::
    "cgpu_env \<Rightarrow> CGPUCommandBufferId \<Rightarrow> unit vk_prog" where
  "cgpu_free_command_buffer E cmd =
     assertc (debug E) (cmd \<noteq> NULL) null_cmd (
     deref cmds cmd (\<lambda>C.
     assertc (debug E) (cmd_pool C \<noteq> NULL) null_pool (
     deref cmd_pools (cmd_pool C) (\<lambda>P.
     assertc (debug E) (pool_queue P \<noteq> NULL) null_queue (
     deref queues (pool_queue P) (\<lambda>Q.
     assertc (debug E) (queue_device Q \<noteq> NULL) null_device (
     device_table E (queue_device Q) (\<lambda>T.
     checked_proc (debug E) (free_command_buffer T) ''free_command_buffer Proc Missing!'' (\<lambda>fn.
     fn cmd)))))))))"

definition cgpu_free_command_pool ::
    "cgpu_env \<Rightarrow> CGPUCommandPoolId \<Rightarrow> unit vk_prog" where
  "cgpu_free_command_pool E pool =
     assertc (debug E) (pool \<noteq> NULL) null_pool (
     deref cmd_pools pool (\<lambda>P.
     assertc (debug E) (pool_queue P \<noteq> NULL) null_queue (
     deref queues (pool_queue P) (\<lambda>Q.
     assertc (debug E) (queue_device Q \<noteq> NULL) null_device (
     device_table E (queue_device Q) (\<lambda>T.
     checked_proc (debug E) (free_command_pool T) ''free_command_pool Proc Missing!'' (\<lambda>fn.
     fn pool)))))))"

section \<open>Commands outside passes\<close>

definition cgpu_cmd_begin ::
    "cgpu_env \<Rightarrow> CGPUCommandBufferId \<Rightarrow> unit vk_prog" where
  "cgpu_cmd_begin E cmd =
     assertc (debug E) (cmd \<noteq> NULL) null_cmd (
     deref cmds cmd (\<lambda>C.
     assertc (debug E) (cmd_device C \<noteq> NULL) null_device (
     device_table E (cmd_device C) (\<lambda>T.
     checked_proc (debug E) (cmd_begin T) ''cmd_begin Proc Missing!'' (\<lambda>fn.
     fn cmd)))))"

definition cgpu_cmd_transfer_buffer_to_buffer ::
    "cgpu_env \<Rightarrow> CGPUCommandBufferId \<Rightarrow> CGPUBufferToBufferTransfer option \<Rightarrow> unit vk_prog" where
  "cgpu_cmd_transfer_buffer_to_buffer E cmd desc =
     assertc (debug E) (cmd \<noteq> NULL) null_cmd (
     deref cmds cmd (\<lambda>C.
     assertc (debug E) (current_dispatch C = CGPU_PIPELINE_TYPE_NONE) transfer_in_pass (
     assertc (debug E) (cmd_device C \<noteq> NULL) null_device (
     assertc (debug E) (desc \<noteq> None) ''fatal: call on NULL cpy_desc!'' (
     desc_ptr desc (\<lambda>d.
     assertc (debug E) (b2b_src d \<noteq> NULL) ''fatal: call on NULL cpy_src!'' (
     assertc (debug E) (b2b_dst d \<noteq> NULL) ''fatal: call on NULL cpy_dst!'' (
     device_table E (cmd_device C) (\<lambda>T.
     checked_proc (debug E) (cmd_transfer_buffer_to_buffer T) ''cmd_transfer_buffer_to_buffer Proc Missing!'' (\<lambda>fn.
     fn cmd d))))))))))"

definition cgpu_cmd_transfer_buffer_to_texture ::
    "cgpu_env \<Rightarrow> CGPUCommandBufferId \<Rightarrow> CGPUBufferToTextureTransfer option \<Rightarrow> unit vk_prog" where
  "cgpu_cmd_transfer_buffer_to_texture E cmd desc =
     assertc (debug E) (cmd \<noteq> NULL) null_cmd (
     deref cmds cmd (\<lambda>C.
     assertc (debug E) (current_dispatch C = CGPU_PIPELINE_TYPE_NONE) transfer_in_pass (
     assertc (debug E) (cmd_device C \<noteq> NULL) null_device (
     assertc (debug E) (desc \<noteq> None) ''fatal: call on NULL cpy_desc!'' (
     desc_ptr desc (\<lambda>d.
     assertc (debug E) (b2t_src d \<noteq> NULL) ''fatal: call on NULL cpy_src!'' (
     assertc (debug E) (b2t_dst d \<noteq> NULL) ''fatal: call on NULL cpy_dst!'' (
     device_table E (cmd_device C) (\<lambda>T.
     checked_proc (debug E) (cmd_transfer_buffer_to_texture T) ''cmd_transfer_buffer_to_texture Proc Missing!'' (\<lambda>fn.
     fn cmd d))))))))))"

definition cgpu_cmd_transfer_texture_to_texture ::
    "cgpu_env \<Rightarrow> CGPUCommandBufferId \<Rightarrow> CGPUTextureToTextureTransfer option \<Rightarrow> unit vk_prog" where
  "cgpu_cmd_transfer_texture_to_texture E cmd desc =
     assertc (debug E) (cmd \<noteq> NULL) null_cmd (
     deref cmds cmd (\<lambda>C.
     assertc (debug E) (current_dispatch C = CGPU_PIPELINE_TYPE_NONE) transfer_in_pass (
     assertc (debug E) (cmd_device C \<noteq> NULL) null_device (
     assertc (debug E) (desc \<noteq> None) ''fatal: call on NULL cpy_desc!'' (
     desc_ptr desc (\<lambda>d.
     assertc (debug E) (t2t_src d \<noteq> NULL) ''fatal: call on NULL cpy_src!'' (
     assertc (debug E) (t2t_dst d \<noteq> NULL) ''fatal: call on NULL cpy_dst!'' (
     device_table E (cmd_device C) (\<lambda>T.
     checked_proc (debug E) (cmd_transfer_texture_to_texture T) ''cmd_transfer_texture_to_texture Proc Missing!'' (\<lambda>fn.
     fn cmd d))))))))))"

definition cgpu_cmd_resource_barrier ::
    "cgpu_env \<Rightarrow> CGPUCommandBufferId \<Rightarrow> CGPUResourceBarrierDescriptor \<Rightarrow> unit vk_prog" where
  "cgpu_cmd_resource_barrier E cmd desc =
     assertc (debug E) (cmd \<noteq> NULL) null_cmd (
     deref cmds cmd (\<lambda>C.
     assertc (debug E) (current_dispatch C = CGPU_PIPELINE_TYPE_NONE) barrier_in_pass (
     assertc (debug E) (cmd_device C \<noteq> NULL) null_device (
     device_table E (cmd_device C) (\<lambda>T.
     checked_proc (debug E) (cmd_resource_barrier T) ''cmd_resource_barrier Proc Missing!'' (\<lambda>fn.
     fn cmd desc))))))"

definition cgpu_cmd_begin_query ::
    "cgpu_env \<Rightarrow> CGPUCommandBufferId \<Rightarrow> CGPUQueryPoolId \<Rightarrow> CGPUQueryDescriptor \<Rightarrow> unit vk_prog" where
  "cgpu_cmd_begin_query E cmd pool desc =
     assertc (debug E) (cmd \<noteq> NULL) null_cmd (
     deref cmds cmd (\<lambda>C.
     assertc (debug E) (cmd_device C \<noteq> NULL) null_device (
     device_table E (cmd_device C) (\<lambda>T.
     checked_proc (debug E) (cmd_begin_query T) ''cmd_begin_query Proc Missing!'' (\<lambda>fn.
     fn cmd pool desc)))))"

definition cgpu_cmd_end_query ::
    "cgpu_env \<Rightarrow> CGPUCommandBufferId \<Rightarrow> CGPUQueryPoolId \<Rightarrow> CGPUQueryDescriptor \<Rightarrow> unit vk_prog" where
  "cgpu_cmd_end_query E cmd pool desc =
     assertc (debug E) (cmd \<noteq> NULL) null_cmd (
     deref cmds cmd (\<lambda>C.
     assertc (debug E) (cmd_device C \<noteq> NULL) null_device (
     device_table E (cmd_device C) (\<lambda>T.
     checked_proc (debug E) (cmd_end_query T) ''cmd_end_query Proc Missing!'' (\<lambda>fn.
     fn cmd pool desc)))))"

definition cgpu_cmd_reset_query_pool ::
    "cgpu_env \<Rightarrow> CGPUCommandBufferId \<Rightarrow> CGPUQueryPoolId \<Rightarrow> nat \<Rightarrow> nat \<Rightarrow> unit vk_prog" where
  "cgpu_cmd_reset_query_pool E cmd pool start_query query_count =
     assertc (debug E) (pool \<noteq> NULL) null_pool (
     deref query_pools pool (\<lambda>P.
     assertc (debug E) (query_pool_device P \<noteq> NULL) null_device (
     device_table E (query_pool_device P) (\<lambda>T.
     checked_proc (debug E) (cmd_reset_query_pool T) ''reset_query_pool Proc Missing!'' (\<lambda>fn.
     fn cmd pool start_query query_count)))))"

definition cgpu_cmd_resolve_query ::
    "cgpu_env \<Rightarrow> CGPUCommandBufferId \<Rightarrow> CGPUQueryPoolId \<Rightarrow> CGPUBufferId \<Rightarrow> nat \<Rightarrow> nat \<Rightarrow> unit vk_prog" where
  "cgpu_cmd_resolve_query E cmd pool readback start_query query_count =
     assertc (debug E) (cmd \<noteq> NULL) null_cmd (
     deref cmds cmd (\<lambda>C.
     assertc (debug E) (cmd_device C \<noteq> NULL) null_device (
     device_table E (cmd_device C) (\<lambda>T.
     checked_proc (debug E) (cmd_resolve_query T) ''cmd_resolve_query Proc Missing!'' (\<lambda>fn.
     fn cmd pool readback start_query query_count)))))"

definition cgpu_cmd_end ::
    "cgpu_env \<Rightarrow> CGPUCommandBufferId \<Rightarrow> unit vk_prog" where
  "cgpu_cmd_end E cmd =
     assertc (debug E) (cmd \<noteq> NULL) null_cmd (
     deref cmds cmd (\<lambda>C.
     assertc (debug E) (cmd_device C \<noteq> NULL) null_device (
     device_table E (cmd_device C) (\<lambda>T.
     checked_proc (debug E) (cmd_end T) ''cmd_end Proc Missing!'' (\<lambda>fn.
     fn cmd)))))"

section \<open>Compute passes\<close>

text \<open>An encoder is the command buffer itself: the backends cast one to the other.\<close>

definition cgpu_cmd_begin_compute_pass ::
    "cgpu_env \<Rightarrow> CGPUCommandBufferId \<Rightarrow> CGPUComputePassDescriptor \<Rightarrow> CGPUComputePassEncoderId vk_prog" where
  "cgpu_cmd_begin_compute_pass E cmd desc =
     assertc (debug E) (cmd \<noteq> NULL) null_cmd (
     deref cmds cmd (\<lambda>C.
     assertc (debug E) (cmd_device C \<noteq> NULL) null_device (
     device_table E (cmd_device C) (\<lambda>T.
     checked_proc (debug E) (cmd_begin_compute_pass T) ''cmd_begin_compute_pass Proc Missing!'' (\<lambda>fn.
     bindP (fn cmd desc) (\<lambda>ecd.
     store cmds cmds_update cmd (current_dispatch_update (\<lambda>_. CGPU_PIPELINE_TYPE_COMPUTE)) (
     ret ecd)))))))"

definition cgpu_compute_encoder_bind_descriptor_set ::
    "cgpu_env \<Rightarrow> CGPUComputePassEncoderId \<Rightarrow> CGPUDescriptorSetId \<Rightarrow> unit vk_prog" where
  "cgpu_compute_encoder_bind_descriptor_set E encoder dset =
     assertc (debug E) (encoder \<noteq> NULL) null_encoder (
     assertc (debug E) (dset \<noteq> NULL) ''fatal: call on NULL descriptor!'' (
     deref cmds encoder (\<lambda>C.
     assertc (debug E) (cmd_device C \<noteq> NULL) null_device (
     device_table E (cmd_device C) (\<lambda>T.
     checked_proc (debug E) (compute_encoder_bind_descriptor_set T) ''compute_encoder_bind_descriptor_set Proc Missing!'' (\<lambda>fn.
     fn encoder dset))))))"

definition cgpu_compute_encoder_push_constants ::
    "cgpu_env \<Rightarrow> CGPUComputePassEncoderId \<Rightarrow> CGPURootSignatureId \<Rightarrow> string \<Rightarrow> ptr \<Rightarrow> unit vk_prog" where
  "cgpu_compute_encoder_push_constants E encoder rs name data =
     deref cmds encoder (\<lambda>C.
     assertc (debug E) (cmd_device C \<noteq> NULL) null_device (
     device_table E (cmd_device C) (\<lambda>T.
     checked_proc (debug E) (compute_encoder_push_constants T) ''compute_encoder_push_constants Proc Missing!'' (\<lambda>fn.
     fn encoder rs name data))))"

definition cgpu_compute_encoder_bind_pipeline ::
    "cgpu_env \<Rightarrow> CGPUComputePassEncoderId \<Rightarrow> CGPUComputePipelineId \<Rightarrow> unit vk_prog" where
  "cgpu_compute_encoder_bind_pipeline E encoder pipeline =
     deref cmds encoder (\<lambda>C.
     assertc (debug E) (cmd_device C \<noteq> NULL) null_device (
     device_table E (cmd_device C) (\<lambda>T.
     checked_proc (debug E) (compute_encoder_bind_pipeline T) ''compute_encoder_bind_pipeline Proc Missing!'' (\<lambda>fn.
     fn encoder pipeline))))"

definition cgpu_compute_encoder_dispatch ::
    "cgpu_env \<Rightarrow> CGPUComputePassEncoderId \<Rightarrow> nat \<Rightarrow> nat \<Rightarrow> nat \<Rightarrow> unit vk_prog" where
  "cgpu_compute_encoder_dispatch E encoder X Y Z =
     deref cmds encoder (\<lambda>C.
     assertc (debug E) (cmd_device C \<noteq> NULL) null_device (
     device_table E (cmd_device C) (\<lambda>T.
     checked_proc (debug E) (compute_encoder_dispatch T) ''compute_encoder_dispatch Proc Missing!'' (\<lambda>fn.
     fn encoder X Y Z))))"

definition cgpu_cmd_end_compute_pass ::
    "cgpu_env \<Rightarrow> CGPUCommandBufferId \<Rightarrow> CGPUComputePassEncoderId \<Rightarrow> unit vk_prog" where
  "cgpu_cmd_end_compute_pass E cmd encoder =
     assertc (debug E) (cmd \<noteq> NULL) null_cmd (
     deref cmds cmd (\<lambda>C.
     assertc (debug E) (cmd_device C \<noteq> NULL) null_device (
     assertc (debug E) (current_dispatch C = CGPU_PIPELINE_TYPE_COMPUTE) ''fatal: can't call end command pass on commnd buffer while not dispatching compute!'' (
     device_table E (cmd_device C) (\<lambda>T.
     checked_proc (debug E) (cmd_end_compute_pass T) ''cmd_end_compute_pass Proc Missing!'' (\<lambda>fn.
     bindP (fn cmd encoder) (\<lambda>_.
     store cmds cmds_update cmd (current_dispatch_update (\<lambda>_. CGPU_PIPELINE_TYPE_NONE)) (
     ret ()))))))))"

section \<open>Render passes\<close>

definition cgpu_cmd_begin_render_pass ::
    "cgpu_env \<Rightarrow> CGPUCommandBufferId \<Rightarrow> CGPURenderPassDescriptor \<Rightarrow> CGPURenderPassEncoderId vk_prog" where
  "cgpu_cmd_begin_render_pass E cmd desc =
     assertc (debug E) (cmd \<noteq> NULL) null_cmd (
     deref cmds cmd (\<lambda>C.
     assertc (debug E) (cmd_device C \<noteq> NULL) null_device (
     device_table E (cmd_device C) (\<lambda>T.
     checked_proc (debug E) (cmd_begin_render_pass T) ''cmd_begin_render_pass Proc Missing!'' (\<lambda>fn.
     bindP (fn cmd desc) (\<lambda>ecd.
     store cmds cmds_update cmd (current_dispatch_update (\<lambda>_. CGPU_PIPELINE_TYPE_GRAPHICS)) (
     ret ecd)))))))"

definition cgpu_render_encoder_bind_descriptor_set ::
    "cgpu_env \<Rightarrow> CGPURenderPassEncoderId \<Rightarrow> CGPUDescriptorSetId \<Rightarrow> unit vk_prog" where
  "cgpu_render_encoder_bind_descriptor_set E encoder dset =
     assertc (debug E) (encoder \<noteq> NULL) null_encoder (
     assertc (debug E) (dset \<noteq> NULL) ''fatal: call on NULL descriptor!'' (
     deref cmds encoder (\<lambda>C.
     assertc (debug E) (cmd_device C \<noteq> NULL) null_device (
     device_table E (cmd_device C) (\<lambda>T.
     checked_proc (debug E) (render_encoder_bind_descriptor_set T) ''render_encoder_bind_descriptor_set Proc Missing!'' (\<lambda>fn.
     fn encoder dset))))))"

text \<open>The buffer count is the length of the buffer array.\<close>

definition cgpu_render_encoder_bind_vertex_buffers ::
    "cgpu_env \<Rightarrow> CGPURenderPassEncoderId \<Rightarrow> CGPUBufferId list option \<Rightarrow> nat list option \<Rightarrow> nat list option \<Rightarrow> unit vk_prog" where
  "cgpu_render_encoder_bind_vertex_buffers E encoder bufs strides offsets =
     assertc (debug E) (encoder \<noteq> NULL) null_encoder (
     assertc (debug E) (bufs \<noteq> None) ''fatal: call on NULL buffers!'' (
     deref cmds encoder (\<lambda>C.
     assertc (debug E) (cmd_device C \<noteq> NULL) null_device (
     device_table E (cmd_device C) (\<lambda>T.
     checked_proc (debug E) (render_encoder_bind_vertex_buffers T) ''render_encoder_bind_vertex_buffers Proc Missing!'' (\<lambda>fn.
     desc_ptr bufs (\<lambda>bs.
     fn encoder bs strides offsets)))))))"

definition cgpu_render_encoder_bind_index_buffer ::
    "cgpu_env \<Rightarrow> CGPURenderPassEncoderId \<Rightarrow> CGPUBufferId \<Rightarrow> nat \<Rightarrow> nat \<Rightarrow> unit vk_prog" where
  "cgpu_render_encoder_bind_index_buffer E encoder buffer index_stride offset =
     assertc (debug E) (encoder \<noteq> NULL) null_encoder (
     assertc (debug E) (buffer \<noteq> NULL) ''fatal: call on NULL buffer!'' (
     deref cmds encoder (\<lambda>C.
     assertc (debug E) (cmd_device C \<noteq> NULL) null_device (
     device_table E (cmd_device C) (\<lambda>T.
     checked_proc (debug E) (render_encoder_bind_index_buffer T) ''render_encoder_bind_index_buffer Proc Missing!'' (\<lambda>fn.
     fn encoder buffer index_stride offset))))))"

definition cgpu_render_encoder_set_viewport ::
    "cgpu_env \<Rightarrow> CGPURenderPassEncoderId \<Rightarrow> f32 \<Rightarrow> f32 \<Rightarrow> f32 \<Rightarrow> f32 \<Rightarrow> f32 \<Rightarrow> f32 \<Rightarrow> unit vk_prog" where
  "cgpu_render_encoder_set_viewport E encoder x y width height min_depth max_depth =
     deref cmds encoder (\<lambda>C.
     assertc (debug E) (cmd_device C \<noteq> NULL) null_device (
     device_table E (cmd_device C) (\<lambda>T.
     checked_proc (debug E) (render_encoder_set_viewport T) ''render_encoder_set_viewport Proc Missing!'' (\<lambda>fn.
     fn encoder x y width height min_depth max_depth))))"

definition cgpu_render_encoder_set_scissor ::
    "cgpu_env \<Rightarrow> CGPURenderPassEncoderId \<Rightarrow> nat \<Rightarrow> nat \<Rightarrow> nat \<Rightarrow> nat \<Rightarrow> unit vk_prog" where
  "cgpu_render_encoder_set_scissor E encoder x y width height =
     deref cmds encoder (\<lambda>C.
     assertc (debug E) (cmd_device C \<noteq> NULL) null_device (
     device_table E (cmd_device C) (\<lambda>T.
     checked_proc (debug E) (render_encoder_set_scissor T) ''render_encoder_set_scissor Proc Missing!'' (\<lambda>fn.
     fn encoder x y width height))))"

definition cgpu_render_encoder_bind_pipeline ::
    "cgpu_env \<Rightarrow> CGPURenderPassEncoderId \<Rightarrow> CGPURenderPipelineId \<Rightarrow> unit vk_prog" where
  "cgpu_render_encoder_bind_pipeline E encoder pipeline =
     deref cmds encoder (\<lambda>C.
     assertc (debug E) (cmd_device C \<noteq> NULL) null_device (
     device_table E (cmd_device C) (\<lambda>T.
     checked_proc (debug E) (render_encoder_bind_pipeline T) ''render_encoder_bind_pipeline Proc Missing!'' (\<lambda>fn.
     fn encoder pipeline))))"

definition cgpu_render_encoder_push_constants ::
    "cgpu_env \<Rightarrow> CGPURenderPassEncoderId \<Rightarrow> CGPURootSignatureId \<Rightarrow> string \<Rightarrow> ptr \<Rightarrow> unit vk_prog" where
  "cgpu_render_encoder_push_constants E encoder rs name data =
     deref cmds encoder (\<lambda>C.
     assertc (debug E) (cmd_device C \<noteq> NULL) null_device (
     device_table E (cmd_device C) (\<lambda>T.
     checked_proc (debug E) (render_encoder_push_constants T) ''render_encoder_push_constants Proc Missing!'' (\<lambda>fn.
     fn encoder rs name data))))"

definition cgpu_render_encoder_draw ::
    "cgpu_env \<Rightarrow> CGPURenderPassEncoderId \<Rightarrow> nat \<Rightarrow> nat \<Rightarrow> unit vk_prog" where
  "cgpu_render_encoder_draw E encoder vertex_count first_vertex =
     deref cmds encoder (\<lambda>C.
     assertc (debug E) (cmd_device C \<noteq> NULL) null_device (
     device_table E (cmd_device C) (\<lambda>T.
     checked_proc (debug E) (render_encoder_draw T) ''render_encoder_draw Proc Missing!'' (\<lambda>fn.
     fn encoder vertex_count first_vertex))))"

definition cgpu_render_encoder_draw_instanced ::
    "cgpu_env \<Rightarrow> CGPURenderPassEncoderId \<Rightarrow> nat \<Rightarrow> nat \<Rightarrow> nat \<Rightarrow> nat \<Rightarrow> unit vk_prog" where
  "cgpu_render_encoder_draw_instanced E encoder vertex_count first_vertex instance_count first_instance =
     deref cmds encoder (\<lambda>C.
     assertc (debug E) (cmd_device C \<noteq> NULL) null_device (
     device_table E (cmd_device C) (\<lambda>T.
     checked_proc (debug E) (render_encoder_draw_instanced T) ''render_encoder_draw_instanced Proc Missing!'' (\<lambda>fn.
     fn encoder vertex_count first_vertex instance_count first_instance))))"

definition cgpu_render_encoder_draw_indexed ::
    "cgpu_env \<Rightarrow> CGPURenderPassEncoderId \<Rightarrow> nat \<Rightarrow> nat \<Rightarrow> nat \<Rightarrow> unit vk_prog" where
  "cgpu_render_encoder_draw_indexed E encoder index_count first_index first_vertex =
     deref cmds encoder (\<lambda>C.
     assertc (debug E) (cmd_device C \<noteq> NULL) null_device (
     device_table E (cmd_device C) (\<lambda>T.
     checked_proc (debug E) (render_encoder_draw_indexed T) ''render_encoder_draw_indexed Proc Missing!'' (\<lambda>fn.
     fn encoder index_count first_index first_vertex))))"

definition cgpu_render_encoder_draw_indexed_instanced ::
    "cgpu_env \<Rightarrow> CGPURenderPassEncoderId \<Rightarrow> nat \<Rightarrow> nat \<Rightarrow> nat \<Rightarrow> nat \<Rightarrow> nat \<Rightarrow> unit vk_prog" where
  "cgpu_render_encoder_draw_indexed_instanced E encoder index_count first_index instance_count first_instance first_vertex =
     deref cmds encoder (\<lambda>C.
     assertc (debug E) (cmd_device C \<noteq> NULL) null_device (
     device_table E (cmd_device C) (\<lambda>T.
     checked_proc (debug E) (render_encoder_draw_indexed_instanced T) ''render_encoder_draw_indexed_instanced Proc Missing!'' (\<lambda>fn.
     fn encoder index_count first_index instance_count first_instance first_vertex))))"

definition cgpu_cmd_end_render_pass ::
    "cgpu_env \<Rightarrow> CGPUCommandBufferId \<Rightarrow> CGPURenderPassEncoderId \<Rightarrow> unit vk_prog" where
  "cgpu_cmd_end_render_pass E cmd encoder =
     assertc (debug E) (cmd \<noteq> NULL) null_cmd (
     deref cmds cmd (\<lambda>C.
     assertc (debug E) (cmd_device C \<noteq> NULL) null_device (
     assertc (debug E) (current_dispatch C = CGPU_PIPELINE_TYPE_GRAPHICS) ''fatal: can't call end command pass on commnd buffer while not dispatching graphics!'' (
     device_table E (cmd_device C) (\<lambda>T.
     checked_proc (debug E) (cmd_end_render_pass T) ''cmd_end_render_pass Proc Missing!'' (\<lambda>fn.
     bindP (fn cmd encoder) (\<lambda>_.
     store cmds cmds_update cmd (current_dispatch_update (\<lambda>_. CGPU_PIPELINE_TYPE_NONE)) (
     ret ()))))))))"

section \<open>Events\<close>

text \<open>These three call the procedure without the assertion that it is there.\<close>

definition cgpu_cmd_begin_event ::
    "cgpu_env \<Rightarrow> CGPUCommandBufferId \<Rightarrow> CGPUEventInfo \<Rightarrow> unit vk_prog" where
  "cgpu_cmd_begin_event E cmd event =
     assertc (debug E) (cmd \<noteq> NULL) null_cmd (
     deref cmds cmd (\<lambda>C.
     assertc (debug E) (cmd_device C \<noteq> NULL) null_device (
     device_table E (cmd_device C) (\<lambda>T.
     proc (cmd_begin_event T) (\<lambda>fn.
     fn cmd event)))))"

definition cgpu_cmd_set_marker ::
    "cgpu_env \<Rightarrow> CGPUCommandBufferId \<Rightarrow> CGPUMarkerInfo \<Rightarrow> unit vk_prog" where
  "cgpu_cmd_set_marker E cmd marker =
     assertc (debug E) (cmd \<noteq> NULL) null_cmd (
     deref cmds cmd (\<lambda>C.
     assertc (debug E) (cmd_device C \<noteq> NULL) null_device (
     device_table E (cmd_device C) (\<lambda>T.
     proc (cmd_set_marker T) (\<lambda>fn.
     fn cmd marker)))))"

definition cgpu_cmd_end_event ::
    "cgpu_env \<Rightarrow> CGPUCommandBufferId \<Rightarrow> unit vk_prog" where
  "cgpu_cmd_end_event E cmd =
     assertc (debug E) (cmd \<noteq> NULL) null_cmd (
     deref cmds cmd (\<lambda>C.
     assertc (debug E) (cmd_device C \<noteq> NULL) null_device (
     device_table E (cmd_device C) (\<lambda>T.
     proc (cmd_end_event T) (\<lambda>fn.
     fn cmd)))))"

section \<open>Shader libraries, buffers, samplers and textures\<close>

definition cgpu_create_shader_library ::
    "cgpu_env \<Rightarrow> CGPUDeviceId \<Rightarrow> CGPUShaderLibraryDescriptor \<Rightarrow> CGPUShaderLibraryId vk_prog" where
  "cgpu_create_shader_library E device desc =
     assertc (debug E) (device \<noteq> NULL) null_device (
     device_table E device (\<lambda>T.
     checked_proc (debug E) (create_shader_library T) ''create_shader_library Proc Missing!'' (\<lambda>fn.
     bindP (fn device desc) (\<lambda>obj.
     store libraries libraries_update obj (library_device_update (\<lambda>_. device) \<circ> library_name_update (\<lambda>_. sld_name desc)) (
     ret obj)))))"

definition cgpu_free_shader_library ::
    "cgpu_env \<Rightarrow> CGPUShaderLibraryId \<Rightarrow> unit vk_prog" where
  "cgpu_free_shader_library E library =
     assertc (debug E) (library \<noteq> NULL) ''fatal: call on NULL shader library!'' (
     deref libraries library (\<lambda>X.
     assertc (debug E) (library_device X \<noteq> NULL) null_device (
     device_table E (library_device X) (\<lambda>T.
     checked_proc (debug E) (free_shader_library T) ''free_shader_library Proc Missing!'' (\<lambda>fn.
     fn library)))))"

text \<open>The copy of the descriptor that \<open>cgpu_create_buffer\<close> passes on.\<close>

definition normal_buffer_desc :: "CGPUBufferDescriptor \<Rightarrow> CGPUBufferDescriptor" where
  "normal_buffer_desc desc =
     desc\<lparr>bd_flags := (if bd_flags desc = 0 then bd_flags desc OR CGPU_BCF_NONE else bd_flags desc)\<rparr>"

definition cgpu_create_buffer ::
    "cgpu_env \<Rightarrow> CGPUDeviceId \<Rightarrow> CGPUBufferDescriptor \<Rightarrow> CGPUBufferId vk_prog" where
  "cgpu_create_buffer E device desc =
     assertc (debug E) (device \<noteq> NULL) null_device (
     device_table E device (\<lambda>T.
     checked_proc (debug E) (create_buffer T) ''create_buffer Proc Missing!'' (\<lambda>fn.
     bindP (fn device (normal_buffer_desc desc)) (\<lambda>obj.
     store buffers buffers_update obj (buffer_device_update (\<lambda>_. device)) (
     ret obj)))))"

definition cgpu_map_buffer ::
    "cgpu_env \<Rightarrow> CGPUBufferId \<Rightarrow> CGPUBufferRange option \<Rightarrow> unit vk_prog" where
  "cgpu_map_buffer E buffer rng =
     assertc (debug E) (buffer \<noteq> NULL) ''fatal: call on NULL buffer!'' (
     deref buffers buffer (\<lambda>X.
     assertc (debug E) (buffer_device X \<noteq> NULL) null_device (
     device_table E (buffer_device X) (\<lambda>T.
     checked_proc (debug E) (map_buffer T) ''map_buffer Proc Missing!'' (\<lambda>fn.
     fn buffer rng)))))"

definition cgpu_unmap_buffer ::
    "cgpu_env \<Rightarrow> CGPUBufferId \<Rightarrow> unit vk_prog" where
  "cgpu_unmap_buffer E buffer =
     assertc (debug E) (buffer \<noteq> NULL) ''fatal: call on NULL buffer!'' (
     deref buffers buffer (\<lambda>X.
     assertc (debug E) (buffer_device X \<noteq> NULL) null_device (
     device_table E (buffer_device X) (\<lambda>T.
     checked_proc (debug E) (unmap_buffer T) ''unmap_buffer Proc Missing!'' (\<lambda>fn.
     fn buffer)))))"

definition cgpu_free_buffer ::
    "cgpu_env \<Rightarrow> CGPUBufferId \<Rightarrow> unit vk_prog" where
  "cgpu_free_buffer E buffer =
     assertc (debug E) (buffer \<noteq> NULL) ''fatal: call on NULL buffer!'' (
     deref buffers buffer (\<lambda>X.
     assertc (debug E) (buffer_device X \<noteq> NULL) null_device (
     device_table E (buffer_device X) (\<lambda>T.
     checked_proc (debug E) (free_buffer T) ''free_buffer Proc Missing!'' (\<lambda>fn.
     fn buffer)))))"

text \<open>The copy of the descriptor that \<open>cgpu_create_texture\<close> passes on.\<close>

definition normal_texture_desc :: "CGPUTextureDescriptor \<Rightarrow> CGPUTextureDescriptor" where
  "normal_texture_desc desc =
     desc\<lparr>td_array_size := (if td_array_size desc = 0 then 1 else td_array_size desc),
          td_mip_levels := (if td_mip_levels desc = 0 then 1 else td_mip_levels desc),
          td_depth := (if td_depth desc = 0 then 1 else td_depth desc),
          td_sample_count := (if td_sample_count desc = 0 then 1 else td_sample_count desc)\<rparr>"

definition cgpu_create_texture ::
    "cgpu_env \<Rightarrow> CGPUDeviceId \<Rightarrow> CGPUTextureDescriptor \<Rightarrow> CGPUTextureId vk_prog" where
  "cgpu_create_texture E device desc =
     assertc (debug E) (device \<noteq> NULL) null_device (
     device_table E device (\<lambda>T.
     checked_proc (debug E) (create_texture T) ''create_texture Proc Missing!'' (\<lambda>fn.
     bindP (fn device (normal_texture_desc desc)) (\<lambda>obj.
     store textures textures_update obj
       (\<lambda>X. X\<lparr>texture_device := device, texture_sample_count := td_sample_count desc\<rparr>) (
     ret obj)))))"

definition cgpu_free_texture ::
    "cgpu_env \<Rightarrow> CGPUTextureId \<Rightarrow> unit vk_prog" where
  "cgpu_free_texture E texture =
     assertc (debug E) (texture \<noteq> NULL) ''fatal: call on NULL texture!'' (
     deref textures texture (\<lambda>X.
     assertc (debug E) (texture_device X \<noteq> NULL) null_device (
     device_table E (texture_device X) (\<lambda>T.
     checked_proc (debug E) (free_texture T) ''free_texture Proc Missing!'' (\<lambda>fn.
     fn texture)))))"

definition cgpu_create_sampler ::
    "cgpu_env \<Rightarrow> CGPUDeviceId \<Rightarrow> CGPUSamplerDescriptor \<Rightarrow> CGPUSamplerId vk_prog" where
  "cgpu_create_sampler E device desc =
     assertc (debug E) (device \<noteq> NULL) null_device (
     device_table E device (\<lambda>T.
     checked_proc (debug E) (create_sampler T) ''create_sampler Proc Missing!'' (\<lambda>fn.
     bindP (fn device desc) (\<lambda>obj.
     store samplers samplers_update obj (sampler_device_update (\<lambda>_. device)) (
     ret obj)))))"

definition cgpu_free_sampler ::
    "cgpu_env \<Rightarrow> CGPUSamplerId \<Rightarrow> unit vk_prog" where
  "cgpu_free_sampler E sampler =
     assertc (debug E) (sampler \<noteq> NULL) ''fatal: call on NULL sampler!'' (
     deref samplers sampler (\<lambda>X.
     assertc (debug E) (sampler_device X \<noteq> NULL) null_device (
     device_table E (sampler_device X) (\<lambda>T.
     checked_proc (debug E) (free_sampler T) ''free_sampler Proc Missing!'' (\<lambda>fn.
     fn sampler)))))"

text \<open>The copy of the descriptor that \<open>cgpu_create_texture_view\<close> passes on.\<close>

definition normal_texture_view_desc :: "CGPUTextureViewDescriptor \<Rightarrow> CGPUTextureViewDescriptor" where
  "normal_texture_view_desc desc =
     desc\<lparr>tvd_array_layer_count :=
            (if tvd_array_layer_count desc = 0 then 1 else tvd_array_layer_count desc),
          tvd_mip_level_count :=
            (if tvd_mip_level_count desc = 0 then 1 else tvd_mip_level_count desc)\<rparr>"

definition cgpu_create_texture_view ::
    "cgpu_env \<Rightarrow> CGPUDeviceId \<Rightarrow> CGPUTextureViewDescriptor \<Rightarrow> CGPUTextureViewId vk_prog" where
  "cgpu_create_texture_view E device desc =
     assertc (debug E) (device \<noteq> NULL) null_device (
     device_table E device (\<lambda>T.
     checked_proc (debug E) (create_texture_view T) ''create_texture_view Proc Missing!'' (\<lambda>fn.
     bindP (fn device (normal_texture_view_desc desc)) (\<lambda>obj.
     store texture_views texture_views_update obj
       (\<lambda>X. X\<lparr>view_device := device, view_info := desc\<rparr>) (
     ret obj)))))"

definition cgpu_free_texture_view ::
    "cgpu_env \<Rightarrow> CGPUTextureViewId \<Rightarrow> unit vk_prog" where
  "cgpu_free_texture_view E render_target =
     assertc (debug E) (render_target \<noteq> NULL) ''fatal: call on NULL render_target!'' (
     deref texture_views render_target (\<lambda>X.
     assertc (debug E) (view_device X \<noteq> NULL) null_device (
     device_table E (view_device X) (\<lambda>T.
     checked_proc (debug E) (free_texture_view T) ''free_texture_view Proc Missing!'' (\<lambda>fn.
     fn render_target)))))"

definition cgpu_try_bind_aliasing_texture ::
    "cgpu_env \<Rightarrow> CGPUDeviceId \<Rightarrow> CGPUTextureAliasingBindDescriptor \<Rightarrow> bool vk_prog" where
  "cgpu_try_bind_aliasing_texture E device desc =
     assertc (debug E) (device \<noteq> NULL) null_device (
     device_table E device (\<lambda>T.
     checked_proc (debug E) (try_bind_aliasing_texture T) ''try_bind_aliasing_texture Proc Missing!'' (\<lambda>fn.
     fn device desc)))"

section \<open>Swapchains\<close>

definition cgpu_create_swapchain ::
    "cgpu_env \<Rightarrow> CGPUDeviceId \<Rightarrow> CGPUSwapChainDescriptor \<Rightarrow> CGPUSwapChainId vk_prog" where
  "cgpu_create_swapchain E device desc =
     assertc (debug E) (device \<noteq> NULL) null_device (
     device_table E device (\<lambda>T.
     assertc (debug E) (create_swapchain T \<noteq> None) ''create_swapchain Proc Missing!'' (
     assertc (debug E)
       (if scd_presentQueues desc = None then scd_presentQueuesCount desc \<le> 0
        else 0 < scd_presentQueuesCount desc)
       ''fatal cgpu_create_swapchain: queue array & queue coutn dismatch!'' (
     proc (create_swapchain T) (\<lambda>fn.
     bindP (fn device desc) (\<lambda>obj.
     assertc (debug E) (obj \<noteq> NULL) ''fatal cgpu_create_swapchain: NULL swapchain id returned from backend.'' (
     store swapchains swapchains_update obj (swapchain_device_update (\<lambda>_. device)) (
     ret obj))))))))"

definition cgpu_acquire_next_image ::
    "cgpu_env \<Rightarrow> CGPUSwapChainId \<Rightarrow> CGPUAcquireNextDescriptor \<Rightarrow> u32 vk_prog" where
  "cgpu_acquire_next_image E swapchain desc =
     assertc (debug E) (swapchain \<noteq> NULL) ''fatal: call on NULL swapchain!'' (
     deref swapchains swapchain (\<lambda>S.
     assertc (debug E) (swapchain_device S \<noteq> NULL) null_device (
     device_table E (swapchain_device S) (\<lambda>T.
     checked_proc (debug E) (acquire_next_image T) ''acquire_next_image Proc Missing!'' (\<lambda>fn.
     fn swapchain desc)))))"

text \<open>The assertion names \<open>create_swapchain\<close>, although the procedure called is \<open>free_swapchain\<close>.\<close>

definition cgpu_free_swapchain ::
    "cgpu_env \<Rightarrow> CGPUSwapChainId \<Rightarrow> unit vk_prog" where
  "cgpu_free_swapchain E swapchain =
     assertc (debug E) (swapchain \<noteq> NULL) ''fatal: call on NULL swapchain!'' (
     deref swapchains swapchain (\<lambda>S.
     assertc (debug E) (swapchain_device S \<noteq> NULL) null_device (
     device_table E (swapchain_device S) (\<lambda>T.
     assertc (debug E) (create_swapchain T \<noteq> None) ''create_swapchain Proc Missing!'' (
     proc (free_swapchain T) (\<lambda>fn.
     fn swapchain))))))"

section \<open>Helpers on top\<close>

text \<open>\<open>DECLARE_ZERO\<close>: every member that is not set below is zero.\<close>

definition zero_buffer_desc :: CGPUBufferDescriptor where
  "zero_buffer_desc =
     \<lparr>bd_size = 0, bd_name = None, bd_descriptors = 0, bd_memory_usage = CGPU_MEM_USAGE_UNKNOWN,
      bd_format = CGPU_FORMAT_UNDEFINED, bd_flags = 0, bd_first_element = 0, bd_elemet_count = 0,
      bd_element_stride = 0, bd_start_state = CGPU_RESOURCE_STATE_UNDEFINED,
      bd_prefer_on_device = False, bd_prefer_on_host = False\<rparr>"

definition cgpux_create_mapped_constant_buffer ::
    "cgpu_env \<Rightarrow> CGPUDeviceId \<Rightarrow> nat \<Rightarrow> string option \<Rightarrow> bool \<Rightarrow> CGPUBufferId vk_prog" where
  "cgpux_create_mapped_constant_buffer E device bytes name device_local_preferred =
     deref devices device (\<lambda>D.
     bindP (cgpu_query_adapter_detail E (device_adapter D)) (\<lambda>detail.
     cgpu_create_buffer E device
       (zero_buffer_desc\<lparr>bd_descriptors := CGPU_RESOURCE_TYPE_BUFFER, bd_size := bytes,
          bd_name := name,
          bd_memory_usage := (if device_local_preferred \<and> support_host_visible_vram detail
                              then CGPU_MEM_USAGE_GPU_ONLY else CGPU_MEM_USAGE_CPU_TO_GPU),
          bd_flags := CGPU_BCF_PERSISTENT_MAP_BIT OR CGPU_BCF_HOST_VISIBLE,
          bd_start_state := CGPU_RESOURCE_STATE_VERTEX_AND_CONSTANT_BUFFER\<rparr>)))"

definition cgpux_create_mapped_upload_buffer ::
    "cgpu_env \<Rightarrow> CGPUDeviceId \<Rightarrow> nat \<Rightarrow> string option \<Rightarrow> CGPUBufferId vk_prog" where
  "cgpux_create_mapped_upload_buffer E device bytes name =
     cgpu_create_buffer E device
       (zero_buffer_desc\<lparr>bd_descriptors := CGPU_RESOURCE_TYPE_NONE, bd_size := bytes,
          bd_name := name, bd_memory_usage := CGPU_MEM_USAGE_CPU_ONLY,
          bd_flags := CGPU_BCF_PERSISTENT_MAP_BIT,
          bd_start_state := CGPU_RESOURCE_STATE_COPY_DEST\<rparr>)"

lemma device_table_run [prog_simps]:
  "device_table E device k w =
     (if device = NULL then Inl NullDeref
      else case devices w device of
        None \<Rightarrow> Inl DanglingDeref
      | Some D \<Rightarrow> table_at E (device_proc_table_cache D) k w)"
  by (simp add: device_table_def deref_run)

lemma desc_ptr_run [prog_simps]:
  "desc_ptr desc k w = (case desc of None \<Rightarrow> Inl NullDeref | Some d \<Rightarrow> k d w)"
  by (simp add: desc_ptr_def split: option.split)

end
