(* ===== verification/Root_Sig_Pool.thy ===== *)
theory Root_Sig_Pool
  imports Root_Sig_Table CGPU_Api
begin

text \<open>
  The root signature pool, src/gpu/cgpu/common/root_sig_pool.cpp: root signatures with the same
  characteristic share their Vulkan objects, and a counter tells how many signatures do.

  \<open>cgpu_hash\<close> is a parameter: one function for every structure it is applied to, from the
  structure and the seed. The maps of the pool compare characteristics by their hash value,
  the conversion of \<open>RSCharacteristic\<close> to \<open>size_t\<close>.
\<close>

section \<open>Characteristics\<close>

record RSTResource =
  rst_type :: ECGPUResourceType
  rst_dim :: ECGPUTextureDimension
  rst_set :: nat
  rst_binding :: nat
  rst_size :: nat
  rst_offset :: nat
  rst_stages :: CGPUShaderStages

record StaticSampler =
  ss_set :: nat
  ss_binding :: nat
  ss_id :: CGPUSamplerId

record PushConstant =
  pc_set :: nat
  pc_binding :: nat
  pc_size :: nat
  pc_offset :: nat
  pc_stages :: CGPUShaderStages

record RSCharacteristic =
  rsc_table_count :: nat
  rsc_table_hash :: nat
  rsc_push_constant_count :: nat
  rsc_push_constant_hash :: nat
  rsc_static_sampler_count :: nat
  rsc_static_samplers_hash :: nat
  rsc_pipeline_type :: ECGPUPipelineType

record rs_hashes =
  hash_RSTResource :: "RSTResource \<Rightarrow> nat \<Rightarrow> nat"
  hash_PushConstant :: "PushConstant \<Rightarrow> nat \<Rightarrow> nat"
  hash_StaticSampler :: "StaticSampler \<Rightarrow> nat \<Rightarrow> nat"
  hash_RSCharacteristic :: "RSCharacteristic \<Rightarrow> nat"

definition table_hash :: "rs_hashes \<Rightarrow> CGPUParameterTable list \<Rightarrow> nat \<Rightarrow> nat" where
  "table_hash H tables seed =
     fold (\<lambda>res h. hash_RSTResource H
             \<lparr>rst_type = res_type res, rst_dim = res_dim res, rst_set = res_set res,
              rst_binding = res_binding res, rst_size = res_size res,
              rst_offset = res_offset res, rst_stages = res_stages res\<rparr> h)
       (concat (map tab_resources tables)) seed"

text \<open>The push constants are indexed up to the count of the descriptor's names, which need not
  be the count of the tables' push constants.\<close>

fun push_constant_hash ::
    "rs_hashes \<Rightarrow> CGPUShaderResource list \<Rightarrow> nat list \<Rightarrow> nat \<Rightarrow> (nat \<Rightarrow> 'a vk_prog) \<Rightarrow> 'a vk_prog" where
  "push_constant_hash H pcs [] h k = k h"
| "push_constant_hash H pcs (i # is) h k =
     index_of ''push_constants'' pcs i (\<lambda>p.
     push_constant_hash H pcs is (hash_PushConstant H
       \<lparr>pc_set = res_set p, pc_binding = res_binding p, pc_size = res_size p,
        pc_offset = res_offset p, pc_stages = res_stages p\<rparr> h) k)"

text \<open>The samplers of the names that the static sampler carries, hashed in the order of the
  names; the outer loop runs over the sorted static samplers.\<close>

fun static_sampler_hash ::
    "rs_hashes \<Rightarrow> CGPURootSignatureDescriptor \<Rightarrow> CGPUShaderResource list \<Rightarrow> nat list \<Rightarrow> nat
      \<Rightarrow> (nat \<Rightarrow> 'a vk_prog) \<Rightarrow> 'a vk_prog" where
  "static_sampler_hash H desc sss [] h k = k h"
| "static_sampler_hash H desc sss (i # is) h k =
     index_of ''static_samplers'' sss i (\<lambda>s.
     static_sampler_hash H desc sss is
       (fold (\<lambda>(name, id) h.
                if Some name = res_name s
                then hash_StaticSampler H \<lparr>ss_set = res_set s, ss_binding = res_binding s, ss_id = id\<rparr> h
                else h)
          (zip (rsd_static_sampler_names desc) (rsd_static_samplers desc)) h) k)"

definition calculaeCharacteristic ::
    "rs_hashes \<Rightarrow> ptr \<Rightarrow> CGPURootSignature_Vulkan \<Rightarrow> CGPURootSignatureDescriptor
      \<Rightarrow> (RSCharacteristic \<Rightarrow> 'a vk_prog) \<Rightarrow> 'a vk_prog" where
  "calculaeCharacteristic H pool RSTables desc k =
     push_constant_hash H (rs_push_constants RSTables) [0..<length (rsd_push_constant_names desc)] pool
       (\<lambda>pc_hash.
     static_sampler_hash H desc (rs_static_samplers RSTables) [0..<length (rsd_static_samplers desc)]
       (2 ^ 64 - 1) (\<lambda>ss_hash.
     k \<lparr>rsc_table_count = length (rs_tables RSTables),
        rsc_table_hash = table_hash H (rs_tables RSTables) pool,
        rsc_push_constant_count = length (rs_push_constants RSTables),
        rsc_push_constant_hash = pc_hash,
        rsc_static_sampler_count = length (rsd_static_samplers desc),
        rsc_static_samplers_hash = ss_hash,
        rsc_pipeline_type = rs_pipeline_type RSTables\<rparr>))"

section \<open>The maps of the pool\<close>

definition pool_try_allocate ::
    "nat \<Rightarrow> CGPURootSignaturePoolImpl \<Rightarrow> CGPURootSignatureId \<times> CGPURootSignaturePoolImpl" where
  "pool_try_allocate character P =
     (case characterMap P character of
        None \<Rightarrow> (NULL, P)
      | Some sig \<Rightarrow>
          (sig, P\<lparr>counterMap := (counterMap P)(sig \<mapsto>
                    (case counterMap P sig of None \<Rightarrow> 0 | Some n \<Rightarrow> n) + 1)\<rparr>))"

definition pool_insert ::
    "nat \<Rightarrow> CGPURootSignatureId \<Rightarrow> CGPURootSignaturePoolImpl \<Rightarrow> CGPURootSignaturePoolImpl" where
  "pool_insert character sig P =
     P\<lparr>characterMap := (characterMap P)(character \<mapsto> sig),
       biCharacterMap := (biCharacterMap P)(sig \<mapsto> character),
       counterMap := (counterMap P)(sig \<mapsto> 1)\<rparr>"

text \<open>Removing the last reference. \<open>biCharacterMap[trueSig]\<close> of a missing entry is a default
  characteristic, all zeros.\<close>

definition zero_characteristic :: RSCharacteristic where
  "zero_characteristic =
     \<lparr>rsc_table_count = 0, rsc_table_hash = 0, rsc_push_constant_count = 0,
      rsc_push_constant_hash = 0, rsc_static_sampler_count = 0, rsc_static_samplers_hash = 0,
      rsc_pipeline_type = CGPU_PIPELINE_TYPE_NONE\<rparr>"

definition pool_remove ::
    "rs_hashes \<Rightarrow> CGPURootSignatureId \<Rightarrow> CGPURootSignaturePoolImpl \<Rightarrow> CGPURootSignaturePoolImpl" where
  "pool_remove H sig P =
     P\<lparr>counterMap := (counterMap P)(sig := None),
       characterMap := (characterMap P)
         ((case biCharacterMap P sig of
            None \<Rightarrow> hash_RSCharacteristic H zero_characteristic | Some c \<Rightarrow> c) := None),
       biCharacterMap := (biCharacterMap P)(sig := None)\<rparr>"

definition pool_release ::
    "CGPURootSignatureId \<Rightarrow> CGPURootSignaturePoolImpl \<Rightarrow> CGPURootSignaturePoolImpl" where
  "pool_release sig P =
     P\<lparr>counterMap := (counterMap P)(sig \<mapsto>
        (case counterMap P sig of None \<Rightarrow> 0 | Some n \<Rightarrow> n) - 1)\<rparr>"

section \<open>The functions of the pool\<close>

definition CGPUUtil_CreateRootSignaturePool ::
    "CGPURootSignaturePoolDescriptor \<Rightarrow> CGPURootSignaturePoolId vk_prog" where
  "CGPUUtil_CreateRootSignaturePool desc =
     calloc rs_pools_update
       \<lparr>rsp_device = NULL, characterMap = Map.empty, biCharacterMap = Map.empty,
        counterMap = Map.empty\<rparr> ret"

definition CGPUUtil_TryAllocateSignature ::
    "rs_hashes \<Rightarrow> CGPURootSignaturePoolId \<Rightarrow> CGPURootSignatureId \<Rightarrow> CGPURootSignatureDescriptor
      \<Rightarrow> (CGPURootSignatureId \<Rightarrow> 'a vk_prog) \<Rightarrow> 'a vk_prog" where
  "CGPUUtil_TryAllocateSignature H pool RSTables desc k =
     deref root_sigs RSTables (\<lambda>RS.
     calculaeCharacteristic H pool RS desc (\<lambda>character.
     deref rs_pools pool (\<lambda>P.
     let (sig, P') = pool_try_allocate (hash_RSCharacteristic H character) P in
     store rs_pools rs_pools_update pool (\<lambda>_. P') (
     k sig))))"

definition CGPUUtil_AddSignature ::
    "rs_hashes \<Rightarrow> CGPURootSignaturePoolId \<Rightarrow> CGPURootSignatureId \<Rightarrow> CGPURootSignatureDescriptor
      \<Rightarrow> (bool \<Rightarrow> 'a vk_prog) \<Rightarrow> 'a vk_prog" where
  "CGPUUtil_AddSignature H pool sig desc k =
     deref root_sigs sig (\<lambda>RS.
     calculaeCharacteristic H pool RS desc (\<lambda>character.
     deref rs_pools pool (\<lambda>P.
     if characterMap P (hash_RSCharacteristic H character) \<noteq> None
     then fail (Unreachable ''insert'')
     else
     store rs_pools rs_pools_update pool (pool_insert (hash_RSCharacteristic H character) sig) (
     store root_sigs root_sigs_update sig (\<lambda>X. X\<lparr>rs_pool := pool, rs_pool_sig := NULL\<rparr>) (
     k True)))))"

text \<open>The loop \<open>while (rootsig->pool && trueSig->pool_sig) trueSig = trueSig->pool_sig\<close>. A chain
  longer than the number of addresses in use has a cycle, so the fuel is that number.\<close>

fun true_signature ::
    "nat \<Rightarrow> CGPURootSignatureId \<Rightarrow> CGPURootSignatureId \<Rightarrow> (CGPURootSignatureId \<Rightarrow> 'a vk_prog)
      \<Rightarrow> 'a vk_prog" where
  "true_signature 0 rootsig trueSig k = fail (Diverges ''deallocate'')"
| "true_signature (Suc fuel) rootsig trueSig k =
     deref root_sigs rootsig (\<lambda>R.
     if rs_pool R = NULL then k trueSig
     else deref root_sigs trueSig (\<lambda>T.
          if rs_pool_sig T = NULL then k trueSig
          else true_signature fuel rootsig (rs_pool_sig T) k))"

definition CGPUUtil_PoolFreeSignature ::
    "rs_hashes \<Rightarrow> cgpu_env \<Rightarrow> CGPURootSignaturePoolId \<Rightarrow> CGPURootSignatureId \<Rightarrow> bool vk_prog" where
  "CGPUUtil_PoolFreeSignature H E pool sig =
     gets next_addr (\<lambda>fuel.
     true_signature (Suc fuel) sig sig (\<lambda>trueSig.
     deref rs_pools pool (\<lambda>P.
     case counterMap P trueSig of
       None \<Rightarrow> ret False
     | Some oldCounterVal \<Rightarrow>
         if oldCounterVal \<le> 1
         then store rs_pools rs_pools_update pool (pool_remove H trueSig) (
              store root_sigs root_sigs_update trueSig (\<lambda>X. X\<lparr>rs_pool := NULL, rs_pool_sig := NULL\<rparr>) (
              bindP (cgpu_free_root_signature E trueSig) (\<lambda>_.
              ret True)))
         else store rs_pools rs_pools_update pool (pool_release trueSig) (
              ret True))))"

text \<open>The destructor frees the signature of every counter, in the order of the hash map, which
  the caller of the model supplies.\<close>

definition CGPUUtil_FreeRootSignaturePool ::
    "cgpu_env \<Rightarrow> (CGPURootSignaturePoolImpl \<Rightarrow> CGPURootSignatureId list) \<Rightarrow> CGPURootSignaturePoolId
      \<Rightarrow> unit vk_prog" where
  "CGPUUtil_FreeRootSignaturePool E map_order pool =
     deref rs_pools pool (\<lambda>P.
     bindP (for_each (map_order P) (\<lambda>sig.
       store root_sigs root_sigs_update sig (\<lambda>X. X\<lparr>rs_pool := NULL, rs_pool_sig := NULL\<rparr>) (
       cgpu_free_root_signature E sig))) (\<lambda>_.
     release rs_pools_update pool (
     ret ())))"

end
