(* ===== verification/Vk_Root_Sig.thy ===== *)
theory Vk_Root_Sig
  imports Vk_Command Root_Sig_Pool
begin

text \<open>
  Root signatures, descriptor sets and compute pipelines of src/gpu/cgpu/vulkan/cgpu_vulkan.c,
  with the descriptor pool of vulkan_utils.c.
\<close>

section \<open>The descriptor pool\<close>

definition VkUtil_ConsumeDescriptorSets ::
    "vk_env \<Rightarrow> ptr \<Rightarrow> VkHandle list \<Rightarrow> (VkHandle \<Rightarrow> 'a vk_prog) \<Rightarrow> 'a vk_prog" where
  "VkUtil_ConsumeDescriptorSets V pPool layouts k =
     deref desc_pools pPool (\<lambda>P.
     vk_do V (VkQueue (MutexAcquire (dp_pMutex P))) (\<lambda>_.
     deref devices (dp_Device P) (\<lambda>D.
     vk_do V (VkObject (VkAllocateDescriptorSets (pVkDevice D) (pVkDescPool P) layouts)) (\<lambda>r.
     assertc (vk_debug V) (vk_result r = VK_SUCCESS)
       ''Descriptor Set used out, vk descriptor pool expansion not implemented!'' (
     vk_do V (VkQueue (MutexRelease (dp_pMutex P))) (\<lambda>_.
     k (vk_out r 0)))))))"

definition VkUtil_ReturnDescriptorSets ::
    "vk_env \<Rightarrow> ptr \<Rightarrow> VkHandle list \<Rightarrow> 'a vk_prog \<Rightarrow> 'a vk_prog" where
  "VkUtil_ReturnDescriptorSets V pPool sets k =
     deref desc_pools pPool (\<lambda>P.
     vk_do V (VkQueue (MutexAcquire (dp_pMutex P))) (\<lambda>_.
     deref devices (dp_Device P) (\<lambda>D.
     vk_do V (VkObject (VkFreeDescriptorSets (pVkDevice D) (pVkDescPool P) sets)) (\<lambda>_.
     vk_do V (VkQueue (MutexRelease (dp_pMutex P))) (\<lambda>_.
     k)))))"

section \<open>The sets of a root signature\<close>

text \<open>\<open>while (set_index_mask != 0)\<close>: the number of bits of the mask.\<close>

function get_set_count_from :: "u32 \<Rightarrow> nat \<Rightarrow> nat" where
  "get_set_count_from set_index_mask set_count =
     (if set_index_mask = 0 then set_count
      else get_set_count_from (drop_bit 1 set_index_mask)
             (if set_index_mask AND 1 \<noteq> 0 then set_count + 1 else set_count))"
  by pat_completeness auto

lemma drop_bit_one_less: "m \<noteq> 0 \<Longrightarrow> unat (drop_bit 1 m) < unat (m :: u32)"
  by (simp only: unat_drop_bit_eq) (simp add: drop_bit_Suc unat_gt_0)

termination get_set_count_from
  by (relation "measure (\<lambda>(m, _). unat m)") (use drop_bit_one_less in auto)

definition get_set_count :: "u32 \<Rightarrow> nat" where
  "get_set_count set_index_mask = get_set_count_from set_index_mask 0"

text \<open>\<open>mask |= (1 << set)\<close>; a shift by 32 or more is undefined.\<close>

fun collect_set_mask :: "nat list \<Rightarrow> u32 \<Rightarrow> (u32 \<Rightarrow> 'a vk_prog) \<Rightarrow> 'a vk_prog" where
  "collect_set_mask [] set_index_mask k = k set_index_mask"
| "collect_set_mask (s # ss) set_index_mask k =
     (if s < 32 then collect_set_mask ss (set_index_mask OR push_bit s 1) k
      else fail (OutOfBounds ''1 << set_index''))"

definition table_binding :: "vk_env \<Rightarrow> CGPUShaderResource \<Rightarrow> VkDescriptorSetLayoutBinding vk_prog" where
  "table_binding V res =
     VkUtil_TranslateResourceType V (res_type res) (\<lambda>type.
     ret \<lparr>dsl_binding = res_binding res, dsl_descriptorType = type,
          dsl_descriptorCount = res_size res,
          dsl_stageFlags = VkUtil_TranslateShaderUsages (res_stages res),
          dsl_pImmutableSamplers = None\<rparr>)"

text \<open>The bindings of the static samplers of a set. The sampler object is the one at the same
  index of the descriptor, while the static samplers of the root signature are sorted.\<close>

fun static_sampler_bindings ::
    "vk_env \<Rightarrow> CGPURootSignatureDescriptor \<Rightarrow> CGPUShaderResource list \<Rightarrow> nat \<Rightarrow> nat list
      \<Rightarrow> VkDescriptorSetLayoutBinding list vk_prog" where
  "static_sampler_bindings V desc sss s [] = ret []"
| "static_sampler_bindings V desc sss s (i # is) =
     index_of ''static_samplers'' sss i (\<lambda>ss.
     if res_set ss = s
     then deref samplers (rsd_static_samplers desc ! i) (\<lambda>immutableSampler.
          VkUtil_TranslateResourceType V (res_type ss) (\<lambda>type.
          bindP (static_sampler_bindings V desc sss s is) (\<lambda>bs.
          ret (\<lparr>dsl_binding = res_binding ss, dsl_descriptorType = type,
                dsl_descriptorCount = res_size ss,
                dsl_stageFlags = VkUtil_TranslateShaderUsages (res_stages ss),
                dsl_pImmutableSamplers = Some (pVkSampler immutableSampler)\<rparr> # bs))))
     else static_sampler_bindings V desc sss s is)"

definition set_bindings ::
    "vk_env \<Rightarrow> CGPURootSignatureDescriptor \<Rightarrow> CGPURootSignature_Vulkan \<Rightarrow> nat
      \<Rightarrow> VkDescriptorSetLayoutBinding list vk_prog" where
  "set_bindings V desc RS s =
     bindP (case find (\<lambda>T. tab_set_index T = s) (rs_tables RS) of
              None \<Rightarrow> ret []
            | Some T \<Rightarrow> map_each (tab_resources T) (table_binding V)) (\<lambda>bs.
     bindP (static_sampler_bindings V desc (rs_static_samplers RS) s
              [0..<length (rsd_static_samplers desc)]) (\<lambda>bs'.
     ret (bs @ bs')))"

text \<open>The loop over the bits of the mask: each set gets a layout and an empty descriptor set, at
  the index of the set in an array of \<open>set_count\<close> elements.\<close>

fun create_set_layouts ::
    "vk_env \<Rightarrow> CGPUDeviceId \<Rightarrow> CGPURootSignatureDescriptor \<Rightarrow> CGPURootSignature_Vulkan \<Rightarrow> u32
      \<Rightarrow> nat list \<Rightarrow> SetLayout_Vulkan list \<Rightarrow> SetLayout_Vulkan list vk_prog" where
  "create_set_layouts V device desc RS set_index_mask [] layouts = ret layouts"
| "create_set_layouts V device desc RS set_index_mask (s # ss) layouts =
     (if bit set_index_mask s
      then bindP (set_bindings V desc RS s) (\<lambda>vkbindings.
           deref devices device (\<lambda>D.
           vk_do V (VkObject (VkCreateDescriptorSetLayout (pVkDevice D) vkbindings)) (\<lambda>r.
           index_of ''pSetLayouts'' layouts s (\<lambda>L.
           CHECK_VKRESULT V r (
           VkUtil_ConsumeDescriptorSets V (pDescriptorPool D) [vk_out r 0] (\<lambda>empty_set.
           create_set_layouts V device desc RS set_index_mask ss
             (layouts[s := L\<lparr>sl_layout := vk_out r 0, sl_pEmptyDescSet := empty_set\<rparr>])))))))
      else create_set_layouts V device desc RS set_index_mask ss layouts)"

text \<open>The entries of the update template of a table: an array with an element per resource,
  indexed by the binding. \<open>sizeof(VkDescriptorUpdateData)\<close> is 24.\<close>

abbreviation (input) sizeof_update_data :: nat where "sizeof_update_data \<equiv> 24"

definition zero_template_entry :: VkDescriptorUpdateTemplateEntry where
  "zero_template_entry =
     \<lparr>due_dstBinding = 0, due_dstArrayElement = 0, due_descriptorCount = 0,
      due_descriptorType = VK_DESCRIPTOR_TYPE_SAMPLER, due_offset = 0, due_stride = 0\<rparr>"

fun fill_template_entries ::
    "vk_env \<Rightarrow> CGPUShaderResource list \<Rightarrow> VkDescriptorUpdateTemplateEntry list
      \<Rightarrow> VkDescriptorUpdateTemplateEntry list vk_prog" where
  "fill_template_entries V [] entries = ret entries"
| "fill_template_entries V (res # rs) entries =
     VkUtil_TranslateResourceType V (res_type res) (\<lambda>type.
     update_at ''template_entries'' entries (res_binding res)
       \<lparr>due_dstBinding = res_binding res, due_dstArrayElement = 0,
        due_descriptorCount = res_size res, due_descriptorType = type,
        due_offset = res_binding res * sizeof_update_data, due_stride = sizeof_update_data\<rparr> (\<lambda>entries.
     fill_template_entries V rs entries))"

fun create_update_templates ::
    "vk_env \<Rightarrow> CGPUDeviceId \<Rightarrow> VkHandle \<Rightarrow> ECGPUPipelineType \<Rightarrow> CGPUParameterTable list
      \<Rightarrow> SetLayout_Vulkan list \<Rightarrow> SetLayout_Vulkan list vk_prog" where
  "create_update_templates V device layout pipeline_type [] layouts = ret layouts"
| "create_update_templates V device layout pipeline_type (T # Ts) layouts =
     (let count = length (tab_resources T) in
      bindP (fill_template_entries V (tab_resources T) (replicate count zero_template_entry)) (\<lambda>entries.
      bindP (if 0 < count
             then index_of ''pSetLayouts'' layouts (tab_set_index T) (\<lambda>L.
                  index_of ''gPipelineBindPoint'' gPipelineBindPoint (pipeline_type_value pipeline_type)
                    (\<lambda>bind_point.
                  deref devices device (\<lambda>D.
                  vk_do V (VkObject (VkCreateDescriptorUpdateTemplate (pVkDevice D)
                    \<lparr>dut_pDescriptorUpdateEntries = entries, dut_descriptorUpdateEntryCount = count,
                     dut_descriptorSetLayout = sl_layout L, dut_pipelineBindPoint = bind_point,
                     dut_pipelineLayout = layout, dut_set = tab_set_index T\<rparr>)) (\<lambda>r.
                  CHECK_VKRESULT V r (
                  ret (layouts[tab_set_index T :=
                         L\<lparr>sl_mUpdateEntriesCount := count, sl_pUpdateTemplate := vk_out r 0\<rparr>]))))))
             else ret layouts) (\<lambda>layouts.
      create_update_templates V device layout pipeline_type Ts layouts)))"

section \<open>Root signatures\<close>

definition zero_set_layout :: SetLayout_Vulkan where
  "zero_set_layout =
     \<lparr>sl_layout = VK_NULL_HANDLE, sl_pUpdateTemplate = VK_NULL_HANDLE, sl_mUpdateEntriesCount = 0,
      sl_pEmptyDescSet = VK_NULL_HANDLE\<rparr>"

definition zero_root_signature :: CGPURootSignature_Vulkan where
  "zero_root_signature =
     \<lparr>rs_device = NULL, rs_tables = [], rs_push_constants = [], rs_static_samplers = [],
      rs_pipeline_type = CGPU_PIPELINE_TYPE_NONE, rs_pool = NULL, rs_pool_sig = NULL,
      pPipelineLayout = VK_NULL_HANDLE, pSetLayouts = [], pPushConstRanges = []\<rparr>"

text \<open>The part of the function that builds the Vulkan objects of a signature of its own.\<close>

definition create_signature_objects ::
    "vk_env \<Rightarrow> CGPUDeviceId \<Rightarrow> CGPURootSignatureDescriptor \<Rightarrow> CGPURootSignatureId \<Rightarrow> 'a vk_prog
      \<Rightarrow> 'a vk_prog" where
  "create_signature_objects V device desc sig k =
     deref root_sigs sig (\<lambda>RS.
     collect_set_mask (map tab_set_index (rs_tables RS) @ map res_set (rs_static_samplers RS)) 0
       (\<lambda>set_index_mask.
     bindP (create_set_layouts V device desc RS set_index_mask [0..<32]
              (replicate (get_set_count set_index_mask) zero_set_layout)) (\<lambda>layouts.
     let ranges = map (\<lambda>p. \<lparr>pcr_stageFlags = VkUtil_TranslateShaderUsages (res_stages p),
                            pcr_offset = res_offset p, pcr_size = res_size p\<rparr>) (rs_push_constants RS) in
     deref devices device (\<lambda>D.
     vk_do V (VkObject (VkCreatePipelineLayout (pVkDevice D) (map sl_layout layouts) ranges)) (\<lambda>r.
     CHECK_VKRESULT V r (
     bindP (create_update_templates V device (vk_out r 0) (rs_pipeline_type RS) (rs_tables RS) layouts)
       (\<lambda>layouts.
     store root_sigs root_sigs_update sig
       (\<lambda>X. X\<lparr>pPipelineLayout := vk_out r 0, pSetLayouts := layouts, pPushConstRanges := ranges\<rparr>) k)))))))"

definition cgpu_create_root_signature_vulkan ::
    "vk_env \<Rightarrow> rs_hashes \<Rightarrow> CGPUDeviceId \<Rightarrow> CGPURootSignatureDescriptor \<Rightarrow> CGPURootSignatureId vk_prog" where
  "cgpu_create_root_signature_vulkan V H device desc =
     calloc root_sigs_update zero_root_signature (\<lambda>RS.
     CGPUUtil_InitRSParamTables RS desc (
     let pool = rsd_pool desc;
         build =
           create_signature_objects V device desc RS (
           if pool \<noteq> NULL
           then CGPUUtil_AddSignature H pool RS desc (\<lambda>result.
                assertc (vk_debug V) result ''Root signature pool insertion failed!'' (ret RS))
           else ret RS) in
     if pool \<noteq> NULL
     then CGPUUtil_TryAllocateSignature H pool RS desc (\<lambda>poolSig.
          if poolSig \<noteq> NULL
          then deref root_sigs poolSig (\<lambda>PS.
               store root_sigs root_sigs_update RS
                 (\<lambda>X. X\<lparr>pPipelineLayout := pPipelineLayout PS, pSetLayouts := pSetLayouts PS,
                       pPushConstRanges := pPushConstRanges PS,
                       rs_pool := pool, rs_pool_sig := poolSig\<rparr>) (
               ret RS))
          else build)
     else build))"

text \<open>The Vulkan objects of one set, if there are any.\<close>

definition free_set_layout :: "vk_env \<Rightarrow> CGPUDevice_Vulkan \<Rightarrow> SetLayout_Vulkan \<Rightarrow> unit vk_prog" where
  "free_set_layout V D L =
     bindP (if sl_layout L \<noteq> VK_NULL_HANDLE
            then vk_do V (VkObject (VkDestroyDescriptorSetLayout (pVkDevice D) (sl_layout L))) (\<lambda>_. ret ())
            else ret ()) (\<lambda>_.
     if sl_pUpdateTemplate L \<noteq> VK_NULL_HANDLE
     then vk_do V (VkObject (VkDestroyDescriptorUpdateTemplate (pVkDevice D) (sl_pUpdateTemplate L)))
            (\<lambda>_. ret ())
     else ret ())"

definition cgpu_free_root_signature_vulkan ::
    "vk_env \<Rightarrow> rs_hashes \<Rightarrow> cgpu_env \<Rightarrow> CGPURootSignatureId \<Rightarrow> unit vk_prog" where
  "cgpu_free_root_signature_vulkan V H E signature =
     deref root_sigs signature (\<lambda>RS.
     if rs_pool RS \<noteq> NULL
     then bindP (CGPUUtil_PoolFreeSignature H E (rs_pool RS) signature) (\<lambda>_.
          deref root_sigs signature (\<lambda>RS.
          if rs_pool_sig RS \<noteq> NULL
          then CGPUUtil_FreeRSParamTables signature (
               release root_sigs_update signature (
               ret ()))
          else ret ()))
     else CGPUUtil_FreeRSParamTables signature (
          deref devices (rs_device RS) (\<lambda>D.
          bindP (for_each (pSetLayouts RS) (free_set_layout V D)) (\<lambda>_.
          vk_do V (VkObject (VkDestroyPipelineLayout (pVkDevice D) (pPipelineLayout RS))) (\<lambda>_.
          release root_sigs_update signature (
          ret ()))))))"

definition cgpu_create_root_signature_pool_vulkan ::
    "CGPUDeviceId \<Rightarrow> CGPURootSignaturePoolDescriptor \<Rightarrow> CGPURootSignaturePoolId vk_prog" where
  "cgpu_create_root_signature_pool_vulkan device desc = CGPUUtil_CreateRootSignaturePool desc"

definition cgpu_free_root_signature_pool_vulkan ::
    "cgpu_env \<Rightarrow> (CGPURootSignaturePoolImpl \<Rightarrow> CGPURootSignatureId list) \<Rightarrow> CGPURootSignaturePoolId
      \<Rightarrow> unit vk_prog" where
  "cgpu_free_root_signature_pool_vulkan E map_order pool =
     CGPUUtil_FreeRootSignaturePool E map_order pool"

section \<open>Descriptor sets and compute pipelines\<close>

text \<open>The table of a set: the last one with that index, or the first table.\<close>

definition table_index_of :: "CGPURootSignature_Vulkan \<Rightarrow> nat \<Rightarrow> nat" where
  "table_index_of RS s =
     fold (\<lambda>i t. if tab_set_index (rs_tables RS ! i) = s then i else t) [0..<length (rs_tables RS)] 0"

text \<open>The update data stand behind the set in memory, one entry for every resource of its table.\<close>

definition zero_update_data :: VkDescriptorUpdateData where
  "zero_update_data = \<lparr>upd_handle = 0, upd_second = 0, upd_third = 0\<rparr>"

definition cgpu_create_descriptor_set_vulkan ::
    "vk_env \<Rightarrow> CGPUDeviceId \<Rightarrow> CGPUDescriptorSetDescriptor \<Rightarrow> CGPUDescriptorSetId vk_prog" where
  "cgpu_create_descriptor_set_vulkan V device desc =
     deref root_sigs (dsd_root_signature desc) (\<lambda>RS.
     index_of ''tables'' (rs_tables RS) (table_index_of RS (dsd_set_index desc)) (\<lambda>ParamTable.
     calloc desc_sets_update
       \<lparr>set_root_signature = NULL, set_index = 0, pVkDescriptorSet = VK_NULL_HANDLE,
        pUpdateData = replicate (length (tab_resources ParamTable)) zero_update_data\<rparr> (\<lambda>Set.
     deref devices device (\<lambda>D.
     index_of ''pSetLayouts'' (pSetLayouts RS) (dsd_set_index desc) (\<lambda>L.
     VkUtil_ConsumeDescriptorSets V (pDescriptorPool D) [sl_layout L] (\<lambda>vkSet.
     store desc_sets desc_sets_update Set (pVkDescriptorSet_update (\<lambda>_. vkSet)) (
     ret Set)))))))"

definition cgpu_free_descriptor_set_vulkan :: "vk_env \<Rightarrow> CGPUDescriptorSetId \<Rightarrow> unit vk_prog" where
  "cgpu_free_descriptor_set_vulkan V dset =
     deref desc_sets dset (\<lambda>Set.
     deref root_sigs (set_root_signature Set) (\<lambda>RS.
     deref devices (rs_device RS) (\<lambda>D.
     VkUtil_ReturnDescriptorSets V (pDescriptorPool D) [pVkDescriptorSet Set] (
     release desc_sets_update dset (
     ret ())))))"

definition cgpu_create_compute_pipeline_vulkan ::
    "vk_env \<Rightarrow> CGPUDeviceId \<Rightarrow> CGPUComputePipelineDescriptor \<Rightarrow> CGPUComputePipelineId vk_prog" where
  "cgpu_create_compute_pipeline_vulkan V device desc =
     calloc compute_pipelines_update
       \<lparr>cpipe_device = NULL, cpipe_root_signature = NULL, cpipe_pVkPipeline = VK_NULL_HANDLE\<rparr> (\<lambda>PPL.
     deref libraries (psd_library (cppd_compute_shader desc)) (\<lambda>SL.
     deref root_sigs (cppd_root_signature desc) (\<lambda>RS.
     deref devices device (\<lambda>D.
     vk_do V (VkObject (VkCreateComputePipelines (pVkDevice D) (pPipelineCache D) (mShaderModule SL)
               (psd_entry (cppd_compute_shader desc)) (pPipelineLayout RS))) (\<lambda>r.
     store compute_pipelines compute_pipelines_update PPL (cpipe_pVkPipeline_update (\<lambda>_. vk_out r 0)) (
     CHECK_VKRESULT V r (
     ret PPL)))))))"

definition cgpu_free_compute_pipeline_vulkan :: "vk_env \<Rightarrow> CGPUComputePipelineId \<Rightarrow> unit vk_prog" where
  "cgpu_free_compute_pipeline_vulkan V pipeline =
     deref compute_pipelines pipeline (\<lambda>PPL.
     deref devices (cpipe_device PPL) (\<lambda>D.
     vk_do V (VkObject (VkDestroyPipeline (pVkDevice D) (cpipe_pVkPipeline PPL))) (\<lambda>_.
     release compute_pipelines_update pipeline (
     ret ()))))"

definition cgpu_free_render_pipeline_vulkan :: "vk_env \<Rightarrow> CGPURenderPipelineId \<Rightarrow> unit vk_prog" where
  "cgpu_free_render_pipeline_vulkan V pipeline =
     deref render_pipelines pipeline (\<lambda>RP.
     deref devices (rpipe_device RP) (\<lambda>D.
     vk_do V (VkObject (VkDestroyPipeline (pVkDevice D) (rpipe_pVkPipeline RP))) (\<lambda>_.
     release render_pipelines_update pipeline (
     ret ()))))"

end
