(* ===== verification/Vk_Resource.thy ===== *)
theory Vk_Resource
  imports Vk_Command CGPU_Api
begin

text \<open>
  Buffers, textures, views, samplers of src/gpu/cgpu/vulkan/cgpu_vulkan_resources.c: creation,
  mapping, aliasing and release. The Vulkan Memory Allocator is third-party code: its calls are
  driver calls of the trace.
\<close>

section \<open>Names of objects\<close>

definition VkUtil_OptionalSetObjectName ::
    "vk_env \<Rightarrow> CGPUDevice_Vulkan \<Rightarrow> VkHandle \<Rightarrow> string option \<Rightarrow> 'a vk_prog \<Rightarrow> 'a vk_prog" where
  "VkUtil_OptionalSetObjectName V D handle name k =
     deref adapters (device_adapter D) (\<lambda>A.
     deref instances (adapter_instance A) (\<lambda>I.
     case name of
       None \<Rightarrow> k
     | Some n \<Rightarrow>
         if inst_enable_set_name I
         then bindP (if debug_report I
                     then vk_do V (VkResource (VkDebugMarkerSetObjectNameEXT (pVkDevice D) handle n)) (\<lambda>_. ret ())
                     else ret ()) (\<lambda>_.
              bindP (if debug_utils I
                     then vk_do V (VkResource (VkSetDebugUtilsObjectNameEXT (pVkDevice D) handle n)) (\<lambda>_. ret ())
                     else ret ()) (\<lambda>_. k))
         else k))"

section \<open>Buffers\<close>

text \<open>\<open>smath_round_up\<close> of math/scalarmath.h on unsigned 64 bit integers.\<close>

definition smath_round_up :: "nat \<Rightarrow> nat \<Rightarrow> (nat \<Rightarrow> 'a vk_prog) \<Rightarrow> 'a vk_prog" where
  "smath_round_up v multiple k =
     (if multiple = 0 then fail (DivisionByZero ''multiple'')
      else k ((((v + multiple + (2 ^ 64 - 1)) mod 2 ^ 64) div multiple * multiple) mod 2 ^ 64))"

definition VkUtil_CreateBufferCreateInfo ::
    "CGPUAdapterId \<Rightarrow> CGPUBufferDescriptor \<Rightarrow> (VkBufferCreateInfo \<Rightarrow> 'a vk_prog) \<Rightarrow> 'a vk_prog" where
  "VkUtil_CreateBufferCreateInfo adapter desc k =
     (let usage = VkUtil_DescriptorTypesToBufferUsage (bd_descriptors desc) (bd_format desc \<noteq> CGPU_FORMAT_UNDEFINED)
            \<union> (if bd_memory_usage desc = CGPU_MEM_USAGE_GPU_ONLY \<or> bd_memory_usage desc = CGPU_MEM_USAGE_GPU_TO_CPU
               then {VK_BUFFER_USAGE_TRANSFER_DST_BIT} else {}) in
      if has_any (bd_descriptors desc) CGPU_RESOURCE_TYPE_UNIFORM_BUFFER
      then deref adapters adapter (\<lambda>A.
           smath_round_up (bd_size desc) (uniform_buffer_alignment (adapter_detail A)) (\<lambda>allocationSize.
           k \<lparr>bci_size = allocationSize, bci_usage = usage\<rparr>))
      else k \<lparr>bci_size = bd_size desc, bci_usage = usage\<rparr>)"

definition VkUtil_ImageUsageToFormatFeatures :: "VkImageUsageFlagBit set \<Rightarrow> VkFormatFeatureFlagBit set" where
  "VkUtil_ImageUsageToFormatFeatures usage =
     (if VK_IMAGE_USAGE_SAMPLED_BIT \<in> usage then {VK_FORMAT_FEATURE_SAMPLED_IMAGE_BIT} else {})
   \<union> (if VK_IMAGE_USAGE_STORAGE_BIT \<in> usage then {VK_FORMAT_FEATURE_STORAGE_IMAGE_BIT} else {})
   \<union> (if VK_IMAGE_USAGE_COLOR_ATTACHMENT_BIT \<in> usage then {VK_FORMAT_FEATURE_COLOR_ATTACHMENT_BIT} else {})
   \<union> (if VK_IMAGE_USAGE_DEPTH_STENCIL_ATTACHMENT_BIT \<in> usage
      then {VK_FORMAT_FEATURE_DEPTH_STENCIL_ATTACHMENT_BIT} else {})"

text \<open>What the code asks of the allocator for a buffer. The test of the host visible bits is a
  bitwise one of the usage with \<open>CGPU_MEM_USAGE_GPU_ONLY\<close>, which is 1: it also holds for
  \<open>CGPU_MEM_USAGE_CPU_TO_GPU\<close>, which is 3.\<close>

definition buffer_allocation_info :: "CGPUBufferDescriptor \<Rightarrow> VmaAllocationCreateInfo" where
  "buffer_allocation_info desc =
     (let mu = bd_memory_usage desc;
          auto_usage = (if bd_prefer_on_device desc then VMA_MEMORY_USAGE_AUTO_PREFER_DEVICE
                        else if bd_prefer_on_host desc then VMA_MEMORY_USAGE_AUTO_PREFER_HOST
                        else VMA_MEMORY_USAGE_AUTO) in
      \<lparr>vma_usage = (if mu = CGPU_MEM_USAGE_CPU_TO_GPU \<or> mu = CGPU_MEM_USAGE_GPU_TO_CPU then auto_usage
                    else memory_usage_value mu),
       vma_flags =
         (if has_any (bd_flags desc) CGPU_BCF_OWN_MEMORY_BIT then {VMA_ALLOCATION_CREATE_DEDICATED_MEMORY_BIT} else {})
       \<union> (if has_any (bd_flags desc) CGPU_BCF_PERSISTENT_MAP_BIT then {VMA_ALLOCATION_CREATE_MAPPED_BIT} else {})
       \<union> (if mu = CGPU_MEM_USAGE_CPU_TO_GPU then {VMA_ALLOCATION_CREATE_HOST_ACCESS_SEQUENTIAL_WRITE_BIT} else {})
       \<union> (if mu = CGPU_MEM_USAGE_GPU_TO_CPU then {VMA_ALLOCATION_CREATE_HOST_ACCESS_RANDOM_BIT} else {}),
       vma_prefers_host_visible =
         ((has_any (bd_flags desc) CGPU_BCF_HOST_VISIBLE \<and> odd (memory_usage_value mu))
          \<or> (has_any (bd_flags desc) CGPU_BCF_PERSISTENT_MAP_BIT \<and> odd (memory_usage_value mu))),
       vma_exports = False\<rparr>)"

text \<open>A new buffer object: the rest of the zeroed memory.\<close>

definition new_buffer :: "nat \<Rightarrow> VkHandle \<Rightarrow> VkHandle \<Rightarrow> CGPUBuffer_Vulkan" where
  "new_buffer mapped allocation buffer =
     \<lparr>buffer_device = NULL, cpu_mapped_address = mapped, buffer_size = 0, buffer_descriptors = 0,
      buffer_memory_usage = CGPU_MEM_USAGE_UNKNOWN, pVkBuffer = buffer, pVkStorageTexelView = VK_NULL_HANDLE,
      pVkUniformTexelView = VK_NULL_HANDLE, buffer_pVkAllocation = allocation, buffer_mOffset = 0\<rparr>"

definition texel_view_info :: "CGPUBufferDescriptor \<Rightarrow> VkHandle \<Rightarrow> VkBufferViewCreateInfo" where
  "texel_view_info desc buffer =
     \<lparr>bvc_buffer = buffer, bvc_format = VkUtil_FormatTranslateToVk (bd_format desc),
      bvc_offset = (bd_first_element desc * bd_element_stride desc) mod 2 ^ 64,
      bvc_range = (bd_elemet_count desc * bd_element_stride desc) mod 2 ^ 64\<rparr>"

text \<open>The texel views: each is created when the usage asks for it and the format supports it.\<close>

definition create_texel_views ::
    "vk_env \<Rightarrow> CGPUDevice_Vulkan \<Rightarrow> CGPUBufferDescriptor \<Rightarrow> VkBufferUsageFlagBit set \<Rightarrow> CGPUBufferId \<Rightarrow> unit vk_prog" where
  "create_texel_views V D desc usage B =
     (if VK_BUFFER_USAGE_UNIFORM_TEXEL_BUFFER_BIT \<in> usage \<or> VK_BUFFER_USAGE_STORAGE_TEXEL_BUFFER_BIT \<in> usage
      then deref adapters (device_adapter D) (\<lambda>A.
           vk_do V (VkResource (VkGetPhysicalDeviceFormatProperties (pPhysicalDevice A)
                     (VkUtil_FormatTranslateToVk (bd_format desc)))) (\<lambda>formatProps.
           deref buffers B (\<lambda>X.
           let viewInfo = texel_view_info desc (pVkBuffer X) in
           bindP (if VK_BUFFER_USAGE_UNIFORM_TEXEL_BUFFER_BIT \<in> usage
                     \<and> VK_FORMAT_FEATURE_UNIFORM_TEXEL_BUFFER_BIT \<in> bufferFeatures formatProps
                  then vk_do V (VkResource (VkCreateBufferView (pVkDevice D) viewInfo)) (\<lambda>r.
                       CHECK_VKRESULT V r (
                       store buffers buffers_update B (pVkUniformTexelView_update (\<lambda>_. vk_out r 0)) (ret ())))
                  else ret ()) (\<lambda>_.
           if VK_BUFFER_USAGE_STORAGE_TEXEL_BUFFER_BIT \<in> usage
              \<and> VK_FORMAT_FEATURE_STORAGE_TEXEL_BUFFER_BIT \<in> bufferFeatures formatProps
           then vk_do V (VkResource (VkCreateBufferView (pVkDevice D) viewInfo)) (\<lambda>r.
                CHECK_VKRESULT V r (
                store buffers buffers_update B (pVkStorageTexelView_update (\<lambda>_. vk_out r 0)) (ret ())))
           else ret ()))))
      else ret ())"

text \<open>The rest of the creation: offset, texel views, name and members of the new object.\<close>

definition setup_buffer ::
    "vk_env \<Rightarrow> CGPUDevice_Vulkan \<Rightarrow> CGPUBufferDescriptor \<Rightarrow> VkBufferUsageFlagBit set \<Rightarrow> CGPUBufferId
      \<Rightarrow> CGPUBufferId vk_prog" where
  "setup_buffer V D desc usage B =
     bindP (if has_any (bd_descriptors desc) CGPU_RESOURCE_TYPE_BUFFER
               \<or> has_any (bd_descriptors desc) CGPU_RESOURCE_TYPE_RW_BUFFER
            then store buffers buffers_update B
                   (buffer_mOffset_update (\<lambda>_. (bd_element_stride desc * bd_first_element desc) mod 2 ^ 64)) (ret ())
            else ret ()) (\<lambda>_.
     bindP (create_texel_views V D desc usage B) (\<lambda>_.
     deref buffers B (\<lambda>X.
     VkUtil_OptionalSetObjectName V D (pVkBuffer X) (bd_name desc) (
     store buffers buffers_update B
       (\<lambda>X. X\<lparr>buffer_size := bd_size desc mod 2 ^ 32, buffer_memory_usage := bd_memory_usage desc,
              buffer_descriptors := bd_descriptors desc AND 0xFFFFF\<rparr>) (
     ret B)))))"

definition cgpu_create_buffer_vulkan ::
    "vk_env \<Rightarrow> CGPUDeviceId \<Rightarrow> CGPUBufferDescriptor \<Rightarrow> CGPUBufferId vk_prog" where
  "cgpu_create_buffer_vulkan V device desc =
     deref devices device (\<lambda>D.
     VkUtil_CreateBufferCreateInfo (device_adapter D) desc (\<lambda>add_info.
     vk_do V (VkResource (VmaCreateBuffer (pVmaAllocator D) add_info (buffer_allocation_info desc))) (\<lambda>r.
     if vk_result r = VK_ERROR_OUT_OF_DEVICE_MEMORY then ret CGPU_BUFFER_OUT_OF_DEVICE_MEMORY
     else if vk_result r = VK_ERROR_OUT_OF_HOST_MEMORY then ret CGPU_BUFFER_OUT_OF_HOST_MEMORY
     else if vk_result r \<noteq> VK_SUCCESS
     then assertc (vk_debug V) False ''VMA failed to create buffer!'' (ret NULL)
     else
     calloc buffers_update (new_buffer (vk_out r 2) (vk_out r 1) (vk_out r 0)) (
     setup_buffer V D desc (bci_usage add_info)))))"

text \<open>The mapped address is written only when the mapping succeeds; a range moves it on.\<close>

definition cgpu_map_buffer_vulkan :: "vk_env \<Rightarrow> CGPUBufferId \<Rightarrow> CGPUBufferRange option \<Rightarrow> unit vk_prog" where
  "cgpu_map_buffer_vulkan V buffer rng =
     deref buffers buffer (\<lambda>B.
     deref devices (buffer_device B) (\<lambda>D.
     deref adapters (device_adapter D) (\<lambda>A.
     assertc (vk_debug V) (support_host_visible_vram (adapter_detail A)
                           \<or> buffer_memory_usage B \<noteq> CGPU_MEM_USAGE_GPU_ONLY)
       ''Trying to map non-cpu accessible resource'' (
     vk_do V (VkResource (VmaMapMemory (pVmaAllocator D) (buffer_pVkAllocation B))) (\<lambda>r.
     let mapped = (if vk_result r = VK_SUCCESS then vk_out r 0 else cpu_mapped_address B) in
     store buffers buffers_update buffer (cpu_mapped_address_update (\<lambda>_. mapped)) (
     assertc (vk_debug V) (vk_result r = VK_SUCCESS) ''vk_res == VK_SUCCESS'' (
     case rng of
       None \<Rightarrow> ret ()
     | Some part \<Rightarrow>
         if vk_result r = VK_SUCCESS
         then store buffers buffers_update buffer
                (cpu_mapped_address_update (\<lambda>a. (a + br_offset part) mod 2 ^ 64)) (ret ())
         else ret ())))))))"

definition cgpu_unmap_buffer_vulkan :: "vk_env \<Rightarrow> CGPUBufferId \<Rightarrow> unit vk_prog" where
  "cgpu_unmap_buffer_vulkan V buffer =
     deref buffers buffer (\<lambda>B.
     deref devices (buffer_device B) (\<lambda>D.
     deref adapters (device_adapter D) (\<lambda>A.
     assertc (vk_debug V) (support_host_visible_vram (adapter_detail A)
                           \<or> buffer_memory_usage B \<noteq> CGPU_MEM_USAGE_GPU_ONLY)
       ''Trying to unmap non-cpu accessible resource'' (
     vk_do V (VkResource (VmaUnmapMemory (pVmaAllocator D) (buffer_pVkAllocation B))) (\<lambda>_.
     store buffers buffers_update buffer (cpu_mapped_address_update (\<lambda>_. NULL)) (
     ret ()))))))"

text \<open>Both branches destroy the uniform texel view, the second one after it was cleared.\<close>

definition free_texel_views :: "vk_env \<Rightarrow> CGPUDevice_Vulkan \<Rightarrow> CGPUBufferId \<Rightarrow> unit vk_prog" where
  "free_texel_views V D buffer =
     deref buffers buffer (\<lambda>B.
     bindP (if pVkUniformTexelView B \<noteq> VK_NULL_HANDLE
            then vk_do V (VkResource (VkDestroyBufferView (pVkDevice D) (pVkUniformTexelView B))) (\<lambda>_.
                 store buffers buffers_update buffer (pVkUniformTexelView_update (\<lambda>_. VK_NULL_HANDLE)) (ret ()))
            else ret ()) (\<lambda>_.
     deref buffers buffer (\<lambda>B.
     if pVkStorageTexelView B \<noteq> VK_NULL_HANDLE
     then vk_do V (VkResource (VkDestroyBufferView (pVkDevice D) (pVkUniformTexelView B))) (\<lambda>_.
          store buffers buffers_update buffer (pVkStorageTexelView_update (\<lambda>_. VK_NULL_HANDLE)) (ret ()))
     else ret ())))"

definition cgpu_free_buffer_vulkan :: "vk_env \<Rightarrow> CGPUBufferId \<Rightarrow> unit vk_prog" where
  "cgpu_free_buffer_vulkan V buffer =
     deref buffers buffer (\<lambda>B.
     assertc (vk_debug V) (buffer_pVkAllocation B \<noteq> VK_NULL_HANDLE) ''pVkAllocation must not be null!'' (
     deref devices (buffer_device B) (\<lambda>D.
     bindP (free_texel_views V D buffer) (\<lambda>_.
     deref buffers buffer (\<lambda>B.
     vk_do V (VkResource (VmaDestroyBuffer (pVmaAllocator D) (pVkBuffer B) (buffer_pVkAllocation B))) (\<lambda>_.
     release buffers_update buffer (ret ())))))))"

section \<open>Textures\<close>

definition image_type_of :: "vk_env \<Rightarrow> CGPUTextureDescriptor \<Rightarrow> (VkImageType \<Rightarrow> 'a vk_prog) \<Rightarrow> 'a vk_prog" where
  "image_type_of V desc k =
     (if has_any (td_flags desc) CGPU_TCF_FORCE_2D
      then assertc (vk_debug V) (td_depth desc = 1) ''desc->depth == 1'' (k VK_IMAGE_TYPE_2D)
      else if has_any (td_flags desc) CGPU_TCF_FORCE_3D then k VK_IMAGE_TYPE_3D
      else if 1 < td_depth desc then k VK_IMAGE_TYPE_3D
      else if 1 < td_height desc then k VK_IMAGE_TYPE_2D
      else k VK_IMAGE_TYPE_1D)"

definition cubemap_required :: "CGPUTextureDescriptor \<Rightarrow> bool" where
  "cubemap_required desc \<longleftrightarrow> td_descriptors desc AND CGPU_RESOURCE_TYPE_TEXTURE_CUBE = CGPU_RESOURCE_TYPE_TEXTURE_CUBE"

text \<open>The usage of the image before and after the transfer bits are added.\<close>

definition image_usage :: "CGPUTextureDescriptor \<Rightarrow> VkImageUsageFlagBit set" where
  "image_usage desc =
     (let usage = VkUtil_DescriptorTypesToImageUsage (td_descriptors desc)
            \<union> (if has_any (td_descriptors desc) CGPU_RESOURCE_TYPE_RENDER_TARGET then {VK_IMAGE_USAGE_COLOR_ATTACHMENT_BIT}
               else if FormatUtil_IsDepthStencilFormat (td_format desc) then {VK_IMAGE_USAGE_DEPTH_STENCIL_ATTACHMENT_BIT}
               else {}) in
      if VK_IMAGE_USAGE_SAMPLED_BIT \<in> usage \<or> VK_IMAGE_USAGE_STORAGE_BIT \<in> usage
      then usage \<union> {VK_IMAGE_USAGE_TRANSFER_SRC_BIT, VK_IMAGE_USAGE_TRANSFER_DST_BIT} else usage)"

definition image_create_info :: "CGPUTextureDescriptor \<Rightarrow> VkImageType \<Rightarrow> VkImageCreateInfo" where
  "image_create_info desc type =
     \<lparr>ici_flags = (if cubemap_required desc then {VK_IMAGE_CREATE_CUBE_COMPATIBLE_BIT} else {})
        \<union> (if type = VK_IMAGE_TYPE_3D then {VK_IMAGE_CREATE_2D_ARRAY_COMPATIBLE_BIT} else {}),
      ici_imageType = type, ici_format = VkUtil_FormatTranslateToVk (td_format desc),
      ici_width = td_width desc, ici_height = td_height desc, ici_depth = td_depth desc,
      ici_mipLevels = td_mip_levels desc, ici_arrayLayers = td_array_size desc,
      ici_samples = VkUtil_SampleCountTranslateToVk (td_sample_count desc),
      ici_usage = image_usage desc, ici_external = False\<rparr>"

text \<open>
  What the code asks of the allocator for an image that owns its memory. The imports of external
  memory only differ on Windows; elsewhere an import chains an empty structure, and an export
  passes one to the allocator and asks for memory of its own.
\<close>

definition texture_allocation_info :: "CGPUAdapter_Vulkan \<Rightarrow> CGPUTextureDescriptor \<Rightarrow> VmaAllocationCreateInfo" where
  "texture_allocation_info A desc =
     (let exports = external_memory A \<and> \<not> has_any (td_flags desc) CGPU_TCF_IMPORT_BIT
            \<and> has_any (td_flags desc) CGPU_TCF_EXPORT_BIT in
      \<lparr>vma_usage = VMA_MEMORY_USAGE_GPU_ONLY,
       vma_flags = (if td_is_dedicated desc then {} else {VMA_ALLOCATION_CREATE_CAN_ALIAS_BIT})
         \<union> (if has_any (td_flags desc) CGPU_TCF_OWN_MEMORY_BIT then {VMA_ALLOCATION_CREATE_DEDICATED_MEMORY_BIT} else {})
         \<union> (if exports then {VMA_ALLOCATION_CREATE_DEDICATED_MEMORY_BIT} else {}),
       vma_prefers_host_visible = False, vma_exports = exports\<rparr>)"

text \<open>The image, its allocation, the mask of its aspects and whether the allocation is dedicated
  or can be aliased. An image the caller brings is used as it is.\<close>

record image_result =
  ir_image :: VkHandle
  ir_allocation :: VkHandle
  ir_aspect_mask :: u32
  ir_is_dedicated :: bool
  ir_can_alias :: bool

definition create_image ::
    "vk_env \<Rightarrow> CGPUDevice_Vulkan \<Rightarrow> CGPUTextureDescriptor \<Rightarrow> VkImageType \<Rightarrow> image_result vk_prog" where
  "create_image V D desc type =
     deref adapters (device_adapter D) (\<lambda>A.
     let info = image_create_info desc type;
         aspect_mask = VkUtil_DeterminAspectMask (ici_format info) True in
     vk_do V (VkResource (VkGetPhysicalDeviceFormatProperties (pPhysicalDevice A) (ici_format info))) (\<lambda>format_props.
     bindP (if vk_debug V
            then index_of ''format_supports'' (format_supports (adapter_detail A)) (nat (td_format desc mod 2 ^ 32))
                   (\<lambda>format_support. assertc True (fs_shader_read format_support)
                     ''GPU shader can't' read from this format'' (ret ()))
            else ret ()) (\<lambda>_.
     assertc (vk_debug V)
       (optimalTilingFeatures format_props \<inter> VkUtil_ImageUsageToFormatFeatures (ici_usage info) \<noteq> {})
       ''Format is not supported for GPU local images (i.e. not host visible images)'' (
     if td_is_aliasing desc
     then vk_do V (VkResource (VkCreateImage (pVkDevice D) info)) (\<lambda>r.
          CHECK_VKRESULT V r (
          ret \<lparr>ir_image = vk_out r 0, ir_allocation = VK_NULL_HANDLE, ir_aspect_mask = aspect_mask,
               ir_is_dedicated = False, ir_can_alias = False\<rparr>))
     else
     let mem_reqs = texture_allocation_info A desc;
         info = info\<lparr>ici_external := external_memory A \<and> has_any (td_flags desc) CGPU_TCF_IMPORT_BIT\<rparr> in
     vk_do V (VkResource (VmaCreateImage (pVmaAllocator D) info mem_reqs)) (\<lambda>r.
     CHECK_VKRESULT V r (
     ret \<lparr>ir_image = vk_out r 0, ir_allocation = vk_out r 1, ir_aspect_mask = aspect_mask,
          ir_is_dedicated = VMA_ALLOCATION_CREATE_DEDICATED_MEMORY_BIT \<in> vma_flags mem_reqs,
          ir_can_alias = VMA_ALLOCATION_CREATE_CAN_ALIAS_BIT \<in> vma_flags mem_reqs\<rparr>))))))"

text \<open>The texture object. Its members are bit fields: 16 bits for the extent, 5 for the mip
  levels, 11 for the number of layers less one, 8 for the format and 4 for the aspects.\<close>

definition texture_of ::
    "CGPUTextureDescriptor \<Rightarrow> bool \<Rightarrow> VkImageType \<Rightarrow> image_result \<Rightarrow> CGPUTexture_Vulkan" where
  "texture_of desc owns_image type r =
     \<lparr>texture_device = NULL, texture_sample_count = 0,
      texture_width = td_width desc mod 2 ^ 16, texture_height = td_height desc mod 2 ^ 16,
      texture_depth = td_depth desc mod 2 ^ 16, texture_mip_levels = td_mip_levels desc mod 2 ^ 5,
      texture_array_size_minus_one = ((td_array_size desc + (2 ^ 32 - 1)) mod 2 ^ 32) mod 2 ^ 11,
      texture_format = td_format desc mod 2 ^ 8, texture_aspect_mask = ir_aspect_mask r AND 0xF,
      texture_is_cube = cubemap_required desc, texture_is_dedicated = ir_is_dedicated r,
      texture_owns_image = owns_image, texture_is_aliasing = td_is_aliasing desc,
      texture_can_alias = ir_can_alias r \<or> td_is_aliasing desc,
      mImageType = type, pVkImage = ir_image r, texture_pVkAllocation = ir_allocation r\<rparr>"

text \<open>The transition to the start state, recorded and submitted through the front end under the
  mutex of the owner queue.\<close>

definition transition_to_start_state ::
    "vk_env \<Rightarrow> cgpu_env \<Rightarrow> CGPUQueueId \<Rightarrow> CGPUTextureId \<Rightarrow> ECGPUResourceState \<Rightarrow> unit vk_prog" where
  "transition_to_start_state V E queue texture start_state =
     deref queues queue (\<lambda>Q.
     vk_do V (VkQueue (MutexAcquire (queue_pMutex Q))) (\<lambda>_.
     bindP (cgpu_reset_command_pool E (pInnerCmdPool Q)) (\<lambda>_.
     bindP (cgpu_cmd_begin E (pInnerCmdBuffer Q)) (\<lambda>_.
     bindP (cgpu_cmd_resource_barrier E (pInnerCmdBuffer Q)
              \<lparr>rb_buffer_barriers = [],
               rb_texture_barriers = [\<lparr>tbar_texture = texture, tbar_src_state = CGPU_RESOURCE_STATE_UNDEFINED,
                 tbar_dst_state = start_state, tbar_queue_acquire = False, tbar_queue_release = False,
                 tbar_queue_type = CGPU_QUEUE_TYPE_GRAPHICS, tbar_subresource_barrier = False,
                 tbar_mip_level = 0, tbar_array_layer = 0\<rparr>]\<rparr>) (\<lambda>_.
     bindP (cgpu_cmd_end E (pInnerCmdBuffer Q)) (\<lambda>_.
     bindP (cgpu_submit_queue E queue (Some
              \<lparr>sd_cmds = [pInnerCmdBuffer Q], sd_signal_fence = pInnerFence Q, sd_wait_semaphores = [],
               sd_signal_semaphores = []\<rparr>)) (\<lambda>_.
     bindP (cgpu_wait_fences E [pInnerFence Q]) (\<lambda>_.
     vk_do V (VkQueue (MutexRelease (queue_pMutex Q))) (\<lambda>_.
     ret ())))))))))"

text \<open>The rest of the creation: the name and the start state of the new object.\<close>

definition setup_texture ::
    "vk_env \<Rightarrow> cgpu_env \<Rightarrow> CGPUDevice_Vulkan \<Rightarrow> CGPUTextureDescriptor \<Rightarrow> image_result \<Rightarrow> CGPUTextureId
      \<Rightarrow> CGPUTextureId vk_prog" where
  "setup_texture V E D desc img T =
     VkUtil_OptionalSetObjectName V D (ir_image img) (td_name desc) (
     bindP (if td_owner_queue desc \<noteq> NULL \<and> ir_image img \<noteq> VK_NULL_HANDLE
               \<and> ir_allocation img \<noteq> VK_NULL_HANDLE
            then transition_to_start_state V E (td_owner_queue desc) T (td_start_state desc)
            else ret ()) (\<lambda>_.
     ret T))"

definition cgpu_create_texture_vulkan ::
    "vk_env \<Rightarrow> cgpu_env \<Rightarrow> CGPUDeviceId \<Rightarrow> CGPUTextureDescriptor \<Rightarrow> CGPUTextureId vk_prog" where
  "cgpu_create_texture_vulkan V E device desc =
     (if CGPU_SAMPLE_COUNT_1 < td_sample_count desc \<and> 1 < td_mip_levels desc
      then assertc (vk_debug V) False ''false'' (ret NULL)
      else
      deref devices device (\<lambda>D.
      let imported = td_native_handle desc \<noteq> NULL \<and> \<not> has_any (td_flags desc) CGPU_TCF_IMPORT_BIT;
          owns_image = (\<not> imported \<and> \<not> td_is_aliasing desc) in
      image_type_of V desc (\<lambda>type.
      bindP (if imported
             then ret \<lparr>ir_image = td_native_handle desc, ir_allocation = VK_NULL_HANDLE, ir_aspect_mask = 0,
                       ir_is_dedicated = False, ir_can_alias = False\<rparr>
             else create_image V D desc type) (\<lambda>image.
      calloc textures_update (texture_of desc owns_image type image) (
      setup_texture V E D desc image)))))"

text \<open>The release of an image that is not owned destroys it as well, without its memory.\<close>

definition cgpu_free_texture_vulkan :: "vk_env \<Rightarrow> CGPUTextureId \<Rightarrow> unit vk_prog" where
  "cgpu_free_texture_vulkan V texture =
     deref textures texture (\<lambda>T.
     bindP (if pVkImage T \<noteq> VK_NULL_HANDLE
            then deref devices (texture_device T) (\<lambda>D.
                 if texture_owns_image T
                 then vk_do V (VkResource (VmaDestroyImage (pVmaAllocator D) (pVkImage T)
                        (texture_pVkAllocation T))) (\<lambda>_. ret ())
                 else vk_do V (VkResource (VkDestroyImage (pVkDevice D) (pVkImage T))) (\<lambda>_. ret ()))
            else ret ()) (\<lambda>_.
     release textures_update texture (ret ())))"

section \<open>Texture views\<close>

definition view_type_of ::
    "vk_env \<Rightarrow> CGPUTexture_Vulkan \<Rightarrow> CGPUTextureViewDescriptor \<Rightarrow> (VkImageViewType \<Rightarrow> 'a vk_prog) \<Rightarrow> 'a vk_prog" where
  "view_type_of V T desc k =
     (case mImageType T of
        VK_IMAGE_TYPE_1D \<Rightarrow>
          k (if 1 < tvd_array_layer_count desc then VK_IMAGE_VIEW_TYPE_1D_ARRAY else VK_IMAGE_VIEW_TYPE_1D)
      | VK_IMAGE_TYPE_2D \<Rightarrow>
          k (if texture_is_cube T
             then if tvd_dims desc = CGPU_TEX_DIMENSION_CUBE_ARRAY then VK_IMAGE_VIEW_TYPE_CUBE_ARRAY
                  else VK_IMAGE_VIEW_TYPE_CUBE
             else if tvd_dims desc = CGPU_TEX_DIMENSION_2D_ARRAY \<or> tvd_dims desc = CGPU_TEX_DIMENSION_2DMS_ARRAY
                  then VK_IMAGE_VIEW_TYPE_2D_ARRAY else VK_IMAGE_VIEW_TYPE_2D)
      | VK_IMAGE_TYPE_3D \<Rightarrow>
          assertc (vk_debug V) (\<not> 1 < tvd_array_layer_count desc) ''false'' (k VK_IMAGE_VIEW_TYPE_3D)
      | VK_IMAGE_TYPE_MAX_ENUM \<Rightarrow>
          assertc (vk_debug V) False ''Image Format not supported!'' (k VK_IMAGE_VIEW_TYPE_MAX_ENUM))"

definition view_aspect_mask :: "CGPUTextureViewAspects \<Rightarrow> VkImageAspectFlags" where
  "view_aspect_mask aspects =
     (if has_any aspects CGPU_TVA_STENCIL then VK_IMAGE_ASPECT_STENCIL_BIT else 0)
   OR (if has_any aspects CGPU_TVA_COLOR then VK_IMAGE_ASPECT_COLOR_BIT else 0)
   OR (if has_any aspects CGPU_TVA_DEPTH then VK_IMAGE_ASPECT_DEPTH_BIT else 0)"

definition srv_desc :: "CGPUTexture_Vulkan \<Rightarrow> VkImageViewType \<Rightarrow> CGPUTextureViewDescriptor \<Rightarrow> VkImageViewCreateInfo" where
  "srv_desc T type desc =
     \<lparr>ivc_image = pVkImage T, ivc_viewType = type, ivc_format = VkUtil_FormatTranslateToVk (tvd_format desc),
      ivc_aspectMask = view_aspect_mask (tvd_aspects desc), ivc_baseMipLevel = tvd_base_mip_level desc,
      ivc_levelCount = tvd_mip_level_count desc, ivc_baseArrayLayer = tvd_base_array_layer desc,
      ivc_layerCount = tvd_array_layer_count desc\<rparr>"

text \<open>The view of an image for storage: cubes become arrays.\<close>

definition uav_desc :: "VkImageViewCreateInfo \<Rightarrow> VkImageViewCreateInfo" where
  "uav_desc srv =
     (if ivc_viewType srv = VK_IMAGE_VIEW_TYPE_CUBE_ARRAY \<or> ivc_viewType srv = VK_IMAGE_VIEW_TYPE_CUBE
      then srv\<lparr>ivc_viewType := VK_IMAGE_VIEW_TYPE_2D_ARRAY\<rparr> else srv)"

definition create_view_if ::
    "vk_env \<Rightarrow> CGPUDeviceId \<Rightarrow> bool \<Rightarrow> VkImageViewCreateInfo \<Rightarrow> CGPUTextureViewId
      \<Rightarrow> (VkHandle \<Rightarrow> CGPUTextureView_Vulkan \<Rightarrow> CGPUTextureView_Vulkan) \<Rightarrow> unit vk_prog" where
  "create_view_if V device wanted info TV set_view =
     (if wanted
      then deref devices device (\<lambda>D.
           vk_do V (VkResource (VkCreateImageView (pVkDevice D) info)) (\<lambda>r.
           CHECK_VKRESULT V r (
           store texture_views texture_views_update TV (set_view (vk_out r 0)) (ret ()))))
      else ret ())"

definition zero_view :: CGPUTextureView_Vulkan where
  "zero_view = \<lparr>view_device = NULL, view_info =
     \<lparr>tvd_name = None, tvd_texture = NULL, tvd_format = CGPU_FORMAT_UNDEFINED, tvd_usages = 0, tvd_aspects = 0,
      tvd_dims = CGPU_TEX_DIMENSION_1D, tvd_base_array_layer = 0, tvd_array_layer_count = 0,
      tvd_base_mip_level = 0, tvd_mip_level_count = 0\<rparr>,
     pVkRTVDSVDescriptor = VK_NULL_HANDLE, pVkSRVDescriptor = VK_NULL_HANDLE, pVkUAVDescriptor = VK_NULL_HANDLE\<rparr>"

definition cgpu_create_texture_view_vulkan ::
    "vk_env \<Rightarrow> CGPUDeviceId \<Rightarrow> CGPUTextureViewDescriptor \<Rightarrow> CGPUTextureViewId vk_prog" where
  "cgpu_create_texture_view_vulkan V device desc =
     deref textures (tvd_texture desc) (\<lambda>T.
     calloc texture_views_update zero_view (\<lambda>TV.
     view_type_of V T desc (\<lambda>type.
     assertc (vk_debug V) (type \<noteq> VK_IMAGE_VIEW_TYPE_MAX_ENUM) ''Invalid Image View'' (
     let srv = srv_desc T type desc in
     bindP (create_view_if V (texture_device T) (has_any (tvd_usages desc) CGPU_TVU_SRV) srv TV
              (\<lambda>h. pVkSRVDescriptor_update (\<lambda>_. h))) (\<lambda>_.
     bindP (create_view_if V (texture_device T) (has_any (tvd_usages desc) CGPU_TVU_UAV) (uav_desc srv) TV
              (\<lambda>h. pVkUAVDescriptor_update (\<lambda>_. h))) (\<lambda>_.
     bindP (create_view_if V (texture_device T) (has_any (tvd_usages desc) CGPU_TVU_RTV_DSV) srv TV
              (\<lambda>h. pVkRTVDSVDescriptor_update (\<lambda>_. h))) (\<lambda>_.
     ret TV)))))))"

definition destroy_view_if :: "vk_env \<Rightarrow> CGPUDeviceId \<Rightarrow> VkHandle \<Rightarrow> 'a vk_prog \<Rightarrow> 'a vk_prog" where
  "destroy_view_if V device view k =
     (if VK_NULL_HANDLE \<noteq> view
      then deref devices device (\<lambda>D.
           vk_do V (VkResource (VkDestroyImageView (pVkDevice D) view)) (\<lambda>_. k)) else k)"

definition cgpu_free_texture_view_vulkan :: "vk_env \<Rightarrow> CGPUTextureViewId \<Rightarrow> unit vk_prog" where
  "cgpu_free_texture_view_vulkan V render_target =
     deref texture_views render_target (\<lambda>TV.
     destroy_view_if V (view_device TV) (pVkSRVDescriptor TV) (
     destroy_view_if V (view_device TV) (pVkRTVDSVDescriptor TV) (
     destroy_view_if V (view_device TV) (pVkUAVDescriptor TV) (
     release texture_views_update render_target (ret ())))))"

section \<open>Aliasing\<close>

text \<open>The answer to a query of memory requirements: size, alignment and the mask of types.\<close>

definition memory_fits :: "vk_reply \<Rightarrow> vk_reply \<Rightarrow> bool" where
  "memory_fits aliased aliasing \<longleftrightarrow>
     vk_out aliasing 0 \<le> vk_out aliased 0 \<and> vk_out aliasing 1 \<le> vk_out aliased 1
     \<and> (word_of_nat (vk_out aliased 2) :: u32) AND word_of_nat (vk_out aliasing 2) \<noteq> 0"

definition cgpu_try_bind_aliasing_texture_vulkan ::
    "vk_env \<Rightarrow> CGPUDeviceId \<Rightarrow> CGPUTextureAliasingBindDescriptor \<Rightarrow> bool vk_prog" where
  "cgpu_try_bind_aliasing_texture_vulkan V device desc =
     (if tab_aliased desc \<noteq> NULL
      then deref textures (tab_aliasing desc) (\<lambda>Aliasing.
           assertc (vk_debug V) (texture_is_aliasing Aliasing) ''aliasing texture need to be created as aliasing!'' (
           deref textures (tab_aliased desc) (\<lambda>Aliased.
           if pVkImage Aliased \<noteq> VK_NULL_HANDLE \<and> texture_pVkAllocation Aliased \<noteq> VK_NULL_HANDLE
              \<and> pVkImage Aliasing \<noteq> VK_NULL_HANDLE \<and> \<not> texture_is_dedicated Aliased \<and> texture_is_aliasing Aliasing
           then deref devices device (\<lambda>D.
                vk_do V (VkResource (VkGetImageMemoryRequirements (pVkDevice D) (pVkImage Aliasing))) (\<lambda>aliasingMemReq.
                vk_do V (VkResource (VkGetImageMemoryRequirements (pVkDevice D) (pVkImage Aliased))) (\<lambda>aliasedMemReq.
                if memory_fits aliasedMemReq aliasingMemReq
                then vk_do V (VkResource (VmaBindImageMemory (pVmaAllocator D) (texture_pVkAllocation Aliased)
                       (pVkImage Aliasing))) (\<lambda>res.
                     if vk_result res = VK_SUCCESS
                     then store textures textures_update (tab_aliasing desc)
                            (texture_pVkAllocation_update (\<lambda>_. texture_pVkAllocation Aliased)) (ret True)
                     else ret False)
                else ret False)))
           else ret False)))
      else ret False)"

section \<open>Samplers\<close>

text \<open>\<open>x > 0.0f\<close>, on the bits of the float: neither negative, nor zero, nor not a number.\<close>

definition float_positive :: "f32 \<Rightarrow> bool" where
  "float_positive x \<longleftrightarrow> 0 < x \<and> x \<le> 0x7F800000"

definition FLT_MAX :: f32 where "FLT_MAX = 0x7F7FFFFF"

definition sampler_info ::
    "CGPUSamplerDescriptor \<Rightarrow> VkSamplerMipmapMode \<Rightarrow> VkCompareOp \<Rightarrow> VkSamplerCreateInfo" where
  "sampler_info desc mipmap_mode compare_op =
     \<lparr>sci_magFilter = VkUtil_TranslateFilterType (smp_mag_filter desc),
      sci_minFilter = VkUtil_TranslateFilterType (smp_min_filter desc),
      sci_mipmapMode = mipmap_mode,
      sci_addressModeU = VkUtil_TranslateAddressMode (smp_address_u desc),
      sci_addressModeV = VkUtil_TranslateAddressMode (smp_address_v desc),
      sci_addressModeW = VkUtil_TranslateAddressMode (smp_address_w desc),
      sci_mipLodBias = smp_mip_lod_bias desc,
      sci_anisotropyEnable = float_positive (smp_max_anisotropy desc),
      sci_maxAnisotropy = smp_max_anisotropy desc,
      sci_compareEnable = (compare_op \<noteq> VK_COMPARE_OP_NEVER), sci_compareOp = compare_op,
      sci_maxLod = (if smp_mipmap_mode desc = CGPU_MIPMAP_MODE_LINEAR then FLT_MAX else 0)\<rparr>"

definition cgpu_create_sampler_vulkan ::
    "vk_env \<Rightarrow> CGPUDeviceId \<Rightarrow> CGPUSamplerDescriptor \<Rightarrow> CGPUSamplerId vk_prog" where
  "cgpu_create_sampler_vulkan V device desc =
     calloc samplers_update \<lparr>sampler_device = NULL, pVkSampler = VK_NULL_HANDLE\<rparr> (\<lambda>S.
     VkUtil_TranslateMipMapMode V (smp_mipmap_mode desc) (\<lambda>mipmap_mode.
     index_of ''gVkComparisonFuncTranslator'' gVkComparisonFuncTranslator
       (compare_mode_value (smp_compare_func desc)) (\<lambda>compare_op.
     deref devices device (\<lambda>D.
     vk_do V (VkResource (VkCreateSampler (pVkDevice D) (sampler_info desc mipmap_mode compare_op))) (\<lambda>r.
     CHECK_VKRESULT V r (
     store samplers samplers_update S (pVkSampler_update (\<lambda>_. vk_out r 0)) (
     ret S)))))))"

definition cgpu_free_sampler_vulkan :: "vk_env \<Rightarrow> CGPUSamplerId \<Rightarrow> unit vk_prog" where
  "cgpu_free_sampler_vulkan V sampler =
     deref samplers sampler (\<lambda>S.
     deref devices (sampler_device S) (\<lambda>D.
     vk_do V (VkResource (VkDestroySampler (pVkDevice D) (pVkSampler S))) (\<lambda>_.
     release samplers_update sampler (ret ()))))"

end
