(* ===== verification/Vk_Pipeline.thy ===== *)
theory Vk_Pipeline
  imports Vk_Pass Vk_Root_Sig Vk_Resource
begin

text \<open>
  The update of descriptor sets and the creation of render pipelines of
  src/gpu/cgpu/vulkan/cgpu_vulkan.c.
\<close>

section \<open>Updating a descriptor set\<close>

text \<open>The resource a parameter names, by the hash of its name (the last one of the table) or by
  its place in the table.\<close>

definition resource_of ::
    "vk_env \<Rightarrow> CGPUDeviceId \<Rightarrow> CGPUParameterTable \<Rightarrow> CGPUDescriptorData
      \<Rightarrow> (CGPUShaderResource \<Rightarrow> 'a vk_prog) \<Rightarrow> 'a vk_prog" where
  "resource_of V device ParamTable param k =
     (case ddata_name param of
        Some name \<Rightarrow>
          (case filter (\<lambda>r. res_name_hash r = hash_name V name device) (tab_resources ParamTable) of
             [] \<Rightarrow> fail NullDeref
           | r # rs \<Rightarrow> k (last (r # rs)))
      | None \<Rightarrow> index_of ''resources'' (tab_resources ParamTable) (ddata_binding param) k)"

definition VK_WHOLE_SIZE :: nat where "VK_WHOLE_SIZE = 2 ^ 64 - 1"

text \<open>The values of the two layouts that are written.\<close>

definition image_layout_value :: "bool \<Rightarrow> nat" where
  "image_layout_value storage = (if storage then 1 else 5)"

definition write_image :: "VkHandle \<Rightarrow> bool \<Rightarrow> VkDescriptorUpdateData \<Rightarrow> VkDescriptorUpdateData" where
  "write_image view storage data =
     data\<lparr>upd_handle := VK_NULL_HANDLE, upd_second := view,
          upd_third := upd_third data div 2 ^ 32 * 2 ^ 32 + image_layout_value storage\<rparr>"

definition write_sampler :: "VkHandle \<Rightarrow> VkDescriptorUpdateData \<Rightarrow> VkDescriptorUpdateData" where
  "write_sampler sampler data = data\<lparr>upd_handle := sampler\<rparr>"

definition write_buffer :: "VkHandle \<Rightarrow> nat \<Rightarrow> nat \<Rightarrow> VkDescriptorUpdateData \<Rightarrow> VkDescriptorUpdateData" where
  "write_buffer buffer offset len data = data\<lparr>upd_handle := buffer, upd_second := offset, upd_third := len\<rparr>"

text \<open>Writing one entry of the update data of a set.\<close>

definition write_update ::
    "CGPUDescriptorSetId \<Rightarrow> nat \<Rightarrow> (VkDescriptorUpdateData \<Rightarrow> VkDescriptorUpdateData) \<Rightarrow> unit vk_prog" where
  "write_update dset i f =
     deref desc_sets dset (\<lambda>S.
     index_of ''pUpdateData'' (pUpdateData S) i (\<lambda>data.
     store desc_sets desc_sets_update dset (pUpdateData_update (\<lambda>ds. ds[i := f data])) (ret ())))"

text \<open>The handle at a place of the array of a parameter, which must be neither NULL in a debug build.\<close>

definition handle_at ::
    "vk_env \<Rightarrow> CGPUDescriptorData \<Rightarrow> nat \<Rightarrow> string \<Rightarrow> (ptr \<Rightarrow> 'a vk_prog) \<Rightarrow> 'a vk_prog" where
  "handle_at V param arr msg k =
     (case ddata_handles param of
        None \<Rightarrow> fail NullDeref
      | Some hs \<Rightarrow> index_of ''handles'' hs arr (\<lambda>h. assertc (vk_debug V) (h \<noteq> NULL) msg (k h)))"

definition update_texture ::
    "vk_env \<Rightarrow> CGPUDescriptorSetId \<Rightarrow> CGPUDescriptorData \<Rightarrow> CGPUShaderResource \<Rightarrow> nat \<Rightarrow> unit vk_prog" where
  "update_texture V dset param r arr =
     handle_at V param arr ''cgpu_assert: Binding NULL texture!'' (\<lambda>h.
     deref texture_views h (\<lambda>TV.
     let storage = res_type r = CGPU_RESOURCE_TYPE_RW_TEXTURE in
     write_update dset ((res_binding r + arr) mod 2 ^ 32)
       (write_image (if storage then pVkUAVDescriptor TV else pVkSRVDescriptor TV) storage)))"

definition update_sampler ::
    "vk_env \<Rightarrow> CGPUDescriptorSetId \<Rightarrow> CGPUDescriptorData \<Rightarrow> CGPUShaderResource \<Rightarrow> nat \<Rightarrow> unit vk_prog" where
  "update_sampler V dset param r arr =
     handle_at V param arr ''cgpu_assert: Binding NULL Sampler!'' (\<lambda>h.
     deref samplers h (\<lambda>S.
     write_update dset ((res_binding r + arr) mod 2 ^ 32) (write_sampler (pVkSampler S))))"

definition update_buffer ::
    "vk_env \<Rightarrow> CGPUDescriptorSetId \<Rightarrow> CGPUDescriptorData \<Rightarrow> CGPUShaderResource \<Rightarrow> nat \<Rightarrow> unit vk_prog" where
  "update_buffer V dset param r arr =
     handle_at V param arr ''cgpu_assert: Binding NULL Buffer!'' (\<lambda>h.
     deref buffers h (\<lambda>B.
     bindP (case ddata_buffer_ranges param of
              None \<Rightarrow> ret (buffer_mOffset B, VK_WHOLE_SIZE)
            | Some ranges \<Rightarrow> index_of ''offsets'' ranges arr ret) (\<lambda>(offset, len).
     write_update dset ((res_binding r + arr) mod 2 ^ 32) (write_buffer (pVkBuffer B) offset len))))"

text \<open>One parameter; the result tells whether the set is dirty.\<close>

definition update_parameter ::
    "vk_env \<Rightarrow> CGPUDescriptorSetId \<Rightarrow> CGPUDescriptorData \<Rightarrow> CGPUShaderResource \<Rightarrow> bool vk_prog" where
  "update_parameter V dset param r =
     (let arrayCount = max 1 (ddata_count param);
          given = ddata_handles param \<noteq> None in
      if res_type r = CGPU_RESOURCE_TYPE_RW_TEXTURE \<or> res_type r = CGPU_RESOURCE_TYPE_TEXTURE
      then assertc (vk_debug V) given ''cgpu_assert: Binding NULL texture(s)'' (
           bindP (for_each [0..<arrayCount] (update_texture V dset param r)) (\<lambda>_. ret True))
      else if res_type r = CGPU_RESOURCE_TYPE_SAMPLER
      then assertc (vk_debug V) given ''cgpu_assert: Binding NULL Sampler(s)'' (
           bindP (for_each [0..<arrayCount] (update_sampler V dset param r)) (\<lambda>_. ret True))
      else if res_type r = CGPU_RESOURCE_TYPE_BUFFER \<or> res_type r = CGPU_RESOURCE_TYPE_BUFFER_RAW
              \<or> res_type r = CGPU_RESOURCE_TYPE_RW_BUFFER \<or> res_type r = CGPU_RESOURCE_TYPE_RW_BUFFER_RAW
      then assertc (vk_debug V) given ''cgpu_assert: Binding NULL Buffer(s)!'' (
           bindP (for_each [0..<arrayCount] (update_buffer V dset param r)) (\<lambda>_. ret True))
      else assertc (vk_debug V) False ''Descriptor Type not supported!'' (ret False))"

fun update_parameters ::
    "vk_env \<Rightarrow> CGPUDescriptorSetId \<Rightarrow> CGPURootSignature_Vulkan \<Rightarrow> nat \<Rightarrow> CGPUDescriptorData list \<Rightarrow> bool \<Rightarrow> bool vk_prog" where
  "update_parameters V dset RS table_index [] dirty = ret dirty"
| "update_parameters V dset RS table_index (param # params) dirty =
     index_of ''tables'' (rs_tables RS) table_index (\<lambda>ParamTable.
     resource_of V (rs_device RS) ParamTable param (\<lambda>r.
     bindP (update_parameter V dset param r) (\<lambda>d.
     update_parameters V dset RS table_index params (dirty \<or> d))))"

definition cgpu_update_descriptor_set_vulkan ::
    "vk_env \<Rightarrow> CGPUDescriptorSetId \<Rightarrow> CGPUDescriptorData list \<Rightarrow> unit vk_prog" where
  "cgpu_update_descriptor_set_vulkan V dset datas =
     deref desc_sets dset (\<lambda>Set.
     deref root_sigs (set_root_signature Set) (\<lambda>RS.
     if length (pUpdateData Set) < length datas then fail (OutOfBounds ''pUpdateData'')
     else
     store desc_sets desc_sets_update dset
       (pUpdateData_update (\<lambda>ds. replicate (length datas) zero_update_data @ drop (length datas) ds)) (
     bindP (update_parameters V dset RS (table_index_of RS (set_index Set)) datas False) (\<lambda>dirty.
     if dirty
     then deref devices (rs_device RS) (\<lambda>D.
          index_of ''pSetLayouts'' (pSetLayouts RS) (set_index Set) (\<lambda>SetLayout.
          deref desc_sets dset (\<lambda>Set.
          vk_do V (VkObject (VkUpdateDescriptorSetWithTemplate (pVkDevice D) (pVkDescriptorSet Set)
                    (sl_pUpdateTemplate SetLayout) (pUpdateData Set))) (\<lambda>_. ret ()))))
     else ret ()))))"

section \<open>Tables of the pipeline state\<close>

fun stencil_op_value :: "ECGPUStencilOp \<Rightarrow> nat" where
  "stencil_op_value CGPU_STENCIL_OP_KEEP = 0"
| "stencil_op_value CGPU_STENCIL_OP_SET_ZERO = 1"
| "stencil_op_value CGPU_STENCIL_OP_REPLACE = 2"
| "stencil_op_value CGPU_STENCIL_OP_INVERT = 3"
| "stencil_op_value CGPU_STENCIL_OP_INCR = 4"
| "stencil_op_value CGPU_STENCIL_OP_DECR = 5"
| "stencil_op_value CGPU_STENCIL_OP_INCR_SAT = 6"
| "stencil_op_value CGPU_STENCIL_OP_DECR_SAT = 7"
| "stencil_op_value CGPU_STENCIL_OP_COUNT = 8"
| "stencil_op_value CGPU_STENCIL_OP_MAX_ENUM_BIT = max_enum_bit"

definition gVkStencilOpTranslator :: "VkStencilOp list" where
  "gVkStencilOpTranslator =
     [VK_STENCIL_OP_KEEP, VK_STENCIL_OP_ZERO, VK_STENCIL_OP_REPLACE, VK_STENCIL_OP_INVERT,
      VK_STENCIL_OP_INCREMENT_AND_WRAP, VK_STENCIL_OP_DECREMENT_AND_WRAP,
      VK_STENCIL_OP_INCREMENT_AND_CLAMP, VK_STENCIL_OP_DECREMENT_AND_CLAMP]"

fun cull_mode_value :: "ECGPUCullMode \<Rightarrow> nat" where
  "cull_mode_value CGPU_CULL_MODE_NONE = 0"
| "cull_mode_value CGPU_CULL_MODE_BACK = 1"
| "cull_mode_value CGPU_CULL_MODE_FRONT = 2"
| "cull_mode_value CGPU_CULL_MODE_BOTH = 3"
| "cull_mode_value CGPU_CULL_MODE_COUNT = 4"
| "cull_mode_value CGPU_CULL_MODE_MAX_ENUM_BIT = max_enum_bit"

text \<open>The array has four elements and three initializers: the last one is zero.\<close>

definition gVkCullModeTranslator :: "VkCullMode list" where
  "gVkCullModeTranslator = [VK_CULL_MODE_NONE, VK_CULL_MODE_BACK_BIT, VK_CULL_MODE_FRONT_BIT, VK_CULL_MODE_NONE]"

fun fill_mode_value :: "ECGPUFillMode \<Rightarrow> nat" where
  "fill_mode_value CGPU_FILL_MODE_SOLID = 0"
| "fill_mode_value CGPU_FILL_MODE_WIREFRAME = 1"
| "fill_mode_value CGPU_FILL_MODE_COUNT = 2"
| "fill_mode_value CGPU_FILL_MODE_MAX_ENUM_BIT = max_enum_bit"

definition gVkFillModeTranslator :: "VkPolygonMode list" where
  "gVkFillModeTranslator = [VK_POLYGON_MODE_FILL, VK_POLYGON_MODE_LINE]"

fun front_face_value :: "ECGPUFrontFace \<Rightarrow> nat" where
  "front_face_value CGPU_FRONT_FACE_CCW = 0"
| "front_face_value CGPU_FRONT_FACE_CW = 1"
| "front_face_value CGPU_FRONT_FACE_MAX_ENUM_BIT = max_enum_bit"

definition gVkFrontFaceTranslator :: "VkFrontFace list" where
  "gVkFrontFaceTranslator = [VK_FRONT_FACE_COUNTER_CLOCKWISE, VK_FRONT_FACE_CLOCKWISE]"

fun blend_constant_value :: "ECGPUBlendConstant \<Rightarrow> nat" where
  "blend_constant_value CGPU_BLEND_CONST_ZERO = 0"
| "blend_constant_value CGPU_BLEND_CONST_ONE = 1"
| "blend_constant_value CGPU_BLEND_CONST_SRC_COLOR = 2"
| "blend_constant_value CGPU_BLEND_CONST_ONE_MINUS_SRC_COLOR = 3"
| "blend_constant_value CGPU_BLEND_CONST_DST_COLOR = 4"
| "blend_constant_value CGPU_BLEND_CONST_ONE_MINUS_DST_COLOR = 5"
| "blend_constant_value CGPU_BLEND_CONST_SRC_ALPHA = 6"
| "blend_constant_value CGPU_BLEND_CONST_ONE_MINUS_SRC_ALPHA = 7"
| "blend_constant_value CGPU_BLEND_CONST_DST_ALPHA = 8"
| "blend_constant_value CGPU_BLEND_CONST_ONE_MINUS_DST_ALPHA = 9"
| "blend_constant_value CGPU_BLEND_CONST_SRC_ALPHA_SATURATE = 10"
| "blend_constant_value CGPU_BLEND_CONST_BLEND_FACTOR = 11"
| "blend_constant_value CGPU_BLEND_CONST_ONE_MINUS_BLEND_FACTOR = 12"
| "blend_constant_value CGPU_BLEND_CONST_COUNT = 13"
| "blend_constant_value CGPU_BLEND_CONST_MAX_ENUM_BIT = max_enum_bit"

definition gVkBlendConstantTranslator :: "VkBlendFactor list" where
  "gVkBlendConstantTranslator =
     [VK_BLEND_FACTOR_ZERO, VK_BLEND_FACTOR_ONE, VK_BLEND_FACTOR_SRC_COLOR, VK_BLEND_FACTOR_ONE_MINUS_SRC_COLOR,
      VK_BLEND_FACTOR_DST_COLOR, VK_BLEND_FACTOR_ONE_MINUS_DST_COLOR, VK_BLEND_FACTOR_SRC_ALPHA,
      VK_BLEND_FACTOR_ONE_MINUS_SRC_ALPHA, VK_BLEND_FACTOR_DST_ALPHA, VK_BLEND_FACTOR_ONE_MINUS_DST_ALPHA,
      VK_BLEND_FACTOR_SRC_ALPHA_SATURATE, VK_BLEND_FACTOR_CONSTANT_COLOR,
      VK_BLEND_FACTOR_ONE_MINUS_CONSTANT_COLOR]"

fun blend_mode_value :: "ECGPUBlendMode \<Rightarrow> nat" where
  "blend_mode_value CGPU_BLEND_MODE_ADD = 0"
| "blend_mode_value CGPU_BLEND_MODE_SUBTRACT = 1"
| "blend_mode_value CGPU_BLEND_MODE_REVERSE_SUBTRACT = 2"
| "blend_mode_value CGPU_BLEND_MODE_MIN = 3"
| "blend_mode_value CGPU_BLEND_MODE_MAX = 4"
| "blend_mode_value CGPU_BLEND_MODE_COUNT = 5"
| "blend_mode_value CGPU_BLEND_MODE_MAX_ENUM_BIT = max_enum_bit"

definition gVkBlendOpTranslator :: "VkBlendOp list" where
  "gVkBlendOpTranslator =
     [VK_BLEND_OP_ADD, VK_BLEND_OP_SUBTRACT, VK_BLEND_OP_REVERSE_SUBTRACT, VK_BLEND_OP_MIN, VK_BLEND_OP_MAX]"

section \<open>The vertex input\<close>

abbreviation (input) CGPU_MAX_VERTEX_ATTRIBS :: nat where "CGPU_MAX_VERTEX_ATTRIBS \<equiv> 15"
abbreviation (input) CGPU_MAX_VERTEX_BINDINGS :: nat where "CGPU_MAX_VERTEX_BINDINGS \<equiv> 15"

text \<open>The local arrays of the vertex input with their counts, and the binding seen last.\<close>

record vertex_input =
  vi_binding_value :: nat
  vi_binding_count :: nat
  vi_bindings :: "VkVertexInputBindingDescription list"
  vi_attribute_count :: nat
  vi_attributes :: "VkVertexInputAttributeDescription list"

definition no_vertex_input :: vertex_input where
  "no_vertex_input = \<lparr>vi_binding_value = 2 ^ 32 - 1, vi_binding_count = 0,
     vi_bindings = replicate CGPU_MAX_VERTEX_BINDINGS
       \<lparr>vib_binding = 0, vib_stride = 0, vib_inputRate = VK_VERTEX_INPUT_RATE_VERTEX\<rparr>,
     vi_attribute_count = 0,
     vi_attributes = replicate CGPU_MAX_VERTEX_BINDINGS
       \<lparr>via_location = 0, via_binding = 0, via_format = VK_FORMAT_UNDEFINED, via_offset = 0\<rparr>\<rparr>"

text \<open>The attribute descriptions of one attribute: one for every element of its array.\<close>

fun add_vertex_elements :: "CGPUVertexAttribute \<Rightarrow> nat list \<Rightarrow> vertex_input \<Rightarrow> vertex_input vk_prog" where
  "add_vertex_elements attrib [] vi = ret vi"
| "add_vertex_elements attrib (j # js) vi =
     update_at ''input_attributes'' (vi_attributes vi) (vi_attribute_count vi)
       \<lparr>via_location = vi_attribute_count vi, via_binding = va_binding attrib,
        via_format = VkUtil_FormatTranslateToVk (va_format attrib),
        via_offset = (va_offset attrib + j * nat (FormatUtil_BitSizeOfBlock (va_format attrib)) div 8) mod 2 ^ 32\<rparr>
       (\<lambda>attributes.
     add_vertex_elements attrib js
       (vi\<lparr>vi_attributes := attributes, vi_attribute_count := Suc (vi_attribute_count vi)\<rparr>))"

definition add_vertex_attribute :: "CGPUVertexAttribute \<Rightarrow> vertex_input \<Rightarrow> vertex_input vk_prog" where
  "add_vertex_attribute attrib vi =
     (let array_size = (if va_array_size attrib \<noteq> 0 then va_array_size attrib else 1);
          b = va_binding attrib;
          vi = (if vi_binding_value vi \<noteq> b
                then vi\<lparr>vi_binding_value := b, vi_binding_count := Suc (vi_binding_count vi)\<rparr> else vi) in
      index_of ''input_bindings'' (vi_bindings vi) b (\<lambda>current.
      add_vertex_elements attrib [0..<array_size]
        (vi\<lparr>vi_bindings := (vi_bindings vi)[b :=
              \<lparr>vib_binding = b, vib_stride = (vib_stride current + va_elem_stride attrib) mod 2 ^ 32,
               vib_inputRate = (if va_rate attrib = CGPU_INPUT_RATE_INSTANCE then VK_VERTEX_INPUT_RATE_INSTANCE
                                else VK_VERTEX_INPUT_RATE_VERTEX)\<rparr>]\<rparr>)))"

fun add_vertex_attributes :: "CGPUVertexAttribute list \<Rightarrow> nat list \<Rightarrow> vertex_input \<Rightarrow> vertex_input vk_prog" where
  "add_vertex_attributes attribs [] vi = ret vi"
| "add_vertex_attributes attribs (i # is) vi =
     index_of ''attributes'' attribs i (\<lambda>attrib.
     bindP (add_vertex_attribute attrib vi) (add_vertex_attributes attribs is))"

definition vertex_input_of :: "CGPUVertexLayout option \<Rightarrow> vertex_input vk_prog" where
  "vertex_input_of layout =
     (case layout of
        None \<Rightarrow> ret no_vertex_input
      | Some l \<Rightarrow> add_vertex_attributes (vl_attributes l)
                   [0..<min (vl_attribute_count l) CGPU_MAX_VERTEX_ATTRIBS] no_vertex_input)"

section \<open>The shader stages\<close>

definition shader_stage ::
    "CGPUPipelineShaderDescriptor option \<Rightarrow> VkShaderStageFlagBit \<Rightarrow> VkPipelineShaderStageCreateInfo list vk_prog" where
  "shader_stage shader stage =
     (case shader of
        None \<Rightarrow> ret []
      | Some s \<Rightarrow> deref libraries (psd_library s) (\<lambda>L.
                   ret [\<lparr>pss_stage = stage, pss_module = mShaderModule L, pss_pName = psd_entry s\<rparr>]))"

text \<open>The loop over the bits of the stages, from the vertex shader to the fragment shader.\<close>

definition shader_stages ::
    "CGPURenderPipelineDescriptor \<Rightarrow> VkPipelineShaderStageCreateInfo list vk_prog" where
  "shader_stages desc =
     bindP (map_each
       [(rppd_vertex_shader desc, VK_SHADER_STAGE_VERTEX_BIT),
        (rppd_tesc_shader desc, VK_SHADER_STAGE_TESSELLATION_CONTROL_BIT),
        (rppd_tese_shader desc, VK_SHADER_STAGE_TESSELLATION_EVALUATION_BIT),
        (rppd_geom_shader desc, VK_SHADER_STAGE_GEOMETRY_BIT),
        (rppd_fragment_shader desc, VK_SHADER_STAGE_FRAGMENT_BIT)]
       (\<lambda>(shader, stage). shader_stage shader stage)) (\<lambda>stages. ret (concat stages))"

section \<open>The fixed functions\<close>

definition topology_of ::
    "vk_env \<Rightarrow> ECGPUPrimitiveTopology \<Rightarrow> (VkPrimitiveTopology \<Rightarrow> 'a vk_prog) \<Rightarrow> 'a vk_prog" where
  "topology_of V topo k =
     (case topo of
        CGPU_PRIM_TOPO_POINT_LIST \<Rightarrow> k VK_PRIMITIVE_TOPOLOGY_POINT_LIST
      | CGPU_PRIM_TOPO_LINE_LIST \<Rightarrow> k VK_PRIMITIVE_TOPOLOGY_LINE_LIST
      | CGPU_PRIM_TOPO_LINE_STRIP \<Rightarrow> k VK_PRIMITIVE_TOPOLOGY_LINE_STRIP
      | CGPU_PRIM_TOPO_TRI_STRIP \<Rightarrow> k VK_PRIMITIVE_TOPOLOGY_TRIANGLE_STRIP
      | CGPU_PRIM_TOPO_PATCH_LIST \<Rightarrow> k VK_PRIMITIVE_TOPOLOGY_PATCH_LIST
      | CGPU_PRIM_TOPO_TRI_LIST \<Rightarrow> k VK_PRIMITIVE_TOPOLOGY_TRIANGLE_LIST
      | _ \<Rightarrow> assertc (vk_debug V) False ''Primitive Topo not supported!'' (k VK_PRIMITIVE_TOPOLOGY_TRIANGLE_LIST))"

definition compare_op :: "ECGPUCompareMode \<Rightarrow> VkCompareOp vk_prog" where
  "compare_op m = index_of ''gVkComparisonFuncTranslator'' gVkComparisonFuncTranslator (compare_mode_value m) ret"

definition stencil_op :: "ECGPUStencilOp \<Rightarrow> VkStencilOp vk_prog" where
  "stencil_op m = index_of ''gVkStencilOpTranslator'' gVkStencilOpTranslator (stencil_op_value m) ret"

definition stencil_state ::
    "ECGPUStencilOp \<Rightarrow> ECGPUStencilOp \<Rightarrow> ECGPUStencilOp \<Rightarrow> ECGPUCompareMode \<Rightarrow> CGPUDepthStateDesc \<Rightarrow> VkStencilOpState vk_prog" where
  "stencil_state fail_op pass_op depth_fail_op func d =
     bindP (stencil_op fail_op) (\<lambda>f.
     bindP (stencil_op pass_op) (\<lambda>p.
     bindP (stencil_op depth_fail_op) (\<lambda>df.
     bindP (compare_op func) (\<lambda>c.
     ret \<lparr>sos_failOp = f, sos_passOp = p, sos_depthFailOp = df, sos_compareOp = c,
          sos_compareMask = dst_stencil_read_mask d, sos_writeMask = dst_stencil_write_mask d\<rparr>))))"

definition depth_stencil_of :: "CGPUDepthStateDesc option \<Rightarrow> VkPipelineDepthStencilStateCreateInfo vk_prog" where
  "depth_stencil_of depth_state =
     (case depth_state of
        None \<Rightarrow> fail NullDeref
      | Some d \<Rightarrow>
          bindP (compare_op (dst_depth_func d)) (\<lambda>c.
          bindP (stencil_state (dst_stencil_front_fail d) (dst_stencil_front_pass d) (dst_depth_front_fail d)
                   (dst_stencil_front_func d) d) (\<lambda>front.
          bindP (stencil_state (dst_stencil_back_fail d) (dst_stencil_back_pass d) (dst_depth_back_fail d)
                   (dst_stencil_back_func d) d) (\<lambda>back.
          ret \<lparr>pds_depthTestEnable = dst_depth_test d, pds_depthWriteEnable = dst_depth_write d,
               pds_depthCompareOp = c, pds_stencilTestEnable = dst_stencil_test d,
               pds_front = front, pds_back = back\<rparr>))))"

text \<open>\<open>x != 0\<close> on the bits of a float: everything but the two zeros.\<close>

definition float_nonzero :: "f32 \<Rightarrow> bool" where "float_nonzero x \<longleftrightarrow> x AND 0x7FFFFFFF \<noteq> 0"

definition rasterization_of ::
    "vk_env \<Rightarrow> CGPURasterizerStateDescriptor option \<Rightarrow> VkPipelineRasterizationStateCreateInfo vk_prog" where
  "rasterization_of V rasterizer_state =
     (case rasterizer_state of
        None \<Rightarrow> ret \<lparr>prs_depthClampEnable = False, prs_polygonMode = VK_POLYGON_MODE_FILL,
                     prs_cullMode = VK_CULL_MODE_BACK_BIT, prs_frontFace = VK_FRONT_FACE_COUNTER_CLOCKWISE,
                     prs_depthBiasEnable = False, prs_depthBiasConstantFactor = 0, prs_depthBiasSlopeFactor = 0\<rparr>
      | Some s \<Rightarrow>
          let depth_bias = float_of_int V (ras_depth_bias s) in
          index_of ''gVkCullModeTranslator'' gVkCullModeTranslator (cull_mode_value (ras_cull_mode s)) (\<lambda>cull.
          index_of ''gVkFillModeTranslator'' gVkFillModeTranslator (fill_mode_value (ras_fill_mode s)) (\<lambda>polygon.
          index_of ''gVkFrontFaceTranslator'' gVkFrontFaceTranslator (front_face_value (ras_front_face s)) (\<lambda>front.
          ret \<lparr>prs_depthClampEnable = ras_enable_depth_clamp s, prs_polygonMode = polygon,
               prs_cullMode = cull, prs_frontFace = front, prs_depthBiasEnable = float_nonzero depth_bias,
               prs_depthBiasConstantFactor = depth_bias,
               prs_depthBiasSlopeFactor = ras_slope_scaled_depth_bias s\<rparr>))))"

section \<open>Color blending\<close>

definition blend_factor :: "string \<Rightarrow> ECGPUBlendConstant list \<Rightarrow> nat \<Rightarrow> VkBlendFactor vk_prog" where
  "blend_factor name factors i =
     index_of name factors i (\<lambda>f.
     index_of ''gVkBlendConstantTranslator'' gVkBlendConstantTranslator (blend_constant_value f) ret)"

definition blend_op :: "string \<Rightarrow> ECGPUBlendMode list \<Rightarrow> nat \<Rightarrow> VkBlendOp vk_prog" where
  "blend_op name modes i =
     index_of name modes i (\<lambda>m.
     index_of ''gVkBlendOpTranslator'' gVkBlendOpTranslator (blend_mode_value m) ret)"

definition blend_attachment :: "CGPUBlendStateDescriptor \<Rightarrow> nat \<Rightarrow> VkPipelineColorBlendAttachmentState vk_prog" where
  "blend_attachment d i =
     bindP (blend_factor ''src_factors'' (bs_src_factors d) i) (\<lambda>src.
     bindP (blend_factor ''dst_factors'' (bs_dst_factors d) i) (\<lambda>dst.
     bindP (blend_factor ''src_alpha_factors'' (bs_src_alpha_factors d) i) (\<lambda>src_alpha.
     bindP (blend_factor ''dst_alpha_factors'' (bs_dst_alpha_factors d) i) (\<lambda>dst_alpha.
     index_of ''masks'' (bs_masks d) i (\<lambda>mask.
     bindP (blend_op ''blend_modes'' (bs_blend_modes d) i) (\<lambda>color_op.
     bindP (blend_op ''blend_alpha_modes'' (bs_blend_alpha_modes d) i) (\<lambda>alpha_op.
     ret \<lparr>cba_blendEnable = (src \<noteq> VK_BLEND_FACTOR_ONE \<or> dst \<noteq> VK_BLEND_FACTOR_ZERO
            \<or> src_alpha \<noteq> VK_BLEND_FACTOR_ONE \<or> dst_alpha \<noteq> VK_BLEND_FACTOR_ZERO),
          cba_srcColorBlendFactor = src, cba_dstColorBlendFactor = dst, cba_colorBlendOp = color_op,
          cba_srcAlphaBlendFactor = src_alpha, cba_dstAlphaBlendFactor = dst_alpha, cba_alphaBlendOp = alpha_op,
          cba_colorWriteMask = mask\<rparr>)))))))"

text \<open>All eight attachments are filled; without independent blending from the first description.\<close>

definition blend_attachments :: "CGPUBlendStateDescriptor option \<Rightarrow> VkPipelineColorBlendAttachmentState list vk_prog" where
  "blend_attachments blend_state =
     (case blend_state of
        None \<Rightarrow> fail NullDeref
      | Some d \<Rightarrow> map_each [0..<CGPU_MAX_MRT_COUNT] (\<lambda>i. blend_attachment d (if bs_independent_blend d then i else 0)))"

section \<open>The render pass of a pipeline\<close>

definition CGPU_SLOT :: "nat \<Rightarrow> u32" where "CGPU_SLOT i = push_bit i 1"

fun pipeline_pass_slots ::
    "CGPURenderPipelineDescriptor \<Rightarrow> nat list \<Rightarrow> VkUtil_RenderPassDesc \<Rightarrow> VkUtil_RenderPassDesc vk_prog" where
  "pipeline_pass_slots desc [] rp_desc = ret rp_desc"
| "pipeline_pass_slots desc (i # is) rp_desc =
     index_of ''color_formats'' (rppd_color_formats desc) i (\<lambda>format.
     update_at ''pColorFormats'' (pColorFormats rp_desc) i format (\<lambda>formats.
     if has_any (rppd_color_resolve_disable_mask desc) (CGPU_SLOT i)
     then update_at ''pResolveMasks'' (pResolveMasks rp_desc) i False (\<lambda>masks.
          pipeline_pass_slots desc is (rp_desc\<lparr>pColorFormats := formats, pResolveMasks := masks\<rparr>))
     else if mSampleCount rp_desc \<noteq> CGPU_SAMPLE_COUNT_1
     then update_at ''pResolveMasks'' (pResolveMasks rp_desc) i True (\<lambda>masks.
          pipeline_pass_slots desc is (rp_desc\<lparr>pColorFormats := formats, pResolveMasks := masks\<rparr>))
     else pipeline_pass_slots desc is (rp_desc\<lparr>pColorFormats := formats\<rparr>)))"

definition pipeline_pass :: "CGPURenderPipelineDescriptor \<Rightarrow> VkUtil_RenderPassDesc vk_prog" where
  "pipeline_pass desc =
     pipeline_pass_slots desc [0..<length (rppd_color_formats desc)]
       \<lparr>pColorFormats = replicate CGPU_MAX_MRT_COUNT CGPU_FORMAT_UNDEFINED,
        pLoadActionsColor = replicate CGPU_MAX_MRT_COUNT CGPU_LOAD_ACTION_DONTCARE,
        pStoreActionsColor = replicate CGPU_MAX_MRT_COUNT CGPU_STORE_ACTION_STORE,
        pResolveMasks = replicate CGPU_MAX_MRT_COUNT False,
        mColorAttachmentCount = length (rppd_color_formats desc), mSampleCount = rppd_sample_count desc,
        mDepthStencilFormat = rppd_depth_stencil_format desc,
        mLoadActionDepth = CGPU_LOAD_ACTION_DONTCARE, mStoreActionDepth = CGPU_STORE_ACTION_STORE,
        mLoadActionStencil = CGPU_LOAD_ACTION_DONTCARE, mStoreActionStencil = CGPU_STORE_ACTION_STORE\<rparr>"

section \<open>The pipeline\<close>

definition cgpu_create_render_pipeline_vulkan ::
    "vk_env \<Rightarrow> CGPUDeviceId \<Rightarrow> CGPURenderPipelineDescriptor \<Rightarrow> CGPURenderPipelineId vk_prog" where
  "cgpu_create_render_pipeline_vulkan V device desc =
     calloc render_pipelines_update
       \<lparr>rpipe_device = NULL, rpipe_root_signature = NULL, rpipe_pVkPipeline = VK_NULL_HANDLE\<rparr> (\<lambda>RP.
     bindP (vertex_input_of (rppd_vertex_layout desc)) (\<lambda>vi.
     bindP (shader_stages desc) (\<lambda>stages.
     topology_of V (rppd_prim_topology desc) (\<lambda>topology.
     bindP (depth_stencil_of (rppd_depth_state desc)) (\<lambda>dss.
     bindP (rasterization_of V (rppd_rasterizer_state desc)) (\<lambda>rs.
     bindP (blend_attachments (rppd_blend_state desc)) (\<lambda>attachments.
     bindP (pipeline_pass desc) (\<lambda>rp_desc.
     VkUtil_FindOrCreateRenderPass V device rp_desc (\<lambda>render_pass.
     deref root_sigs (rppd_root_signature desc) (\<lambda>RS.
     deref devices device (\<lambda>D.
     vk_do V (VkObject (VkCreateGraphicsPipelines (pVkDevice D) (pPipelineCache D)
       \<lparr>gpi_pStages = stages,
        gpi_vertexBindingDescriptionCount = vi_binding_count vi, gpi_pVertexBindingDescriptions = vi_bindings vi,
        gpi_vertexAttributeDescriptionCount = vi_attribute_count vi,
        gpi_pVertexAttributeDescriptions = vi_attributes vi, gpi_topology = topology,
        gpi_rasterizationSamples = VkUtil_SampleCountTranslateToVk (rppd_sample_count desc),
        gpi_rasterization = rs, gpi_depthStencil = dss,
        gpi_attachmentCount = length (rppd_color_formats desc), gpi_pAttachments = attachments,
        gpi_layout = pPipelineLayout RS, gpi_renderPass = render_pass\<rparr>)) (\<lambda>r.
     CHECK_VKRESULT V r (
     store render_pipelines render_pipelines_update RP (rpipe_pVkPipeline_update (\<lambda>_. vk_out r 0)) (
     ret RP))))))))))))))"

end
