(* ===== verification/Vk_Reflect.thy ===== *)
theory Vk_Reflect
  imports Vk_Translate
begin

text \<open>
  Shader libraries and their reflection: \<open>VkUtil_InitializeShaderReflection\<close> of
  src/gpu/cgpu/vulkan/vulkan_utils.c and the shader functions of cgpu_vulkan_resources.c. The
  module that SPIRV-Reflect makes of the code is an input.
\<close>

section \<open>Tables\<close>

definition RTLut :: "ECGPUResourceType list" where
  "RTLut =
     [CGPU_RESOURCE_TYPE_SAMPLER, CGPU_RESOURCE_TYPE_COMBINED_IMAGE_SAMPLER, CGPU_RESOURCE_TYPE_TEXTURE,
      CGPU_RESOURCE_TYPE_RW_TEXTURE, CGPU_RESOURCE_TYPE_TEXEL_BUFFER, CGPU_RESOURCE_TYPE_RW_TEXEL_BUFFER,
      CGPU_RESOURCE_TYPE_UNIFORM_BUFFER, CGPU_RESOURCE_TYPE_RW_BUFFER, CGPU_RESOURCE_TYPE_UNIFORM_BUFFER,
      CGPU_RESOURCE_TYPE_RW_BUFFER, CGPU_RESOURCE_TYPE_INPUT_ATTACHMENT, CGPU_RESOURCE_TYPE_RAY_TRACING]"

definition DIMLut :: "ECGPUTextureDimension list" where
  "DIMLut =
     [CGPU_TEX_DIMENSION_1D, CGPU_TEX_DIMENSION_2D, CGPU_TEX_DIMENSION_3D, CGPU_TEX_DIMENSION_CUBE,
      CGPU_TEX_DIMENSION_UNDEFINED, CGPU_TEX_DIMENSION_UNDEFINED, CGPU_TEX_DIMENSION_UNDEFINED]"

definition ArrDIMLut :: "ECGPUTextureDimension list" where
  "ArrDIMLut =
     [CGPU_TEX_DIMENSION_1D_ARRAY, CGPU_TEX_DIMENSION_2D_ARRAY, CGPU_TEX_DIMENSION_UNDEFINED,
      CGPU_TEX_DIMENSION_CUBE_ARRAY, CGPU_TEX_DIMENSION_UNDEFINED, CGPU_TEX_DIMENSION_UNDEFINED,
      CGPU_TEX_DIMENSION_UNDEFINED]"

definition push_constants_name :: string where "push_constants_name = ''push_constants''"

fun tex_dimension_value :: "ECGPUTextureDimension \<Rightarrow> nat" where
  "tex_dimension_value CGPU_TEX_DIMENSION_1D = 0"
| "tex_dimension_value CGPU_TEX_DIMENSION_2D = 1"
| "tex_dimension_value CGPU_TEX_DIMENSION_2DMS = 2"
| "tex_dimension_value CGPU_TEX_DIMENSION_3D = 3"
| "tex_dimension_value CGPU_TEX_DIMENSION_CUBE = 4"
| "tex_dimension_value CGPU_TEX_DIMENSION_1D_ARRAY = 5"
| "tex_dimension_value CGPU_TEX_DIMENSION_2D_ARRAY = 6"
| "tex_dimension_value CGPU_TEX_DIMENSION_2DMS_ARRAY = 7"
| "tex_dimension_value CGPU_TEX_DIMENSION_CUBE_ARRAY = 8"
| "tex_dimension_value CGPU_TEX_DIMENSION_COUNT = 9"
| "tex_dimension_value CGPU_TEX_DIMENSION_UNDEFINED = 10"
| "tex_dimension_value CGPU_TEX_DIMENSION_MAX_ENUM_BIT = max_enum_bit"

abbreviation (input) SPV_REFLECT_TYPE_FLAG_EXTERNAL_IMAGE :: u32 where
  "SPV_REFLECT_TYPE_FLAG_EXTERNAL_IMAGE \<equiv> 0x00010000"
abbreviation (input) SPV_REFLECT_TYPE_FLAG_EXTERNAL_SAMPLED_IMAGE :: u32 where
  "SPV_REFLECT_TYPE_FLAG_EXTERNAL_SAMPLED_IMAGE \<equiv> 0x00040000"
abbreviation (input) SPV_REFLECT_TYPE_FLAG_ARRAY :: u32 where
  "SPV_REFLECT_TYPE_FLAG_ARRAY \<equiv> 0x20000000"
abbreviation (input) SPV_REFLECT_SHADER_STAGE_VERTEX_BIT :: u32 where
  "SPV_REFLECT_SHADER_STAGE_VERTEX_BIT \<equiv> 0x00000001"
abbreviation (input) SpvSourceLanguageHLSL :: u32 where
  "SpvSourceLanguageHLSL \<equiv> 5"

section \<open>Resources\<close>

text \<open>The dimension of a multisampled image: the enumerators are tested bit by bit.\<close>

definition multisampled_dim :: "ECGPUTextureDimension \<Rightarrow> ECGPUTextureDimension" where
  "multisampled_dim d =
     (let d = (if tex_dimension_value d AND tex_dimension_value CGPU_TEX_DIMENSION_2D \<noteq> 0
               then CGPU_TEX_DIMENSION_2DMS else d) in
      if tex_dimension_value d AND tex_dimension_value CGPU_TEX_DIMENSION_2D_ARRAY \<noteq> 0
      then CGPU_TEX_DIMENSION_2DMS_ARRAY else d)"

definition reflected_dim :: "SpvReflectDescriptorBinding \<Rightarrow> (ECGPUTextureDimension \<Rightarrow> 'a vk_prog) \<Rightarrow> 'a vk_prog" where
  "reflected_dim b k =
     (if has_any (sb_type_flags b) SPV_REFLECT_TYPE_FLAG_EXTERNAL_IMAGE
         \<or> has_any (sb_type_flags b) SPV_REFLECT_TYPE_FLAG_EXTERNAL_SAMPLED_IMAGE
      then index_of ''DIMLut''
             (if has_any (sb_type_flags b) SPV_REFLECT_TYPE_FLAG_ARRAY then ArrDIMLut else DIMLut) (sb_image_dim b)
             (\<lambda>d. k (if sb_image_ms b \<noteq> 0 then multisampled_dim d else d))
      else k CGPU_TEX_DIMENSION_1D)"

definition reflect_binding ::
    "vk_env \<Rightarrow> CGPUDeviceId \<Rightarrow> SpvReflectShaderModule \<Rightarrow> SpvReflectDescriptorBinding \<Rightarrow> CGPUShaderResource vk_prog" where
  "reflect_binding V device M b =
     index_of ''RTLut'' RTLut (sb_descriptor_type b) (\<lambda>type.
     reflected_dim b (\<lambda>dim.
     ret \<lparr>res_name = Some (sb_name b), res_name_hash = hash_name V (sb_name b) device, res_type = type,
          res_dim = dim, res_set = sb_set b, res_binding = sb_binding b, res_size = sb_count b,
          res_offset = 0, res_stages = sm_shader_stage M\<rparr>))"

definition reflect_push_constant ::
    "vk_env \<Rightarrow> CGPUDeviceId \<Rightarrow> SpvReflectShaderModule \<Rightarrow> SpvReflectBlockVariable \<Rightarrow> CGPUShaderResource" where
  "reflect_push_constant V device M c =
     \<lparr>res_name = Some push_constants_name, res_name_hash = hash_name V push_constants_name device,
      res_type = CGPU_RESOURCE_TYPE_PUSH_CONSTANT, res_dim = CGPU_TEX_DIMENSION_1D, res_set = 0, res_binding = 0,
      res_size = sv_size c, res_offset = sv_offset c, res_stages = sm_shader_stage M\<rparr>"

text \<open>The resources of a module: the bindings of its sets in order, then the push constants.\<close>

definition reflect_resources ::
    "vk_env \<Rightarrow> CGPUDeviceId \<Rightarrow> SpvReflectShaderModule \<Rightarrow> CGPUShaderResource list vk_prog" where
  "reflect_resources V device M =
     bindP (map_each (concat (sm_descriptor_sets M)) (reflect_binding V device M)) (\<lambda>rs.
     ret (rs @ map (reflect_push_constant V device M) (sm_push_constants M)))"

section \<open>Entry points\<close>

text \<open>The names of inputs: the semantic of HLSL sources, whose language is tested as a mask.\<close>

definition reflect_vertex_inputs :: "SpvReflectShaderModule \<Rightarrow> SpvReflectEntryPoint \<Rightarrow> CGPUVertexInput list" where
  "reflect_vertex_inputs M e =
     (if has_any (se_shader_stage e) SPV_REFLECT_SHADER_STAGE_VERTEX_BIT
      then map (\<lambda>v. \<lparr>vin_name = (if has_any (sm_source_language M) SpvSourceLanguageHLSL then si_semantic v else si_name v),
                     vin_format = VkUtil_FormatTranslateToCGPU (si_format v)\<rparr>) (sm_input_variables M)
      else [])"

text \<open>The entry point that SPIRV-Reflect finds by the name of one: the first of that name.\<close>

definition spvReflectGetEntryPoint :: "SpvReflectShaderModule \<Rightarrow> string \<Rightarrow> SpvReflectEntryPoint option" where
  "spvReflectGetEntryPoint M name = find (\<lambda>e. se_name e = name) (sm_entry_points M)"

definition reflect_entry ::
    "vk_env \<Rightarrow> CGPUDeviceId \<Rightarrow> SpvReflectShaderModule \<Rightarrow> SpvReflectEntryPoint \<Rightarrow> CGPUShaderReflection vk_prog" where
  "reflect_entry V device M listed =
     (case spvReflectGetEntryPoint M (se_name listed) of
        None \<Rightarrow> fail NullDeref
      | Some e \<Rightarrow>
          bindP (reflect_resources V device M) (\<lambda>resources.
          ret \<lparr>refl_entry_name = se_name e, refl_stage = se_shader_stage e,
               refl_vertex_inputs = reflect_vertex_inputs M e, refl_shader_resources = resources,
               refl_thread_group_sizes =
                 (if se_shader_stage e = CGPU_SHADER_STAGE_COMPUTE then se_local_size e else (0, 0, 0))\<rparr>))"

definition VkUtil_InitializeShaderReflection ::
    "vk_env \<Rightarrow> CGPUDeviceId \<Rightarrow> CGPUShaderLibraryId \<Rightarrow> CGPUShaderLibraryDescriptor \<Rightarrow> unit vk_prog" where
  "VkUtil_InitializeShaderReflection V device S desc =
     (let (ok, M) = spv_reflect V (sld_code_size desc) (sld_code desc) in
      assertc (vk_debug V) ok ''Failed to Reflect Shader!'' (
      bindP (map_each (sm_entry_points M) (reflect_entry V device M)) (\<lambda>entries.
      store libraries libraries_update S (entry_reflections_update (\<lambda>_. entries)) (ret ()))))"

section \<open>Shader libraries\<close>

definition cgpu_create_shader_library_vulkan ::
    "vk_env \<Rightarrow> CGPUDeviceId \<Rightarrow> CGPUShaderLibraryDescriptor \<Rightarrow> CGPUShaderLibraryId vk_prog" where
  "cgpu_create_shader_library_vulkan V device desc =
     calloc libraries_update
       \<lparr>library_device = NULL, library_name = [], entry_reflections = [], mShaderModule = VK_NULL_HANDLE\<rparr> (\<lambda>S.
     deref devices device (\<lambda>D.
     vk_do V (VkResource (VkCreateShaderModule (pVkDevice D) (sld_code desc) (sld_code_size desc))) (\<lambda>r.
     store libraries libraries_update S (mShaderModule_update (\<lambda>_. vk_out r 0)) (
     bindP (VkUtil_InitializeShaderReflection V device S desc) (\<lambda>_.
     ret S)))))"

text \<open>\<open>VkUtil_FreeShaderReflection\<close> frees memory that only the library points to.\<close>

definition cgpu_free_shader_library_vulkan :: "vk_env \<Rightarrow> CGPUShaderLibraryId \<Rightarrow> unit vk_prog" where
  "cgpu_free_shader_library_vulkan V library =
     deref libraries library (\<lambda>S.
     deref devices (library_device S) (\<lambda>D.
     vk_do V (VkResource (VkDestroyShaderModule (pVkDevice D) (mShaderModule S))) (\<lambda>_.
     release libraries_update library (ret ()))))"

end
