(* ===== verification/Vk_Adapter.thy ===== *)
theory Vk_Adapter
  imports Vk_Command
begin

text \<open>
  The adapters of src/gpu/cgpu/vulkan: how they are enumerated and described when an instance is
  created (vulkan_utils.c), and their queries (cgpu_vulkan.c). What a physical device offers is
  read from the Vulkan implementation of the environment.
\<close>

section \<open>Queue families\<close>

text \<open>One turn of the loop: a family is taken for the first type that has none yet and that it can
  serve.\<close>

definition select_queue_family :: "nat \<Rightarrow> VkQueueFamilyProperties \<Rightarrow> int list \<Rightarrow> int list" where
  "select_queue_family j prop indices =
     (if indices ! queue_type_value CGPU_QUEUE_TYPE_GRAPHICS = -1 \<and> VK_QUEUE_GRAPHICS_BIT \<in> queueFlags prop
      then indices[queue_type_value CGPU_QUEUE_TYPE_GRAPHICS := int j]
      else if indices ! queue_type_value CGPU_QUEUE_TYPE_COMPUTE = -1 \<and> VK_QUEUE_COMPUTE_BIT \<in> queueFlags prop
      then indices[queue_type_value CGPU_QUEUE_TYPE_COMPUTE := int j]
      else if indices ! queue_type_value CGPU_QUEUE_TYPE_TRANSFER = -1 \<and> VK_QUEUE_TRANSFER_BIT \<in> queueFlags prop
      then indices[queue_type_value CGPU_QUEUE_TYPE_TRANSFER := int j]
      else indices)"

fun select_queue_families :: "nat \<Rightarrow> VkQueueFamilyProperties list \<Rightarrow> int list \<Rightarrow> int list" where
  "select_queue_families j [] indices = indices"
| "select_queue_families j (prop # props) indices =
     select_queue_families (Suc j) props (select_queue_family j prop indices)"

definition VkUtil_SelectQueueIndices :: "vk_env \<Rightarrow> CGPUAdapter_Vulkan \<Rightarrow> CGPUAdapter_Vulkan" where
  "VkUtil_SelectQueueIndices V A =
     (let props = phys_queue_families (physical_device (vk_plat V) (pPhysicalDevice A)) in
      A\<lparr>pQueueFamilyProperties := props,
        mQueueFamilyIndices := select_queue_families 0 props (mQueueFamilyIndices A)\<rparr>)"

section \<open>Formats\<close>

definition no_format_support :: CGPUFormatSupport where
  "no_format_support = \<lparr>fs_shader_read = False, fs_shader_write = False, fs_render_target_write = False\<rparr>"

definition format_support :: "vk_env \<Rightarrow> VkHandle \<Rightarrow> ECGPUFormat \<Rightarrow> CGPUFormatSupport vk_prog" where
  "format_support V phys format =
     (let fmt = VkUtil_FormatTranslateToVk format in
      if fmt = VK_FORMAT_UNDEFINED then ret no_format_support
      else vk_do V (VkResource (VkGetPhysicalDeviceFormatProperties phys fmt)) (\<lambda>r.
           ret \<lparr>fs_shader_read = (VK_FORMAT_FEATURE_SAMPLED_IMAGE_BIT \<in> optimalTilingFeatures r),
                fs_shader_write = (VK_FORMAT_FEATURE_STORAGE_IMAGE_BIT \<in> optimalTilingFeatures r),
                fs_render_target_write =
                  (VK_FORMAT_FEATURE_COLOR_ATTACHMENT_BIT \<in> optimalTilingFeatures r
                   \<or> VK_FORMAT_FEATURE_DEPTH_STENCIL_ATTACHMENT_BIT \<in> optimalTilingFeatures r)\<rparr>))"

definition VkUtil_EnumFormatSupports :: "vk_env \<Rightarrow> CGPUAdapter_Vulkan \<Rightarrow> CGPUAdapter_Vulkan vk_prog" where
  "VkUtil_EnumFormatSupports V A =
     bindP (map_each [0..<nat CGPU_FORMAT_COUNT] (\<lambda>i. format_support V (pPhysicalDevice A) (int i))) (\<lambda>supports.
     ret (A\<lparr>adapter_detail := adapter_detail A\<lparr>format_supports := supports\<rparr>\<rparr>))"

section \<open>Layers and extensions\<close>

text \<open>
  The names that are both offered and wanted, in the order of the offered ones, entered into an
  array with as many elements as there are wanted names. The loop over the wanted names ends
  at the first that is equal, except for the extensions of a device, where it goes on.
\<close>

fun add_matching :: "bool \<Rightarrow> nat \<Rightarrow> string \<Rightarrow> string list \<Rightarrow> string list \<Rightarrow> string list vk_prog" where
  "add_matching stop cap name [] filled = ret filled"
| "add_matching stop cap name (w # wanted) filled =
     (if name = w
      then if length filled < cap
           then if stop then ret (filled @ [name]) else add_matching stop cap name wanted (filled @ [name])
           else fail (OutOfBounds ''pExtensionProperties'')
      else add_matching stop cap name wanted filled)"

fun select_names :: "bool \<Rightarrow> string list \<Rightarrow> string list \<Rightarrow> string list \<Rightarrow> string list vk_prog" where
  "select_names stop wanted [] filled = ret filled"
| "select_names stop wanted (name # offered) filled =
     bindP (add_matching stop (length wanted) name wanted filled) (select_names stop wanted offered)"

definition VkUtil_SelectPhysicalDeviceLayers ::
    "vk_env \<Rightarrow> string list \<Rightarrow> CGPUAdapter_Vulkan \<Rightarrow> CGPUAdapter_Vulkan vk_prog" where
  "VkUtil_SelectPhysicalDeviceLayers V device_layers A =
     bindP (select_names True device_layers (phys_layers (physical_device (vk_plat V) (pPhysicalDevice A))) []) (\<lambda>names.
     ret (A\<lparr>adp_pLayerNames := names\<rparr>))"

definition VkUtil_SelectPhysicalDeviceExtensions ::
    "vk_env \<Rightarrow> string list \<Rightarrow> CGPUAdapter_Vulkan \<Rightarrow> CGPUAdapter_Vulkan vk_prog" where
  "VkUtil_SelectPhysicalDeviceExtensions V device_extensions A =
     bindP (select_names False device_extensions (phys_extensions (physical_device (vk_plat V) (pPhysicalDevice A))) []) (\<lambda>names.
     ret (A\<lparr>adp_pExtensionNames := names\<rparr>))"

section \<open>Details\<close>

text \<open>The memory heap that a host can write directly: the first type of a device local heap that is
  device local and host visible. Without the budget query the search ends at the first type of
  a device local heap, whatever it is.\<close>

fun host_visible_heap :: "bool \<Rightarrow> VkMemoryHeap list \<Rightarrow> VkMemoryType list \<Rightarrow> nat option vk_prog" where
  "host_visible_heap go_on heaps [] = ret None"
| "host_visible_heap go_on heaps (t # types) =
     index_of ''memoryHeaps'' heaps (mt_heapIndex t) (\<lambda>heap.
     if VK_MEMORY_HEAP_DEVICE_LOCAL_BIT \<in> mh_flags heap
     then if VK_MEMORY_PROPERTY_DEVICE_LOCAL_BIT \<in> mt_propertyFlags t
              \<and> VK_MEMORY_PROPERTY_HOST_VISIBLE_BIT \<in> mt_propertyFlags t
          then ret (Some (mt_heapIndex t))
          else if go_on then host_visible_heap go_on heaps types else ret None
     else host_visible_heap go_on heaps types)"

definition VkUtil_QueryHostVisbleVramInfo :: "vk_env \<Rightarrow> CGPUAdapter_Vulkan \<Rightarrow> CGPUAdapter_Vulkan vk_prog" where
  "VkUtil_QueryHostVisbleVramInfo V A =
     (let info = physical_device (vk_plat V) (pPhysicalDevice A);
          heaps = phys_memoryHeaps info;
          budgets = loaded_memory_properties2 (vk_plat V);
          detail = (adapter_detail A)\<lparr>support_host_visible_vram := False\<rparr> in
      bindP (host_visible_heap budgets heaps (phys_memoryTypes info)) (\<lambda>found.
      case found of
        None \<Rightarrow> ret (A\<lparr>adapter_detail := detail\<rparr>)
      | Some h \<Rightarrow>
          if budgets
          then index_of ''heapBudget'' (phys_heapBudget info) h (\<lambda>budget.
               ret (A\<lparr>adapter_detail := detail\<lparr>support_host_visible_vram := True,
                     host_visible_vram_budget := (if budget \<noteq> 0 then budget else mh_size (heaps ! h))\<rparr>\<rparr>))
          else ret (A\<lparr>adapter_detail := detail\<lparr>support_host_visible_vram := True,
                     host_visible_vram_budget := mh_size (heaps ! h)\<rparr>\<rparr>)))"

abbreviation (input) MAX_GPU_VENDOR_STRING_LENGTH :: nat where "MAX_GPU_VENDOR_STRING_LENGTH \<equiv> 64"

text \<open>The name is copied into an array of 64 characters.\<close>

definition VkUtil_RecordAdapterDetail :: "vk_env \<Rightarrow> CGPUAdapter_Vulkan \<Rightarrow> CGPUAdapter_Vulkan vk_prog" where
  "VkUtil_RecordAdapterDetail V A =
     (let prop = physical_device (vk_plat V) (pPhysicalDevice A) in
      assertc (vk_debug V) (phys_deviceType prop \<noteq> VK_PHYSICAL_DEVICE_TYPE_OTHER)
        ''VK_PHYSICAL_DEVICE_TYPE_OTHER not supported!'' (
      if MAX_GPU_VENDOR_STRING_LENGTH < length (phys_deviceName prop) then fail (OutOfBounds ''gpu_name'')
      else VkUtil_QueryHostVisbleVramInfo V (A\<lparr>adapter_detail := (adapter_detail A)
        \<lparr>is_cpu := (phys_deviceType prop = VK_PHYSICAL_DEVICE_TYPE_CPU),
         is_virtual := (phys_deviceType prop = VK_PHYSICAL_DEVICE_TYPE_VIRTUAL_GPU),
         is_uma := (phys_deviceType prop = VK_PHYSICAL_DEVICE_TYPE_INTEGRATED_GPU),
         vendor_preset := \<lparr>vp_device_id = phys_deviceID prop, vp_vendor_id = phys_vendorID prop,
           vp_driver_version = phys_driverVersion prop, vp_gpu_name = phys_deviceName prop\<rparr>,
         uniform_buffer_alignment := minUniformBufferOffsetAlignment prop mod 2 ^ 32,
         upload_buffer_texture_alignment := optimalBufferCopyOffsetAlignment prop mod 2 ^ 32,
         upload_buffer_texture_row_alignment := optimalBufferCopyRowPitchAlignment prop mod 2 ^ 32,
         max_vertex_input_bindings := phys_maxVertexInputBindings prop,
         multidraw_indirect := (1 < maxDrawIndirectCount prop),
         wave_lane_count := subgroupSize prop,
         support_geom_shader := geometryShader prop,
         support_tessellation := tessellationShader prop\<rparr>\<rparr>)))"

section \<open>Enumeration\<close>

definition zero_adapter_detail :: CGPUAdapterDetail where
  "zero_adapter_detail = \<lparr>uniform_buffer_alignment = 0, upload_buffer_texture_alignment = 0,
     upload_buffer_texture_row_alignment = 0, max_vertex_input_bindings = 0, wave_lane_count = 0,
     host_visible_vram_budget = 0, support_host_visible_vram = False, multidraw_indirect = False,
     support_geom_shader = False, support_tessellation = False, is_uma = False, is_virtual = False,
     is_cpu = False, format_supports = replicate (nat CGPU_FORMAT_COUNT) no_format_support,
     vendor_preset = \<lparr>vp_device_id = 0, vp_vendor_id = 0, vp_driver_version = 0, vp_gpu_name = []\<rparr>\<rparr>"

text \<open>A zeroed adapter of a physical device, without queue families.\<close>

definition new_adapter :: "vk_env \<Rightarrow> VkHandle \<Rightarrow> CGPUAdapter_Vulkan" where
  "new_adapter V phys =
     (let info = physical_device (vk_plat V) phys in
      \<lparr>adapter_instance = NULL, adapter_proc_table_cache = NULL, pPhysicalDevice = phys,
       mQueueFamilyIndices = replicate 3 (-1), pQueueFamilyProperties = [], adapter_detail = zero_adapter_detail,
       maxVertexInputBindings = phys_maxVertexInputBindings info, timestampPeriod = phys_timestampPeriod info,
       external_memory = False, adp_pLayerNames = [], adp_pLayersTable = Map.empty, adp_pExtensionNames = [],
       adp_pExtensionsTable = Map.empty, debug_marker = False, dedicated_allocation = False, memory_req2 = False,
       draw_indirect_count = False, amd_draw_indirect_count = False, amd_gcn_shader = False,
       descriptor_indexing = False, sampler_ycbcr = False, nv_diagnostic_checkpoints = False,
       nv_diagnostic_config = False\<rparr>)"

definition query_adapter ::
    "vk_env \<Rightarrow> string list \<Rightarrow> string list \<Rightarrow> VkHandle \<Rightarrow> CGPUAdapterId vk_prog" where
  "query_adapter V device_layers device_extensions phys =
     bindP (VkUtil_EnumFormatSupports V (new_adapter V phys)) (\<lambda>A.
     bindP (VkUtil_SelectPhysicalDeviceLayers V device_layers A) (\<lambda>A.
     bindP (VkUtil_SelectPhysicalDeviceExtensions V device_extensions A) (\<lambda>A.
     bindP (VkUtil_RecordAdapterDetail V (VkUtil_SelectQueueIndices V A)) (\<lambda>A.
     calloc adapters_update A ret))))"

definition VkUtil_QueryAllAdapters ::
    "vk_env \<Rightarrow> CGPUInstanceId \<Rightarrow> string list \<Rightarrow> string list \<Rightarrow> unit vk_prog" where
  "VkUtil_QueryAllAdapters V instance device_layers device_extensions =
     deref instances instance (\<lambda>I.
     assertc (vk_debug V) (pVulkanAdapters I = []) ''VkUtil_QueryAllAdapters should only be called once!'' (
     if physical_devices (vk_plat V) \<noteq> []
     then bindP (map_each (physical_devices (vk_plat V)) (query_adapter V device_layers device_extensions)) (\<lambda>as.
          store instances instances_update instance (pVulkanAdapters_update (\<lambda>_. as)) (ret ()))
     else assertc (vk_debug V) False ''Vulkan: 0 physical device avalable!'' (ret ())))"

section \<open>Queries\<close>

definition cgpu_query_instance_features_vulkan :: "CGPUInstanceId \<Rightarrow> bool vk_prog" where
  "cgpu_query_instance_features_vulkan instance = ret True"

text \<open>The flag tells whether there is an array to write the adapters to.\<close>

definition cgpu_enum_adapters_vulkan ::
    "CGPUInstanceId \<Rightarrow> bool \<Rightarrow> (CGPUAdapterId list \<times> nat) vk_prog" where
  "cgpu_enum_adapters_vulkan instance array =
     deref instances instance (\<lambda>I.
     ret (if array then pVulkanAdapters I else [], length (pVulkanAdapters I)))"

definition cgpu_query_adapter_detail_vulkan :: "CGPUAdapterId \<Rightarrow> CGPUAdapterDetail vk_prog" where
  "cgpu_query_adapter_detail_vulkan adapter = deref adapters adapter (\<lambda>A. ret (adapter_detail A))"

text \<open>The queue families that count for a queue type.\<close>

definition family_serves :: "ECGPUQueueType \<Rightarrow> VkQueueFamilyProperties \<Rightarrow> bool" where
  "family_serves type prop =
     (case type of
        CGPU_QUEUE_TYPE_GRAPHICS \<Rightarrow> VK_QUEUE_GRAPHICS_BIT \<in> queueFlags prop
      | CGPU_QUEUE_TYPE_COMPUTE \<Rightarrow>
          VK_QUEUE_COMPUTE_BIT \<in> queueFlags prop \<and> VK_QUEUE_GRAPHICS_BIT \<notin> queueFlags prop
      | CGPU_QUEUE_TYPE_TRANSFER \<Rightarrow>
          VK_QUEUE_TRANSFER_BIT \<in> queueFlags prop \<and> VK_QUEUE_COMPUTE_BIT \<notin> queueFlags prop
          \<and> VK_QUEUE_GRAPHICS_BIT \<notin> queueFlags prop
      | _ \<Rightarrow> False)"

text \<open>\<open>for (i ..) if (..) count += prop->queueCount\<close>; the count is unsigned 32 bit.\<close>

definition count_queues :: "ECGPUQueueType \<Rightarrow> VkQueueFamilyProperties list \<Rightarrow> nat" where
  "count_queues type props =
     fold (\<lambda>prop count. if family_serves type prop then (count + queueCount prop) mod 2 ^ 32 else count)
       props 0"

definition cgpu_query_queue_count_vulkan ::
    "vk_env \<Rightarrow> CGPUAdapterId \<Rightarrow> ECGPUQueueType \<Rightarrow> nat vk_prog" where
  "cgpu_query_queue_count_vulkan V adapter type =
     (if type \<in> {CGPU_QUEUE_TYPE_GRAPHICS, CGPU_QUEUE_TYPE_COMPUTE, CGPU_QUEUE_TYPE_TRANSFER}
      then deref adapters adapter (\<lambda>A. ret (count_queues type (pQueueFamilyProperties A)))
      else assertc (vk_debug V) False ''CGPU VULKAN: ERROR Queue Type!'' (ret 0))"

end
