(* ===== verification/Vk_Instance.thy ===== *)
theory Vk_Instance
  imports Vk_Adapter
begin

text \<open>
  Instances and devices of src/gpu/cgpu/vulkan/cgpu_vulkan_instance.cpp and their helpers in
  vulkan_utils.c: which layers and extensions are wanted and enabled, the tables that tell which
  are, the adapters, the validation layer; the device with its allocator, pipeline cache,
  descriptor pool and pass table, and the release of all of them. The vendor libraries AGS and
  NVAPI are not part of the platform, where their probes do nothing.
\<close>

section \<open>Wanted names\<close>

definition validation_layer_name :: string where "validation_layer_name = ''VK_LAYER_KHRONOS_validation''"

definition VK_EXT_DEBUG_UTILS_EXTENSION_NAME :: string where "VK_EXT_DEBUG_UTILS_EXTENSION_NAME = ''VK_EXT_debug_utils''"
definition VK_EXT_DEBUG_REPORT_EXTENSION_NAME :: string where "VK_EXT_DEBUG_REPORT_EXTENSION_NAME = ''VK_EXT_debug_report''"
definition VK_KHR_DEVICE_GROUP_CREATION_EXTENSION_NAME :: string where
  "VK_KHR_DEVICE_GROUP_CREATION_EXTENSION_NAME = ''VK_KHR_device_group_creation''"

definition cgpu_wanted_instance_exts :: "string list" where
  "cgpu_wanted_instance_exts =
     [''VK_KHR_surface'', ''VK_NV_external_memory_capabilities'', ''VK_EXT_swapchain_colorspace'',
      ''VK_KHR_display'', ''VK_EXT_direct_mode_display'', VK_KHR_DEVICE_GROUP_CREATION_EXTENSION_NAME,
      ''VK_KHR_get_physical_device_properties2'']"

definition cgpu_wanted_device_exts :: "string list" where
  "cgpu_wanted_device_exts =
     [''VK_KHR_portability_subset'', ''VK_GOOGLE_user_type'', ''VK_GOOGLE_hlsl_functionality1'',
      ''VK_KHR_swapchain'', ''VK_KHR_maintenance1'', ''VK_KHR_shader_draw_parameters'',
      ''VK_EXT_shader_subgroup_ballot'', ''VK_EXT_shader_subgroup_vote'', ''VK_KHR_dedicated_allocation'',
      ''VK_KHR_get_memory_requirements2'', ''VK_EXT_debug_marker'', ''VK_KHR_draw_indirect_count'',
      ''VK_EXT_fragment_shader_interlock'', ''VK_AMD_draw_indirect_count'', ''VK_AMD_shader_ballot'',
      ''VK_AMD_gcn_shader'', ''VK_KHR_device_group'', ''VK_EXT_descriptor_indexing'', ''VK_KHR_maintenance3'',
      ''VK_KHR_descriptor_update_template'', ''VK_KHR_bind_memory2'', ''VK_KHR_sampler_ycbcr_conversion'']"

text \<open>The blackboard merges the defaults, the flags of the descriptor and the chained extension. The
  layers of devices are never filled.\<close>

record VkUtil_Blackboard =
  bb_messenger_info_ptr :: ptr
  bb_report_info_ptr :: ptr
  bb_instance_extensions :: "string list"
  bb_instance_layers :: "string list"
  bb_device_extensions :: "string list"
  bb_device_layers :: "string list"

definition chained_names :: "string list option \<Rightarrow> string list" where
  "chained_names names = (case names of None \<Rightarrow> [] | Some ns \<Rightarrow> ns)"

definition VkUtil_Blackboard_of :: "vk_env \<Rightarrow> CGPUInstanceDescriptor \<Rightarrow> VkUtil_Blackboard vk_prog" where
  "VkUtil_Blackboard_of V desc =
     (let bb = \<lparr>bb_messenger_info_ptr = NULL, bb_report_info_ptr = NULL,
                bb_instance_extensions = cgpu_wanted_instance_exts
                  @ (if id_enable_set_name desc
                     then [VK_EXT_DEBUG_UTILS_EXTENSION_NAME, VK_EXT_DEBUG_REPORT_EXTENSION_NAME] else []),
                bb_instance_layers = (if id_enable_debug_layer desc then [validation_layer_name] else []),
                bb_device_extensions = cgpu_wanted_device_exts, bb_device_layers = []\<rparr> in
      case id_chained desc of
        None \<Rightarrow> ret bb
      | Some exts \<Rightarrow>
          if vid_backend exts \<noteq> CGPU_BACKEND_VULKAN
          then assertc (vk_debug V) (vid_backend exts = CGPU_BACKEND_VULKAN)
                 ''Chained Instance Descriptor must have a vulkan backend!'' (ret bb)
          else ret (bb\<lparr>bb_messenger_info_ptr := vid_pDebugUtilsMessenger exts,
                      bb_report_info_ptr := vid_pDebugReportMessenger exts,
                      bb_instance_extensions := bb_instance_extensions bb @ chained_names (vid_ppInstanceExtensions exts),
                      bb_instance_layers := bb_instance_layers bb @ chained_names (vid_ppInstanceLayers exts),
                      bb_device_extensions := bb_device_extensions bb @ chained_names (vid_ppDeviceExtensions exts)\<rparr>))"

section \<open>Tables of enabled names\<close>

text \<open>Wanted names are entered as false, then enabled ones as true; reading a name that is not there
  enters it as false.\<close>

definition names_table :: "string list \<Rightarrow> string list \<Rightarrow> string \<rightharpoonup> bool" where
  "names_table wanted enabled = fold (\<lambda>n t. t(n \<mapsto> True)) enabled (fold (\<lambda>n t. t(n \<mapsto> False)) wanted Map.empty)"

definition table_get :: "(string \<rightharpoonup> bool) \<Rightarrow> string \<Rightarrow> bool" where
  "table_get t name = (t name = Some True)"

definition table_read :: "string list \<Rightarrow> (string \<rightharpoonup> bool) \<Rightarrow> string \<rightharpoonup> bool" where
  "table_read names t = fold (\<lambda>n t. if t n = None then t(n \<mapsto> False) else t) names t"

definition adapter_extension_names :: "string list" where
  "adapter_extension_names =
     [''VK_EXT_debug_marker'', ''VK_KHR_dedicated_allocation'', ''VK_KHR_get_memory_requirements2'',
      ''VK_KHR_external_memory'', ''VK_KHR_draw_indirect_count'', ''VK_AMD_draw_indirect_count'',
      ''VK_AMD_gcn_shader'', ''VK_EXT_descriptor_indexing'', ''VK_KHR_sampler_ycbcr_conversion'',
      ''VK_NV_device_diagnostic_checkpoints'', ''VK_NV_device_diagnostics_config'']"

definition adapter_extensions :: "string list \<Rightarrow> CGPUAdapter_Vulkan \<Rightarrow> CGPUAdapter_Vulkan" where
  "adapter_extensions wanted A =
     (let t = names_table wanted (adp_pExtensionNames A) in
      A\<lparr>adp_pExtensionsTable := table_read adapter_extension_names t,
        debug_marker := table_get t ''VK_EXT_debug_marker'',
        dedicated_allocation := table_get t ''VK_KHR_dedicated_allocation'',
        memory_req2 := table_get t ''VK_KHR_get_memory_requirements2'',
        external_memory := table_get t ''VK_KHR_external_memory'',
        draw_indirect_count := table_get t ''VK_KHR_draw_indirect_count'',
        amd_draw_indirect_count := table_get t ''VK_AMD_draw_indirect_count'',
        amd_gcn_shader := table_get t ''VK_AMD_gcn_shader'',
        descriptor_indexing := table_get t ''VK_EXT_descriptor_indexing'',
        sampler_ycbcr := table_get t ''VK_KHR_sampler_ycbcr_conversion'',
        nv_diagnostic_checkpoints := table_get t ''VK_NV_device_diagnostic_checkpoints'',
        nv_diagnostic_config := table_get t ''VK_NV_device_diagnostics_config''\<rparr>)"

definition adapter_layers :: "string list \<Rightarrow> CGPUAdapter_Vulkan \<Rightarrow> CGPUAdapter_Vulkan" where
  "adapter_layers wanted A = A\<lparr>adp_pLayersTable := names_table wanted (adp_pLayerNames A)\<rparr>"

text \<open>The debug report is enabled by the name of the debug utils.\<close>

definition instance_extensions_of :: "string list \<Rightarrow> CGPUInstance_Vulkan \<Rightarrow> CGPUInstance_Vulkan" where
  "instance_extensions_of wanted I =
     (let t = names_table wanted (inst_pExtensionNames I);
          utils = table_get t VK_EXT_DEBUG_UTILS_EXTENSION_NAME in
      I\<lparr>inst_pExtensionsTable :=
          table_read [VK_KHR_DEVICE_GROUP_CREATION_EXTENSION_NAME, VK_EXT_DEBUG_UTILS_EXTENSION_NAME] t,
        device_group_creation := table_get t VK_KHR_DEVICE_GROUP_CREATION_EXTENSION_NAME,
        debug_utils := utils,
        debug_report := (\<not> utils \<and> table_get t VK_EXT_DEBUG_UTILS_EXTENSION_NAME)\<rparr>)"

definition instance_layers_of :: "string list \<Rightarrow> CGPUInstance_Vulkan \<Rightarrow> CGPUInstance_Vulkan" where
  "instance_layers_of wanted I = I\<lparr>inst_pLayersTable := names_table wanted (inst_pLayerNames I)\<rparr>"

section \<open>The instance\<close>

definition VkUtil_InitializeEnvironment :: "vk_env \<Rightarrow> bool vk_prog" where
  "VkUtil_InitializeEnvironment V =
     vk_do V (VkSetup VolkInitialize) (\<lambda>r.
     if vk_result r \<noteq> VK_SUCCESS
     then assertc (vk_debug V) (vk_result r = VK_SUCCESS) ''Volk Initialize Failed!'' (ret False)
     else ret True)"

definition VkUtil_SelectInstanceLayers :: "vk_env \<Rightarrow> CGPUInstanceId \<Rightarrow> string list \<Rightarrow> unit vk_prog" where
  "VkUtil_SelectInstanceLayers V instance layers =
     bindP (select_names True layers (instance_layers (vk_plat V)) []) (\<lambda>names.
     store instances instances_update instance (inst_pLayerNames_update (\<lambda>_. names)) (ret ()))"

definition VkUtil_SelectInstanceExtensions :: "vk_env \<Rightarrow> CGPUInstanceId \<Rightarrow> string list \<Rightarrow> unit vk_prog" where
  "VkUtil_SelectInstanceExtensions V instance extensions =
     bindP (select_names True extensions (instance_extensions (vk_plat V)) []) (\<lambda>names.
     store instances instances_update instance (inst_pExtensionNames_update (\<lambda>_. names)) (ret ()))"

text \<open>An entry point of an extension is called through a pointer that may be NULL.\<close>

definition loaded_proc :: "bool \<Rightarrow> 'a vk_prog \<Rightarrow> 'a vk_prog" where
  "loaded_proc loaded k = (if loaded then k else fail NullCall)"

definition VkUtil_EnableValidationLayer ::
    "vk_env \<Rightarrow> CGPUInstanceId \<Rightarrow> ptr \<Rightarrow> ptr \<Rightarrow> unit vk_prog" where
  "VkUtil_EnableValidationLayer V instance messenger_info_ptr report_info_ptr =
     deref instances instance (\<lambda>I.
     if debug_utils I
     then assertc (vk_debug V) (loaded_debug_utils (vk_plat V)) ''Load vkCreateDebugUtilsMessengerEXT failed!'' (
          loaded_proc (loaded_debug_utils (vk_plat V)) (
          vk_do V (VkSetup (VkCreateDebugUtilsMessengerEXT (pVkInstance I) messenger_info_ptr)) (\<lambda>r.
          store instances instances_update instance (pVkDebugUtilsMessenger_update (\<lambda>_. vk_out r 0)) (
          assertc (vk_debug V) (vk_result r = VK_SUCCESS)
            ''vkCreateDebugUtilsMessengerEXT failed - disabling Vulkan debug callbacks'' (ret ())))))
     else if debug_report I
     then loaded_proc (loaded_debug_report (vk_plat V)) (
          vk_do V (VkSetup (VkCreateDebugReportCallbackEXT (pVkInstance I) report_info_ptr)) (\<lambda>r.
          store instances instances_update instance (pVkDebugReport_update (\<lambda>_. vk_out r 0)) (
          assertc (vk_debug V) (loaded_debug_utils (vk_plat V)) ''Load vkCreateDebugReportCallbackEXT failed!'' (
          assertc (vk_debug V) (vk_result r = VK_SUCCESS)
            ''vkCreateDebugReportCallbackEXT failed - disabling Vulkan debug callbacks'' (ret ())))))
     else ret ())"

definition zero_instance :: CGPUInstance_Vulkan where
  "zero_instance = \<lparr>inst_proc_table = NULL, inst_surfaces_table = NULL, inst_runtime_table = NULL,
     inst_backend = CGPU_BACKEND_VULKAN, inst_enable_set_name = False, pVkInstance = VK_NULL_HANDLE,
     pVkDebugUtilsMessenger = VK_NULL_HANDLE, pVkDebugReport = VK_NULL_HANDLE, pVulkanAdapters = [],
     inst_pLayerNames = [], inst_pLayersTable = Map.empty, inst_pExtensionNames = [],
     inst_pExtensionsTable = Map.empty, device_group_creation = False, debug_utils = False, debug_report = False\<rparr>"

text \<open>The layers of the blackboard are enabled as they are, the extensions after the selection.\<close>

definition create_vk_instance ::
    "vk_env \<Rightarrow> CGPUInstanceDescriptor \<Rightarrow> VkUtil_Blackboard \<Rightarrow> CGPUInstanceId \<Rightarrow> unit vk_prog" where
  "create_vk_instance V desc bb instance =
     deref instances instance (\<lambda>I.
     vk_do V (VkSetup (VkCreateInstance
       \<lparr>ici_ppEnabledLayerNames = bb_instance_layers bb, ici_ppEnabledExtensionNames = inst_pExtensionNames I,
        ici_gpu_assisted_validation = id_enable_gpu_based_validation desc\<rparr>)) (\<lambda>r.
     store instances instances_update instance (pVkInstance_update (\<lambda>_. vk_out r 0)) (
     assertc (vk_debug V) (vk_result r = VK_SUCCESS) ''Vulkan: failed to create instance!'' (ret ()))))"

definition construct_instance_tables :: "VkUtil_Blackboard \<Rightarrow> CGPUInstance_Vulkan \<Rightarrow> CGPUInstance_Vulkan" where
  "construct_instance_tables bb I =
     instance_extensions_of (bb_instance_extensions bb) (instance_layers_of (bb_instance_layers bb) I)"

definition construct_adapter_tables :: "VkUtil_Blackboard \<Rightarrow> CGPUInstanceId \<Rightarrow> unit vk_prog" where
  "construct_adapter_tables bb instance =
     deref instances instance (\<lambda>I.
     for_each (pVulkanAdapters I) (\<lambda>a.
     store adapters adapters_update a
       (\<lambda>A. adapter_extensions (bb_device_extensions bb) (adapter_layers (bb_device_layers bb) A)) (ret ())))"

definition cgpu_create_instance_vulkan :: "vk_env \<Rightarrow> CGPUInstanceDescriptor \<Rightarrow> CGPUInstanceId vk_prog" where
  "cgpu_create_instance_vulkan V desc =
     bindP (VkUtil_Blackboard_of V desc) (\<lambda>bb.
     calloc instances_update zero_instance (\<lambda>I.
     bindP (VkUtil_InitializeEnvironment V) (\<lambda>_.
     bindP (VkUtil_SelectInstanceLayers V I (bb_instance_layers bb)) (\<lambda>_.
     bindP (VkUtil_SelectInstanceExtensions V I (bb_instance_extensions bb)) (\<lambda>_.
     bindP (create_vk_instance V desc bb I) (\<lambda>_.
     store instances instances_update I (construct_instance_tables bb) (
     deref instances I (\<lambda>X.
     vk_do V (VkSetup (VolkLoadInstance (pVkInstance X))) (\<lambda>_.
     bindP (VkUtil_QueryAllAdapters V I (bb_device_layers bb) (bb_device_extensions bb)) (\<lambda>_.
     bindP (construct_adapter_tables bb I) (\<lambda>_.
     bindP (if id_enable_debug_layer desc
            then VkUtil_EnableValidationLayer V I (bb_messenger_info_ptr bb) (bb_report_info_ptr bb)
            else ret ()) (\<lambda>_.
     ret I))))))))))))"

definition release_adapters :: "CGPUAdapterId list \<Rightarrow> 'a vk_prog \<Rightarrow> 'a vk_prog" where
  "release_adapters as = modify (adapters_update (\<lambda>m. m |` (- set as)))"

definition cgpu_free_instance_vulkan :: "vk_env \<Rightarrow> CGPUInstanceId \<Rightarrow> unit vk_prog" where
  "cgpu_free_instance_vulkan V instance =
     deref instances instance (\<lambda>I.
     bindP (if pVkDebugUtilsMessenger I \<noteq> VK_NULL_HANDLE
            then assertc (vk_debug V) (loaded_debug_utils (vk_plat V)) ''Load vkDestroyDebugUtilsMessengerEXT failed!'' (
                 loaded_proc (loaded_debug_utils (vk_plat V)) (
                 vk_do V (VkSetup (VkDestroyDebugUtilsMessengerEXT (pVkInstance I) (pVkDebugUtilsMessenger I))) (\<lambda>_. ret ())))
            else ret ()) (\<lambda>_.
     vk_do V (VkSetup (VkDestroyInstance (pVkInstance I))) (\<lambda>_.
     release_adapters (pVulkanAdapters I) (
     release instances_update instance (ret ())))))"

section \<open>The parts of a device\<close>

definition VkUtil_CreatePipelineCache :: "vk_env \<Rightarrow> CGPUDeviceId \<Rightarrow> unit vk_prog" where
  "VkUtil_CreatePipelineCache V device =
     deref devices device (\<lambda>D.
     assertc (vk_debug V) (pPipelineCache D = VK_NULL_HANDLE) ''VkUtil_CreatePipelineCache should be called only once!'' (
     vk_do V (VkSetup (VkCreatePipelineCache (pVkDevice D))) (\<lambda>r.
     store devices devices_update device (pPipelineCache_update (\<lambda>_. vk_out r 0)) (ret ()))))"

definition VkUtil_FreePipelineCache :: "vk_env \<Rightarrow> CGPUDevice_Vulkan \<Rightarrow> unit vk_prog" where
  "VkUtil_FreePipelineCache V D =
     (if pPipelineCache D \<noteq> VK_NULL_HANDLE
      then vk_do V (VkSetup (VkDestroyPipelineCache (pVkDevice D) (pPipelineCache D))) (\<lambda>_. ret ())
      else ret ())"

definition VkUtil_CreateVMAAllocator ::
    "vk_env \<Rightarrow> CGPUInstance_Vulkan \<Rightarrow> CGPUAdapter_Vulkan \<Rightarrow> CGPUDeviceId \<Rightarrow> unit vk_prog" where
  "VkUtil_CreateVMAAllocator V I A device =
     deref devices device (\<lambda>D.
     vk_do V (VkSetup (VmaCreateAllocator (pPhysicalDevice A) (pVkDevice D) (pVkInstance I) (dedicated_allocation A))) (\<lambda>r.
     store devices devices_update device (pVmaAllocator_update (\<lambda>_. vk_out r 0)) (
     assertc (vk_debug V) (vk_result r = VK_SUCCESS) ''0'' (ret ()))))"

definition VkUtil_FreeVMAAllocator :: "vk_env \<Rightarrow> CGPUDevice_Vulkan \<Rightarrow> unit vk_prog" where
  "VkUtil_FreeVMAAllocator V D = vk_do V (VkSetup (VmaDestroyAllocator (pVmaAllocator D))) (\<lambda>_. ret ())"

definition gDescriptorPoolSizes :: "(VkDescriptorType \<times> nat) list" where
  "gDescriptorPoolSizes =
     [(VK_DESCRIPTOR_TYPE_SAMPLER, 1024), (VK_DESCRIPTOR_TYPE_COMBINED_IMAGE_SAMPLER, 1),
      (VK_DESCRIPTOR_TYPE_SAMPLED_IMAGE, 8192), (VK_DESCRIPTOR_TYPE_STORAGE_IMAGE, 1024),
      (VK_DESCRIPTOR_TYPE_UNIFORM_TEXEL_BUFFER, 1024), (VK_DESCRIPTOR_TYPE_STORAGE_TEXEL_BUFFER, 1024),
      (VK_DESCRIPTOR_TYPE_UNIFORM_BUFFER, 8192), (VK_DESCRIPTOR_TYPE_STORAGE_BUFFER, 1024),
      (VK_DESCRIPTOR_TYPE_UNIFORM_BUFFER_DYNAMIC, 1024), (VK_DESCRIPTOR_TYPE_STORAGE_BUFFER_DYNAMIC, 1),
      (VK_DESCRIPTOR_TYPE_INPUT_ATTACHMENT, 1)]"

text \<open>A mutex is an object of its own, of which the model keeps only the address.\<close>

definition new_mutex :: "(ptr \<Rightarrow> 'a vk_prog) \<Rightarrow> 'a vk_prog" where
  "new_mutex k = gets next_addr (\<lambda>p. modify (next_addr_update Suc) (k p))"

definition VkUtil_CreateDescriptorPool :: "vk_env \<Rightarrow> CGPUDeviceId \<Rightarrow> ptr vk_prog" where
  "VkUtil_CreateDescriptorPool V device =
     new_mutex (\<lambda>m.
     vk_do V (VkQueue (MutexInit m)) (\<lambda>_.
     deref devices device (\<lambda>D.
     vk_do V (VkSetup (VkCreateDescriptorPool (pVkDevice D) gDescriptorPoolSizes 8192)) (\<lambda>r.
     CHECK_VKRESULT V r (
     calloc desc_pools_update \<lparr>dp_Device = device, pVkDescPool = vk_out r 0, dp_pMutex = m\<rparr> ret)))))"

definition VkUtil_FreeDescriptorPool :: "vk_env \<Rightarrow> ptr \<Rightarrow> unit vk_prog" where
  "VkUtil_FreeDescriptorPool V pool =
     deref desc_pools pool (\<lambda>P.
     deref devices (dp_Device P) (\<lambda>D.
     vk_do V (VkSetup (VkDestroyDescriptorPool (pVkDevice D) (pVkDescPool P))) (\<lambda>_.
     bindP (if dp_pMutex P \<noteq> NULL
            then vk_do V (VkQueue (MutexDestroy (dp_pMutex P))) (\<lambda>_. ret ())
            else ret ()) (\<lambda>_.
     release desc_pools_update pool (ret ())))))"

section \<open>The device\<close>

text \<open>The queues that are asked for; there may not be more of a type than the adapter counts.\<close>

definition queue_create_info ::
    "vk_env \<Rightarrow> CGPUAdapterId \<Rightarrow> CGPUQueueGroupDescriptor \<Rightarrow> VkDeviceQueueCreateInfo vk_prog" where
  "queue_create_info V adapter g =
     deref adapters adapter (\<lambda>A.
     queue_family A (qg_queueType g) (\<lambda>family.
     bindP (cgpu_query_queue_count_vulkan V adapter (qg_queueType g)) (\<lambda>count.
     assertc (vk_debug V) (qg_queueCount g \<le> count) ''allocated too many queues!'' (
     ret \<lparr>dqi_queueFamilyIndex = family, dqi_queueCount = qg_queueCount g\<rparr>))))"

definition cgpu_create_device_vulkan :: "vk_env \<Rightarrow> CGPUAdapterId \<Rightarrow> CGPUDeviceDescriptor \<Rightarrow> CGPUDeviceId vk_prog" where
  "cgpu_create_device_vulkan V adapter desc =
     deref adapters adapter (\<lambda>A.
     deref instances (adapter_instance A) (\<lambda>I.
     calloc devices_update
       \<lparr>device_adapter = adapter, device_proc_table_cache = NULL, pVkDevice = VK_NULL_HANDLE,
        pPipelineCache = VK_NULL_HANDLE, pDescriptorPool = NULL, pVmaAllocator = VK_NULL_HANDLE, pPassTable = NULL\<rparr> (\<lambda>D.
     bindP (map_each (dd_queueGroups desc) (queue_create_info V adapter)) (\<lambda>infos.
     vk_do V (VkSetup (VkCreateDevice (pPhysicalDevice A)
       \<lparr>dci_pQueueCreateInfos = infos, dci_ppEnabledExtensionNames = adp_pExtensionNames A,
        dci_ppEnabledLayerNames = adp_pLayerNames A\<rparr>)) (\<lambda>r.
     store devices devices_update D (pVkDevice_update (\<lambda>_. vk_out r 0)) (
     assertc (vk_debug V) (vk_result r = VK_SUCCESS) ''failed to create logical device!'' (
     bindP (if \<not> dd_disable_pipeline_cache desc then VkUtil_CreatePipelineCache V D else ret ()) (\<lambda>_.
     bindP (VkUtil_CreateVMAAllocator V I A D) (\<lambda>_.
     bindP (VkUtil_CreateDescriptorPool V D) (\<lambda>pool.
     store devices devices_update D (pDescriptorPool_update (\<lambda>_. pool)) (
     calloc pass_tables_update \<lparr>cached_renderpasses = Map.empty, cached_framebuffers = Map.empty\<rparr> (\<lambda>table.
     store devices devices_update D (pPassTable_update (\<lambda>_. table)) (
     ret D)))))))))))))"

text \<open>The loops over the hash maps, in the order of their iterators.\<close>

definition destroy_cached_passes :: "vk_env \<Rightarrow> VkHandle \<Rightarrow> CGPUVkPassTable \<Rightarrow> unit vk_prog" where
  "destroy_cached_passes V dev table =
     for_each (pass_order V table) (\<lambda>h.
       case cached_renderpasses table h of
         None \<Rightarrow> ret ()
       | Some p \<Rightarrow> vk_do V (VkObject (VkDestroyRenderPass dev (crp_pass p))) (\<lambda>_. ret ()))"

definition destroy_cached_framebuffers :: "vk_env \<Rightarrow> VkHandle \<Rightarrow> CGPUVkPassTable \<Rightarrow> unit vk_prog" where
  "destroy_cached_framebuffers V dev table =
     for_each (framebuffer_order V table) (\<lambda>h.
       case cached_framebuffers table h of
         None \<Rightarrow> ret ()
       | Some f \<Rightarrow> vk_do V (VkObject (VkDestroyFramebuffer dev (cfb_framebuffer f))) (\<lambda>_. ret ()))"

definition cgpu_free_device_vulkan :: "vk_env \<Rightarrow> CGPUDeviceId \<Rightarrow> unit vk_prog" where
  "cgpu_free_device_vulkan V device =
     deref devices device (\<lambda>D.
     deref adapters (device_adapter D) (\<lambda>A.
     deref pass_tables (pPassTable D) (\<lambda>table.
     bindP (destroy_cached_passes V (pVkDevice D) table) (\<lambda>_.
     bindP (destroy_cached_framebuffers V (pVkDevice D) table) (\<lambda>_.
     release pass_tables_update (pPassTable D) (
     bindP (VkUtil_FreeVMAAllocator V D) (\<lambda>_.
     bindP (VkUtil_FreeDescriptorPool V (pDescriptorPool D)) (\<lambda>_.
     bindP (VkUtil_FreePipelineCache V D) (\<lambda>_.
     vk_do V (VkSetup (VkDestroyDevice (pVkDevice D))) (\<lambda>_.
     release devices_update device (ret ())))))))))))"

lemmas vk_setup_defs =
  cgpu_create_instance_vulkan_def VkUtil_Blackboard_of_def chained_names_def VkUtil_InitializeEnvironment_def
  VkUtil_SelectInstanceLayers_def VkUtil_SelectInstanceExtensions_def create_vk_instance_def
  VkUtil_QueryAllAdapters_def construct_adapter_tables_def VkUtil_EnableValidationLayer_def loaded_proc_def

lemmas vk_device_defs =
  cgpu_create_device_vulkan_def queue_create_info_def VkUtil_CreatePipelineCache_def VkUtil_CreateVMAAllocator_def
  VkUtil_CreateDescriptorPool_def new_mutex_def cgpu_free_device_vulkan_def destroy_cached_passes_def
  destroy_cached_framebuffers_def VkUtil_FreeVMAAllocator_def VkUtil_FreeDescriptorPool_def VkUtil_FreePipelineCache_def

end
