(* ===== verification/Vk_Swapchain.thy ===== *)
theory Vk_Swapchain
  imports Vk_Adapter
begin

text \<open>
  The creation of a swapchain in src/gpu/cgpu/vulkan/cgpu_vulkan.c: the request is fitted to what
  the surface can do, step by step as the function does it, and the images of the chain become
  textures that do not own them.
\<close>

section \<open>Fitting the request\<close>

text \<open>The number of images is written back to the descriptor of the caller.\<close>

definition fitted_image_count :: "VkSurfaceCapabilitiesKHR \<Rightarrow> nat \<Rightarrow> nat" where
  "fitted_image_count caps imageCount =
     (if 0 < maxImageCount caps \<and> maxImageCount caps < imageCount then maxImageCount caps
      else if imageCount < minImageCount caps then minImageCount caps
      else imageCount)"

definition clamp :: "nat \<Rightarrow> nat \<Rightarrow> nat \<Rightarrow> nat" where
  "clamp x lo hi = (if x < lo then lo else if hi < x then hi else x)"

definition fitted_extent :: "VkSurfaceCapabilitiesKHR \<Rightarrow> CGPUSwapChainDescriptor \<Rightarrow> nat \<times> nat" where
  "fitted_extent caps desc =
     (clamp (scd_width desc) (fst (minImageExtent caps)) (fst (maxImageExtent caps)),
      clamp (scd_height desc) (snd (minImageExtent caps)) (snd (maxImageExtent caps)))"

definition default_surface_format :: VkSurfaceFormatKHR where
  "default_surface_format =
     \<lparr>sf_format = VK_FORMAT_B8G8R8A8_UNORM, sf_colorSpace = VK_COLOR_SPACE_SRGB_NONLINEAR_KHR\<rparr>"

definition requested_surface_format :: "ECGPUFormat \<Rightarrow> VkSurfaceFormatKHR" where
  "requested_surface_format format =
     (let requested_format = VkUtil_FormatTranslateToVk format in
      \<lparr>sf_format = requested_format,
       sf_colorSpace = (if requested_format = VK_FORMAT_A2B10G10R10_UNORM_PACK32 then VK_COLOR_SPACE_HDR10_ST2084_EXT
                        else VK_COLOR_SPACE_SRGB_NONLINEAR_KHR)\<rparr>)"

text \<open>The format that is not found, or is undefined, falls back to a default the surface may not have.\<close>

definition fitted_surface_format :: "VkSurfaceFormatKHR list \<Rightarrow> ECGPUFormat \<Rightarrow> VkSurfaceFormatKHR" where
  "fitted_surface_format formats format =
     (if length formats = 1 \<and> sf_format (hd formats) = VK_FORMAT_UNDEFINED then default_surface_format
      else case find (\<lambda>f. f = requested_surface_format format) formats of
             None \<Rightarrow> default_surface_format
           | Some f \<Rightarrow> if sf_format f = VK_FORMAT_UNDEFINED then default_surface_format else f)"

definition preferredModeList :: "VkPresentModeKHR list" where
  "preferredModeList =
     [VK_PRESENT_MODE_IMMEDIATE_KHR, VK_PRESENT_MODE_MAILBOX_KHR, VK_PRESENT_MODE_FIFO_RELAXED_KHR,
      VK_PRESENT_MODE_FIFO_KHR]"

definition fitted_present_mode :: "VkPresentModeKHR list \<Rightarrow> bool \<Rightarrow> VkPresentModeKHR" where
  "fitted_present_mode modes enableVsync =
     (case find (\<lambda>mode. mode \<in> set modes) (drop (if enableVsync then 1 else 0) preferredModeList) of
        None \<Rightarrow> VK_PRESENT_MODE_FIFO_KHR
      | Some mode \<Rightarrow> mode)"

text \<open>\<open>VK_COMPOSITE_ALPHA_FLAG_BITS_MAX_ENUM_KHR\<close> when none of the four modes is supported.\<close>

definition compositeAlphaFlags :: "nat list" where
  "compositeAlphaFlags =
     [VK_COMPOSITE_ALPHA_INHERIT_BIT_KHR, VK_COMPOSITE_ALPHA_OPAQUE_BIT_KHR,
      VK_COMPOSITE_ALPHA_PRE_MULTIPLIED_BIT_KHR, VK_COMPOSITE_ALPHA_POST_MULTIPLIED_BIT_KHR]"

definition VK_COMPOSITE_ALPHA_FLAG_BITS_MAX_ENUM_KHR :: nat where
  "VK_COMPOSITE_ALPHA_FLAG_BITS_MAX_ENUM_KHR = 0x7FFFFFFF"

definition fitted_composite_alpha :: "VkSurfaceCapabilitiesKHR \<Rightarrow> nat" where
  "fitted_composite_alpha caps =
     (case find (\<lambda>a. supportedCompositeAlpha caps AND a \<noteq> 0) compositeAlphaFlags of
        None \<Rightarrow> VK_COMPOSITE_ALPHA_FLAG_BITS_MAX_ENUM_KHR
      | Some a \<Rightarrow> a)"

definition fitted_transform :: "VkSurfaceCapabilitiesKHR \<Rightarrow> nat" where
  "fitted_transform caps =
     (if supportedTransforms caps AND VK_SURFACE_TRANSFORM_IDENTITY_BIT_KHR \<noteq> 0
      then VK_SURFACE_TRANSFORM_IDENTITY_BIT_KHR else currentTransform caps)"

section \<open>The queue family that presents\<close>

definition surface_supported :: "vk_env \<Rightarrow> VkHandle \<Rightarrow> VkHandle \<Rightarrow> nat \<Rightarrow> bool vk_prog" where
  "surface_supported V phys surface family =
     vk_do V (VkSetup (VkGetPhysicalDeviceSurfaceSupportKHR phys family surface)) (\<lambda>r.
     ret (vk_result r = VK_SUCCESS \<and> vk_out r 0 = 1))"

text \<open>The first family but the one of the queue that can present.\<close>

fun dedicated_present_family :: "vk_env \<Rightarrow> VkHandle \<Rightarrow> VkHandle \<Rightarrow> nat \<Rightarrow> nat list \<Rightarrow> u32 vk_prog" where
  "dedicated_present_family V phys surface own [] = ret (- 1)"
| "dedicated_present_family V phys surface own (index # rest) =
     bindP (surface_supported V phys surface index) (\<lambda>sup.
     if sup \<and> own \<noteq> index then ret (word_of_nat index)
     else dedicated_present_family V phys surface own rest)"

text \<open>The first family that can present; every other one before it fails an assertion.\<close>

fun any_present_family :: "vk_env \<Rightarrow> VkHandle \<Rightarrow> VkHandle \<Rightarrow> nat list \<Rightarrow> u32 vk_prog" where
  "any_present_family V phys surface [] = ret (- 1)"
| "any_present_family V phys surface (index # rest) =
     bindP (surface_supported V phys surface index) (\<lambda>sup.
     if sup then ret (word_of_nat index)
     else assertc (vk_debug V) False ''0'' (any_present_family V phys surface rest))"

definition present_family :: "vk_env \<Rightarrow> VkHandle \<Rightarrow> VkHandle \<Rightarrow> nat \<Rightarrow> u32 vk_prog" where
  "present_family V phys surface own =
     bindP (surface_supported V phys surface own) (\<lambda>sup.
     if sup then ret (word_of_nat own)
     else let families = [0..<length (phys_queue_families (physical_device (vk_plat V) phys))] in
          bindP (dedicated_present_family V phys surface own families) (\<lambda>family.
          if families \<noteq> [] \<and> family = - 1 then any_present_family V phys surface families
          else ret family))"

section \<open>The swapchain\<close>

definition back_buffer_texture :: "CGPUDeviceId \<Rightarrow> VkFormat \<Rightarrow> nat \<times> nat \<Rightarrow> VkHandle \<Rightarrow> CGPUTexture_Vulkan" where
  "back_buffer_texture device fmt extent img =
     (let format = VkUtil_FormatTranslateToCGPU fmt mod 2 ^ 8 in
      \<lparr>texture_device = device, texture_sample_count = 0, texture_width = fst extent mod 2 ^ 16,
       texture_height = snd extent mod 2 ^ 16, texture_depth = 1, texture_mip_levels = 1,
       texture_array_size_minus_one = 0, texture_format = format,
       texture_aspect_mask = VkUtil_DeterminAspectMask format False AND 0xF, texture_is_cube = False,
       texture_is_dedicated = False, texture_owns_image = False, texture_is_aliasing = False,
       texture_can_alias = False, mImageType = VK_IMAGE_TYPE_2D, pVkImage = img,
       texture_pVkAllocation = VK_NULL_HANDLE\<rparr>)"

definition swapchain_info ::
    "VkSurfaceCapabilitiesKHR \<Rightarrow> VkSurfaceFormatKHR list \<Rightarrow> VkPresentModeKHR list \<Rightarrow> u32 \<Rightarrow> CGPUSwapChainDescriptor
      \<Rightarrow> VkSwapchainCreateInfoKHR" where
  "swapchain_info caps formats modes family desc =
     (let format = fitted_surface_format formats (scd_format desc) in
      \<lparr>sci_surface = scd_surface desc, sci_minImageCount = fitted_image_count caps (scd_imageCount desc),
       sci_imageFormat = sf_format format, sci_imageColorSpace = sf_colorSpace format,
       sci_imageExtent = fitted_extent caps desc,
       sci_imageUsage = {VK_IMAGE_USAGE_COLOR_ATTACHMENT_BIT, VK_IMAGE_USAGE_TRANSFER_DST_BIT},
       sci_queueFamilyIndex = family, sci_preTransform = fitted_transform caps,
       sci_compositeAlpha = fitted_composite_alpha caps,
       sci_presentMode = fitted_present_mode modes (scd_enableVsync desc)\<rparr>)"

text \<open>An array of the driver, queried twice: for its count and then for its contents, of which at most
  as many as the first count are written.\<close>

definition query_array :: "vk_env \<Rightarrow> (bool \<Rightarrow> vk_setup_call) \<Rightarrow> (vk_reply \<Rightarrow> 'x list) \<Rightarrow> ('x list \<Rightarrow> 'a vk_prog) \<Rightarrow> 'a vk_prog" where
  "query_array V call contents k =
     vk_do V (VkSetup (call False)) (\<lambda>n.
     CHECK_VKRESULT V n (
     vk_do V (VkSetup (call True)) (\<lambda>r.
     CHECK_VKRESULT V r (
     k (take (vk_out n 0) (contents r))))))"

definition query_surface ::
    "vk_env \<Rightarrow> VkHandle \<Rightarrow> VkHandle
      \<Rightarrow> (VkSurfaceCapabilitiesKHR \<Rightarrow> VkSurfaceFormatKHR list \<Rightarrow> VkPresentModeKHR list \<Rightarrow> 'a vk_prog) \<Rightarrow> 'a vk_prog" where
  "query_surface V phys surface k =
     vk_do V (VkSetup (VkGetPhysicalDeviceSurfaceCapabilitiesKHR phys surface)) (\<lambda>r.
     CHECK_VKRESULT V r (
     query_array V (VkGetPhysicalDeviceSurfaceFormatsKHR phys surface) (\<lambda>r. surface_formats_of (vk_outs r)) (\<lambda>formats.
     query_array V (VkGetPhysicalDeviceSurfacePresentModesKHR phys surface) (\<lambda>r. map present_mode_of (vk_outs r)) (\<lambda>modes.
     k (surface_capabilities r) formats modes))))"

text \<open>The images of the chain: its array has as many elements as the first count says.\<close>

definition swapchain_images :: "vk_env \<Rightarrow> VkHandle \<Rightarrow> VkHandle \<Rightarrow> (VkHandle list \<Rightarrow> 'a vk_prog) \<Rightarrow> 'a vk_prog" where
  "swapchain_images V dev chain k =
     vk_do V (VkSetup (VkGetSwapchainImagesKHR dev chain False)) (\<lambda>n.
     CHECK_VKRESULT V n (
     vk_do V (VkSetup (VkGetSwapchainImagesKHR dev chain True)) (\<lambda>r.
     CHECK_VKRESULT V r (
     k (map (vk_out r) [0..<vk_out n 0])))))"

text \<open>The call of the driver and the objects made of its answer.\<close>

definition make_swapchain ::
    "vk_env \<Rightarrow> CGPUDeviceId \<Rightarrow> VkHandle \<Rightarrow> VkSwapchainCreateInfoKHR \<Rightarrow> CGPUSwapChainId vk_prog" where
  "make_swapchain V device dev info =
     assertc (vk_debug V) (sci_compositeAlpha info \<noteq> VK_COMPOSITE_ALPHA_FLAG_BITS_MAX_ENUM_KHR) ''composite_alpha'' (
     vk_do V (VkSetup (VkCreateSwapchainKHR dev info)) (\<lambda>r.
     assertc (vk_debug V) (vk_result r = VK_SUCCESS) ''fatal: vkCreateSwapchainKHR failed!'' (
     swapchain_images V dev (vk_out r 0) (\<lambda>images.
     bindP (map_each images (\<lambda>img.
              calloc textures_update (back_buffer_texture device (sci_imageFormat info) (sci_imageExtent info) img) ret)) (\<lambda>ts.
     calloc swapchains_update
       \<lparr>swapchain_device = NULL, back_buffers = ts, pVkSurface = sci_surface info, pVkSwapChain = vk_out r 0\<rparr> (\<lambda>S.
     ret S))))))"

definition cgpu_create_swapchain_vulkan ::
    "vk_env \<Rightarrow> CGPUDeviceId \<Rightarrow> CGPUSwapChainDescriptor \<Rightarrow> CGPUSwapChainId vk_prog" where
  "cgpu_create_swapchain_vulkan V device desc =
     deref devices device (\<lambda>D.
     deref adapters (device_adapter D) (\<lambda>A.
     desc_ptr (scd_presentQueues desc) (\<lambda>queue_list.
     index_of ''presentQueues'' queue_list 0 (\<lambda>queue.
     query_surface V (pPhysicalDevice A) (scd_surface desc) (\<lambda>caps formats modes.
     deref queues queue (\<lambda>Q.
     bindP (present_family V (pPhysicalDevice A) (scd_surface desc) (mVkQueueFamilyIndex Q)) (\<lambda>family.
     make_swapchain V device (pVkDevice D) (swapchain_info caps formats modes family desc))))))))"

end
