(* ===== verification/Vk_Table.thy ===== *)
theory Vk_Table
  imports Vk_Pipeline Vk_Reflect Vk_Instance Vk_Swapchain
begin

text \<open>
  The queues and the procedure table \<open>tbl_vk\<close> of
  src/gpu/cgpu/vulkan/cgpu_vulkan.c.

  Some functions of the table call the front end again, which reaches the table through the
  device. The table is therefore a function of the environment \<open>E\<close> of these inner calls. It
  updates a table \<open>base\<close>, of which no entry is left.
\<close>

section \<open>Queues\<close>

text \<open>The family index is stored in a bit field of 5 bits.\<close>

definition cgpu_get_queue_vulkan ::
    "vk_env \<Rightarrow> cgpu_env \<Rightarrow> CGPUDeviceId \<Rightarrow> ECGPUQueueType \<Rightarrow> nat \<Rightarrow> CGPUQueueId vk_prog" where
  "cgpu_get_queue_vulkan V E device type index =
     assertc (vk_debug V) (device \<noteq> NULL) ''CGPU VULKAN: NULL DEVICE!'' (
     deref devices device (\<lambda>D.
     deref adapters (device_adapter D) (\<lambda>A.
     queue_family A type (\<lambda>family.
     vk_do V (VkQueue (VkGetDeviceQueue (pVkDevice D) family index)) (\<lambda>r.
     calloc queues_update
       \<lparr>queue_device = device, queue_type = type, queue_index = index, pVkQueue = vk_out r 0,
        mVkQueueFamilyIndex = unat family mod 32, pInnerCmdPool = NULL, pInnerCmdBuffer = NULL,
        pInnerFence = NULL, queue_pMutex = NULL\<rparr> (\<lambda>RQ.
     bindP (cgpu_create_command_pool E RQ) (\<lambda>pool.
     store queues queues_update RQ (pInnerCmdPool_update (\<lambda>_. pool)) (
     bindP (cgpu_create_command_buffer E pool \<lparr>cbd_is_secondary = False\<rparr>) (\<lambda>cmd.
     store queues queues_update RQ (pInnerCmdBuffer_update (\<lambda>_. cmd)) (
     bindP (cgpu_create_fence E device) (\<lambda>fence.
     store queues queues_update RQ (pInnerFence_update (\<lambda>_. fence)) (
     new_mutex (\<lambda>m.
     store queues queues_update RQ (queue_pMutex_update (\<lambda>_. m)) (
     vk_do V (VkQueue (MutexInit m)) (\<lambda>_.
     ret RQ)))))))))))))))"

definition cgpu_free_queue_vulkan :: "vk_env \<Rightarrow> cgpu_env \<Rightarrow> CGPUQueueId \<Rightarrow> unit vk_prog" where
  "cgpu_free_queue_vulkan V E queue =
     deref queues queue (\<lambda>Q.
     bindP (if pInnerCmdBuffer Q \<noteq> NULL then cgpu_free_command_buffer E (pInnerCmdBuffer Q) else ret ()) (\<lambda>_.
     bindP (if pInnerCmdPool Q \<noteq> NULL then cgpu_free_command_pool E (pInnerCmdPool Q) else ret ()) (\<lambda>_.
     bindP (if pInnerFence Q \<noteq> NULL then cgpu_free_fence E (pInnerFence Q) else ret ()) (\<lambda>_.
     bindP (if queue_pMutex Q \<noteq> NULL
            then vk_do V (VkQueue (MutexDestroy (queue_pMutex Q))) (\<lambda>_. ret ())
            else ret ()) (\<lambda>_.
     release queues_update queue (
     ret ()))))))"

definition cgpu_cmd_end_query_vulkan ::
    "cgpu_env \<Rightarrow> CGPUCommandBufferId \<Rightarrow> CGPUQueryPoolId \<Rightarrow> CGPUQueryDescriptor \<Rightarrow> unit vk_prog" where
  "cgpu_cmd_end_query_vulkan E cmd pool desc = cgpu_cmd_begin_query E cmd pool desc"

section \<open>The procedure table\<close>

text \<open>What the table takes besides the environments: the hash functions of the root signature
  pool and the iteration order of its maps.\<close>

record rs_env =
  rs_hash :: rs_hashes
  rs_map_order :: "CGPURootSignaturePoolImpl \<Rightarrow> CGPURootSignatureId list"

definition vk_setup_procs :: "vk_env \<Rightarrow> CGPUProcTable \<Rightarrow> CGPUProcTable" where
  "vk_setup_procs V T = T
     \<lparr>create_instance := Some (cgpu_create_instance_vulkan V),
      free_instance := Some (cgpu_free_instance_vulkan V),
      create_device := Some (cgpu_create_device_vulkan V),
      free_device := Some (cgpu_free_device_vulkan V),
      create_swapchain := Some (cgpu_create_swapchain_vulkan V)\<rparr>"

definition vk_object_procs ::
    "vk_env \<Rightarrow> rs_env \<Rightarrow> cgpu_env \<Rightarrow> CGPUProcTable \<Rightarrow> CGPUProcTable" where
  "vk_object_procs V R E T = T
     \<lparr>query_instance_features := Some cgpu_query_instance_features_vulkan,
      enum_adapters := Some cgpu_enum_adapters_vulkan,
      query_adapter_detail := Some cgpu_query_adapter_detail_vulkan,
      query_queue_count := Some (cgpu_query_queue_count_vulkan V),
      create_fence := Some (cgpu_create_fence_vulkan V),
      wait_fences := Some (cgpu_wait_fences_vulkan V),
      query_fence_status := Some (cgpu_query_fence_status_vulkan V),
      free_fence := Some (cgpu_free_fence_vulkan V),
      create_semaphore := Some (cgpu_create_semaphore_vulkan V),
      free_semaphore := Some (cgpu_free_semaphore_vulkan V),
      create_root_signature := Some (cgpu_create_root_signature_vulkan V (rs_hash R)),
      free_root_signature := Some (cgpu_free_root_signature_vulkan V (rs_hash R) E),
      create_root_signature_pool := Some cgpu_create_root_signature_pool_vulkan,
      free_root_signature_pool := Some (cgpu_free_root_signature_pool_vulkan E (rs_map_order R)),
      create_descriptor_set := Some (cgpu_create_descriptor_set_vulkan V),
      update_descriptor_set := Some (cgpu_update_descriptor_set_vulkan V),
      free_descriptor_set := Some (cgpu_free_descriptor_set_vulkan V),
      create_compute_pipeline := Some (cgpu_create_compute_pipeline_vulkan V),
      free_compute_pipeline := Some (cgpu_free_compute_pipeline_vulkan V),
      create_render_pipeline := Some (cgpu_create_render_pipeline_vulkan V),
      free_render_pipeline := Some (cgpu_free_render_pipeline_vulkan V),
      create_query_pool := Some (cgpu_create_query_pool_vulkan V),
      free_query_pool := Some (cgpu_free_query_pool_vulkan V)\<rparr>"

definition vk_queue_procs :: "vk_env \<Rightarrow> cgpu_env \<Rightarrow> CGPUProcTable \<Rightarrow> CGPUProcTable" where
  "vk_queue_procs V E T = T
     \<lparr>get_queue := Some (cgpu_get_queue_vulkan V E),
      submit_queue := Some (cgpu_submit_queue_vulkan V),
      wait_queue_idle := Some (cgpu_wait_queue_idle_vulkan V),
      queue_present := Some (cgpu_queue_present_vulkan V),
      queue_get_timestamp_period := Some (cgpu_queue_get_timestamp_period_ns_vulkan V),
      free_queue := Some (cgpu_free_queue_vulkan V E),
      create_command_pool := Some (cgpu_create_command_pool_vulkan V),
      create_command_buffer := Some (cgpu_create_command_buffer_vulkan V),
      reset_command_pool := Some (cgpu_reset_command_pool_vulkan V),
      free_command_buffer := Some (cgpu_free_command_buffer_vulkan V),
      free_command_pool := Some (cgpu_free_command_pool_vulkan V),
      acquire_next_image := Some (cgpu_acquire_next_image_vulkan V),
      free_swapchain := Some (cgpu_free_swapchain_vulkan V)\<rparr>"

definition vk_resource_procs :: "vk_env \<Rightarrow> cgpu_env \<Rightarrow> CGPUProcTable \<Rightarrow> CGPUProcTable" where
  "vk_resource_procs V E T = T
     \<lparr>create_buffer := Some (cgpu_create_buffer_vulkan V),
      map_buffer := Some (cgpu_map_buffer_vulkan V),
      unmap_buffer := Some (cgpu_unmap_buffer_vulkan V),
      free_buffer := Some (cgpu_free_buffer_vulkan V),
      create_sampler := Some (cgpu_create_sampler_vulkan V),
      free_sampler := Some (cgpu_free_sampler_vulkan V),
      create_texture := Some (cgpu_create_texture_vulkan V E),
      free_texture := Some (cgpu_free_texture_vulkan V),
      create_texture_view := Some (cgpu_create_texture_view_vulkan V),
      free_texture_view := Some (cgpu_free_texture_view_vulkan V),
      try_bind_aliasing_texture := Some (cgpu_try_bind_aliasing_texture_vulkan V),
      create_shader_library := Some (cgpu_create_shader_library_vulkan V),
      free_shader_library := Some (cgpu_free_shader_library_vulkan V)\<rparr>"

definition vk_cmd_procs :: "vk_env \<Rightarrow> cgpu_env \<Rightarrow> CGPUProcTable \<Rightarrow> CGPUProcTable" where
  "vk_cmd_procs V E T = T
     \<lparr>cmd_begin := Some (cgpu_cmd_begin_vulkan V),
      cmd_transfer_buffer_to_buffer := Some (cgpu_cmd_transfer_buffer_to_buffer_vulkan V),
      cmd_transfer_buffer_to_texture := Some (cgpu_cmd_transfer_buffer_to_texture_vulkan V),
      cmd_transfer_texture_to_texture := Some (cgpu_cmd_transfer_texture_to_texture_vulkan V),
      cmd_resource_barrier := Some (cgpu_cmd_resource_barrier_vulkan V),
      cmd_begin_query := Some (cgpu_cmd_begin_query_vulkan V),
      cmd_end_query := Some (cgpu_cmd_end_query_vulkan E),
      cmd_reset_query_pool := Some (cgpu_cmd_reset_query_pool_vulkan V),
      cmd_resolve_query := Some (cgpu_cmd_resolve_query_vulkan V),
      cmd_end := Some (cgpu_cmd_end_vulkan V),
      cmd_begin_compute_pass := Some (cgpu_cmd_begin_compute_pass_vulkan V),
      compute_encoder_bind_descriptor_set := Some (cgpu_compute_encoder_bind_descriptor_set_vulkan V),
      compute_encoder_push_constants := Some (cgpu_compute_encoder_push_constants_vulkan V),
      compute_encoder_bind_pipeline := Some (cgpu_compute_encoder_bind_pipeline_vulkan V),
      compute_encoder_dispatch := Some (cgpu_compute_encoder_dispatch_vulkan V),
      cmd_end_compute_pass := Some (cgpu_cmd_end_compute_pass_vulkan V)\<rparr>"

definition vk_pass_procs :: "vk_env \<Rightarrow> CGPUProcTable \<Rightarrow> CGPUProcTable" where
  "vk_pass_procs V T = T
     \<lparr>cmd_begin_render_pass := Some (cgpu_cmd_begin_render_pass_vulkan V),
      render_encoder_bind_descriptor_set := Some (cgpu_render_encoder_bind_descriptor_set_vulkan V),
      render_encoder_bind_pipeline := Some (cgpu_render_encoder_bind_pipeline_vulkan V),
      render_encoder_bind_vertex_buffers := Some (cgpu_render_encoder_bind_vertex_buffers_vulkan V),
      render_encoder_bind_index_buffer := Some (cgpu_render_encoder_bind_index_buffer_vulkan V),
      render_encoder_push_constants := Some (cgpu_render_encoder_push_constants_vulkan V),
      render_encoder_set_viewport := Some (cgpu_render_encoder_set_viewport_vulkan V),
      render_encoder_set_scissor := Some (cgpu_render_encoder_set_scissor_vulkan V),
      render_encoder_draw := Some (cgpu_render_encoder_draw_vulkan V),
      render_encoder_draw_instanced := Some (cgpu_render_encoder_draw_instanced_vulkan V),
      render_encoder_draw_indexed := Some (cgpu_render_encoder_draw_indexed_vulkan V),
      render_encoder_draw_indexed_instanced := Some (cgpu_render_encoder_draw_indexed_instanced_vulkan V),
      cmd_end_render_pass := Some (cgpu_cmd_end_render_pass_vulkan V),
      cmd_begin_event := Some (cgpu_cmd_begin_event_vulkan V),
      cmd_set_marker := Some (cgpu_cmd_set_marker_vulkan V),
      cmd_end_event := Some (cgpu_cmd_end_event_vulkan V)\<rparr>"

definition tbl_vk :: "vk_env \<Rightarrow> rs_env \<Rightarrow> cgpu_env \<Rightarrow> CGPUProcTable \<Rightarrow> CGPUProcTable" where
  "tbl_vk V R E base = vk_pass_procs V (vk_cmd_procs V E (vk_resource_procs V E (
     vk_queue_procs V E (vk_object_procs V R E (vk_setup_procs V base)))))"

lemmas vk_table_defs =
  tbl_vk_def vk_pass_procs_def vk_cmd_procs_def vk_resource_procs_def vk_queue_procs_def vk_object_procs_def
  vk_setup_procs_def

text \<open>The backend fills every entry of the table.\<close>

lemma tbl_vk_complete: "tbl_vk V R E base = tbl_vk V R E base'"
  by (rule CGPUProcTable.equality) (simp_all add: vk_table_defs)

end
