(* ===== verification/Prog_Rel.thy ===== *)
theory Prog_Rel
  imports Vk_Table
begin

text \<open>
  Two relations on programs and the rules that prove them statement by statement:
  \<open>keeps obs p\<close>, a run of \<open>p\<close> that ends well leaves the observation \<open>obs\<close> of the world as
  it was, and \<open>prog_le p q\<close>, a run of \<open>p\<close> that ends well is also a run of \<open>q\<close>.
\<close>

named_theorems keeps_intros "what the statements keep"
named_theorems le_intros "monotony of the statements"

section \<open>What a program keeps\<close>

definition keeps :: "('w \<Rightarrow> 'o) \<Rightarrow> ('w, 'a) prog \<Rightarrow> bool" where
  "keeps obs p \<longleftrightarrow> (\<forall>w r w'. p w = Inr (r, w') \<longrightarrow> obs w' = obs w)"

lemma keepsD: "keeps obs p \<Longrightarrow> p w = Inr (r, w') \<Longrightarrow> obs w' = obs w"
  by (simp add: keeps_def)

lemma keeps_ret [keeps_intros]: "keeps obs (ret a)"
  by (simp add: keeps_def)

lemma keeps_fail [keeps_intros]: "keeps obs (fail e)"
  by (simp add: keeps_def)

lemma keeps_bindP [keeps_intros]:
  assumes "keeps obs m" and "\<And>a. keeps obs (k a)"
  shows "keeps obs (bindP m k)"
proof -
  have "obs w' = obs w" if run: "bindP m k w = Inr (r, w')" for w r w'
  proof (cases "m w")
    case (Inr aw)
    then obtain a v where m: "m w = Inr (a, v)" by (cases aw) simp
    with run have "k a v = Inr (r, w')" by (simp add: bindP_run)
    then show ?thesis using keepsD [OF assms(1) m] keepsD [OF assms(2)] by metis
  qed (use run in \<open>simp add: bindP_run\<close>)
  then show ?thesis by (simp add: keeps_def)
qed

lemma keeps_assertc [keeps_intros]: "keeps obs k \<Longrightarrow> keeps obs (assertc d c m k)"
  by (simp add: keeps_def assertc_run)

lemma keeps_deref [keeps_intros]: "(\<And>x. keeps obs (k x)) \<Longrightarrow> keeps obs (deref sel p k)"
  by (simp add: keeps_def deref_run split: option.splits)

lemma keeps_gets [keeps_intros]: "(\<And>x. keeps obs (k x)) \<Longrightarrow> keeps obs (gets f k)"
  by (simp add: keeps_def gets_run)

lemma keeps_modify [keeps_intros]:
  "(\<And>w. obs (f w) = obs w) \<Longrightarrow> keeps obs k \<Longrightarrow> keeps obs (modify f k)"
  by (simp add: keeps_def modify_run)

lemma keeps_index_of [keeps_intros]: "(\<And>x. keeps obs (k x)) \<Longrightarrow> keeps obs (index_of n xs i k)"
  by (simp add: keeps_def index_of_run)

lemma keeps_update_at [keeps_intros]: "(\<And>x. keeps obs (k x)) \<Longrightarrow> keeps obs (update_at n xs i x k)"
  by (simp add: keeps_def update_at_run)

lemma keeps_initialized [keeps_intros]: "(\<And>x. keeps obs (k x)) \<Longrightarrow> keeps obs (initialized n x k)"
  by (simp add: keeps_def initialized_run split: option.splits)

lemma keeps_proc [keeps_intros]: "(\<And>f. p = Some f \<Longrightarrow> keeps obs (k f)) \<Longrightarrow> keeps obs (proc p k)"
  by (simp add: keeps_def proc_run split: option.splits)

lemma keeps_checked_proc [keeps_intros]:
  "(\<And>f. p = Some f \<Longrightarrow> keeps obs (k f)) \<Longrightarrow> keeps obs (checked_proc d p m k)"
  by (simp add: keeps_def checked_proc_run split: option.splits)

lemma keeps_store [keeps_intros]:
  assumes "\<And>w x. sel w p = Some x \<Longrightarrow> obs (upd (\<lambda>m. m(p \<mapsto> g x)) w) = obs w" and "keeps obs k"
  shows "keeps obs (store sel upd p g k)"
proof -
  have "obs w' = obs w" if run: "store sel upd p g k w = Inr (r, w')" for w r w'
  proof -
    obtain x where x: "sel w p = Some x" and "k (upd (\<lambda>m. m(p \<mapsto> g x)) w) = Inr (r, w')"
      using run by (auto simp: store_run split: if_splits option.splits)
    then show ?thesis using keepsD [OF assms(2)] assms(1) by metis
  qed
  then show ?thesis by (simp add: keeps_def)
qed

lemma keeps_calloc [keeps_intros]:
  assumes "\<And>w. obs (upd (\<lambda>m. m(next_addr w \<mapsto> x)) (w\<lparr>next_addr := Suc (next_addr w)\<rparr>)) = obs w"
    and "\<And>p. keeps obs (k p)"
  shows "keeps obs (calloc upd x k)"
  using assms unfolding keeps_def calloc_run by metis

lemma keeps_release [keeps_intros]:
  assumes "\<And>w. obs (upd (\<lambda>m. m(p := None)) w) = obs w" and "keeps obs k"
  shows "keeps obs (release upd p k)"
  using assms unfolding keeps_def release_run by metis

lemma keeps_vk_do [keeps_intros]:
  assumes "\<And>w c. obs (w\<lparr>trace := trace w @ [c]\<rparr>) = obs w" and "\<And>r. keeps obs (k r)"
  shows "keeps obs (vk_do V c k)"
  using assms unfolding keeps_def vk_do_run by metis

lemma keeps_CHECK_VKRESULT [keeps_intros]: "keeps obs k \<Longrightarrow> keeps obs (CHECK_VKRESULT V r k)"
  by (simp add: keeps_def CHECK_VKRESULT_run)

lemma keeps_table_at [keeps_intros]:
  "(\<And>T. proc_tables E p = Some T \<Longrightarrow> keeps obs (k T)) \<Longrightarrow> keeps obs (table_at E p k)"
  by (simp add: keeps_def table_at_run split: option.splits)

lemma keeps_if [keeps_intros]:
  "(b \<Longrightarrow> keeps obs p) \<Longrightarrow> (\<not> b \<Longrightarrow> keeps obs q) \<Longrightarrow> keeps obs (if b then p else q)"
  by simp

lemma keeps_Let [keeps_intros]: "(\<And>x. x = v \<Longrightarrow> keeps obs (k x)) \<Longrightarrow> keeps obs (let x = v in k x)"
  by simp

lemma keeps_case_option [keeps_intros]:
  "(x = None \<Longrightarrow> keeps obs p) \<Longrightarrow> (\<And>a. x = Some a \<Longrightarrow> keeps obs (q a))
    \<Longrightarrow> keeps obs (case x of None \<Rightarrow> p | Some a \<Rightarrow> q a)"
  by (cases x) simp_all

lemma keeps_case_prod [keeps_intros]:
  "(\<And>a b. x = (a, b) \<Longrightarrow> keeps obs (k a b)) \<Longrightarrow> keeps obs (case x of (a, b) \<Rightarrow> k a b)"
  by (cases x) simp_all

lemma keeps_for_each [keeps_intros]: "(\<And>x. keeps obs (body x)) \<Longrightarrow> keeps obs (for_each xs body)"
  by (induction xs) (simp_all add: keeps_intros)

lemma keeps_map_each [keeps_intros]: "(\<And>x. keeps obs (body x)) \<Longrightarrow> keeps obs (map_each xs body)"
  by (induction xs) (simp_all add: keeps_intros)

section \<open>How a program moves an observation\<close>

definition moves :: "('w \<Rightarrow> 'o) \<Rightarrow> ('o \<Rightarrow> 'o) \<Rightarrow> ('w, 'a) prog \<Rightarrow> bool" where
  "moves obs F p \<longleftrightarrow> (\<forall>w r w'. p w = Inr (r, w') \<longrightarrow> obs w' = F (obs w))"

named_theorems moves_intros "how the statements move an observation"

lemma movesD: "moves obs F p \<Longrightarrow> p w = Inr (r, w') \<Longrightarrow> obs w' = F (obs w)"
  by (simp add: moves_def)

lemma moves_bindP_last [moves_intros]:
  assumes "keeps obs m" and "\<And>a. moves obs F (k a)"
  shows "moves obs F (bindP m k)"
  using assms unfolding moves_def keeps_def bindP_run by (fastforce split: sum.splits)

lemma moves_void [moves_intros]:
  assumes "moves obs F m"
  shows "moves obs F (bindP m (\<lambda>_. ret ()))"
  using assms unfolding moves_def bindP_run by (fastforce split: sum.splits)

lemma moves_assertc [moves_intros]: "moves obs F k \<Longrightarrow> moves obs F (assertc d c m k)"
  by (simp add: moves_def assertc_run)

lemma moves_deref [moves_intros]: "(\<And>x. moves obs F (k x)) \<Longrightarrow> moves obs F (deref sel p k)"
  by (simp add: moves_def deref_run split: option.splits)

lemma moves_checked_proc [moves_intros]:
  "(\<And>f. p = Some f \<Longrightarrow> moves obs F (k f)) \<Longrightarrow> moves obs F (checked_proc d p m k)"
  by (simp add: moves_def checked_proc_run split: option.splits)

lemma moves_table_at [moves_intros]:
  "(\<And>T. proc_tables E p = Some T \<Longrightarrow> moves obs F (k T)) \<Longrightarrow> moves obs F (table_at E p k)"
  by (simp add: moves_def table_at_run split: option.splits)

lemma moves_store:
  assumes "\<And>w x. sel w p = Some x \<Longrightarrow> obs (upd (\<lambda>m. m(p \<mapsto> g x)) w) = F (obs w)" and "keeps obs k"
  shows "moves obs F (store sel upd p g k)"
proof -
  have "obs w' = F (obs w)" if run: "store sel upd p g k w = Inr (r, w')" for w r w'
  proof -
    obtain x where x: "sel w p = Some x" and "k (upd (\<lambda>m. m(p \<mapsto> g x)) w) = Inr (r, w')"
      using run by (auto simp: store_run split: if_splits option.splits)
    then show ?thesis using keepsD [OF assms(2)] assms(1) by metis
  qed
  then show ?thesis by (simp add: moves_def)
qed

section \<open>Runs that carry over\<close>

definition prog_le :: "('w, 'a) prog \<Rightarrow> ('w, 'a) prog \<Rightarrow> bool" where
  "prog_le p q \<longleftrightarrow> (\<forall>w r. p w = Inr r \<longrightarrow> q w = Inr r)"

lemma prog_leD: "prog_le p q \<Longrightarrow> p w = Inr r \<Longrightarrow> q w = Inr r"
  unfolding prog_le_def by blast

lemma le_refl [le_intros]: "prog_le p p"
  by (simp add: prog_le_def)

lemma le_bindP [le_intros]:
  assumes "prog_le m m'" and "\<And>a. prog_le (k a) (k' a)"
  shows "prog_le (bindP m k) (bindP m' k')"
proof -
  have "bindP m' k' w = Inr r" if run: "bindP m k w = Inr r" for w r
  proof (cases "m w")
    case (Inr aw)
    then obtain a v where m: "m w = Inr (a, v)" by (cases aw) simp
    with run have "k a v = Inr r" by (simp add: bindP_run)
    then show ?thesis using prog_leD [OF assms(1) m] prog_leD [OF assms(2)] by (simp add: bindP_run)
  qed (use run in \<open>simp add: bindP_run\<close>)
  then show ?thesis by (simp add: prog_le_def)
qed

text \<open>An assertion may be weaker on the right: a release build has none.\<close>

lemma le_assertc [le_intros]:
  assumes "d' \<Longrightarrow> d" and "prog_le k k'"
  shows "prog_le (assertc d c m k) (assertc d' c m k')"
  using assms by (auto simp: prog_le_def assertc_run)

lemma le_deref [le_intros]: "(\<And>x. prog_le (k x) (k' x)) \<Longrightarrow> prog_le (deref sel p k) (deref sel p k')"
  by (simp add: prog_le_def deref_run split: option.splits)

lemma le_gets [le_intros]: "(\<And>x. prog_le (k x) (k' x)) \<Longrightarrow> prog_le (gets f k) (gets f k')"
  by (simp add: prog_le_def gets_run)

lemma le_modify [le_intros]: "prog_le k k' \<Longrightarrow> prog_le (modify f k) (modify f k')"
  by (simp add: prog_le_def modify_run)

lemma le_index_of [le_intros]:
  "(\<And>x. prog_le (k x) (k' x)) \<Longrightarrow> prog_le (index_of n xs i k) (index_of n xs i k')"
  by (simp add: prog_le_def index_of_run)

lemma le_store [le_intros]: "prog_le k k' \<Longrightarrow> prog_le (store sel upd p g k) (store sel upd p g k')"
  by (simp add: prog_le_def store_run split: option.splits)

lemma le_calloc [le_intros]: "(\<And>p. prog_le (k p) (k' p)) \<Longrightarrow> prog_le (calloc upd x k) (calloc upd x k')"
  by (simp add: prog_le_def calloc_run)

lemma le_release [le_intros]: "prog_le k k' \<Longrightarrow> prog_le (release upd p k) (release upd p k')"
  by (simp add: prog_le_def release_run)

lemma le_vk_do [le_intros]: "(\<And>r. prog_le (k r) (k' r)) \<Longrightarrow> prog_le (vk_do V c k) (vk_do V c k')"
  by (simp add: prog_le_def vk_do_run)

text \<open>A procedure pointer that is set on the left is set on the right to a better procedure.\<close>

lemma le_proc [le_intros]:
  assumes "\<And>f. p = Some f \<Longrightarrow> \<exists>f'. p' = Some f' \<and> prog_le (k f) (k' f')"
  shows "prog_le (proc p k) (proc p' k')"
  using assms by (auto simp: prog_le_def proc_run split: option.splits)

lemma le_checked_proc [le_intros]:
  assumes "\<And>f. p = Some f \<Longrightarrow> \<exists>f'. p' = Some f' \<and> prog_le (k f) (k' f')"
  shows "prog_le (checked_proc d p m k) (checked_proc d' p' m k')"
  using assms by (auto simp: prog_le_def checked_proc_run split: option.splits)

lemma le_table_at [le_intros]:
  assumes "\<And>T. proc_tables E p = Some T \<Longrightarrow> \<exists>T'. proc_tables E' p = Some T' \<and> prog_le (k T) (k' T')"
  shows "prog_le (table_at E p k) (table_at E' p k')"
  using assms by (fastforce simp: prog_le_def table_at_run split: option.splits)

lemma le_if [le_intros]:
  "(b \<Longrightarrow> prog_le p p') \<Longrightarrow> (\<not> b \<Longrightarrow> prog_le q q') \<Longrightarrow> prog_le (if b then p else q) (if b then p' else q')"
  by simp

lemma le_Let [le_intros]: "(\<And>x. prog_le (k x) (k' x)) \<Longrightarrow> prog_le (let x = v in k x) (let x = v in k' x)"
  by simp

lemma le_case_option [le_intros]:
  "prog_le p p' \<Longrightarrow> (\<And>a. prog_le (q a) (q' a))
    \<Longrightarrow> prog_le (case x of None \<Rightarrow> p | Some a \<Rightarrow> q a) (case x of None \<Rightarrow> p' | Some a \<Rightarrow> q' a)"
  by (cases x) simp_all

lemma le_case_prod [le_intros]:
  "(\<And>a b. prog_le (k a b) (k' a b)) \<Longrightarrow> prog_le (case x of (a, b) \<Rightarrow> k a b) (case x of (a, b) \<Rightarrow> k' a b)"
  by (cases x) simp_all

lemma le_for_each [le_intros]:
  "(\<And>x. prog_le (body x) (body' x)) \<Longrightarrow> prog_le (for_each xs body) (for_each xs body')"
  by (induction xs) (auto intro!: le_intros)

section \<open>Runs that end well\<close>

lemma deref_end:
  assumes "deref sel p k w = Inr x"
  obtains X where "p \<noteq> NULL" "sel w p = Some X" "k X w = Inr x"
  using assms by (auto simp: deref_run split: if_splits option.splits)

lemma bindP_end:
  assumes "bindP m k w = Inr x"
  obtains a v where "m w = Inr (a, v)" "k a v = Inr x"
  using assms by (auto simp: bindP_run split: sum.splits)

lemma assertc_end:
  assumes "assertc d c msg k w = Inr x"
  obtains "k w = Inr x" "d \<Longrightarrow> c"
  using assms by (auto simp: assertc_run split: if_splits)

lemma store_end:
  assumes "store sel upd p g k w = Inr x"
  obtains X where "p \<noteq> NULL" "sel w p = Some X" "k (upd (\<lambda>m. m(p \<mapsto> g X)) w) = Inr x"
  using assms by (auto simp: store_run split: if_splits option.splits)

lemma checked_proc_end:
  assumes "checked_proc d f msg k w = Inr x"
  obtains g where "f = Some g" "k g w = Inr x"
  using assms by (auto simp: checked_proc_run split: option.splits)

end
