(* ===== verification/Vk_System.thy ===== *)
theory Vk_System
  imports Prog_Rel
begin

text \<open>
  The closed system: the front end over the Vulkan table, whose inner calls reach the front end
  over the same table. The knot is unrolled \<open>n\<close> times: in \<open>system_env .. n\<close> a call nested deeper
  than \<open>n\<close> finds no table. The theorem of this theory shows that two levels are enough: every
  further level gives the same functions.
\<close>

primrec system_env :: "vk_env \<Rightarrow> rs_env \<Rightarrow> CGPUProcTable \<Rightarrow> ptr \<Rightarrow> nat \<Rightarrow> cgpu_env" where
  "system_env V R base p 0 = \<lparr>debug = vk_debug V, vk_table = p, proc_tables = Map.empty\<rparr>"
| "system_env V R base p (Suc n) =
     \<lparr>debug = vk_debug V, vk_table = p,
      proc_tables = [p \<mapsto> tbl_vk V R (system_env V R base p n) base]\<rparr>"

lemma system_env_simps [simp]:
  "debug (system_env V R base p n) = vk_debug V"
  "vk_table (system_env V R base p n) = p"
  by (cases n; simp)+

lemma system_table:
  "proc_tables (system_env V R base p n) q = Some T
    \<Longrightarrow> \<exists>m. n = Suc m \<and> q = p \<and> T = tbl_vk V R (system_env V R base p m) base"
  by (cases n) (auto split: if_splits)

declare system_env.simps(2) [simp del]

lemma system_proc:
  assumes "table_at (system_env V R base p n) q k w = Inr x"
  obtains m where "k (tbl_vk V R (system_env V R base p m) base) w = Inr x"
  using assms by (auto simp: table_at_run split: if_splits option.splits dest: system_table)

lemmas api_elims = deref_end bindP_end assertc_end store_end checked_proc_end system_proc

lemma system_keeps:
  assumes "\<And>m. keeps obs (k (tbl_vk V R (system_env V R base p m) base))"
  shows "keeps obs (table_at (system_env V R base p n) q k)"
  using assms by (intro keeps_table_at) (auto dest!: system_table)

section \<open>Procedures that do not call the front end\<close>

lemma table_at_Suc:
  "table_at (system_env V R base p (Suc n)) q k =
     (if q = NULL then fail NullDeref
      else if q = p then k (tbl_vk V R (system_env V R base p n) base) else fail DanglingDeref)"
  by (auto simp: table_at_def deref_def fail_def fun_eq_iff system_env.simps(2))

lemma inner_calls_level:
  "cgpu_create_command_pool (system_env V R base p (Suc n)) = cgpu_create_command_pool (system_env V R base p 1)"
  "cgpu_create_command_buffer (system_env V R base p (Suc n)) = cgpu_create_command_buffer (system_env V R base p 1)"
  "cgpu_create_fence (system_env V R base p (Suc n)) = cgpu_create_fence (system_env V R base p 1)"
  "cgpu_free_command_buffer (system_env V R base p (Suc n)) = cgpu_free_command_buffer (system_env V R base p 1)"
  "cgpu_free_command_pool (system_env V R base p (Suc n)) = cgpu_free_command_pool (system_env V R base p 1)"
  "cgpu_free_fence (system_env V R base p (Suc n)) = cgpu_free_fence (system_env V R base p 1)"
  "cgpu_cmd_begin_query (system_env V R base p (Suc n)) = cgpu_cmd_begin_query (system_env V R base p 1)"
  "cgpu_reset_command_pool (system_env V R base p (Suc n)) = cgpu_reset_command_pool (system_env V R base p 1)"
  "cgpu_cmd_begin (system_env V R base p (Suc n)) = cgpu_cmd_begin (system_env V R base p 1)"
  "cgpu_cmd_resource_barrier (system_env V R base p (Suc n)) = cgpu_cmd_resource_barrier (system_env V R base p 1)"
  "cgpu_cmd_end (system_env V R base p (Suc n)) = cgpu_cmd_end (system_env V R base p 1)"
  "cgpu_submit_queue (system_env V R base p (Suc n)) = cgpu_submit_queue (system_env V R base p 1)"
  by (simp_all only: fun_eq_iff cgpu_create_command_pool_def cgpu_create_command_buffer_def
      cgpu_create_fence_def cgpu_free_command_buffer_def cgpu_free_command_pool_def cgpu_free_fence_def
      cgpu_cmd_begin_query_def cgpu_reset_command_pool_def cgpu_cmd_begin_def cgpu_cmd_resource_barrier_def
      cgpu_cmd_end_def cgpu_submit_queue_def device_table_def table_at_Suc One_nat_def system_env_simps)
    (simp_all add: vk_table_defs cong: if_cong)

lemma wait_fences_level:
  "cgpu_wait_fences (system_env V R base p (Suc n)) = cgpu_wait_fences (system_env V R base p 1)"
proof (rule ext)
  fix fs
  show "cgpu_wait_fences (system_env V R base p (Suc n)) fs = cgpu_wait_fences (system_env V R base p 1) fs"
    by (cases fs; simp only: cgpu_wait_fences_def list.case device_table_def table_at_Suc One_nat_def system_env_simps)
      (simp add: vk_table_defs cong: if_cong)
qed

lemma bindP_ret: "bindP m ret = m"
  by (rule ext) (simp add: bindP_run split: sum.split)

section \<open>Signatures that leave their pool\<close>

text \<open>A signature without a pool is freed without an inner call.\<close>

lemma free_unpooled_level:
  "store root_sigs root_sigs_update s (\<lambda>X. X\<lparr>rs_pool := NULL, rs_pool_sig := NULL\<rparr>)
     (bindP (cgpu_free_root_signature (system_env V R base p (Suc n)) s) k)
   = store root_sigs root_sigs_update s (\<lambda>X. X\<lparr>rs_pool := NULL, rs_pool_sig := NULL\<rparr>)
     (bindP (cgpu_free_root_signature (system_env V R base p 1) s) k)"
  by (rule ext)
    (simp add: store_run bindP_run cgpu_free_root_signature_def device_table_def table_at_Suc One_nat_def
      assertc_run deref_run checked_proc_run vk_table_defs cgpu_free_root_signature_vulkan_def
      del: system_env.simps(1) split: option.split cong: if_cong)

text \<open>The procedures of the table at every level.\<close>

lemma queue_procs_level:
  "cgpu_get_queue_vulkan V (system_env V R base p (Suc n)) = cgpu_get_queue_vulkan V (system_env V R base p 1)"
  "cgpu_free_queue_vulkan V (system_env V R base p (Suc n)) = cgpu_free_queue_vulkan V (system_env V R base p 1)"
  "cgpu_cmd_end_query_vulkan (system_env V R base p (Suc n)) = cgpu_cmd_end_query_vulkan (system_env V R base p 1)"
  by (intro ext, simp only: cgpu_get_queue_vulkan_def cgpu_free_queue_vulkan_def
      cgpu_cmd_end_query_vulkan_def inner_calls_level [of V R base p n])+

lemma texture_procs_level:
  "cgpu_create_texture_vulkan V (system_env V R base p (Suc n)) = cgpu_create_texture_vulkan V (system_env V R base p 1)"
proof -
  have "setup_texture V (system_env V R base p (Suc n)) = setup_texture V (system_env V R base p 1)"
    by (intro ext, simp only: setup_texture_def transition_to_start_state_def inner_calls_level [of V R base p n]
      wait_fences_level [of V R base p n])
  then show ?thesis by (intro ext, simp only: cgpu_create_texture_vulkan_def)
qed

lemma signature_procs_level:
  "cgpu_free_root_signature_vulkan V H (system_env V R base p (Suc n))
     = cgpu_free_root_signature_vulkan V H (system_env V R base p 1)"
  "cgpu_free_root_signature_pool_vulkan (system_env V R base p (Suc n)) order
     = cgpu_free_root_signature_pool_vulkan (system_env V R base p 1) order"
proof -
  have "store root_sigs root_sigs_update s (\<lambda>X. X\<lparr>rs_pool := NULL, rs_pool_sig := NULL\<rparr>)
          (cgpu_free_root_signature (system_env V R base p (Suc n)) s)
        = store root_sigs root_sigs_update s (\<lambda>X. X\<lparr>rs_pool := NULL, rs_pool_sig := NULL\<rparr>)
          (cgpu_free_root_signature (system_env V R base p 1) s)" for s
    using free_unpooled_level [of s V R base p n ret] by (simp only: bindP_ret)
  then show
    "cgpu_free_root_signature_pool_vulkan (system_env V R base p (Suc n)) order
       = cgpu_free_root_signature_pool_vulkan (system_env V R base p 1) order"
    by (intro ext) (simp only: cgpu_free_root_signature_pool_vulkan_def CGPUUtil_FreeRootSignaturePool_def)
  show "cgpu_free_root_signature_vulkan V H (system_env V R base p (Suc n))
          = cgpu_free_root_signature_vulkan V H (system_env V R base p 1)"
    by (intro ext) (simp only: cgpu_free_root_signature_vulkan_def CGPUUtil_PoolFreeSignature_def
        free_unpooled_level [of _ V R base p n])
qed


end
