(* ===== verification/Vk_Sample.thy ===== *)
theory Vk_Sample
  imports Vk_System
begin

text \<open>
  A small concrete system on which the properties are witnessed: one instance (address 1), one
  adapter (2), one device (3), its queue (5), two fences (6, not submitted, and 7, submitted),
  two semaphores (11, signaled, and 12, not signaled), a command pool (13), two command buffers
  (14 and 15), a descriptor pool (16), the pass caches (17), a swapchain (18), a color texture
  (19) with a view (20) and a buffer (21). The procedure table is at address 9. The driver
  accepts every call and answers with a fresh handle.
\<close>

definition sample_driver :: vk_driver where
  "sample_driver tr c = \<lparr>vk_result = VK_SUCCESS, vk_outs = [length tr + 1000]\<rparr>"

definition sample_families :: "VkQueueFamilyProperties list" where
  "sample_families =
     [\<lparr>queueFlags = {VK_QUEUE_GRAPHICS_BIT, VK_QUEUE_COMPUTE_BIT, VK_QUEUE_TRANSFER_BIT}, queueCount = 1\<rparr>,
      \<lparr>queueFlags = {VK_QUEUE_COMPUTE_BIT, VK_QUEUE_TRANSFER_BIT}, queueCount = 2\<rparr>,
      \<lparr>queueFlags = {VK_QUEUE_TRANSFER_BIT}, queueCount = 4\<rparr>]"

definition sample_platform :: vk_platform where
  "sample_platform = \<lparr>instance_layers = [''VK_LAYER_KHRONOS_validation''], instance_extensions = [''VK_KHR_surface''],
     physical_devices = [502], physical_device = \<lambda>_. \<lparr>phys_deviceType = VK_PHYSICAL_DEVICE_TYPE_DISCRETE_GPU,
       phys_deviceID = 1, phys_vendorID = 2, phys_driverVersion = 3, phys_deviceName = ''GPU'',
       minUniformBufferOffsetAlignment = 256, optimalBufferCopyOffsetAlignment = 1, optimalBufferCopyRowPitchAlignment = 1,
       phys_maxVertexInputBindings = 16, maxDrawIndirectCount = 1, phys_timestampPeriod = 1, subgroupSize = 32,
       geometryShader = True, tessellationShader = True, phys_queue_families = sample_families, phys_layers = [],
       phys_extensions = [''VK_KHR_swapchain'', ''VK_EXT_memory_budget''],
       phys_memoryTypes = [\<lparr>mt_propertyFlags = {VK_MEMORY_PROPERTY_DEVICE_LOCAL_BIT}, mt_heapIndex = 0\<rparr>],
       phys_memoryHeaps = [\<lparr>mh_flags = {VK_MEMORY_HEAP_DEVICE_LOCAL_BIT}, mh_size = 1024\<rparr>], phys_heapBudget = [512]\<rparr>,
     loaded_debug_utils = False, loaded_debug_report = False, loaded_memory_properties2 = True\<rparr>"

definition sample_vk :: vk_env where
  "sample_vk = \<lparr>vk_debug = True, vk_drv = sample_driver, hash_render_pass = \<lambda>d p. 0,
     hash_framebuffer = \<lambda>d p. 0, hash_name = \<lambda>n p. length n,
     spv_reflect = \<lambda>n code. (True, \<lparr>sm_source_language = 5, sm_shader_stage = 1, sm_entry_points = [],
       sm_input_variables = [], sm_push_constants = [], sm_descriptor_sets = []\<rparr>),
     float_add = \<lambda>x y. x + y, float_of_int = word_of_int, vk_plat = sample_platform,
     pass_order = \<lambda>T. [], framebuffer_order = \<lambda>T. []\<rparr>"

definition sample_rs :: rs_env where
  "sample_rs = \<lparr>rs_hash = \<lparr>hash_RSTResource = \<lambda>r h. h + rst_binding r + 1,
      hash_PushConstant = \<lambda>r h. h + pc_binding r + 1, hash_StaticSampler = \<lambda>r h. h + ss_binding r + 1,
      hash_RSCharacteristic = \<lambda>r. rsc_table_hash r + rsc_push_constant_hash r\<rparr>,
     rs_map_order = \<lambda>P. []\<rparr>"

definition sample_base :: CGPUProcTable where
  "sample_base =
     \<lparr>create_instance = None, query_instance_features = None, free_instance = None,
      enum_adapters = None, query_adapter_detail = None, query_queue_count = None,
      create_device = None, free_device = Some (\<lambda>_. ret ()), create_fence = None,
      wait_fences = None, query_fence_status = None, free_fence = None, create_semaphore =
      None, free_semaphore = None, create_root_signature_pool = None,
      free_root_signature_pool = None, create_root_signature = None, free_root_signature =
      None, create_descriptor_set = None, update_descriptor_set = None, free_descriptor_set
      = None, create_compute_pipeline = None, free_compute_pipeline = None,
      create_render_pipeline = None, free_render_pipeline = None, create_query_pool = None,
      free_query_pool = None, get_queue = None, submit_queue = None, wait_queue_idle = None,
      queue_present = None, queue_get_timestamp_period = None, free_queue = None,
      create_command_pool = None, create_command_buffer = None, reset_command_pool = None,
      free_command_buffer = None, free_command_pool = None, create_shader_library = None,
      free_shader_library = None, create_buffer = None, map_buffer = None, unmap_buffer =
      None, free_buffer = None, create_sampler = None, free_sampler = None, create_texture =
      None, free_texture = None, create_texture_view = None, free_texture_view = None,
      try_bind_aliasing_texture = None, create_swapchain = None, acquire_next_image = None,
      free_swapchain = None, cmd_begin = None, cmd_transfer_buffer_to_buffer = None,
      cmd_transfer_buffer_to_texture = None, cmd_transfer_texture_to_texture = None,
      cmd_resource_barrier = None, cmd_begin_query = None, cmd_end_query = None,
      cmd_reset_query_pool = None, cmd_resolve_query = None, cmd_end = None,
      cmd_begin_compute_pass = None, compute_encoder_bind_descriptor_set = None,
      compute_encoder_push_constants = None, compute_encoder_bind_pipeline = None,
      compute_encoder_dispatch = None, cmd_end_compute_pass = None, cmd_begin_render_pass =
      None, render_encoder_bind_descriptor_set = None, render_encoder_bind_pipeline = None,
      render_encoder_bind_vertex_buffers = None, render_encoder_bind_index_buffer = None,
      render_encoder_push_constants = None, render_encoder_set_viewport = None,
      render_encoder_set_scissor = None, render_encoder_draw = None,
      render_encoder_draw_instanced = None, render_encoder_draw_indexed = None,
      render_encoder_draw_indexed_instanced = None, cmd_end_render_pass = None,
      cmd_begin_event = None, cmd_set_marker = None, cmd_end_event = None\<rparr>"

definition sample_env :: cgpu_env where
  "sample_env = system_env sample_vk sample_rs sample_base 9 2"

definition sample_instance :: CGPUInstance_Vulkan where
  "sample_instance = zero_instance\<lparr>inst_proc_table := 9, inst_runtime_table := 4, pVkInstance := 501,
     pVulkanAdapters := [2], debug_utils := True\<rparr>"

definition sample_detail :: CGPUAdapterDetail where
  "sample_detail = zero_adapter_detail\<lparr>uniform_buffer_alignment := 256, max_vertex_input_bindings := 16,
     support_geom_shader := True, support_tessellation := True, format_supports := []\<rparr>"

definition sample_adapter :: CGPUAdapter_Vulkan where
  "sample_adapter = (new_adapter sample_vk 502)\<lparr>adapter_instance := 1, adapter_proc_table_cache := 9,
     mQueueFamilyIndices := [0, 1, 2], pQueueFamilyProperties := sample_families, adapter_detail := sample_detail\<rparr>"

definition sample_device :: CGPUDevice_Vulkan where
  "sample_device = \<lparr>device_adapter = 2, device_proc_table_cache = 9, pVkDevice = 503,
     pPipelineCache = 504, pDescriptorPool = 16, pVmaAllocator = 505, pPassTable = 17\<rparr>"

definition sample_queue :: CGPUQueue_Vulkan where
  "sample_queue = \<lparr>queue_device = 3, queue_type = CGPU_QUEUE_TYPE_GRAPHICS, queue_index = 7,
     pVkQueue = 506, mVkQueueFamilyIndex = 0, pInnerCmdPool = 0, pInnerCmdBuffer = 0,
     pInnerFence = 0, queue_pMutex = 22\<rparr>"

definition sample_cmd :: CGPUCommandBuffer_Vulkan where
  "sample_cmd = \<lparr>cmd_device = 3, cmd_pool = 13, current_dispatch = CGPU_PIPELINE_TYPE_NONE,
     pVkCmdBuf = 507, pBoundPipelineLayout = 0, pRenderPass = 0, mType = CGPU_QUEUE_TYPE_GRAPHICS\<rparr>"

definition sample_texture :: CGPUTexture_Vulkan where
  "sample_texture = \<lparr>texture_device = 3, texture_sample_count = CGPU_SAMPLE_COUNT_1,
     texture_width = 64, texture_height = 32, texture_depth = 1, texture_mip_levels = 1,
     texture_array_size_minus_one = 0, texture_format = CGPU_FORMAT_R8G8B8A8_UNORM,
     texture_aspect_mask = 1, texture_is_cube = False, texture_is_dedicated = False,
     texture_owns_image = True, texture_is_aliasing = False, texture_can_alias = False,
     mImageType = VK_IMAGE_TYPE_2D, pVkImage = 508, texture_pVkAllocation = 509\<rparr>"

definition sample_world :: vk_world where
  "sample_world = \<lparr>runtime_tables = [4 \<mapsto> \<lparr>created_queues = []\<rparr>], instances = [1 \<mapsto> sample_instance],
     adapters = [2 \<mapsto> sample_adapter], devices = [3 \<mapsto> sample_device], queues = [5 \<mapsto> sample_queue],
     fences = [6 \<mapsto> \<lparr>fence_device = 3, pVkFence = 601, mSubmitted = False\<rparr>,
               7 \<mapsto> \<lparr>fence_device = 3, pVkFence = 602, mSubmitted = True\<rparr>],
     semaphores = [11 \<mapsto> \<lparr>semaphore_device = 3, pVkSemaphore = 611, mSignaled = True\<rparr>,
                   12 \<mapsto> \<lparr>semaphore_device = 3, pVkSemaphore = 612, mSignaled = False\<rparr>],
     cmd_pools = [13 \<mapsto> \<lparr>pool_queue = 5, pVkCmdPool = 620\<rparr>],
     cmds = [14 \<mapsto> sample_cmd, 15 \<mapsto> sample_cmd],
     query_pools = Map.empty, buffers = Map.empty, textures = [19 \<mapsto> sample_texture],
     texture_views = Map.empty, samplers = Map.empty, libraries = Map.empty,
     swapchains = [18 \<mapsto> \<lparr>swapchain_device = 3, back_buffers = [], pVkSurface = 630, pVkSwapChain = 631\<rparr>],
     root_sigs = Map.empty, rs_pools = Map.empty, desc_sets = Map.empty, compute_pipelines = Map.empty,
     render_pipelines = Map.empty,
     desc_pools = [16 \<mapsto> \<lparr>dp_Device = 3, pVkDescPool = 640, dp_pMutex = 23\<rparr>],
     pass_tables = [17 \<mapsto> \<lparr>cached_renderpasses = Map.empty, cached_framebuffers = Map.empty\<rparr>],
     next_addr = 100, trace = []\<rparr>"

lemma sample_world_sel [simp]:
  "runtime_tables sample_world = [4 \<mapsto> \<lparr>created_queues = []\<rparr>]"
  "instances sample_world = [1 \<mapsto> sample_instance]"
  "adapters sample_world = [2 \<mapsto> sample_adapter]"
  "devices sample_world = [3 \<mapsto> sample_device]"
  "queues sample_world = [5 \<mapsto> sample_queue]"
  "fences sample_world = [6 \<mapsto> \<lparr>fence_device = 3, pVkFence = 601, mSubmitted = False\<rparr>, 7 \<mapsto> \<lparr>fence_device = 3, pVkFence = 602, mSubmitted = True\<rparr>]"
  "semaphores sample_world = [11 \<mapsto> \<lparr>semaphore_device = 3, pVkSemaphore = 611, mSignaled = True\<rparr>, 12 \<mapsto> \<lparr>semaphore_device = 3, pVkSemaphore = 612, mSignaled = False\<rparr>]"
  "cmd_pools sample_world = [13 \<mapsto> \<lparr>pool_queue = 5, pVkCmdPool = 620\<rparr>]"
  "cmds sample_world = [14 \<mapsto> sample_cmd, 15 \<mapsto> sample_cmd]"
  "query_pools sample_world = Map.empty"
  "buffers sample_world = Map.empty"
  "textures sample_world = [19 \<mapsto> sample_texture]"
  "texture_views sample_world = Map.empty"
  "samplers sample_world = Map.empty"
  "libraries sample_world = Map.empty"
  "swapchains sample_world = [18 \<mapsto> \<lparr>swapchain_device = 3, back_buffers = [], pVkSurface = 630, pVkSwapChain = 631\<rparr>]"
  "root_sigs sample_world = Map.empty"
  "rs_pools sample_world = Map.empty"
  "desc_sets sample_world = Map.empty"
  "compute_pipelines sample_world = Map.empty"
  "render_pipelines sample_world = Map.empty"
  "desc_pools sample_world = [16 \<mapsto> \<lparr>dp_Device = 3, pVkDescPool = 640, dp_pMutex = 23\<rparr>]"
  "pass_tables sample_world = [17 \<mapsto> \<lparr>cached_renderpasses = Map.empty, cached_framebuffers = Map.empty\<rparr>]"
  "next_addr sample_world = 100"
  "trace sample_world = []"
  by (simp_all add: sample_world_def)

lemma sample_vk_sel [simp]:
  "vk_debug sample_vk" "vk_drv sample_vk = sample_driver" "hash_render_pass sample_vk d p = 0"
  "hash_framebuffer sample_vk e p = 0"
  by (simp_all add: sample_vk_def)

text \<open>The objects and the driver; the system and the world stay folded.\<close>

lemmas sample_defs =
  sample_driver_def sample_instance_def sample_adapter_def sample_families_def sample_detail_def zero_instance_def
  zero_adapter_detail_def new_adapter_def sample_device_def sample_queue_def
  sample_cmd_def sample_texture_def

lemma sample_debug [simp]: "debug sample_env"
  by (simp add: sample_env_def)

lemma sample_table [simp]:
  "proc_tables sample_env
   = [9 \<mapsto> tbl_vk sample_vk sample_rs (system_env sample_vk sample_rs sample_base 9 1) sample_base]"
  by (simp add: sample_env_def numeral_2_eq_2 system_env.simps(2))

lemma sample_inner_table [simp]:
  "proc_tables (system_env sample_vk sample_rs sample_base 9 (Suc 0))
   = [9 \<mapsto> tbl_vk sample_vk sample_rs (system_env sample_vk sample_rs sample_base 9 0) sample_base]"
  by (simp add: system_env.simps(2))

lemma sample_base_free_device [simp]: "free_device sample_base = Some (\<lambda>_. ret ())"
  by (simp add: sample_base_def)

end
