(* ===== verification/Pool_Facts.thy ===== *)
theory Pool_Facts
  imports Vk_Sample
begin

text \<open>
  The root signature pool. Its three maps represent a counted cache from characteristics to
  signatures; the abstract cache is the specification and the maps refine it. The release of a
  pooled signature by the Vulkan backend goes through the pool and is shown to read the
  signature after it has been freed.
\<close>

section \<open>The counted cache\<close>

text \<open>A characteristic that is cached has a signature and the number of its users.\<close>

type_synonym counted_cache = "nat \<rightharpoonup> CGPURootSignatureId \<times> nat"

definition cache_get :: "nat \<Rightarrow> counted_cache \<Rightarrow> CGPURootSignatureId \<times> counted_cache" where
  "cache_get c S = (case S c of None \<Rightarrow> (NULL, S) | Some (s, n) \<Rightarrow> (s, S(c \<mapsto> (s, n + 1))))"

definition cache_put :: "nat \<Rightarrow> CGPURootSignatureId \<Rightarrow> counted_cache \<Rightarrow> counted_cache" where
  "cache_put c s S = S(c \<mapsto> (s, 1))"

definition cache_drop :: "nat \<Rightarrow> counted_cache \<Rightarrow> counted_cache" where
  "cache_drop c S =
     (case S c of None \<Rightarrow> S | Some (s, n) \<Rightarrow> if n \<le> 1 then S(c := None) else S(c \<mapsto> (s, n - 1)))"

text \<open>The release of one reference, as the pool does it on its maps.\<close>

definition pool_drop :: "rs_hashes \<Rightarrow> CGPURootSignatureId \<Rightarrow> CGPURootSignaturePoolImpl \<Rightarrow> CGPURootSignaturePoolImpl" where
  "pool_drop H sig P =
     (case counterMap P sig of
        None \<Rightarrow> P
      | Some n \<Rightarrow> if n \<le> 1 then pool_remove H sig P else pool_release sig P)"

section \<open>The contract of the pool\<close>

text \<open>What a client of the pool relies on: the operations are those of the counted cache.\<close>

locale counted_pool =
  fixes pget :: "nat \<Rightarrow> 'p \<Rightarrow> CGPURootSignatureId \<times> 'p"
    and pput :: "nat \<Rightarrow> CGPURootSignatureId \<Rightarrow> 'p \<Rightarrow> 'p"
    and pdrop :: "CGPURootSignatureId \<Rightarrow> 'p \<Rightarrow> 'p"
    and view :: "'p \<Rightarrow> counted_cache"
    and valid :: "'p \<Rightarrow> bool"
  assumes get_refines: "valid P \<Longrightarrow> fst (pget c P) = fst (cache_get c (view P))
      \<and> view (snd (pget c P)) = snd (cache_get c (view P)) \<and> valid (snd (pget c P))"
    and put_refines: "valid P \<Longrightarrow> view P c = None \<Longrightarrow> s \<notin> fst ` ran (view P)
      \<Longrightarrow> view (pput c s P) = cache_put c s (view P) \<and> valid (pput c s P)"
    and drop_refines: "valid P \<Longrightarrow> view P c = Some (s, n)
      \<Longrightarrow> view (pdrop s P) = cache_drop c (view P) \<and> valid (pdrop s P)"
begin

text \<open>\<open>k\<close> users join.\<close>

lemma gets_view:
  assumes "valid P" and "view P c = Some (s, n)"
  shows "valid (((\<lambda>P. snd (pget c P)) ^^ k) P) \<and> view (((\<lambda>P. snd (pget c P)) ^^ k) P) = (view P)(c \<mapsto> (s, n + k))"
proof (induction k)
  case 0
  then show ?case using assms by (simp add: fun_upd_idem)
next
  case (Suc k)
  let ?P = "((\<lambda>P. snd (pget c P)) ^^ k) P"
  show ?case using get_refines [of ?P c] Suc by (auto simp: cache_get_def fun_eq_iff)
qed

lemma gets_same:
  assumes "valid P" and "view P c = Some (s, n)"
  shows "fst (pget c (((\<lambda>P. snd (pget c P)) ^^ k) P)) = s"
  using gets_view [OF assms, of k] get_refines by (simp add: cache_get_def)

text \<open>\<open>j\<close> users leave.\<close>

lemma drops_view:
  assumes "valid P" and "view P c = Some (s, n)" and "j < n"
  shows "valid ((pdrop s ^^ j) P) \<and> view ((pdrop s ^^ j) P) = (view P)(c \<mapsto> (s, n - j))"
  using assms(3)
proof (induction j)
  case 0
  then show ?case using assms by (simp add: fun_upd_idem)
next
  case (Suc j)
  then have "j < n" by simp
  from Suc.IH [OF this] have j: "valid ((pdrop s ^^ j) P)" "view ((pdrop s ^^ j) P) = (view P)(c \<mapsto> (s, n - j))"
    by blast+
  have "view ((pdrop s ^^ j) P) c = Some (s, n - j)" using j(2) by simp
  from drop_refines [OF j(1) this] show ?case
    using j(2) Suc.prems by (auto simp: cache_drop_def fun_eq_iff)
qed

text \<open>A signature is shared by everyone who asks and goes with the last.\<close>

lemma lives_until_last:
  assumes "valid P" and "view P c = None" and "s \<notin> fst ` ran (view P)"
    and "Q = ((\<lambda>P. snd (pget c P)) ^^ k) (pput c s P)"
  shows "fst (pget c Q) = s"
    and "j \<le> k \<Longrightarrow> view ((pdrop s ^^ j) Q) c = Some (s, k + 1 - j)"
    and "view ((pdrop s ^^ (k + 1)) Q) = view P"
proof -
  have P: "valid (pput c s P)" "view (pput c s P) = (view P)(c \<mapsto> (s, 1))"
    using put_refines [OF assms(1-3)] by (simp_all add: cache_put_def)
  then have c: "view (pput c s P) c = Some (s, 1)" by simp
  show "fst (pget c Q) = s"
    unfolding assms(4) by (rule gets_same [OF P(1) c])
  have Q: "valid Q" "view Q = (view P)(c \<mapsto> (s, k + 1))"
    using gets_view [OF P(1) c, of k] P(2) unfolding assms(4) by simp_all
  then have Qc: "view Q c = Some (s, k + 1)" by simp
  show "view ((pdrop s ^^ j) Q) c = Some (s, k + 1 - j)" if "j \<le> k"
    using drops_view [OF Q(1) Qc, of j] that by simp
  have k: "valid ((pdrop s ^^ k) Q)" "view ((pdrop s ^^ k) Q) = (view P)(c \<mapsto> (s, 1))"
    using drops_view [OF Q(1) Qc, of k] Q(2) by simp_all
  then have "view ((pdrop s ^^ k) Q) c = Some (s, 1)" by simp
  from drop_refines [OF k(1) this] show "view ((pdrop s ^^ (k + 1)) Q) = view P"
    using k(2) assms(2) by (simp add: cache_drop_def fun_upd_idem)
qed

end

section \<open>The maps of the pool meet the contract\<close>

definition pool_ok :: "CGPURootSignaturePoolImpl \<Rightarrow> bool" where
  "pool_ok P \<longleftrightarrow>
     (\<forall>c s. characterMap P c = Some s \<longleftrightarrow> biCharacterMap P s = Some c)
   \<and> (\<forall>s. counterMap P s = None \<longleftrightarrow> biCharacterMap P s = None)
   \<and> (\<forall>s n. counterMap P s = Some n \<longrightarrow> 1 \<le> n)"

definition pool_view :: "CGPURootSignaturePoolImpl \<Rightarrow> counted_cache" where
  "pool_view P =
     (\<lambda>c. case characterMap P c of None \<Rightarrow> None
        | Some s \<Rightarrow> Some (s, case counterMap P s of None \<Rightarrow> 0 | Some n \<Rightarrow> n))"

lemma pool_ok_bi: "pool_ok P \<Longrightarrow> biCharacterMap P s = Some c \<longleftrightarrow> characterMap P c = Some s"
  by (simp add: pool_ok_def)

lemma pool_ok_inj: "pool_ok P \<Longrightarrow> characterMap P c = Some s \<Longrightarrow> characterMap P d = Some s \<Longrightarrow> c = d"
  by (simp add: pool_ok_bi [symmetric])

lemma pool_ok_counted:
  assumes "pool_ok P" and "characterMap P c = Some s"
  obtains n where "counterMap P s = Some n" "1 \<le> n"
proof -
  have "counterMap P s \<noteq> None" using assms by (simp add: pool_ok_def)
  then obtain n where n: "counterMap P s = Some n" by blast
  with assms(1) have "1 \<le> n" unfolding pool_ok_def by blast
  with n show thesis by (rule that)
qed

lemma pool_ok_dom: "pool_ok P \<Longrightarrow> counterMap P s = None \<longleftrightarrow> biCharacterMap P s = None"
  unfolding pool_ok_def by blast

lemma pool_ok_pos: "pool_ok P \<Longrightarrow> counterMap P s = Some n \<Longrightarrow> 1 \<le> n"
  unfolding pool_ok_def by blast

lemma pool_okI:
  assumes "\<And>c s. characterMap P c = Some s \<longleftrightarrow> biCharacterMap P s = Some c"
    and "\<And>s. counterMap P s = None \<longleftrightarrow> biCharacterMap P s = None"
    and "\<And>s n. counterMap P s = Some n \<Longrightarrow> 1 \<le> n"
  shows "pool_ok P"
  using assms unfolding pool_ok_def by blast

lemma pool_view_sigs:
  assumes "pool_ok P"
  shows "fst ` ran (pool_view P) = dom (biCharacterMap P)"
proof -
  have "s \<in> fst ` ran (pool_view P) \<longleftrightarrow> (\<exists>c. characterMap P c = Some s)" for s
  proof
    assume "s \<in> fst ` ran (pool_view P)"
    then obtain c n where "pool_view P c = Some (s, n)" by (auto simp: ran_def)
    then show "\<exists>c. characterMap P c = Some s" by (auto simp: pool_view_def split: option.splits)
  next
    assume "\<exists>c. characterMap P c = Some s"
    then obtain c where "characterMap P c = Some s" ..
    then have "pool_view P c = Some (s, case counterMap P s of None \<Rightarrow> 0 | Some n \<Rightarrow> n)" by (simp add: pool_view_def)
    then show "s \<in> fst ` ran (pool_view P)" using ranI image_eqI fst_conv by metis
  qed
  then show ?thesis using pool_ok_bi [OF assms] by blast
qed

lemma try_allocate_refines:
  assumes "pool_ok P"
  shows "fst (pool_try_allocate c P) = fst (cache_get c (pool_view P))
      \<and> pool_view (snd (pool_try_allocate c P)) = snd (cache_get c (pool_view P)) \<and> pool_ok (snd (pool_try_allocate c P))"
proof (cases "characterMap P c")
  case None
  then show ?thesis using assms by (simp add: pool_try_allocate_def cache_get_def pool_view_def)
next
  case (Some s)
  then obtain n where n: "counterMap P s = Some n" by (rule pool_ok_counted [OF assms])
  have "pool_view (snd (pool_try_allocate c P)) d = snd (cache_get c (pool_view P)) d" for d
  proof (cases "d = c")
    case False
    then have "characterMap P d \<noteq> Some s" using pool_ok_inj [OF assms Some] by blast
    then show ?thesis
      using False Some n by (auto simp: pool_try_allocate_def cache_get_def pool_view_def split: option.split)
  qed (simp add: pool_try_allocate_def cache_get_def pool_view_def Some n)
  moreover have "pool_ok (snd (pool_try_allocate c P))"
  proof (rule pool_okI)
    show "characterMap (snd (pool_try_allocate c P)) d = Some t
        \<longleftrightarrow> biCharacterMap (snd (pool_try_allocate c P)) t = Some d" for d t
      by (simp add: pool_try_allocate_def Some pool_ok_bi [OF assms])
    show "counterMap (snd (pool_try_allocate c P)) t = None \<longleftrightarrow> biCharacterMap (snd (pool_try_allocate c P)) t = None" for t
      using pool_ok_dom [OF assms, of t] pool_ok_dom [OF assms, of s] n by (simp add: pool_try_allocate_def Some)
  qed (use n pool_ok_pos [OF assms] in \<open>auto simp: pool_try_allocate_def Some split: if_splits\<close>)
  ultimately show ?thesis
    using Some n by (auto simp: pool_try_allocate_def cache_get_def pool_view_def)
qed

lemma insert_refines:
  assumes "pool_ok P" and "pool_view P c = None" and "s \<notin> fst ` ran (pool_view P)"
  shows "pool_view (pool_insert c s P) = cache_put c s (pool_view P) \<and> pool_ok (pool_insert c s P)"
proof -
  have s: "biCharacterMap P s = None" using assms(3) unfolding pool_view_sigs [OF assms(1)] by blast
  have c: "characterMap P c = None" using assms(2) by (simp add: pool_view_def split: option.splits)
  have other: "characterMap P d \<noteq> Some s" for d using assms(1) s by (simp add: pool_ok_def)
  have "pool_view (pool_insert c s P) d = cache_put c s (pool_view P) d" for d
    using other [of d] by (auto simp: pool_view_def pool_insert_def cache_put_def split: option.split)
  moreover have "pool_ok (pool_insert c s P)"
  proof (rule pool_okI)
    show "characterMap (pool_insert c s P) d = Some t \<longleftrightarrow> biCharacterMap (pool_insert c s P) t = Some d" for d t
      using pool_ok_bi [OF assms(1), of t d] s c other [of d] by (auto simp: pool_insert_def)
    show "counterMap (pool_insert c s P) t = None \<longleftrightarrow> biCharacterMap (pool_insert c s P) t = None" for t
      using pool_ok_dom [OF assms(1), of t] by (simp add: pool_insert_def)
  qed (use pool_ok_pos [OF assms(1)] in \<open>auto simp: pool_insert_def split: if_splits\<close>)
  ultimately show ?thesis by blast
qed

lemma drop_refines_pool:
  assumes "pool_ok P" and "pool_view P c = Some (s, n)"
  shows "pool_view (pool_drop H s P) = cache_drop c (pool_view P) \<and> pool_ok (pool_drop H s P)"
proof -
  have cs: "characterMap P c = Some s" using assms(2) by (auto simp: pool_view_def split: option.splits)
  obtain m where "counterMap P s = Some m" "1 \<le> m" by (rule pool_ok_counted [OF assms(1) cs])
  moreover have "m = n" using assms(2) cs calculation(1) by (simp add: pool_view_def)
  ultimately have n: "counterMap P s = Some n" "1 \<le> n" by simp_all
  have bi: "biCharacterMap P s = Some c" using cs pool_ok_bi [OF assms(1)] by simp
  have other: "characterMap P d = Some s \<Longrightarrow> d = c" for d using pool_ok_inj [OF assms(1) cs] by metis
  have "pool_view (pool_drop H s P) d = cache_drop c (pool_view P) d" for d
  proof (cases "d = c")
    case True
    then show ?thesis
      using cs n bi by (simp add: pool_view_def pool_drop_def pool_remove_def pool_release_def cache_drop_def)
  next
    case False
    then have "characterMap P d \<noteq> Some s" using other by blast
    then show ?thesis
      using False cs n bi
      by (auto simp: pool_view_def pool_drop_def pool_remove_def pool_release_def cache_drop_def split: option.split)
  qed
  moreover have "pool_ok (pool_drop H s P)"
  proof (rule pool_okI)
    show "characterMap (pool_drop H s P) d = Some t \<longleftrightarrow> biCharacterMap (pool_drop H s P) t = Some d" for d t
    proof (cases "t = s")
      case True
      then show ?thesis
        using pool_ok_bi [OF assms(1), of s d] n bi by (auto simp: pool_drop_def pool_remove_def pool_release_def)
    next
      case False
      then have "biCharacterMap P t = Some c \<Longrightarrow> False" using cs pool_ok_bi [OF assms(1), of t c] by simp
      then show ?thesis
        using False pool_ok_bi [OF assms(1), of t d] n bi by (auto simp: pool_drop_def pool_remove_def pool_release_def)
    qed
    show "counterMap (pool_drop H s P) t = None \<longleftrightarrow> biCharacterMap (pool_drop H s P) t = None" for t
      using pool_ok_dom [OF assms(1), of t] n bi by (simp add: pool_drop_def pool_remove_def pool_release_def)
    show "1 \<le> m" if "counterMap (pool_drop H s P) t = Some m" for t m
      using that pool_ok_pos [OF assms(1), of t m] n
      by (auto simp: pool_drop_def pool_remove_def pool_release_def split: if_splits)
  qed
  ultimately show ?thesis by blast
qed

interpretation rsp: counted_pool pool_try_allocate pool_insert "pool_drop H" pool_view pool_ok for H
  by unfold_locales (rule try_allocate_refines insert_refines drop_refines_pool; assumption)+

section \<open>The release of a signature\<close>

lemma free_unpooled_end:
  assumes "cgpu_free_root_signature_vulkan V H E sig w = Inr (r, v)"
    and "root_sigs w sig = Some RS" and "rs_pool RS = NULL"
  shows "root_sigs v sig = None"
  using assms unfolding cgpu_free_root_signature_vulkan_def CGPUUtil_FreeRSParamTables_def
  by (auto simp: vk_do_run release_run elim!: deref_end bindP_end)

text \<open>The last user leaves through the signature that owns the entry: the pool frees it.\<close>

lemma pool_free_owner_end:
  assumes "CGPUUtil_PoolFreeSignature H (system_env V R base p m) pool sig w = Inr (r, v)"
    and "root_sigs w sig = Some RS" and "rs_pool_sig RS = NULL"
    and "rs_pools w pool = Some P" and "counterMap P sig = Some n" and "n \<le> 1"
  shows "root_sigs v sig = None"
proof -
  have sig: "true_signature (Suc fuel) sig sig k w = k sig w" if "sig \<noteq> NULL" for fuel and k :: "_ \<Rightarrow> bool vk_prog"
    using that assms(2,3) by (simp add: deref_run)
  have nz: "sig \<noteq> NULL"
    using assms(1) unfolding CGPUUtil_PoolFreeSignature_def gets_run by (auto simp: deref_run split: if_splits)
  obtain u where run: "cgpu_free_root_signature (system_env V R base p m) sig u = Inr ((), v)"
    and u: "root_sigs u sig = Some (RS\<lparr>rs_pool := NULL, rs_pool_sig := NULL\<rparr>)"
    using assms unfolding CGPUUtil_PoolFreeSignature_def gets_run sig [OF nz]
    by (auto simp: store_run elim!: deref_end bindP_end split: if_splits option.splits)
  obtain k where "cgpu_free_root_signature_vulkan V (rs_hash R) (system_env V R base p k) sig u = Inr ((), v)"
    using run unfolding cgpu_free_root_signature_def device_table_def
    by (auto simp: vk_table_defs checked_proc_run elim!: assertc_end deref_end system_proc)
  then show ?thesis using free_unpooled_end u by fastforce
qed

section \<open>Properties\<close>



text \<open>
  Property C18: the last release of a pooled signature through its owner reads freed memory. The
  pool frees the signature, and the backend then reads its member \<open>pool_sig\<close>: the call never ends
  well.
\<close>

theorem owner_release_reads_freed_signature:
  assumes "root_sigs w sig = Some RS" and "rs_pool RS \<noteq> NULL" and "rs_pool_sig RS = NULL"
    and "rs_pools w (rs_pool RS) = Some P" and "counterMap P sig = Some n" and "n \<le> 1"
  shows "(\<exists>e. cgpu_free_root_signature_vulkan V H (system_env V R base p m) sig w = Inl e)
    \<and> (\<forall>x. CGPUUtil_PoolFreeSignature H (system_env V R base p m) (rs_pool RS) sig w = Inr x
        \<longrightarrow> cgpu_free_root_signature_vulkan V H (system_env V R base p m) sig w = Inl DanglingDeref)"
proof (cases "CGPUUtil_PoolFreeSignature H (system_env V R base p m) (rs_pool RS) sig w")
  case (Inl e)
  then show ?thesis
    using assms(1,2) by (auto simp: cgpu_free_root_signature_vulkan_def deref_run bindP_run)
next
  case (Inr x)
  obtain r v where x: "x = (r, v)" by fastforce
  have "root_sigs v sig = None" using pool_free_owner_end [OF Inr [unfolded x] assms(1,3-6)] .
  moreover have "sig \<noteq> NULL"
    using Inr unfolding CGPUUtil_PoolFreeSignature_def gets_run by (auto simp: deref_run split: if_splits)
  ultimately show ?thesis
    using assms(1,2) Inr x by (simp add: cgpu_free_root_signature_vulkan_def deref_run bindP_run)
qed

definition pooled_world :: vk_world where
  "pooled_world = sample_world
     \<lparr>root_sigs := [50 \<mapsto> \<lparr>rs_device = 3, rs_tables = [], rs_push_constants = [], rs_static_samplers = [],
        rs_pipeline_type = CGPU_PIPELINE_TYPE_COMPUTE, rs_pool = 51, rs_pool_sig = NULL, pPipelineLayout = 700,
        pSetLayouts = [], pPushConstRanges = []\<rparr>],
      rs_pools := [51 \<mapsto> \<lparr>rsp_device = 3, characterMap = [7 \<mapsto> 50], biCharacterMap = [50 \<mapsto> 7],
        counterMap = [50 \<mapsto> 1]\<rparr>]\<rparr>"

lemma pooled_world_frees: "\<exists>x. CGPUUtil_PoolFreeSignature (rs_hash sample_rs) sample_env 51 50 pooled_world = Inr x"
  by (simp add: CGPUUtil_PoolFreeSignature_def gets_run pooled_world_def prog_simps cgpu_free_root_signature_def
      vk_table_defs cgpu_free_root_signature_vulkan_def CGPUUtil_FreeRSParamTables_def sample_defs)
    (rule exI [of _ True], simp)

theorem owner_release_reads_freed_signature_witness:
  "cgpu_free_root_signature_vulkan sample_vk (rs_hash sample_rs) sample_env 50 pooled_world = Inl DanglingDeref"
proof -
  let ?RS = "the (root_sigs pooled_world 50)" and ?P = "the (rs_pools pooled_world 51)"
  have "root_sigs pooled_world 50 = Some ?RS" "rs_pool ?RS = 51" "rs_pool_sig ?RS = NULL"
      "rs_pools pooled_world 51 = Some ?P" "counterMap ?P 50 = Some 1"
    by (simp_all add: pooled_world_def)
  then show ?thesis
    using owner_release_reads_freed_signature [of pooled_world 50 ?RS ?P 1 sample_vk "rs_hash sample_rs"
        sample_rs sample_base 9 2] pooled_world_frees
    unfolding sample_env_def by auto
qed

end
