(* ===== verification/Pass_Facts.thy ===== *)
theory Pass_Facts
  imports Vk_Sample
begin

text \<open>
  The pass state machine of a command buffer. \<open>current_dispatch\<close> is NONE outside passes, COMPUTE
  in a compute pass and GRAPHICS in a render pass; the front end changes it when a pass begins
  or ends and checks it, in debug builds, before copies, barriers and the end of a pass.

  The commands of the API are the constructors of \<open>cmd_op\<close>. An encoder is the command buffer it
  was begun on, as both backends return it. The contract of a backend is the locale
  \<open>pass_backend\<close>: its procedures leave the pass state alone. The Vulkan table meets it.
\<close>

section \<open>The commands\<close>

datatype cmd_op =
    OpBegin
  | OpCopyBuffer "CGPUBufferToBufferTransfer option"
  | OpCopyBufferToTexture "CGPUBufferToTextureTransfer option"
  | OpCopyTexture "CGPUTextureToTextureTransfer option"
  | OpBarrier CGPUResourceBarrierDescriptor
  | OpBeginQuery CGPUQueryPoolId CGPUQueryDescriptor
  | OpEndQuery CGPUQueryPoolId CGPUQueryDescriptor
  | OpResetQueryPool CGPUQueryPoolId nat nat
  | OpResolveQuery CGPUQueryPoolId CGPUBufferId nat nat
  | OpEnd
  | OpBeginComputePass CGPUComputePassDescriptor
  | OpComputeBindSet CGPUDescriptorSetId
  | OpComputePush CGPURootSignatureId string ptr
  | OpComputeBindPipeline CGPUComputePipelineId
  | OpDispatch nat nat nat
  | OpEndComputePass CGPUComputePassEncoderId
  | OpBeginRenderPass CGPURenderPassDescriptor
  | OpRenderBindSet CGPUDescriptorSetId
  | OpSetViewport f32 f32 f32 f32 f32 f32
  | OpSetScissor nat nat nat nat
  | OpRenderBindPipeline CGPURenderPipelineId
  | OpBindVertexBuffers "CGPUBufferId list option" "nat list option" "nat list option"
  | OpBindIndexBuffer CGPUBufferId nat nat
  | OpRenderPush CGPURootSignatureId string ptr
  | OpDraw nat nat
  | OpDrawInstanced nat nat nat nat
  | OpDrawIndexed nat nat nat
  | OpDrawIndexedInstanced nat nat nat nat nat
  | OpEndRenderPass CGPURenderPassEncoderId
  | OpBeginEvent CGPUEventInfo
  | OpSetMarker CGPUMarkerInfo
  | OpEndEvent

fun exec :: "cgpu_env \<Rightarrow> CGPUCommandBufferId \<Rightarrow> cmd_op \<Rightarrow> unit vk_prog" where
  "exec E cmd OpBegin = cgpu_cmd_begin E cmd"
| "exec E cmd (OpCopyBuffer desc) = cgpu_cmd_transfer_buffer_to_buffer E cmd desc"
| "exec E cmd (OpCopyBufferToTexture desc) = cgpu_cmd_transfer_buffer_to_texture E cmd desc"
| "exec E cmd (OpCopyTexture desc) = cgpu_cmd_transfer_texture_to_texture E cmd desc"
| "exec E cmd (OpBarrier desc) = cgpu_cmd_resource_barrier E cmd desc"
| "exec E cmd (OpBeginQuery pool desc) = cgpu_cmd_begin_query E cmd pool desc"
| "exec E cmd (OpEndQuery pool desc) = cgpu_cmd_end_query E cmd pool desc"
| "exec E cmd (OpResetQueryPool pool start count) = cgpu_cmd_reset_query_pool E cmd pool start count"
| "exec E cmd (OpResolveQuery pool readback start count) = cgpu_cmd_resolve_query E cmd pool readback start count"
| "exec E cmd OpEnd = cgpu_cmd_end E cmd"
| "exec E cmd (OpBeginComputePass desc) = bindP (cgpu_cmd_begin_compute_pass E cmd desc) (\<lambda>_. ret ())"
| "exec E cmd (OpComputeBindSet dset) = cgpu_compute_encoder_bind_descriptor_set E cmd dset"
| "exec E cmd (OpComputePush rs name data) = cgpu_compute_encoder_push_constants E cmd rs name data"
| "exec E cmd (OpComputeBindPipeline pipeline) = cgpu_compute_encoder_bind_pipeline E cmd pipeline"
| "exec E cmd (OpDispatch X Y Z) = cgpu_compute_encoder_dispatch E cmd X Y Z"
| "exec E cmd (OpEndComputePass encoder) = cgpu_cmd_end_compute_pass E cmd encoder"
| "exec E cmd (OpBeginRenderPass desc) = bindP (cgpu_cmd_begin_render_pass E cmd desc) (\<lambda>_. ret ())"
| "exec E cmd (OpRenderBindSet dset) = cgpu_render_encoder_bind_descriptor_set E cmd dset"
| "exec E cmd (OpSetViewport x y width height min_depth max_depth) = cgpu_render_encoder_set_viewport E cmd x y width height min_depth max_depth"
| "exec E cmd (OpSetScissor x y width height) = cgpu_render_encoder_set_scissor E cmd x y width height"
| "exec E cmd (OpRenderBindPipeline pipeline) = cgpu_render_encoder_bind_pipeline E cmd pipeline"
| "exec E cmd (OpBindVertexBuffers bufs strides offsets) = cgpu_render_encoder_bind_vertex_buffers E cmd bufs strides offsets"
| "exec E cmd (OpBindIndexBuffer buffer stride offset) = cgpu_render_encoder_bind_index_buffer E cmd buffer stride offset"
| "exec E cmd (OpRenderPush rs name data) = cgpu_render_encoder_push_constants E cmd rs name data"
| "exec E cmd (OpDraw vertices first) = cgpu_render_encoder_draw E cmd vertices first"
| "exec E cmd (OpDrawInstanced vertices first insts base) = cgpu_render_encoder_draw_instanced E cmd vertices first insts base"
| "exec E cmd (OpDrawIndexed indices first vertex) = cgpu_render_encoder_draw_indexed E cmd indices first vertex"
| "exec E cmd (OpDrawIndexedInstanced indices first insts base vertex) = cgpu_render_encoder_draw_indexed_instanced E cmd indices first insts base vertex"
| "exec E cmd (OpEndRenderPass encoder) = cgpu_cmd_end_render_pass E cmd encoder"
| "exec E cmd (OpBeginEvent event) = cgpu_cmd_begin_event E cmd event"
| "exec E cmd (OpSetMarker marker) = cgpu_cmd_set_marker E cmd marker"
| "exec E cmd OpEndEvent = cgpu_cmd_end_event E cmd"

fun backend_op :: "CGPUProcTable \<Rightarrow> CGPUCommandBufferId \<Rightarrow> cmd_op \<Rightarrow> unit vk_prog option" where
  "backend_op T cmd OpBegin = map_option (\<lambda>f. f cmd) (cmd_begin T)"
| "backend_op T cmd (OpCopyBuffer desc) = map_option (\<lambda>f. desc_ptr desc (f cmd)) (cmd_transfer_buffer_to_buffer T)"
| "backend_op T cmd (OpCopyBufferToTexture desc) = map_option (\<lambda>f. desc_ptr desc (f cmd)) (cmd_transfer_buffer_to_texture T)"
| "backend_op T cmd (OpCopyTexture desc) = map_option (\<lambda>f. desc_ptr desc (f cmd)) (cmd_transfer_texture_to_texture T)"
| "backend_op T cmd (OpBarrier desc) = map_option (\<lambda>f. f cmd desc) (cmd_resource_barrier T)"
| "backend_op T cmd (OpBeginQuery pool desc) = map_option (\<lambda>f. f cmd pool desc) (cmd_begin_query T)"
| "backend_op T cmd (OpEndQuery pool desc) = map_option (\<lambda>f. f cmd pool desc) (cmd_end_query T)"
| "backend_op T cmd (OpResetQueryPool pool start count) = map_option (\<lambda>f. f cmd pool start count) (cmd_reset_query_pool T)"
| "backend_op T cmd (OpResolveQuery pool readback start count) = map_option (\<lambda>f. f cmd pool readback start count) (cmd_resolve_query T)"
| "backend_op T cmd OpEnd = map_option (\<lambda>f. f cmd) (cmd_end T)"
| "backend_op T cmd (OpBeginComputePass desc) = map_option (\<lambda>f. bindP (f cmd desc) (\<lambda>_. ret ())) (cmd_begin_compute_pass T)"
| "backend_op T cmd (OpComputeBindSet dset) = map_option (\<lambda>f. f cmd dset) (compute_encoder_bind_descriptor_set T)"
| "backend_op T cmd (OpComputePush rs name data) = map_option (\<lambda>f. f cmd rs name data) (compute_encoder_push_constants T)"
| "backend_op T cmd (OpComputeBindPipeline pipeline) = map_option (\<lambda>f. f cmd pipeline) (compute_encoder_bind_pipeline T)"
| "backend_op T cmd (OpDispatch X Y Z) = map_option (\<lambda>f. f cmd X Y Z) (compute_encoder_dispatch T)"
| "backend_op T cmd (OpEndComputePass encoder) = map_option (\<lambda>f. f cmd encoder) (cmd_end_compute_pass T)"
| "backend_op T cmd (OpBeginRenderPass desc) = map_option (\<lambda>f. bindP (f cmd desc) (\<lambda>_. ret ())) (cmd_begin_render_pass T)"
| "backend_op T cmd (OpRenderBindSet dset) = map_option (\<lambda>f. f cmd dset) (render_encoder_bind_descriptor_set T)"
| "backend_op T cmd (OpSetViewport x y width height min_depth max_depth) = map_option (\<lambda>f. f cmd x y width height min_depth max_depth) (render_encoder_set_viewport T)"
| "backend_op T cmd (OpSetScissor x y width height) = map_option (\<lambda>f. f cmd x y width height) (render_encoder_set_scissor T)"
| "backend_op T cmd (OpRenderBindPipeline pipeline) = map_option (\<lambda>f. f cmd pipeline) (render_encoder_bind_pipeline T)"
| "backend_op T cmd (OpBindVertexBuffers bufs strides offsets) = map_option (\<lambda>f. desc_ptr bufs (\<lambda>bs. f cmd bs strides offsets)) (render_encoder_bind_vertex_buffers T)"
| "backend_op T cmd (OpBindIndexBuffer buffer stride offset) = map_option (\<lambda>f. f cmd buffer stride offset) (render_encoder_bind_index_buffer T)"
| "backend_op T cmd (OpRenderPush rs name data) = map_option (\<lambda>f. f cmd rs name data) (render_encoder_push_constants T)"
| "backend_op T cmd (OpDraw vertices first) = map_option (\<lambda>f. f cmd vertices first) (render_encoder_draw T)"
| "backend_op T cmd (OpDrawInstanced vertices first insts base) = map_option (\<lambda>f. f cmd vertices first insts base) (render_encoder_draw_instanced T)"
| "backend_op T cmd (OpDrawIndexed indices first vertex) = map_option (\<lambda>f. f cmd indices first vertex) (render_encoder_draw_indexed T)"
| "backend_op T cmd (OpDrawIndexedInstanced indices first insts base vertex) = map_option (\<lambda>f. f cmd indices first insts base vertex) (render_encoder_draw_indexed_instanced T)"
| "backend_op T cmd (OpEndRenderPass encoder) = map_option (\<lambda>f. f cmd encoder) (cmd_end_render_pass T)"
| "backend_op T cmd (OpBeginEvent event) = map_option (\<lambda>f. f cmd event) (cmd_begin_event T)"
| "backend_op T cmd (OpSetMarker marker) = map_option (\<lambda>f. f cmd marker) (cmd_set_marker T)"
| "backend_op T cmd OpEndEvent = map_option (\<lambda>f. f cmd) (cmd_end_event T)"

definition dispatches :: "vk_world \<Rightarrow> ptr \<rightharpoonup> ECGPUPipelineType" where
  "dispatches w = (\<lambda>c. map_option current_dispatch (cmds w c))"

section \<open>The automaton\<close>

text \<open>Copies and barriers belong outside passes and a pass is ended by the end of its kind.
  Nothing keeps a pass from being begun inside another.\<close>

fun pass_allows :: "ECGPUPipelineType \<Rightarrow> cmd_op \<Rightarrow> bool" where
  "pass_allows s (OpCopyBuffer d) = (s = CGPU_PIPELINE_TYPE_NONE)"
| "pass_allows s (OpCopyBufferToTexture d) = (s = CGPU_PIPELINE_TYPE_NONE)"
| "pass_allows s (OpCopyTexture d) = (s = CGPU_PIPELINE_TYPE_NONE)"
| "pass_allows s (OpBarrier d) = (s = CGPU_PIPELINE_TYPE_NONE)"
| "pass_allows s (OpEndComputePass e) = (s = CGPU_PIPELINE_TYPE_COMPUTE)"
| "pass_allows s (OpEndRenderPass e) = (s = CGPU_PIPELINE_TYPE_GRAPHICS)"
| "pass_allows s _ = True"

fun pass_after :: "ECGPUPipelineType \<Rightarrow> cmd_op \<Rightarrow> ECGPUPipelineType" where
  "pass_after s (OpBeginComputePass d) = CGPU_PIPELINE_TYPE_COMPUTE"
| "pass_after s (OpEndComputePass e) = CGPU_PIPELINE_TYPE_NONE"
| "pass_after s (OpBeginRenderPass d) = CGPU_PIPELINE_TYPE_GRAPHICS"
| "pass_after s (OpEndRenderPass e) = CGPU_PIPELINE_TYPE_NONE"
| "pass_after s _ = s"

primrec pass_accepts :: "ECGPUPipelineType \<Rightarrow> cmd_op list \<Rightarrow> bool" where
  "pass_accepts s [] = True"
| "pass_accepts s (op # ops) = (pass_allows s op \<and> pass_accepts (pass_after s op) ops)"

primrec pass_end :: "ECGPUPipelineType \<Rightarrow> cmd_op list \<Rightarrow> ECGPUPipelineType" where
  "pass_end s [] = s"
| "pass_end s (op # ops) = pass_end (pass_after s op) ops"

lemma pass_accepts_append:
  "pass_accepts s (xs @ ys) = (pass_accepts s xs \<and> pass_accepts (pass_end s xs) ys)"
  by (induction xs arbitrary: s) auto

lemma pass_end_append: "pass_end s (xs @ ys) = pass_end (pass_end s xs) ys"
  by (induction xs arbitrary: s) auto

section \<open>Recording\<close>

text \<open>A recording: commands on any command buffers, one after the other, each ending well.\<close>

inductive records :: "cgpu_env \<Rightarrow> vk_world \<Rightarrow> (CGPUCommandBufferId \<times> cmd_op) list \<Rightarrow> vk_world \<Rightarrow> bool"
  for E where
  records_nil: "records E w [] w"
| records_step: "records E w ops u \<Longrightarrow> exec E cmd op u = Inr ((), v) \<Longrightarrow> records E w (ops @ [(cmd, op)]) v"

text \<open>The same as a function, for concrete commands.\<close>

definition run_ops :: "cgpu_env \<Rightarrow> vk_world \<Rightarrow> (CGPUCommandBufferId \<times> cmd_op) list \<Rightarrow> vk_world option" where
  "run_ops E w ops =
     foldl (\<lambda>r (cmd, op). case r of None \<Rightarrow> None
              | Some u \<Rightarrow> (case exec E cmd op u of Inl e \<Rightarrow> None | Inr (_, v) \<Rightarrow> Some v)) (Some w) ops"

lemma run_ops_records: "run_ops E w ops = Some w' \<Longrightarrow> records E w ops w'"
proof (induction ops arbitrary: w' rule: rev_induct)
  case (snoc x ops)
  then show ?case
    by (cases x) (auto simp: run_ops_def split: option.splits sum.splits intro: records_step)
qed (simp add: run_ops_def records_nil)

text \<open>The commands of one command buffer.\<close>

definition ops_of :: "CGPUCommandBufferId \<Rightarrow> (CGPUCommandBufferId \<times> cmd_op) list \<Rightarrow> cmd_op list" where
  "ops_of cmd ops = map snd (filter (\<lambda>p. fst p = cmd) ops)"

lemma ops_of_append: "ops_of cmd (xs @ ys) = ops_of cmd xs @ ops_of cmd ys"
  by (simp add: ops_of_def)

section \<open>The contract of a backend\<close>

lemma keeps_void: "keeps obs (bindP m (\<lambda>_. ret ())) \<longleftrightarrow> keeps obs m"
  by (force simp: keeps_def bindP_run split: sum.splits)

lemmas cmd_api_defs [api_defs] =
  cgpu_cmd_begin_def cgpu_cmd_transfer_buffer_to_buffer_def
  cgpu_cmd_transfer_buffer_to_texture_def cgpu_cmd_transfer_texture_to_texture_def
  cgpu_cmd_resource_barrier_def cgpu_cmd_begin_query_def cgpu_cmd_end_query_def
  cgpu_cmd_reset_query_pool_def cgpu_cmd_resolve_query_def cgpu_cmd_end_def
  cgpu_cmd_begin_compute_pass_def cgpu_compute_encoder_bind_descriptor_set_def
  cgpu_compute_encoder_push_constants_def cgpu_compute_encoder_bind_pipeline_def
  cgpu_compute_encoder_dispatch_def cgpu_cmd_end_compute_pass_def
  cgpu_cmd_begin_render_pass_def cgpu_render_encoder_bind_descriptor_set_def
  cgpu_render_encoder_set_viewport_def cgpu_render_encoder_set_scissor_def
  cgpu_render_encoder_bind_pipeline_def cgpu_render_encoder_bind_vertex_buffers_def
  cgpu_render_encoder_bind_index_buffer_def cgpu_render_encoder_push_constants_def
  cgpu_render_encoder_draw_def cgpu_render_encoder_draw_instanced_def
  cgpu_render_encoder_draw_indexed_def cgpu_render_encoder_draw_indexed_instanced_def
  cgpu_cmd_end_render_pass_def cgpu_cmd_begin_event_def cgpu_cmd_set_marker_def
  cgpu_cmd_end_event_def device_table_def desc_ptr_def

text \<open>In a debug build a command that is not allowed stops at an assertion, whatever the backend.\<close>

lemma exec_rejects:
  assumes "debug E" and "dispatches w cmd = Some s" and "\<not> pass_allows s op"
  shows "\<exists>m. exec E cmd op w = Inl (AssertFail m)"
  using assms
  by (cases op) (auto simp: cmd_api_defs prog_simps dispatches_def)

lemma exec_allowed:
  assumes "debug E" and "exec E cmd op w = Inr (r, w')" and "dispatches w cmd = Some s"
  shows "pass_allows s op"
  using exec_rejects [OF assms(1,3), of op] assms(2) by auto

text \<open>The pass states after a command.\<close>

definition dispatches_after :: "ptr \<Rightarrow> cmd_op \<Rightarrow> (ptr \<rightharpoonup> ECGPUPipelineType) \<Rightarrow> ptr \<rightharpoonup> ECGPUPipelineType" where
  "dispatches_after cmd op m = (\<lambda>c. if c = cmd then map_option (\<lambda>s. pass_after s op) (m c) else m c)"

lemma dispatches_after_same:
  "(\<And>s. pass_after s op = s) \<Longrightarrow> dispatches_after cmd op m = m"
  by (auto simp: dispatches_after_def fun_eq_iff option.map_ident)

lemma moves_dispatch [moves_intros]:
  assumes "\<And>s. pass_after s op = s'"
  shows "moves dispatches (dispatches_after cmd op)
           (store cmds cmds_update cmd (current_dispatch_update (\<lambda>_. s')) (ret b))"
  by (rule moves_store [OF _ keeps_ret])
    (auto simp: assms dispatches_def dispatches_after_def fun_eq_iff)

locale pass_backend =
  fixes E :: cgpu_env
  assumes keeps_op: "proc_tables E p = Some T \<Longrightarrow> backend_op T cmd op = Some q \<Longrightarrow> keeps dispatches q"
begin

lemma keeps_procs:
  assumes "proc_tables E p = Some T"
  shows "cmd_begin T = Some f0 \<Longrightarrow> keeps dispatches (f0 cmd)"
    and "cmd_transfer_buffer_to_buffer T = Some f1 \<Longrightarrow> keeps dispatches (f1 cmd desc1)"
    and "cmd_transfer_buffer_to_texture T = Some f2 \<Longrightarrow> keeps dispatches (f2 cmd desc2)"
    and "cmd_transfer_texture_to_texture T = Some f3 \<Longrightarrow> keeps dispatches (f3 cmd desc3)"
    and "cmd_resource_barrier T = Some f4 \<Longrightarrow> keeps dispatches (f4 cmd desc4)"
    and "cmd_begin_query T = Some f5 \<Longrightarrow> keeps dispatches (f5 cmd pool5 desc5)"
    and "cmd_end_query T = Some f6 \<Longrightarrow> keeps dispatches (f6 cmd pool6 desc6)"
    and "cmd_reset_query_pool T = Some f7 \<Longrightarrow> keeps dispatches (f7 cmd pool7 start7 count7)"
    and "cmd_resolve_query T = Some f8 \<Longrightarrow> keeps dispatches (f8 cmd pool8 readback8 start8 count8)"
    and "cmd_end T = Some f9 \<Longrightarrow> keeps dispatches (f9 cmd)"
    and "cmd_begin_compute_pass T = Some f10 \<Longrightarrow> keeps dispatches (f10 cmd desc10)"
    and "compute_encoder_bind_descriptor_set T = Some f11 \<Longrightarrow> keeps dispatches (f11 cmd dset11)"
    and "compute_encoder_push_constants T = Some f12 \<Longrightarrow> keeps dispatches (f12 cmd rs12 name12 data12)"
    and "compute_encoder_bind_pipeline T = Some f13 \<Longrightarrow> keeps dispatches (f13 cmd pipeline13)"
    and "compute_encoder_dispatch T = Some f14 \<Longrightarrow> keeps dispatches (f14 cmd X14 Y14 Z14)"
    and "cmd_end_compute_pass T = Some f15 \<Longrightarrow> keeps dispatches (f15 cmd encoder15)"
    and "cmd_begin_render_pass T = Some f16 \<Longrightarrow> keeps dispatches (f16 cmd desc16)"
    and "render_encoder_bind_descriptor_set T = Some f17 \<Longrightarrow> keeps dispatches (f17 cmd dset17)"
    and "render_encoder_set_viewport T = Some f18 \<Longrightarrow> keeps dispatches (f18 cmd x18 y18 width18 height18 min_depth18 max_depth18)"
    and "render_encoder_set_scissor T = Some f19 \<Longrightarrow> keeps dispatches (f19 cmd x19 y19 width19 height19)"
    and "render_encoder_bind_pipeline T = Some f20 \<Longrightarrow> keeps dispatches (f20 cmd pipeline20)"
    and "render_encoder_bind_vertex_buffers T = Some f21 \<Longrightarrow> keeps dispatches (f21 cmd bufs21 strides21 offsets21)"
    and "render_encoder_bind_index_buffer T = Some f22 \<Longrightarrow> keeps dispatches (f22 cmd buffer22 stride22 offset22)"
    and "render_encoder_push_constants T = Some f23 \<Longrightarrow> keeps dispatches (f23 cmd rs23 name23 data23)"
    and "render_encoder_draw T = Some f24 \<Longrightarrow> keeps dispatches (f24 cmd vertices24 first24)"
    and "render_encoder_draw_instanced T = Some f25 \<Longrightarrow> keeps dispatches (f25 cmd vertices25 first25 insts25 base25)"
    and "render_encoder_draw_indexed T = Some f26 \<Longrightarrow> keeps dispatches (f26 cmd indices26 first26 vertex26)"
    and "render_encoder_draw_indexed_instanced T = Some f27 \<Longrightarrow> keeps dispatches (f27 cmd indices27 first27 insts27 base27 vertex27)"
    and "cmd_end_render_pass T = Some f28 \<Longrightarrow> keeps dispatches (f28 cmd encoder28)"
    and "cmd_begin_event T = Some f29 \<Longrightarrow> keeps dispatches (f29 cmd event29)"
    and "cmd_set_marker T = Some f30 \<Longrightarrow> keeps dispatches (f30 cmd marker30)"
    and "cmd_end_event T = Some f31 \<Longrightarrow> keeps dispatches (f31 cmd)"
  subgoal using keeps_op [OF assms, of cmd "OpBegin"] by (simp add: desc_ptr_def)
  subgoal using keeps_op [OF assms, of cmd "OpCopyBuffer (Some desc1)"] by (simp add: desc_ptr_def)
  subgoal using keeps_op [OF assms, of cmd "OpCopyBufferToTexture (Some desc2)"] by (simp add: desc_ptr_def)
  subgoal using keeps_op [OF assms, of cmd "OpCopyTexture (Some desc3)"] by (simp add: desc_ptr_def)
  subgoal using keeps_op [OF assms, of cmd "OpBarrier desc4"] by (simp add: desc_ptr_def)
  subgoal using keeps_op [OF assms, of cmd "OpBeginQuery pool5 desc5"] by (simp add: desc_ptr_def)
  subgoal using keeps_op [OF assms, of cmd "OpEndQuery pool6 desc6"] by (simp add: desc_ptr_def)
  subgoal using keeps_op [OF assms, of cmd "OpResetQueryPool pool7 start7 count7"] by (simp add: desc_ptr_def)
  subgoal using keeps_op [OF assms, of cmd "OpResolveQuery pool8 readback8 start8 count8"] by (simp add: desc_ptr_def)
  subgoal using keeps_op [OF assms, of cmd "OpEnd"] by (simp add: desc_ptr_def)
  subgoal using keeps_op [OF assms, of cmd "OpBeginComputePass desc10"] by (simp add: keeps_void)
  subgoal using keeps_op [OF assms, of cmd "OpComputeBindSet dset11"] by (simp add: desc_ptr_def)
  subgoal using keeps_op [OF assms, of cmd "OpComputePush rs12 name12 data12"] by (simp add: desc_ptr_def)
  subgoal using keeps_op [OF assms, of cmd "OpComputeBindPipeline pipeline13"] by (simp add: desc_ptr_def)
  subgoal using keeps_op [OF assms, of cmd "OpDispatch X14 Y14 Z14"] by (simp add: desc_ptr_def)
  subgoal using keeps_op [OF assms, of cmd "OpEndComputePass encoder15"] by (simp add: desc_ptr_def)
  subgoal using keeps_op [OF assms, of cmd "OpBeginRenderPass desc16"] by (simp add: keeps_void)
  subgoal using keeps_op [OF assms, of cmd "OpRenderBindSet dset17"] by (simp add: desc_ptr_def)
  subgoal using keeps_op [OF assms, of cmd "OpSetViewport x18 y18 width18 height18 min_depth18 max_depth18"] by (simp add: desc_ptr_def)
  subgoal using keeps_op [OF assms, of cmd "OpSetScissor x19 y19 width19 height19"] by (simp add: desc_ptr_def)
  subgoal using keeps_op [OF assms, of cmd "OpRenderBindPipeline pipeline20"] by (simp add: desc_ptr_def)
  subgoal using keeps_op [OF assms, of cmd "OpBindVertexBuffers (Some bufs21) strides21 offsets21"] by (simp add: desc_ptr_def)
  subgoal using keeps_op [OF assms, of cmd "OpBindIndexBuffer buffer22 stride22 offset22"] by (simp add: desc_ptr_def)
  subgoal using keeps_op [OF assms, of cmd "OpRenderPush rs23 name23 data23"] by (simp add: desc_ptr_def)
  subgoal using keeps_op [OF assms, of cmd "OpDraw vertices24 first24"] by (simp add: desc_ptr_def)
  subgoal using keeps_op [OF assms, of cmd "OpDrawInstanced vertices25 first25 insts25 base25"] by (simp add: desc_ptr_def)
  subgoal using keeps_op [OF assms, of cmd "OpDrawIndexed indices26 first26 vertex26"] by (simp add: desc_ptr_def)
  subgoal using keeps_op [OF assms, of cmd "OpDrawIndexedInstanced indices27 first27 insts27 base27 vertex27"] by (simp add: desc_ptr_def)
  subgoal using keeps_op [OF assms, of cmd "OpEndRenderPass encoder28"] by (simp add: desc_ptr_def)
  subgoal using keeps_op [OF assms, of cmd "OpBeginEvent event29"] by (simp add: desc_ptr_def)
  subgoal using keeps_op [OF assms, of cmd "OpSetMarker marker30"] by (simp add: desc_ptr_def)
  subgoal using keeps_op [OF assms, of cmd "OpEndEvent"] by (simp add: desc_ptr_def)
  done

text \<open>A command that neither begins nor ends a pass leaves the pass state alone.\<close>

lemma exec_keeps:
  "pass_after CGPU_PIPELINE_TYPE_NONE op = CGPU_PIPELINE_TYPE_NONE
    \<Longrightarrow> pass_after CGPU_PIPELINE_TYPE_COMPUTE op = CGPU_PIPELINE_TYPE_COMPUTE
    \<Longrightarrow> keeps dispatches (exec E cmd op)"
  by (cases op; simp add: cmd_api_defs; (intro keeps_intros; (rule keeps_procs, assumption, assumption))?)

lemma exec_moves:
  "pass_after CGPU_PIPELINE_TYPE_NONE op \<noteq> CGPU_PIPELINE_TYPE_NONE
    \<or> pass_after CGPU_PIPELINE_TYPE_COMPUTE op \<noteq> CGPU_PIPELINE_TYPE_COMPUTE
    \<Longrightarrow> moves dispatches (dispatches_after cmd op) (exec E cmd op)"
  by (cases op; simp add: cmd_api_defs;
      (intro moves_intros moves_void; (rule keeps_procs, assumption, assumption | simp))?)

lemma exec_dispatches:
  assumes "exec E cmd op w = Inr (r, w')"
  shows "dispatches w' = dispatches_after cmd op (dispatches w)"
proof (cases "pass_after CGPU_PIPELINE_TYPE_NONE op = CGPU_PIPELINE_TYPE_NONE
              \<and> pass_after CGPU_PIPELINE_TYPE_COMPUTE op = CGPU_PIPELINE_TYPE_COMPUTE")
  case True
  then have "\<And>s. pass_after s op = s" by (cases op) simp_all
  then show ?thesis
    using keepsD [OF exec_keeps assms] True by (simp add: dispatches_after_same)
next
  case False
  then show ?thesis
    using movesD [OF exec_moves assms] by simp
qed

text \<open>The recordings of a debug build are words of the automaton, for every command buffer.\<close>

lemma records_machine:
  assumes "records E w ops w'" and "debug E" and "dispatches w cmd = Some s"
  shows "pass_accepts s (ops_of cmd ops) \<and> dispatches w' cmd = Some (pass_end s (ops_of cmd ops))"
  using assms(1,3)
proof induction
  case (records_nil w)
  then show ?case by (simp add: ops_of_def)
next
  case (records_step w ops u c op v)
  note run = \<open>exec E c op u = Inr ((), v)\<close>
  have u: "pass_accepts s (ops_of cmd ops)" "dispatches u cmd = Some (pass_end s (ops_of cmd ops))"
    using records_step by simp_all
  have v: "dispatches v = dispatches_after c op (dispatches u)"
    using exec_dispatches [OF run] .
  show ?case
  proof (cases "c = cmd")
    case True
    then have "pass_allows (pass_end s (ops_of cmd ops)) op"
      using exec_allowed [OF assms(2) run] u(2) by simp
    then show ?thesis
      using True u v
      by (simp add: ops_of_def dispatches_after_def pass_accepts_append pass_end_append)
  next
    case False
    then show ?thesis
      using u v by (simp add: ops_of_def dispatches_after_def)
  qed
qed

end

section \<open>The Vulkan backend\<close>

text \<open>The functions that only read keep everything.\<close>

lemma keeps_fill_color_attachments [keeps_intros]:
  "keeps obs (fill_color_attachments samples cas i d e)"
  by (induction cas arbitrary: i d e) (simp_all add: keeps_intros)

lemma keeps_add_color_views [keeps_intros]: "keeps obs (add_color_views cas fb)"
  by (induction cas arbitrary: fb) (simp_all add: add_image_view_def keeps_intros)

lemma keeps_add_resolve_views [keeps_intros]: "keeps obs (add_resolve_views samples cas fb)"
  by (induction cas arbitrary: fb) (simp_all add: add_image_view_def keeps_intros)

lemma keeps_add_depth_view [keeps_intros]: "keeps obs (add_depth_view ds fb)"
  by (simp add: add_depth_view_def add_image_view_def keeps_intros split: option.split)

lemma keeps_fill_vertex_buffers [keeps_intros]: "keeps obs (fill_vertex_buffers bs os is vb vo)"
  by (induction "is" arbitrary: vb vo) (simp_all add: keeps_intros split: option.split)

lemma keeps_pass_clear_values [keeps_intros]: "keeps obs (pass_clear_values desc)"
  by (simp add: pass_clear_values_def Let_def keeps_intros split: option.split)

lemma keeps_render_pass_create_info [keeps_intros]: "keeps obs (render_pass_create_info desc)"
  unfolding render_pass_create_info_def color_attachment_def depth_attachment_def
  by (intro keeps_intros)

lemmas vk_cmd_defs [vk_defs] =
  cgpu_cmd_begin_vulkan_def cgpu_cmd_transfer_buffer_to_buffer_vulkan_def
  cgpu_cmd_transfer_buffer_to_texture_vulkan_def
  cgpu_cmd_transfer_texture_to_texture_vulkan_def cgpu_cmd_resource_barrier_vulkan_def
  cgpu_cmd_begin_query_vulkan_def cgpu_cmd_reset_query_pool_vulkan_def
  cgpu_cmd_resolve_query_vulkan_def cgpu_cmd_end_vulkan_def
  cgpu_cmd_begin_compute_pass_vulkan_def cgpu_compute_encoder_bind_descriptor_set_vulkan_def
  cgpu_compute_encoder_push_constants_vulkan_def cgpu_compute_encoder_bind_pipeline_vulkan_def
  cgpu_compute_encoder_dispatch_vulkan_def cgpu_cmd_end_compute_pass_vulkan_def
  cgpu_cmd_begin_render_pass_vulkan_def cgpu_render_encoder_bind_descriptor_set_vulkan_def
  cgpu_render_encoder_set_viewport_vulkan_def cgpu_render_encoder_set_scissor_vulkan_def
  cgpu_render_encoder_bind_pipeline_vulkan_def
  cgpu_render_encoder_bind_vertex_buffers_vulkan_def
  cgpu_render_encoder_bind_index_buffer_vulkan_def
  cgpu_render_encoder_push_constants_vulkan_def cgpu_render_encoder_draw_vulkan_def
  cgpu_render_encoder_draw_instanced_vulkan_def cgpu_render_encoder_draw_indexed_vulkan_def
  cgpu_render_encoder_draw_indexed_instanced_vulkan_def cgpu_cmd_end_render_pass_vulkan_def
  cgpu_cmd_begin_event_vulkan_def cgpu_cmd_set_marker_vulkan_def cgpu_cmd_end_event_vulkan_def
  cgpu_cmd_end_query_vulkan_def with_cmd_def with_cmd_instance_def record_when_def
  queue_family_def barrier_families_def buffer_barrier_vulkan_def texture_barrier_vulkan_def
  bind_empty_sets_def bind_descriptor_set_vulkan_def push_constants_vulkan_def
  VkUtil_FindOrCreateRenderPass_def VkUtil_FindOrCreateFrameBuffer_def
  VkUtil_RenderPassTableTryFind_def VkUtil_FramebufferTableTryFind_def
  VkUtil_RenderPassTableAdd_def VkUtil_FramebufferTableAdd_def depth_format_of_def desc_ptr_def

lemma keeps_buffer_barrier [keeps_intros]: "keeps obs (buffer_barrier_vulkan A Cmd b)"
  unfolding buffer_barrier_vulkan_def barrier_families_def queue_family_def by (intro keeps_intros)

lemma keeps_texture_barrier [keeps_intros]: "keeps obs (texture_barrier_vulkan A Cmd b)"
  unfolding texture_barrier_vulkan_def barrier_families_def queue_family_def by (intro keeps_intros)

lemma keeps_case_query [keeps_intros]:
  assumes "keeps obs a" and "keeps obs b" and "keeps obs c" and "keeps obs d"
  shows "keeps obs (case t of VK_QUERY_TYPE_OCCLUSION \<Rightarrow> a | VK_QUERY_TYPE_PIPELINE_STATISTICS \<Rightarrow> b
    | VK_QUERY_TYPE_TIMESTAMP \<Rightarrow> c | VK_QUERY_TYPE_MAX_ENUM \<Rightarrow> d)"
  using assms by (cases t) simp_all

text \<open>No Vulkan procedure writes \<open>current_dispatch\<close>.\<close>

lemma vk_procs_keep:
  shows "keeps dispatches (cgpu_cmd_begin_vulkan V cmd)"
    and "keeps dispatches (cgpu_cmd_transfer_buffer_to_buffer_vulkan V cmd desc1)"
    and "keeps dispatches (cgpu_cmd_transfer_buffer_to_texture_vulkan V cmd desc2)"
    and "keeps dispatches (cgpu_cmd_transfer_texture_to_texture_vulkan V cmd desc3)"
    and "keeps dispatches (cgpu_cmd_resource_barrier_vulkan V cmd desc4)"
    and "keeps dispatches (cgpu_cmd_begin_query_vulkan V cmd pool5 desc5)"
    and "keeps dispatches (cgpu_cmd_reset_query_pool_vulkan V cmd pool7 start7 count7)"
    and "keeps dispatches (cgpu_cmd_resolve_query_vulkan V cmd pool8 readback8 start8 count8)"
    and "keeps dispatches (cgpu_cmd_end_vulkan V cmd)"
    and "keeps dispatches (cgpu_cmd_begin_compute_pass_vulkan V cmd desc10)"
    and "keeps dispatches (cgpu_compute_encoder_bind_descriptor_set_vulkan V cmd dset11)"
    and "keeps dispatches (cgpu_compute_encoder_push_constants_vulkan V cmd rs12 name12 data12)"
    and "keeps dispatches (cgpu_compute_encoder_bind_pipeline_vulkan V cmd pipeline13)"
    and "keeps dispatches (cgpu_compute_encoder_dispatch_vulkan V cmd X14 Y14 Z14)"
    and "keeps dispatches (cgpu_cmd_end_compute_pass_vulkan V cmd encoder15)"
    and "keeps dispatches (cgpu_cmd_begin_render_pass_vulkan V cmd desc16)"
    and "keeps dispatches (cgpu_render_encoder_bind_descriptor_set_vulkan V cmd dset17)"
    and "keeps dispatches (cgpu_render_encoder_set_viewport_vulkan V cmd x18 y18 width18 height18 min_depth18 max_depth18)"
    and "keeps dispatches (cgpu_render_encoder_set_scissor_vulkan V cmd x19 y19 width19 height19)"
    and "keeps dispatches (cgpu_render_encoder_bind_pipeline_vulkan V cmd pipeline20)"
    and "keeps dispatches (cgpu_render_encoder_bind_vertex_buffers_vulkan V cmd bufs21 strides21 offsets21)"
    and "keeps dispatches (cgpu_render_encoder_bind_index_buffer_vulkan V cmd buffer22 stride22 offset22)"
    and "keeps dispatches (cgpu_render_encoder_push_constants_vulkan V cmd rs23 name23 data23)"
    and "keeps dispatches (cgpu_render_encoder_draw_vulkan V cmd vertices24 first24)"
    and "keeps dispatches (cgpu_render_encoder_draw_instanced_vulkan V cmd vertices25 first25 insts25 base25)"
    and "keeps dispatches (cgpu_render_encoder_draw_indexed_vulkan V cmd indices26 first26 vertex26)"
    and "keeps dispatches (cgpu_render_encoder_draw_indexed_instanced_vulkan V cmd indices27 first27 insts27 base27 vertex27)"
    and "keeps dispatches (cgpu_cmd_end_render_pass_vulkan V cmd encoder28)"
    and "keeps dispatches (cgpu_cmd_begin_event_vulkan V cmd event29)"
    and "keeps dispatches (cgpu_cmd_set_marker_vulkan V cmd marker30)"
    and "keeps dispatches (cgpu_cmd_end_event_vulkan V cmd)"
  unfolding vk_cmd_defs
  by (intro keeps_intros; simp add: dispatches_def fun_eq_iff)+

lemma vk_op_keeps:
  "(\<And>c pool desc. keeps dispatches (cgpu_cmd_begin_query E c pool desc))
    \<Longrightarrow> backend_op (tbl_vk V R E base) cmd op = Some q \<Longrightarrow> keeps dispatches q"
  by (cases op; simp add: vk_table_defs cgpu_cmd_end_query_vulkan_def desc_ptr_def;
      (drule sym, simp add: vk_procs_keep keeps_intros split: option.split)?)

lemma system_begin_query_keeps: "keeps dispatches (cgpu_cmd_begin_query (system_env V R base p n) c pool desc)"
proof -
  have "keeps dispatches (f c pool desc)"
    if "proc_tables (system_env V R base p n) q = Some T" "cmd_begin_query T = Some f" for q T f
    using system_table [OF that(1)] that(2) vk_procs_keep(6) [of V c pool desc] by (auto simp: vk_table_defs)
  then show ?thesis
    unfolding cgpu_cmd_begin_query_def device_table_def by (intro keeps_intros) auto
qed

interpretation vk_pass: pass_backend "system_env V R base p n" for V R base p n
  by unfold_locales (auto dest!: system_table intro: vk_op_keeps [OF system_begin_query_keeps])

section \<open>Properties\<close>

text \<open>
  Property C1: the pass state machine of the Vulkan backend. In a debug build, however commands
  on several command buffers are interleaved, the commands that a command buffer accepted are a
  word of the automaton from the pass state it had, and they leave it in the automaton's state.
\<close>

theorem pass_machine_sound:
  assumes "vk_debug V" and "records (system_env V R base p n) w ops w'"
    and "dispatches w cmd = Some s"
  shows "pass_accepts s (ops_of cmd ops) \<and> dispatches w' cmd = Some (pass_end s (ops_of cmd ops))"
  using vk_pass.records_machine [OF assms(2) _ assms(3)] assms(1) by simp

text \<open>A compute pass on one command buffer around a marker on another.\<close>

definition sample_ops :: "(CGPUCommandBufferId \<times> cmd_op) list" where
  "sample_ops =
     [(14, OpBegin), (14, OpBeginComputePass \<lparr>cpd_name = None\<rparr>), (15, OpBeginEvent \<lparr>ev_name = ''frame''\<rparr>),
      (14, OpDispatch 8 8 1), (14, OpEndComputePass 14), (14, OpEnd)]"

lemma sample_ops_run: "\<exists>w'. run_ops sample_env sample_world sample_ops = Some w'"
  by (simp add: run_ops_def sample_ops_def cmd_api_defs vk_cmd_defs prog_simps vk_table_defs sample_defs)

lemma sample_dispatch: "dispatches sample_world 14 = Some CGPU_PIPELINE_TYPE_NONE"
  by (simp add: dispatches_def sample_cmd_def)

theorem pass_machine_sound_witness:
  "\<exists>w'. records sample_env sample_world sample_ops w'
     \<and> pass_accepts CGPU_PIPELINE_TYPE_NONE (ops_of 14 sample_ops)
     \<and> dispatches w' 14 = Some CGPU_PIPELINE_TYPE_NONE"
proof -
  obtain w' where "records sample_env sample_world sample_ops w'"
    using sample_ops_run run_ops_records by blast
  moreover from this have "pass_accepts CGPU_PIPELINE_TYPE_NONE (ops_of 14 sample_ops)
      \<and> dispatches w' 14 = Some (pass_end CGPU_PIPELINE_TYPE_NONE (ops_of 14 sample_ops))"
    unfolding sample_env_def
    by (intro pass_machine_sound [where V = sample_vk]) (simp, assumption, rule sample_dispatch)
  ultimately show ?thesis by (auto simp: sample_ops_def ops_of_def)
qed

text \<open>
  Property C10: a command the automaton does not allow stops at an assertion in a debug build,
  whatever backend is behind the front end.
\<close>

theorem pass_machine_rejects:
  assumes "debug E" and "dispatches w cmd = Some s" and "\<not> pass_allows s op"
  shows "\<exists>m. exec E cmd op w = Inl (AssertFail m)"
  using assms by (rule exec_rejects)

theorem pass_machine_rejects_witness:
  "\<exists>m. exec sample_env 14 (OpEndRenderPass 14) sample_world = Inl (AssertFail m)"
  by (rule pass_machine_rejects [where s = CGPU_PIPELINE_TYPE_NONE])
    (simp_all add: sample_dispatch)

end
