(* ===== verification/Sync_Facts.thy ===== *)
theory Sync_Facts
  imports Vk_Sample
begin

text \<open>
  Fences, semaphores and the submission of work on the Vulkan backend: what each function does
  to the flags of the objects and to the driver, and the agreement of the flag of a fence with
  the state the driver keeps for it.
\<close>

section \<open>Waiting for fences\<close>

text \<open>The handles of the fences that are submitted, in order.\<close>

definition submitted_handles :: "vk_world \<Rightarrow> CGPUFenceId list \<Rightarrow> VkHandle list" where
  "submitted_handles w fs =
     map (\<lambda>f. pVkFence (the (fences w f))) (filter (\<lambda>f. mSubmitted (the (fences w f))) fs)"

definition live_fences :: "vk_world \<Rightarrow> CGPUFenceId list \<Rightarrow> bool" where
  "live_fences w fs \<longleftrightarrow> list_all (\<lambda>f. f \<noteq> NULL \<and> fences w f \<noteq> None) fs"

lemma submitted_fences_run:
  "live_fences w fs \<Longrightarrow> submitted_fences fs w = Inr (submitted_handles w fs, w)"
  by (induction fs) (auto simp: live_fences_def submitted_handles_def prog_simps)

definition clear_submitted :: "CGPUFenceId list \<Rightarrow> (ptr \<rightharpoonup> CGPUFence_Vulkan) \<Rightarrow> ptr \<rightharpoonup> CGPUFence_Vulkan" where
  "clear_submitted fs m = (\<lambda>f. if f \<in> set fs then map_option (mSubmitted_update (\<lambda>_. False)) (m f) else m f)"

lemma clear_loop_run:
  assumes "live_fences w fs"
  shows "for_each fs (\<lambda>f. store fences fences_update f (mSubmitted_update (\<lambda>_. False)) (ret ())) w
         = Inr ((), w\<lparr>fences := clear_submitted fs (fences w)\<rparr>)"
  using assms
proof (induction fs arbitrary: w)
  case Nil
  then show ?case by (simp add: clear_submitted_def)
next
  case (Cons f fs)
  obtain F where F: "fences w f = Some F" and f: "f \<noteq> NULL"
    using Cons.prems by (auto simp: live_fences_def)
  let ?v = "fences_update (\<lambda>m. m(f \<mapsto> mSubmitted_update (\<lambda>_. False) F)) w"
  have "live_fences ?v fs"
    using Cons.prems by (auto simp: live_fences_def list_all_iff)
  then have loop: "for_each fs (\<lambda>f. store fences fences_update f (mSubmitted_update (\<lambda>_. False)) (ret ())) ?v
             = Inr ((), ?v\<lparr>fences := clear_submitted fs (fences ?v)\<rparr>)"
    by (rule Cons.IH)
  have fs: "clear_submitted fs (fences ?v) = clear_submitted (f # fs) (fences w)"
    using F by (auto simp: clear_submitted_def fun_eq_iff)
  have "?v\<lparr>fences := clear_submitted fs (fences ?v)\<rparr> = w\<lparr>fences := clear_submitted (f # fs) (fences w)\<rparr>"
    unfolding fs by simp
  then show ?case
    using F f loop by (subst for_each_Cons_run, subst store_run) (simp only: ret_run option.case sum.case prod.case if_False)
qed

lemma wait_fences_run:
  assumes "fs \<noteq> []" and "live_fences w fs"
    and "dev = fence_device (the (fences w (hd fs)))" and "dev \<noteq> NULL" and "devices w dev = Some D"
  shows "cgpu_wait_fences_vulkan V fs w
         = Inr ((), w\<lparr>fences := clear_submitted fs (fences w),
                      trace := trace w @ (if submitted_handles w fs = [] then []
                         else [VkSync (VkWaitForFences (pVkDevice D) (submitted_handles w fs)),
                               VkSync (VkResetFences (pVkDevice D) (submitted_handles w fs))])\<rparr>)"
proof -
  obtain f rest F where f: "fs = f # rest" "f \<noteq> NULL" "fences w f = Some F"
    using assms(1,2) by (cases fs) (auto simp: live_fences_def)
  have live: "live_fences (w\<lparr>trace := t\<rparr>) fs" for t
    using assms(2) by (simp add: live_fences_def)
  have dev: "fence_device F = dev" "F = the (fences w f)" using f assms(3) by simp_all
  show ?thesis
    unfolding cgpu_wait_fences_vulkan_def
    using f(2,3) dev(1) assms(4,5) submitted_fences_run [OF assms(2)] clear_loop_run [OF live]
      clear_loop_run [OF assms(2)]
    by (simp add: f(1) index_of_run deref_run bindP_run vk_do_run del: for_each.simps)
qed

section \<open>Collecting semaphores\<close>

definition live_semaphores :: "vk_world \<Rightarrow> CGPUSemaphoreId list \<Rightarrow> bool" where
  "live_semaphores w ss \<longleftrightarrow> distinct ss \<and> list_all (\<lambda>s. s \<noteq> NULL \<and> semaphores w s \<noteq> None) ss"

text \<open>The handles of the semaphores whose flag is \<open>b\<close>, in order.\<close>

definition flagged_handles :: "bool \<Rightarrow> vk_world \<Rightarrow> CGPUSemaphoreId list \<Rightarrow> VkHandle list" where
  "flagged_handles b w ss =
     map (\<lambda>s. pVkSemaphore (the (semaphores w s))) (filter (\<lambda>s. mSignaled (the (semaphores w s)) = b) ss)"

definition set_flags :: "bool \<Rightarrow> CGPUSemaphoreId list \<Rightarrow> (ptr \<rightharpoonup> CGPUSemaphore_Vulkan) \<Rightarrow> ptr \<rightharpoonup> CGPUSemaphore_Vulkan" where
  "set_flags b ss m = (\<lambda>s. if s \<in> set ss then map_option (mSignaled_update (\<lambda>_. b)) (m s) else m s)"

lemma set_flags_Nil [simp]: "set_flags b [] m = m"
  by (simp add: set_flags_def)

lemma set_flags_Cons_same:
  assumes "m s = Some S" and "mSignaled S = b"
  shows "set_flags b (s # ss) m = set_flags b ss m"
  using assms by (auto simp: set_flags_def fun_eq_iff)

lemma set_flags_Cons:
  assumes "m s = Some S"
  shows "set_flags b ss (m(s \<mapsto> mSignaled_update (\<lambda>_. b) S)) = set_flags b (s # ss) m"
  using assms by (auto simp: set_flags_def fun_eq_iff)

lemma flagged_handles_other:
  assumes "s \<notin> set ss"
  shows "flagged_handles b (semaphores_update (\<lambda>m. m(s \<mapsto> S)) w) ss = flagged_handles b w ss"
proof -
  have "filter (\<lambda>t. mSignaled (the (if t = s then Some S else semaphores w t)) = b) ss
        = filter (\<lambda>t. mSignaled (the (semaphores w t)) = b) ss"
    using assms by (intro filter_cong) auto
  then show ?thesis using assms by (auto simp: flagged_handles_def)
qed

text \<open>Writing handles one after the other from a place on.\<close>

definition overwrite :: "'b list \<Rightarrow> nat \<Rightarrow> 'b list \<Rightarrow> 'b list" where
  "overwrite xs n ys = take n xs @ ys @ drop (n + length ys) xs"

lemma overwrite_Nil [simp]: "overwrite xs n [] = xs"
  by (simp add: overwrite_def)

lemma overwrite_Cons:
  assumes "n < length xs"
  shows "overwrite (xs[n := y]) (Suc n) ys = overwrite xs n (y # ys)"
  using assms by (simp add: overwrite_def take_Suc_conv_app_nth)

lemma take_overwrite: "n \<le> length xs \<Longrightarrow> take (length ys) (overwrite xs 0 ys) = ys"
  by (simp add: overwrite_def)

lemma live_semaphores_Cons:
  assumes "live_semaphores w (s # ss)"
  obtains S where "semaphores w s = Some S" "s \<noteq> NULL" "s \<notin> set ss"
    "live_semaphores w ss" "\<forall>X. live_semaphores (semaphores_update (\<lambda>m. m(s \<mapsto> X)) w) ss"
proof -
  obtain S where "semaphores w s = Some S" using assms by (auto simp: live_semaphores_def)
  with assms show thesis by (intro that) (auto simp: live_semaphores_def list_all_iff)
qed

lemma collect_wait_run:
  assumes "live_semaphores w ss" and "n + length (flagged_handles True w ss) \<le> length arr"
  shows "collect_wait_semaphores ss arr n w
         = Inr ((overwrite arr n (flagged_handles True w ss), n + length (flagged_handles True w ss)),
                w\<lparr>semaphores := set_flags False ss (semaphores w)\<rparr>)"
  using assms
proof (induction ss arbitrary: arr n w)
  case (Cons s ss)
  obtain S where S: "semaphores w s = Some S" "s \<noteq> NULL" "s \<notin> set ss"
    "live_semaphores w ss" "\<forall>X. live_semaphores (semaphores_update (\<lambda>m. m(s \<mapsto> X)) w) ss"
    using Cons.prems(1) by (rule live_semaphores_Cons)
  show ?case
  proof (cases "mSignaled S")
    case True
    let ?v = "semaphores_update (\<lambda>m. m(s \<mapsto> mSignaled_update (\<lambda>_. False) S)) w"
    have h: "flagged_handles True w (s # ss) = pVkSemaphore S # flagged_handles True w ss"
      using S True by (simp add: flagged_handles_def)
    have n: "n < length arr" "Suc n + length (flagged_handles True ?v ss) \<le> length arr"
      using Cons.prems(2) S(3) by (simp_all add: h flagged_handles_other)
    have world: "?v\<lparr>semaphores := set_flags False ss (semaphores ?v)\<rparr>
        = w\<lparr>semaphores := set_flags False (s # ss) (semaphores w)\<rparr>"
      using set_flags_Cons [of "semaphores w", OF S(1), of False ss] by simp
    have "collect_wait_semaphores (s # ss) arr n w
          = collect_wait_semaphores ss (arr[n := pVkSemaphore S]) (Suc n) ?v"
      using S(1,2) True n(1) by (simp add: deref_run update_at_run store_run)
    also have "\<dots> = Inr ((overwrite (arr[n := pVkSemaphore S]) (Suc n) (flagged_handles True ?v ss),
          Suc n + length (flagged_handles True ?v ss)), ?v\<lparr>semaphores := set_flags False ss (semaphores ?v)\<rparr>)"
      using n by (intro Cons.IH S(5) [rule_format]) simp
    finally show ?thesis
      using n(1) S(3) world by (simp add: h flagged_handles_other overwrite_Cons)
  next
    case False
    then show ?thesis
      using Cons.IH [OF S(4)] Cons.prems(2) S(1,2)
      by (simp add: deref_run flagged_handles_def set_flags_Cons_same)
  qed
qed (simp add: flagged_handles_def)

lemma collect_signal_run:
  assumes "live_semaphores w ss" and "n + length (flagged_handles False w ss) \<le> length arr"
  shows "collect_signal_semaphores ss arr n w
         = Inr ((overwrite arr n (flagged_handles False w ss), n + length (flagged_handles False w ss)),
                w\<lparr>semaphores := set_flags True ss (semaphores w)\<rparr>)"
  using assms
proof (induction ss arbitrary: arr n w)
  case (Cons s ss)
  obtain S where S: "semaphores w s = Some S" "s \<noteq> NULL" "s \<notin> set ss"
    "live_semaphores w ss" "\<forall>X. live_semaphores (semaphores_update (\<lambda>m. m(s \<mapsto> X)) w) ss"
    using Cons.prems(1) by (rule live_semaphores_Cons)
  show ?case
  proof (cases "mSignaled S")
    case False
    let ?v = "semaphores_update (\<lambda>m. m(s \<mapsto> mSignaled_update (\<lambda>_. True) S)) w"
    have h: "flagged_handles False w (s # ss) = pVkSemaphore S # flagged_handles False w ss"
      using S False by (simp add: flagged_handles_def)
    have n: "n < length arr" "Suc n + length (flagged_handles False ?v ss) \<le> length arr"
      using Cons.prems(2) S(3) by (simp_all add: h flagged_handles_other)
    have world: "?v\<lparr>semaphores := set_flags True ss (semaphores ?v)\<rparr>
        = w\<lparr>semaphores := set_flags True (s # ss) (semaphores w)\<rparr>"
      using set_flags_Cons [of "semaphores w", OF S(1), of True ss] by simp
    have "collect_signal_semaphores (s # ss) arr n w
          = collect_signal_semaphores ss (arr[n := pVkSemaphore S]) (Suc n) ?v"
      using S(1,2) False n(1) by (simp add: deref_run update_at_run store_run)
    also have "\<dots> = Inr ((overwrite (arr[n := pVkSemaphore S]) (Suc n) (flagged_handles False ?v ss),
          Suc n + length (flagged_handles False ?v ss)), ?v\<lparr>semaphores := set_flags True ss (semaphores ?v)\<rparr>)"
      using n by (intro Cons.IH S(5) [rule_format]) simp
    finally show ?thesis
      using n(1) S(3) world by (simp add: h flagged_handles_other overwrite_Cons)
  next
    case True
    then show ?thesis
      using Cons.IH [OF S(4)] Cons.prems(2) S(1,2)
      by (simp add: deref_run flagged_handles_def set_flags_Cons_same)
  qed
qed (simp add: flagged_handles_def)

text \<open>Too many semaphores to signal overrun the array, which has room for the waits and one.\<close>

lemma collect_signal_overrun:
  assumes "live_semaphores w ss" and "length arr < n + length (flagged_handles False w ss)" and "n \<le> length arr"
  shows "collect_signal_semaphores ss arr n w = Inl (OutOfBounds ''wait_semaphores'')"
  using assms
proof (induction ss arbitrary: arr n w)
  case (Cons s ss)
  obtain S where S: "semaphores w s = Some S" "s \<noteq> NULL" "s \<notin> set ss"
    "live_semaphores w ss" "\<forall>X. live_semaphores (semaphores_update (\<lambda>m. m(s \<mapsto> X)) w) ss"
    using Cons.prems(1) by (rule live_semaphores_Cons)
  show ?case
  proof (cases "mSignaled S \<or> n = length arr")
    case True
    then show ?thesis
      using Cons.IH [OF S(4), of arr n] Cons.prems(2,3) S(1,2)
      by (cases "mSignaled S") (auto simp: deref_run update_at_run flagged_handles_def)
  next
    case False
    let ?v = "semaphores_update (\<lambda>m. m(s \<mapsto> mSignaled_update (\<lambda>_. True) S)) w"
    have "collect_signal_semaphores ss (arr[n := pVkSemaphore S]) (Suc n) ?v = Inl (OutOfBounds ''wait_semaphores'')"
    proof (rule Cons.IH [OF S(5) [rule_format]])
      show "length (arr[n := pVkSemaphore S]) < Suc n + length (flagged_handles False ?v ss)"
        using Cons.prems(2) S(1,3) False by (simp add: flagged_handles_other) (simp add: flagged_handles_def)
      show "Suc n \<le> length (arr[n := pVkSemaphore S])"
        using Cons.prems(3) False by simp
    qed
    then show ?thesis
      using S(1,2) False Cons.prems(3) by (simp add: deref_run update_at_run store_run)
  qed
qed (simp add: flagged_handles_def)

end
