(* ===== verification/Fence_Facts.thy ===== *)
theory Fence_Facts
  imports Sync_Facts
begin

text \<open>
  The flag \<open>mSubmitted\<close> of a fence against the state of the fence in the driver. The Vulkan
  driver's side is a specification: a fence is created unsignaled, a successful submission or
  image acquisition makes it pending, a reset makes it unsignaled again. The invariant says
  that every fence object of the runtime has a fence of its own in the driver and that its flag
  is exactly whether that fence is pending, so that the runtime waits for every fence it should
  wait for and for no fence that nothing will signal.
\<close>

section \<open>The fences of the driver\<close>

text \<open>\<open>S h = Some b\<close>: the fence \<open>h\<close> exists, and it is pending (in use by the device, or already
  signaled by it) when \<open>b\<close>.\<close>

type_synonym fence_states = "VkHandle \<rightharpoonup> bool"

definition set_pending :: "bool \<Rightarrow> VkHandle list \<Rightarrow> fence_states \<Rightarrow> fence_states" where
  "set_pending b hs S = (\<lambda>h. if h \<in> set hs then map_option (\<lambda>_. b) (S h) else S h)"

lemma set_pending_Nil: "set_pending b [] S = S"
  by (simp add: set_pending_def)

lemma set_pending_null: "S h = None \<Longrightarrow> set_pending b [h] S = S"
  by (auto simp: set_pending_def)

fun sync_effect :: "vk_reply \<Rightarrow> vk_sync_call \<Rightarrow> fence_states \<Rightarrow> fence_states" where
  "sync_effect r (VkCreateFence d) S = (if vk_result r = VK_SUCCESS then S(vk_out r 0 \<mapsto> False) else S)"
| "sync_effect r (VkDestroyFence d h) S = S(h := None)"
| "sync_effect r (VkResetFences d hs) S = set_pending False hs S"
| "sync_effect r c S = S"

fun queue_effect :: "vk_reply \<Rightarrow> vk_queue_call \<Rightarrow> fence_states \<Rightarrow> fence_states" where
  "queue_effect r (VkQueueSubmit q info h) S = (if vk_result r = VK_SUCCESS then set_pending True [h] S else S)"
| "queue_effect r (VkAcquireNextImageKHR d sc s h) S =
     (if vk_result r \<in> {VK_SUCCESS, VK_SUBOPTIMAL_KHR} then set_pending True [h] S else S)"
| "queue_effect r c S = S"

definition fence_effect :: "vk_reply \<Rightarrow> vk_call \<Rightarrow> fence_states \<Rightarrow> fence_states" where
  "fence_effect r c S =
     (case c of VkSync c \<Rightarrow> sync_effect r c S | VkQueue c \<Rightarrow> queue_effect r c S | _ \<Rightarrow> S)"

primrec fences_rev :: "vk_driver \<Rightarrow> fence_states \<Rightarrow> vk_call list \<Rightarrow> fence_states" where
  "fences_rev d S [] = S"
| "fences_rev d S (c # t) = fence_effect (d (rev t) c) c (fences_rev d S t)"

text \<open>The fences of the driver after the calls \<open>t\<close>, from the fences \<open>S\<close> at the start.\<close>

definition driver_fences :: "vk_driver \<Rightarrow> fence_states \<Rightarrow> vk_call list \<Rightarrow> fence_states" where
  "driver_fences d S t = fences_rev d S (rev t)"

lemma driver_fences_Nil [simp]: "driver_fences d S [] = S"
  by (simp add: driver_fences_def)

lemma driver_fences_snoc [simp]:
  "driver_fences d S (t @ [c]) = fence_effect (d t c) c (driver_fences d S t)"
  by (simp add: driver_fences_def)

lemma driver_fences_snoc2 [simp]:
  "driver_fences d S (t @ [a, b]) = fence_effect (d (t @ [a]) b) b (driver_fences d S (t @ [a]))"
  using driver_fences_snoc [of d S "t @ [a]" b] by simp

lemma driver_fences_snoc3 [simp]:
  "driver_fences d S (t @ [a, b, c]) = fence_effect (d (t @ [a, b]) c) c (driver_fences d S (t @ [a, b]))"
  using driver_fences_snoc [of d S "t @ [a, b]" c] by simp

text \<open>What is asked of the driver: the handle of a new fence is not VK_NULL_HANDLE and not that of
  another fence, and no acquisition is merely suboptimal.\<close>

definition fence_driver :: "vk_driver \<Rightarrow> fence_states \<Rightarrow> bool" where
  "fence_driver d S \<longleftrightarrow>
     (\<forall>t dev. vk_result (d t (VkSync (VkCreateFence dev))) = VK_SUCCESS
        \<longrightarrow> vk_out (d t (VkSync (VkCreateFence dev))) 0 \<noteq> VK_NULL_HANDLE
          \<and> driver_fences d S t (vk_out (d t (VkSync (VkCreateFence dev))) 0) = None)
   \<and> (\<forall>t dev sc s h. vk_result (d t (VkQueue (VkAcquireNextImageKHR dev sc s h))) \<noteq> VK_SUBOPTIMAL_KHR)"

section \<open>The invariant\<close>

definition fences_agree :: "vk_driver \<Rightarrow> fence_states \<Rightarrow> vk_world \<Rightarrow> bool" where
  "fences_agree d S w \<longleftrightarrow>
     driver_fences d S (trace w) VK_NULL_HANDLE = None
   \<and> (\<forall>f F. fences w f = Some F \<longrightarrow> driver_fences d S (trace w) (pVkFence F) = Some (mSubmitted F))
   \<and> (\<forall>f g F G. fences w f = Some F \<longrightarrow> fences w g = Some G \<longrightarrow> pVkFence F = pVkFence G \<longrightarrow> f = g)"

text \<open>The driver and the runtime set the state of the same fences.\<close>

lemma agree_set:
  assumes "fences_agree d S w"
    and "\<And>f. fences v f = (if f \<in> set fs then map_option (mSubmitted_update (\<lambda>_. b)) (fences w f) else fences w f)"
    and "driver_fences d S (trace v)
         = set_pending b (map (\<lambda>f. pVkFence (the (fences w f))) fs) (driver_fences d S (trace w))"
    and "\<forall>f \<in> set fs. fences w f \<noteq> None"
  shows "fences_agree d S v"
proof -
  have agree: "\<And>f F. fences w f = Some F \<Longrightarrow> driver_fences d S (trace w) (pVkFence F) = Some (mSubmitted F)"
    and null: "driver_fences d S (trace w) VK_NULL_HANDLE = None"
    and inj: "\<And>f g F G. fences w f = Some F \<Longrightarrow> fences w g = Some G \<Longrightarrow> pVkFence F = pVkFence G \<Longrightarrow> f = g"
    using assms(1) unfolding fences_agree_def by blast+
  have handles: "pVkFence F \<in> set (map (\<lambda>f. pVkFence (the (fences w f))) fs) \<longleftrightarrow> f \<in> set fs"
    if F: "fences w f = Some F" for f F
  proof
    assume "pVkFence F \<in> set (map (\<lambda>f. pVkFence (the (fences w f))) fs)"
    then obtain g G where "g \<in> set fs" "fences w g = Some G" "pVkFence F = pVkFence G"
      using assms(4) by fastforce
    then show "f \<in> set fs" using inj [OF F] by blast
  next
    assume "f \<in> set fs"
    then show "pVkFence F \<in> set (map (\<lambda>f. pVkFence (the (fences w f))) fs)"
      using F by (force intro: image_eqI [where x = f])
  qed
  have "driver_fences d S (trace v) (pVkFence F) = Some (mSubmitted F)"
    if fv: "fences v f = Some F" for f F
  proof -
    have "(if f \<in> set fs then map_option (mSubmitted_update (\<lambda>_. b)) (fences w f) else fences w f) = Some F"
      using fv assms(2) [of f] by simp
    then obtain F0 where F0: "fences w f = Some F0" and F: "pVkFence F = pVkFence F0"
        "mSubmitted F = (if f \<in> set fs then b else mSubmitted F0)"
      by (cases "f \<in> set fs") auto
    show ?thesis
      using agree [OF F0] handles [OF F0] unfolding assms(3) set_pending_def F by simp
  qed
  moreover have "f = g" if "fences v f = Some F" "fences v g = Some G" "pVkFence F = pVkFence G" for f g F G
  proof -
    have same: "\<exists>H0. fences w h = Some H0 \<and> pVkFence H0 = pVkFence H" if h: "fences v h = Some H" for h H
    proof -
      have "(if h \<in> set fs then map_option (mSubmitted_update (\<lambda>_. b)) (fences w h) else fences w h) = Some H"
        using h assms(2) [of h] by simp
      then show ?thesis by (cases "h \<in> set fs") auto
    qed
    show ?thesis using same [OF that(1)] same [OF that(2)] that(3) inj by metis
  qed
  moreover have "driver_fences d S (trace v) VK_NULL_HANDLE = None"
    using null by (simp add: assms(3) set_pending_def)
  ultimately show ?thesis unfolding fences_agree_def by blast
qed

definition fence_view :: "vk_world \<Rightarrow> ptr \<rightharpoonup> VkHandle \<times> bool" where
  "fence_view w = (\<lambda>f. map_option (\<lambda>F. (pVkFence F, mSubmitted F)) (fences w f))"

lemma fences_agree_view:
  "fences_agree d S w \<longleftrightarrow>
     driver_fences d S (trace w) VK_NULL_HANDLE = None
   \<and> (\<forall>f h b. fence_view w f = Some (h, b) \<longrightarrow> driver_fences d S (trace w) h = Some b)
   \<and> (\<forall>f g h b c. fence_view w f = Some (h, b) \<longrightarrow> fence_view w g = Some (h, c) \<longrightarrow> f = g)"
proof -
  have "(\<forall>f h b. fence_view w f = Some (h, b) \<longrightarrow> driver_fences d S (trace w) h = Some b)
    \<longleftrightarrow> (\<forall>f F. fences w f = Some F \<longrightarrow> driver_fences d S (trace w) (pVkFence F) = Some (mSubmitted F))"
    unfolding fence_view_def by auto
  moreover have "(\<forall>f g h b c. fence_view w f = Some (h, b) \<longrightarrow> fence_view w g = Some (h, c) \<longrightarrow> f = g)
    \<longleftrightarrow> (\<forall>f g F G. fences w f = Some F \<longrightarrow> fences w g = Some G \<longrightarrow> pVkFence F = pVkFence G \<longrightarrow> f = g)"
    unfolding fence_view_def by (simp; metis)
  ultimately show ?thesis unfolding fences_agree_def by blast
qed

lemma agree_same:
  assumes "fences_agree d S w" and "fence_view v = fence_view w"
    and "driver_fences d S (trace v) = driver_fences d S (trace w)"
  shows "fences_agree d S v"
  using assms by (simp add: fences_agree_view)

text \<open>A new fence, and the end of one.\<close>

lemma agree_new:
  assumes "fences_agree d S w" and "fence_view v = (fence_view w)(f \<mapsto> (h, False))"
    and "driver_fences d S (trace v) = (driver_fences d S (trace w))(h \<mapsto> False)"
    and "h \<noteq> VK_NULL_HANDLE" and "driver_fences d S (trace w) h = None"
  shows "fences_agree d S v"
proof -
  have "h \<noteq> g" if "fence_view w f' = Some (g, b)" for f' g b
    using that assms(1,5) unfolding fences_agree_view by fastforce
  then show ?thesis using assms unfolding fences_agree_view by (auto split: if_splits)
qed

lemma agree_free:
  assumes "fences_agree d S w" and "fence_view w f = Some (h, b)"
    and "fence_view v = (fence_view w)(f := None)"
    and "driver_fences d S (trace v) = (driver_fences d S (trace w))(h := None)"
  shows "fences_agree d S v"
  using assms unfolding fences_agree_view by (auto split: if_splits)

section \<open>The Vulkan functions\<close>

lemma collect_wait_keeps: "keeps (\<lambda>w. (fences w, trace w)) (collect_wait_semaphores ss arr n)"
  by (induction ss arbitrary: arr n) (simp_all add: keeps_intros)

lemma collect_signal_keeps: "keeps (\<lambda>w. (fences w, trace w)) (collect_signal_semaphores ss arr n)"
  by (induction ss arbitrary: arr n) (simp_all add: keeps_intros)

lemma cmd_handles_keeps:
  "keeps (\<lambda>w. (fences w, trace w)) (map_each cs (\<lambda>c. deref cmds c (\<lambda>C. ret (pVkCmdBuf C))))"
  by (intro keeps_intros)

text \<open>The last part of a submission: the call and the flag.\<close>

lemma submit_tail_agrees:
  assumes "fences_agree (vk_drv V) S w" and "vk_debug V"
    and "acquire_queue_mutex V Q (
         deref devices dev (\<lambda>_.
         fence_handle f (\<lambda>h.
         vk_do V (VkQueue (VkQueueSubmit q info h)) (\<lambda>res.
         CHECK_VKRESULT V res (
         set_submitted f True (
         release_queue_mutex V Q (ret ()))))))) w = Inr (r, w')"
  shows "fences_agree (vk_drv V) S w'"
proof (cases "f = NULL")
  case True
  have null: "driver_fences (vk_drv V) S (trace w) 0 = None"
    using assms(1) by (simp add: fences_agree_def)
  show ?thesis
    using assms(2,3) True
    by (intro agree_set [OF assms(1), of _ "[]" True])
      (auto simp: acquire_queue_mutex_def release_queue_mutex_def fence_handle_def set_submitted_def
        prog_simps fence_effect_def set_pending_null [of "driver_fences (vk_drv V) S (trace w)", OF null] set_pending_Nil split: option.splits if_splits)
next
  case False
  show ?thesis
    using assms(2,3) False
    by (intro agree_set [OF assms(1), of _ "[f]" True])
      (auto simp: acquire_queue_mutex_def release_queue_mutex_def fence_handle_def set_submitted_def
        prog_simps fence_effect_def split: option.splits if_splits)
qed

lemma submit_agrees:
  assumes "fences_agree (vk_drv V) S w" and "vk_debug V"
    and "cgpu_submit_queue_vulkan V q desc w = Inr (r, w')"
  shows "fences_agree (vk_drv V) S w'"
proof -
  obtain Q info u where run: "acquire_queue_mutex V Q (
         deref devices (queue_device Q) (\<lambda>_.
         fence_handle (sd_signal_fence desc) (\<lambda>h.
         vk_do V (VkQueue (VkQueueSubmit (pVkQueue Q) info h)) (\<lambda>res.
         CHECK_VKRESULT V res (
         set_submitted (sd_signal_fence desc) True (
         release_queue_mutex V Q (ret ()))))))) u = Inr (r, w')"
      and u: "fences u = fences w" "trace u = trace w"
    using assms(3)
    by (auto simp: cgpu_submit_queue_vulkan_def deref_run assertc_run bindP_run Let_def
        split: if_splits option.splits sum.splits prod.splits
        dest!: keepsD [OF cmd_handles_keeps] keepsD [OF collect_wait_keeps] keepsD [OF collect_signal_keeps])
  show ?thesis
    by (rule submit_tail_agrees [OF _ assms(2) run]) (use assms(1) u in \<open>simp add: fences_agree_def\<close>)
qed

lemma fence_handle_end:
  assumes "fence_handle f k w = Inr x"
  obtains h where "k h w = Inr x" "f = NULL \<Longrightarrow> h = 0"
    "f \<noteq> NULL \<Longrightarrow> fences w f \<noteq> None \<and> h = pVkFence (the (fences w f))"
  using assms by (auto simp: fence_handle_def deref_run split: if_splits option.splits)

lemma semaphore_handle_end:
  assumes "semaphore_handle s k w = Inr x"
  obtains h where "k h w = Inr x"
  using assms by (auto simp: semaphore_handle_def deref_run split: if_splits option.splits)

lemma acquire_agrees:
  assumes "fences_agree (vk_drv V) S w" and "fence_driver (vk_drv V) S"
    and "cgpu_acquire_next_image_vulkan V sc desc w = Inr (r, w')"
  shows "fences_agree (vk_drv V) S w'"
proof -
  obtain SC :: CGPUSwapChain_Vulkan and v h and D :: CGPUDevice_Vulkan where
    run: "vk_do V (VkQueue (VkAcquireNextImageKHR (pVkDevice D) (pVkSwapChain SC) v h)) (\<lambda>r.
       if vk_result r = VK_ERROR_OUT_OF_DATE_KHR
       then set_submitted (an_fence desc) False (
            bindP (if an_fence desc \<noteq> NULL
                   then vk_do V (VkSync (VkResetFences (pVkDevice D) [h])) (\<lambda>_. ret ())
                   else ret ()) (\<lambda>_.
            set_signaled (an_signal_semaphore desc) False (
            ret (- 1))))
       else if vk_result r = VK_SUCCESS
       then set_submitted (an_fence desc) True (
            set_signaled (an_signal_semaphore desc) True (
            ret (word_of_nat (vk_out r 0))))
       else ret (word_of_nat (vk_out r 0))) w = Inr (r, w')"
    and h: "an_fence desc = NULL \<Longrightarrow> h = 0"
      "an_fence desc \<noteq> NULL \<Longrightarrow> fences w (an_fence desc) \<noteq> None \<and> h = pVkFence (the (fences w (an_fence desc)))"
    using assms(3) unfolding cgpu_acquire_next_image_vulkan_def
    by (elim deref_end semaphore_handle_end fence_handle_end) (rule that, assumption, blast, blast)
  let ?c = "VkQueue (VkAcquireNextImageKHR (pVkDevice D) (pVkSwapChain SC) v h)"
  let ?r = "vk_result (vk_drv V (trace w) ?c)"
  have "?r \<noteq> VK_SUBOPTIMAL_KHR" using assms(2) by (simp add: fence_driver_def)
  have null: "driver_fences (vk_drv V) S (trace w) 0 = None"
    using assms(1) by (simp add: fences_agree_def)
  note eval = set_submitted_def set_signaled_def prog_simps fence_effect_def set_pending_Nil
    set_pending_null [of "driver_fences (vk_drv V) S (trace w)", OF null]
  let ?fs = "if an_fence desc = NULL then [] else [an_fence desc]"
  show ?thesis
  proof (cases "?r = VK_SUCCESS \<or> ?r = VK_ERROR_OUT_OF_DATE_KHR")
    case True
    then show ?thesis
      using run h
      by (intro agree_set [OF assms(1), of _ ?fs "?r = VK_SUCCESS"])
        (auto simp: eval split: option.splits if_splits)
  next
    case False
    then show ?thesis
      using run \<open>?r \<noteq> VK_SUBOPTIMAL_KHR\<close>
      by (intro agree_same [OF assms(1)]) (auto simp: eval fence_view_def split: option.splits if_splits)
  qed
qed

lemma submitted_fences_end:
  "submitted_fences fs w = Inr (vs, w') \<Longrightarrow> w' = w \<and> vs = submitted_handles w fs \<and> live_fences w fs"
proof (induction fs arbitrary: vs w')
  case (Cons f fs)
  obtain F us where "f \<noteq> NULL" "fences w f = Some F" "submitted_fences fs w = Inr (us, w)"
      "vs = (if mSubmitted F then pVkFence F # us else us)" "w' = w"
    using Cons.prems by (auto simp: deref_run bindP_run split: if_splits option.splits sum.splits dest: Cons.IH)
  then show ?case
    using Cons.IH [of us w] by (auto simp: submitted_handles_def live_fences_def)
qed (simp add: submitted_handles_def live_fences_def)

lemma wait_agrees:
  assumes "fences_agree (vk_drv V) S w" and "cgpu_wait_fences_vulkan V fs w = Inr (r, w')"
  shows "fences_agree (vk_drv V) S w'"
proof -
  obtain D :: CGPUDevice_Vulkan and u where live: "live_fences w fs"
    and u: "u = (if submitted_handles w fs = [] then w
                 else w\<lparr>trace := trace w @ [VkSync (VkWaitForFences (pVkDevice D) (submitted_handles w fs)),
                                           VkSync (VkResetFences (pVkDevice D) (submitted_handles w fs))]\<rparr>)"
    and run: "for_each fs (\<lambda>f. store fences fences_update f (mSubmitted_update (\<lambda>_. False)) (ret ())) u = Inr (r, w')"
    using assms(2) unfolding cgpu_wait_fences_vulkan_def index_of_run
    by (auto simp: vk_do_run elim!: deref_end bindP_end split: if_splits dest!: submitted_fences_end)
  have "live_fences u fs" "fences u = fences w" using live u by (auto simp: live_fences_def)
  then have w': "w' = u\<lparr>fences := clear_submitted fs (fences w)\<rparr>"
    using run clear_loop_run [of u fs] by simp
  have "driver_fences (vk_drv V) S (trace w') =
      set_pending False (submitted_handles w fs) (driver_fences (vk_drv V) S (trace w))"
    using w' u by (simp add: fence_effect_def set_pending_Nil)
  moreover have "fences w' f = (if f \<in> set (filter (\<lambda>f. mSubmitted (the (fences w f))) fs)
      then map_option (mSubmitted_update (\<lambda>_. False)) (fences w f) else fences w f)" for f
    using w' by (cases "fences w f") (auto simp: clear_submitted_def)
  ultimately show ?thesis
    using live by (intro agree_set [OF assms(1)]) (auto simp: submitted_handles_def live_fences_def list_all_iff)
qed

lemma create_agrees:
  assumes "fences_agree (vk_drv V) S w" and "fence_driver (vk_drv V) S" and "vk_debug V"
    and "cgpu_create_fence_vulkan V dev w = Inr (f, w')"
  shows "fences_agree (vk_drv V) S w'"
proof -
  obtain h t where "fence_view w' = (fence_view w)(f \<mapsto> (h, False))"
    and w': "trace w' = trace w @ [VkSync (VkCreateFence t)]"
    and "vk_result (vk_drv V (trace w) (VkSync (VkCreateFence t))) = VK_SUCCESS"
      "h = vk_out (vk_drv V (trace w) (VkSync (VkCreateFence t))) 0"
    using assms(3,4) unfolding cgpu_create_fence_vulkan_def
    by (auto simp: prog_simps fence_view_def fun_eq_iff split: if_splits option.splits)
  then show ?thesis
    using assms(2) by (intro agree_new [OF assms(1)]) (auto simp: fence_effect_def fence_driver_def)
qed

lemma free_agrees:
  assumes "fences_agree (vk_drv V) S w" and "cgpu_free_fence_vulkan V f w = Inr (r, w')"
  shows "fences_agree (vk_drv V) S w'"
proof -
  obtain F d where "fences w f = Some F" "fence_view w' = (fence_view w)(f := None)"
      "trace w' = trace w @ [VkSync (VkDestroyFence d (pVkFence F))]"
    using assms(2) unfolding cgpu_free_fence_vulkan_def
    by (auto simp: prog_simps fence_view_def fun_eq_iff split: if_splits option.splits)
  then show ?thesis
    by (intro agree_free [OF assms(1), of f "pVkFence F" "mSubmitted F"]) (auto simp: fence_effect_def fence_view_def)
qed

lemma query_agrees:
  assumes "fences_agree (vk_drv V) S w" and "cgpu_query_fence_status_vulkan V f w = Inr (r, w')"
  shows "fences_agree (vk_drv V) S w'"
  using assms(2) unfolding cgpu_query_fence_status_vulkan_def
  by (intro agree_same [OF assms(1)])
    (auto simp: prog_simps fence_view_def fence_effect_def split: if_splits option.splits)

lemma idle_agrees:
  assumes "fences_agree (vk_drv V) S w" and "cgpu_wait_queue_idle_vulkan V q w = Inr (r, w')"
  shows "fences_agree (vk_drv V) S w'"
  using assms(2) unfolding cgpu_wait_queue_idle_vulkan_def
  by (intro agree_same [OF assms(1)])
    (auto simp: prog_simps fence_view_def fence_effect_def split: if_splits option.splits)

lemma present_agrees:
  assumes "fences_agree (vk_drv V) S w" and "cgpu_queue_present_vulkan V q desc w = Inr (r, w')"
  shows "fences_agree (vk_drv V) S w'"
  using assms(2) unfolding cgpu_queue_present_vulkan_def
  by (intro agree_same [OF assms(1)])
    (auto simp: deref_run bindP_run assertc_run Let_def acquire_queue_mutex_def release_queue_mutex_def vk_do_run
      fence_view_def fence_effect_def split: if_splits option.splits sum.splits prod.splits
      dest!: keepsD [OF collect_wait_keeps])

section \<open>The system\<close>

datatype sync_op =
    CreateFence CGPUDeviceId
  | WaitFences "CGPUFenceId list"
  | QueryFenceStatus CGPUFenceId
  | FreeFence CGPUFenceId
  | SubmitQueue CGPUQueueId "CGPUQueueSubmitDescriptor option"
  | QueuePresent CGPUQueueId "CGPUQueuePresentDescriptor option"
  | WaitQueueIdle CGPUQueueId
  | AcquireNextImage CGPUSwapChainId CGPUAcquireNextDescriptor

fun exec_sync :: "cgpu_env \<Rightarrow> sync_op \<Rightarrow> unit vk_prog" where
  "exec_sync E (CreateFence device) = bindP (cgpu_create_fence E device) (\<lambda>_. ret ())"
| "exec_sync E (WaitFences fs) = cgpu_wait_fences E fs"
| "exec_sync E (QueryFenceStatus f) = bindP (cgpu_query_fence_status E f) (\<lambda>_. ret ())"
| "exec_sync E (FreeFence f) = cgpu_free_fence E f"
| "exec_sync E (SubmitQueue q desc) = cgpu_submit_queue E q desc"
| "exec_sync E (QueuePresent q desc) = cgpu_queue_present E q desc"
| "exec_sync E (WaitQueueIdle q) = cgpu_wait_queue_idle E q"
| "exec_sync E (AcquireNextImage sc desc) = bindP (cgpu_acquire_next_image E sc desc) (\<lambda>_. ret ())"

text \<open>A run of the runtime: calls of the synchronisation interface, between which anything may
  happen that leaves the fences of the runtime and of the driver as they are.\<close>

inductive synchronises :: "vk_env \<Rightarrow> cgpu_env \<Rightarrow> fence_states \<Rightarrow> vk_world \<Rightarrow> sync_op list \<Rightarrow> vk_world \<Rightarrow> bool"
  for V E S where
  sync_nil: "synchronises V E S w [] w"
| sync_call: "synchronises V E S w ops u \<Longrightarrow> exec_sync E op u = Inr ((), v) \<Longrightarrow> synchronises V E S w (ops @ [op]) v"
| sync_other: "synchronises V E S w ops u \<Longrightarrow> fences v = fences u
    \<Longrightarrow> driver_fences (vk_drv V) S (trace v) = driver_fences (vk_drv V) S (trace u)
    \<Longrightarrow> synchronises V E S w ops v"

text \<open>The same as a computation, for runs of the interface alone.\<close>

definition run_sync :: "cgpu_env \<Rightarrow> vk_world \<Rightarrow> sync_op list \<Rightarrow> vk_world option" where
  "run_sync E w ops =
     fold (\<lambda>op u. case u of None \<Rightarrow> None
       | Some u \<Rightarrow> (case exec_sync E op u of Inl e \<Rightarrow> None | Inr (_, v) \<Rightarrow> Some v)) ops (Some w)"

lemma run_sync_synchronises:
  "run_sync E w ops = Some v \<Longrightarrow> synchronises V E S w ops v"
proof (induction ops arbitrary: v rule: rev_induct)
  case Nil
  then show ?case by (simp add: run_sync_def sync_nil)
next
  case (snoc op ops)
  obtain u where "run_sync E w ops = Some u" and "exec_sync E op u = Inr ((), v)"
    using snoc.prems by (auto simp: run_sync_def split: option.splits sum.splits)
  then show ?case using snoc.IH sync_call by blast
qed

lemmas sync_api_defs [api_defs] =
  cgpu_create_fence_def cgpu_wait_fences_def cgpu_query_fence_status_def cgpu_free_fence_def
  cgpu_submit_queue_def cgpu_queue_present_def cgpu_wait_queue_idle_def cgpu_acquire_next_image_def

lemma exec_sync_agrees:
  assumes "fences_agree (vk_drv V) S w" and "fence_driver (vk_drv V) S" and "vk_debug V"
    and "exec_sync (system_env V R base p n) op w = Inr (r, w')"
  shows "fences_agree (vk_drv V) S w'"
proof (cases op)
  case (CreateFence dev)
  then obtain f u where f: "cgpu_create_fence_vulkan V dev w = Inr (f, u)"
      and w': "w' = u\<lparr>fences := (fences u)(f \<mapsto> (the (fences u f))\<lparr>fence_device := dev\<rparr>)\<rparr>" "fences u f \<noteq> None"
    using assms(4) by (auto simp: sync_api_defs device_table_def assertc_run checked_proc_run vk_table_defs store_run
        elim!: bindP_end deref_end system_proc split: if_splits option.splits)
  have "fence_view w' = fence_view u" "trace w' = trace u"
    using w' by (auto simp: fence_view_def fun_eq_iff)
  then show ?thesis
    using agree_same [OF create_agrees [OF assms(1-3) f]] by simp
next
  case (WaitFences fs)
  then have "cgpu_wait_fences_vulkan V fs w = Inr ((), w') \<or> w' = w"
    using assms(4) by (auto simp: sync_api_defs device_table_def assertc_run checked_proc_run vk_table_defs
        elim!: deref_end system_proc split: if_splits list.splits)
  then show ?thesis using assms(1) wait_agrees by blast
next
  case (QueryFenceStatus f)
  then obtain a where "cgpu_query_fence_status_vulkan V f w = Inr (a, w')"
    using assms(4) by (auto simp: sync_api_defs device_table_def assertc_run checked_proc_run vk_table_defs
        elim!: bindP_end deref_end system_proc split: if_splits option.splits)
  then show ?thesis by (rule query_agrees [OF assms(1)])
next
  case (FreeFence f)
  then obtain a where "cgpu_free_fence_vulkan V f w = Inr (a, w')"
    using assms(4) by (auto simp: sync_api_defs device_table_def assertc_run checked_proc_run vk_table_defs
        elim!: bindP_end deref_end system_proc split: if_splits option.splits)
  then show ?thesis by (rule free_agrees [OF assms(1)])
next
  case (SubmitQueue q desc)
  then obtain a where "cgpu_submit_queue_vulkan V q (the desc) w = Inr (a, w')"
    using assms(4) by (auto simp: sync_api_defs device_table_def assertc_run checked_proc_run vk_table_defs desc_ptr_run
        elim!: bindP_end deref_end system_proc split: if_splits option.splits)
  then show ?thesis by (rule submit_agrees [OF assms(1,3)])
next
  case (QueuePresent q desc)
  then obtain a where "cgpu_queue_present_vulkan V q (the desc) w = Inr (a, w')"
    using assms(4) by (auto simp: sync_api_defs device_table_def assertc_run checked_proc_run vk_table_defs desc_ptr_run
        elim!: bindP_end deref_end system_proc split: if_splits option.splits)
  then show ?thesis by (rule present_agrees [OF assms(1)])
next
  case (WaitQueueIdle q)
  then obtain a where "cgpu_wait_queue_idle_vulkan V q w = Inr (a, w')"
    using assms(4) by (auto simp: sync_api_defs device_table_def assertc_run checked_proc_run vk_table_defs
        elim!: bindP_end deref_end system_proc split: if_splits option.splits)
  then show ?thesis by (rule idle_agrees [OF assms(1)])
next
  case (AcquireNextImage sc desc)
  then obtain a where "cgpu_acquire_next_image_vulkan V sc desc w = Inr (a, w')"
    using assms(4) by (auto simp: sync_api_defs device_table_def assertc_run checked_proc_run vk_table_defs
        elim!: bindP_end deref_end system_proc split: if_splits option.splits)
  then show ?thesis by (rule acquire_agrees [OF assms(1,2)])
qed

lemma synchronises_agree:
  assumes "synchronises V (system_env V R base p n) S w ops w'" and "fences_agree (vk_drv V) S w"
    and "fence_driver (vk_drv V) S" and "vk_debug V"
  shows "fences_agree (vk_drv V) S w'"
  using assms(1,2)
proof induction
  case (sync_call w ops u op v)
  show ?case by (rule exec_sync_agrees [OF sync_call.IH [OF sync_call.prems] assms(3,4) sync_call.hyps(2)])
next
  case (sync_other w ops u v)
  show ?case
    by (rule agree_same [OF sync_other.IH [OF sync_other.prems]]) (simp_all add: fence_view_def sync_other.hyps)
qed

section \<open>Properties\<close>


definition sample_fences :: fence_states where
  "sample_fences = [601 \<mapsto> False, 602 \<mapsto> True]"

lemma sample_fence_driver: "fence_driver sample_driver sample_fences"
proof -
  have dom: "dom (driver_fences sample_driver sample_fences t) \<subseteq> {h. 0 < h \<and> h < length t + 1000}" for t
  proof (induction t rule: rev_induct)
    case (snoc c t)
    have pend: "T h \<noteq> None" if "set_pending b hs T h = Some y" for b hs T h y
      using that by (auto simp: set_pending_def split: if_splits)
    have "dom (fence_effect (sample_driver t c) c T) \<subseteq> dom T \<union> {length t + 1000}" for T
    proof (cases c)
      case (VkSync x)
      then show ?thesis by (cases x) (auto simp: fence_effect_def sample_driver_def vk_out_def dest: pend)
    next
      case (VkQueue x)
      then show ?thesis by (cases x) (auto simp: fence_effect_def sample_driver_def vk_out_def dest: pend)
    qed (auto simp: fence_effect_def)
    then show ?case using snoc by fastforce
  qed (auto simp: sample_fences_def split: if_splits)
  show ?thesis
    unfolding fence_driver_def
  proof (intro conjI allI impI)
    fix t dev
    show "driver_fences sample_driver sample_fences t
        (vk_out (sample_driver t (VkSync (VkCreateFence dev))) 0) = None"
      using dom [of t] by (auto simp: sample_driver_def vk_out_def)
  qed (simp_all add: sample_driver_def vk_out_def)
qed

lemma sample_fences_agree: "fences_agree sample_driver sample_fences sample_world"
  by (simp add: fences_agree_def sample_fences_def)

text \<open>A fence is created, the submitted one is waited for, work is submitted with the other.\<close>

definition sample_sync :: "sync_op list" where
  "sample_sync = [CreateFence 3, WaitFences [6, 7],
     SubmitQueue 5 (Some \<lparr>sd_cmds = [14], sd_signal_fence = 6, sd_wait_semaphores = [11],
       sd_signal_semaphores = [12]\<rparr>)]"

lemma sample_sync_runs:
  "\<exists>w'. run_sync sample_env sample_world sample_sync = Some w'
     \<and> fences w' 6 = Some \<lparr>fence_device = 3, pVkFence = 601, mSubmitted = True\<rparr>"
  by (simp add: run_sync_def sample_sync_def sync_api_defs vk_sync_defs prog_simps vk_table_defs sample_defs vk_out_def)


text \<open>
  Property C24: a suboptimal acquisition loses its fence. When the driver answers
  \<open>VK_SUBOPTIMAL_KHR\<close>, it has taken the image and its fence is pending, and the image index is
  returned; but the fence is not marked submitted, so that waiting for it returns at once without
  asking the driver.
\<close>

theorem suboptimal_acquire_is_not_waited_for:
  assumes "sc \<noteq> NULL" and "swapchains w sc = Some SC"
    and "swapchain_device SC \<noteq> NULL" and "devices w (swapchain_device SC) = Some D"
    and "f \<noteq> NULL" and "fences w f = Some F" and "\<not> mSubmitted F"
    and "driver_fences (vk_drv V) S (trace w) (pVkFence F) = Some False"
    and "c = VkQueue (VkAcquireNextImageKHR (pVkDevice D) (pVkSwapChain SC) VK_NULL_HANDLE (pVkFence F))"
    and "vk_result (vk_drv V (trace w) c) = VK_SUBOPTIMAL_KHR"
  shows "\<exists>v. cgpu_acquire_next_image_vulkan V sc \<lparr>an_signal_semaphore = NULL, an_fence = f\<rparr> w
           = Inr (word_of_nat (vk_out (vk_drv V (trace w) c) 0), v)
         \<and> driver_fences (vk_drv V) S (trace v) (pVkFence F) = Some True
         \<and> cgpu_wait_fences_vulkan V [f] v = Inr ((), v)"
proof -
  let ?v = "w\<lparr>trace := trace w @ [c]\<rparr>"
  have "cgpu_acquire_next_image_vulkan V sc \<lparr>an_signal_semaphore = NULL, an_fence = f\<rparr> w
      = Inr (word_of_nat (vk_out (vk_drv V (trace w) c) 0), ?v)"
    using assms by (simp add: cgpu_acquire_next_image_vulkan_def semaphore_handle_def fence_handle_def prog_simps)
  moreover have "driver_fences (vk_drv V) S (trace ?v) (pVkFence F) = Some True"
    using assms(8,10) by (simp add: fence_effect_def assms(9) set_pending_def)
  moreover have "cgpu_wait_fences_vulkan V [f] ?v = Inr ((), ?v)"
    using assms(5-7) by (simp add: cgpu_wait_fences_vulkan_def prog_simps fun_upd_idem)
  ultimately show ?thesis by blast
qed

definition suboptimal_vk :: vk_env where
  "suboptimal_vk = sample_vk\<lparr>vk_drv := \<lambda>tr c. \<lparr>vk_result = VK_SUBOPTIMAL_KHR, vk_outs = [2]\<rparr>\<rparr>"

theorem suboptimal_acquire_is_not_waited_for_witness:
  "\<exists>v. cgpu_acquire_next_image_vulkan suboptimal_vk 18 \<lparr>an_signal_semaphore = NULL, an_fence = 6\<rparr> sample_world
         = Inr (2, v)
     \<and> driver_fences (vk_drv suboptimal_vk) sample_fences (trace v) 601 = Some True
     \<and> cgpu_wait_fences_vulkan suboptimal_vk [6] v = Inr ((), v)"
  using suboptimal_acquire_is_not_waited_for [of 18 sample_world "the (swapchains sample_world 18)" sample_device 6
      "the (fences sample_world 6)" suboptimal_vk sample_fences, OF _ _ _ _ _ _ _ _ refl]
  by (simp add: suboptimal_vk_def sample_fences_def vk_out_def)

end
