(* ===== verification/Submit_Facts.thy ===== *)
theory Submit_Facts
  imports Sync_Facts
begin

text \<open>
  What a submission and a presentation hand to the driver, and what they do to the flags of the
  semaphores and to the mutex of the queue.
\<close>

section \<open>Submission\<close>

lemma cmd_handles_run:
  assumes "list_all (\<lambda>c. c \<noteq> NULL \<and> cmds w c \<noteq> None) cs"
  shows "map_each cs (\<lambda>c. deref cmds c (\<lambda>C. ret (pVkCmdBuf C))) w
         = Inr (map (\<lambda>c. pVkCmdBuf (the (cmds w c))) cs, w)"
  using assms by (induction cs) (auto simp: prog_simps)

lemma live_after_flags:
  "live_semaphores w ss \<Longrightarrow> live_semaphores (w\<lparr>semaphores := set_flags b ts (semaphores w)\<rparr>) ss"
  by (auto simp: live_semaphores_def set_flags_def list_all_iff)

lemma flagged_after_flags:
  assumes "set ss \<inter> set ts = {}"
  shows "flagged_handles b (w\<lparr>semaphores := set_flags c ts (semaphores w)\<rparr>) ss = flagged_handles b w ss"
proof -
  have same: "set_flags c ts (semaphores w) s = semaphores w s" if "s \<in> set ss" for s
    using assms that by (auto simp: set_flags_def)
  show ?thesis
    unfolding flagged_handles_def by (simp add: same cong: filter_cong)
qed

lemma flagged_handles_length: "length (flagged_handles b w ss) \<le> length ss"
  by (simp add: flagged_handles_def)

text \<open>A queue, its device and its mutex, as a submission finds them.\<close>

definition submittable :: "vk_world \<Rightarrow> CGPUQueueId \<Rightarrow> bool" where
  "submittable w q \<longleftrightarrow> q \<noteq> NULL \<and>
     (case queues w q of None \<Rightarrow> False
      | Some Q \<Rightarrow> pVkQueue Q \<noteq> VK_NULL_HANDLE \<and> queue_pMutex Q \<noteq> NULL
                  \<and> queue_device Q \<noteq> NULL \<and> devices w (queue_device Q) \<noteq> None)"

text \<open>A submission whose arguments are alive.\<close>

definition good_submission :: "vk_world \<Rightarrow> CGPUQueueId \<Rightarrow> CGPUQueueSubmitDescriptor \<Rightarrow> bool" where
  "good_submission w q desc \<longleftrightarrow>
     submittable w q \<and> sd_cmds desc \<noteq> []
   \<and> list_all (\<lambda>c. c \<noteq> NULL \<and> cmds w c \<noteq> None) (sd_cmds desc)
   \<and> live_semaphores w (sd_wait_semaphores desc) \<and> live_semaphores w (sd_signal_semaphores desc)
   \<and> set (sd_wait_semaphores desc) \<inter> set (sd_signal_semaphores desc) = {}
   \<and> sd_signal_fence desc \<noteq> NULL \<and> fences w (sd_signal_fence desc) \<noteq> None"

definition accepts_submissions :: "vk_driver \<Rightarrow> bool" where
  "accepts_submissions d \<longleftrightarrow> (\<forall>t q info h. vk_result (d t (VkQueue (VkQueueSubmit q info h))) = VK_SUCCESS)"

text \<open>The array after the two loops, and the structure built from it.\<close>

definition waited_array :: "vk_world \<Rightarrow> CGPUSemaphoreId list \<Rightarrow> VkHandle list" where
  "waited_array w ws = overwrite (replicate (length ws + 1) VK_NULL_HANDLE) 0 (flagged_handles True w ws)"

definition submission_info :: "vk_world \<Rightarrow> CGPUQueueSubmitDescriptor \<Rightarrow> VkSubmitInfo" where
  "submission_info w desc =
     \<lparr>pCommandBuffers = map (\<lambda>c. pVkCmdBuf (the (cmds w c))) (sd_cmds desc),
      waitSemaphoreCount = length (flagged_handles True w (sd_wait_semaphores desc)),
      pWaitSemaphores = replicate (length (sd_signal_semaphores desc) + 1) VK_NULL_HANDLE,
      signalSemaphoreCount = length (flagged_handles False w (sd_signal_semaphores desc)),
      pSignalSemaphores = overwrite (waited_array w (sd_wait_semaphores desc)) 0
        (flagged_handles False w (sd_signal_semaphores desc))\<rparr>"

lemma length_waited_array: "length (waited_array w ws) = length ws + 1"
  using flagged_handles_length [of True w ws] by (simp add: waited_array_def overwrite_def)

lemma collect_waits:
  assumes "live_semaphores w ws"
  shows "collect_wait_semaphores ws (replicate (length ws + 1) VK_NULL_HANDLE) 0 w
         = Inr ((waited_array w ws, length (flagged_handles True w ws)), w\<lparr>semaphores := set_flags False ws (semaphores w)\<rparr>)"
  using flagged_handles_length [of True w ws]
  by (subst collect_wait_run [OF assms]) (simp_all add: waited_array_def)

lemma submit_run:
  assumes "good_submission w q desc" and "queues w q = Some Q" and "accepts_submissions (vk_drv V)"
    and "length (flagged_handles False w (sd_signal_semaphores desc)) \<le> length (sd_wait_semaphores desc) + 1"
    and "fences w (sd_signal_fence desc) = Some F"
  shows "cgpu_submit_queue_vulkan V q desc w
         = Inr ((), w\<lparr>semaphores := set_flags True (sd_signal_semaphores desc)
                        (set_flags False (sd_wait_semaphores desc) (semaphores w)),
                      fences := (fences w)(sd_signal_fence desc \<mapsto> F\<lparr>mSubmitted := True\<rparr>),
                      trace := trace w @ [VkQueue (MutexAcquire (queue_pMutex Q)),
                        VkQueue (VkQueueSubmit (pVkQueue Q) (submission_info w desc) (pVkFence F)),
                        VkQueue (MutexRelease (queue_pMutex Q))]\<rparr>)"
proof -
  let ?ws = "sd_wait_semaphores desc" and ?ss = "sd_signal_semaphores desc"
  let ?w1 = "w\<lparr>semaphores := set_flags False ?ws (semaphores w)\<rparr>"
  let ?w2 = "?w1\<lparr>semaphores := set_flags True ?ss (semaphores ?w1)\<rparr>"
  note good = assms(1) [unfolded good_submission_def]
  have same: "flagged_handles False ?w1 ?ss = flagged_handles False w ?ss"
    using good by (intro flagged_after_flags) blast
  have sigs: "collect_signal_semaphores ?ss (waited_array w ?ws) 0 ?w1
      = Inr ((overwrite (waited_array w ?ws) 0 (flagged_handles False w ?ss), length (flagged_handles False w ?ss)), ?w2)"
    using assms(4) good by (subst collect_signal_run [OF live_after_flags]) (simp_all add: same length_waited_array)
  obtain D where Q: "q \<noteq> NULL" "pVkQueue Q \<noteq> 0" "queue_pMutex Q \<noteq> 0"
      "queue_device Q \<noteq> 0" "devices w (queue_device Q) = Some D"
    using good assms(2) by (auto simp: submittable_def)
  show ?thesis
    unfolding cgpu_submit_queue_vulkan_def
    using Q assms(2,3,5) good collect_waits [of w ?ws] sigs cmd_handles_run [of w "sd_cmds desc"]
    by (simp add: deref_run assertc_run bindP_run Let_def acquire_queue_mutex_def release_queue_mutex_def
        fence_handle_def set_submitted_def store_run vk_do_run CHECK_VKRESULT_run submission_info_def
        accepts_submissions_def del: replicate.simps)
qed

text \<open>With more semaphores to signal than the array holds, the second loop overruns it.\<close>

lemma submit_overrun_run:
  assumes "good_submission w q desc"
    and "length (sd_wait_semaphores desc) + 1 < length (flagged_handles False w (sd_signal_semaphores desc))"
  shows "cgpu_submit_queue_vulkan V q desc w = Inl (OutOfBounds ''wait_semaphores'')"
proof -
  let ?ws = "sd_wait_semaphores desc" and ?ss = "sd_signal_semaphores desc"
  let ?w1 = "w\<lparr>semaphores := set_flags False ?ws (semaphores w)\<rparr>"
  note good = assms(1) [unfolded good_submission_def]
  have same: "flagged_handles False ?w1 ?ss = flagged_handles False w ?ss"
    using good by (intro flagged_after_flags) blast
  have sigs: "collect_signal_semaphores ?ss (waited_array w ?ws) 0 ?w1 = Inl (OutOfBounds ''wait_semaphores'')"
    using assms(2) good
    by (intro collect_signal_overrun live_after_flags) (simp_all add: same length_waited_array)
  obtain Q where Q: "queues w q = Some Q" "q \<noteq> NULL" "pVkQueue Q \<noteq> 0"
    using good by (auto simp: submittable_def split: option.splits)
  show ?thesis
    unfolding cgpu_submit_queue_vulkan_def
    using Q good collect_waits [of w ?ws] sigs cmd_handles_run [of w "sd_cmds desc"]
    by (simp add: deref_run assertc_run bindP_run Let_def del: replicate.simps)
qed

section \<open>Presentation\<close>

text \<open>The handles a presentation waits for: those the count covers.\<close>

definition pv_waits :: "VkPresentInfoKHR \<Rightarrow> VkHandle list" where
  "pv_waits info = take (present_waitSemaphoreCount info) (present_pWaitSemaphores info)"

section \<open>Properties\<close>

lemma flags_after:
  assumes "live_semaphores w ws" and "live_semaphores w ss" and "set ws \<inter> set ss = {}"
  shows "\<forall>s \<in> set ws. \<exists>S. set_flags True ss (set_flags False ws (semaphores w)) s = Some S \<and> \<not> mSignaled S"
    and "\<forall>s \<in> set ss. \<exists>S. set_flags True ss (set_flags False ws (semaphores w)) s = Some S \<and> mSignaled S"
  using assms by (fastforce simp: set_flags_def live_semaphores_def list_all_iff)+

text \<open>
  Property C3: what a submission hands over. One batch reaches the driver, under the mutex of
  the queue; it holds the command buffers in order and signals exactly the semaphores that were
  not signaled, in order. The array it waits on has as many null handles as there are
  semaphores to signal, and one: no semaphore is ever waited for, whatever the count says.
  Afterwards the semaphores to wait for are unsignaled, those to signal are signaled and the
  fence is submitted.
\<close>

theorem submission_batch:
  assumes "good_submission w q desc" and "accepts_submissions (vk_drv V)"
    and "length (flagged_handles False w (sd_signal_semaphores desc)) \<le> length (sd_wait_semaphores desc) + 1"
  shows "\<exists>v info m Q. cgpu_submit_queue_vulkan V q desc w = Inr ((), v)
    \<and> trace v = trace w @ [VkQueue (MutexAcquire m),
        VkQueue (VkQueueSubmit Q info (pVkFence (the (fences w (sd_signal_fence desc))))), VkQueue (MutexRelease m)]
    \<and> pCommandBuffers info = map (\<lambda>c. pVkCmdBuf (the (cmds w c))) (sd_cmds desc)
    \<and> take (signalSemaphoreCount info) (pSignalSemaphores info) = flagged_handles False w (sd_signal_semaphores desc)
    \<and> waitSemaphoreCount info = length (flagged_handles True w (sd_wait_semaphores desc))
    \<and> pWaitSemaphores info = replicate (length (sd_signal_semaphores desc) + 1) VK_NULL_HANDLE
    \<and> (\<forall>s \<in> set (sd_wait_semaphores desc). \<exists>S. semaphores v s = Some S \<and> \<not> mSignaled S)
    \<and> (\<forall>s \<in> set (sd_signal_semaphores desc). \<exists>S. semaphores v s = Some S \<and> mSignaled S)
    \<and> (\<exists>F. fences v (sd_signal_fence desc) = Some F \<and> mSubmitted F)"
proof -
  obtain Q where Q: "queues w q = Some Q"
    using assms(1) by (auto simp: good_submission_def submittable_def split: option.splits)
  obtain F where F: "fences w (sd_signal_fence desc) = Some F"
    using assms(1) by (auto simp: good_submission_def)
  have "take (length (flagged_handles False w (sd_signal_semaphores desc)))
      (overwrite (waited_array w (sd_wait_semaphores desc)) 0 (flagged_handles False w (sd_signal_semaphores desc)))
      = flagged_handles False w (sd_signal_semaphores desc)"
    by (simp add: overwrite_def)
  then show ?thesis
    using submit_run [OF assms(1) Q assms(2,3) F] flags_after assms(1)
    by (fastforce simp: submission_info_def F good_submission_def)
qed

text \<open>One semaphore to wait for, one to signal.\<close>

definition sample_submission :: CGPUQueueSubmitDescriptor where
  "sample_submission = \<lparr>sd_cmds = [14, 15], sd_signal_fence = 6, sd_wait_semaphores = [11], sd_signal_semaphores = [12]\<rparr>"

theorem submission_batch_witness:
  "\<exists>v info m Q. cgpu_submit_queue_vulkan sample_vk 5 sample_submission sample_world = Inr ((), v)
    \<and> trace v = [VkQueue (MutexAcquire m), VkQueue (VkQueueSubmit Q info 601), VkQueue (MutexRelease m)]
    \<and> take (signalSemaphoreCount info) (pSignalSemaphores info) = [612]
    \<and> waitSemaphoreCount info = 1 \<and> pWaitSemaphores info = [0, 0]"
proof -
  have good: "good_submission sample_world 5 sample_submission"
    by (simp add: good_submission_def submittable_def sample_submission_def live_semaphores_def sample_queue_def)
  have ok: "accepts_submissions (vk_drv sample_vk)"
    by (simp add: accepts_submissions_def sample_driver_def)
  show ?thesis
    using submission_batch [OF good ok]
    by (simp add: sample_submission_def flagged_handles_def numeral_2_eq_2) blast
qed

text \<open>
  Property C17: more unsignaled semaphores to signal than semaphores to wait for, and one, are
  written past the end of the array of the semaphores to wait for, before anything is submitted.
\<close>

theorem submission_overrun:
  assumes "good_submission w q desc"
    and "length (sd_wait_semaphores desc) + 1 < length (flagged_handles False w (sd_signal_semaphores desc))"
  shows "cgpu_submit_queue_vulkan V q desc w = Inl (OutOfBounds ''wait_semaphores'')"
  using assms by (rule submit_overrun_run)

text \<open>Two semaphores to signal and none to wait for are enough.\<close>

definition overrun_world :: vk_world where
  "overrun_world = sample_world\<lparr>semaphores := [11 \<mapsto> \<lparr>semaphore_device = 3, pVkSemaphore = 611, mSignaled = False\<rparr>,
     12 \<mapsto> \<lparr>semaphore_device = 3, pVkSemaphore = 612, mSignaled = False\<rparr>]\<rparr>"

theorem submission_overrun_witness:
  "cgpu_submit_queue_vulkan sample_vk 5
     \<lparr>sd_cmds = [14], sd_signal_fence = 6, sd_wait_semaphores = [], sd_signal_semaphores = [11, 12]\<rparr> overrun_world
   = Inl (OutOfBounds ''wait_semaphores'')"
  by (rule submission_overrun)
    (simp_all add: good_submission_def submittable_def overrun_world_def live_semaphores_def sample_queue_def
      flagged_handles_def)

text \<open>
  Property C20: what a presentation hands over. The driver is asked, under the mutex of the
  queue, to present the image given after exactly the semaphores that were signaled, in order,
  and these are unsignaled afterwards. An outdated or suboptimal swapchain ends as a success
  does; every other failure stops a debug build with the mutex already released.
\<close>

theorem present_batch:
  assumes "submittable w q" and "queues w q = Some Q" and "pd_swapchain desc \<noteq> NULL"
    and "swapchains w (pd_swapchain desc) = Some SC" and "live_semaphores w (pd_wait_semaphores desc)"
  shows "\<exists>info t v. pv_waits info = flagged_handles True w (pd_wait_semaphores desc)
    \<and> present_pSwapchain info = pVkSwapChain SC \<and> present_imageIndex info = pd_index desc
    \<and> t = trace w @ [VkQueue (MutexAcquire (queue_pMutex Q)), VkQueue (VkQueuePresentKHR (pVkQueue Q) info),
                     VkQueue (MutexRelease (queue_pMutex Q))]
    \<and> v = w\<lparr>semaphores := set_flags False (pd_wait_semaphores desc) (semaphores w), trace := t\<rparr>
    \<and> cgpu_queue_present_vulkan V q desc w =
        (if vk_debug V \<and> vk_result (vk_drv V (trace w @ [VkQueue (MutexAcquire (queue_pMutex Q))])
              (VkQueue (VkQueuePresentKHR (pVkQueue Q) info)))
            \<notin> {VK_SUCCESS, VK_SUBOPTIMAL_KHR, VK_ERROR_OUT_OF_DATE_KHR}
         then Inl (AssertFail ''Present failed!'') else Inr ((), v))"
proof -
  let ?ws = "pd_wait_semaphores desc"
  obtain D where Q: "q \<noteq> NULL" "queue_pMutex Q \<noteq> 0" "queue_device Q \<noteq> 0" "devices w (queue_device Q) = Some D"
    using assms(1,2) by (auto simp: submittable_def)
  have take: "take (length (flagged_handles True w ?ws)) (waited_array w ?ws) = flagged_handles True w ?ws"
    using flagged_handles_length [of True w ?ws] by (simp add: waited_array_def overwrite_def)
  show ?thesis
    by (rule exI [where x = "\<lparr>present_waitSemaphoreCount = length (flagged_handles True w ?ws),
            present_pWaitSemaphores = waited_array w ?ws,
            present_pSwapchain = pVkSwapChain SC, present_imageIndex = pd_index desc\<rparr>"])
      (use Q assms(2-4) collect_waits [OF assms(5)] take in
        \<open>auto simp: cgpu_queue_present_vulkan_def deref_run assertc_run bindP_run Let_def acquire_queue_mutex_def
          release_queue_mutex_def vk_do_run pv_waits_def simp del: replicate.simps\<close>)
qed

theorem present_batch_witness:
  "\<exists>info v. pv_waits info = [611] \<and> present_imageIndex info = 2
     \<and> trace v = [VkQueue (MutexAcquire 22), VkQueue (VkQueuePresentKHR 506 info), VkQueue (MutexRelease 22)]
     \<and> cgpu_queue_present_vulkan sample_vk 5 \<lparr>pd_swapchain = 18, pd_wait_semaphores = [11, 12], pd_index = 2\<rparr> sample_world
         = Inr ((), v)"
  using present_batch [of sample_world 5 sample_queue "\<lparr>pd_swapchain = 18, pd_wait_semaphores = [11, 12], pd_index = 2\<rparr>"
      "the (swapchains sample_world 18)" sample_vk]
  by (auto simp: submittable_def live_semaphores_def flagged_handles_def sample_queue_def sample_driver_def)

end
