(* ===== verification/Queue_Facts.thy ===== *)
theory Queue_Facts
  imports Vk_Sample
begin

text \<open>
  The queues of a device. The front end remembers the queues it has handed out in the runtime
  table of the instance; asking again gives the same queue and does not reach the backend. The
  number of queues of each type is the partition of the queue families by what they serve best.
\<close>

section \<open>The table behind a device\<close>

text \<open>The address of the runtime table of the instance of a device, when the chain is whole.\<close>

definition table_addr :: "vk_world \<Rightarrow> CGPUDeviceId \<Rightarrow> ptr option" where
  "table_addr w device =
     (if device = NULL then None else
      case devices w device of None \<Rightarrow> None | Some D \<Rightarrow>
     (if device_adapter D = NULL then None else
      case adapters w (device_adapter D) of None \<Rightarrow> None | Some A \<Rightarrow>
     (if adapter_instance A = NULL then None else
      case instances w (adapter_instance A) of None \<Rightarrow> None | Some I \<Rightarrow> Some (inst_runtime_table I))))"

lemma runtime_table_of_run:
  "runtime_table_of device k w = Inr x \<longleftrightarrow> (\<exists>a. table_addr w device = Some a \<and> k a w = Inr x)"
  by (auto simp: runtime_table_of_def table_addr_def deref_run split: option.split)

text \<open>What a queue request may read and must not change.\<close>

definition hierarchy :: "vk_world \<Rightarrow> _" where
  "hierarchy w = (runtime_tables w, devices w, adapters w, instances w)"

lemma table_addr_hierarchy: "snd (hierarchy v) = snd (hierarchy w) \<Longrightarrow> table_addr v d = table_addr w d"
  by (auto simp: hierarchy_def table_addr_def split: option.split)

lemma vk_creates_keep:
  "keeps hierarchy (cgpu_create_command_pool_vulkan V q)"
  "keeps hierarchy (cgpu_create_command_buffer_vulkan V cp cbd)"
  "keeps hierarchy (cgpu_create_fence_vulkan V d)"
  unfolding cgpu_create_command_pool_vulkan_def allocate_transient_command_pool_def queue_family_def
    cgpu_create_command_buffer_vulkan_def cgpu_create_fence_vulkan_def
  by (intro keeps_intros; simp add: hierarchy_def)+

lemma creates_keep:
  "keeps hierarchy (cgpu_create_command_pool (system_env V R base p n) q)"
  "keeps hierarchy (cgpu_create_command_buffer (system_env V R base p n) cp cbd)"
  "keeps hierarchy (cgpu_create_fence (system_env V R base p n) d)"
  unfolding cgpu_create_command_pool_def cgpu_create_command_buffer_def cgpu_create_fence_def device_table_def
  by (intro system_keeps keeps_intros; auto simp: vk_table_defs vk_creates_keep hierarchy_def)+

lemma get_queue_vulkan_keeps:
  "keeps hierarchy (cgpu_get_queue_vulkan V (system_env V R base p n) d t i)"
  unfolding cgpu_get_queue_vulkan_def queue_family_def new_mutex_def
  by (intro keeps_intros creates_keep; simp add: hierarchy_def)

section \<open>A request for a queue\<close>

lemma get_queue_tbl: "get_queue (tbl_vk V R E base) = Some (cgpu_get_queue_vulkan V E)"
  by (simp add: vk_table_defs)

text \<open>A request reads or extends the table as the cache does.\<close>

lemma get_queue_effect:
  assumes "cgpu_get_queue (system_env V R base p n) d t i w = Inr (q, v)"
  obtains a tbl fresh tbl' where "table_addr w d = Some a" "a \<noteq> NULL" "runtime_tables w a = Some tbl"
    "fresh \<noteq> NULL" "rt.get_or_add (d, t, i) fresh tbl = (q, tbl')"
    "runtime_tables v = (runtime_tables w)(a \<mapsto> tbl')" "snd (hierarchy v) = snd (hierarchy w)" "q \<noteq> NULL"
proof -
  obtain m a tbl where dev: "table_addr w d = Some a" "a \<noteq> NULL" "runtime_tables w a = Some tbl"
    and run: "(if TryFindQueue tbl d t i \<noteq> NULL then ret (TryFindQueue tbl d t i)
      else bindP (cgpu_get_queue_vulkan V (system_env V R base p m) d t i) (\<lambda>queue.
           store queues queues_update queue
             (\<lambda>Q. Q\<lparr>queue_index := i, queue_type := t, queue_device := d\<rparr>) (
           cgpu_runtime_table_add_queue queue t i (ret queue)))) w = Inr (q, v)"
    using assms unfolding cgpu_get_queue_def device_table_def cgpu_runtime_table_try_get_queue_def
    by (auto simp: get_queue_tbl proc_def runtime_table_of_run cong: if_cong elim!: assertc_end deref_end system_proc)
  show thesis
  proof (cases "TryFindQueue tbl d t i = NULL")
    case False
    then show ?thesis
      using run dev by (intro that [of a tbl 1 tbl]) (auto simp: rt.get_or_add_def rt_lookup_def)
  next
    case True
    obtain f u Q where f: "cgpu_get_queue_vulkan V (system_env V R base p m) d t i w = Inr (f, u)"
      and Q: "f \<noteq> NULL" "queues u f = Some Q"
      and rest: "cgpu_runtime_table_add_queue f t i (ret f)
           (queues_update (\<lambda>m. m(f \<mapsto> Q\<lparr>queue_index := i, queue_type := t, queue_device := d\<rparr>)) u) = Inr (q, v)"
      using run True by (auto simp: store_run elim!: bindP_end split: if_splits option.splits)
    have "f = q"
      using rest by (auto simp: cgpu_runtime_table_add_queue_def runtime_table_of_run store_run deref_run
          split: if_splits option.splits)
    with f Q rest have u: "cgpu_get_queue_vulkan V (system_env V R base p m) d t i w = Inr (q, u)"
      and q: "q \<noteq> NULL"
      and rest: "cgpu_runtime_table_add_queue q t i (ret q)
           (queues_update (\<lambda>m. m(q \<mapsto> Q\<lparr>queue_index := i, queue_type := t, queue_device := d\<rparr>)) u) = Inr (q, v)"
      by simp_all
    have keep: "hierarchy u = hierarchy w"
      using keepsD [OF get_queue_vulkan_keeps u] .
    let ?u = "queues_update (\<lambda>m. m(q \<mapsto> Q\<lparr>queue_index := i, queue_type := t, queue_device := d\<rparr>)) u"
    have hu: "hierarchy ?u = hierarchy w" using keep by (simp add: hierarchy_def)
    then have u': "table_addr ?u = table_addr w" "runtime_tables ?u = runtime_tables w"
      by (auto simp: fun_eq_iff intro: table_addr_hierarchy) (simp add: hierarchy_def)
    have "v = ?u\<lparr>runtime_tables := (runtime_tables w)(a \<mapsto> AddNewQueue d q t i tbl)\<rparr>"
      using rest dev u' by (auto simp: cgpu_runtime_table_add_queue_def runtime_table_of_run store_run deref_run
          split: if_splits option.splits)
    moreover have "rt.get_or_add (d, t, i) q tbl = (q, AddNewQueue d q t i tbl)"
      using True by (simp add: rt.get_or_add_def rt_lookup_def) (simp add: rt_insert_def)
    ultimately show ?thesis
      using dev q hu
      by (intro that [of a tbl q "AddNewQueue d q t i tbl"]) (auto simp: hierarchy_def)
  qed
qed

text \<open>Requests for queues of any devices, one after the other.\<close>

inductive requests :: "cgpu_env \<Rightarrow> vk_world \<Rightarrow> (CGPUDeviceId \<times> ECGPUQueueType \<times> nat) list \<Rightarrow> vk_world \<Rightarrow> bool"
  for E where
  requests_nil: "requests E w [] w"
| requests_step: "requests E w ks u \<Longrightarrow> cgpu_get_queue E d t i u = Inr (q, v) \<Longrightarrow> requests E w (ks @ [(d, t, i)]) v"

lemma requests_keep:
  assumes "requests (system_env V R base p n) w ks v"
    and "runtime_tables w a = Some tbl" and "rt_lookup tbl k \<noteq> NULL"
  shows "snd (hierarchy v) = snd (hierarchy w) \<and> (\<exists>tbl'. runtime_tables v a = Some tbl' \<and> rt_lookup tbl' k = rt_lookup tbl k)"
  using assms
proof induction
  case (requests_step w ks u d' t i q v)
  obtain tbl1 where u: "snd (hierarchy u) = snd (hierarchy w)" "runtime_tables u a = Some tbl1" "rt_lookup tbl1 k = rt_lookup tbl k"
    using requests_step by blast
  obtain b tb fresh tb' where "runtime_tables u b = Some tb" "rt.get_or_add (d', t, i) fresh tb = (q, tb')"
      "runtime_tables v = (runtime_tables u)(b \<mapsto> tb')" "snd (hierarchy v) = snd (hierarchy u)"
    using requests_step.hyps(2) by (rule get_queue_effect)
  then show ?case
    using u requests_step.prems(2) rt.get_or_add_stable [of tb k "(d', t, i)" fresh] by auto
qed simp

text \<open>A request for a queue that is in the table.\<close>

lemma get_queue_hit:
  assumes "cgpu_get_queue (system_env V R base p n) d t i w = Inr (q', u)" and "table_addr w d = Some a"
    and "snd (hierarchy v) = snd (hierarchy w)" and "runtime_tables v a = Some tbl"
    and "rt_lookup tbl (d, t, i) = q" and "q \<noteq> NULL" and "a \<noteq> NULL"
  shows "cgpu_get_queue (system_env V R base p n) d t i v = Inr (q, v)"
proof -
  have "table_addr v d = Some a" using assms(2,3) table_addr_hierarchy by metis
  moreover have "devices v = devices w" using assms(3) by (simp add: hierarchy_def)
  ultimately have look: "cgpu_runtime_table_try_get_queue d t i k v = k q v" for k :: "CGPUQueueId \<Rightarrow> CGPUQueueId vk_prog"
    using assms(4-7)
    by (auto simp: cgpu_runtime_table_try_get_queue_def runtime_table_of_def table_addr_def rt_lookup_def deref_run
        split: if_splits option.splits)
  show ?thesis
    using assms(1,6) \<open>devices v = devices w\<close> unfolding cgpu_get_queue_def
    by (auto simp: look assertc_run device_table_run table_at_run split: if_splits option.splits)
qed

section \<open>Properties\<close>

text \<open>
  Property C7: a queue is created once. Once a queue was handed out for a device, type and index,
  every later request for the same, after any requests for other queues of any device, gives the
  same handle, leaves the world as it is and issues no driver call. It holds in every build and
  for every backend entry that is not modelled.
\<close>

theorem queue_is_created_once:
  assumes "cgpu_get_queue (system_env V R base p n) d t i w = Inr (q, u)"
    and "\<forall>tbl \<in> ran (runtime_tables w). rt_ok tbl"
    and "requests (system_env V R base p n) u ks v"
  shows "cgpu_get_queue (system_env V R base p n) d t i v = Inr (q, v)"
proof -
  obtain a tbl fresh tbl' where w: "table_addr w d = Some a" "a \<noteq> NULL" "runtime_tables w a = Some tbl"
    "fresh \<noteq> NULL" "rt.get_or_add (d, t, i) fresh tbl = (q, tbl')"
    "runtime_tables u = (runtime_tables w)(a \<mapsto> tbl')" "snd (hierarchy u) = snd (hierarchy w)" "q \<noteq> NULL"
    using assms(1) by (rule get_queue_effect)
  have "rt_ok tbl" using assms(2) w(3) by (auto simp: ran_def)
  then have "rt.get_or_add (d, t, i) NULL tbl' = (q, tbl')"
    using rt.get_or_add_again w(4,5) by blast
  then have look: "rt_lookup tbl' (d, t, i) = q"
    using w(8) by (auto simp: rt.get_or_add_def split: if_splits)
  obtain tbl2 where "snd (hierarchy v) = snd (hierarchy u)" "runtime_tables v a = Some tbl2"
      "rt_lookup tbl2 (d, t, i) = q"
    using requests_keep [OF assms(3), of a tbl' "(d, t, i)"] w(6,8) look by auto
  then show ?thesis using get_queue_hit [OF assms(1) w(1)] w by simp
qed

text \<open>A second queue of the compute type, requested after the first.\<close>

lemmas queue_run_defs = cgpu_get_queue_def runtime_table_defs cgpu_get_queue_vulkan_def queue_family_def
  new_mutex_def cgpu_create_command_pool_def cgpu_create_command_buffer_def cgpu_create_fence_def
  cgpu_create_command_pool_vulkan_def allocate_transient_command_pool_def
  cgpu_create_command_buffer_vulkan_def cgpu_create_fence_vulkan_def

lemma sample_queue_requests:
  "\<exists>u v. cgpu_get_queue sample_env 3 CGPU_QUEUE_TYPE_GRAPHICS 0 sample_world = Inr (100, u)
     \<and> cgpu_get_queue sample_env 3 CGPU_QUEUE_TYPE_COMPUTE 1 u = Inr (105, v)"
  by (simp add: queue_run_defs prog_simps vk_table_defs sample_defs vk_out_def TryFindQueue_find)

theorem queue_is_created_once_witness:
  "\<exists>u v. cgpu_get_queue sample_env 3 CGPU_QUEUE_TYPE_GRAPHICS 0 sample_world = Inr (100, u)
     \<and> requests sample_env u [(3, CGPU_QUEUE_TYPE_COMPUTE, 1)] v
     \<and> cgpu_get_queue sample_env 3 CGPU_QUEUE_TYPE_GRAPHICS 0 v = Inr (100, v)"
proof -
  obtain u v where u: "cgpu_get_queue sample_env 3 CGPU_QUEUE_TYPE_GRAPHICS 0 sample_world = Inr (100, u)"
      and v: "cgpu_get_queue sample_env 3 CGPU_QUEUE_TYPE_COMPUTE 1 u = Inr (105, v)"
    using sample_queue_requests by blast
  have r: "requests sample_env u [(3, CGPU_QUEUE_TYPE_COMPUTE, 1)] v"
    using requests_step [OF requests_nil v] by simp
  have "\<forall>tbl \<in> ran (runtime_tables sample_world). rt_ok tbl"
    by (simp add: rt_ok_def)
  then have "cgpu_get_queue sample_env 3 CGPU_QUEUE_TYPE_GRAPHICS 0 v = Inr (100, v)"
    using u r unfolding sample_env_def by (intro queue_is_created_once)
  with u r show ?thesis by blast
qed

lemma count_queues_sum:
  assumes "sum_list (map queueCount props) < 2 ^ 32"
  shows "count_queues type props = sum_list (map queueCount (filter (family_serves type) props))"
proof -
  have "fold (\<lambda>prop count. if family_serves type prop then (count + queueCount prop) mod 2 ^ 32 else count) props n
      = n + sum_list (map queueCount (filter (family_serves type) props))"
    if "n + sum_list (map queueCount props) < 2 ^ 32" for n
    using that
  proof (induction props arbitrary: n)
    case (Cons x props)
    then show ?case
      using Cons.IH [of "n + queueCount x"] Cons.IH [of n] by simp
  qed simp
  from this [of 0] assms show ?thesis by (simp add: count_queues_def)
qed



end
