(* ===== verification/Build_Facts.thy ===== *)
theory Build_Facts
  imports Pass_Facts Fence_Facts
begin

text \<open>
  Debug and release builds. The two differ in the assertions alone, so a run of a debug build that
  ends well is, call for call, the run of the release build: assertions stop programs and do
  nothing else.
\<close>

abbreviation release_build :: "vk_env \<Rightarrow> vk_env" where
  "release_build V \<equiv> V\<lparr>vk_debug := False\<rparr>"

lemma vk_do_release [simp]: "vk_do (release_build V) = vk_do V"
  by (simp add: vk_do_def fun_eq_iff)

lemma release_sel:
  "vk_debug (release_build V) = False" "vk_drv (release_build V) = vk_drv V"
  "hash_render_pass (release_build V) = hash_render_pass V"
  "hash_framebuffer (release_build V) = hash_framebuffer V" "float_add (release_build V) = float_add V"
  by simp_all

lemma le_CHECK_VKRESULT [le_intros]:
  "prog_le k k' \<Longrightarrow> prog_le (CHECK_VKRESULT V r k) (CHECK_VKRESULT (release_build V) r k')"
  by (simp add: prog_le_def CHECK_VKRESULT_run)

lemma le_fail [le_intros]: "prog_le (fail e) p"
  by (simp add: prog_le_def)

lemma le_update_at [le_intros]:
  "(\<And>x. prog_le (k x) (k' x)) \<Longrightarrow> prog_le (update_at n xs i y k) (update_at n xs i y k')"
  by (simp add: prog_le_def update_at_run)

lemma le_initialized [le_intros]:
  "(\<And>x. prog_le (k x) (k' x)) \<Longrightarrow> prog_le (initialized n x k) (initialized n x k')"
  by (simp add: prog_le_def initialized_run split: option.splits)

lemma le_map_each [le_intros]:
  "(\<And>x. prog_le (body x) (body' x)) \<Longrightarrow> prog_le (map_each xs body) (map_each xs body')"
  by (induction xs) (auto intro!: le_intros)

lemma le_case_query [le_intros]:
  assumes "prog_le a a'" and "prog_le b b'" and "prog_le c c'" and "prog_le d d'"
  shows "prog_le (case t of VK_QUERY_TYPE_OCCLUSION \<Rightarrow> a | VK_QUERY_TYPE_PIPELINE_STATISTICS \<Rightarrow> b
    | VK_QUERY_TYPE_TIMESTAMP \<Rightarrow> c | VK_QUERY_TYPE_MAX_ENUM \<Rightarrow> d)
    (case t of VK_QUERY_TYPE_OCCLUSION \<Rightarrow> a' | VK_QUERY_TYPE_PIPELINE_STATISTICS \<Rightarrow> b'
    | VK_QUERY_TYPE_TIMESTAMP \<Rightarrow> c' | VK_QUERY_TYPE_MAX_ENUM \<Rightarrow> d')"
  using assms by (cases t) simp_all

lemma vk_procs_le:
  shows "prog_le (cgpu_cmd_begin_vulkan V cmd) (cgpu_cmd_begin_vulkan (release_build V) cmd)"
    and "prog_le (cgpu_cmd_transfer_buffer_to_buffer_vulkan V cmd desc1) (cgpu_cmd_transfer_buffer_to_buffer_vulkan (release_build V) cmd desc1)"
    and "prog_le (cgpu_cmd_transfer_buffer_to_texture_vulkan V cmd desc2) (cgpu_cmd_transfer_buffer_to_texture_vulkan (release_build V) cmd desc2)"
    and "prog_le (cgpu_cmd_transfer_texture_to_texture_vulkan V cmd desc3) (cgpu_cmd_transfer_texture_to_texture_vulkan (release_build V) cmd desc3)"
    and "prog_le (cgpu_cmd_resource_barrier_vulkan V cmd desc4) (cgpu_cmd_resource_barrier_vulkan (release_build V) cmd desc4)"
    and "prog_le (cgpu_cmd_begin_query_vulkan V cmd pool5 desc5) (cgpu_cmd_begin_query_vulkan (release_build V) cmd pool5 desc5)"
    and "prog_le (cgpu_cmd_reset_query_pool_vulkan V cmd pool7 start7 count7) (cgpu_cmd_reset_query_pool_vulkan (release_build V) cmd pool7 start7 count7)"
    and "prog_le (cgpu_cmd_resolve_query_vulkan V cmd pool8 readback8 start8 count8) (cgpu_cmd_resolve_query_vulkan (release_build V) cmd pool8 readback8 start8 count8)"
    and "prog_le (cgpu_cmd_end_vulkan V cmd) (cgpu_cmd_end_vulkan (release_build V) cmd)"
    and "prog_le (cgpu_cmd_begin_compute_pass_vulkan V cmd desc10) (cgpu_cmd_begin_compute_pass_vulkan (release_build V) cmd desc10)"
    and "prog_le (cgpu_compute_encoder_bind_descriptor_set_vulkan V cmd dset11) (cgpu_compute_encoder_bind_descriptor_set_vulkan (release_build V) cmd dset11)"
    and "prog_le (cgpu_compute_encoder_push_constants_vulkan V cmd rs12 name12 data12) (cgpu_compute_encoder_push_constants_vulkan (release_build V) cmd rs12 name12 data12)"
    and "prog_le (cgpu_compute_encoder_bind_pipeline_vulkan V cmd pipeline13) (cgpu_compute_encoder_bind_pipeline_vulkan (release_build V) cmd pipeline13)"
    and "prog_le (cgpu_compute_encoder_dispatch_vulkan V cmd X14 Y14 Z14) (cgpu_compute_encoder_dispatch_vulkan (release_build V) cmd X14 Y14 Z14)"
    and "prog_le (cgpu_cmd_end_compute_pass_vulkan V cmd encoder15) (cgpu_cmd_end_compute_pass_vulkan (release_build V) cmd encoder15)"
    and "prog_le (cgpu_cmd_begin_render_pass_vulkan V cmd desc16) (cgpu_cmd_begin_render_pass_vulkan (release_build V) cmd desc16)"
    and "prog_le (cgpu_render_encoder_bind_descriptor_set_vulkan V cmd dset17) (cgpu_render_encoder_bind_descriptor_set_vulkan (release_build V) cmd dset17)"
    and "prog_le (cgpu_render_encoder_set_viewport_vulkan V cmd x18 y18 width18 height18 min_depth18 max_depth18) (cgpu_render_encoder_set_viewport_vulkan (release_build V) cmd x18 y18 width18 height18 min_depth18 max_depth18)"
    and "prog_le (cgpu_render_encoder_set_scissor_vulkan V cmd x19 y19 width19 height19) (cgpu_render_encoder_set_scissor_vulkan (release_build V) cmd x19 y19 width19 height19)"
    and "prog_le (cgpu_render_encoder_bind_pipeline_vulkan V cmd pipeline20) (cgpu_render_encoder_bind_pipeline_vulkan (release_build V) cmd pipeline20)"
    and "prog_le (cgpu_render_encoder_bind_vertex_buffers_vulkan V cmd bufs21 strides21 offsets21) (cgpu_render_encoder_bind_vertex_buffers_vulkan (release_build V) cmd bufs21 strides21 offsets21)"
    and "prog_le (cgpu_render_encoder_bind_index_buffer_vulkan V cmd buffer22 stride22 offset22) (cgpu_render_encoder_bind_index_buffer_vulkan (release_build V) cmd buffer22 stride22 offset22)"
    and "prog_le (cgpu_render_encoder_push_constants_vulkan V cmd rs23 name23 data23) (cgpu_render_encoder_push_constants_vulkan (release_build V) cmd rs23 name23 data23)"
    and "prog_le (cgpu_render_encoder_draw_vulkan V cmd vertices24 first24) (cgpu_render_encoder_draw_vulkan (release_build V) cmd vertices24 first24)"
    and "prog_le (cgpu_render_encoder_draw_instanced_vulkan V cmd vertices25 first25 insts25 base25) (cgpu_render_encoder_draw_instanced_vulkan (release_build V) cmd vertices25 first25 insts25 base25)"
    and "prog_le (cgpu_render_encoder_draw_indexed_vulkan V cmd indices26 first26 vertex26) (cgpu_render_encoder_draw_indexed_vulkan (release_build V) cmd indices26 first26 vertex26)"
    and "prog_le (cgpu_render_encoder_draw_indexed_instanced_vulkan V cmd indices27 first27 insts27 base27 vertex27) (cgpu_render_encoder_draw_indexed_instanced_vulkan (release_build V) cmd indices27 first27 insts27 base27 vertex27)"
    and "prog_le (cgpu_cmd_end_render_pass_vulkan V cmd encoder28) (cgpu_cmd_end_render_pass_vulkan (release_build V) cmd encoder28)"
    and "prog_le (cgpu_cmd_begin_event_vulkan V cmd event29) (cgpu_cmd_begin_event_vulkan (release_build V) cmd event29)"
    and "prog_le (cgpu_cmd_set_marker_vulkan V cmd marker30) (cgpu_cmd_set_marker_vulkan (release_build V) cmd marker30)"
    and "prog_le (cgpu_cmd_end_event_vulkan V cmd) (cgpu_cmd_end_event_vulkan (release_build V) cmd)"
    and "prog_le (cgpu_create_fence_vulkan V d) (cgpu_create_fence_vulkan (release_build V) d)"
    and "prog_le (cgpu_wait_fences_vulkan V fs) (cgpu_wait_fences_vulkan (release_build V) fs)"
    and "prog_le (cgpu_query_fence_status_vulkan V f) (cgpu_query_fence_status_vulkan (release_build V) f)"
    and "prog_le (cgpu_free_fence_vulkan V f) (cgpu_free_fence_vulkan (release_build V) f)"
    and "prog_le (cgpu_submit_queue_vulkan V q sd) (cgpu_submit_queue_vulkan (release_build V) q sd)"
    and "prog_le (cgpu_queue_present_vulkan V q pd) (cgpu_queue_present_vulkan (release_build V) q pd)"
    and "prog_le (cgpu_wait_queue_idle_vulkan V q) (cgpu_wait_queue_idle_vulkan (release_build V) q)"
    and "prog_le (cgpu_acquire_next_image_vulkan V sc an) (cgpu_acquire_next_image_vulkan (release_build V) sc an)"
  unfolding vk_cmd_defs vk_sync_defs vk_do_release release_sel
  by (intro le_intros; simp?)+

lemma system_le:
  assumes "\<And>m. prog_le (k (tbl_vk V R (system_env V R base p m) base))
      (k' (tbl_vk (release_build V) R (system_env (release_build V) R base p m) base))"
  shows "prog_le (table_at (system_env V R base p n) q k) (table_at (system_env (release_build V) R base p n) q k')"
proof (rule le_table_at)
  fix T
  assume "proc_tables (system_env V R base p n) q = Some T"
  then obtain m where "n = Suc m" "q = p" "T = tbl_vk V R (system_env V R base p m) base"
    using system_table by blast
  then show "\<exists>T'. proc_tables (system_env (release_build V) R base p n) q = Some T' \<and> prog_le (k T) (k' T')"
    using assms by (simp add: system_env.simps(2))
qed

lemma le_checked_Some: "prog_le (k f) (k' f') \<Longrightarrow> prog_le (checked_proc d (Some f) m k) (checked_proc d' (Some f') m k')"
  by (simp add: prog_le_def checked_proc_run)

lemma le_desc_ptr [le_intros]: "(\<And>x. prog_le (k x) (k' x)) \<Longrightarrow> prog_le (desc_ptr d k) (desc_ptr d k')"
  by (cases d) (simp_all add: desc_ptr_def le_intros)

lemma begin_query_le:
  "prog_le (cgpu_cmd_begin_query (system_env V R base p n) c pool desc)
           (cgpu_cmd_begin_query (system_env (release_build V) R base p n) c pool desc)"
  unfolding cgpu_cmd_begin_query_def device_table_def
  by (intro system_le le_intros; simp add: vk_table_defs vk_procs_le)

lemma exec_le:
  "prog_le (exec (system_env V R base p n) cmd op) (exec (system_env (release_build V) R base p n) cmd op)"
  by (cases op; simp only: exec.simps cmd_api_defs)
    (intro system_le le_intros; auto simp: vk_table_defs vk_procs_le cgpu_cmd_end_query_vulkan_def begin_query_le)+

lemma le_case_list [le_intros]:
  "prog_le p p' \<Longrightarrow> (\<And>x xs. prog_le (q x xs) (q' x xs))
    \<Longrightarrow> prog_le (case l of [] \<Rightarrow> p | x # xs \<Rightarrow> q x xs) (case l of [] \<Rightarrow> p' | x # xs \<Rightarrow> q' x xs)"
  by (cases l) simp_all

lemma exec_sync_le:
  "prog_le (exec_sync (system_env V R base p n) op) (exec_sync (system_env (release_build V) R base p n) op)"
  by (cases op; simp only: exec_sync.simps sync_api_defs device_table_def)
    (intro system_le le_intros; auto simp: vk_table_defs vk_procs_le)+

section \<open>Properties\<close>



end
