(* ===== verification/Layout_Facts.thy ===== *)
theory Layout_Facts
  imports Vk_Sample
begin

text \<open>
  The descriptor set layouts of a root signature. The number of sets is the number of bits of the
  mask of set indices, and the array of that many layouts is indexed by the set index; so a
  signature can be built only when its sets are numbered without a gap.
\<close>

section \<open>The number of sets\<close>

lemma finite_bits: "finite {i. bit (m :: u32) i}"
  by (rule finite_subset [of _ "{..<32}"]) (auto dest: bit_imp_le_length)

lemma card_bits_shift: "card {i. bit (m :: u32) i} = (if bit m 0 then 1 else 0) + card {i. bit (drop_bit 1 m) i}"
proof -
  have "{i. bit m i \<and> i \<noteq> 0} = Suc ` {i. bit m (Suc i)}"
  proof (intro set_eqI iffI)
    fix i
    assume "i \<in> {i. bit m i \<and> i \<noteq> 0}"
    then obtain j where "i = Suc j" "bit m (Suc j)" by (cases i) auto
    then show "i \<in> Suc ` {i. bit m (Suc i)}" by blast
  qed auto
  then have rest: "card {i. bit m i \<and> i \<noteq> 0} = card {i. bit m (Suc i)}"
    by (simp add: card_image)
  have "{i. bit m i} = (if bit m 0 then {0} else {}) \<union> {i. bit m i \<and> i \<noteq> 0}"
    by (auto intro: gr0I)
  then have "card {i. bit m i} = (if bit m 0 then 1 else 0) + card {i. bit m i \<and> i \<noteq> 0}"
    by (subst \<open>{i. bit m i} = _\<close>, subst card_Un_disjoint)
      (auto intro: finite_subset [OF _ finite_bits [of m]])
  then show ?thesis using rest by (simp add: bit_drop_bit_eq)
qed

lemma get_set_count_from_card: "get_set_count_from m n = n + card {i. bit m i}"
proof (induction m n rule: get_set_count_from.induct)
  case (1 m n)
  show ?case
  proof (cases "m = 0")
    case False
    have "m AND 1 \<noteq> 0 \<longleftrightarrow> bit m 0" by (simp add: and_one_eq bit_0 odd_iff_mod_2_eq_one)
    then show ?thesis
      using 1 [OF False] False card_bits_shift [of m]
      by (subst get_set_count_from.simps) (simp del: get_set_count_from.simps)
  qed simp
qed

lemma get_set_count_card: "get_set_count m = card {i. bit m i}"
  by (simp add: get_set_count_def get_set_count_from_card del: get_set_count_from.simps)

section \<open>The mask\<close>

lemma collect_set_mask_end:
  assumes "collect_set_mask ss m k w = Inr x"
  obtains m' where "k m' w = Inr x" "\<And>i. bit m' i \<longleftrightarrow> bit m i \<or> i \<in> set ss" "\<forall>s \<in> set ss. s < 32"
  using assms
proof (induction ss arbitrary: m thesis)
  case Nil
  then show ?case by simp
next
  case (Cons s ss)
  have s: "s < 32" and run: "collect_set_mask ss (m OR push_bit s 1) k w = Inr x"
    using Cons.prems(2) by (auto split: if_splits)
  obtain m' where "k m' w = Inr x" "\<And>i. bit m' i \<longleftrightarrow> bit (m OR push_bit s 1) i \<or> i \<in> set ss" "\<forall>s \<in> set ss. s < 32"
    using Cons.IH [OF _ run] by blast
  then show ?case
    using s by (intro Cons.prems(1) [of m']) (auto simp: bit_simps)
qed

section \<open>The layouts\<close>

lemma create_set_layouts_end:
  assumes "create_set_layouts V device desc RS m ss layouts w = Inr x" and "s \<in> set ss" and "bit m s"
  shows "s < length layouts"
  using assms
proof (induction ss arbitrary: layouts w)
  case (Cons t ss)
  show ?case
  proof (cases "bit m t")
    case True
    have IH: "s < length ls" if "create_set_layouts V device desc RS m ss ls v = Inr x" "s \<noteq> t" for ls v
      using Cons.IH [OF that(1)] Cons.prems(2,3) that(2) by simp
    show ?thesis
      using Cons.prems(1) True
      by (cases "s = t") (auto simp: vk_do_run index_of_run CHECK_VKRESULT_run assertc_run VkUtil_ConsumeDescriptorSets_def
          elim!: bindP_end deref_end split: if_splits dest!: IH)
  next
    case False
    then show ?thesis using Cons.IH Cons.prems by auto
  qed
qed simp

section \<open>Properties\<close>

text \<open>
  Property C30: the number of sets of a root signature is the number of bits of its mask.
\<close>

theorem set_count_is_population_count: "get_set_count m = card {i. i < 32 \<and> bit m i}"
  unfolding get_set_count_card by (rule arg_cong [where f = card]) (auto dest: bit_imp_le_length)


text \<open>A signature with two tables, in the sets 0 and 1.\<close>

definition two_set_signature :: CGPURootSignature_Vulkan where
  "two_set_signature = \<lparr>rs_device = 3,
     rs_tables = [\<lparr>tab_resources = [], tab_set_index = 0\<rparr>, \<lparr>tab_resources = [], tab_set_index = 1\<rparr>],
     rs_push_constants = [], rs_static_samplers = [], rs_pipeline_type = CGPU_PIPELINE_TYPE_COMPUTE,
     rs_pool = NULL, rs_pool_sig = NULL, pPipelineLayout = 0, pSetLayouts = [], pPushConstRanges = []\<rparr>"

definition empty_rs_desc :: CGPURootSignatureDescriptor where
  "empty_rs_desc = \<lparr>rsd_shaders = [], rsd_static_samplers = [], rsd_static_sampler_names = [],
     rsd_push_constant_names = [], rsd_pool = NULL\<rparr>"

lemma two_sets_built:
  "\<exists>x. create_signature_objects sample_vk 3 empty_rs_desc 50 (ret ())
     (sample_world\<lparr>root_sigs := [50 \<mapsto> two_set_signature]\<rparr>) = Inr x"
  by (simp add: create_signature_objects_def two_set_signature_def empty_rs_desc_def prog_simps upt_rec
      get_set_count_def set_bindings_def VkUtil_ConsumeDescriptorSets_def sample_defs vk_out_def bit_simps)


end
