(* ===== verification/Render_Pass_Facts.thy ===== *)
theory Render_Pass_Facts
  imports Vk_Sample
begin

text \<open>
  Render passes of the Vulkan backend: the shape of the attachment references, the reuse of
  cached passes and framebuffers, and the passes that cannot be begun.
\<close>

section \<open>Attachment references\<close>

lemma resolve_attachments_shape:
  assumes "resolve_attachments desc slots ssidx = (ds, refs)"
  shows "length refs = length slots" and "length ds \<le> length slots"
    and "\<forall>r \<in> set refs. ar_attachment r = VK_ATTACHMENT_UNUSED
      \<or> (\<exists>j. ar_attachment r = word_of_nat j \<and> ssidx \<le> j \<and> j < ssidx + length ds)"
  using assms
proof (induction slots arbitrary: ssidx ds refs)
  case (Cons i slots)
  {
    case 1
    then show ?case using Cons.IH(1) by (fastforce split: if_splits prod.splits)
  next
    case 2
    then show ?case using Cons.IH(2) by (fastforce split: if_splits prod.splits)
  next
    case 3
    then show ?case using Cons.IH(3) by (fastforce split: if_splits prod.splits)
  }
qed simp_all

lemma map_each_end:
  "map_each xs body w = Inr (ys, v) \<Longrightarrow> length ys = length xs"
  by (induction xs arbitrary: ys w v) (auto simp: bindP_run split: sum.splits prod.splits)

lemma color_attachments_fit:
  assumes "map_each [0..<n] (color_attachment desc) w = Inr (ys, v)"
  shows "n \<le> length (pColorFormats desc)"
proof (cases n)
  case (Suc m)
  have "m < length (pColorFormats desc)"
  proof (rule ccontr)
    assume "\<not> m < length (pColorFormats desc)"
    then have bad: "color_attachment desc m u = Inl (OutOfBounds ''pColorFormats'')" for u :: vk_world
      by (simp add: color_attachment_def index_of_run)
    have "map_each (xs @ [m]) (color_attachment desc) u \<noteq> Inr x" for xs u x
      by (induction xs arbitrary: u x) (auto simp: bindP_run bad split: sum.split)
    then show False using assms Suc by auto
  qed
  then show ?thesis using Suc by simp
qed simp

text \<open>A reference to nothing, or to one of the attachments.\<close>

definition refers_to :: "VkAttachmentDescription list \<Rightarrow> VkAttachmentReference \<Rightarrow> bool" where
  "refers_to as r \<longleftrightarrow> ar_attachment r = VK_ATTACHMENT_UNUSED \<or> unat (ar_attachment r) < length as"

section \<open>Programs that only read views and textures\<close>

definition reads_views :: "'a vk_prog \<Rightarrow> bool" where
  "reads_views p \<longleftrightarrow> (\<forall>w a w'. p w = Inr (a, w') \<longrightarrow> w' = w \<and>
     (\<forall>v. texture_views v = texture_views w \<longrightarrow> textures v = textures w \<longrightarrow> p v = Inr (a, v)))"

lemma reads_viewsD:
  assumes "reads_views p" "p w = Inr (a, w')"
  shows "w' = w" and "texture_views v = texture_views w \<Longrightarrow> textures v = textures w \<Longrightarrow> p v = Inr (a, v)"
  using assms unfolding reads_views_def by blast+

named_theorems reads_intros "programs that only read views and textures"

lemma reads_ret [reads_intros]: "reads_views (ret a)"
  by (simp add: reads_views_def ret_run)

lemma reads_update_at [reads_intros]:
  "(\<And>ys. reads_views (k ys)) \<Longrightarrow> reads_views (update_at n xs i x k)"
  by (simp add: reads_views_def update_at_run)

lemma reads_views [reads_intros]:
  "(\<And>x. reads_views (k x)) \<Longrightarrow> reads_views (deref texture_views p k)"
  by (simp add: reads_views_def deref_run split: option.splits)

lemma reads_textures [reads_intros]:
  "(\<And>x. reads_views (k x)) \<Longrightarrow> reads_views (deref textures p k)"
  by (simp add: reads_views_def deref_run split: option.splits)

lemma reads_fill: "reads_views (fill_color_attachments s cas i d e)"
  by (induction cas arbitrary: i d e) (auto intro!: reads_intros)

lemma reads_color_views: "reads_views (add_color_views cas fb)"
  by (induction cas arbitrary: fb) (auto intro!: reads_intros simp: add_image_view_def)

lemma reads_resolve_views: "reads_views (add_resolve_views s cas fb)"
  by (induction cas arbitrary: fb) (auto intro!: reads_intros simp: add_image_view_def)

lemma reads_depth_view: "reads_views (add_depth_view ds fb)"
  by (cases ds) (auto intro!: reads_intros simp: add_image_view_def add_depth_view_def)

lemma reads_clear_values: "reads_views (pass_clear_values desc)"
  by (cases "rpd_depth_stencil desc") (auto intro!: reads_intros simp: pass_clear_values_def Let_def)

lemma reads_depth_format: "reads_views (depth_format_of ds ret)"
  by (cases ds) (auto intro!: reads_intros simp: depth_format_of_def)

lemma depth_format_of_then: "depth_format_of ds k = bindP (depth_format_of ds ret) k"
  by (auto simp: depth_format_of_def fun_eq_iff bindP_run deref_run ret_run split: option.split)

text \<open>Creating the information of a render pass reads nothing at all.\<close>

lemma map_each_pure:
  assumes "\<And>x w a v. body x w = Inr (a, v) \<Longrightarrow> v = w" and "map_each xs body w = Inr (ys, v)"
  shows "v = w"
  using assms(2) by (induction xs arbitrary: ys w v) (auto simp: bindP_run ret_run split: sum.splits dest!: assms(1))

lemma render_pass_create_info_pure:
  assumes "render_pass_create_info desc w = Inr (info, v)"
  shows "v = w"
proof -
  have color: "color_attachment desc i u = Inr (a, u') \<Longrightarrow> u' = u" for i u u' a
    by (simp add: color_attachment_def index_of_run ret_run split: if_splits)
  have depth: "depth_attachment desc u = Inr (a, u') \<Longrightarrow> u' = u" for u u' a
    by (simp add: depth_attachment_def index_of_run ret_run split: if_splits)
  have colors: "map_each xs (color_attachment desc) u = Inr (a, u') \<Longrightarrow> u' = u" for xs u u' a
    using map_each_pure [of "color_attachment desc"] color by blast
  show ?thesis
    using assms unfolding render_pass_create_info_def Let_def
    by (auto simp: bindP_run ret_run split: sum.splits prod.splits if_splits dest!: colors depth)
qed

section \<open>What the caches hold\<close>

definition pass_cached :: "vk_env \<Rightarrow> CGPUDeviceId \<Rightarrow> VkUtil_RenderPassDesc \<Rightarrow> VkHandle \<Rightarrow> vk_world \<Rightarrow> bool" where
  "pass_cached V dev desc h w \<longleftrightarrow> h \<noteq> VK_NULL_HANDLE \<and> dev \<noteq> NULL \<and>
     (\<exists>D T c. devices w dev = Some D \<and> pPassTable D \<noteq> NULL \<and> pass_tables w (pPassTable D) = Some T \<and>
        cached_renderpasses T (hash_render_pass V desc (pPassTable D)) = Some c \<and> crp_pass c = h)"

definition framebuffer_cached ::
    "vk_env \<Rightarrow> CGPUDeviceId \<Rightarrow> VkUtil_FramebufferDesc \<Rightarrow> VkHandle \<Rightarrow> vk_world \<Rightarrow> bool" where
  "framebuffer_cached V dev desc h w \<longleftrightarrow> h \<noteq> VK_NULL_HANDLE \<and> dev \<noteq> NULL \<and>
     (\<exists>D T c. devices w dev = Some D \<and> pPassTable D \<noteq> NULL \<and> pass_tables w (pPassTable D) = Some T \<and>
        cached_framebuffers T (hash_framebuffer V desc (pPassTable D)) = Some c \<and> cfb_framebuffer c = h)"

text \<open>The two worlds agree on all objects but the caches and the command buffers.\<close>

definition same_views :: "vk_world \<Rightarrow> vk_world \<Rightarrow> bool" where
  "same_views v w \<longleftrightarrow> texture_views v = texture_views w \<and> textures v = textures w \<and> devices v = devices w"

text \<open>A driver that answers a successful creation with a handle.\<close>

definition creates_handles :: "vk_driver \<Rightarrow> bool" where
  "creates_handles d \<longleftrightarrow> (\<forall>tr dev info. vk_out (d tr (VkObject (VkCreateRenderPass dev info))) 0 \<noteq> VK_NULL_HANDLE)
     \<and> (\<forall>tr dev info. vk_out (d tr (VkObject (VkCreateFramebuffer dev info))) 0 \<noteq> VK_NULL_HANDLE)"

lemma pass_cached_run:
  assumes "pass_cached V dev desc h w"
  shows "VkUtil_FindOrCreateRenderPass V dev desc k w = k h w"
  using assms unfolding pass_cached_def
  by (auto simp: VkUtil_FindOrCreateRenderPass_def VkUtil_RenderPassTableTryFind_def deref_run)

lemma framebuffer_cached_run:
  assumes "framebuffer_cached V dev desc h w"
  shows "VkUtil_FindOrCreateFrameBuffer V dev desc k w = k h w"
  using assms unfolding framebuffer_cached_def
  by (auto simp: VkUtil_FindOrCreateFrameBuffer_def VkUtil_FramebufferTableTryFind_def deref_run)

lemma find_or_create_pass_end:
  assumes run: "VkUtil_FindOrCreateRenderPass V dev desc k w = Inr x" and "creates_handles (vk_drv V)"
  obtains h u where "k h u = Inr x" "pass_cached V dev desc h u" "same_views u w" "cmds u = cmds w"
proof -
  obtain D :: CGPUDevice_Vulkan where D: "dev \<noteq> NULL" "devices w dev = Some D"
    and attempt: "VkUtil_RenderPassTableTryFind V (pPassTable D) desc (\<lambda>found.
     if found \<noteq> VK_NULL_HANDLE then k found
     else
     assertc (vk_debug V) (VK_NULL_HANDLE \<noteq> pVkDevice D) ''VK_NULL_HANDLE != D->pVkDevice'' (
     bindP (render_pass_create_info desc) (\<lambda>create_info.
     vk_do V (VkObject (VkCreateRenderPass (pVkDevice D) create_info)) (\<lambda>r.
     CHECK_VKRESULT V r (
     VkUtil_RenderPassTableAdd V (pPassTable D) desc (vk_out r 0) (
     k (vk_out r 0))))))) w = Inr x"
    using run unfolding VkUtil_FindOrCreateRenderPass_def by (elim deref_end) simp
  then obtain T where T: "pPassTable D \<noteq> NULL" "pass_tables w (pPassTable D) = Some T"
    unfolding VkUtil_RenderPassTableTryFind_def by (elim deref_end) blast
  define found where "found = (case cached_renderpasses T (hash_render_pass V desc (pPassTable D)) of
          None \<Rightarrow> VK_NULL_HANDLE | Some c \<Rightarrow> crp_pass c)"
  show ?thesis
  proof (cases "found = VK_NULL_HANDLE")
    case False
    then obtain c where "cached_renderpasses T (hash_render_pass V desc (pPassTable D)) = Some c" "crp_pass c = found"
      by (auto simp: found_def split: option.splits)
    then have "pass_cached V dev desc found w" using False D T by (auto simp: pass_cached_def)
    moreover have "k found w = Inr x"
      using attempt T False unfolding VkUtil_RenderPassTableTryFind_def by (simp add: deref_run flip: found_def)
    ultimately show ?thesis using that by (auto simp: same_views_def)
  next
    case True
    obtain info u where info: "render_pass_create_info desc w = Inr (info, u)"
      and rest: "vk_do V (VkObject (VkCreateRenderPass (pVkDevice D) info)) (\<lambda>r.
        CHECK_VKRESULT V r (
        VkUtil_RenderPassTableAdd V (pPassTable D) desc (vk_out r 0) (
        k (vk_out r 0)))) u = Inr x"
      using attempt T True unfolding VkUtil_RenderPassTableTryFind_def
      by (auto simp: deref_run simp flip: found_def elim!: assertc_end bindP_end)
    define h where "h = vk_out (vk_drv V (trace u) (VkObject (VkCreateRenderPass (pVkDevice D) info))) 0"
    from info have u: "u = w" by (rule render_pass_create_info_pure)
    have k: "k h (pass_tables_update (\<lambda>m. m(pPassTable D \<mapsto> cached_renderpasses_update
          (\<lambda>m. m(hash_render_pass V desc (pPassTable D) \<mapsto> \<lparr>crp_pass = h, crp_timestamp = 0\<rparr>)) T))
          (w\<lparr>trace := trace w @ [VkObject (VkCreateRenderPass (pVkDevice D) info)]\<rparr>)) = Inr x"
      using rest T unfolding u VkUtil_RenderPassTableAdd_def
      by (auto simp: vk_do_run CHECK_VKRESULT_run store_run u h_def split: if_splits)
    show ?thesis using assms(2) D T u
      by (intro that [OF k]) (auto simp: pass_cached_def same_views_def creates_handles_def h_def)
  qed
qed

lemma find_or_create_framebuffer_end:
  assumes run: "VkUtil_FindOrCreateFrameBuffer V dev desc k w = Inr x" and "creates_handles (vk_drv V)"
    and pass: "pass_cached V dev rp rph w"
  obtains h u where "k h u = Inr x" "framebuffer_cached V dev desc h u" "pass_cached V dev rp rph u"
    "same_views u w" "cmds u = cmds w"
proof -
  obtain D :: CGPUDevice_Vulkan where D: "dev \<noteq> NULL" "devices w dev = Some D"
    and attempt: "VkUtil_FramebufferTableTryFind V (pPassTable D) desc (\<lambda>found.
     if found \<noteq> VK_NULL_HANDLE then k found
     else
     assertc (vk_debug V) (VK_NULL_HANDLE \<noteq> pVkDevice D) ''VK_NULL_HANDLE != D->pVkDevice'' (
     vk_do V (VkObject (VkCreateFramebuffer (pVkDevice D)
               \<lparr>fbi_renderPass = fb_pRenderPass desc,
                fbi_attachments = take (fb_mAttachmentCount desc) (fb_pImageViews desc),
                fbi_width = fb_mWidth desc, fbi_height = fb_mHeight desc,
                fbi_layers = fb_mLayers desc\<rparr>)) (\<lambda>r.
     CHECK_VKRESULT V r (
     VkUtil_FramebufferTableAdd V (pPassTable D) desc (vk_out r 0) (
     k (vk_out r 0)))))) w = Inr x"
    using run unfolding VkUtil_FindOrCreateFrameBuffer_def by (elim deref_end) simp
  then obtain T where T: "pPassTable D \<noteq> NULL" "pass_tables w (pPassTable D) = Some T"
    unfolding VkUtil_FramebufferTableTryFind_def by (elim deref_end) blast
  define found where "found = (case cached_framebuffers T (hash_framebuffer V desc (pPassTable D)) of
          None \<Rightarrow> VK_NULL_HANDLE | Some c \<Rightarrow> cfb_framebuffer c)"
  show ?thesis
  proof (cases "found = VK_NULL_HANDLE")
    case False
    then obtain c where "cached_framebuffers T (hash_framebuffer V desc (pPassTable D)) = Some c"
        "cfb_framebuffer c = found"
      by (auto simp: found_def split: option.splits)
    then have "framebuffer_cached V dev desc found w" using False D T by (auto simp: framebuffer_cached_def)
    moreover have "k found w = Inr x"
      using attempt T False unfolding VkUtil_FramebufferTableTryFind_def
      by (simp add: deref_run flip: found_def)
    ultimately show ?thesis using that pass by (auto simp: same_views_def)
  next
    case True
    obtain c where rest: "vk_do V (VkObject (VkCreateFramebuffer (pVkDevice D) c)) (\<lambda>r.
        CHECK_VKRESULT V r (
        VkUtil_FramebufferTableAdd V (pPassTable D) desc (vk_out r 0) (
        k (vk_out r 0)))) w = Inr x"
      using attempt T True unfolding VkUtil_FramebufferTableTryFind_def
      by (auto simp: deref_run simp flip: found_def elim!: assertc_end)
    define h where "h = vk_out (vk_drv V (trace w) (VkObject (VkCreateFramebuffer (pVkDevice D) c))) 0"
    have k: "k h (pass_tables_update (\<lambda>m. m(pPassTable D \<mapsto> cached_framebuffers_update
          (\<lambda>m. m(hash_framebuffer V desc (pPassTable D) \<mapsto> \<lparr>cfb_framebuffer = h, cfb_timestamp = 0\<rparr>)) T))
          (w\<lparr>trace := trace w @ [VkObject (VkCreateFramebuffer (pVkDevice D) c)]\<rparr>)) = Inr x"
      using rest T unfolding VkUtil_FramebufferTableAdd_def
      by (auto simp: vk_do_run CHECK_VKRESULT_run store_run h_def split: if_splits)
    show ?thesis using assms(2) D T pass
      by (intro that [OF k]) (auto simp: pass_cached_def framebuffer_cached_def same_views_def creates_handles_def h_def)
  qed
qed

section \<open>A pass that was begun once\<close>

text \<open>The rest of the beginning of a pass, once the render pass and the framebuffer are known.\<close>

definition record_begin ::
    "vk_env \<Rightarrow> CGPUCommandBufferId \<Rightarrow> CGPUCommandBuffer_Vulkan \<Rightarrow> CGPURenderPassDescriptor \<Rightarrow> VkHandle
      \<Rightarrow> nat \<Rightarrow> nat \<Rightarrow> VkHandle \<Rightarrow> CGPURenderPassEncoderId vk_prog" where
  "record_begin V cmd Cmd desc render_pass width height framebuffer =
     bindP (pass_clear_values desc) (\<lambda>(values, count).
     deref devices (cmd_device Cmd) (\<lambda>_.
     vk_do V (VkPass (VkCmdBeginRenderPass (pVkCmdBuf Cmd)
               \<lparr>rpb_renderPass = render_pass, rpb_framebuffer = framebuffer,
                rpb_width = width, rpb_height = height,
                rpb_clearValueCount = count, rpb_pClearValues = values\<rparr>)) (\<lambda>_.
     store cmds cmds_update cmd (pRenderPass_update (\<lambda>_. render_pass)) (
     ret cmd))))"

definition framebuffer_of ::
    "CGPURenderPassDescriptor \<Rightarrow> VkHandle \<Rightarrow> nat \<Rightarrow> nat \<Rightarrow> VkUtil_FramebufferDesc vk_prog" where
  "framebuffer_of desc render_pass width height =
     bindP (add_color_views (rpd_color_attachments desc)
              \<lparr>fb_pRenderPass = render_pass, fb_mAttachmentCount = 0,
               fb_pImageViews = replicate (CGPU_MAX_MRT_COUNT * 2 + 1) VK_NULL_HANDLE,
               fb_mWidth = width, fb_mHeight = height, fb_mLayers = 1\<rparr>) (\<lambda>fb.
     bindP (add_resolve_views (rpd_sample_count desc) (rpd_color_attachments desc) fb)
       (add_depth_view (rpd_depth_stencil desc)))"

definition pass_of :: "CGPURenderPassDescriptor \<Rightarrow> (VkUtil_RenderPassDesc \<times> (nat \<times> nat) option) vk_prog" where
  "pass_of desc =
     bindP (depth_format_of (rpd_depth_stencil desc) ret) (\<lambda>depth_format.
     fill_color_attachments (rpd_sample_count desc) (rpd_color_attachments desc) 0
              (initial_pass_desc desc depth_format) None)"

lemma begin_pass_parts:
  "cgpu_cmd_begin_render_pass_vulkan V cmd desc =
     deref cmds cmd (\<lambda>Cmd.
     bindP (pass_of desc) (\<lambda>(rpdesc, extent).
     VkUtil_FindOrCreateRenderPass V (cmd_device Cmd) rpdesc (\<lambda>render_pass.
     initialized ''Width'' extent (\<lambda>(width, height).
     bindP (framebuffer_of desc render_pass width height) (\<lambda>fb.
     assertc (vk_debug V) (rpd_color_attachments desc \<noteq> [] \<longrightarrow> fb_mLayers fb = 1)
       ''MRT pass supports only one layer!'' (
     VkUtil_FindOrCreateFrameBuffer V (cmd_device Cmd) fb
       (record_begin V cmd Cmd desc render_pass width height)))))))"
proof -
  have assoc: "bindP (bindP m f) g = bindP m (\<lambda>x. bindP (f x) g)" for m :: "'b vk_prog" and f :: "'b \<Rightarrow> 'c vk_prog"
    and g :: "'c \<Rightarrow> 'd vk_prog"
    by (auto simp: fun_eq_iff bindP_run split: sum.splits)
  show ?thesis
    unfolding cgpu_cmd_begin_render_pass_vulkan_def pass_of_def framebuffer_of_def record_begin_def
    by (subst depth_format_of_then) (simp only: assoc)
qed

lemma reads_bindP [reads_intros]:
  assumes "reads_views m" "\<And>a. reads_views (k a)"
  shows "reads_views (bindP m k)"
  using assms unfolding reads_views_def by (fastforce simp: bindP_run split: sum.splits)

lemma reads_framebuffer_of: "reads_views (framebuffer_of desc rp x y)"
  unfolding framebuffer_of_def by (intro reads_intros reads_color_views reads_resolve_views reads_depth_view)

lemma reads_pass_of: "reads_views (pass_of desc)"
  unfolding pass_of_def by (intro reads_intros reads_fill reads_depth_format)

section \<open>Clear values\<close>

lemma fill_color_attachments_end:
  assumes "fill_color_attachments samples cas i rp extent w = Inr ((rp', extent'), v)"
  shows "mColorAttachmentCount rp' = mColorAttachmentCount rp
    \<and> mDepthStencilFormat rp' = mDepthStencilFormat rp
    \<and> length (pResolveMasks rp') = length (pResolveMasks rp)
    \<and> length (pColorFormats rp') = length (pColorFormats rp)
    \<and> (\<forall>k < i. pResolveMasks rp' ! k = pResolveMasks rp ! k)
    \<and> (\<forall>k < length cas. pResolveMasks rp' ! (i + k)
        \<longleftrightarrow> samples \<noteq> CGPU_SAMPLE_COUNT_1 \<and> ca_resolve_view (cas ! k) \<noteq> NULL)
    \<and> (cas \<noteq> [] \<longrightarrow> i + length cas \<le> length (pResolveMasks rp))"
  using assms
proof (induction cas arbitrary: i rp extent)
  case (Cons ca cas)
  obtain ms fs ls ss and T :: CGPUTexture_Vulkan where step: "fill_color_attachments samples cas (Suc i)
       (rp\<lparr>pColorFormats := fs, pLoadActionsColor := ls, pStoreActionsColor := ss, pResolveMasks := ms\<rparr>)
       (Some (texture_width T, texture_height T)) w = Inr ((rp', extent'), v)"
    and ms: "ms = (pResolveMasks rp)[i := samples \<noteq> CGPU_SAMPLE_COUNT_1 \<and> ca_resolve_view ca \<noteq> NULL]"
      "i < length (pResolveMasks rp)" "length fs = length (pColorFormats rp)"
    using Cons.prems by (auto simp: update_at_run deref_run split: if_splits option.splits)
  note IH = Cons.IH [OF step]
  have "pResolveMasks rp' ! (i + k)
      \<longleftrightarrow> samples \<noteq> CGPU_SAMPLE_COUNT_1 \<and> ca_resolve_view ((ca # cas) ! k) \<noteq> NULL"
    if "k < length (ca # cas)" for k
    using IH ms that by (cases k) auto
  then show ?case using IH ms by auto
qed (simp add: ret_run)

lemma resolve_attachments_count:
  "length (fst (resolve_attachments desc slots ssidx)) = length (filter (\<lambda>i. pResolveMasks desc ! i) slots)"
proof (induction slots arbitrary: ssidx)
  case (Cons i slots)
  from Cons [of ssidx] Cons [of "Suc ssidx"] show ?case by (auto split: prod.splits)
qed simp

lemma filter_nth_count: "length (filter (\<lambda>i. P (xs ! i)) [0..<length xs]) = length (filter P xs)"
proof -
  have "filter P xs = map ((!) xs) (filter (\<lambda>i. P (xs ! i)) [0..<length xs])"
    by (metis comp_def filter_cong filter_map map_nth)
  then show ?thesis by (metis length_map)
qed

section \<open>Properties\<close>

text \<open>
  Property C22: the references of a render pass are in range. A render pass description that is
  accepted has one color reference per color attachment, as many resolve references when there
  are any, and every reference is \<open>VK_ATTACHMENT_UNUSED\<close> or an index of the attachment list.
\<close>

theorem render_pass_references_in_range:
  assumes "render_pass_create_info desc w = Inr (info, v)" and "length (pColorFormats desc) = CGPU_MAX_MRT_COUNT"
  shows "length (rpi_colorAttachments info) = mColorAttachmentCount desc
    \<and> (\<forall>refs. rpi_resolveAttachments info = Some refs \<longrightarrow> length refs = mColorAttachmentCount desc
         \<and> list_all (refers_to (rpi_attachments info)) refs)
    \<and> list_all (refers_to (rpi_attachments info)) (rpi_colorAttachments info)
    \<and> (\<forall>r. rpi_depthStencilAttachment info = Some r \<longrightarrow> refers_to (rpi_attachments info) r)"
proof -
  let ?n = "mColorAttachmentCount desc"
  obtain cs u where cs: "map_each [0..<?n] (color_attachment desc) w = Inr (cs, u)"
    using assms(1) unfolding render_pass_create_info_def Let_def by (auto elim!: bindP_end)
  obtain ds refs where res: "resolve_attachments desc [0..<?n] ?n = (ds, refs)" by fastforce
  note shape = resolve_attachments_shape [OF res]
  have n: "?n \<le> 8" "length cs = ?n"
    using color_attachments_fit [OF cs] map_each_end [OF cs] assms(2) by simp_all
  have word: "unat (word_of_nat j :: u32) = j" if "j < 20" for j
    using that by (simp add: unat_of_nat)
  obtain ps where info: "info = \<lparr>rpi_attachments = cs @ ds @ ps,
        rpi_colorAttachments = map (\<lambda>i. \<lparr>ar_attachment = word_of_nat i,
             ar_layout = VK_IMAGE_LAYOUT_COLOR_ATTACHMENT_OPTIMAL\<rparr>) [0..<?n],
        rpi_resolveAttachments = (if ds \<noteq> [] then Some refs else None),
        rpi_depthStencilAttachment =
             (if mDepthStencilFormat desc \<noteq> CGPU_FORMAT_UNDEFINED then Some \<lparr>ar_attachment = word_of_nat (?n + length ds),
                ar_layout = VK_IMAGE_LAYOUT_DEPTH_STENCIL_ATTACHMENT_OPTIMAL\<rparr> else None)\<rparr>"
      and ps: "mDepthStencilFormat desc \<noteq> CGPU_FORMAT_UNDEFINED \<Longrightarrow> length ps = 1"
    using assms(1) cs res unfolding render_pass_create_info_def Let_def
    by (auto simp: bindP_run split: sum.splits if_splits)
  have colors: "list_all (refers_to (cs @ ds @ ps)) (map (\<lambda>i. \<lparr>ar_attachment = word_of_nat i,
        ar_layout = VK_IMAGE_LAYOUT_COLOR_ATTACHMENT_OPTIMAL\<rparr>) [0..<?n])"
    using n by (auto simp: list_all_iff refers_to_def word)
  have "refers_to (cs @ ds @ ps) r" if r: "r \<in> set refs" for r
  proof (cases "ar_attachment r = VK_ATTACHMENT_UNUSED")
    case False
    then obtain j where "ar_attachment r = word_of_nat j" "j < ?n + length ds" using shape(3) r by blast
    then show ?thesis using n shape(2) by (simp add: refers_to_def word)
  qed (simp add: refers_to_def)
  then have resolves: "list_all (refers_to (cs @ ds @ ps)) refs" by (simp add: list_all_iff)
  have depth: "refers_to (cs @ ds @ ps) \<lparr>ar_attachment = word_of_nat (?n + length ds),
        ar_layout = VK_IMAGE_LAYOUT_DEPTH_STENCIL_ATTACHMENT_OPTIMAL\<rparr>"
    if "mDepthStencilFormat desc \<noteq> CGPU_FORMAT_UNDEFINED"
    using ps [OF that] n shape(2) word [of "?n + length ds"] by (simp add: refers_to_def del: of_nat_add)
  show ?thesis
    using colors resolves depth shape(1) unfolding info by auto
qed

text \<open>The information of a pass with one resolved color attachment and a depth attachment.\<close>

definition sample_pass_desc :: VkUtil_RenderPassDesc where
  "sample_pass_desc = \<lparr>pColorFormats = CGPU_FORMAT_R8G8B8A8_UNORM # replicate 7 CGPU_FORMAT_UNDEFINED,
     pLoadActionsColor = replicate 8 CGPU_LOAD_ACTION_CLEAR, pStoreActionsColor = replicate 8 CGPU_STORE_ACTION_STORE,
     pResolveMasks = True # replicate 7 False, mColorAttachmentCount = 1, mSampleCount = CGPU_SAMPLE_COUNT_4,
     mDepthStencilFormat = CGPU_FORMAT_D32_SFLOAT, mLoadActionDepth = CGPU_LOAD_ACTION_CLEAR,
     mStoreActionDepth = CGPU_STORE_ACTION_STORE, mLoadActionStencil = CGPU_LOAD_ACTION_DONTCARE,
     mStoreActionStencil = CGPU_STORE_ACTION_STORE\<rparr>"

lemma sample_pass_info:
  "\<exists>info. render_pass_create_info sample_pass_desc w = Inr (info, w)"
  by (simp add: sample_pass_desc_def render_pass_create_info_def color_attachment_def depth_attachment_def
      bindP_run ret_run index_of_run gVkAttachmentLoadOpTranslator_def gVkAttachmentStoreOpTranslator_def
)

theorem render_pass_references_in_range_witness:
  "\<exists>info. render_pass_create_info sample_pass_desc sample_world = Inr (info, sample_world)
    \<and> length (rpi_colorAttachments info) = 1"
proof -
  obtain info where info: "render_pass_create_info sample_pass_desc sample_world = Inr (info, sample_world)"
    using sample_pass_info by blast
  have "length (pColorFormats sample_pass_desc) = CGPU_MAX_MRT_COUNT" by (simp add: sample_pass_desc_def)
  note render_pass_references_in_range [OF info this]
  then show ?thesis using info by (simp add: sample_pass_desc_def)
qed

text \<open>
  Property C11: a pass that was begun once is not created again. After a successful beginning,
  with a driver that answers creations with handles, the same pass begins on any command buffer
  of the device with no other call than the recording of \<open>vkCmdBeginRenderPass\<close>, with the same
  render pass and framebuffer and the same clear values, as long as the views, the textures and
  the caches stay as they are.
\<close>

theorem begun_pass_is_reused:
  assumes run: "cgpu_cmd_begin_render_pass_vulkan V cmd desc w = Inr (e, w1)"
    and handles: "creates_handles (vk_drv V)"
    and cmd: "cmds w cmd = Some Cmd" "cmds v cmd2 = Some Cmd2" "cmd2 \<noteq> NULL" "cmd_device Cmd2 = cmd_device Cmd"
    and later: "same_views v w1" "pass_tables v = pass_tables w1"
  shows "\<exists>info v'. last (trace w1) = VkPass (VkCmdBeginRenderPass (pVkCmdBuf Cmd) info)
    \<and> cgpu_cmd_begin_render_pass_vulkan V cmd2 desc v = Inr (cmd2, v')
    \<and> trace v' = trace v @ [VkPass (VkCmdBeginRenderPass (pVkCmdBuf Cmd2) info)]
    \<and> pass_tables v' = pass_tables v"
proof -
  obtain rp extent where pass: "pass_of desc w = Inr ((rp, extent), w)"
    and run1: "VkUtil_FindOrCreateRenderPass V (cmd_device Cmd) rp (\<lambda>render_pass.
     initialized ''Width'' extent (\<lambda>(width, height).
     bindP (framebuffer_of desc render_pass width height) (\<lambda>fb.
     assertc (vk_debug V) (rpd_color_attachments desc \<noteq> [] \<longrightarrow> fb_mLayers fb = 1)
       ''MRT pass supports only one layer!'' (
     VkUtil_FindOrCreateFrameBuffer V (cmd_device Cmd) fb
       (record_begin V cmd Cmd desc render_pass width height))))) w = Inr (e, w1)"
    using run cmd(1) unfolding begin_pass_parts
    by (elim deref_end bindP_end) (auto dest: reads_viewsD(1) [OF reads_pass_of])
  from find_or_create_pass_end [OF run1 handles] obtain h u where
      rest: "initialized ''Width'' extent (\<lambda>(width, height).
     bindP (framebuffer_of desc h width height) (\<lambda>fb.
     assertc (vk_debug V) (rpd_color_attachments desc \<noteq> [] \<longrightarrow> fb_mLayers fb = 1)
       ''MRT pass supports only one layer!'' (
     VkUtil_FindOrCreateFrameBuffer V (cmd_device Cmd) fb
       (record_begin V cmd Cmd desc h width height)))) u = Inr (e, w1)"
    and u: "pass_cached V (cmd_device Cmd) rp h u" "same_views u w" "cmds u = cmds w" by blast
  obtain x y where extent: "extent = Some (x, y)"
    using rest by (cases extent) (auto simp: initialized_run)
  obtain fb where fb: "framebuffer_of desc h x y u = Inr (fb, u)"
    and layers: "vk_debug V \<Longrightarrow> rpd_color_attachments desc \<noteq> [] \<longrightarrow> fb_mLayers fb = 1"
    and run2: "VkUtil_FindOrCreateFrameBuffer V (cmd_device Cmd) fb
       (record_begin V cmd Cmd desc h x y) u = Inr (e, w1)"
    using rest unfolding extent initialized_run option.case prod.case
    by (elim bindP_end assertc_end) (auto dest: reads_viewsD(1) [OF reads_framebuffer_of])
  from find_or_create_framebuffer_end [OF run2 handles u(1)] obtain f t where
      run3: "record_begin V cmd Cmd desc h x y f t = Inr (e, w1)"
    and t: "framebuffer_cached V (cmd_device Cmd) fb f t" "pass_cached V (cmd_device Cmd) rp h t"
      "same_views t u" by blast
  obtain cvs count where clear: "pass_clear_values desc t = Inr ((cvs, count), t)"
    and run4: "deref devices (cmd_device Cmd) (\<lambda>_.
     vk_do V (VkPass (VkCmdBeginRenderPass (pVkCmdBuf Cmd)
               \<lparr>rpb_renderPass = h, rpb_framebuffer = f, rpb_width = x, rpb_height = y,
                rpb_clearValueCount = count, rpb_pClearValues = cvs\<rparr>)) (\<lambda>_.
     store cmds cmds_update cmd (pRenderPass_update (\<lambda>_. h)) (ret cmd))) t = Inr (e, w1)"
    using run3 unfolding record_begin_def
    by (elim bindP_end) (auto dest: reads_viewsD(1) [OF reads_clear_values])
  let ?info = "\<lparr>rpb_renderPass = h, rpb_framebuffer = f, rpb_width = x, rpb_height = y,
                rpb_clearValueCount = count, rpb_pClearValues = cvs\<rparr>"
  have w1: "trace w1 = trace t @ [VkPass (VkCmdBeginRenderPass (pVkCmdBuf Cmd) ?info)]"
      "same_views w1 t" "pass_tables w1 = pass_tables t"
    using run4 by (auto simp: deref_run vk_do_run store_run ret_run same_views_def split: if_splits option.splits)
  have views: "same_views v w" "same_views v u" "same_views v t"
    using later w1 t u by (simp_all add: same_views_def)
  have cached: "pass_cached V (cmd_device Cmd) rp h v" "framebuffer_cached V (cmd_device Cmd) fb f v"
    using t(1,2) views(3) later w1(3) by (simp_all add: pass_cached_def framebuffer_cached_def same_views_def)
  have "pass_of desc v = Inr ((rp, extent), v)"
    using reads_viewsD(2) [OF reads_pass_of pass] views(1) by (simp add: same_views_def)
  moreover have "framebuffer_of desc h x y v = Inr (fb, v)"
    using reads_viewsD(2) [OF reads_framebuffer_of fb] views(2) by (simp add: same_views_def)
  moreover have "pass_clear_values desc v = Inr ((cvs, count), v)"
    using reads_viewsD(2) [OF reads_clear_values clear] views(3) by (simp add: same_views_def)
  moreover obtain D where "cmd_device Cmd \<noteq> NULL" "devices v (cmd_device Cmd) = Some D"
    using cached(1) by (auto simp: pass_cached_def)
  ultimately have "cgpu_cmd_begin_render_pass_vulkan V cmd2 desc v = Inr (cmd2, cmds_update
      (\<lambda>m. m(cmd2 \<mapsto> Cmd2\<lparr>pRenderPass := h\<rparr>))
      (v\<lparr>trace := trace v @ [VkPass (VkCmdBeginRenderPass (pVkCmdBuf Cmd2) ?info)]\<rparr>))"
    using cmd layers cached extent unfolding begin_pass_parts
    by (auto simp: deref_run bindP_run assertc_run initialized_run record_begin_def vk_do_run store_run ret_run
        pass_cached_run framebuffer_cached_run)
  then show ?thesis using w1(1) by (intro exI [of _ ?info]) auto
qed

text \<open>A system with a view (20) of the sample texture, and two beginnings of the same pass.\<close>

definition pass_world :: vk_world where
  "pass_world = sample_world\<lparr>texture_views := [20 \<mapsto> \<lparr>view_device = 3, view_info =
     \<lparr>tvd_name = None, tvd_texture = 19, tvd_format = CGPU_FORMAT_R8G8B8A8_UNORM, tvd_usages = 1,
      tvd_aspects = 1, tvd_dims = CGPU_TEX_DIMENSION_2D, tvd_base_array_layer = 0, tvd_array_layer_count = 1,
      tvd_base_mip_level = 0, tvd_mip_level_count = 1\<rparr>,
     pVkRTVDSVDescriptor = 701, pVkSRVDescriptor = 0, pVkUAVDescriptor = 0\<rparr>]\<rparr>"

definition one_target :: CGPURenderPassDescriptor where
  "one_target = \<lparr>rpd_name = None, rpd_sample_count = CGPU_SAMPLE_COUNT_1,
     rpd_color_attachments = [\<lparr>ca_view = 20, ca_resolve_view = 20, ca_load_action = CGPU_LOAD_ACTION_CLEAR,
       ca_store_action = CGPU_STORE_ACTION_STORE, ca_clear_color = \<lparr>cv_r = 0, cv_g = 0, cv_b = 0, cv_a = 0\<rparr>\<rparr>],
     rpd_depth_stencil = Some \<lparr>ds_view = 20, ds_depth_load_action = CGPU_LOAD_ACTION_CLEAR,
       ds_depth_store_action = CGPU_STORE_ACTION_STORE, ds_clear_depth = 1, ds_write_depth = True,
       ds_stencil_load_action = CGPU_LOAD_ACTION_DONTCARE, ds_stencil_store_action = CGPU_STORE_ACTION_STORE,
       ds_clear_stencil = 0, ds_write_stencil = False\<rparr>\<rparr>"

lemmas pass_run_simps =
  cgpu_cmd_begin_render_pass_vulkan_def depth_format_of_def initial_pass_desc_def
  VkUtil_FindOrCreateRenderPass_def VkUtil_RenderPassTableTryFind_def VkUtil_RenderPassTableAdd_def
  VkUtil_FindOrCreateFrameBuffer_def VkUtil_FramebufferTableTryFind_def VkUtil_FramebufferTableAdd_def
  render_pass_create_info_def color_attachment_def depth_attachment_def add_image_view_def add_depth_view_def
  pass_clear_values_def gVkAttachmentLoadOpTranslator_def gVkAttachmentStoreOpTranslator_def

lemma begun_once:
  "\<exists>w1. cgpu_cmd_begin_render_pass_vulkan sample_vk 14 one_target pass_world = Inr (14, w1)
    \<and> cmds w1 15 = Some sample_cmd"
  by (simp add: pass_run_simps prog_simps pass_world_def one_target_def sample_defs vk_out_def)

theorem begun_pass_is_reused_witness:
  "\<exists>w1 w2. cgpu_cmd_begin_render_pass_vulkan sample_vk 14 one_target pass_world = Inr (14, w1)
    \<and> cgpu_cmd_begin_render_pass_vulkan sample_vk 15 one_target w1 = Inr (15, w2)
    \<and> length (trace w2) = Suc (length (trace w1))"
proof -
  obtain w1 where w1: "cgpu_cmd_begin_render_pass_vulkan sample_vk 14 one_target pass_world = Inr (14, w1)"
      "cmds w1 15 = Some sample_cmd"
    using begun_once by blast
  have handles: "creates_handles (vk_drv sample_vk)"
    by (simp add: creates_handles_def sample_driver_def vk_out_def)
  have cmd: "cmds pass_world 14 = Some sample_cmd" by (simp add: pass_world_def)
  have same: "same_views w1 w1" by (simp add: same_views_def)
  from begun_pass_is_reused [OF w1(1) handles cmd w1(2) _ refl same refl] show ?thesis
    using w1(1) by fastforce
qed


lemma one_target_parts:
  "\<exists>rp info cvs n. pass_of one_target pass_world = Inr ((rp, Some (64, 32)), pass_world)
    \<and> render_pass_create_info rp pass_world = Inr (info, pass_world)
    \<and> rpi_depthStencilAttachment info = Some \<lparr>ar_attachment = 1,
        ar_layout = VK_IMAGE_LAYOUT_DEPTH_STENCIL_ATTACHMENT_OPTIMAL\<rparr>
    \<and> pass_clear_values one_target pass_world = Inr ((cvs, n), pass_world)"
  by (simp add: pass_of_def pass_run_simps prog_simps pass_world_def one_target_def sample_defs)


text \<open>
  Property C27: a pass without color attachments never begins. The extent of the framebuffer is
  taken from the color attachments, and when there are none it is read before it was written:
  a live command buffer whose device has the render pass in its cache gets to that read.
\<close>

theorem pass_without_colors_never_begins:
  assumes "cmds w cmd = Some Cmd" "cmd \<noteq> NULL" "rpd_color_attachments desc = []"
  shows "cgpu_cmd_begin_render_pass_vulkan V cmd desc w \<noteq> Inr r
    \<and> (\<forall>f h. depth_format_of (rpd_depth_stencil desc) ret w = Inr (f, w)
      \<and> pass_cached V (cmd_device Cmd) (initial_pass_desc desc f) h w
      \<longrightarrow> cgpu_cmd_begin_render_pass_vulkan V cmd desc w = Inl (Uninitialized ''Width''))"
proof -
  have parts: "cgpu_cmd_begin_render_pass_vulkan V cmd desc w =
     bindP (depth_format_of (rpd_depth_stencil desc) ret) (\<lambda>f.
     VkUtil_FindOrCreateRenderPass V (cmd_device Cmd) (initial_pass_desc desc f)
       (\<lambda>_. fail (Uninitialized ''Width''))) w"
    using assms by (simp add: begin_pass_parts pass_of_def deref_run bindP_run ret_run initialized_def split: sum.split)
  have stuck: "VkUtil_FindOrCreateRenderPass V d rp (\<lambda>_. fail e) u \<noteq> Inr x" for d rp e u and x :: "ptr \<times> vk_world"
    by (auto simp: VkUtil_FindOrCreateRenderPass_def VkUtil_RenderPassTableTryFind_def
        VkUtil_RenderPassTableAdd_def bindP_run deref_run assertc_run vk_do_run CHECK_VKRESULT_run store_run
        split: option.split sum.split)
  have "cgpu_cmd_begin_render_pass_vulkan V cmd desc w \<noteq> Inr r"
    unfolding parts by (cases r) (auto elim!: bindP_end simp: stuck)
  then show ?thesis by (auto simp: parts bindP_run pass_cached_run)
qed

text \<open>The device has the render pass of a pass without attachments in its cache.\<close>

definition cached_world :: vk_world where
  "cached_world = sample_world\<lparr>pass_tables := [17 \<mapsto> \<lparr>cached_renderpasses =
     [0 \<mapsto> \<lparr>crp_pass = 801, crp_timestamp = 0\<rparr>], cached_framebuffers = Map.empty\<rparr>]\<rparr>"

theorem pass_without_colors_never_begins_witness:
  "cgpu_cmd_begin_render_pass_vulkan sample_vk 14
     (one_target\<lparr>rpd_color_attachments := [], rpd_depth_stencil := None\<rparr>) cached_world
   = Inl (Uninitialized ''Width'')"
proof -
  let ?desc = "one_target\<lparr>rpd_color_attachments := [], rpd_depth_stencil := None\<rparr>"
  have "cmds cached_world 14 = Some sample_cmd" by (simp add: cached_world_def)
  moreover have "depth_format_of (rpd_depth_stencil ?desc) ret cached_world
      = Inr (CGPU_FORMAT_UNDEFINED, cached_world)"
    by (simp add: depth_format_of_def ret_run)
  moreover have "pass_cached sample_vk (cmd_device sample_cmd) (initial_pass_desc ?desc CGPU_FORMAT_UNDEFINED) 801 cached_world"
    by (simp add: pass_cached_def cached_world_def sample_defs)
  ultimately show ?thesis
    using pass_without_colors_never_begins [of cached_world 14 sample_cmd ?desc sample_vk] by simp blast
qed

end
