(* ===== verification/Ledger_Facts.thy ===== *)
theory Ledger_Facts
  imports Vk_Sample
begin

text \<open>
  The ownership of driver objects. Every buffer, image and sampler of the driver belongs to
  exactly one object of the runtime, from its creation until it is freed: nothing leaks, nothing
  is destroyed twice, and the memory that an aliasing texture is bound to stays with the texture
  that owns it. The driver's side is a specification: the objects that are created and not yet
  destroyed after a sequence of calls.
\<close>

section \<open>Balanced ledgers\<close>

text \<open>The interface: \<open>held\<close> says which object a slot of the runtime holds, \<open>live\<close> which objects
  exist; a step of the runtime leaves both alone, adds a new object in a free slot, or removes
  the object of a slot.\<close>

locale ledger =
  fixes held :: "'w \<Rightarrow> 'k \<rightharpoonup> 'o"
    and live :: "'w \<Rightarrow> 'o set"
    and ok :: "'w \<Rightarrow> bool"
    and step :: "'w \<Rightarrow> 'w \<Rightarrow> bool"
  assumes step_ok: "ok w \<Longrightarrow> step w v \<Longrightarrow> ok v"
    and step_cases: "ok w \<Longrightarrow> step w v \<Longrightarrow>
      held v = held w \<and> live v = live w
      \<or> (\<exists>k x. k \<notin> dom (held w) \<and> x \<notin> live w \<and> held v = (held w)(k \<mapsto> x) \<and> live v = insert x (live w))
      \<or> (\<exists>k x. held w k = Some x \<and> held v = (held w)(k := None) \<and> live v = live w - {x})"
begin

definition balanced :: "'w \<Rightarrow> bool" where
  "balanced w \<longleftrightarrow> inj_on (held w) (dom (held w)) \<and> ran (held w) = live w"

lemma balanced_new:
  assumes "balanced w" and "k \<notin> dom (held w)" and "x \<notin> live w"
    and "held v = (held w)(k \<mapsto> x)" and "live v = insert x (live w)"
  shows "balanced v"
proof -
  have other: "held w j \<noteq> Some x" for j
    using assms(1,3) unfolding balanced_def ran_def by blast
  have "inj_on (held v) (dom (held v))"
    using assms(1,4) other unfolding balanced_def inj_on_def by (auto split: if_splits)
  moreover have "ran (held v) = live v"
    using assms(1,2,4,5) unfolding balanced_def by (auto simp: ran_map_upd domIff)
  ultimately show ?thesis by (simp add: balanced_def)
qed

lemma balanced_gone:
  assumes "balanced w" and "held w k = Some x" and "held v = (held w)(k := None)" and "live v = live w - {x}"
  shows "balanced v"
proof -
  have other: "held w j \<noteq> Some x" if "j \<noteq> k" for j
    using assms(1,2) that unfolding balanced_def inj_on_def by (metis domI)
  have "inj_on (held v) (dom (held v))"
    using assms(1,3) unfolding balanced_def inj_on_def by (auto split: if_splits)
  moreover have "ran (held v) = live v"
  proof (intro set_eqI iffI)
    fix y
    assume "y \<in> live v"
    then have "y \<in> ran (held w)" "y \<noteq> x" using assms(1,4) unfolding balanced_def by auto
    then obtain j where j: "held w j = Some y" by (auto simp: ran_def)
    then have "j \<noteq> k" using assms(2) \<open>y \<noteq> x\<close> by auto
    then have "held v j = Some y" using assms(3) j by simp
    then show "y \<in> ran (held v)" by (rule ranI)
  next
    fix y
    assume "y \<in> ran (held v)"
    then obtain j where "j \<noteq> k" "held w j = Some y" using assms(3) by (auto simp: ran_def split: if_splits)
    then show "y \<in> live v" using assms(1,4) other [of j] unfolding balanced_def by (auto simp: ran_def)
  qed
  ultimately show ?thesis by (simp add: balanced_def)
qed

lemma balanced_step: "ok w \<Longrightarrow> balanced w \<Longrightarrow> step w v \<Longrightarrow> balanced v"
proof -
  assume w: "ok w" "balanced w" "step w v"
  from step_cases [OF w(1,3)] show "balanced v"
  proof (elim disjE conjE exE)
    assume "held v = held w" "live v = live w"
    then show ?thesis using w(2) by (simp add: balanced_def)
  qed (use balanced_new [OF w(2)] balanced_gone [OF w(2)] in blast)+
qed

lemma balanced_steps: "step\<^sup>*\<^sup>* w v \<Longrightarrow> ok w \<Longrightarrow> balanced w \<Longrightarrow> ok v \<and> balanced v"
  by (induction rule: rtranclp_induct) (auto intro: step_ok balanced_step)

text \<open>An object that is held is held once.\<close>

lemma held_once: "balanced w \<Longrightarrow> held w j = Some x \<Longrightarrow> held w k = Some x \<Longrightarrow> j = k"
  unfolding balanced_def inj_on_def by (metis domI)

end

section \<open>The objects of the driver\<close>

datatype vk_resource_object =
    BufferObject VkHandle VkHandle
  | ImageObject VkHandle VkHandle
  | BareImage VkHandle
  | SamplerObject VkHandle

text \<open>The object that a creating call makes, and the object that a destroying call removes.\<close>

fun created_object :: "vk_reply \<Rightarrow> vk_resource_call \<Rightarrow> vk_resource_object option" where
  "created_object r (VmaCreateBuffer a info req) = Some (BufferObject (vk_out r 0) (vk_out r 1))"
| "created_object r (VmaCreateImage a info req) = Some (ImageObject (vk_out r 0) (vk_out r 1))"
| "created_object r (VkCreateImage dev info) = Some (BareImage (vk_out r 0))"
| "created_object r (VkCreateSampler dev info) = Some (SamplerObject (vk_out r 0))"
| "created_object r c = None"

fun destroyed_object :: "vk_resource_call \<Rightarrow> vk_resource_object option" where
  "destroyed_object (VmaDestroyBuffer a b m) = Some (BufferObject b m)"
| "destroyed_object (VmaDestroyImage a i m) = Some (ImageObject i m)"
| "destroyed_object (VkDestroyImage dev i) = Some (BareImage i)"
| "destroyed_object (VkDestroySampler dev s) = Some (SamplerObject s)"
| "destroyed_object c = None"

definition resource_effect :: "vk_reply \<Rightarrow> vk_call \<Rightarrow> vk_resource_object set \<Rightarrow> vk_resource_object set" where
  "resource_effect r c L =
     (case c of
        VkResource c \<Rightarrow>
          (L \<union> (if vk_result r = VK_SUCCESS then set_option (created_object r c) else {}))
            - set_option (destroyed_object c)
      | _ \<Rightarrow> L)"

primrec resources_rev :: "vk_driver \<Rightarrow> vk_resource_object set \<Rightarrow> vk_call list \<Rightarrow> vk_resource_object set" where
  "resources_rev d S [] = S"
| "resources_rev d S (c # t) = resource_effect (d (rev t) c) c (resources_rev d S t)"

text \<open>The objects that exist after the calls \<open>t\<close>, from the objects \<open>S\<close> at the start.\<close>

definition live_objects :: "vk_driver \<Rightarrow> vk_resource_object set \<Rightarrow> vk_call list \<Rightarrow> vk_resource_object set" where
  "live_objects d S t = resources_rev d S (rev t)"

lemma live_objects_Nil [simp]: "live_objects d S [] = S"
  by (simp add: live_objects_def)

lemma live_objects_snoc [simp]:
  "live_objects d S (t @ [c]) = resource_effect (d t c) c (live_objects d S t)"
  by (simp add: live_objects_def)

lemma resource_effect_other [simp]:
  "resource_effect r (VkSync x1) L = L" "resource_effect r (VkQueue x2) L = L"
  "resource_effect r (VkPool x3) L = L" "resource_effect r (VkRecord x4) L = L"
  "resource_effect r (VkPass x5) L = L" "resource_effect r (VkObject x6) L = L"
  "resource_effect r (VkSetup x7) L = L"
  "created_object r x = None \<Longrightarrow> destroyed_object x = None \<Longrightarrow> resource_effect r (VkResource x) L = L"
  by (simp_all add: resource_effect_def)

text \<open>What is asked of the driver: a new object is none of those that exist, and a new image is
  not VK_NULL_HANDLE.\<close>

fun image_handle :: "vk_resource_object \<Rightarrow> VkHandle option" where
  "image_handle (ImageObject i m) = Some i"
| "image_handle (BareImage i) = Some i"
| "image_handle x = None"

definition resource_driver :: "vk_driver \<Rightarrow> vk_resource_object set \<Rightarrow> bool" where
  "resource_driver d S \<longleftrightarrow>
     (\<forall>t c x. vk_result (d t (VkResource c)) = VK_SUCCESS \<and> created_object (d t (VkResource c)) c = Some x
        \<longrightarrow> x \<notin> live_objects d S t \<and> image_handle x \<noteq> Some VK_NULL_HANDLE)"

section \<open>The objects of the runtime\<close>

datatype slot = BufferSlot ptr | TextureSlot ptr | SamplerSlot ptr

fun slot_address :: "slot \<Rightarrow> ptr" where
  "slot_address (BufferSlot p) = p"
| "slot_address (TextureSlot p) = p"
| "slot_address (SamplerSlot p) = p"

definition texture_object :: "CGPUTexture_Vulkan \<Rightarrow> vk_resource_object" where
  "texture_object T =
     (if texture_owns_image T then ImageObject (pVkImage T) (texture_pVkAllocation T) else BareImage (pVkImage T))"

definition held_object :: "vk_world \<Rightarrow> slot \<rightharpoonup> vk_resource_object" where
  "held_object w s =
     (case s of
        BufferSlot p \<Rightarrow> map_option (\<lambda>B. BufferObject (pVkBuffer B) (buffer_pVkAllocation B)) (buffers w p)
      | TextureSlot p \<Rightarrow> map_option texture_object (textures w p)
      | SamplerSlot p \<Rightarrow> map_option (\<lambda>S. SamplerObject (pVkSampler S)) (samplers w p))"

definition alias_flags :: "vk_world \<Rightarrow> ptr \<rightharpoonup> bool \<times> bool" where
  "alias_flags w p = map_option (\<lambda>T. (texture_is_aliasing T, texture_owns_image T)) (textures w p)"

definition balance_view ::
    "vk_driver \<Rightarrow> vk_resource_object set \<Rightarrow> vk_world
      \<Rightarrow> (slot \<rightharpoonup> vk_resource_object) \<times> vk_resource_object set \<times> nat \<times> (ptr \<rightharpoonup> bool \<times> bool)" where
  "balance_view d S w = (held_object w, live_objects d S (trace w), next_addr w, alias_flags w)"

text \<open>New objects have new addresses, images are not null, and a texture that aliases does not own.\<close>

definition resources_ok :: "vk_world \<Rightarrow> bool" where
  "resources_ok w \<longleftrightarrow>
     (\<forall>s x. held_object w s = Some x \<longrightarrow> slot_address s < next_addr w \<and> image_handle x \<noteq> Some VK_NULL_HANDLE)
   \<and> (\<forall>p. alias_flags w p \<noteq> Some (True, True))"

text \<open>What leaves the objects alone.\<close>

lemma balance_view_cong:
  assumes "buffers v = buffers w" "textures v = textures w" "samplers v = samplers w"
    and "live_objects d S (trace v) = live_objects d S (trace w)" "next_addr v = next_addr w"
  shows "balance_view d S v = balance_view d S w"
  using assms by (auto simp: balance_view_def held_object_def alias_flags_def fun_eq_iff split: slot.split)

lemma view_trace:
  "live_objects d S t = live_objects d S (trace w) \<Longrightarrow> balance_view d S (w\<lparr>trace := t\<rparr>) = balance_view d S w"
  by (rule balance_view_cong) simp_all

lemma keeps_call:
  assumes "\<And>r L. resource_effect r c L = L" and "\<And>r. keeps (balance_view d S) (k r)"
  shows "keeps (balance_view d S) (vk_do V c k)"
proof -
  have "balance_view d S (w\<lparr>trace := trace w @ [c]\<rparr>) = balance_view d S w" for w
    by (rule balance_view_cong) (simp_all add: assms(1))
  then show ?thesis using assms(2) unfolding keeps_def vk_do_run by metis
qed

lemma keeps_buffer:
  assumes "\<And>B. pVkBuffer (g B) = pVkBuffer B" "\<And>B. buffer_pVkAllocation (g B) = buffer_pVkAllocation B"
    and "keeps (balance_view d S) k"
  shows "keeps (balance_view d S) (store buffers buffers_update p g k)"
  by (rule keeps_store [OF _ assms(3)])
    (auto simp: balance_view_def held_object_def alias_flags_def fun_eq_iff assms(1,2) split: slot.split)

text \<open>The slots after an update of an object map.\<close>

lemma held_updates:
  "held_object (buffers_update (\<lambda>m. m(p := b)) w)
     = (held_object w)(BufferSlot p := map_option (\<lambda>B. BufferObject (pVkBuffer B) (buffer_pVkAllocation B)) b)"
  "held_object (textures_update (\<lambda>m. m(p := t)) w) = (held_object w)(TextureSlot p := map_option texture_object t)"
  "held_object (samplers_update (\<lambda>m. m(p := s)) w) = (held_object w)(SamplerSlot p := map_option (\<lambda>S. SamplerObject (pVkSampler S)) s)"
  "held_object (trace_update T w) = held_object w" "held_object (next_addr_update N w) = held_object w"
  by (auto simp: held_object_def fun_eq_iff split: slot.split)

lemma flags_updates:
  "alias_flags (buffers_update B w) = alias_flags w"
  "alias_flags (textures_update (\<lambda>m. m(p := t)) w)
     = (alias_flags w)(p := map_option (\<lambda>T. (texture_is_aliasing T, texture_owns_image T)) t)"
  "alias_flags (samplers_update S w) = alias_flags w"
  "alias_flags (trace_update T w) = alias_flags w" "alias_flags (next_addr_update N w) = alias_flags w"
  by (auto simp: alias_flags_def fun_eq_iff)

lemma view_texture:
  assumes "textures w p = Some T" and "texture_object T' = texture_object T"
    and "texture_is_aliasing T' = texture_is_aliasing T" "texture_owns_image T' = texture_owns_image T"
  shows "balance_view d S (textures_update (\<lambda>m. m(p \<mapsto> T')) w) = balance_view d S w"
proof -
  have "held_object w (TextureSlot p) = Some (texture_object T)"
      "alias_flags w p = Some (texture_is_aliasing T, texture_owns_image T)"
    using assms(1) by (simp_all add: held_object_def alias_flags_def)
  then show ?thesis by (simp add: balance_view_def held_updates flags_updates assms(2-4) fun_upd_idem)
qed

lemma view_buffer:
  assumes "buffers w p = Some B" and "pVkBuffer B' = pVkBuffer B" "buffer_pVkAllocation B' = buffer_pVkAllocation B"
  shows "balance_view d S (buffers_update (\<lambda>m. m(p \<mapsto> B')) w) = balance_view d S w"
proof -
  have "held_object w (BufferSlot p) = Some (BufferObject (pVkBuffer B) (buffer_pVkAllocation B))"
    using assms(1) by (simp add: held_object_def)
  then show ?thesis by (simp add: balance_view_def held_updates flags_updates assms(2,3) fun_upd_idem)
qed

lemma view_sampler:
  assumes "samplers w p = Some X" and "pVkSampler X' = pVkSampler X"
  shows "balance_view d S (samplers_update (\<lambda>m. m(p \<mapsto> X')) w) = balance_view d S w"
proof -
  have "held_object w (SamplerSlot p) = Some (SamplerObject (pVkSampler X))"
    using assms(1) by (simp add: held_object_def)
  then show ?thesis by (simp add: balance_view_def held_updates flags_updates assms(2) fun_upd_idem)
qed

lemma keeps_others:
  assumes "keeps (balance_view d S) k"
  shows "keeps (balance_view d S) (store cmds cmds_update p f k)"
    and "keeps (balance_view d S) (store fences fences_update p g k)"
    and "keeps (balance_view d S) (store semaphores semaphores_update p h k)"
  by (rule keeps_store [OF _ assms], rule balance_view_cong; simp)+

lemmas ledger_intros =
  keeps_ret keeps_fail keeps_bindP keeps_assertc keeps_deref keeps_index_of keeps_update_at keeps_checked_proc
  keeps_CHECK_VKRESULT keeps_if keeps_Let keeps_case_option keeps_case_prod keeps_for_each keeps_map_each
  keeps_call keeps_buffer keeps_others

section \<open>The inner calls\<close>

lemma set_name_keeps:
  "keeps (balance_view d S) k \<Longrightarrow> keeps (balance_view d S) (VkUtil_OptionalSetObjectName V D h name k)"
  unfolding VkUtil_OptionalSetObjectName_def
  by (intro ledger_intros) simp_all

lemma create_texel_views_keeps: "keeps (balance_view d S) (create_texel_views V D desc usage B)"
  unfolding create_texel_views_def Let_def
  by (intro ledger_intros) simp_all

lemma collect_keeps:
  "keeps (balance_view d S) (collect_wait_semaphores ss arr n)"
  "keeps (balance_view d S) (collect_signal_semaphores ss arr n)"
  by (induction ss arbitrary: arr n) (simp_all add: ledger_intros)

lemma submitted_fences_keeps: "keeps (balance_view d S) (submitted_fences fs)"
  by (induction fs) (simp_all add: ledger_intros del: ret_run)

text \<open>The calls of the front end in the transition of a new texture.\<close>

lemma reset_pool_keeps: "keeps (balance_view d S) (cgpu_reset_command_pool (system_env V R base p n) pool)"
  unfolding cgpu_reset_command_pool_def device_table_def
  by (intro ledger_intros system_keeps) (auto simp: vk_table_defs cgpu_reset_command_pool_vulkan_def intro!: ledger_intros)

lemma cmd_begin_keeps: "keeps (balance_view d S) (cgpu_cmd_begin (system_env V R base p n) cmd)"
  unfolding cgpu_cmd_begin_def device_table_def
  by (intro ledger_intros system_keeps)
    (auto simp: vk_table_defs cgpu_cmd_begin_vulkan_def with_cmd_def intro!: ledger_intros)

lemma cmd_end_keeps: "keeps (balance_view d S) (cgpu_cmd_end (system_env V R base p n) cmd)"
  unfolding cgpu_cmd_end_def device_table_def
  by (intro ledger_intros system_keeps)
    (auto simp: vk_table_defs cgpu_cmd_end_vulkan_def with_cmd_def intro!: ledger_intros)

lemma barrier_families_keeps:
  "(\<And>x. keeps (balance_view d S) (k x)) \<Longrightarrow> keeps (balance_view d S) (barrier_families A t q a r k)"
  unfolding barrier_families_def queue_family_def by (intro ledger_intros) simp_all

lemma barrier_keeps: "keeps (balance_view d S) (cgpu_cmd_resource_barrier (system_env V R base p n) cmd desc)"
  unfolding cgpu_cmd_resource_barrier_def device_table_def
  by (intro ledger_intros system_keeps)
    (auto simp: vk_table_defs cgpu_cmd_resource_barrier_vulkan_def with_cmd_def buffer_barrier_vulkan_def
      texture_barrier_vulkan_def intro!: ledger_intros barrier_families_keeps)

lemma submit_keeps: "keeps (balance_view d S) (cgpu_submit_queue (system_env V R base p n) q desc)"
  unfolding cgpu_submit_queue_def device_table_def desc_ptr_def
  by (intro ledger_intros system_keeps)
    (auto simp: vk_table_defs cgpu_submit_queue_vulkan_def acquire_queue_mutex_def release_queue_mutex_def
      fence_handle_def set_submitted_def intro!: ledger_intros collect_keeps)

lemma wait_fences_keeps: "keeps (balance_view d S) (cgpu_wait_fences (system_env V R base p n) fs)"
proof (cases fs)
  case (Cons f fs')
  show ?thesis
    unfolding cgpu_wait_fences_def device_table_def Cons list.case
    by (intro ledger_intros system_keeps)
      (auto simp: vk_table_defs cgpu_wait_fences_vulkan_def intro!: ledger_intros submitted_fences_keeps)
qed (simp add: cgpu_wait_fences_def keeps_ret)

lemma transition_keeps:
  "keeps (balance_view d S) (transition_to_start_state V (system_env V R base p n) q t s)"
  unfolding transition_to_start_state_def
  by (intro ledger_intros reset_pool_keeps cmd_begin_keeps cmd_end_keeps barrier_keeps submit_keeps wait_fences_keeps)
    simp_all

section \<open>Operations\<close>

datatype resource_op =
    CreateBuffer CGPUDeviceId CGPUBufferDescriptor
  | MapBuffer CGPUBufferId "CGPUBufferRange option"
  | UnmapBuffer CGPUBufferId
  | FreeBuffer CGPUBufferId
  | CreateTexture CGPUDeviceId CGPUTextureDescriptor
  | FreeTexture CGPUTextureId
  | BindAliasing CGPUDeviceId CGPUTextureAliasingBindDescriptor
  | CreateSampler CGPUDeviceId CGPUSamplerDescriptor
  | FreeSampler CGPUSamplerId

fun exec_resource :: "cgpu_env \<Rightarrow> resource_op \<Rightarrow> unit vk_prog" where
  "exec_resource E (CreateBuffer device desc) = bindP (cgpu_create_buffer E device desc) (\<lambda>_. ret ())"
| "exec_resource E (MapBuffer buffer rng) = cgpu_map_buffer E buffer rng"
| "exec_resource E (UnmapBuffer buffer) = cgpu_unmap_buffer E buffer"
| "exec_resource E (FreeBuffer buffer) = cgpu_free_buffer E buffer"
| "exec_resource E (CreateTexture device desc) = bindP (cgpu_create_texture E device desc) (\<lambda>_. ret ())"
| "exec_resource E (FreeTexture texture) = cgpu_free_texture E texture"
| "exec_resource E (BindAliasing device desc) = bindP (cgpu_try_bind_aliasing_texture E device desc) (\<lambda>_. ret ())"
| "exec_resource E (CreateSampler device desc) = bindP (cgpu_create_sampler E device desc) (\<lambda>_. ret ())"
| "exec_resource E (FreeSampler sampler) = cgpu_free_sampler E sampler"

text \<open>An image that the application brings has an owner outside of the runtime.\<close>

fun own_images :: "resource_op \<Rightarrow> bool" where
  "own_images (CreateTexture device desc) \<longleftrightarrow>
     td_native_handle desc = NULL \<or> has_any (td_flags desc) CGPU_TCF_IMPORT_BIT"
| "own_images op \<longleftrightarrow> True"

section \<open>The three kinds of steps\<close>

definition ledger_step :: "vk_driver \<Rightarrow> vk_resource_object set \<Rightarrow> vk_world \<Rightarrow> vk_world \<Rightarrow> bool" where
  "ledger_step d S w v \<longleftrightarrow> resources_ok v \<and>
     (held_object v = held_object w \<and> live_objects d S (trace v) = live_objects d S (trace w)
      \<or> (\<exists>s x. s \<notin> dom (held_object w) \<and> x \<notin> live_objects d S (trace w) \<and> held_object v = (held_object w)(s \<mapsto> x)
           \<and> live_objects d S (trace v) = insert x (live_objects d S (trace w)))
      \<or> (\<exists>s x. held_object w s = Some x \<and> held_object v = (held_object w)(s := None)
           \<and> live_objects d S (trace v) = live_objects d S (trace w) - {x}))"

lemma same_step: "resources_ok w \<Longrightarrow> balance_view d S v = balance_view d S w \<Longrightarrow> ledger_step d S w v"
  by (simp add: ledger_step_def resources_ok_def balance_view_def)

lemma new_step:
  assumes "resources_ok w" and "slot_address s = next_addr w"
    and "balance_view d S v = ((held_object w)(s \<mapsto> x), insert x (live_objects d S (trace w)), Suc (next_addr w), F)"
    and "x \<notin> live_objects d S (trace w)" and "image_handle x \<noteq> Some VK_NULL_HANDLE" and "\<forall>p. F p \<noteq> Some (True, True)"
  shows "ledger_step d S w v"
proof -
  have v: "held_object v = (held_object w)(s \<mapsto> x)" "live_objects d S (trace v) = insert x (live_objects d S (trace w))"
      "next_addr v = Suc (next_addr w)" "alias_flags v = F"
    using assms(3) by (simp_all add: balance_view_def)
  have "s \<notin> dom (held_object w)" using assms(1,2) unfolding resources_ok_def by fastforce
  moreover have "resources_ok v"
    using assms(1,2,5,6) v unfolding resources_ok_def by (auto intro: less_SucI)
  ultimately show ?thesis using assms(4) v unfolding ledger_step_def by blast
qed

lemma gone_step:
  assumes "resources_ok w" and "held_object w s = Some x"
    and "balance_view d S v = ((held_object w)(s := None), live_objects d S (trace w) - {x}, next_addr w, F)"
    and "\<forall>p. F p \<noteq> Some (True, True)"
  shows "ledger_step d S w v"
proof -
  have v: "held_object v = (held_object w)(s := None)" "live_objects d S (trace v) = live_objects d S (trace w) - {x}"
      "next_addr v = next_addr w" "alias_flags v = F"
    using assms(3) by (simp_all add: balance_view_def)
  then have "resources_ok v" using assms(1,4) unfolding resources_ok_def by auto
  then show ?thesis using assms(2) v unfolding ledger_step_def by blast
qed

section \<open>The Vulkan functions\<close>

lemma buffer_info_end:
  assumes "VkUtil_CreateBufferCreateInfo adapter desc k w = Inr x"
  obtains info where "k info w = Inr x"
  using assms
  by (auto simp: VkUtil_CreateBufferCreateInfo_def Let_def smath_round_up_def elim!: deref_end split: if_splits)

lemma setup_buffer_keeps: "keeps (balance_view d S) (setup_buffer V D desc usage B)"
  unfolding setup_buffer_def
  by (intro ledger_intros create_texel_views_keeps set_name_keeps) simp_all

lemma live_failed: "vk_result r \<noteq> VK_SUCCESS \<Longrightarrow> destroyed_object c = None \<Longrightarrow> resource_effect r (VkResource c) L = L"
  by (simp add: resource_effect_def)

lemma live_created:
  "vk_result r = VK_SUCCESS \<Longrightarrow> created_object r c = Some x \<Longrightarrow> destroyed_object c = None
    \<Longrightarrow> resource_effect r (VkResource c) L = insert x L"
  by (simp add: resource_effect_def)

lemma live_destroyed:
  "created_object r c = None \<Longrightarrow> destroyed_object c = Some x \<Longrightarrow> resource_effect r (VkResource c) L = L - {x}"
  by (simp add: resource_effect_def)

lemma resource_driverD:
  assumes "resource_driver d S" and "vk_result (d t (VkResource c)) = VK_SUCCESS" and "created_object (d t (VkResource c)) c = Some x"
  shows "x \<notin> live_objects d S t" and "image_handle x \<noteq> Some VK_NULL_HANDLE"
  using assms unfolding resource_driver_def by blast+

lemma failed_step:
  assumes "resources_ok w" and "vk_result (vk_drv V (trace w) (VkResource c)) \<noteq> VK_SUCCESS" and "destroyed_object c = None"
  shows "ledger_step (vk_drv V) S w (w\<lparr>trace := trace w @ [VkResource c]\<rparr>)"
  by (rule same_step [OF assms(1)], rule balance_view_cong) (simp_all add: live_failed [OF assms(2,3)])

text \<open>The part that the creations share: a successful call whose object goes into a new slot.\<close>

lemma created_step:
  assumes "resources_ok w" and "resource_driver (vk_drv V) S" and r: "r = vk_drv V (trace w) (VkResource c)"
    and c: "vk_result r = VK_SUCCESS" "created_object r c = Some x" "destroyed_object c = None"
    and "slot_address s = next_addr w" and "\<forall>p. F p \<noteq> Some (True, True)"
    and "held_object u = (held_object w)(s \<mapsto> x)" "next_addr u = Suc (next_addr w)" "alias_flags u = F"
      "trace u = trace w @ [VkResource c]"
    and "balance_view (vk_drv V) S v = balance_view (vk_drv V) S u"
  shows "ledger_step (vk_drv V) S w v"
proof (rule new_step [OF assms(1,7)])
  show "balance_view (vk_drv V) S v = ((held_object w)(s \<mapsto> x), insert x (live_objects (vk_drv V) S (trace w)), Suc (next_addr w), F)"
    unfolding assms(13) by (simp add: balance_view_def assms(9-12) live_created [OF c] flip: r)
qed (use assms(2,8) c(1,2) resource_driverD [OF assms(2)] in \<open>auto simp: r\<close>)

lemma made_buffer:
  assumes "resources_ok w" and "resource_driver (vk_drv V) S" and "\<And>p. keeps (balance_view (vk_drv V) S) (k p)"
    and "c = VmaCreateBuffer a i q" and r: "r = vk_drv V (trace w) (VkResource c)" and "vk_result r = VK_SUCCESS"
    and run: "calloc buffers_update (new_buffer m (vk_out r 1) (vk_out r 0)) k (w\<lparr>trace := trace w @ [VkResource c]\<rparr>) = Inr (b, v)"
  shows "ledger_step (vk_drv V) S w v"
proof (rule created_step [OF assms(1,2) r assms(6)])
  show "balance_view (vk_drv V) S v = balance_view (vk_drv V) S
      (buffers_update (\<lambda>b. b(next_addr w \<mapsto> new_buffer m (vk_out r 1) (vk_out r 0)))
        (w\<lparr>trace := trace w @ [VkResource c], next_addr := Suc (next_addr w)\<rparr>))"
    using run keepsD [OF assms(3)] by (simp add: calloc_run)
  show "slot_address (BufferSlot (next_addr w)) = next_addr w" by simp
  show "\<forall>p. alias_flags w p \<noteq> Some (True, True)" using assms(1) by (simp add: resources_ok_def)
qed (simp_all add: assms(4) held_updates flags_updates new_buffer_def)

lemma create_buffer_ledger:
  assumes "resources_ok w" and "resource_driver (vk_drv V) S" and "vk_debug V"
    and "cgpu_create_buffer_vulkan V device desc w = Inr (b, v)"
  shows "ledger_step (vk_drv V) S w v"
  using assms(3,4) unfolding cgpu_create_buffer_vulkan_def
  by (elim deref_end buffer_info_end)
    (auto simp: vk_do_run assertc_run split: if_splits
      intro: failed_step [OF assms(1)] made_buffer [OF assms(1,2) setup_buffer_keeps refl refl])

lemma map_buffer_ledger:
  "keeps (balance_view d S) (cgpu_map_buffer_vulkan V b rng)"
  "keeps (balance_view d S) (cgpu_unmap_buffer_vulkan V b)"
  unfolding cgpu_map_buffer_vulkan_def cgpu_unmap_buffer_vulkan_def
  by (intro ledger_intros; simp)+

lemma freed_step:
  assumes "resources_ok w" and "held_object w s = Some x"
    and "created_object (vk_drv V (trace u) (VkResource c)) c = None" "destroyed_object c = Some x"
    and "balance_view (vk_drv V) S u = balance_view (vk_drv V) S w"
    and "held_object v = (held_object w)(s := None)" "next_addr v = next_addr w" "alias_flags v = F"
      "trace v = trace u @ [VkResource c]" and "\<forall>p. F p \<noteq> Some (True, True)"
  shows "ledger_step (vk_drv V) S w v"
proof (rule gone_step [OF assms(1,2)])
  have "live_objects (vk_drv V) S (trace u) = live_objects (vk_drv V) S (trace w)"
    using assms(5) by (simp add: balance_view_def)
  then show "balance_view (vk_drv V) S v
      = ((held_object w)(s := None), live_objects (vk_drv V) S (trace w) - {x}, next_addr w, F)"
    by (simp add: balance_view_def assms(6-9) live_destroyed [OF assms(3,4)])
qed (rule assms(10))

lemma free_texel_views_keeps: "keeps (balance_view d S) (free_texel_views V D buffer)"
  unfolding free_texel_views_def by (intro ledger_intros) simp_all

lemma free_buffer_ledger:
  assumes "resources_ok w" and "cgpu_free_buffer_vulkan V buffer w = Inr (a, v)"
  shows "ledger_step (vk_drv V) S w v"
proof -
  obtain D :: CGPUDevice_Vulkan and u B where "free_texel_views V D buffer w = Inr ((), u)" and B: "buffers u buffer = Some B"
    and v: "vk_do V (VkResource (VmaDestroyBuffer (pVmaAllocator D) (pVkBuffer B) (buffer_pVkAllocation B))) (\<lambda>_.
         release buffers_update buffer (ret ())) u = Inr (a, v)"
    using assms(2) unfolding cgpu_free_buffer_vulkan_def by (auto elim!: deref_end assertc_end bindP_end)
  then have u: "balance_view (vk_drv V) S u = balance_view (vk_drv V) S w"
    using keepsD [OF free_texel_views_keeps] by blast
  have "held_object u (BufferSlot buffer) = Some (BufferObject (pVkBuffer B) (buffer_pVkAllocation B))"
    using B by (simp add: held_object_def)
  then have held: "held_object w (BufferSlot buffer) = Some (BufferObject (pVkBuffer B) (buffer_pVkAllocation B))"
    using u by (simp add: balance_view_def)
  show ?thesis
  proof (rule freed_step [OF assms(1) held _ _ u])
    show "held_object v = (held_object w)(BufferSlot buffer := None)" "next_addr v = next_addr w" "alias_flags v = alias_flags w"
      using u v by (auto simp: balance_view_def held_object_def alias_flags_def vk_do_run release_run fun_eq_iff split: slot.splits)
    show "\<forall>p. alias_flags w p \<noteq> Some (True, True)" using assms(1) by (simp add: resources_ok_def)
  qed (use v in \<open>auto simp: vk_do_run release_run\<close>)
qed

text \<open>Images.\<close>

lemma ledger_step_from:
  assumes "balance_view d S u = balance_view d S w" and "ledger_step d S u v"
  shows "ledger_step d S w v"
  using assms by (simp add: ledger_step_def balance_view_def)

lemma resources_ok_view: "balance_view d S u = balance_view d S w \<Longrightarrow> resources_ok w \<Longrightarrow> resources_ok u"
  by (simp add: resources_ok_def balance_view_def)

definition new_image_object :: "CGPUTextureDescriptor \<Rightarrow> image_result \<Rightarrow> vk_resource_object" where
  "new_image_object desc img =
     (if td_is_aliasing desc then BareImage (ir_image img) else ImageObject (ir_image img) (ir_allocation img))"

lemma create_image_end:
  assumes "create_image V D desc type w = Inr (img, v)" and "vk_debug V"
  obtains f c u where "u = w\<lparr>trace := trace w @ [VkResource f]\<rparr>" "\<And>r. created_object r f = None" "destroyed_object f = None"
    "v = u\<lparr>trace := trace u @ [VkResource c]\<rparr>" "vk_result (vk_drv V (trace u) (VkResource c)) = VK_SUCCESS"
    "created_object (vk_drv V (trace u) (VkResource c)) c = Some (new_image_object desc img)" "destroyed_object c = None"
proof -
  obtain A :: CGPUAdapter_Vulkan where A: "adapters w (device_adapter D) = Some A"
    using assms(1) unfolding create_image_def by (auto elim!: deref_end)
  let ?i = "image_create_info desc type"
  let ?f = "VkGetPhysicalDeviceFormatProperties (pPhysicalDevice A) (ici_format ?i)"
  let ?c = "if td_is_aliasing desc then VkCreateImage (pVkDevice D) ?i
    else VmaCreateImage (pVmaAllocator D) (?i\<lparr>ici_external := external_memory A \<and> has_any (td_flags desc) CGPU_TCF_IMPORT_BIT\<rparr>)
      (texture_allocation_info A desc)"
  show ?thesis
    by (rule that [of "w\<lparr>trace := trace w @ [VkResource ?f]\<rparr>" ?f ?c])
      (use assms A in \<open>auto simp: create_image_def Let_def deref_run vk_do_run assertc_run bindP_run index_of_run
        CHECK_VKRESULT_run new_image_object_def split: if_splits sum.splits\<close>)
qed

lemma setup_texture_keeps: "keeps (balance_view d S) (setup_texture V (system_env V R base p n) D desc img t)"
  unfolding setup_texture_def by (intro set_name_keeps ledger_intros transition_keeps)

lemma image_type_end:
  assumes "image_type_of V desc k w = Inr x"
  obtains type where "k type w = Inr x"
  using assms by (auto simp: image_type_of_def elim!: assertc_end split: if_splits)

text \<open>A texture that is put into a new slot, with the image that was created for it.\<close>

lemma made_texture:
  assumes ok: "resources_ok w" and drv: "resource_driver (vk_drv V) S" and "vk_debug V"
    and img: "create_image V D desc type w = Inr (img, v)"
    and keeps: "\<And>p. keeps (balance_view (vk_drv V) S) (k p)"
    and run: "calloc textures_update (texture_of desc (\<not> td_is_aliasing desc) type img) k v = Inr (t, v')"
  shows "ledger_step (vk_drv V) S w v'"
proof -
  obtain f c u where u: "u = w\<lparr>trace := trace w @ [VkResource f]\<rparr>" "\<And>r. created_object r f = None" "destroyed_object f = None"
    and v: "v = u\<lparr>trace := trace u @ [VkResource c]\<rparr>"
    and c: "vk_result (vk_drv V (trace u) (VkResource c)) = VK_SUCCESS"
      "created_object (vk_drv V (trace u) (VkResource c)) c = Some (new_image_object desc img)" "destroyed_object c = None"
    by (rule create_image_end [OF img assms(3)], rule that; assumption)
  have same: "balance_view (vk_drv V) S u = balance_view (vk_drv V) S w"
    unfolding u(1) by (rule balance_view_cong) (simp_all add: u(2,3))
  let ?T = "texture_of desc (\<not> td_is_aliasing desc) type img"
  show ?thesis
  proof (rule ledger_step_from [OF same], rule created_step [OF resources_ok_view [OF same ok] drv refl c])
    show "balance_view (vk_drv V) S v' = balance_view (vk_drv V) S
        (textures_update (\<lambda>m. m(next_addr u \<mapsto> ?T)) (v\<lparr>next_addr := Suc (next_addr u)\<rparr>))"
      using run keepsD [OF keeps] by (simp add: calloc_run v)
    show "slot_address (TextureSlot (next_addr u)) = next_addr u" by simp
    show "\<forall>p. ((alias_flags u)(next_addr u \<mapsto> (td_is_aliasing desc, \<not> td_is_aliasing desc))) p \<noteq> Some (True, True)"
      using resources_ok_view [OF same ok] by (auto simp: resources_ok_def)
  qed (simp_all add: v held_updates flags_updates texture_of_def texture_object_def new_image_object_def fun_eq_iff)
qed

lemma create_texture_ledger:
  assumes "resources_ok w" and "resource_driver (vk_drv V) S" and "vk_debug V"
    and "own_images (CreateTexture device desc)"
    and run: "cgpu_create_texture_vulkan V (system_env V R base p n) device desc w = Inr (t, v)"
  shows "ledger_step (vk_drv V) S w v"
proof -
  have "\<not> (td_native_handle desc \<noteq> NULL \<and> \<not> has_any (td_flags desc) CGPU_TCF_IMPORT_BIT)"
    using assms(4) by auto
  with run assms(3) show ?thesis
    unfolding cgpu_create_texture_vulkan_def
    by (auto simp: Let_def assertc_run elim!: deref_end image_type_end bindP_end split: if_splits
        intro: made_texture [OF assms(1-3) _ setup_texture_keeps])
qed

lemma free_texture_ledger:
  assumes ok: "resources_ok w" and run: "cgpu_free_texture_vulkan V texture w = Inr (a, v)"
  shows "ledger_step (vk_drv V) S w v"
proof -
  obtain T where T: "textures w texture = Some T"
    using run unfolding cgpu_free_texture_vulkan_def by (auto elim!: deref_end)
  then have held: "held_object w (TextureSlot texture) = Some (texture_object T)"
    by (simp add: held_object_def)
  then have "pVkImage T \<noteq> VK_NULL_HANDLE"
    using ok unfolding resources_ok_def texture_object_def by (fastforce split: if_splits)
  then obtain D where D: "devices w (texture_device T) = Some D"
    using run T unfolding cgpu_free_texture_vulkan_def by (auto elim!: deref_end bindP_end)
  define c where "c = (if texture_owns_image T then VmaDestroyImage (pVmaAllocator D) (pVkImage T) (texture_pVkAllocation T)
        else VkDestroyImage (pVkDevice D) (pVkImage T))"
  have v: "v = textures_update (\<lambda>m. m(texture := None)) (w\<lparr>trace := trace w @ [VkResource c]\<rparr>)"
    using run T D \<open>pVkImage T \<noteq> VK_NULL_HANDLE\<close> unfolding cgpu_free_texture_vulkan_def
    by (auto simp: c_def deref_run bindP_run vk_do_run release_run split: if_splits)
  show ?thesis
  proof (rule freed_step [OF ok held _ _ refl])
    show "\<forall>p. ((alias_flags w)(texture := None)) p \<noteq> Some (True, True)" using ok by (simp add: resources_ok_def)
  qed (simp_all add: v c_def texture_object_def held_updates flags_updates fun_eq_iff)
qed

lemma live_objects_snoc2:
  "live_objects d S (t @ [a, b]) = resource_effect (d (t @ [a]) b) b (live_objects d S (t @ [a]))"
  using live_objects_snoc [of d S "t @ [a]" b] by simp

lemma live_objects_snoc3:
  "live_objects d S (t @ [a, b, c]) = resource_effect (d (t @ [a, b]) c) c (live_objects d S (t @ [a, b]))"
  using live_objects_snoc [of d S "t @ [a, b]" c] by simp

lemma bind_aliasing_ledger:
  assumes ok: "resources_ok w" and "vk_debug V" and run: "cgpu_try_bind_aliasing_texture_vulkan V device desc w = Inr (b, v)"
  shows "balance_view d S v = balance_view d S w"
proof (cases "tab_aliased desc = NULL")
  case False
  obtain T where T: "textures w (tab_aliasing desc) = Some T" "texture_is_aliasing T"
    using run False assms(2) unfolding cgpu_try_bind_aliasing_texture_vulkan_def
    by (auto elim!: deref_end assertc_end)
  have bound: "balance_view d S (textures_update (\<lambda>ts. ts(tab_aliasing desc \<mapsto> T\<lparr>texture_pVkAllocation := x\<rparr>)) u)
      = balance_view d S u" if "textures u = textures w" for u x
  proof (rule view_texture)
    show "textures u (tab_aliasing desc) = Some T" using that T by simp
    show "texture_object (T\<lparr>texture_pVkAllocation := x\<rparr>) = texture_object T"
      using ok T by (auto simp: resources_ok_def texture_object_def alias_flags_def)
  qed simp_all
  show ?thesis
    using run False assms(2) T unfolding cgpu_try_bind_aliasing_texture_vulkan_def
    by (auto simp: deref_run assertc_run vk_do_run store_run bound live_objects_snoc2 live_objects_snoc3 view_trace
        split: if_splits option.splits)
qed (use run in \<open>simp add: cgpu_try_bind_aliasing_texture_vulkan_def\<close>)

text \<open>Samplers.\<close>

lemma create_sampler_ledger:
  assumes "resources_ok w" and "resource_driver (vk_drv V) S" and "vk_debug V"
    and "cgpu_create_sampler_vulkan V device desc w = Inr (s, v)"
  shows "ledger_step (vk_drv V) S w v"
proof -
  obtain D i where D: "vk_result (vk_drv V (trace w) (VkResource (VkCreateSampler D i))) = VK_SUCCESS"
    and v: "samplers v = (samplers w)(next_addr w \<mapsto> \<lparr>sampler_device = NULL,
        pVkSampler = vk_out (vk_drv V (trace w) (VkResource (VkCreateSampler D i))) 0\<rparr>)"
      "buffers v = buffers w" "textures v = textures w" "next_addr v = Suc (next_addr w)"
      "trace v = trace w @ [VkResource (VkCreateSampler D i)]"
    using assms(3,4) unfolding cgpu_create_sampler_vulkan_def VkUtil_TranslateMipMapMode_def
    by (auto simp: calloc_run assertc_run index_of_run vk_do_run CHECK_VKRESULT_run store_run deref_run
        split: if_splits option.splits ECGPUMipMapMode.splits)
  show ?thesis
  proof (rule created_step [OF assms(1,2) refl D])
    show "slot_address (SamplerSlot (next_addr w)) = next_addr w" by simp
    show "\<forall>p. alias_flags w p \<noteq> Some (True, True)" using assms(1) by (simp add: resources_ok_def)
    show "balance_view (vk_drv V) S v = balance_view (vk_drv V) S v" ..
  qed (auto simp: v held_object_def alias_flags_def fun_eq_iff split: slot.split)
qed

lemma free_sampler_ledger:
  assumes ok: "resources_ok w" and run: "cgpu_free_sampler_vulkan V sampler w = Inr (a, v)"
  shows "ledger_step (vk_drv V) S w v"
proof -
  obtain X D where X: "samplers w sampler = Some X" and v: "v = samplers_update (\<lambda>m. m(sampler := None))
      (w\<lparr>trace := trace w @ [VkResource (VkDestroySampler D (pVkSampler X))]\<rparr>)"
    using run unfolding cgpu_free_sampler_vulkan_def by (auto simp: vk_do_run release_run elim!: deref_end)
  have held: "held_object w (SamplerSlot sampler) = Some (SamplerObject (pVkSampler X))"
    by (simp add: held_object_def X)
  show ?thesis
  proof (rule freed_step [OF ok held _ _ refl])
    show "\<forall>p. alias_flags w p \<noteq> Some (True, True)" using ok by (simp add: resources_ok_def)
  qed (auto simp: v held_object_def alias_flags_def fun_eq_iff split: slot.split)
qed

end
