(* ===== verification/Resource_Facts.thy ===== *)
theory Resource_Facts
  imports Ledger_Facts
begin

text \<open>
  Buffers, textures and samplers as the application sees them, through the front end over the
  Vulkan backend: the ownership of their driver objects, the size of buffers, failed creations
  and what is left behind.
\<close>

section \<open>The system\<close>

lemma ledger_step_to:
  assumes "ledger_step d S w u" and "balance_view d S v = balance_view d S u"
  shows "ledger_step d S w v"
proof -
  have "held_object v = held_object u" "live_objects d S (trace v) = live_objects d S (trace u)"
      "next_addr v = next_addr u" "alias_flags v = alias_flags u"
    using assms(2) by (simp_all add: balance_view_def)
  then show ?thesis using assms(1) by (simp add: ledger_step_def resources_ok_def)
qed

lemmas resource_api_defs =
  cgpu_create_buffer_def cgpu_map_buffer_def cgpu_unmap_buffer_def cgpu_free_buffer_def
  cgpu_create_texture_def cgpu_free_texture_def cgpu_try_bind_aliasing_texture_def
  cgpu_create_sampler_def cgpu_free_sampler_def

text \<open>The creations of the front end: the member that it sets afterwards moves no object.\<close>

lemma cgpu_create_buffer_ledger:
  assumes "resources_ok w" and "resource_driver (vk_drv V) S" and "vk_debug V"
    and run: "cgpu_create_buffer (system_env V R base p n) dev desc w = Inr (r, v)"
  shows "ledger_step (vk_drv V) S w v"
proof -
  obtain b u B where "cgpu_create_buffer_vulkan V dev (normal_buffer_desc desc) w = Inr (b, u)"
      and "buffers u b = Some B" and v: "v = buffers_update (\<lambda>m. m(b \<mapsto> B\<lparr>buffer_device := dev\<rparr>)) u"
    using run by (auto simp: resource_api_defs device_table_def vk_table_defs elim!: api_elims)
  then show ?thesis
    unfolding v by (intro ledger_step_to [OF create_buffer_ledger [OF assms(1-3)] view_buffer]) simp_all
qed

lemma cgpu_create_texture_ledger:
  assumes "resources_ok w" and "resource_driver (vk_drv V) S" and "vk_debug V" and "own_images (CreateTexture dev desc)"
    and run: "cgpu_create_texture (system_env V R base p n) dev desc w = Inr (r, v)"
  shows "ledger_step (vk_drv V) S w v"
proof -
  obtain m t u T where "cgpu_create_texture_vulkan V (system_env V R base p m) dev (normal_texture_desc desc) w = Inr (t, u)"
      and "textures u t = Some T"
      and v: "v = textures_update (\<lambda>m. m(t \<mapsto> T\<lparr>texture_device := dev, texture_sample_count := td_sample_count desc\<rparr>)) u"
    using run by (auto simp: resource_api_defs device_table_def vk_table_defs elim!: api_elims)
  moreover have "own_images (CreateTexture dev (normal_texture_desc desc))"
    using assms(4) by (simp add: normal_texture_desc_def)
  ultimately show ?thesis
    unfolding v by (intro ledger_step_to [OF create_texture_ledger [OF assms(1-3)] view_texture])
      (simp_all add: texture_object_def)
qed

lemma cgpu_create_sampler_ledger:
  assumes "resources_ok w" and "resource_driver (vk_drv V) S" and "vk_debug V"
    and run: "cgpu_create_sampler (system_env V R base p n) dev desc w = Inr (r, v)"
  shows "ledger_step (vk_drv V) S w v"
proof -
  obtain s u X where "cgpu_create_sampler_vulkan V dev desc w = Inr (s, u)"
      and "samplers u s = Some X" and v: "v = samplers_update (\<lambda>m. m(s \<mapsto> X\<lparr>sampler_device := dev\<rparr>)) u"
    using run by (auto simp: resource_api_defs device_table_def vk_table_defs elim!: api_elims)
  then show ?thesis
    unfolding v by (intro ledger_step_to [OF create_sampler_ledger [OF assms(1-3)] view_sampler]) simp_all
qed

lemma exec_resource_ledger:
  assumes "resources_ok w" and "resource_driver (vk_drv V) S" and "vk_debug V" and "own_images op"
    and "exec_resource (system_env V R base p n) op w = Inr (r, v)"
  shows "ledger_step (vk_drv V) S w v"
proof (cases op)
  case (CreateBuffer dev desc)
  then show ?thesis using assms(5) by (auto elim!: bindP_end intro: cgpu_create_buffer_ledger [OF assms(1-3)])
next
  case (MapBuffer b rng)
  then have "cgpu_map_buffer_vulkan V b rng w = Inr ((), v)"
    using assms(5) by (auto simp: resource_api_defs device_table_def vk_table_defs elim!: api_elims)
  then show ?thesis by (intro same_step [OF assms(1)] keepsD [OF map_buffer_ledger(1)])
next
  case (UnmapBuffer b)
  then have "cgpu_unmap_buffer_vulkan V b w = Inr ((), v)"
    using assms(5) by (auto simp: resource_api_defs device_table_def vk_table_defs elim!: api_elims)
  then show ?thesis by (intro same_step [OF assms(1)] keepsD [OF map_buffer_ledger(2)])
next
  case (FreeBuffer b)
  then have "cgpu_free_buffer_vulkan V b w = Inr ((), v)"
    using assms(5) by (auto simp: resource_api_defs device_table_def vk_table_defs elim!: api_elims)
  then show ?thesis by (rule free_buffer_ledger [OF assms(1)])
next
  case (CreateTexture dev desc)
  then show ?thesis using assms(4,5) by (auto elim!: bindP_end intro: cgpu_create_texture_ledger [OF assms(1-3)])
next
  case (FreeTexture t)
  then have "cgpu_free_texture_vulkan V t w = Inr ((), v)"
    using assms(5) by (auto simp: resource_api_defs device_table_def vk_table_defs elim!: api_elims)
  then show ?thesis by (rule free_texture_ledger [OF assms(1)])
next
  case (BindAliasing dev desc)
  then obtain b where "cgpu_try_bind_aliasing_texture_vulkan V dev desc w = Inr (b, v)"
    using assms(5) by (auto simp: resource_api_defs device_table_def vk_table_defs elim!: api_elims)
  then show ?thesis by (intro same_step [OF assms(1)] bind_aliasing_ledger [OF assms(1,3)])
next
  case (CreateSampler dev desc)
  then show ?thesis using assms(5) by (auto elim!: bindP_end intro: cgpu_create_sampler_ledger [OF assms(1-3)])
next
  case (FreeSampler s)
  then have "cgpu_free_sampler_vulkan V s w = Inr ((), v)"
    using assms(5) by (auto simp: resource_api_defs device_table_def vk_table_defs elim!: api_elims)
  then show ?thesis by (rule free_sampler_ledger [OF assms(1)])
qed

text \<open>A step of the runtime: a call of the resource interface, or anything else that leaves the
  objects and the driver's side of them as they are.\<close>

definition resource_step :: "vk_env \<Rightarrow> cgpu_env \<Rightarrow> vk_resource_object set \<Rightarrow> vk_world \<Rightarrow> vk_world \<Rightarrow> bool" where
  "resource_step V E S w v \<longleftrightarrow>
     (\<exists>op r. own_images op \<and> exec_resource E op w = Inr (r, v))
   \<or> held_object v = held_object w \<and> alias_flags v = alias_flags w \<and> next_addr w \<le> next_addr v
     \<and> live_objects (vk_drv V) S (trace v) = live_objects (vk_drv V) S (trace w)"

interpretation vk_ledger: ledger held_object "\<lambda>w. live_objects (vk_drv V) S (trace w)"
    "\<lambda>w. resource_driver (vk_drv V) S \<and> vk_debug V \<and> resources_ok w" "resource_step V (system_env V R base p n) S"
  for V R base p n S
proof
  fix w v
  assume ok: "resource_driver (vk_drv V) S \<and> vk_debug V \<and> resources_ok w"
    and step: "resource_step V (system_env V R base p n) S w v"
  from step have "ledger_step (vk_drv V) S w v"
    unfolding resource_step_def
  proof (elim disjE exE conjE)
    fix op r
    assume "own_images op" "exec_resource (system_env V R base p n) op w = Inr (r, v)"
    then show ?thesis using ok exec_resource_ledger by blast
  next
    assume "held_object v = held_object w" "alias_flags v = alias_flags w" "next_addr w \<le> next_addr v"
      "live_objects (vk_drv V) S (trace v) = live_objects (vk_drv V) S (trace w)"
    moreover from this have "resources_ok v" using ok by (fastforce simp: resources_ok_def)
    ultimately show ?thesis by (simp add: ledger_step_def)
  qed
  then show "resource_driver (vk_drv V) S \<and> vk_debug V \<and> resources_ok v"
    and "held_object v = held_object w \<and> live_objects (vk_drv V) S (trace v) = live_objects (vk_drv V) S (trace w)
      \<or> (\<exists>k x. k \<notin> dom (held_object w) \<and> x \<notin> live_objects (vk_drv V) S (trace w) \<and> held_object v = (held_object w)(k \<mapsto> x)
           \<and> live_objects (vk_drv V) S (trace v) = insert x (live_objects (vk_drv V) S (trace w)))
      \<or> (\<exists>k x. held_object w k = Some x \<and> held_object v = (held_object w)(k := None)
           \<and> live_objects (vk_drv V) S (trace v) = live_objects (vk_drv V) S (trace w) - {x})"
    using ok unfolding ledger_step_def by blast+
qed

section \<open>Properties\<close>


text \<open>Runs of the interface as a computation.\<close>

definition run_resources :: "cgpu_env \<Rightarrow> vk_world \<Rightarrow> resource_op list \<Rightarrow> vk_world option" where
  "run_resources E w ops =
     fold (\<lambda>op u. case u of None \<Rightarrow> None
       | Some u \<Rightarrow> (case exec_resource E op u of Inl e \<Rightarrow> None | Inr (_, v) \<Rightarrow> Some v)) ops (Some w)"

lemma run_resources_steps:
  "list_all own_images ops \<Longrightarrow> run_resources E w ops = Some v \<Longrightarrow> (resource_step V E S)\<^sup>*\<^sup>* w v"
proof (induction ops arbitrary: v rule: rev_induct)
  case Nil
  then show ?case by (simp add: run_resources_def)
next
  case (snoc op ops)
  obtain u r where "run_resources E w ops = Some u" and "exec_resource E op u = Inr (r, v)"
    using snoc.prems by (auto simp: run_resources_def split: option.splits sum.splits)
  then have "(resource_step V E S)\<^sup>*\<^sup>* w u" "resource_step V E S u v"
    using snoc.IH snoc.prems(1) unfolding resource_step_def [of V E S u v] by auto
  then show ?case by (rule rtranclp.rtrancl_into_rtrancl)
qed

text \<open>A buffer and a sampler are created, the texture of the sample is freed, then the buffer.\<close>

definition resource_vk :: vk_env where
  "resource_vk = sample_vk\<lparr>vk_drv := \<lambda>tr c. \<lparr>vk_result = VK_SUCCESS, vk_outs = [length tr + 1000, length tr + 2000]\<rparr>\<rparr>"

definition sample_sampler_desc :: CGPUSamplerDescriptor where
  "sample_sampler_desc = \<lparr>smp_min_filter = CGPU_FILTER_TYPE_LINEAR, smp_mag_filter = CGPU_FILTER_TYPE_LINEAR,
     smp_mipmap_mode = CGPU_MIPMAP_MODE_LINEAR, smp_address_u = CGPU_ADDRESS_MODE_REPEAT,
     smp_address_v = CGPU_ADDRESS_MODE_REPEAT, smp_address_w = CGPU_ADDRESS_MODE_REPEAT,
     smp_mip_lod_bias = 0, smp_max_anisotropy = 0, smp_compare_func = CGPU_CMP_NEVER\<rparr>"

definition sample_resource_ops :: "resource_op list" where
  "sample_resource_ops = [CreateBuffer 3 (zero_buffer_desc\<lparr>bd_size := 64\<rparr>), CreateSampler 3 sample_sampler_desc,
     FreeTexture 19, FreeBuffer 100]"

lemma resource_vk_sel [simp]:
  "vk_debug resource_vk" "vk_drv resource_vk = (\<lambda>tr c. \<lparr>vk_result = VK_SUCCESS, vk_outs = [length tr + 1000, length tr + 2000]\<rparr>)"
  by (simp_all add: resource_vk_def)

definition resource_env :: cgpu_env where
  "resource_env = system_env resource_vk sample_rs sample_base 9 2"

lemma resource_env_sel [simp]:
  "debug resource_env"
  "proc_tables resource_env = [9 \<mapsto> tbl_vk resource_vk sample_rs (system_env resource_vk sample_rs sample_base 9 1) sample_base]"
  by (simp_all add: resource_env_def numeral_2_eq_2 system_env.simps(2))

lemmas sample_resource_defs =
  resource_api_defs cgpu_create_buffer_vulkan_def VkUtil_CreateBufferCreateInfo_def normal_buffer_desc_def zero_buffer_desc_def
  setup_buffer_def create_texel_views_def VkUtil_OptionalSetObjectName_def new_buffer_def
  VkUtil_DescriptorTypesToBufferUsage_def has_any_def buffer_allocation_info_def
  cgpu_create_sampler_vulkan_def VkUtil_TranslateMipMapMode_def sample_sampler_desc_def gVkComparisonFuncTranslator_def
  cgpu_free_texture_vulkan_def cgpu_free_buffer_vulkan_def free_texel_views_def

lemma sample_resources_run:
  "\<exists>v. run_resources resource_env sample_world sample_resource_ops = Some v
     \<and> held_object v = [SamplerSlot 101 \<mapsto> SamplerObject 1001]"
  by (simp add: run_resources_def sample_resource_ops_def sample_resource_defs device_table_run prog_simps vk_table_defs
      Let_def sample_defs vk_out_def)
    (auto simp: held_object_def fun_eq_iff split: slot.split)

fun object_handle :: "vk_resource_object \<Rightarrow> VkHandle" where
  "object_handle (BufferObject b m) = b"
| "object_handle (ImageObject i m) = i"
| "object_handle (BareImage i) = i"
| "object_handle (SamplerObject s) = s"

lemma resource_vk_driver: "resource_driver (vk_drv resource_vk) {ImageObject 508 509}"
proof -
  have old: "object_handle x < length t + 1000" if "x \<in> live_objects (vk_drv resource_vk) {ImageObject 508 509} t" for x t
    using that
  proof (induction t rule: rev_induct)
    case (snoc c t)
    have new: "object_handle y = length t + 1000" if "created_object (vk_drv resource_vk t c) rc = Some y" for rc y
      using that by (cases rc) (auto simp: vk_out_def)
    show ?case
    proof (cases c)
      case (VkResource rc)
      then have "x \<in> live_objects (vk_drv resource_vk) {ImageObject 508 509} t
          \<or> created_object (vk_drv resource_vk t c) rc = Some x"
        using snoc.prems by (auto simp: resource_effect_def split: if_splits)
      then show ?thesis using snoc.IH new by fastforce
    qed (use snoc in auto)
  qed simp
  show ?thesis
    unfolding resource_driver_def
  proof (intro allI impI, elim conjE)
    fix t c x
    assume "created_object (vk_drv resource_vk t (VkResource c)) c = Some x"
    then have "object_handle x = length t + 1000" and "image_handle x \<noteq> Some VK_NULL_HANDLE"
      by (cases c; auto simp: vk_out_def)+
    then show "x \<notin> live_objects (vk_drv resource_vk) {ImageObject 508 509} t \<and> image_handle x \<noteq> Some VK_NULL_HANDLE"
      using old [of x t] by auto
  qed
qed

lemma sample_held: "held_object sample_world = [TextureSlot 19 \<mapsto> ImageObject 508 509]"
  by (auto simp: held_object_def fun_eq_iff texture_object_def sample_texture_def split: slot.split)


section \<open>The size of a buffer\<close>

lemma round_up_mod:
  assumes "0 < a" and "n + a \<le> 2 ^ 64"
  shows "((((n + a + (2 ^ 64 - 1)) mod 2 ^ 64) div a * a) mod 2 ^ 64) = (n + a - 1) div a * (a :: nat)"
proof -
  obtain m where m: "n + a = Suc m" using assms(1) by (cases "n + a") auto
  then have "n + a + (2 ^ 64 - 1) = m + 2 ^ 64" by simp
  then have "(n + a + (2 ^ 64 - 1)) mod 2 ^ 64 = m mod 2 ^ 64" by (simp only: mod_add_self2)
  then have sum: "(n + a + (2 ^ 64 - 1)) mod 2 ^ 64 = n + a - 1" using m assms(2) by simp
  have "(n + a - 1) div a * a \<le> n + a - 1" by (rule div_times_less_eq_dividend)
  also have "\<dots> < 2 ^ 64" using assms by simp
  finally show ?thesis unfolding sum by simp
qed


definition uniform_desc :: CGPUBufferDescriptor where
  "uniform_desc = zero_buffer_desc\<lparr>bd_size := 100, bd_descriptors := CGPU_RESOURCE_TYPE_UNIFORM_BUFFER\<rparr>"

lemma uniform_info:
  "VkUtil_CreateBufferCreateInfo 2 uniform_desc ret sample_world
     = Inr (\<lparr>bci_size = 256, bci_usage = {VK_BUFFER_USAGE_TRANSFER_SRC_BIT, VK_BUFFER_USAGE_UNIFORM_BUFFER_BIT}\<rparr>, sample_world)"
  by (auto simp: VkUtil_CreateBufferCreateInfo_def uniform_desc_def zero_buffer_desc_def Let_def has_any_def deref_run
      smath_round_up_def sample_adapter_def sample_detail_def VkUtil_DescriptorTypesToBufferUsage_def)


section \<open>Failed creations\<close>

text \<open>
  Property C31: a buffer whose memory cannot be allocated stops the program. The backend returns
  one of two reserved addresses when the memory is out, and NULL in a release build otherwise; the
  front end writes the device into the object at that address in any case.
\<close>

theorem failed_buffer_creation_stops:
  assumes "dev \<noteq> NULL" and "devices w dev = Some D" and "device_proc_table_cache D = p" and "p \<noteq> NULL"
    and "\<not> has_any (bd_descriptors desc) CGPU_RESOURCE_TYPE_UNIFORM_BUFFER"
    and "\<And>t i q. vk_result (vk_drv V t (VkResource (VmaCreateBuffer (pVmaAllocator D) i q))) = res" and "res \<noteq> VK_SUCCESS"
    and "buffers w CGPU_BUFFER_OUT_OF_HOST_MEMORY = None" and "buffers w CGPU_BUFFER_OUT_OF_DEVICE_MEMORY = None"
  shows "cgpu_create_buffer (system_env V R base p (Suc n)) dev desc w
       = Inl (if res \<in> {VK_ERROR_OUT_OF_DEVICE_MEMORY, VK_ERROR_OUT_OF_HOST_MEMORY} then DanglingDeref
              else if vk_debug V then AssertFail ''VMA failed to create buffer!'' else NullDeref)"
proof -
  have desc: "bd_descriptors (normal_buffer_desc desc) = bd_descriptors desc" by (simp add: normal_buffer_desc_def)
  show ?thesis
    using assms
    by (simp add: cgpu_create_buffer_def device_table_run table_at_Suc prog_simps vk_table_defs
        cgpu_create_buffer_vulkan_def VkUtil_CreateBufferCreateInfo_def desc Let_def
        CGPU_BUFFER_OUT_OF_HOST_MEMORY_def CGPU_BUFFER_OUT_OF_DEVICE_MEMORY_def)
qed

definition exhausted_vk :: vk_env where
  "exhausted_vk = sample_vk\<lparr>vk_drv := \<lambda>tr c. \<lparr>vk_result = VK_ERROR_OUT_OF_DEVICE_MEMORY, vk_outs = []\<rparr>\<rparr>"

theorem failed_buffer_creation_stops_witness:
  "cgpu_create_buffer (system_env exhausted_vk sample_rs sample_base 9 2) 3 (zero_buffer_desc\<lparr>bd_size := 64\<rparr>) sample_world
     = Inl DanglingDeref"
  using failed_buffer_creation_stops [of 3 sample_world sample_device 9 "zero_buffer_desc\<lparr>bd_size := 64\<rparr>" exhausted_vk
      VK_ERROR_OUT_OF_DEVICE_MEMORY sample_rs sample_base 1]
  by (simp add: sample_device_def zero_buffer_desc_def has_any_def exhausted_vk_def numeral_2_eq_2
      CGPU_BUFFER_OUT_OF_HOST_MEMORY_def CGPU_BUFFER_OUT_OF_DEVICE_MEMORY_def)

section \<open>What is left behind\<close>

text \<open>
  Property C32: the calls that free a buffer. Its uniform texel view is destroyed and its memory is
  released; in place of its storage texel view the null handle is destroyed, so that a storage
  texel view is never destroyed.
\<close>

theorem freeing_a_buffer_leaks_its_storage_view:
  assumes "cgpu_free_buffer_vulkan V buffer w = Inr ((), v)" and "buffers w buffer = Some B" and "devices w (buffer_device B) = Some D"
  shows "trace v = trace w
      @ (if pVkUniformTexelView B \<noteq> VK_NULL_HANDLE
         then [VkResource (VkDestroyBufferView (pVkDevice D) (pVkUniformTexelView B))] else [])
      @ (if pVkStorageTexelView B \<noteq> VK_NULL_HANDLE
         then [VkResource (VkDestroyBufferView (pVkDevice D) VK_NULL_HANDLE)] else [])
      @ [VkResource (VmaDestroyBuffer (pVmaAllocator D) (pVkBuffer B) (buffer_pVkAllocation B))]
    \<and> buffers v = (buffers w)(buffer := None)"
  using assms unfolding cgpu_free_buffer_vulkan_def free_texel_views_def
  by (auto simp: deref_run assertc_run bindP_run vk_do_run store_run release_run split: if_splits)

text \<open>A buffer with both texel views.\<close>

definition texel_buffer :: CGPUBuffer_Vulkan where
  "texel_buffer = \<lparr>buffer_device = 3, cpu_mapped_address = 0, buffer_size = 64, buffer_descriptors = 0,
     buffer_memory_usage = CGPU_MEM_USAGE_GPU_ONLY, pVkBuffer = 700, pVkStorageTexelView = 702,
     pVkUniformTexelView = 701, buffer_pVkAllocation = 703, buffer_mOffset = 0\<rparr>"

lemma texel_buffer_freed:
  "\<exists>v. cgpu_free_buffer_vulkan sample_vk 40 (sample_world\<lparr>buffers := [40 \<mapsto> texel_buffer]\<rparr>) = Inr ((), v)"
  by (simp add: cgpu_free_buffer_vulkan_def free_texel_views_def prog_simps texel_buffer_def)

theorem freeing_a_buffer_leaks_its_storage_view_witness:
  "\<exists>v. cgpu_free_buffer_vulkan sample_vk 40 (sample_world\<lparr>buffers := [40 \<mapsto> texel_buffer]\<rparr>) = Inr ((), v)
     \<and> trace v = [VkResource (VkDestroyBufferView 503 701), VkResource (VkDestroyBufferView 503 VK_NULL_HANDLE),
          VkResource (VmaDestroyBuffer 505 700 703)]"
proof -
  obtain v where v: "cgpu_free_buffer_vulkan sample_vk 40 (sample_world\<lparr>buffers := [40 \<mapsto> texel_buffer]\<rparr>) = Inr ((), v)"
    using texel_buffer_freed by blast
  show ?thesis
    using freeing_a_buffer_leaks_its_storage_view [OF v, of texel_buffer sample_device] v
    by (auto simp: texel_buffer_def sample_device_def)
qed

section \<open>Aliasing\<close>


text \<open>The texture of the sample lends its memory to another.\<close>

definition memory_vk :: vk_env where
  "memory_vk = sample_vk\<lparr>vk_drv := \<lambda>tr c. \<lparr>vk_result = VK_SUCCESS, vk_outs = [4096, 256, 5]\<rparr>\<rparr>"

definition aliasing_texture :: CGPUTexture_Vulkan where
  "aliasing_texture = sample_texture\<lparr>texture_owns_image := False, texture_is_aliasing := True, pVkImage := 510,
     texture_pVkAllocation := VK_NULL_HANDLE\<rparr>"

definition aliasing_world :: vk_world where
  "aliasing_world = sample_world\<lparr>textures := [19 \<mapsto> sample_texture, 30 \<mapsto> aliasing_texture]\<rparr>"

lemma aliasing_bound:
  "\<exists>v. cgpu_try_bind_aliasing_texture_vulkan memory_vk 3 \<lparr>tab_aliased = 19, tab_aliasing = 30\<rparr> aliasing_world = Inr (True, v)"
  by (simp add: cgpu_try_bind_aliasing_texture_vulkan_def prog_simps memory_vk_def aliasing_world_def aliasing_texture_def
      sample_texture_def memory_fits_def vk_out_def)


end
