(* ===== verification/Pipeline_Facts.thy ===== *)
theory Pipeline_Facts
  imports Vk_Sample
begin

text \<open>
  What the update of a descriptor set writes, what a render pipeline gets from its vertex layout,
  and what becomes of the resources that shaders declare.
\<close>

section \<open>The writes of an update\<close>

text \<open>The writes of one parameter, as a function of the world before it: for every element of its
  array the entry that is written, and how.\<close>

definition handle_of :: "CGPUDescriptorData \<Rightarrow> nat \<Rightarrow> ptr" where
  "handle_of param arr = the (ddata_handles param) ! arr"

definition write_of ::
    "vk_world \<Rightarrow> CGPUDescriptorData \<Rightarrow> CGPUShaderResource \<Rightarrow> nat \<Rightarrow> VkDescriptorUpdateData \<Rightarrow> VkDescriptorUpdateData" where
  "write_of w param r arr =
     (if res_type r = CGPU_RESOURCE_TYPE_RW_TEXTURE
      then write_image (pVkUAVDescriptor (the (texture_views w (handle_of param arr)))) True
      else if res_type r = CGPU_RESOURCE_TYPE_TEXTURE
      then write_image (pVkSRVDescriptor (the (texture_views w (handle_of param arr)))) False
      else if res_type r = CGPU_RESOURCE_TYPE_SAMPLER
      then write_sampler (pVkSampler (the (samplers w (handle_of param arr))))
      else let B = the (buffers w (handle_of param arr)) in
           case ddata_buffer_ranges param of
             None \<Rightarrow> write_buffer (pVkBuffer B) (buffer_mOffset B) VK_WHOLE_SIZE
           | Some ranges \<Rightarrow> write_buffer (pVkBuffer B) (fst (ranges ! arr)) (snd (ranges ! arr)))"

definition entry_of :: "CGPUShaderResource \<Rightarrow> nat \<Rightarrow> nat" where
  "entry_of r arr = (res_binding r + arr) mod 2 ^ 32"

type_synonym update_write = "nat \<times> (VkDescriptorUpdateData \<Rightarrow> VkDescriptorUpdateData)"

definition writes_of :: "vk_world \<Rightarrow> CGPUDescriptorData \<Rightarrow> CGPUShaderResource \<Rightarrow> update_write list" where
  "writes_of w param r = map (\<lambda>arr. (entry_of r arr, write_of w param r arr)) [0..<max 1 (ddata_count param)]"

fun apply_writes :: "update_write list \<Rightarrow> VkDescriptorUpdateData list \<Rightarrow> VkDescriptorUpdateData list" where
  "apply_writes [] ds = ds"
| "apply_writes ((i, f) # ws) ds = apply_writes ws (ds[i := f (ds ! i)])"

lemma length_apply_writes [simp]: "length (apply_writes ws ds) = length ds"
  by (induction ws ds rule: apply_writes.induct) simp_all

lemma apply_writes_append: "apply_writes (vs @ ws) ds = apply_writes ws (apply_writes vs ds)"
  by (induction vs ds rule: apply_writes.induct) simp_all

text \<open>An entry sees the writes to it, in order.\<close>

lemma nth_apply_writes:
  "i < length ds \<Longrightarrow> apply_writes ws ds ! i = fold (\<lambda>(j, f) d. if j = i then f d else d) ws (ds ! i)"
  by (induction ws ds rule: apply_writes.induct) (simp_all add: nth_list_update)

section \<open>The run of an update\<close>

text \<open>The world after writes to a set: only its update data is another.\<close>

definition written :: "CGPUDescriptorSetId \<Rightarrow> update_write list \<Rightarrow> vk_world \<Rightarrow> vk_world" where
  "written dset ws w =
     w\<lparr>desc_sets := (desc_sets w)(dset := map_option (pUpdateData_update (apply_writes ws)) (desc_sets w dset))\<rparr>"

definition fits :: "CGPUDescriptorSetId \<Rightarrow> update_write list \<Rightarrow> vk_world \<Rightarrow> bool" where
  "fits dset ws w \<longleftrightarrow> (\<exists>S. desc_sets w dset = Some S \<and> (\<forall>(i, f) \<in> set ws. i < length (pUpdateData S)))"

lemma written_sel [simp]:
  "texture_views (written dset ws w) = texture_views w" "samplers (written dset ws w) = samplers w"
  "buffers (written dset ws w) = buffers w" "trace (written dset ws w) = trace w"
  "root_sigs (written dset ws w) = root_sigs w" "devices (written dset ws w) = devices w"
  by (simp_all add: written_def)

lemma writes_desc_sets [simp]:
  "write_of (desc_sets_update f w) = write_of w" "writes_of (desc_sets_update f w) = writes_of w"
  by (simp_all add: fun_eq_iff write_of_def writes_of_def)

lemma writes_of_written [simp]: "write_of (written dset ws w) = write_of w" "writes_of (written dset ws w) = writes_of w"
  by (simp_all add: written_def)

lemma written_append: "written dset (vs @ ws) w = written dset ws (written dset vs w)"
proof -
  have "apply_writes (vs @ ws) = (\<lambda>ds. apply_writes ws (apply_writes vs ds))"
    by (simp add: fun_eq_iff apply_writes_append)
  then show ?thesis by (cases "desc_sets w dset") (simp_all add: written_def comp_def)
qed

lemma written_Nil: "written dset [] w = w"
  by (cases "desc_sets w dset") (simp_all add: written_def fun_upd_idem)

lemma fits_append: "fits dset (vs @ ws) w \<longleftrightarrow> fits dset vs w \<and> fits dset ws (written dset vs w)"
  by (auto simp: fits_def written_def)

lemma store_desc_set_end:
  assumes "store desc_sets desc_sets_update p g k w = Inr x"
  obtains S where "desc_sets w p = Some S" "k (w\<lparr>desc_sets := (desc_sets w)(p \<mapsto> g S)\<rparr>) = Inr x"
proof -
  have upd: "desc_sets_update f w = w\<lparr>desc_sets := f (desc_sets w)\<rparr>" for f by (cases w) simp
  obtain S where "desc_sets w p = Some S" "k (desc_sets_update (\<lambda>m. m(p \<mapsto> g S)) w) = Inr x"
    using assms by (rule store_end)
  then show ?thesis using that by (subst (asm) upd)
qed

lemma write_update_end:
  assumes "write_update dset i f w = Inr (x, v)"
  shows "fits dset [(i, f)] w \<and> v = written dset [(i, f)] w"
proof -
  obtain S where S: "desc_sets w dset = Some S" "i < length (pUpdateData S)"
      and v: "v = w\<lparr>desc_sets := (desc_sets w)(dset \<mapsto> pUpdateData_update (\<lambda>ds. ds[i := f (pUpdateData S ! i)]) S)\<rparr>"
    using assms by (auto simp: write_update_def index_of_run elim!: deref_end store_desc_set_end split: if_splits)
  have "pUpdateData_update (\<lambda>ds. ds[i := f (pUpdateData S ! i)]) S = pUpdateData_update (apply_writes [(i, f)]) S"
    by (cases S) simp
  with S v show ?thesis by (simp add: fits_def written_def)
qed

text \<open>The three writers, as one.\<close>

definition write_element ::
    "vk_env \<Rightarrow> CGPUDescriptorSetId \<Rightarrow> CGPUDescriptorData \<Rightarrow> CGPUShaderResource \<Rightarrow> nat \<Rightarrow> unit vk_prog" where
  "write_element V dset param r =
     (if res_type r = CGPU_RESOURCE_TYPE_RW_TEXTURE \<or> res_type r = CGPU_RESOURCE_TYPE_TEXTURE
      then update_texture V dset param r
      else if res_type r = CGPU_RESOURCE_TYPE_SAMPLER then update_sampler V dset param r
      else update_buffer V dset param r)"

lemma handle_at_end:
  assumes "handle_at V param arr msg k w = Inr x"
  shows "k (handle_of param arr) w = Inr x"
  using assms by (auto simp: handle_at_def handle_of_def index_of_run assertc_run split: option.splits if_splits)

lemma write_element_end:
  assumes "write_element V dset param r arr w = Inr (x, v)"
  shows "fits dset [(entry_of r arr, write_of w param r arr)] w
     \<and> v = written dset [(entry_of r arr, write_of w param r arr)] w"
  using assms
  by (auto simp: write_element_def update_texture_def update_sampler_def update_buffer_def Let_def write_of_def entry_of_def
      index_of_run bindP_run
      split: if_splits option.splits sum.splits prod.splits
      elim!: deref_end dest!: handle_at_end write_update_end)

lemma write_elements_end:
  assumes "for_each arrs (write_element V dset param r) w = Inr (x, v)" and "desc_sets w dset \<noteq> None"
  shows "fits dset (map (\<lambda>arr. (entry_of r arr, write_of w param r arr)) arrs) w
     \<and> v = written dset (map (\<lambda>arr. (entry_of r arr, write_of w param r arr)) arrs) w"
  using assms
proof (induction arrs arbitrary: w)
  case Nil
  then show ?case by (simp add: written_Nil fits_def)
next
  case (Cons arr arrs)
  then obtain u where u: "write_element V dset param r arr w = Inr ((), u)"
      and rest: "for_each arrs (write_element V dset param r) u = Inr (x, v)"
    by (auto elim!: bindP_end)
  let ?x = "(entry_of r arr, write_of w param r arr)"
  have one: "fits dset [?x] w" "u = written dset [?x] w" using write_element_end [OF u] by simp_all
  then have "desc_sets u dset \<noteq> None" by (auto simp: written_def fits_def)
  moreover have "map (\<lambda>arr. (entry_of r arr, write_of w param r arr)) (arr # arrs)
      = [?x] @ map (\<lambda>arr. (entry_of r arr, write_of w param r arr)) arrs" by simp
  ultimately show ?case
    using Cons.IH [OF rest] one by (simp only: fits_append written_append writes_of_written simp_thms)
qed

text \<open>A parameter: the type of its resource has entries, or the assertion of a debug build fails.\<close>

definition has_entries :: "CGPUShaderResource \<Rightarrow> bool" where
  "has_entries r \<longleftrightarrow> res_type r \<in> {CGPU_RESOURCE_TYPE_RW_TEXTURE, CGPU_RESOURCE_TYPE_TEXTURE, CGPU_RESOURCE_TYPE_SAMPLER,
     CGPU_RESOURCE_TYPE_BUFFER, CGPU_RESOURCE_TYPE_BUFFER_RAW, CGPU_RESOURCE_TYPE_RW_BUFFER, CGPU_RESOURCE_TYPE_RW_BUFFER_RAW}"

lemma update_parameter_end:
  assumes "update_parameter V dset param r w = Inr (d, v)" and "vk_debug V" and "desc_sets w dset \<noteq> None"
  shows "has_entries r \<and> d \<and> fits dset (writes_of w param r) w \<and> v = written dset (writes_of w param r) w"
proof -
  obtain "has_entries r" "d" and loop: "for_each [0..<max 1 (ddata_count param)] (write_element V dset param r) w = Inr ((), v)"
    using assms(1,2)
    by (auto simp: update_parameter_def write_element_def has_entries_def Let_def assertc_run elim!: bindP_end split: if_splits)
  then show ?thesis using write_elements_end [OF loop assms(3)] by (simp add: writes_of_def)
qed

text \<open>The resource of a parameter.\<close>

definition resource_at :: "vk_env \<Rightarrow> CGPUDeviceId \<Rightarrow> CGPUParameterTable \<Rightarrow> CGPUDescriptorData \<Rightarrow> CGPUShaderResource" where
  "resource_at V device T param =
     (case ddata_name param of
        Some name \<Rightarrow> last (filter (\<lambda>r. res_name_hash r = hash_name V name device) (tab_resources T))
      | None \<Rightarrow> tab_resources T ! ddata_binding param)"

lemma resource_of_end:
  assumes "resource_of V device T param k w = Inr x"
  shows "resource_at V device T param \<in> set (tab_resources T) \<and> k (resource_at V device T param) w = Inr x"
proof (cases "ddata_name param")
  case None
  then show ?thesis using assms by (auto simp: resource_of_def resource_at_def index_of_run split: if_splits)
next
  case (Some name)
  let ?rs = "filter (\<lambda>r. res_name_hash r = hash_name V name device) (tab_resources T)"
  have "?rs \<noteq> []" "k (last ?rs) w = Inr x"
    using assms Some by (auto simp: resource_of_def split: list.splits)
  moreover from this(1) have "last ?rs \<in> set ?rs" by (rule last_in_set)
  ultimately show ?thesis using Some by (simp add: resource_at_def)
qed

definition all_writes ::
    "vk_env \<Rightarrow> CGPUDeviceId \<Rightarrow> CGPUParameterTable \<Rightarrow> vk_world \<Rightarrow> CGPUDescriptorData list \<Rightarrow> update_write list" where
  "all_writes V device T w params = concat (map (\<lambda>param. writes_of w param (resource_at V device T param)) params)"

lemma update_parameters_end:
  assumes "update_parameters V dset RS t params dirty w = Inr (d, v)" and "vk_debug V" and "desc_sets w dset \<noteq> None"
    and "T = rs_tables RS ! t"
  shows "d = (dirty \<or> params \<noteq> []) \<and> (\<forall>param \<in> set params. has_entries (resource_at V (rs_device RS) T param)
       \<and> resource_at V (rs_device RS) T param \<in> set (tab_resources T))
     \<and> fits dset (all_writes V (rs_device RS) T w params) w \<and> v = written dset (all_writes V (rs_device RS) T w params) w"
  using assms(1,3)
proof (induction params arbitrary: dirty w)
  case Nil
  then show ?case by (auto simp: all_writes_def written_Nil fits_def)
next
  case (Cons param params)
  let ?r = "resource_at V (rs_device RS) T param"
  obtain d1 u where r: "?r \<in> set (tab_resources T)" and u: "update_parameter V dset param ?r w = Inr (d1, u)"
      and rest: "update_parameters V dset RS t params (dirty \<or> d1) u = Inr (d, v)"
    using Cons.prems(1) assms(4) by (auto simp: index_of_run elim!: bindP_end dest!: resource_of_end split: if_splits)
  note one = update_parameter_end [OF u assms(2) Cons.prems(2)]
  then have "desc_sets u dset \<noteq> None" by (auto simp: written_def fits_def)
  moreover have "all_writes V (rs_device RS) T w (param # params)
      = writes_of w param ?r @ all_writes V (rs_device RS) T u params"
    using one by (simp add: all_writes_def)
  ultimately show ?case
    using Cons.IH [OF rest] one r by (simp add: fits_append written_append)
qed

text \<open>The whole update.\<close>

definition cleared :: "nat \<Rightarrow> VkDescriptorUpdateData list \<Rightarrow> VkDescriptorUpdateData list" where
  "cleared n ds = replicate n zero_update_data @ drop n ds"

lemma update_end:
  assumes run: "cgpu_update_descriptor_set_vulkan V dset datas w = Inr (x, v)" and "vk_debug V"
    and S: "desc_sets w dset = Some S" and RS: "root_sigs w (set_root_signature S) = Some RS"
    and D: "devices w (rs_device RS) = Some D"
    and T: "T = rs_tables RS ! table_index_of RS (set_index S)"
    and ws: "ws = all_writes V (rs_device RS) T w datas" and data: "data = apply_writes ws (cleared (length datas) (pUpdateData S))"
  shows "length datas \<le> length (pUpdateData S) \<and> (\<forall>(i, f) \<in> set ws. i < length (pUpdateData S))
     \<and> (\<forall>param \<in> set datas. has_entries (resource_at V (rs_device RS) T param)
          \<and> resource_at V (rs_device RS) T param \<in> set (tab_resources T))
     \<and> desc_sets v = (desc_sets w)(dset \<mapsto> S\<lparr>pUpdateData := data\<rparr>)
     \<and> trace v = trace w @ (if datas = [] then []
          else [VkObject (VkUpdateDescriptorSetWithTemplate (pVkDevice D) (pVkDescriptorSet S)
                  (sl_pUpdateTemplate (pSetLayouts RS ! set_index S)) data)])"
proof -
  let ?u = "w\<lparr>desc_sets := (desc_sets w)(dset \<mapsto> S\<lparr>pUpdateData := cleared (length datas) (pUpdateData S)\<rparr>)\<rparr>"
  have w_of: "all_writes V (rs_device RS) T ?u datas = ws"
    by (simp add: ws all_writes_def)
  have clear: "pUpdateData_update (\<lambda>ds. replicate (length datas) zero_update_data @ drop (length datas) ds) S
      = S\<lparr>pUpdateData := cleared (length datas) (pUpdateData S)\<rparr>"
    by (cases S) (simp add: cleared_def)
  obtain d y where le: "length datas \<le> length (pUpdateData S)"
      and upd: "update_parameters V dset RS (table_index_of RS (set_index S)) datas False ?u = Inr (d, y)"
      and rest: "(if d then deref devices (rs_device RS) (\<lambda>D.
          index_of ''pSetLayouts'' (pSetLayouts RS) (set_index S) (\<lambda>SetLayout.
          deref desc_sets dset (\<lambda>Set.
          vk_do V (VkObject (VkUpdateDescriptorSetWithTemplate (pVkDevice D) (pVkDescriptorSet Set)
                    (sl_pUpdateTemplate SetLayout) (pUpdateData Set))) (\<lambda>_. ret ()))))
          else ret ()) y = Inr (x, v)"
    using run S RS
    by (auto simp: cgpu_update_descriptor_set_vulkan_def clear elim!: deref_end store_desc_set_end bindP_end split: if_splits)
  have "desc_sets ?u dset \<noteq> None" by simp
  note u = update_parameters_end [OF upd assms(2) this T, unfolded w_of]
  have len: "length (cleared (length datas) (pUpdateData S)) = length (pUpdateData S)" using le by (simp add: cleared_def)
  have fits: "\<forall>(i, f) \<in> set ws. i < length (pUpdateData S)" using u len by (simp add: fits_def)
  have y: "y = w\<lparr>desc_sets := (desc_sets w)(dset \<mapsto> S\<lparr>pUpdateData := data\<rparr>)\<rparr>"
    using u by (simp add: written_def data comp_def)
  have d: "d = (datas \<noteq> [])" using u by simp
  have "desc_sets v = desc_sets y \<and> trace v = trace y @ (if datas = [] then []
          else [VkObject (VkUpdateDescriptorSetWithTemplate (pVkDevice D) (pVkDescriptorSet S)
                  (sl_pUpdateTemplate (pSetLayouts RS ! set_index S)) data)])"
    using rest [unfolded d] D unfolding y by (cases "datas = []") (auto simp: deref_run index_of_run vk_do_run split: if_splits)
  moreover have "desc_sets y = (desc_sets w)(dset \<mapsto> S\<lparr>pUpdateData := data\<rparr>)" "trace y = trace w" by (simp_all add: y)
  ultimately show ?thesis using le fits u [THEN conjunct2, THEN conjunct1] by simp
qed

text \<open>
  Property C5: an update of a descriptor set. An update that ends well has written only inside
  the update data of the set, and every entry holds the writes that the parameters address to it,
  in their order, applied to what the entry held before; except that the update has first cleared
  as many entries as it was given parameters, whatever entries these address. The data are
  handed to the driver in one call.
\<close>

theorem descriptor_set_update:
  assumes "cgpu_update_descriptor_set_vulkan V dset datas w = Inr (x, v)" and "vk_debug V"
    and "desc_sets w dset = Some S" and "root_sigs w (set_root_signature S) = Some RS"
    and "devices w (rs_device RS) = Some D" and "T = rs_tables RS ! table_index_of RS (set_index S)"
    and "ws = all_writes V (rs_device RS) T w datas"
  shows "(\<forall>(i, f) \<in> set ws. i < length (pUpdateData S))
     \<and> (\<exists>data. length data = length (pUpdateData S)
         \<and> (\<forall>i < length data. data ! i = fold (\<lambda>(j, f) d. if j = i then f d else d) ws
               (if i < length datas then zero_update_data else pUpdateData S ! i))
         \<and> desc_sets v = (desc_sets w)(dset \<mapsto> S\<lparr>pUpdateData := data\<rparr>)
         \<and> trace v = trace w @ (if datas = [] then []
              else [VkObject (VkUpdateDescriptorSetWithTemplate (pVkDevice D) (pVkDescriptorSet S)
                      (sl_pUpdateTemplate (pSetLayouts RS ! set_index S)) data)]))"
proof -
  let ?data = "apply_writes ws (cleared (length datas) (pUpdateData S))"
  note u = update_end [OF assms refl]
  then have "length ?data = length (pUpdateData S)" by (simp add: cleared_def)
  moreover have "?data ! i = fold (\<lambda>(j, f) d. if j = i then f d else d) ws
      (if i < length datas then zero_update_data else pUpdateData S ! i)" if "i < length ?data" for i
    using that by (simp add: nth_apply_writes) (simp add: cleared_def nth_append)
  ultimately show ?thesis using u by blast
qed

text \<open>A set of a texture and a sampler, of which only the sampler is updated.\<close>

definition sample_resource :: "string \<Rightarrow> ECGPUResourceType \<Rightarrow> nat \<Rightarrow> CGPUShaderResource" where
  "sample_resource name type b = \<lparr>res_name = Some name, res_name_hash = length name, res_type = type,
     res_dim = CGPU_TEX_DIMENSION_2D, res_set = 0, res_binding = b, res_size = 1, res_offset = 0, res_stages = 16\<rparr>"

definition sample_table_resources :: CGPUParameterTable where
  "sample_table_resources = \<lparr>tab_resources = [sample_resource ''tex'' CGPU_RESOURCE_TYPE_TEXTURE 0,
     sample_resource ''smp0'' CGPU_RESOURCE_TYPE_SAMPLER 1], tab_set_index = 0\<rparr>"

definition sample_signature :: CGPURootSignature_Vulkan where
  "sample_signature = \<lparr>rs_device = 3, rs_tables = [sample_table_resources], rs_push_constants = [], rs_static_samplers = [],
     rs_pipeline_type = CGPU_PIPELINE_TYPE_GRAPHICS, rs_pool = NULL, rs_pool_sig = NULL, pPipelineLayout = 700,
     pSetLayouts = [\<lparr>sl_layout = 701, sl_pUpdateTemplate = 702, sl_mUpdateEntriesCount = 2, sl_pEmptyDescSet = 0\<rparr>],
     pPushConstRanges = []\<rparr>"

definition sample_set :: CGPUDescriptorSet_Vulkan where
  "sample_set = \<lparr>set_root_signature = 31, set_index = 0, pVkDescriptorSet = 703,
     pUpdateData = [\<lparr>upd_handle = 0, upd_second = 704, upd_third = 5\<rparr>, zero_update_data]\<rparr>"

definition update_world :: vk_world where
  "update_world = sample_world\<lparr>root_sigs := [31 \<mapsto> sample_signature], desc_sets := [41 \<mapsto> sample_set],
     samplers := [51 \<mapsto> \<lparr>sampler_device = 3, pVkSampler = 651\<rparr>]\<rparr>"

definition sample_update :: CGPUDescriptorData where
  "sample_update = \<lparr>ddata_name = Some ''smp0'', ddata_binding = 0, ddata_buffer_ranges = None, ddata_handles = Some [51], ddata_count = 1\<rparr>"

lemmas sample_update_defs =
  sample_update_def sample_set_def sample_signature_def sample_table_resources_def sample_resource_def zero_update_data_def

lemma sample_update_run:
  "\<exists>v. cgpu_update_descriptor_set_vulkan sample_vk 41 [sample_update] update_world = Inr ((), v)"
  by (simp add: cgpu_update_descriptor_set_vulkan_def update_world_def prog_simps sample_update_defs table_index_of_def
      resource_of_def sample_vk_def update_parameter_def update_sampler_def handle_at_def write_update_def Let_def
      write_sampler_def sample_driver_def sample_device_def)

theorem descriptor_set_update_witness:
  "\<exists>v. cgpu_update_descriptor_set_vulkan sample_vk 41 [sample_update] update_world = Inr ((), v)
     \<and> desc_sets v = [41 \<mapsto> sample_set\<lparr>pUpdateData := [zero_update_data, \<lparr>upd_handle = 651, upd_second = 0, upd_third = 0\<rparr>]\<rparr>]"
proof -
  obtain v where v: "cgpu_update_descriptor_set_vulkan sample_vk 41 [sample_update] update_world = Inr ((), v)"
    using sample_update_run by blast
  let ?ws = "all_writes sample_vk 3 sample_table_resources update_world [sample_update]"
  have ws: "?ws = [(1, write_sampler 651)]"
    by (simp add: all_writes_def resource_at_def writes_of_def write_of_def entry_of_def handle_of_def sample_update_defs
        sample_vk_def update_world_def)
  have world: "desc_sets update_world 41 = Some sample_set" "root_sigs update_world (set_root_signature sample_set) = Some sample_signature"
      "devices update_world (rs_device sample_signature) = Some sample_device"
      "sample_table_resources = rs_tables sample_signature ! table_index_of sample_signature (set_index sample_set)"
      "?ws = all_writes sample_vk (rs_device sample_signature) sample_table_resources update_world [sample_update]"
    by (simp_all add: update_world_def sample_set_def sample_signature_def table_index_of_def)
  obtain data where len: "length data = length (pUpdateData sample_set)"
      and nth: "\<forall>i < length data. data ! i = fold (\<lambda>(j, f) d. if j = i then f d else d) ?ws
               (if i < length [sample_update] then zero_update_data else pUpdateData sample_set ! i)"
      and sets: "desc_sets v = (desc_sets update_world)(41 \<mapsto> sample_set\<lparr>pUpdateData := data\<rparr>)"
    using descriptor_set_update [OF v _ world] by auto
  have "data = [zero_update_data, \<lparr>upd_handle = 651, upd_second = 0, upd_third = 0\<rparr>]"
    using len nth unfolding ws
    by (intro nth_equalityI) (auto simp: less_Suc_eq numeral_2_eq_2 sample_set_def write_sampler_def zero_update_data_def)
  with v sets show ?thesis by (simp add: update_world_def)
qed

section \<open>Sets with a gap in their bindings\<close>

lemma create_set_end:
  assumes "cgpu_create_descriptor_set (system_env V R base p n) device desc u = Inr (dset, w)"
    and "root_sigs u (dsd_root_signature desc) = Some RS"
    and "T = rs_tables RS ! table_index_of RS (dsd_set_index desc)"
  obtains S where "desc_sets w dset = Some S" "set_root_signature S = dsd_root_signature desc"
    "set_index S = dsd_set_index desc" "length (pUpdateData S) = length (tab_resources T)" "root_sigs w = root_sigs u"
proof -
  obtain m y where run: "cgpu_create_descriptor_set_vulkan V device desc u = Inr (dset, y)"
      and rest: "store desc_sets desc_sets_update dset
        (\<lambda>S. S\<lparr>set_root_signature := dsd_root_signature desc, set_index := dsd_set_index desc\<rparr>) (ret dset) y = Inr (dset, w)"
    using assms(1) by (auto simp: cgpu_create_descriptor_set_def device_table_def vk_table_defs
        elim!: deref_end bindP_end assertc_end checked_proc_end system_proc)
      (auto simp: store_run split: if_splits option.splits)
  have y: "\<exists>S. desc_sets y dset = Some S \<and> length (pUpdateData S) = length (tab_resources T)" "root_sigs y = root_sigs u"
    using run assms(2,3)
    by (auto simp: cgpu_create_descriptor_set_vulkan_def VkUtil_ConsumeDescriptorSets_def index_of_run calloc_run vk_do_run store_run
        elim!: deref_end assertc_end split: if_splits option.splits)
  obtain S where "desc_sets y dset = Some S"
      and "w = y\<lparr>desc_sets := (desc_sets y)(dset \<mapsto> S\<lparr>set_root_signature := dsd_root_signature desc, set_index := dsd_set_index desc\<rparr>)\<rparr>"
    using rest by (auto elim!: store_desc_set_end)
  with y that show ?thesis by auto
qed

text \<open>
  Property C14: the update data of a set have one entry for every resource of its table, but are
  indexed by the binding. A debug build cannot update, in a set that it made, a resource whose
  binding, or the binding of an element of its array, is not below the number of the resources
  of the set; nor can it be given more parameters than that.
\<close>

theorem sparse_sets_cannot_be_updated:
  assumes "cgpu_create_descriptor_set (system_env V R base p n) device desc u = Inr (dset, w)" and "vk_debug V"
    and "root_sigs u (dsd_root_signature desc) = Some RS"
    and "T = rs_tables RS ! table_index_of RS (dsd_set_index desc)"
    and "param \<in> set datas" and "arr < max 1 (ddata_count param)"
    and "length (tab_resources T) \<le> (res_binding (resource_at V (rs_device RS) T param) + arr) mod 2 ^ 32
       \<or> length (tab_resources T) < length datas"
  shows "cgpu_update_descriptor_set (system_env V R base p m) dset datas w \<noteq> Inr (x, v)"
proof
  assume run: "cgpu_update_descriptor_set (system_env V R base p m) dset datas w = Inr (x, v)"
  obtain S where S: "desc_sets w dset = Some S" "set_root_signature S = dsd_root_signature desc"
      "set_index S = dsd_set_index desc" "length (pUpdateData S) = length (tab_resources T)" "root_sigs w = root_sigs u"
    using create_set_end [OF assms(1,3,4)] by blast
  obtain D where D: "devices w (rs_device RS) = Some D" and inner: "cgpu_update_descriptor_set_vulkan V dset datas w = Inr (x, v)"
    using run S assms(3) by (auto simp: cgpu_update_descriptor_set_def device_table_def vk_table_defs
        elim!: deref_end assertc_end checked_proc_end system_proc)
  have RS: "root_sigs w (set_root_signature S) = Some RS" "T = rs_tables RS ! table_index_of RS (set_index S)"
    using S assms(3,4) by simp_all
  have "(entry_of (resource_at V (rs_device RS) T param) arr, write_of w param (resource_at V (rs_device RS) T param) arr)
      \<in> set (all_writes V (rs_device RS) T w datas)"
    using assms(5,6) by (auto simp: all_writes_def writes_of_def intro!: bexI [of _ param])
  then show False
    using update_end [OF inner assms(2) S(1) RS(1) D RS(2) refl refl] assms(7) S(4) by (fastforce simp: entry_of_def)
qed

text \<open>A signature with one resource, at binding 1.\<close>

definition sparse_signature :: CGPURootSignature_Vulkan where
  "sparse_signature = sample_signature\<lparr>rs_tables :=
     [\<lparr>tab_resources = [sample_resource ''smp0'' CGPU_RESOURCE_TYPE_SAMPLER 1], tab_set_index = 0\<rparr>]\<rparr>"

definition sparse_world :: vk_world where
  "sparse_world = update_world\<lparr>root_sigs := [31 \<mapsto> sparse_signature]\<rparr>"

lemma sparse_created:
  "\<exists>w. cgpu_create_descriptor_set (system_env sample_vk sample_rs sample_base 9 2) 3
     \<lparr>dsd_root_signature = 31, dsd_set_index = 0\<rparr> sparse_world = Inr (100, w)"
  by (simp add: cgpu_create_descriptor_set_def device_table_run prog_simps vk_table_defs numeral_2_eq_2 table_at_Suc
      cgpu_create_descriptor_set_vulkan_def VkUtil_ConsumeDescriptorSets_def sparse_world_def update_world_def sparse_signature_def
      sample_signature_def table_index_of_def sample_driver_def sample_device_def)

theorem sparse_sets_cannot_be_updated_witness:
  "\<exists>w. cgpu_create_descriptor_set (system_env sample_vk sample_rs sample_base 9 2) 3
       \<lparr>dsd_root_signature = 31, dsd_set_index = 0\<rparr> sparse_world = Inr (100, w)
     \<and> (\<nexists>x v. cgpu_update_descriptor_set (system_env sample_vk sample_rs sample_base 9 2) 100 [sample_update] w = Inr (x, v))"
proof -
  let ?T = "\<lparr>tab_resources = [sample_resource ''smp0'' CGPU_RESOURCE_TYPE_SAMPLER 1], tab_set_index = 0\<rparr>"
  obtain w where w: "cgpu_create_descriptor_set (system_env sample_vk sample_rs sample_base 9 2) 3
       \<lparr>dsd_root_signature = 31, dsd_set_index = 0\<rparr> sparse_world = Inr (100, w)"
    using sparse_created by blast
  have "root_sigs sparse_world 31 = Some sparse_signature" "rs_device sparse_signature = 3"
      "?T = rs_tables sparse_signature ! table_index_of sparse_signature 0"
      "length (tab_resources (rs_tables sparse_signature ! table_index_of sparse_signature 0)) = 1"
      "res_binding (resource_at sample_vk 3 ?T sample_update) = 1" "ddata_count sample_update = 1"
    by (simp_all add: sparse_world_def sparse_signature_def sample_signature_def table_index_of_def resource_at_def sample_vk_def
        sample_update_def sample_resource_def)
  then show ?thesis
    using sparse_sets_cannot_be_updated [OF w, of sparse_signature ?T sample_update "[sample_update]" 0] w by simp
qed

section \<open>The vertex input\<close>

definition attribute_elements :: "CGPUVertexAttribute list \<Rightarrow> (CGPUVertexAttribute \<times> nat) list" where
  "attribute_elements as = concat (map (\<lambda>a. map (Pair a) [0..<max 1 (va_array_size a)]) as)"

text \<open>The description of an element at a location.\<close>

definition element_description :: "CGPUVertexAttribute \<times> nat \<Rightarrow> nat \<Rightarrow> VkVertexInputAttributeDescription" where
  "element_description e loc =
     (case e of (a, j) \<Rightarrow> \<lparr>via_location = loc, via_binding = va_binding a, via_format = VkUtil_FormatTranslateToVk (va_format a),
        via_offset = (va_offset a + j * nat (FormatUtil_BitSizeOfBlock (va_format a)) div 8) mod 2 ^ 32\<rparr>)"

definition vertex_attributes_of :: "CGPUVertexAttribute list \<Rightarrow> VkVertexInputAttributeDescription list" where
  "vertex_attributes_of as = map2 element_description (attribute_elements as) [0..<length (attribute_elements as)]"

definition attributes_of_binding :: "nat \<Rightarrow> CGPUVertexAttribute list \<Rightarrow> CGPUVertexAttribute list" where
  "attributes_of_binding b as = filter (\<lambda>a. va_binding a = b) as"

definition input_rate :: "CGPUVertexAttribute \<Rightarrow> VkVertexInputRate" where
  "input_rate a = (if va_rate a = CGPU_INPUT_RATE_INSTANCE then VK_VERTEX_INPUT_RATE_INSTANCE else VK_VERTEX_INPUT_RATE_VERTEX)"

definition binding_ok :: "CGPUVertexAttribute list \<Rightarrow> nat \<Rightarrow> VkVertexInputBindingDescription \<Rightarrow> bool" where
  "binding_ok as b d \<longleftrightarrow>
     (let of_b = attributes_of_binding b as in
      vib_stride d = sum_list (map va_elem_stride of_b) mod 2 ^ 32
    \<and> (of_b \<noteq> [] \<longrightarrow> vib_binding d = b \<and> vib_inputRate d = input_rate (last of_b)))"

definition vertex_input_ok :: "CGPUVertexAttribute list \<Rightarrow> vertex_input \<Rightarrow> bool" where
  "vertex_input_ok as vi \<longleftrightarrow>
     length (vi_attributes vi) = 15 \<and> length (vi_bindings vi) = 15
   \<and> vi_attribute_count vi = length (attribute_elements as) \<and> vi_attribute_count vi \<le> 15
   \<and> take (vi_attribute_count vi) (vi_attributes vi) = vertex_attributes_of as
   \<and> list_all (\<lambda>a. va_binding a < 15) as
   \<and> vi_binding_value vi = (if as = [] then 2 ^ 32 - 1 else va_binding (last as))
   \<and> vi_binding_count vi = length (remdups_adj (map va_binding as))
   \<and> (\<forall>b < 15. binding_ok as b (vi_bindings vi ! b))"

lemma vertex_input_ok_none: "vertex_input_ok [] no_vertex_input"
  by (simp add: vertex_input_ok_def no_vertex_input_def attribute_elements_def vertex_attributes_of_def binding_ok_def
      attributes_of_binding_def)

lemma add_vertex_elements_end:
  assumes "add_vertex_elements a js vi w = Inr (vi', v)" and "vi_attribute_count vi \<le> length (vi_attributes vi)"
  shows "v = w \<and> (\<exists>attributes. vi' = vi\<lparr>vi_attributes := attributes, vi_attribute_count := vi_attribute_count vi + length js\<rparr>
     \<and> length attributes = length (vi_attributes vi) \<and> vi_attribute_count vi + length js \<le> length attributes
     \<and> take (vi_attribute_count vi + length js) attributes
       = take (vi_attribute_count vi) (vi_attributes vi)
         @ map2 element_description (map (Pair a) js) [vi_attribute_count vi..<vi_attribute_count vi + length js])"
  using assms
proof (induction js arbitrary: vi)
  case Nil
  then show ?case by (intro conjI exI [of _ "vi_attributes vi"]) simp_all
next
  case (Cons j js)
  let ?n = "vi_attribute_count vi"
  let ?u = "vi\<lparr>vi_attributes := (vi_attributes vi)[?n := element_description (a, j) ?n], vi_attribute_count := Suc ?n\<rparr>"
  have n: "?n < length (vi_attributes vi)" and rest: "add_vertex_elements a js ?u w = Inr (vi', v)"
    using Cons.prems(1) by (auto simp: update_at_run element_description_def split: if_splits)
  have step: "take (Suc ?n) ((vi_attributes vi)[?n := element_description (a, j) ?n])
      = take ?n (vi_attributes vi) @ [element_description (a, j) ?n]"
    using n by (simp add: take_Suc_conv_app_nth)
  have "[?n..<?n + Suc (length js)] = ?n # [Suc ?n..<Suc ?n + length js]" by (simp add: upt_rec)
  then show ?case using Cons.IH [OF rest] n step by (fastforce simp del: upt_Suc)
qed

lemma length_remdups_adj_snoc:
  "length (remdups_adj (xs @ [x])) = length (remdups_adj xs) + (if xs \<noteq> [] \<and> last xs = x then 0 else 1)"
  by (induction xs rule: remdups_adj.induct) auto

lemma attribute_elements_snoc:
  "attribute_elements (as @ [a]) = attribute_elements as @ map (Pair a) [0..<max 1 (va_array_size a)]"
  by (simp add: attribute_elements_def)

lemma vertex_attributes_snoc:
  "vertex_attributes_of (as @ [a]) = vertex_attributes_of as
     @ map2 element_description (map (Pair a) [0..<max 1 (va_array_size a)])
         [length (attribute_elements as)..<length (attribute_elements as) + max 1 (va_array_size a)]"
proof -
  have "[0..<length (attribute_elements as) + n] = [0..<length (attribute_elements as)]
      @ [length (attribute_elements as)..<length (attribute_elements as) + n]" for n
    by (rule upt_add_eq_append) simp
  then show ?thesis by (simp only: vertex_attributes_of_def attribute_elements_snoc length_append length_map length_upt diff_zero)
      (simp del: upt_Suc)
qed

lemma enter_binding:
  "(if vi_binding_value vi \<noteq> b then vi\<lparr>vi_binding_value := b, vi_binding_count := Suc (vi_binding_count vi)\<rparr> else vi)
     = vi\<lparr>vi_binding_value := b, vi_binding_count := vi_binding_count vi + (if vi_binding_value vi \<noteq> b then 1 else 0)\<rparr>"
proof (cases vi)
  case (fields b' n)
  then show ?thesis by (cases "b' = b") simp_all
qed

lemma add_vertex_attribute_end:
  assumes run: "add_vertex_attribute a vi w = Inr (vi', v)" and ok: "vertex_input_ok as vi"
  shows "v = w \<and> vertex_input_ok (as @ [a]) vi'"
proof -
  let ?b = "va_binding a" and ?n = "max 1 (va_array_size a)"
  let ?d = "\<lparr>vib_binding = ?b, vib_stride = (vib_stride (vi_bindings vi ! ?b) + va_elem_stride a) mod 2 ^ 32, vib_inputRate = input_rate a\<rparr>"
  let ?count = "vi_binding_count vi + (if vi_binding_value vi \<noteq> ?b then 1 else 0)"
  let ?u = "vi\<lparr>vi_binding_value := ?b, vi_binding_count := ?count, vi_bindings := (vi_bindings vi)[?b := ?d]\<rparr>"
  have size: "(if va_array_size a \<noteq> 0 then va_array_size a else 1) = ?n" by simp
  have b: "?b < 15" and elems: "add_vertex_elements a [0..<?n] ?u w = Inr (vi', v)"
    using run ok unfolding add_vertex_attribute_def size Let_def enter_binding input_rate_def [symmetric]
    by (simp_all add: index_of_run vertex_input_ok_def split: if_split_asm)
  obtain attributes where vi': "vi' = ?u\<lparr>vi_attributes := attributes, vi_attribute_count := vi_attribute_count vi + ?n\<rparr>"
      and attrs: "length attributes = 15" "vi_attribute_count vi + ?n \<le> 15"
        "take (vi_attribute_count vi + ?n) attributes = vertex_attributes_of as
           @ map2 element_description (map (Pair a) [0..<?n]) [vi_attribute_count vi..<vi_attribute_count vi + ?n]"
      and v: "v = w"
    using add_vertex_elements_end [OF elems] ok by (auto simp: vertex_input_ok_def)
  have binding: "binding_ok (as @ [a]) c ((vi_bindings vi)[?b := ?d] ! c)" if "c < 15" for c
    using ok that by (auto simp: vertex_input_ok_def binding_ok_def attributes_of_binding_def Let_def nth_list_update mod_add_left_eq)
  have count: "?count = length (remdups_adj (map va_binding (as @ [a])))"
    using ok b by (auto simp: vertex_input_ok_def length_remdups_adj_snoc last_map)
  show ?thesis
    using ok attrs b binding count unfolding vi' v
    by (simp add: vertex_input_ok_def attribute_elements_snoc vertex_attributes_snoc)
qed

lemma add_vertex_attributes_end:
  assumes "add_vertex_attributes attribs [n..<m] vi w = Inr (vi', v)" and "vertex_input_ok (take n attribs) vi"
  shows "v = w \<and> vertex_input_ok (take (max n m) attribs) vi'"
  using assms
proof (induction "m - n" arbitrary: n vi)
  case 0
  then show ?case by (simp add: max_def)
next
  case (Suc k)
  then have upt: "[n..<m] = n # [Suc n..<m]" by (simp add: upt_rec)
  obtain u y where n: "n < length attribs" and one: "add_vertex_attribute (attribs ! n) vi w = Inr (u, y)"
      and rest: "add_vertex_attributes attribs [Suc n..<m] u y = Inr (vi', v)"
    using Suc.prems(1) unfolding upt by (auto simp: index_of_run elim!: bindP_end split: if_splits)
  have y: "y = w" and u: "vertex_input_ok (take (Suc n) attribs) u"
    using add_vertex_attribute_end [OF one Suc.prems(2)] n by (simp_all add: take_Suc_conv_app_nth)
  have "v = w \<and> vertex_input_ok (take (max (Suc n) m) attribs) vi'"
    using Suc.hyps(2) by (intro Suc.hyps(1) [OF _ rest [unfolded y] u]) simp
  moreover have "max (Suc n) m = max n m" using Suc.hyps(2) by simp
  ultimately show ?case by simp
qed

text \<open>
  Property C12: the vertex input of a render pipeline. If it can be built at all, every element of
  every attribute of the layout, of the first fifteen, has its description, at the location of
  its place in the list; a binding has the strides of its attributes added up, and the rate of the
  last; and the number of bindings is the number of changes of the binding along the attributes.
\<close>

theorem vertex_input_descriptions:
  assumes "vertex_input_of (Some l) w = Inr (vi, v)" and "as = take (min (vl_attribute_count l) 15) (vl_attributes l)"
  shows "vi_attribute_count vi = (\<Sum>a \<leftarrow> as. max 1 (va_array_size a)) \<and> vi_attribute_count vi \<le> 15
     \<and> take (vi_attribute_count vi) (vi_attributes vi)
         = map2 element_description (attribute_elements as) [0..<length (attribute_elements as)]
     \<and> vi_binding_count vi = length (remdups_adj (map va_binding as))
     \<and> (\<forall>a \<in> set as. va_binding a < 15 \<and> binding_ok as (va_binding a) (vi_bindings vi ! va_binding a))
     \<and> v = w"
proof -
  have "length (attribute_elements as) = (\<Sum>a \<leftarrow> as. max 1 (va_array_size a))" for as
    by (induction as) (simp_all add: attribute_elements_def)
  moreover have "v = w \<and> vertex_input_ok as vi"
    using add_vertex_attributes_end [of "vl_attributes l" 0 _ no_vertex_input w vi v] assms vertex_input_ok_none
    by (simp add: vertex_input_of_def)
  ultimately show ?thesis by (auto simp: vertex_input_ok_def vertex_attributes_of_def list_all_iff)
qed

text \<open>A position, an array of two and again data of the first binding.\<close>

definition sample_attribute :: "nat \<Rightarrow> nat \<Rightarrow> nat \<Rightarrow> CGPUVertexAttribute" where
  "sample_attribute b n offset = \<lparr>va_semantic_name = ''A'', va_array_size = n, va_format = CGPU_FORMAT_R32G32B32A32_SFLOAT,
     va_binding = b, va_offset = offset, va_elem_stride = 16, va_rate = CGPU_INPUT_RATE_VERTEX\<rparr>"

definition sample_layout :: CGPUVertexLayout where
  "sample_layout = \<lparr>vl_attribute_count = 3, vl_attributes = [sample_attribute 0 0 0, sample_attribute 1 2 0, sample_attribute 0 1 16]\<rparr>"

theorem vertex_input_descriptions_witness:
  "\<exists>vi. vertex_input_of (Some sample_layout) sample_world = Inr (vi, sample_world)
     \<and> vi_attribute_count vi = 4 \<and> vi_binding_count vi = 3 \<and> vib_stride (vi_bindings vi ! 0) = 32"
proof -
  have "\<exists>vi. vertex_input_of (Some sample_layout) sample_world = Inr (vi, sample_world)"
    by (simp add: vertex_input_of_def sample_layout_def sample_attribute_def add_vertex_attribute_def no_vertex_input_def
        Let_def prog_simps upt_rec numeral_2_eq_2 numeral_3_eq_3)
  then obtain vi where vi: "vertex_input_of (Some sample_layout) sample_world = Inr (vi, sample_world)" by blast
  show ?thesis
    using vertex_input_descriptions [OF vi refl] vi
    by (simp add: sample_layout_def sample_attribute_def binding_ok_def attributes_of_binding_def Let_def)
qed

section \<open>Reflected resources\<close>

text \<open>
  Property C34: the dimension of a multisampled image. The enumerators are tested as if they were
  bits, so that a multisampled image is reflected as a multisampled 2D array whatever its
  dimension is, one that is not an array included; only one-dimensional images and arrays of
  cubes keep theirs.
\<close>

theorem multisampled_images_are_arrays:
  assumes "reflected_dim b k w = Inr x" and "sb_image_ms b \<noteq> 0"
    and "has_any (sb_type_flags b) SPV_REFLECT_TYPE_FLAG_EXTERNAL_IMAGE
       \<or> has_any (sb_type_flags b) SPV_REFLECT_TYPE_FLAG_EXTERNAL_SAMPLED_IMAGE"
  shows "k (if sb_image_dim b = 0 \<and> \<not> has_any (sb_type_flags b) SPV_REFLECT_TYPE_FLAG_ARRAY then CGPU_TEX_DIMENSION_1D
            else if sb_image_dim b = 3 \<and> has_any (sb_type_flags b) SPV_REFLECT_TYPE_FLAG_ARRAY then CGPU_TEX_DIMENSION_CUBE_ARRAY
            else CGPU_TEX_DIMENSION_2DMS_ARRAY) w = Inr x"
proof -
  have dim: "multisampled_dim d
      = (if d \<in> {CGPU_TEX_DIMENSION_1D, CGPU_TEX_DIMENSION_CUBE_ARRAY} then d else CGPU_TEX_DIMENSION_2DMS_ARRAY)" for d
    by (cases d) (simp_all add: multisampled_dim_def max_enum_bit_def)
  have luts: "multisampled_dim (DIMLut ! i) = (if i = 0 then CGPU_TEX_DIMENSION_1D else CGPU_TEX_DIMENSION_2DMS_ARRAY)
      \<and> multisampled_dim (ArrDIMLut ! i) = (if i = 3 then CGPU_TEX_DIMENSION_CUBE_ARRAY else CGPU_TEX_DIMENSION_2DMS_ARRAY)"
    if "i < 7" for i
  proof -
    have "i \<in> {0, 1, 2, 3, 4, 5, 6}" using that by auto
    then show ?thesis by (auto simp: dim DIMLut_def ArrDIMLut_def)
  qed
  have "sb_image_dim b < 7"
      and "k (multisampled_dim ((if has_any (sb_type_flags b) SPV_REFLECT_TYPE_FLAG_ARRAY then ArrDIMLut else DIMLut) ! sb_image_dim b)) w
        = Inr x"
    using assms by (auto simp: reflected_dim_def index_of_run DIMLut_def ArrDIMLut_def split: if_splits)
  then show ?thesis using luts [of "sb_image_dim b"] by (auto split: if_splits)
qed

text \<open>A multisampled 2D image that is not an array.\<close>

definition multisampled_binding :: SpvReflectDescriptorBinding where
  "multisampled_binding = \<lparr>sb_name = ''ms'', sb_set = 0, sb_binding = 0, sb_descriptor_type = 2, sb_image_dim = 1,
     sb_image_ms = 1, sb_count = 1, sb_type_flags = SPV_REFLECT_TYPE_FLAG_EXTERNAL_IMAGE\<rparr>"

theorem multisampled_images_are_arrays_witness:
  "\<exists>d. reflected_dim multisampled_binding ret sample_world = Inr (d, sample_world) \<and> d = CGPU_TEX_DIMENSION_2DMS_ARRAY"
proof -
  have "\<exists>d. reflected_dim multisampled_binding ret sample_world = Inr (d, sample_world)"
    by (simp add: reflected_dim_def multisampled_binding_def has_any_def index_of_run DIMLut_def)
  then obtain d where d: "reflected_dim multisampled_binding ret sample_world = Inr (d, sample_world)" by blast
  show ?thesis
    using multisampled_images_are_arrays [OF d] d by (simp add: multisampled_binding_def has_any_def)
qed

lemma map_each_all:
  assumes "map_each bs body w = Inr (qs, y)" and "\<And>b w q y. body b w = Inr (q, y) \<Longrightarrow> P q"
  shows "\<forall>q \<in> set qs. P q"
  using assms(1)
proof (induction bs arbitrary: qs w)
  case (Cons b bs)
  obtain q u where q: "body b w = Inr (q, u)" and rest: "bindP (map_each bs body) (\<lambda>qs. ret (q # qs)) u = Inr (qs, y)"
    using Cons.prems unfolding map_each.simps by (rule bindP_end)
  obtain qs' u' where "map_each bs body u = Inr (qs', u')" and "ret (q # qs') u' = Inr (qs, y)"
    using rest by (rule bindP_end)
  then have "map_each bs body u = Inr (qs', y)" and "qs = q # qs'" by simp_all
  then show ?case using Cons.IH [of u qs'] assms(2) [OF q] by simp
qed simp

lemma reflected_names:
  assumes "reflect_resources V device M w = Inr (rs, v)"
  shows "\<forall>q \<in> set rs. \<exists>n. res_name q = Some n \<and> res_name_hash q = hash_name V n device"
proof -
  obtain qs u where qs: "map_each (concat (sm_descriptor_sets M)) (reflect_binding V device M) w = Inr (qs, u)"
      and rs: "ret (qs @ map (reflect_push_constant V device M) (sm_push_constants M)) u = Inr (rs, v)"
    using assms unfolding reflect_resources_def by (rule bindP_end)
  have "\<forall>q \<in> set qs. \<exists>n. res_name q = Some n \<and> res_name_hash q = hash_name V n device"
    by (rule map_each_all [OF qs]) (auto simp: reflect_binding_def reflected_dim_def index_of_run split: if_splits)
  with rs show ?thesis by (auto simp: reflect_push_constant_def)
qed

text \<open>
  Property C15: resources are found by their names. In a table of resources that were reflected
  from a module, whatever stages were joined to them, the update of a descriptor set finds each
  by its name, if the names of the table differ and the hash distinguishes them.
\<close>

theorem reflected_resources_are_found_by_name:
  assumes "reflect_resources V device M w = Inr (rs, v)"
    and "\<forall>r \<in> set (tab_resources T). \<exists>q \<in> set rs. \<exists>stages. r = q\<lparr>res_stages := stages\<rparr>"
    and "distinct (map res_name (tab_resources T))"
    and "inj_on (\<lambda>n. hash_name V n device) {n. Some n \<in> res_name ` set (tab_resources T)}"
    and "r \<in> set (tab_resources T)" and "ddata_name param = res_name r"
  shows "resource_of V device T param k u = k r u"
proof -
  have rs: "\<forall>q \<in> set rs. \<exists>n. res_name q = Some n \<and> res_name_hash q = hash_name V n device"
    by (rule reflected_names [OF assms(1)])
  have hash: "\<exists>n. res_name q = Some n \<and> res_name_hash q = hash_name V n device" if q: "q \<in> set (tab_resources T)" for q
  proof -
    obtain q' stages where "q' \<in> set rs" "q = q'\<lparr>res_stages := stages\<rparr>"
      using bspec [OF assms(2) q] by (elim bexE exE)
    then show ?thesis using rs by simp
  qed
  obtain n where n: "res_name r = Some n" "res_name_hash r = hash_name V n device" using hash [OF assms(5)] by blast
  have same: "q = r" if q: "q \<in> set (tab_resources T)" and h: "res_name_hash q = hash_name V n device" for q
  proof -
    obtain m where m: "res_name q = Some m" "res_name_hash q = hash_name V m device" using hash [OF q] by blast
    have "Some m \<in> res_name ` set (tab_resources T)" "Some n \<in> res_name ` set (tab_resources T)"
      using imageI [OF q, of res_name] imageI [OF assms(5), of res_name] m n by simp_all
    then have "m = n" using h m n inj_onD [OF assms(4), of m n] by simp
    then have "res_name q = res_name r" using m n by simp
    then show ?thesis using q assms(3,5) by (auto simp: distinct_map dest: inj_onD)
  qed
  let ?found = "filter (\<lambda>q. res_name_hash q = hash_name V n device) (tab_resources T)"
  have "r \<in> set ?found" using n(2) assms(5) by simp
  then have ne: "?found \<noteq> []" by force
  then have "last ?found \<in> set ?found" by (rule last_in_set)
  then have "last ?found = r" by (intro same) simp_all
  moreover have "ddata_name param = Some n" using assms(6) n(1) by simp
  ultimately show ?thesis using ne by (cases ?found) (simp_all add: resource_of_def)
qed

text \<open>A module with a texture and a sampler of different names.\<close>

definition sample_binding :: "string \<Rightarrow> nat \<Rightarrow> nat \<Rightarrow> SpvReflectDescriptorBinding" where
  "sample_binding name b type = \<lparr>sb_name = name, sb_set = 0, sb_binding = b, sb_descriptor_type = type, sb_image_dim = 1,
     sb_image_ms = 0, sb_count = 1, sb_type_flags = 0\<rparr>"

definition sample_module :: SpvReflectShaderModule where
  "sample_module = \<lparr>sm_source_language = 5, sm_shader_stage = 16, sm_entry_points = [], sm_input_variables = [],
     sm_push_constants = [], sm_descriptor_sets = [[sample_binding ''tex'' 0 2, sample_binding ''smp0'' 1 0]]\<rparr>"

lemma sample_reflected:
  "\<exists>r1 r2. reflect_resources sample_vk 3 sample_module sample_world = Inr ([r1, r2], sample_world)
     \<and> res_name r1 = Some ''tex'' \<and> res_name r2 = Some ''smp0''"
  by (simp add: reflect_resources_def sample_module_def sample_binding_def reflect_binding_def reflected_dim_def RTLut_def
      bindP_run index_of_run has_any_def)

theorem reflected_resources_are_found_by_name_witness:
  "\<exists>r1 r2. reflect_resources sample_vk 3 sample_module sample_world = Inr ([r1, r2], sample_world)
     \<and> resource_of sample_vk 3 \<lparr>tab_resources = [r1, r2], tab_set_index = 0\<rparr> sample_update ret sample_world = Inr (r2, sample_world)"
proof -
  obtain r1 r2 where r: "reflect_resources sample_vk 3 sample_module sample_world = Inr ([r1, r2], sample_world)"
      and names: "res_name r1 = Some ''tex''" "res_name r2 = Some ''smp0''"
    using sample_reflected by blast
  let ?T = "\<lparr>tab_resources = [r1, r2], tab_set_index = 0\<rparr> :: CGPUParameterTable"
  have "inj_on (\<lambda>n. hash_name sample_vk n 3) {n. Some n \<in> res_name ` set (tab_resources ?T)}"
    using names by (auto simp: inj_on_def sample_vk_def)
  then show ?thesis
    using reflected_resources_are_found_by_name [OF r, of ?T r2 sample_update ret sample_world] names r
    by (fastforce simp: sample_update_def intro: exI [of _ "res_stages r1"] exI [of _ "res_stages r2"])
qed

end
