(* ===== verification/Adapter_Facts.thy ===== *)
theory Adapter_Facts
  imports Vk_Sample
begin

text \<open>
  What an adapter is after it was enumerated: the queue families chosen for the queue types are a
  first fit, the extensions that are enabled are the wanted ones that are offered, and the tables
  and flags that tell which are enabled agree with them.
\<close>

section \<open>Queue families\<close>

text \<open>The first family with a flag that is not taken, or -1.\<close>

definition first_family :: "VkQueueFlagBit \<Rightarrow> int set \<Rightarrow> VkQueueFamilyProperties list \<Rightarrow> int" where
  "first_family flag taken props =
     (case find (\<lambda>j. flag \<in> queueFlags (props ! j) \<and> int j \<notin> taken) [0..<length props] of
        None \<Rightarrow> - 1 | Some j \<Rightarrow> int j)"

lemma first_family_snoc:
  "first_family flag taken (ps @ [p]) =
     (if first_family flag taken ps \<noteq> - 1 then first_family flag taken ps
      else if flag \<in> queueFlags p \<and> int (length ps) \<notin> taken then int (length ps) else - 1)"
proof -
  have "find (\<lambda>j. flag \<in> queueFlags ((ps @ [p]) ! j) \<and> int j \<notin> taken) [0..<length ps]
      = find (\<lambda>j. flag \<in> queueFlags (ps ! j) \<and> int j \<notin> taken) [0..<length ps]"
    by (rule find_cong) (auto simp: nth_append)
  then show ?thesis by (auto simp: first_family_def find_append nth_append split: option.splits)
qed

lemma first_family_taken:
  assumes "\<And>j. j < length ps \<Longrightarrow> int j \<in> taken \<longleftrightarrow> int j \<in> taken'"
  shows "first_family flag taken ps = first_family flag taken' ps"
proof -
  have "find (\<lambda>j. flag \<in> queueFlags (ps ! j) \<and> int j \<notin> taken) [0..<length ps]
      = find (\<lambda>j. flag \<in> queueFlags (ps ! j) \<and> int j \<notin> taken') [0..<length ps]"
    using assms by (intro find_cong) auto
  then show ?thesis by (simp add: first_family_def)
qed

text \<open>What is found is a family with the flag that is not taken.\<close>

lemma first_family_found:
  "first_family flag taken ps \<noteq> - 1
    \<Longrightarrow> \<exists>j < length ps. first_family flag taken ps = int j \<and> flag \<in> queueFlags (ps ! j) \<and> int j \<notin> taken"
  by (auto simp: first_family_def find_Some_iff split: option.splits)

lemma first_family_range:
  "first_family flag taken ps = - 1 \<or> 0 \<le> first_family flag taken ps \<and> first_family flag taken ps < int (length ps)"
  using first_family_found [of flag taken ps] by auto

lemma select_queue_families_snoc:
  "select_queue_families j (ps @ [p]) indices
     = select_queue_family (j + length ps) p (select_queue_families j ps indices)"
  by (induction ps arbitrary: j indices) simp_all

lemma select_queue_families_first_fit:
  "select_queue_families 0 ps (replicate 3 (- 1)) =
     (let g = first_family VK_QUEUE_GRAPHICS_BIT {} ps;
          c = first_family VK_QUEUE_COMPUTE_BIT {g} ps;
          t = first_family VK_QUEUE_TRANSFER_BIT {g, c} ps in [g, c, t])"
proof (induction ps rule: rev_induct)
  case Nil
  then show ?case by (simp add: first_family_def numeral_3_eq_3)
next
  case (snoc p ps)
  define g where "g = first_family VK_QUEUE_GRAPHICS_BIT {} ps"
  define c where "c = first_family VK_QUEUE_COMPUTE_BIT {g} ps"
  define t where "t = first_family VK_QUEUE_TRANSFER_BIT {g, c} ps"
  let ?n = "int (length ps)"
  have bounds: "g < ?n" "c < ?n"
    using first_family_range [of VK_QUEUE_GRAPHICS_BIT "{}" ps] first_family_range [of VK_QUEUE_COMPUTE_BIT "{g}" ps]
    by (auto simp: g_def c_def)
  define g' where "g' = first_family VK_QUEUE_GRAPHICS_BIT {} (ps @ [p])"
  have g': "g' = (if g \<noteq> - 1 then g else if VK_QUEUE_GRAPHICS_BIT \<in> queueFlags p then ?n else - 1)"
    by (simp add: g'_def first_family_snoc g_def)
  have "first_family VK_QUEUE_COMPUTE_BIT {g'} ps = c"
    unfolding c_def by (rule first_family_taken) (simp add: g')
  moreover define c' where "c' = first_family VK_QUEUE_COMPUTE_BIT {g'} (ps @ [p])"
  ultimately have c': "c' = (if c \<noteq> - 1 then c else if VK_QUEUE_COMPUTE_BIT \<in> queueFlags p \<and> ?n \<noteq> g' then ?n else - 1)"
    by (simp add: first_family_snoc)
  have "first_family VK_QUEUE_TRANSFER_BIT {g', c'} ps = t"
    unfolding t_def by (rule first_family_taken) (simp add: g' c')
  moreover define t' where "t' = first_family VK_QUEUE_TRANSFER_BIT {g', c'} (ps @ [p])"
  ultimately have t': "t' = (if t \<noteq> - 1 then t
      else if VK_QUEUE_TRANSFER_BIT \<in> queueFlags p \<and> ?n \<noteq> g' \<and> ?n \<noteq> c' then ?n else - 1)"
    by (simp add: first_family_snoc)
  have "select_queue_families 0 (ps @ [p]) (replicate 3 (- 1)) = select_queue_family (length ps) p [g, c, t]"
    using snoc.IH by (simp add: select_queue_families_snoc Let_def g_def c_def t_def)
  also have "\<dots> = [g', c', t']"
    using bounds by (simp add: select_queue_family_def g' c' t')
  finally show ?case by (simp add: Let_def g'_def c'_def t'_def)
qed

text \<open>
  Property C35: the queue families of an adapter are a first fit. The graphics queues go to the
  first family that can draw, the compute queues to the first other family that can compute and
  the transfer queues to the first family besides these that can copy; a type without such a
  family has the index -1, and no two types share a family.
\<close>

theorem queue_families_are_first_fit:
  assumes "mQueueFamilyIndices A = replicate 3 (- 1)"
  shows "let A' = VkUtil_SelectQueueIndices V A; props = pQueueFamilyProperties A';
      g = first_family VK_QUEUE_GRAPHICS_BIT {} props;
      c = first_family VK_QUEUE_COMPUTE_BIT {g} props;
      t = first_family VK_QUEUE_TRANSFER_BIT {g, c} props in
    props = phys_queue_families (physical_device (vk_plat V) (pPhysicalDevice A))
    \<and> mQueueFamilyIndices A' = [g, c, t] \<and> distinct (filter (\<lambda>i. 0 \<le> i) [g, c, t])"
proof -
  have "distinct (filter (\<lambda>i. 0 \<le> i) [g, c, t])"
    if "c = first_family VK_QUEUE_COMPUTE_BIT {g} ps" "t = first_family VK_QUEUE_TRANSFER_BIT {g, c} ps" for g c t ps
    using that first_family_found [of VK_QUEUE_COMPUTE_BIT "{g}" ps]
      first_family_found [of VK_QUEUE_TRANSFER_BIT "{g, c}" ps] by auto
  then show ?thesis
    using assms by (auto simp: VkUtil_SelectQueueIndices_def Let_def select_queue_families_first_fit)
qed

text \<open>A device with one family serves only graphics; the sample has a family for each type.\<close>

theorem queue_families_are_first_fit_witness:
  "mQueueFamilyIndices (VkUtil_SelectQueueIndices sample_vk (new_adapter sample_vk 502)) = [0, 1, 2]"
  using queue_families_are_first_fit [of "new_adapter sample_vk 502" sample_vk]
  by (simp add: new_adapter_def sample_vk_def sample_platform_def sample_families_def first_family_def
      VkUtil_SelectQueueIndices_def upt_rec)

section \<open>Selected names\<close>

text \<open>How often an offered name is entered, and all the names that are.\<close>

definition entered :: "bool \<Rightarrow> string list \<Rightarrow> string \<Rightarrow> nat" where
  "entered stop wanted name = (if stop then if name \<in> set wanted then 1 else 0 else count_list wanted name)"

definition selected :: "bool \<Rightarrow> string list \<Rightarrow> string list \<Rightarrow> string list" where
  "selected stop wanted offered = concat (map (\<lambda>n. replicate (entered stop wanted n) n) offered)"

lemma set_selected: "set (selected stop wanted offered) = set wanted \<inter> set offered"
  using count_list_0_iff [of wanted]
  by (auto simp: selected_def entered_def set_replicate_conv_if gr0_conv_Suc split: if_splits) (metis not0_implies_Suc)

lemma add_matching_run:
  "add_matching stop cap name wanted filled w =
     (if entered stop wanted name = 0 \<or> length filled + entered stop wanted name \<le> cap
      then Inr (filled @ replicate (entered stop wanted name) name, w)
      else Inl (OutOfBounds ''pExtensionProperties''))"
  by (induction wanted arbitrary: filled) (auto simp: entered_def replicate_app_Cons_same)

lemma select_names_run:
  "select_names stop wanted offered filled w =
     (if selected stop wanted offered = [] \<or> length filled + length (selected stop wanted offered) \<le> length wanted
      then Inr (filled @ selected stop wanted offered, w)
      else Inl (OutOfBounds ''pExtensionProperties''))"
proof (induction offered arbitrary: filled)
  case (Cons name offered)
  have "selected stop wanted (name # offered) = replicate (entered stop wanted name) name @ selected stop wanted offered"
    by (simp add: selected_def)
  then show ?case
    by (cases "entered stop wanted name = 0") (auto simp: bindP_run add_matching_run Cons)
qed (simp add: selected_def)

lemma select_names_end:
  assumes "select_names stop wanted offered [] w = Inr (names, w')"
  obtains "w' = w" "names = selected stop wanted offered" "set names = set wanted \<inter> set offered"
    "length names \<le> length wanted"
  using assms set_selected [of stop wanted offered] by (auto simp: select_names_run split: if_splits)

text \<open>Offered names that are distinct fit, unless a name is wanted twice for a device.\<close>

lemma count_list_distinct: "distinct xs \<Longrightarrow> count_list xs x = (if x \<in> set xs then 1 else 0)"
  by (induction xs) auto

lemma selected_filter:
  assumes "stop \<or> distinct wanted"
  shows "selected stop wanted offered = filter (\<lambda>n. n \<in> set wanted) offered"
  using assms by (induction offered) (auto simp: selected_def entered_def count_list_distinct)

lemma select_names_fit:
  assumes "stop \<or> distinct wanted" and "distinct offered"
  shows "select_names stop wanted offered [] w = Inr (filter (\<lambda>n. n \<in> set wanted) offered, w)"
proof -
  have "length (filter (\<lambda>n. n \<in> set wanted) offered) = card (set (filter (\<lambda>n. n \<in> set wanted) offered))"
    using assms(2) by (metis distinct_card distinct_filter)
  also have "\<dots> \<le> card (set wanted)" by (rule card_mono) auto
  also have "\<dots> \<le> length wanted" by (rule card_length)
  finally show ?thesis by (simp add: select_names_run selected_filter [OF assms(1)])
qed

section \<open>Tables of names\<close>

lemma fold_names: "fold (\<lambda>n t. t(n \<mapsto> b)) ns t m = (if m \<in> set ns then Some b else t m)"
  by (induction ns arbitrary: t) auto

lemma names_table_eq:
  "names_table wanted enabled n = (if n \<in> set enabled then Some True else if n \<in> set wanted then Some False else None)"
  by (simp add: names_table_def fold_names)

lemma table_get_names [simp]: "table_get (names_table wanted enabled) n \<longleftrightarrow> n \<in> set enabled"
  by (simp add: table_get_def names_table_eq)

lemma table_read_eq:
  "table_read names t n = (if t n = None \<and> n \<in> set names then Some False else t n)"
proof (induction names arbitrary: t)
  case (Cons m names)
  have "table_read (m # names) t = table_read names (if t m = None then t(m \<mapsto> False) else t)"
    by (simp add: table_read_def)
  then show ?case using Cons by auto
qed (simp add: table_read_def)

lemma debug_report_is_never_set: "\<not> debug_report (instance_extensions_of wanted I)"
  by (simp add: instance_extensions_of_def Let_def)

section \<open>One adapter\<close>

text \<open>What is known of an adapter when it was queried, and when its tables are there.\<close>

definition adapter_queried :: "vk_env \<Rightarrow> string list \<Rightarrow> VkHandle \<Rightarrow> CGPUAdapter_Vulkan \<Rightarrow> bool" where
  "adapter_queried V wanted phys A \<longleftrightarrow>
     pPhysicalDevice A = phys
     \<and> pQueueFamilyProperties A = phys_queue_families (physical_device (vk_plat V) phys)
     \<and> mQueueFamilyIndices A = select_queue_families 0 (pQueueFamilyProperties A) (replicate 3 (- 1))
     \<and> length (format_supports (adapter_detail A)) = nat CGPU_FORMAT_COUNT
     \<and> length (vp_gpu_name (vendor_preset (adapter_detail A))) \<le> 64
     \<and> adp_pLayerNames A = []
     \<and> set (adp_pExtensionNames A) = set wanted \<inter> set (phys_extensions (physical_device (vk_plat V) phys))
     \<and> length (adp_pExtensionNames A) \<le> length wanted"

lemma same_trace [simp]: "\<exists>tr. (w :: vk_world) = w\<lparr>trace := tr\<rparr>"
  by (rule exI [of _ "trace w"]) simp

lemma format_support_run: "\<exists>fs tr. format_support V phys format w = Inr (fs, w\<lparr>trace := tr\<rparr>)"
  by (auto simp: format_support_def Let_def prog_simps)

lemma map_each_format_support:
  "\<exists>fss tr. map_each is (\<lambda>i. format_support V phys (int i)) w = Inr (fss, w\<lparr>trace := tr\<rparr>) \<and> length fss = length is"
proof (induction "is" arbitrary: w)
  case (Cons i "is")
  obtain fs tr where "format_support V phys (int i) w = Inr (fs, w\<lparr>trace := tr\<rparr>)"
    using format_support_run by blast
  then show ?case using Cons [of "w\<lparr>trace := tr\<rparr>"] by (auto simp: bindP_run)
qed simp

lemma enum_format_supports_run:
  "\<exists>fs tr. VkUtil_EnumFormatSupports V A w =
       Inr (A\<lparr>adapter_detail := adapter_detail A\<lparr>format_supports := fs\<rparr>\<rparr>, w\<lparr>trace := tr\<rparr>)
     \<and> length fs = nat CGPU_FORMAT_COUNT"
proof -
  obtain fs tr where "map_each [0..<nat CGPU_FORMAT_COUNT] (\<lambda>i. format_support V (pPhysicalDevice A) (int i)) w
      = Inr (fs, w\<lparr>trace := tr\<rparr>)" "length fs = length [0..<nat CGPU_FORMAT_COUNT]"
    using map_each_format_support by blast
  then show ?thesis by (simp only: VkUtil_EnumFormatSupports_def bindP_run sum.case prod.case ret_run length_upt) auto
qed

lemma query_vram_end:
  assumes "VkUtil_QueryHostVisbleVramInfo V A w = Inr (A', w')"
  obtains d where "A' = A\<lparr>adapter_detail := d\<rparr>" "w' = w" "format_supports d = format_supports (adapter_detail A)"
    "vendor_preset d = vendor_preset (adapter_detail A)"
proof -
  have heap: "host_visible_heap b hs ts w = Inr (x, u) \<Longrightarrow> u = w" for b hs ts x u
    by (induction b hs ts rule: host_visible_heap.induct) (auto simp: index_of_run split: if_splits)
  have "A' = A\<lparr>adapter_detail := adapter_detail A'\<rparr> \<and> w' = w
      \<and> format_supports (adapter_detail A') = format_supports (adapter_detail A)
      \<and> vendor_preset (adapter_detail A') = vendor_preset (adapter_detail A)"
    using assms
    by (auto simp: VkUtil_QueryHostVisbleVramInfo_def Let_def index_of_run elim!: bindP_end dest!: heap
        split: option.splits if_splits)
  then show ?thesis using that by blast
qed

lemma record_detail_end:
  assumes "VkUtil_RecordAdapterDetail V A w = Inr (A', w')"
  obtains d where "A' = A\<lparr>adapter_detail := d\<rparr>" "w' = w" "format_supports d = format_supports (adapter_detail A)"
    "length (vp_gpu_name (vendor_preset d)) \<le> 64"
  using assms by (auto simp: VkUtil_RecordAdapterDetail_def Let_def elim!: assertc_end query_vram_end split: if_splits)

lemma new_adapter_sel [simp]:
  "pPhysicalDevice (new_adapter V phys) = phys"
  "mQueueFamilyIndices (new_adapter V phys) = replicate 3 (- 1)"
  by (simp_all add: new_adapter_def Let_def)

lemma query_adapter_end:
  assumes "query_adapter V [] wanted phys w = Inr (a, w')"
  obtains A tr where "a = next_addr w"
    "w' = adapters_update (\<lambda>m. m(a \<mapsto> A)) (w\<lparr>trace := tr, next_addr := Suc a\<rparr>)" "adapter_queried V wanted phys A"
proof -
  obtain fs tr where e: "VkUtil_EnumFormatSupports V (new_adapter V phys) w =
       Inr ((new_adapter V phys)\<lparr>adapter_detail := adapter_detail (new_adapter V phys)\<lparr>format_supports := fs\<rparr>\<rparr>, w\<lparr>trace := tr\<rparr>)"
     and fs: "length fs = nat CGPU_FORMAT_COUNT"
    using enum_format_supports_run by blast
  have "a = next_addr w
      \<and> w' = adapters_update (\<lambda>m. m(a \<mapsto> the (adapters w' a))) (w\<lparr>trace := tr, next_addr := Suc a\<rparr>)
      \<and> adapter_queried V wanted phys (the (adapters w' a))"
    using assms e fs
    by (auto simp: query_adapter_def VkUtil_SelectPhysicalDeviceLayers_def VkUtil_SelectPhysicalDeviceExtensions_def
        VkUtil_SelectQueueIndices_def Let_def bindP_def [of "VkUtil_EnumFormatSupports V (new_adapter V phys)"] calloc_run
        adapter_queried_def set_selected
        elim!: bindP_end select_names_end record_detail_end)
  then show ?thesis using that by blast
qed

section \<open>All adapters\<close>

lemma query_adapters_end:
  assumes "map_each physs (query_adapter V [] wanted) w = Inr (as, w')"
  shows "as = [next_addr w ..< next_addr w + length physs]
    \<and> w' = w\<lparr>trace := trace w', next_addr := next_addr w + length physs, adapters := adapters w'\<rparr>
    \<and> (\<forall>a < next_addr w. adapters w' a = adapters w a)
    \<and> (\<forall>i < length physs. \<exists>A. adapters w' (next_addr w + i) = Some A \<and> adapter_queried V wanted (physs ! i) A)"
  using assms
proof (induction physs arbitrary: w as)
  case (Cons phys physs)
  obtain a as' u where run: "query_adapter V [] wanted phys w = Inr (a, u)"
      "map_each physs (query_adapter V [] wanted) u = Inr (as', w')" "as = a # as'"
    using Cons.prems by (auto elim!: bindP_end)
  obtain A tr where u: "a = next_addr w" "u = adapters_update (\<lambda>m. m(a \<mapsto> A)) (w\<lparr>trace := tr, next_addr := Suc a\<rparr>)"
      "adapter_queried V wanted phys A"
    using run(1) by (rule query_adapter_end)
  have "as' = [Suc a ..< Suc a + length physs]"
      "w' = u\<lparr>trace := trace w', next_addr := Suc a + length physs, adapters := adapters w'\<rparr>"
      "\<forall>b < Suc a. adapters w' b = adapters u b"
      "\<forall>i < length physs. \<exists>A. adapters w' (Suc a + i) = Some A \<and> adapter_queried V wanted (physs ! i) A"
    using Cons.IH [OF run(2)] u(2) by simp_all
  then show ?case using run(3) u by (auto simp: upt_rec nth_Cons split: nat.split)
qed simp

lemma adapters_update_cong: "f (adapters w) = g (adapters w) \<Longrightarrow> adapters_update f w = adapters_update g (w :: vk_world)"
  by (rule vk_world.equality) simp_all

lemma ret_end: "ret a w = Inr (b, w') \<Longrightarrow> b = a \<and> w' = w"
  by simp

lemma for_each_store_end:
  assumes "for_each as (\<lambda>a. store adapters adapters_update a g (ret ())) w = Inr (x, w')" and "distinct as"
  shows "w' = adapters_update (\<lambda>m a. if a \<in> set as then map_option g (m a) else m a) w"
  using assms
proof (induction as arbitrary: w)
  case (Cons a as)
  then obtain A where A: "adapters w a = Some A"
    and run: "for_each as (\<lambda>a. store adapters adapters_update a g (ret ())) (adapters_update (\<lambda>m. m(a \<mapsto> g A)) w) = Inr (x, w')"
    using Cons.prems(1) by (fastforce elim: bindP_end store_end simp del: ret_run dest: ret_end)
  show ?case
    using Cons.IH [OF run] Cons.prems(2) A by (auto simp: fun_eq_iff intro!: adapters_update_cong)
qed simp

text \<open>The names a device may enable: the defaults and those of the chained descriptor.\<close>

definition wanted_device_exts :: "CGPUInstanceDescriptor \<Rightarrow> string list" where
  "wanted_device_exts desc = cgpu_wanted_device_exts @
     (case id_chained desc of
        Some x \<Rightarrow> if vid_backend x = CGPU_BACKEND_VULKAN then chained_names (vid_ppDeviceExtensions x) else []
      | None \<Rightarrow> [])"

lemma blackboard_end:
  assumes "VkUtil_Blackboard_of V desc w = Inr (bb, w')"
  shows "w' = w \<and> bb_device_extensions bb = wanted_device_exts desc \<and> bb_device_layers bb = []"
  using assms
  by (auto simp: VkUtil_Blackboard_of_def Let_def wanted_device_exts_def prog_simps split: option.splits if_splits)

section \<open>The adapters of an instance\<close>

definition adapters_view :: "vk_world \<Rightarrow> (ptr \<rightharpoonup> CGPUAdapter_Vulkan) \<times> (ptr \<rightharpoonup> CGPUAdapterId list)" where
  "adapters_view w = (adapters w, \<lambda>i. map_option pVulkanAdapters (instances w i))"

lemma instance_steps_keep:
  "keeps adapters_view (VkUtil_InitializeEnvironment V)"
  "keeps adapters_view (VkUtil_SelectInstanceLayers V i layers)"
  "keeps adapters_view (VkUtil_SelectInstanceExtensions V i exts)"
  "keeps adapters_view (create_vk_instance V desc bb i)"
  "keeps adapters_view (VkUtil_EnableValidationLayer V i m r)"
proof -
  have names: "keeps adapters_view (select_names stop wanted offered filled)" for stop wanted offered filled
    by (auto simp: keeps_def select_names_run)
  show
    "keeps adapters_view (VkUtil_InitializeEnvironment V)"
    "keeps adapters_view (VkUtil_SelectInstanceLayers V i layers)"
    "keeps adapters_view (VkUtil_SelectInstanceExtensions V i exts)"
    "keeps adapters_view (create_vk_instance V desc bb i)"
    "keeps adapters_view (VkUtil_EnableValidationLayer V i m r)"
    unfolding VkUtil_InitializeEnvironment_def VkUtil_SelectInstanceLayers_def VkUtil_SelectInstanceExtensions_def
      create_vk_instance_def VkUtil_EnableValidationLayer_def loaded_proc_def
    by (intro keeps_intros names; simp add: adapters_view_def fun_eq_iff)+
qed

definition adapter_flags_ok :: "CGPUAdapter_Vulkan \<Rightarrow> bool" where
  "adapter_flags_ok A \<longleftrightarrow> (let on = set (adp_pExtensionNames A) in
     (debug_marker A \<longleftrightarrow> ''VK_EXT_debug_marker'' \<in> on)
     \<and> (dedicated_allocation A \<longleftrightarrow> ''VK_KHR_dedicated_allocation'' \<in> on)
     \<and> (memory_req2 A \<longleftrightarrow> ''VK_KHR_get_memory_requirements2'' \<in> on)
     \<and> (external_memory A \<longleftrightarrow> ''VK_KHR_external_memory'' \<in> on)
     \<and> (draw_indirect_count A \<longleftrightarrow> ''VK_KHR_draw_indirect_count'' \<in> on)
     \<and> (amd_draw_indirect_count A \<longleftrightarrow> ''VK_AMD_draw_indirect_count'' \<in> on)
     \<and> (amd_gcn_shader A \<longleftrightarrow> ''VK_AMD_gcn_shader'' \<in> on)
     \<and> (descriptor_indexing A \<longleftrightarrow> ''VK_EXT_descriptor_indexing'' \<in> on)
     \<and> (sampler_ycbcr A \<longleftrightarrow> ''VK_KHR_sampler_ycbcr_conversion'' \<in> on)
     \<and> (nv_diagnostic_checkpoints A \<longleftrightarrow> ''VK_NV_device_diagnostic_checkpoints'' \<in> on)
     \<and> (nv_diagnostic_config A \<longleftrightarrow> ''VK_NV_device_diagnostics_config'' \<in> on))"

text \<open>A well formed adapter of a physical device, for the names that are wanted.\<close>

definition adapter_typed :: "vk_env \<Rightarrow> string list \<Rightarrow> CGPUAdapter_Vulkan \<Rightarrow> bool" where
  "adapter_typed V wanted A \<longleftrightarrow>
     length (mQueueFamilyIndices A) = 3
     \<and> pQueueFamilyProperties A = phys_queue_families (physical_device (vk_plat V) (pPhysicalDevice A))
     \<and> list_all (\<lambda>i. - 1 \<le> i \<and> i < int (length (pQueueFamilyProperties A))) (mQueueFamilyIndices A)
     \<and> length (format_supports (adapter_detail A)) = nat CGPU_FORMAT_COUNT
     \<and> length (vp_gpu_name (vendor_preset (adapter_detail A))) \<le> 64
     \<and> length (adp_pExtensionNames A) \<le> length wanted
     \<and> set (adp_pExtensionNames A) = set wanted \<inter> set (phys_extensions (physical_device (vk_plat V) (pPhysicalDevice A)))
     \<and> adp_pExtensionsTable A = (\<lambda>n. if n \<in> set (adp_pExtensionNames A) then Some True
          else if n \<in> set wanted \<union> set adapter_extension_names then Some False else None)
     \<and> adapter_flags_ok A"

lemma adapter_typed_tables:
  assumes "adapter_queried V wanted phys A"
  shows "adapter_typed V wanted (adapter_extensions wanted (adapter_layers layers A))"
    "pPhysicalDevice (adapter_extensions wanted (adapter_layers layers A)) = phys"
proof -
  have "- 1 \<le> first_family flag taken ps" "first_family flag taken ps < int (length ps)" for flag taken ps
    using first_family_range [of flag taken ps] by auto
  then show "adapter_typed V wanted (adapter_extensions wanted (adapter_layers layers A))"
    using assms
    by (auto simp: adapter_typed_def adapter_queried_def adapter_extensions_def adapter_layers_def Let_def
        adapter_flags_ok_def select_queue_families_first_fit table_read_eq names_table_eq fun_eq_iff)
  show "pPhysicalDevice (adapter_extensions wanted (adapter_layers layers A)) = phys"
    using assms by (simp add: adapter_queried_def adapter_extensions_def adapter_layers_def Let_def)
qed

text \<open>Every physical device has its adapter.\<close>

definition adapters_for :: "vk_env \<Rightarrow> string list \<Rightarrow> vk_world \<Rightarrow> CGPUAdapterId list \<Rightarrow> bool" where
  "adapters_for V wanted w as \<longleftrightarrow> distinct as \<and> list_all2
     (\<lambda>a phys. \<exists>A. adapters w a = Some A \<and> pPhysicalDevice A = phys \<and> adapter_typed V wanted A)
     as (physical_devices (vk_plat V))"

lemma query_all_end:
  assumes "VkUtil_QueryAllAdapters V i [] wanted w = Inr (x, w')"
    and "map_option pVulkanAdapters (instances w i) = Some []"
  obtains as where "map_option pVulkanAdapters (instances w' i) = Some as" "distinct as"
    "list_all2 (\<lambda>a phys. \<exists>A. adapters w' a = Some A \<and> adapter_queried V wanted phys A) as (physical_devices (vk_plat V))"
proof (cases "physical_devices (vk_plat V) = []")
  case True
  then have "w' = w"
    using assms(1) by (auto simp: VkUtil_QueryAllAdapters_def elim!: deref_end assertc_end)
  then show ?thesis using assms(2) True that [of "[]"] by simp
next
  case False
  then obtain as u where run: "map_each (physical_devices (vk_plat V)) (query_adapter V [] wanted) w = Inr (as, u)"
      and store: "store instances instances_update i (pVulkanAdapters_update (\<lambda>_. as)) (ret ()) u = Inr (x, w')"
    using assms(1) by (auto simp: VkUtil_QueryAllAdapters_def elim!: deref_end assertc_end bindP_end simp del: ret_run)
  have "map_option pVulkanAdapters (instances w' i) = Some as" "adapters w' = adapters u"
    using store by (auto elim!: store_end)
  then show ?thesis
    using query_adapters_end [OF run] by (intro that [of as]) (auto simp: list_all2_conv_all_nth)
qed

lemma construct_adapter_tables_end:
  assumes "construct_adapter_tables bb i w = Inr (x, w')" and "map_option pVulkanAdapters (instances w i) = Some as"
    and "distinct as"
    and "list_all2 (\<lambda>a phys. \<exists>A. adapters w a = Some A \<and> adapter_queried V (bb_device_extensions bb) phys A)
      as (physical_devices (vk_plat V))"
  shows "map_option pVulkanAdapters (instances w' i) = Some as \<and> adapters_for V (bb_device_extensions bb) w' as"
proof -
  let ?g = "\<lambda>A. adapter_extensions (bb_device_extensions bb) (adapter_layers (bb_device_layers bb) A)"
  have "for_each as (\<lambda>a. store adapters adapters_update a ?g (ret ())) w = Inr (x, w')"
    using assms(1,2) by (auto simp: construct_adapter_tables_def elim!: deref_end simp del: ret_run)
  then have "w' = adapters_update (\<lambda>m a. if a \<in> set as then map_option ?g (m a) else m a) w"
    using assms(3) by (rule for_each_store_end)
  then show ?thesis
    using assms(2-4) adapter_typed_tables [of V "bb_device_extensions bb" _ _ "bb_device_layers bb"]
    by (fastforce simp: adapters_for_def list_all2_conv_all_nth)
qed

lemma create_instance_vulkan_end:
  assumes "cgpu_create_instance_vulkan V desc w = Inr (i, w')"
  obtains as where "map_option pVulkanAdapters (instances w' i) = Some as"
    "adapters_for V (wanted_device_exts desc) w' as"
proof -
  let ?view = "\<lambda>w. map_option pVulkanAdapters (instances w i)"
  note keep = instance_steps_keep [THEN keepsD]
  obtain bb w1 w2 w3 w4 where bb: "VkUtil_Blackboard_of V desc w = Inr (bb, w)"
      and w1: "?view w1 = Some []" and q: "VkUtil_QueryAllAdapters V i (bb_device_layers bb) (bb_device_extensions bb) w1 = Inr ((), w2)"
      and c: "construct_adapter_tables bb i w2 = Inr ((), w3)" and v: "adapters_view w' = adapters_view w3"
  proof -
    obtain bb u0 u1 u2 u3 u4 X r u5 u6 u7 where bb: "VkUtil_Blackboard_of V desc w = Inr (bb, u0)"
        and u0: "i = next_addr u0"
        "VkUtil_InitializeEnvironment V (instances_update (\<lambda>m. m(i \<mapsto> zero_instance)) (u0\<lparr>next_addr := Suc i\<rparr>)) = Inr (r, u1)"
        "VkUtil_SelectInstanceLayers V i (bb_instance_layers bb) u1 = Inr ((), u2)"
        "VkUtil_SelectInstanceExtensions V i (bb_instance_extensions bb) u2 = Inr ((), u3)"
        "create_vk_instance V desc bb i u3 = Inr ((), u4)"
        "instances u4 i = Some X"
        "VkUtil_QueryAllAdapters V i (bb_device_layers bb) (bb_device_extensions bb)
           ((instances_update (\<lambda>m. m(i \<mapsto> construct_instance_tables bb X)) u4)\<lparr>trace := u5\<rparr>) = Inr ((), u6)"
        "construct_adapter_tables bb i u6 = Inr ((), u7)"
        "(if id_enable_debug_layer desc
          then VkUtil_EnableValidationLayer V i (bb_messenger_info_ptr bb) (bb_report_info_ptr bb) else ret ()) u7 = Inr ((), w')"
      using assms unfolding cgpu_create_instance_vulkan_def
      by (auto simp: calloc_run vk_do_run simp del: ret_run elim!: bindP_end store_end deref_end dest!: ret_end)
    have bb': "u0 = w" using blackboard_end [OF bb] by simp
    have "?view (instances_update (\<lambda>m. m(i \<mapsto> zero_instance)) (u0\<lparr>next_addr := Suc i\<rparr>)) = Some []"
      by (simp add: zero_instance_def)
    moreover have "adapters_view u4 = adapters_view (instances_update (\<lambda>m. m(i \<mapsto> zero_instance)) (u0\<lparr>next_addr := Suc i\<rparr>))"
      using keep(1) [OF u0(2)] keep(2) [OF u0(3)] keep(3) [OF u0(4)] keep(4) [OF u0(5)] by simp
    ultimately have "?view u4 = Some []" by (simp add: adapters_view_def fun_eq_iff)
    moreover have "pVulkanAdapters (construct_instance_tables bb X) = pVulkanAdapters X"
      by (simp add: construct_instance_tables_def instance_extensions_of_def instance_layers_of_def Let_def)
    ultimately have "?view ((instances_update (\<lambda>m. m(i \<mapsto> construct_instance_tables bb X)) u4)\<lparr>trace := u5\<rparr>) = Some []"
      using u0(6) by simp
    moreover have "adapters_view w' = adapters_view u7"
      using u0(9) keep(5) by (auto split: if_splits)
    ultimately show thesis using that bb bb' u0(7,8) by blast
  qed
  have layers: "bb_device_extensions bb = wanted_device_exts desc" "bb_device_layers bb = []"
    using blackboard_end [OF bb] by auto
  obtain as where "?view w2 = Some as" "distinct as" "list_all2 (\<lambda>a phys. \<exists>A. adapters w2 a = Some A
      \<and> adapter_queried V (bb_device_extensions bb) phys A) as (physical_devices (vk_plat V))"
    using q w1 unfolding layers(2) by (rule query_all_end)
  from construct_adapter_tables_end [OF c this] have "?view w' = Some as" "adapters_for V (wanted_device_exts desc) w' as"
    using v layers(1) by (auto simp: adapters_for_def adapters_view_def fun_eq_iff)
  then show ?thesis by (rule that)
qed

end
