(* ===== verification/Prog_Total.thy ===== *)
theory Prog_Total
  imports Prog_Rel
begin

text \<open>
  Weakest preconditions of the statements, for total correctness: \<open>ends p Q w\<close>, the run of \<open>p\<close>
  from \<open>w\<close> ends well, with a result and a world that satisfy \<open>Q\<close>. The rules rewrite the goal
  statement by statement, like a run does.
\<close>

named_theorems ends_simps "weakest preconditions of the statements"

definition ends :: "('w, 'a) prog \<Rightarrow> ('a \<Rightarrow> 'w \<Rightarrow> bool) \<Rightarrow> 'w \<Rightarrow> bool" where
  "ends p Q w \<longleftrightarrow> (\<exists>r w'. p w = Inr (r, w') \<and> Q r w')"

lemma endsI: "p w = Inr (r, w') \<Longrightarrow> Q r w' \<Longrightarrow> ends p Q w"
  by (auto simp: ends_def)

lemma endsE:
  assumes "ends p Q w"
  obtains r w' where "p w = Inr (r, w')" "Q r w'"
  using assms by (auto simp: ends_def)

lemma ends_run: "p w = Inr (r, w') \<Longrightarrow> ends p Q w \<longleftrightarrow> Q r w'"
  by (simp add: ends_def)

text \<open>The consequence rule: what the run that ends well implies.\<close>

lemma ends_weaken:
  assumes "ends p Q w" and "\<And>r v. p w = Inr (r, v) \<Longrightarrow> Q r v \<Longrightarrow> Q' r v"
  shows "ends p Q' w"
  using assms by (auto simp: ends_def)

lemma ends_conj_keeps: "ends p Q w \<Longrightarrow> keeps obs p \<Longrightarrow> ends p (\<lambda>r v. Q r v \<and> obs v = obs w) w"
  by (auto simp: ends_def keeps_def)

lemma ends_ret [ends_simps]:
  "ends (ret a) Q = (\<lambda>w. Q a w)"
  by (simp add: fun_eq_iff ends_def)

lemma ends_Inr [ends_simps]:
  "ends (\<lambda>v. Inr (a, v)) Q = (\<lambda>w. Q a w)"
  by (simp add: fun_eq_iff ends_def)

lemma ends_fail [ends_simps]:
  "ends (fail e) Q = (\<lambda>w. False)"
  by (simp add: fun_eq_iff ends_def)

lemma ends_bindP [ends_simps]:
  "ends (bindP m k) Q = (\<lambda>w. ends m (\<lambda>a. ends (k a) Q) w)"
  by (auto simp: fun_eq_iff ends_def bindP_run split: sum.splits)

lemma ends_assertc [ends_simps]:
  "ends (assertc d c msg k) Q = (\<lambda>w. (d \<longrightarrow> c) \<and> ends k Q w)"
  by (auto simp: fun_eq_iff ends_def assertc_run)

lemma ends_deref [ends_simps]:
  "ends (deref sel p k) Q = (\<lambda>w. p \<noteq> NULL \<and> (\<exists>X. sel w p = Some X \<and> ends (k X) Q w))"
  by (auto simp: fun_eq_iff ends_def deref_run split: option.splits)

lemma ends_store [ends_simps]:
  "ends (store sel upd p g k) Q = (\<lambda>w. p \<noteq> NULL \<and> (\<exists>X. sel w p = Some X \<and> ends k Q (upd (\<lambda>m. m(p \<mapsto> g X)) w)))"
  by (auto simp: fun_eq_iff ends_def store_run split: option.splits)

lemma ends_modify [ends_simps]:
  "ends (modify f k) Q = (\<lambda>w. ends k Q (f w))"
  by (simp add: fun_eq_iff ends_def modify_run)

lemma ends_gets [ends_simps]:
  "ends (gets f k) Q = (\<lambda>w. ends (k (f w)) Q w)"
  by (simp add: fun_eq_iff ends_def gets_run)

lemma ends_index_of [ends_simps]:
  "ends (index_of n xs i k) Q = (\<lambda>w. i < length xs \<and> ends (k (xs ! i)) Q w)"
  by (simp add: fun_eq_iff ends_def index_of_run)

lemma ends_calloc [ends_simps]:
  "ends (calloc upd x k) Q = (\<lambda>w. ends (k (next_addr w)) Q (upd (\<lambda>m. m(next_addr w \<mapsto> x)) (w\<lparr>next_addr := Suc (next_addr w)\<rparr>)))"
  by (simp add: fun_eq_iff ends_def calloc_run)

lemma ends_release [ends_simps]:
  "ends (release upd p k) Q = (\<lambda>w. ends k Q (upd (\<lambda>m. m(p := None)) w))"
  by (simp add: fun_eq_iff ends_def release_run)

lemma ends_vk_do [ends_simps]:
  "ends (vk_do V c k) Q = (\<lambda>w. ends (k (vk_drv V (trace w) c)) Q (w\<lparr>trace := trace w @ [c]\<rparr>))"
  by (simp add: fun_eq_iff ends_def vk_do_run)

lemma ends_CHECK_VKRESULT [ends_simps]:
  "ends (CHECK_VKRESULT V r k) Q = (\<lambda>w. (vk_debug V \<longrightarrow> vk_result r = VK_SUCCESS) \<and> ends k Q w)"
  by (simp add: fun_eq_iff CHECK_VKRESULT_def ends_assertc)

lemma ends_proc [ends_simps]:
  "ends (proc f k) Q = (\<lambda>w. (\<exists>g. f = Some g \<and> ends (k g) Q w))"
  by (auto simp: fun_eq_iff ends_def proc_run split: option.splits)

lemma ends_checked_proc [ends_simps]:
  "ends (checked_proc d f msg k) Q = (\<lambda>w. (\<exists>g. f = Some g \<and> ends (k g) Q w))"
  by (auto simp: fun_eq_iff ends_def checked_proc_run split: option.splits)

lemma ends_table_at [ends_simps]:
  "ends (table_at E p k) Q = (\<lambda>w. p \<noteq> NULL \<and> (\<exists>T. proc_tables E p = Some T \<and> ends (k T) Q w))"
  by (auto simp: fun_eq_iff ends_def table_at_run split: option.splits)

lemma ends_if [ends_simps]:
  "ends (if b then p else q) Q = (\<lambda>w. (if b then ends p Q w else ends q Q w))"
  by (simp add: fun_eq_iff)

lemma ends_case_option [ends_simps]:
  "ends (case x of None \<Rightarrow> p | Some a \<Rightarrow> q a) Q = (case x of None \<Rightarrow> ends p Q | Some a \<Rightarrow> ends (q a) Q)"
  by (cases x) simp_all

text \<open>Loops whose bodies always end well.\<close>

lemma ends_map_each:
  assumes "\<forall>x \<in> set xs. \<forall>v. ends (body x) (\<lambda>_ _. True) v"
  shows "ends (map_each xs body) (\<lambda>_ _. True) w"
  using assms
proof (induction xs arbitrary: w)
  case (Cons x xs)
  then show ?case by (auto simp: ends_bindP ends_ret elim!: ends_weaken)
qed (simp add: ends_ret)

end
