(* ===== verification/Startup_Facts.thy ===== *)
theory Startup_Facts
  imports Adapter_Facts Prog_Total
begin

text \<open>
  Starting up: on a platform that behaves as Vulkan documents, creating an instance, enumerating
  its adapters, creating a device and asking for a queue all end well. The proofs compute weakest
  preconditions along the code.
\<close>

section \<open>What the platform promises\<close>

definition driver_ok :: "vk_env \<Rightarrow> bool" where
  "driver_ok V \<longleftrightarrow> (\<forall>tr c. vk_result (vk_drv V tr c) = VK_SUCCESS)"

definition physical_ok :: "VkPhysicalDeviceInfo \<Rightarrow> bool" where
  "physical_ok info \<longleftrightarrow>
     phys_deviceType info \<noteq> VK_PHYSICAL_DEVICE_TYPE_OTHER \<and> length (phys_deviceName info) \<le> 64
     \<and> distinct (phys_extensions info)
     \<and> list_all (\<lambda>t. mt_heapIndex t < length (phys_memoryHeaps info) \<and> mt_heapIndex t < length (phys_heapBudget info))
         (phys_memoryTypes info)"

definition platform_ok :: "vk_env \<Rightarrow> bool" where
  "platform_ok V \<longleftrightarrow>
     distinct (instance_layers (vk_plat V)) \<and> distinct (instance_extensions (vk_plat V))
     \<and> physical_devices (vk_plat V) \<noteq> []
     \<and> list_all (\<lambda>phys. physical_ok (physical_device (vk_plat V) phys)) (physical_devices (vk_plat V))
     \<and> (VK_EXT_DEBUG_UTILS_EXTENSION_NAME \<in> set (instance_extensions (vk_plat V)) \<longrightarrow> loaded_debug_utils (vk_plat V))"

text \<open>What the caller has to ask for.\<close>

definition request_ok :: "CGPUInstanceDescriptor \<Rightarrow> bool" where
  "request_ok desc \<longleftrightarrow>
     id_backend desc = CGPU_BACKEND_VULKAN \<and> distinct (wanted_device_exts desc)
     \<and> (case id_chained desc of None \<Rightarrow> True | Some x \<Rightarrow> vid_backend x = CGPU_BACKEND_VULKAN)"

section \<open>Adapters\<close>

lemma host_visible_heap_ends:
  assumes "list_all (\<lambda>t. mt_heapIndex t < length heaps \<and> mt_heapIndex t < n) types"
  shows "ends (host_visible_heap b heaps types) (\<lambda>found _. \<forall>h. found = Some h \<longrightarrow> h < n) w"
  using assms by (induction b heaps types rule: host_visible_heap.induct) (simp_all add: ends_simps)

lemma query_vram_ends:
  assumes "physical_ok (physical_device (vk_plat V) (pPhysicalDevice A))"
  shows "ends (VkUtil_QueryHostVisbleVramInfo V A) (\<lambda>_ _. True) w"
proof -
  let ?info = "physical_device (vk_plat V) (pPhysicalDevice A)"
  have "ends (host_visible_heap b (phys_memoryHeaps ?info) (phys_memoryTypes ?info))
      (\<lambda>found _. \<forall>h. found = Some h \<longrightarrow> h < length (phys_heapBudget ?info)) w" for b
    by (rule host_visible_heap_ends) (use assms in \<open>simp add: physical_ok_def\<close>)
  then show ?thesis
    unfolding VkUtil_QueryHostVisbleVramInfo_def Let_def ends_bindP
    by (rule ends_weaken) (auto simp: ends_simps split: option.split)
qed

lemma record_detail_ends:
  assumes "physical_ok (physical_device (vk_plat V) (pPhysicalDevice A))"
  shows "ends (VkUtil_RecordAdapterDetail V A) (\<lambda>_ _. True) w"
  using assms
  by (auto simp: VkUtil_RecordAdapterDetail_def Let_def ends_simps physical_ok_def intro: query_vram_ends)

lemma ends_select_names:
  assumes "stop \<or> distinct wanted" and "distinct offered"
  shows "ends (select_names stop wanted offered []) Q w \<longleftrightarrow> Q (filter (\<lambda>n. n \<in> set wanted) offered) w"
  by (simp add: ends_def select_names_fit [OF assms])

lemma ends_select_none: "ends (select_names stop [] offered []) Q w \<longleftrightarrow> Q [] w"
  using set_selected [of stop "[]" offered] by (simp add: ends_def select_names_run)

lemma query_adapter_ends:
  assumes "physical_ok (physical_device (vk_plat V) phys)" and "distinct wanted"
  shows "ends (query_adapter V [] wanted phys) (\<lambda>_ _. True) w"
proof -
  obtain fs tr where "VkUtil_EnumFormatSupports V (new_adapter V phys) w =
       Inr ((new_adapter V phys)\<lparr>adapter_detail := adapter_detail (new_adapter V phys)\<lparr>format_supports := fs\<rparr>\<rparr>, w\<lparr>trace := tr\<rparr>)"
    using enum_format_supports_run by blast
  moreover have "ends (VkUtil_RecordAdapterDetail V A) (\<lambda>A. ends (calloc adapters_update A ret) (\<lambda>_ _. True)) v"
    if "pPhysicalDevice A = phys" for A v
    using record_detail_ends [of V A v] assms(1) that by (auto simp: ends_simps elim!: ends_weaken)
  moreover have "distinct (phys_extensions (physical_device (vk_plat V) phys))"
    using assms(1) by (simp add: physical_ok_def)
  ultimately show ?thesis
    unfolding query_adapter_def ends_bindP using assms(2)
    by (auto simp: ends_run [where p = "VkUtil_EnumFormatSupports V (new_adapter V phys)" and w = w] ends_simps VkUtil_SelectPhysicalDeviceLayers_def VkUtil_SelectPhysicalDeviceExtensions_def
        VkUtil_SelectQueueIndices_def Let_def ends_select_names ends_select_none)
qed

lemma query_all_ends:
  assumes "platform_ok V" and "distinct wanted" and "i \<noteq> NULL" and "instances w i = Some I" and "pVulkanAdapters I = []"
    and "0 < next_addr w"
  shows "ends (VkUtil_QueryAllAdapters V i [] wanted)
    (\<lambda>_ v. \<exists>as. instances v = (instances w)(i \<mapsto> I\<lparr>pVulkanAdapters := as\<rparr>) \<and> as \<noteq> []
       \<and> (\<forall>a \<in> set as. 0 < a \<and> adapters v a \<noteq> None) \<and> 0 < next_addr v) w"
proof -
  let ?physs = "physical_devices (vk_plat V)"
  have "ends (map_each ?physs (query_adapter V [] wanted)) (\<lambda>_ _. True) w"
    using assms(1,2) by (intro ends_map_each ballI allI query_adapter_ends) (auto simp: platform_ok_def list_all_iff)
  then obtain as u where run: "map_each ?physs (query_adapter V [] wanted) w = Inr (as, u)"
    by (auto elim: endsE)
  have u: "as = [next_addr w ..< next_addr w + length ?physs]"
      "u = w\<lparr>trace := trace u, next_addr := next_addr w + length ?physs, adapters := adapters u\<rparr>"
      "\<forall>k < length ?physs. adapters u (next_addr w + k) \<noteq> None"
    using query_adapters_end [OF run] by auto
  have "instances u = instances w" "next_addr u = next_addr w + length ?physs"
    by (subst u(2), simp)+
  moreover have live: "0 < a \<and> adapters u a \<noteq> None" if "a \<in> set as" for a
    using that u(1,3) assms(6) le_Suc_ex [of "next_addr w" a] by auto
  moreover have "?physs \<noteq> []" using assms(1) by (simp add: platform_ok_def)
  moreover from this have "as \<noteq> []" using u(1) by auto
  ultimately show ?thesis
    using assms
    by (auto simp: VkUtil_QueryAllAdapters_def ends_simps ends_run [where p = "map_each ?physs (query_adapter V [] wanted)" and w = w, OF run])
qed

section \<open>The instance\<close>

lemma for_each_store_ends:
  assumes "\<forall>a \<in> set as. 0 < a \<and> adapters w a \<noteq> None"
  shows "ends (for_each as (\<lambda>a. store adapters adapters_update a g (ret ())))
    (\<lambda>_ v. \<exists>f. v = adapters_update f w \<and> (\<forall>a. adapters w a \<noteq> None \<longrightarrow> adapters v a \<noteq> None)) w"
  using assms
proof (induction as arbitrary: w)
  case Nil
  show ?case by (auto simp: ends_simps intro!: exI [of _ "\<lambda>m. m"])
next
  case (Cons a as)
  then obtain A where A: "0 < a" "adapters w a = Some A" by auto
  let ?w = "adapters_update (\<lambda>m. m(a \<mapsto> g A)) w"
  have "ends (for_each as (\<lambda>a. store adapters adapters_update a g (ret ())))
    (\<lambda>_ v. \<exists>f. v = adapters_update f ?w \<and> (\<forall>a. adapters ?w a \<noteq> None \<longrightarrow> adapters v a \<noteq> None)) ?w"
    using Cons.prems by (intro Cons.IH) auto
  then have "ends (for_each as (\<lambda>a. store adapters adapters_update a g (ret ())))
    (\<lambda>_ v. \<exists>f. v = adapters_update f w \<and> (\<forall>a. adapters w a \<noteq> None \<longrightarrow> adapters v a \<noteq> None)) ?w"
    by (rule ends_weaken) (auto simp: fun_upd_def split: if_splits)
  then show ?case using A by (simp add: ends_simps del: ret_run)
qed

lemma construct_adapter_tables_ends:
  assumes "instances w i = Some I" and "i \<noteq> NULL" and "\<forall>a \<in> set (pVulkanAdapters I). 0 < a \<and> adapters w a \<noteq> None"
  shows "ends (construct_adapter_tables bb i)
    (\<lambda>_ v. instances v = instances w \<and> next_addr v = next_addr w
       \<and> (\<forall>a. adapters w a \<noteq> None \<longrightarrow> adapters v a \<noteq> None)) w"
  using assms
  by (auto simp: construct_adapter_tables_def ends_simps simp del: ret_run intro!: ends_weaken [OF for_each_store_ends])

lemma enable_validation_ends:
  assumes "driver_ok V" and "instances w i = Some I" and "i \<noteq> NULL"
    and "debug_utils I \<Longrightarrow> loaded_debug_utils (vk_plat V)" and "\<not> debug_report I"
  shows "ends (VkUtil_EnableValidationLayer V i m r)
    (\<lambda>_ v. \<exists>X. instances v = (instances w)(i \<mapsto> X) \<and> pVulkanAdapters X = pVulkanAdapters I
       \<and> adapters v = adapters w \<and> next_addr v = next_addr w) w"
proof (cases "debug_utils I")
  case False
  then show ?thesis
    using assms by (auto simp: VkUtil_EnableValidationLayer_def ends_simps intro!: exI [of _ I])
next
  case True
  then show ?thesis
    using assms by (auto simp: VkUtil_EnableValidationLayer_def ends_simps loaded_proc_def driver_ok_def)
qed

text \<open>The first half: the instance with its tables, before the adapters.\<close>

definition create_instance_head :: "vk_env \<Rightarrow> CGPUInstanceDescriptor \<Rightarrow> VkUtil_Blackboard \<Rightarrow> CGPUInstanceId vk_prog" where
  "create_instance_head V desc bb =
     calloc instances_update zero_instance (\<lambda>I.
     bindP (VkUtil_InitializeEnvironment V) (\<lambda>_.
     bindP (VkUtil_SelectInstanceLayers V I (bb_instance_layers bb)) (\<lambda>_.
     bindP (VkUtil_SelectInstanceExtensions V I (bb_instance_extensions bb)) (\<lambda>_.
     bindP (create_vk_instance V desc bb I) (\<lambda>_.
     store instances instances_update I (construct_instance_tables bb) (
     deref instances I (\<lambda>X.
     vk_do V (VkSetup (VolkLoadInstance (pVkInstance X))) (\<lambda>_.
     ret I))))))))"

lemma create_instance_head_eq:
  "ends (cgpu_create_instance_vulkan V desc) Q w =
   ends (VkUtil_Blackboard_of V desc) (\<lambda>bb. ends (create_instance_head V desc bb) (\<lambda>I.
     ends (VkUtil_QueryAllAdapters V I (bb_device_layers bb) (bb_device_extensions bb)) (\<lambda>_.
     ends (construct_adapter_tables bb I) (\<lambda>_.
     ends (if id_enable_debug_layer desc
           then VkUtil_EnableValidationLayer V I (bb_messenger_info_ptr bb) (bb_report_info_ptr bb)
           else ret ()) (\<lambda>_. Q I))))) w"
  by (simp add: cgpu_create_instance_vulkan_def create_instance_head_def ends_simps del: ret_run)

lemma create_instance_head_ends:
  assumes "platform_ok V" and "driver_ok V" and "0 < next_addr w"
  shows "ends (create_instance_head V desc bb)
    (\<lambda>i v. 0 < i \<and> 0 < next_addr v \<and> (\<exists>I. instances v i = Some I \<and> pVulkanAdapters I = [] \<and> \<not> debug_report I
       \<and> (debug_utils I \<longrightarrow> loaded_debug_utils (vk_plat V)))) w"
  using assms
  by (simp add: create_instance_head_def ends_simps VkUtil_InitializeEnvironment_def VkUtil_SelectInstanceLayers_def
      VkUtil_SelectInstanceExtensions_def create_vk_instance_def driver_ok_def platform_ok_def ends_select_names
      construct_instance_tables_def instance_extensions_of_def instance_layers_of_def zero_instance_def Let_def)

text \<open>What an instance has when it was created.\<close>

definition instance_ready :: "vk_world \<Rightarrow> CGPUInstanceId \<Rightarrow> bool" where
  "instance_ready w i \<longleftrightarrow> 0 < i \<and> 0 < next_addr w \<and> (\<exists>I. instances w i = Some I \<and> pVulkanAdapters I \<noteq> []
     \<and> (\<forall>a \<in> set (pVulkanAdapters I). 0 < a \<and> adapters w a \<noteq> None))"

lemma create_instance_tail_ends:
  assumes "platform_ok V" and "driver_ok V" and "distinct wanted" and bb: "bb_device_extensions bb = wanted" "bb_device_layers bb = []"
    and I: "0 < i" "0 < next_addr w" "instances w i = Some I" "pVulkanAdapters I = []" "\<not> debug_report I"
      "debug_utils I \<longrightarrow> loaded_debug_utils (vk_plat V)"
  shows "ends (VkUtil_QueryAllAdapters V i (bb_device_layers bb) (bb_device_extensions bb)) (\<lambda>_.
       ends (construct_adapter_tables bb i) (\<lambda>_.
       ends (if c then VkUtil_EnableValidationLayer V i m r else ret ()) (\<lambda>_ v. instance_ready v i))) w"
  unfolding bb
proof (rule ends_weaken [OF query_all_ends [OF assms(1,3) _ I(3,4,2)]], goal_cases)
  case (2 _ u)
  then obtain as where u: "instances u i = Some (I\<lparr>pVulkanAdapters := as\<rparr>)" "as \<noteq> []"
    "\<forall>a \<in> set as. 0 < a \<and> adapters u a \<noteq> None" "0 < next_addr u" by auto
  show ?case
  proof (rule ends_weaken [OF construct_adapter_tables_ends [OF u(1)]], goal_cases)
    case (3 _ x)
    then have x: "instances x i = Some (I\<lparr>pVulkanAdapters := as\<rparr>)" "instance_ready x i"
      using u I by (auto simp: instance_ready_def)
    have "ends (VkUtil_EnableValidationLayer V i m r) (\<lambda>_ v. instance_ready v i) x"
      by (rule ends_weaken [OF enable_validation_ends [OF assms(2) x(1)]])
        (use x I in \<open>auto simp: instance_ready_def\<close>)
    then show ?case using x by (simp add: ends_simps)
  qed (use I u in auto)
qed (use I in simp)

lemma create_instance_vulkan_ends:
  assumes "platform_ok V" and "driver_ok V" and "request_ok desc" and "0 < next_addr w"
  shows "ends (cgpu_create_instance_vulkan V desc) (\<lambda>i v. instance_ready v i) w"
proof -
  have bb: "ends (VkUtil_Blackboard_of V desc)
      (\<lambda>bb v. v = w \<and> bb_device_extensions bb = wanted_device_exts desc \<and> bb_device_layers bb = []) w"
    using assms(3)
    by (auto simp: VkUtil_Blackboard_of_def Let_def ends_simps request_ok_def wanted_device_exts_def split: option.splits)
  have wanted: "distinct (wanted_device_exts desc)" using assms(3) by (simp add: request_ok_def)
  show ?thesis
    unfolding create_instance_head_eq
    by (rule ends_weaken [OF bb], elim conjE, hypsubst, rule ends_weaken [OF create_instance_head_ends [OF assms(1,2,4)]],
        elim conjE exE, rule create_instance_tail_ends [OF assms(1,2) wanted])
qed

text \<open>The instance after the front end: it knows its table, its queue table and its adapters.\<close>

definition instance_up :: "vk_env \<Rightarrow> string list \<Rightarrow> ptr \<Rightarrow> vk_world \<Rightarrow> CGPUInstanceId \<Rightarrow> CGPUInstance_Vulkan \<Rightarrow> bool" where
  "instance_up V wanted p w i I \<longleftrightarrow> 0 < i \<and> 0 < next_addr w \<and> instances w i = Some I \<and> inst_proc_table I = p
     \<and> 0 < inst_runtime_table I \<and> runtime_tables w (inst_runtime_table I) = Some \<lparr>created_queues = []\<rparr>
     \<and> adapters_for V wanted w (pVulkanAdapters I) \<and> (\<forall>a \<in> set (pVulkanAdapters I). 0 < a)"

lemma create_instance_ends:
  assumes "platform_ok V" and "driver_ok V" and "request_ok desc" and "0 < next_addr w" and "0 < p"
  shows "ends (cgpu_create_instance (system_env V R base p (Suc m)) desc)
    (\<lambda>i v. \<exists>I. instance_up V (wanted_device_exts desc) p v i I) w"
proof -
  have "ends (cgpu_create_instance_vulkan V desc) (\<lambda>i v. instance_ready v i
      \<and> (\<forall>I. instances v i = Some I \<longrightarrow> adapters_for V (wanted_device_exts desc) v (pVulkanAdapters I))) w"
    by (rule ends_weaken [OF create_instance_vulkan_ends [OF assms(1-4)]]) (auto elim!: create_instance_vulkan_end)
  then show ?thesis
    using assms(3,5)
    by (auto simp: cgpu_create_instance_def ends_simps request_ok_def Let_def system_env.simps(2) vk_table_defs
        cgpu_create_runtime_table_def instance_ready_def instance_up_def adapters_for_def elim!: ends_weaken)
qed

section \<open>The adapters\<close>

definition adapter_up :: "vk_env \<Rightarrow> string list \<Rightarrow> ptr \<Rightarrow> CGPUInstanceId \<Rightarrow> vk_world \<Rightarrow> CGPUAdapterId \<Rightarrow> VkHandle \<Rightarrow> bool" where
  "adapter_up V wanted p i w a phys \<longleftrightarrow> 0 < a \<and> (\<exists>A. adapters w a = Some A \<and> pPhysicalDevice A = phys
     \<and> adapter_typed V wanted A \<and> adapter_instance A = i \<and> adapter_proc_table_cache A = p)"

lemma enum_adapters_ends:
  assumes "instance_up V wanted p w i I" and "0 < p"
  shows "ends (cgpu_enum_adapters (system_env V R base p (Suc m)) i True)
    (\<lambda>r v. r = (pVulkanAdapters I, length (pVulkanAdapters I)) \<and> instance_up V wanted p v i I
       \<and> list_all2 (adapter_up V wanted p i v) (pVulkanAdapters I) (physical_devices (vk_plat V))) w"
proof -
  let ?as = "pVulkanAdapters I"
  let ?g = "\<lambda>A. A\<lparr>adapter_proc_table_cache := p, adapter_instance := i\<rparr>"
  have I: "instances w i = Some I" "0 < i" "inst_proc_table I = p" and as: "adapters_for V wanted w ?as" "\<forall>a \<in> set ?as. 0 < a"
    using assms(1) by (auto simp: instance_up_def)
  have typed: "adapter_typed V wanted (?g A) = adapter_typed V wanted A" for A
    by (simp add: adapter_typed_def adapter_flags_ok_def)
  have live: "\<forall>a \<in> set ?as. 0 < a \<and> adapters w a \<noteq> None"
    using as by (fastforce simp: adapters_for_def list_all2_conv_all_nth in_set_conv_nth)
  have "ends (for_each ?as (\<lambda>a. store adapters adapters_update a ?g (ret ())))
      (\<lambda>_ v. instance_up V wanted p v i I
        \<and> list_all2 (adapter_up V wanted p i v) ?as (physical_devices (vk_plat V))) w"
  proof (rule ends_weaken [OF for_each_store_ends [OF live]])
    fix x v
    assume "for_each ?as (\<lambda>a. store adapters adapters_update a ?g (ret ())) w = Inr (x, v)"
    then have "v = adapters_update (\<lambda>m a. if a \<in> set ?as then map_option ?g (m a) else m a) w"
      using as(1) by (intro for_each_store_end) (auto simp: adapters_for_def)
    then have v: "instances v = instances w" "runtime_tables v = runtime_tables w" "next_addr v = next_addr w"
        "\<And>a A. a \<in> set ?as \<Longrightarrow> adapters w a = Some A \<Longrightarrow> adapters v a = Some (?g A)" by simp_all
    have all: "list_all2 (\<lambda>a phys. \<exists>A. adapters w a = Some A \<and> pPhysicalDevice A = phys \<and> adapter_typed V wanted A)
        ?as (physical_devices (vk_plat V))" using as(1) by (simp add: adapters_for_def)
    have "list_all2 (adapter_up V wanted p i v) ?as (physical_devices (vk_plat V))"
      by (rule list.rel_mono_strong [OF all]) (use v(4) as(2) typed in \<open>force simp: adapter_up_def\<close>)
    moreover from this have "list_all2 (\<lambda>a phys. \<exists>A. adapters v a = Some A \<and> pPhysicalDevice A = phys \<and> adapter_typed V wanted A)
        ?as (physical_devices (vk_plat V))" by (rule list_all2_mono) (auto simp: adapter_up_def)
    ultimately show "instance_up V wanted p v i I \<and> list_all2 (adapter_up V wanted p i v) ?as (physical_devices (vk_plat V))"
      using assms(1) v(1-3) by (simp add: instance_up_def adapters_for_def)
  qed
  then show ?thesis
    using I assms(2)
    by (auto simp: cgpu_enum_adapters_def instance_table_def ends_simps system_env.simps(2) vk_table_defs
        cgpu_enum_adapters_vulkan_def simp del: ret_run elim!: ends_weaken)
qed

section \<open>The device and its queues\<close>

definition three_types :: "ECGPUQueueType set" where
  "three_types = {CGPU_QUEUE_TYPE_GRAPHICS, CGPU_QUEUE_TYPE_COMPUTE, CGPU_QUEUE_TYPE_TRANSFER}"

text \<open>No more queues than the physical device counts for their type.\<close>

definition device_request_ok :: "vk_env \<Rightarrow> VkHandle \<Rightarrow> CGPUDeviceDescriptor \<Rightarrow> bool" where
  "device_request_ok V phys desc \<longleftrightarrow> list_all (\<lambda>g. qg_queueType g \<in> three_types
     \<and> qg_queueCount g \<le> count_queues (qg_queueType g) (phys_queue_families (physical_device (vk_plat V) phys)))
     (dd_queueGroups desc)"

lemma queue_create_infos_end:
  assumes "map_each gs (queue_create_info V a) w = Inr (infos, v)"
  shows "v = w \<and> length infos = length gs"
proof -
  have one: "queue_create_info V a g w = Inr (info, v) \<Longrightarrow> v = w" for g info w v
    by (auto simp: queue_create_info_def queue_family_def cgpu_query_queue_count_vulkan_def index_of_run
        elim!: deref_end bindP_end assertc_end split: if_splits)
  show ?thesis using assms
  proof (induction gs arbitrary: infos)
    case (Cons g gs)
    from Cons.prems show ?case by (auto elim!: bindP_end dest!: one Cons.IH)
  qed simp
qed

lemma queue_create_infos_ends:
  assumes "adapter_up V wanted p i w a phys" and "list_all (\<lambda>g. qg_queueType g \<in> three_types
     \<and> qg_queueCount g \<le> count_queues (qg_queueType g) (phys_queue_families (physical_device (vk_plat V) phys))) gs"
  shows "ends (map_each gs (queue_create_info V a)) (\<lambda>_ v. v = w) w"
  using assms(2)
proof (induction gs)
  case (Cons g gs)
  have "ends (queue_create_info V a g) (\<lambda>_ v. v = w) w"
    using Cons.prems assms(1)
    by (auto simp: queue_create_info_def queue_family_def cgpu_query_queue_count_vulkan_def ends_simps adapter_up_def
        adapter_typed_def three_types_def)
  then show ?case using Cons by (auto simp: ends_simps elim!: ends_weaken)
qed (simp add: ends_simps)

definition device_up :: "ptr \<Rightarrow> CGPUAdapterId \<Rightarrow> vk_world \<Rightarrow> CGPUDeviceId \<Rightarrow> bool" where
  "device_up p a w d \<longleftrightarrow> 0 < d \<and> 0 < next_addr w
     \<and> (\<exists>D. devices w d = Some D \<and> device_adapter D = a \<and> device_proc_table_cache D = p)"

lemma create_device_ends:
  assumes "driver_ok V" and "instance_up V wanted p w i I" and "adapter_up V wanted p i w a phys" and "0 < p"
    and "device_request_ok V phys desc"
  shows "ends (cgpu_create_device (system_env V R base p (Suc m)) a desc)
    (\<lambda>d v. device_up p a v d \<and> adapters v = adapters w \<and> instances v = instances w
       \<and> runtime_tables v = runtime_tables w) w"
proof -
  obtain A where A: "0 < a" "adapters w a = Some A" "adapter_instance A = i" "adapter_proc_table_cache A = p"
    using assms(3) by (auto simp: adapter_up_def)
  have I: "0 < i" "instances w i = Some I" "0 < next_addr w" using assms(2) by (auto simp: instance_up_def)
  let ?w = "devices_update (\<lambda>m. m(next_addr w \<mapsto> \<lparr>device_adapter = a, device_proc_table_cache = NULL, pVkDevice = VK_NULL_HANDLE,
        pPipelineCache = VK_NULL_HANDLE, pDescriptorPool = NULL, pVmaAllocator = VK_NULL_HANDLE, pPassTable = NULL\<rparr>))
        (w\<lparr>next_addr := Suc (next_addr w)\<rparr>)"
  have "ends (map_each (dd_queueGroups desc) (queue_create_info V a)) (\<lambda>_ v. v = ?w) ?w"
    using assms(3,5) by (intro queue_create_infos_ends [of V wanted p i ?w a phys]) (auto simp: adapter_up_def device_request_ok_def)
  then show ?thesis
    using A I assms(1,4)
    by (auto simp: cgpu_create_device_def adapter_table_def ends_simps system_env.simps(2) vk_table_defs
        cgpu_create_device_vulkan_def driver_ok_def VkUtil_CreatePipelineCache_def VkUtil_CreateVMAAllocator_def
        VkUtil_CreateDescriptorPool_def new_mutex_def device_up_def elim!: ends_weaken)
qed

lemma get_queue_ends:
  assumes "driver_ok V" and "instance_up V wanted p w i I" and "adapter_up V wanted p i w a phys" and "0 < p"
    and "device_up p a w d" and "t \<in> three_types"
  shows "ends (cgpu_get_queue (system_env V R base p (Suc (Suc m))) d t index)
    (\<lambda>q v. 0 < q \<and> (\<exists>Q. queues v q = Some Q \<and> queue_device Q = d \<and> queue_type Q = t \<and> queue_index Q = index)) w"
proof -
  obtain A where A: "0 < a" "adapters w a = Some A" "adapter_instance A = i" "adapter_proc_table_cache A = p"
      "length (mQueueFamilyIndices A) = 3"
    using assms(3) by (auto simp: adapter_up_def adapter_typed_def)
  obtain D where D: "0 < d" "0 < next_addr w" "devices w d = Some D" "device_adapter D = a" "device_proc_table_cache D = p"
    using assms(5) by (auto simp: device_up_def)
  have I: "0 < i" "instances w i = Some I" "0 < inst_runtime_table I"
      "runtime_tables w (inst_runtime_table I) = Some \<lparr>created_queues = []\<rparr>"
    using assms(2) by (auto simp: instance_up_def)
  have "queue_type_value t < 3" using assms(6) by (auto simp: three_types_def)
  then show ?thesis
    using A D I assms(1,4)
    by (simp add: cgpu_get_queue_def device_table_def runtime_table_defs ends_simps system_env.simps(2) vk_table_defs
        TryFindQueue_def cgpu_get_queue_vulkan_def queue_family_def driver_ok_def new_mutex_def
        cgpu_create_command_pool_def cgpu_create_command_buffer_def cgpu_create_fence_def
        cgpu_create_command_pool_vulkan_def allocate_transient_command_pool_def
        cgpu_create_command_buffer_vulkan_def cgpu_create_fence_vulkan_def)
qed

lemma create_instance_tbl: "create_instance (tbl_vk V R E base) = Some (cgpu_create_instance_vulkan V)"
  by (simp add: vk_table_defs)

section \<open>Properties\<close>

text \<open>
  Property C36: the adapters of a new instance are well formed. There is exactly one for every
  physical device, in the order of the platform, with three queue family indices in range, a
  support record for every format, a name that fits, and as enabled extensions exactly the wanted
  ones the device offers; the table has an entry for every wanted name and every name that is
  asked for, it is true exactly for the enabled ones, and so are the flags read from it.
\<close>

theorem adapters_are_typed:
  assumes "cgpu_create_instance (system_env V R base p n) desc w = Inr (i, w')"
  shows "\<exists>I. instances w' i = Some I \<and> distinct (pVulkanAdapters I)
    \<and> list_all2 (\<lambda>a phys. \<exists>A. adapters w' a = Some A \<and> pPhysicalDevice A = phys
        \<and> adapter_typed V (wanted_device_exts desc) A) (pVulkanAdapters I) (physical_devices (vk_plat V))"
proof -
  let ?tbl = "if id_backend desc = CGPU_BACKEND_VULKAN then vk_table (system_env V R base p n) else NULL"
  obtain j v where j: "cgpu_create_instance_vulkan V desc w = Inr (j, v)"
    and rest: "store instances instances_update j
       (\<lambda>I. I\<lparr>inst_enable_set_name := id_enable_set_name desc, inst_backend := id_backend desc, inst_proc_table := ?tbl\<rparr>) (
       cgpu_create_runtime_table (\<lambda>rt.
       store instances instances_update j (inst_runtime_table_update (\<lambda>_. rt)) (ret j))) v = Inr (i, w')"
    using assms unfolding cgpu_create_instance_def Let_def
    by (elim assertc_end system_proc) (auto simp only: create_instance_tbl proc_def option.case elim: bindP_end)
  have "i = j" "adapters w' = adapters v" "map_option pVulkanAdapters (instances w' i) = map_option pVulkanAdapters (instances v i)"
    using rest by (auto simp: cgpu_create_runtime_table_def calloc_run elim!: store_end)
  moreover from j obtain as where "map_option pVulkanAdapters (instances v j) = Some as"
      "adapters_for V (wanted_device_exts desc) v as" by (rule create_instance_vulkan_end)
  ultimately show ?thesis by (auto simp: adapters_for_def)
qed

definition sample_instance_desc :: CGPUInstanceDescriptor where
  "sample_instance_desc = \<lparr>id_chained = None, id_backend = CGPU_BACKEND_VULKAN, id_enable_debug_layer = True,
     id_enable_gpu_based_validation = False, id_enable_set_name = True\<rparr>"

definition one_graphics_queue :: CGPUDeviceDescriptor where
  "one_graphics_queue = \<lparr>dd_disable_pipeline_cache = False,
     dd_queueGroups = [\<lparr>qg_queueType = CGPU_QUEUE_TYPE_GRAPHICS, qg_queueCount = 1\<rparr>]\<rparr>"

lemma sample_platform_ok:
  "platform_ok sample_vk" "driver_ok sample_vk" "request_ok sample_instance_desc"
  by (simp_all add: platform_ok_def driver_ok_def request_ok_def sample_vk_def sample_platform_def sample_driver_def
      physical_ok_def VK_EXT_DEBUG_UTILS_EXTENSION_NAME_def sample_instance_desc_def wanted_device_exts_def
      cgpu_wanted_device_exts_def)

lemma list_all2_single: "list_all2 R xs [y] \<longleftrightarrow> (\<exists>x. xs = [x] \<and> R x y)"
  by (auto simp: list_all2_Cons2)

lemma sample_instance_runs:
  "ends (cgpu_create_instance sample_env sample_instance_desc)
     (\<lambda>i v. \<exists>I. instance_up sample_vk (wanted_device_exts sample_instance_desc) 9 v i I) sample_world"
  unfolding sample_env_def numeral_2_eq_2
  by (rule create_instance_ends [OF sample_platform_ok]) simp_all

theorem adapters_are_typed_witness:
  "\<exists>i w' I a. cgpu_create_instance sample_env sample_instance_desc sample_world = Inr (i, w') \<and> instances w' i = Some I
    \<and> pVulkanAdapters I = [a] \<and> (\<exists>A. adapters w' a = Some A \<and> pPhysicalDevice A = 502
        \<and> set (adp_pExtensionNames A) = {''VK_KHR_swapchain''})"
proof -
  obtain i w' where run: "cgpu_create_instance sample_env sample_instance_desc sample_world = Inr (i, w')"
    using sample_instance_runs by (rule endsE)
  have one: "physical_devices (vk_plat sample_vk) = [502]"
      and exts: "phys_extensions (physical_device (vk_plat sample_vk) 502) = [''VK_KHR_swapchain'', ''VK_EXT_memory_budget'']"
    by (simp_all add: sample_vk_def sample_platform_def)
  have "''VK_KHR_swapchain'' \<in> set (wanted_device_exts sample_instance_desc)"
      "''VK_EXT_memory_budget'' \<notin> set (wanted_device_exts sample_instance_desc)"
    by (simp_all add: wanted_device_exts_def cgpu_wanted_device_exts_def sample_instance_desc_def)
  then have both: "set (wanted_device_exts sample_instance_desc) \<inter> {''VK_KHR_swapchain'', ''VK_EXT_memory_budget''}
      = {''VK_KHR_swapchain''}" by (simp only: Int_insert_right if_True if_False Int_empty_right)
  obtain I where I: "instances w' i = Some I" and "list_all2 (\<lambda>a phys. \<exists>A. adapters w' a = Some A \<and> pPhysicalDevice A = phys
        \<and> adapter_typed sample_vk (wanted_device_exts sample_instance_desc) A) (pVulkanAdapters I) [502]"
    using adapters_are_typed [OF run [unfolded sample_env_def]] unfolding one by (elim exE conjE)
  then obtain a A where "pVulkanAdapters I = [a]" "adapters w' a = Some A" "pPhysicalDevice A = 502"
      "adapter_typed sample_vk (wanted_device_exts sample_instance_desc) A"
    unfolding list_all2_single by (elim exE conjE)
  moreover from this have "set (adp_pExtensionNames A) = {''VK_KHR_swapchain''}"
    using both exts by (simp only: adapter_typed_def list.set)
  ultimately show ?thesis using run I by blast
qed



end
