(* ===== verification/Swapchain_Facts.thy ===== *)
theory Swapchain_Facts
  imports Vk_Sample Prog_Total
begin

text \<open>
  Swapchains: the request that reaches the driver fits what the surface answered, the family that
  presents can, and a swapchain that is freed takes its back buffers with it.
\<close>

section \<open>What the surface answers\<close>

definition surface_seen ::
    "vk_env \<Rightarrow> vk_call list \<Rightarrow> VkHandle \<Rightarrow> VkHandle \<Rightarrow> VkSurfaceCapabilitiesKHR \<times> VkSurfaceFormatKHR list \<times> VkPresentModeKHR list" where
  "surface_seen V tr phys surface =
     (let c = VkSetup (VkGetPhysicalDeviceSurfaceCapabilitiesKHR phys surface);
          f = (\<lambda>array. VkSetup (VkGetPhysicalDeviceSurfaceFormatsKHR phys surface array));
          m = (\<lambda>array. VkSetup (VkGetPhysicalDeviceSurfacePresentModesKHR phys surface array)) in
      (surface_capabilities (vk_drv V tr c),
       take (vk_out (vk_drv V (tr @ [c]) (f False)) 0)
         (surface_formats_of (vk_outs (vk_drv V (tr @ [c, f False]) (f True)))),
       take (vk_out (vk_drv V (tr @ [c, f False, f True]) (m False)) 0)
         (map present_mode_of (vk_outs (vk_drv V (tr @ [c, f False, f True, m False]) (m True))))))"

lemma query_surface_end:
  assumes "query_surface V phys surface k w = Inr x"
  obtains tr caps formats modes where "surface_seen V (trace w) phys surface = (caps, formats, modes)"
    "k caps formats modes (w\<lparr>trace := trace w @ tr\<rparr>) = Inr x"
  using assms
  by (auto simp: query_surface_def query_array_def CHECK_VKRESULT_def vk_do_run surface_seen_def Let_def
      elim!: assertc_end)

definition presents :: "vk_env \<Rightarrow> vk_call list \<Rightarrow> VkHandle \<Rightarrow> VkHandle \<Rightarrow> nat \<Rightarrow> bool" where
  "presents V tr phys surface family =
     (let r = vk_drv V tr (VkSetup (VkGetPhysicalDeviceSurfaceSupportKHR phys family surface)) in
      vk_result r = VK_SUCCESS \<and> vk_out r 0 = 1)"

lemma surface_supported_run:
  "surface_supported V phys surface family w = Inr (presents V (trace w) phys surface family,
     w\<lparr>trace := trace w @ [VkSetup (VkGetPhysicalDeviceSurfaceSupportKHR phys family surface)]\<rparr>)"
  by (simp add: surface_supported_def vk_do_run presents_def Let_def)

text \<open>A family that the surface was asked about, and that can present.\<close>

definition asked_family :: "vk_env \<Rightarrow> vk_call list \<Rightarrow> VkHandle \<Rightarrow> VkHandle \<Rightarrow> u32 \<Rightarrow> bool" where
  "asked_family V tr' phys surface family \<longleftrightarrow> (\<exists>f tr rest. family = word_of_nat f
     \<and> tr' = tr @ VkSetup (VkGetPhysicalDeviceSurfaceSupportKHR phys f surface) # rest \<and> presents V tr phys surface f)"

lemma asked_family_append: "asked_family V tr phys surface family \<Longrightarrow> asked_family V (tr @ tr') phys surface family"
  by (auto simp: asked_family_def) metis

lemma asked_family_last:
  "presents V tr phys surface f
    \<Longrightarrow> asked_family V (tr @ [VkSetup (VkGetPhysicalDeviceSurfaceSupportKHR phys f surface)]) phys surface (word_of_nat f)"
  by (auto simp: asked_family_def)

lemma dedicated_family_end:
  assumes "dedicated_present_family V phys surface own families w = Inr (family, w')"
  shows "(\<exists>tr. w' = w\<lparr>trace := trace w @ tr\<rparr>) \<and> (family = - 1 \<or> asked_family V (trace w') phys surface family)"
  using assms
proof (induction families arbitrary: w)
  case Nil
  then show ?case by (auto intro: exI [of _ "[]"])
next
  case (Cons f families)
  let ?w = "w\<lparr>trace := trace w @ [VkSetup (VkGetPhysicalDeviceSurfaceSupportKHR phys f surface)]\<rparr>"
  show ?case
  proof (cases "presents V (trace w) phys surface f \<and> own \<noteq> f")
    case True
    then show ?thesis using Cons.prems by (auto simp: bindP_run surface_supported_run asked_family_last)
  next
    case False
    then have "dedicated_present_family V phys surface own families ?w = Inr (family, w')"
      using Cons.prems by (auto simp: bindP_run surface_supported_run)
    from Cons.IH [OF this] show ?thesis by auto
  qed
qed

lemma any_family_end:
  assumes "any_present_family V phys surface families w = Inr (family, w')"
  shows "(\<exists>tr. w' = w\<lparr>trace := trace w @ tr\<rparr>)
    \<and> (vk_debug V \<and> families \<noteq> [] \<longrightarrow> asked_family V (trace w') phys surface family)"
  using assms
proof (induction families arbitrary: w)
  case Nil
  then show ?case by (auto intro: exI [of _ "[]"])
next
  case (Cons f families)
  let ?w = "w\<lparr>trace := trace w @ [VkSetup (VkGetPhysicalDeviceSurfaceSupportKHR phys f surface)]\<rparr>"
  show ?case
  proof (cases "presents V (trace w) phys surface f")
    case True
    then show ?thesis using Cons.prems by (auto simp: bindP_run surface_supported_run asked_family_last)
  next
    case False
    then have "any_present_family V phys surface families ?w = Inr (family, w')" "\<not> vk_debug V"
      using Cons.prems by (auto simp: bindP_run surface_supported_run assertc_run split: if_splits)
    with Cons.IH [OF this(1)] show ?thesis by auto
  qed
qed

lemma present_family_end:
  assumes "present_family V phys surface own w = Inr (family, w')"
  shows "(\<exists>tr. w' = w\<lparr>trace := trace w @ tr\<rparr>)
    \<and> (vk_debug V \<and> phys_queue_families (physical_device (vk_plat V) phys) \<noteq> []
         \<longrightarrow> asked_family V (trace w') phys surface family)"
proof -
  let ?families = "[0..<length (phys_queue_families (physical_device (vk_plat V) phys))]"
  let ?w = "w\<lparr>trace := trace w @ [VkSetup (VkGetPhysicalDeviceSurfaceSupportKHR phys own surface)]\<rparr>"
  show ?thesis
  proof (cases "presents V (trace w) phys surface own")
    case True
    then show ?thesis using assms by (auto simp: present_family_def bindP_run surface_supported_run asked_family_last)
  next
    case False
    then obtain fam u where ded: "dedicated_present_family V phys surface own ?families ?w = Inr (fam, u)"
      and rest: "(if ?families \<noteq> [] \<and> fam = - 1 then any_present_family V phys surface ?families else ret fam) u = Inr (family, w')"
      using assms by (auto simp: present_family_def bindP_run surface_supported_run Let_def split: sum.splits)
    from dedicated_family_end [OF ded] obtain tr where u: "u = ?w\<lparr>trace := trace ?w @ tr\<rparr>"
      and fam: "fam = - 1 \<or> asked_family V (trace u) phys surface fam" by blast
    show ?thesis
    proof (cases "?families \<noteq> [] \<and> fam = - 1")
      case True
      then show ?thesis using rest u any_family_end [of V phys surface ?families u family w'] by auto
    next
      case False
      then show ?thesis using rest u fam by (auto split: if_splits)
    qed
  qed
qed

section \<open>A request that fits\<close>

text \<open>Capabilities make sense when no minimum is above its maximum; no maximum of images is 0.\<close>

definition caps_ok :: "VkSurfaceCapabilitiesKHR \<Rightarrow> bool" where
  "caps_ok caps \<longleftrightarrow> (maxImageCount caps = 0 \<or> minImageCount caps \<le> maxImageCount caps)
     \<and> fst (minImageExtent caps) \<le> fst (maxImageExtent caps) \<and> snd (minImageExtent caps) \<le> snd (maxImageExtent caps)"

definition request_fits ::
    "VkSurfaceCapabilitiesKHR \<Rightarrow> VkSurfaceFormatKHR list \<Rightarrow> VkPresentModeKHR list \<Rightarrow> VkSwapchainCreateInfoKHR \<Rightarrow> bool" where
  "request_fits caps formats modes info \<longleftrightarrow>
     minImageCount caps \<le> sci_minImageCount info
     \<and> (maxImageCount caps = 0 \<or> sci_minImageCount info \<le> maxImageCount caps)
     \<and> fst (sci_imageExtent info) \<in> {fst (minImageExtent caps) .. fst (maxImageExtent caps)}
     \<and> snd (sci_imageExtent info) \<in> {snd (minImageExtent caps) .. snd (maxImageExtent caps)}
     \<and> (\<lparr>sf_format = sci_imageFormat info, sf_colorSpace = sci_imageColorSpace info\<rparr> \<in> set formats
          \<or> sci_imageFormat info = VK_FORMAT_B8G8R8A8_UNORM \<and> sci_imageColorSpace info = VK_COLOR_SPACE_SRGB_NONLINEAR_KHR)
     \<and> (sci_presentMode info \<in> set modes \<or> sci_presentMode info = VK_PRESENT_MODE_FIFO_KHR)
     \<and> (supportedTransforms caps AND sci_preTransform info \<noteq> 0 \<or> sci_preTransform info = currentTransform caps)"

lemma fitted_count_fits:
  assumes "caps_ok caps"
  shows "minImageCount caps \<le> fitted_image_count caps n"
    "maxImageCount caps = 0 \<or> fitted_image_count caps n \<le> maxImageCount caps"
  using assms by (auto simp: fitted_image_count_def caps_ok_def)

lemma clamp_between: "lo \<le> hi \<Longrightarrow> clamp x lo hi \<in> {lo .. hi}"
  by (simp add: clamp_def)

lemma find_SomeD: "find P xs = Some x \<Longrightarrow> x \<in> set xs \<and> P x"
  by (auto simp: find_Some_iff)

lemma fitted_format_fits:
  "fitted_surface_format formats format \<in> set formats \<or> fitted_surface_format formats format = default_surface_format"
  by (auto simp: fitted_surface_format_def dest: find_SomeD split: option.split)

lemma fitted_mode_fits:
  "fitted_present_mode modes vsync \<in> set modes \<or> fitted_present_mode modes vsync = VK_PRESENT_MODE_FIFO_KHR"
  by (auto simp: fitted_present_mode_def dest: find_SomeD split: option.split)

lemma fitted_alpha_fits:
  assumes "fitted_composite_alpha caps \<noteq> VK_COMPOSITE_ALPHA_FLAG_BITS_MAX_ENUM_KHR"
  shows "fitted_composite_alpha caps \<in> set compositeAlphaFlags \<and> supportedCompositeAlpha caps AND fitted_composite_alpha caps \<noteq> 0"
  using assms find_SomeD [of "\<lambda>a. supportedCompositeAlpha caps AND a \<noteq> 0" compositeAlphaFlags]
  unfolding fitted_composite_alpha_def by (simp split: option.splits del: bot_nat_0.not_eq_extremum)

lemma swapchain_info_fits:
  assumes "caps_ok caps"
  shows "request_fits caps formats modes (swapchain_info caps formats modes family desc)"
proof -
  have sf: "\<lparr>sf_format = sf_format f, sf_colorSpace = sf_colorSpace f\<rparr> = f" for f :: VkSurfaceFormatKHR by simp
  show ?thesis
    using fitted_count_fits [OF assms] fitted_format_fits [of formats "scd_format desc"]
      fitted_mode_fits [of modes "scd_enableVsync desc"] assms
      clamp_between [of "fst (minImageExtent caps)" "fst (maxImageExtent caps)"]
      clamp_between [of "snd (minImageExtent caps)" "snd (maxImageExtent caps)"]
    by (auto simp: request_fits_def swapchain_info_def Let_def sf fitted_extent_def fitted_transform_def caps_ok_def
        default_surface_format_def)
qed

section \<open>The run of a creation\<close>

lemma back_buffers_end:
  assumes "map_each imgs body w = Inr (ts, w')" and body: "\<And>img. body img = calloc textures_update (g img) ret"
  shows "ts = [next_addr w ..< next_addr w + length imgs]
    \<and> w' = w\<lparr>next_addr := next_addr w + length imgs, textures := textures w'\<rparr>
    \<and> (\<forall>a. textures w' a = (if next_addr w \<le> a \<and> a < next_addr w + length imgs
         then Some (g (imgs ! (a - next_addr w))) else textures w a))"
  using assms(1)
proof (induction imgs arbitrary: w ts)
  case Nil
  then show ?case by auto
next
  case (Cons img imgs)
  let ?n = "next_addr w"
  let ?w = "textures_update (\<lambda>m. m(?n \<mapsto> g img)) (w\<lparr>next_addr := Suc ?n\<rparr>)"
  have "body img w = Inr (?n, ?w)" by (simp add: body calloc_run)
  then obtain ts' where ts: "ts = ?n # ts'" and "map_each imgs body ?w = Inr (ts', w')"
    using Cons.prems by (auto simp: bindP_run split: sum.splits)
  from Cons.IH [OF this(2)] have ih: "ts' = [Suc ?n ..< Suc ?n + length imgs]"
      "w' = ?w\<lparr>next_addr := Suc ?n + length imgs, textures := textures w'\<rparr>"
      "textures w' a = (if Suc ?n \<le> a \<and> a < Suc ?n + length imgs
         then Some (g (imgs ! (a - Suc ?n))) else ((textures w)(?n \<mapsto> g img)) a)" for a by simp_all
  have "textures w' a = (if ?n \<le> a \<and> a < ?n + length (img # imgs) then Some (g ((img # imgs) ! (a - ?n))) else textures w a)" for a
  proof (cases "?n < a")
    case True
    then obtain k where "a = Suc ?n + k" by (metis less_natE add_Suc)
    then show ?thesis using ih(3) [of a] by simp
  next
    case False
    then show ?thesis using ih(3) [of a] by auto
  qed
  moreover have "ts = [?n ..< ?n + length (img # imgs)]" using ts ih(1) by (simp add: upt_rec)
  moreover have "w' = w\<lparr>next_addr := ?n + length (img # imgs), textures := textures w'\<rparr>" using ih(2) by simp
  ultimately show ?case by blast
qed

section \<open>The creation as a whole\<close>

lemma swapchain_images_end:
  assumes "swapchain_images V dev chain k w = Inr x"
  obtains tr images where "k images (w\<lparr>trace := trace w @ tr\<rparr>) = Inr x"
  using assms by (auto simp: swapchain_images_def CHECK_VKRESULT_def vk_do_run elim!: assertc_end)

text \<open>The call of the driver and what is made of its answer.\<close>

lemma make_swapchain_end:
  assumes "make_swapchain V d dev info w = Inr (s, w')"
  obtains images post where
    "trace w' = trace w @ VkSetup (VkCreateSwapchainKHR dev info) # post"
    "vk_debug V \<Longrightarrow> sci_compositeAlpha info \<noteq> VK_COMPOSITE_ALPHA_FLAG_BITS_MAX_ENUM_KHR"
    "s = next_addr w + length images"
    "w' = w\<lparr>trace := trace w', next_addr := Suc s, textures := textures w', swapchains := swapchains w'\<rparr>"
    "textures w' = (\<lambda>a. if next_addr w \<le> a \<and> a < s
       then Some (back_buffer_texture d (sci_imageFormat info) (sci_imageExtent info) (images ! (a - next_addr w))) else textures w a)"
    "swapchains w' = (swapchains w)(s \<mapsto> \<lparr>swapchain_device = NULL, back_buffers = [next_addr w ..< s],
       pVkSurface = sci_surface info, pVkSwapChain = vk_out (vk_drv V (trace w) (VkSetup (VkCreateSwapchainKHR dev info))) 0\<rparr>)"
proof -
  define body where "body = (\<lambda>img. calloc textures_update (back_buffer_texture d (sci_imageFormat info) (sci_imageExtent info) img) ret)"
  let ?handle = "vk_out (vk_drv V (trace w) (VkSetup (VkCreateSwapchainKHR dev info))) 0"
  obtain tr images ts u where alpha: "vk_debug V \<Longrightarrow> sci_compositeAlpha info \<noteq> VK_COMPOSITE_ALPHA_FLAG_BITS_MAX_ENUM_KHR"
    and loop: "map_each images body (w\<lparr>trace := trace w @ VkSetup (VkCreateSwapchainKHR dev info) # tr\<rparr>) = Inr (ts, u)"
    and s: "s = next_addr u" and w': "w' = swapchains_update (\<lambda>m. m(s \<mapsto> \<lparr>swapchain_device = NULL, back_buffers = ts,
       pVkSurface = sci_surface info, pVkSwapChain = ?handle\<rparr>)) (u\<lparr>next_addr := Suc s\<rparr>)"
    using assms unfolding make_swapchain_def body_def [symmetric]
    by (auto simp: vk_do_run calloc_run elim!: assertc_end swapchain_images_end bindP_end)
  have "body img = calloc textures_update (back_buffer_texture d (sci_imageFormat info) (sci_imageExtent info) img) ret" for img
    by (simp add: body_def)
  from back_buffers_end [OF loop this] have u: "ts = [next_addr w ..< next_addr w + length images]"
      "u = w\<lparr>trace := trace w @ VkSetup (VkCreateSwapchainKHR dev info) # tr, next_addr := next_addr w + length images,
         textures := textures u\<rparr>"
      "textures u = (\<lambda>a. if next_addr w \<le> a \<and> a < next_addr w + length images
         then Some (back_buffer_texture d (sci_imageFormat info) (sci_imageExtent info) (images ! (a - next_addr w))) else textures w a)"
    by (auto simp: fun_eq_iff)
  have sel: "next_addr u = next_addr w + length images" "swapchains u = swapchains w"
      "trace u = trace w @ VkSetup (VkCreateSwapchainKHR dev info) # tr"
    by (subst u(2), simp)+
  show thesis
  proof (rule that [of tr images])
    show "w' = w\<lparr>trace := trace w', next_addr := Suc s, textures := textures w', swapchains := swapchains w'\<rparr>"
      unfolding w' by (subst u(2)) (simp add: sel)
  qed (use alpha s w' u sel in simp_all)
qed

text \<open>A creation that ends well: what it was told, and what it asks the driver for.\<close>

lemma create_swapchain_end:
  assumes "cgpu_create_swapchain_vulkan V d desc w = Inr (s, w')"
  obtains D A caps formats modes family tr where
    "d \<noteq> NULL" "devices w d = Some D" "adapters w (device_adapter D) = Some A"
    "surface_seen V (trace w) (pPhysicalDevice A) (scd_surface desc) = (caps, formats, modes)"
    "vk_debug V \<Longrightarrow> phys_queue_families (physical_device (vk_plat V) (pPhysicalDevice A)) \<noteq> []
       \<Longrightarrow> asked_family V (trace w @ tr) (pPhysicalDevice A) (scd_surface desc) family"
    "make_swapchain V d (pVkDevice D) (swapchain_info caps formats modes family desc) (w\<lparr>trace := trace w @ tr\<rparr>) = Inr (s, w')"
proof -
  from assms obtain D A queue_list queue where d: "d \<noteq> NULL" "devices w d = Some D" "adapters w (device_adapter D) = Some A"
    and run: "query_surface V (pPhysicalDevice A) (scd_surface desc) (\<lambda>caps formats modes.
       deref queues queue (\<lambda>Q.
       bindP (present_family V (pPhysicalDevice A) (scd_surface desc) (mVkQueueFamilyIndex Q)) (\<lambda>family.
       make_swapchain V d (pVkDevice D) (swapchain_info caps formats modes family desc)))) w = Inr (s, w')"
    unfolding cgpu_create_swapchain_vulkan_def
    by (auto simp: desc_ptr_def index_of_run elim!: deref_end split: option.splits if_splits)
  from run obtain tr caps formats modes where
      seen: "surface_seen V (trace w) (pPhysicalDevice A) (scd_surface desc) = (caps, formats, modes)"
    and run2: "deref queues queue (\<lambda>Q.
       bindP (present_family V (pPhysicalDevice A) (scd_surface desc) (mVkQueueFamilyIndex Q)) (\<lambda>family.
       make_swapchain V d (pVkDevice D) (swapchain_info caps formats modes family desc))) (w\<lparr>trace := trace w @ tr\<rparr>) = Inr (s, w')"
    by (elim query_surface_end)
  from run2 obtain Q :: CGPUQueue_Vulkan and family u where
      fam: "present_family V (pPhysicalDevice A) (scd_surface desc) (mVkQueueFamilyIndex Q) (w\<lparr>trace := trace w @ tr\<rparr>) = Inr (family, u)"
    and rest: "make_swapchain V d (pVkDevice D) (swapchain_info caps formats modes family desc) u = Inr (s, w')"
    by (elim deref_end bindP_end) (rule that)
  from present_family_end [OF fam] obtain tr' where u: "u = w\<lparr>trace := trace w @ (tr @ tr')\<rparr>"
      and "vk_debug V \<and> phys_queue_families (physical_device (vk_plat V) (pPhysicalDevice A)) \<noteq> []
         \<longrightarrow> asked_family V (trace u) (pPhysicalDevice A) (scd_surface desc) family" by auto
  then show thesis using d seen rest by (intro that [of D A caps formats modes "tr @ tr'" family]) auto
qed


section \<open>The request that reaches the driver\<close>



text \<open>The witness: a surface that shows two or three images, one format and one mode.\<close>

definition surface_driver :: vk_driver where
  "surface_driver tr c = \<lparr>vk_result = VK_SUCCESS, vk_outs =
     (case c of
        VkSetup (VkGetPhysicalDeviceSurfaceCapabilitiesKHR _ _) \<Rightarrow> [2, 3, 1, 1, 640, 480, 1, 1, 1]
      | VkSetup (VkGetPhysicalDeviceSurfaceFormatsKHR _ _ array) \<Rightarrow> if array then [44, 0] else [1]
      | VkSetup (VkGetPhysicalDeviceSurfacePresentModesKHR _ _ array) \<Rightarrow> if array then [2] else [1]
      | VkSetup (VkGetPhysicalDeviceSurfaceSupportKHR _ _ _) \<Rightarrow> [1]
      | VkSetup (VkGetSwapchainImagesKHR _ _ array) \<Rightarrow> if array then [701, 702] else [2]
      | _ \<Rightarrow> [length tr + 1000])\<rparr>"

definition surface_vk :: vk_env where
  "surface_vk = sample_vk\<lparr>vk_drv := surface_driver\<rparr>"

definition sample_chain_desc :: CGPUSwapChainDescriptor where
  "sample_chain_desc = \<lparr>scd_presentQueues = Some [5], scd_presentQueuesCount = 1, scd_surface = 630, scd_imageCount = 5,
     scd_width = 1920, scd_height = 1080, scd_enableVsync = True, scd_useFlipSwapEffect = False,
     scd_format = CGPU_FORMAT_B8G8R8A8_UNORM\<rparr>"

lemma surface_vk_simps [simp]:
  "vk_debug surface_vk" "vk_drv surface_vk = surface_driver" "vk_plat surface_vk = sample_platform"
  by (simp_all add: surface_vk_def sample_vk_def)

definition surface_caps :: VkSurfaceCapabilitiesKHR where
  "surface_caps = \<lparr>minImageCount = 2, maxImageCount = 3, minImageExtent = (1, 1), maxImageExtent = (640, 480),
     supportedTransforms = 1, currentTransform = 1, supportedCompositeAlpha = 1\<rparr>"

definition surface_formats :: "VkSurfaceFormatKHR list" where
  "surface_formats = [\<lparr>sf_format = 44, sf_colorSpace = 0\<rparr>]"

lemmas surface_answers = surface_driver_def vk_out_def surface_capabilities_def present_mode_of_def surface_caps_def
  surface_formats_def

lemma sample_surface_seen:
  "surface_seen surface_vk tr phys surface = (surface_caps, surface_formats, [VK_PRESENT_MODE_FIFO_KHR])"
  by (simp add: surface_seen_def Let_def surface_answers)

lemma sample_query_surface:
  "\<exists>tr. \<forall>k. query_surface surface_vk phys surface k w
     = k surface_caps surface_formats [VK_PRESENT_MODE_FIFO_KHR] (w\<lparr>trace := trace w @ tr\<rparr>)"
  by (intro exI allI) (simp add: query_surface_def query_array_def CHECK_VKRESULT_def assertc_run vk_do_run surface_answers)

lemma sample_make_swapchain:
  assumes "next_addr w = 100"
  shows "ends (make_swapchain surface_vk d dev (swapchain_info surface_caps formats modes family desc)) (\<lambda>s w'. s = 102 \<and> (\<exists>S. swapchains w' s = Some S)) w"
  using assms
  by (simp add: make_swapchain_def swapchain_images_def ends_simps surface_answers numeral_2_eq_2 swapchain_info_def Let_def
      fitted_composite_alpha_def compositeAlphaFlags_def VK_COMPOSITE_ALPHA_FLAG_BITS_MAX_ENUM_KHR_def)

lemma sample_phys: "pPhysicalDevice sample_adapter = 502"
  by (simp add: sample_adapter_def new_adapter_def Let_def)

lemma sample_swapchain_runs:
  "ends (cgpu_create_swapchain_vulkan surface_vk 3 sample_chain_desc) (\<lambda>s w'. s = 102 \<and> (\<exists>S. swapchains w' s = Some S)) sample_world"
proof -
  obtain tr where q: "\<forall>k :: _ \<Rightarrow> _ \<Rightarrow> _ \<Rightarrow> CGPUSwapChainId vk_prog. query_surface surface_vk 502 630 k sample_world
      = k surface_caps surface_formats [VK_PRESENT_MODE_FIFO_KHR] (sample_world\<lparr>trace := trace sample_world @ tr\<rparr>)"
    using sample_query_surface [of 502 630 sample_world] by (elim exE)
  have "ends (query_surface surface_vk 502 630 k) Q sample_world
      = ends (k surface_caps surface_formats [VK_PRESENT_MODE_FIFO_KHR]) Q (sample_world\<lparr>trace := trace sample_world @ tr\<rparr>)"
    for k and Q :: "CGPUSwapChainId \<Rightarrow> vk_world \<Rightarrow> bool"
    by (simp only: ends_def q [rule_format])
  then show ?thesis
    by (simp add: cgpu_create_swapchain_vulkan_def ends_simps desc_ptr_def sample_chain_desc_def sample_device_def sample_phys
        present_family_def surface_supported_def surface_driver_def vk_out_def sample_make_swapchain)
qed



section \<open>A swapchain that is freed\<close>

lemma front_create_swapchain_end:
  assumes "cgpu_create_swapchain (system_env V R base p n) d desc w = Inr (s, w')"
  obtains m D u S where "n = Suc m" "d \<noteq> NULL" "p \<noteq> NULL" "devices w d = Some D" "device_proc_table_cache D = p"
    "cgpu_create_swapchain_vulkan V d desc w = Inr (s, u)" "s \<noteq> NULL" "swapchains u s = Some S"
    "w' = swapchains_update (\<lambda>m. m(s \<mapsto> S\<lparr>swapchain_device := d\<rparr>)) u"
proof -
  from assms obtain D m u S where "d \<noteq> NULL" "devices w d = Some D" "p \<noteq> NULL" "device_proc_table_cache D = p"
      "n = Suc m" and "cgpu_create_swapchain_vulkan V d desc w = Inr (s, u)" "s \<noteq> NULL" "swapchains u s = Some S"
      "w' = swapchains_update (\<lambda>m. m(s \<mapsto> S\<lparr>swapchain_device := d\<rparr>)) u"
    unfolding cgpu_create_swapchain_def device_table_def
    by (auto simp: assertc_run deref_run table_at_run proc_run bindP_run store_run vk_table_defs
        dest!: system_table split: if_splits option.splits sum.splits)
  then show thesis by (intro that)
qed

text \<open>
  Property C39. Creating a swapchain and freeing it is balanced: when no texture and no swapchain
  lies at an address still to be given out, the chain owns back buffers that are distinct live
  textures of the device which do not own their images, and freeing it, which always ends well,
  destroys the chain of the driver that was created and gives back the world of before, save for the
  calls made and the addresses used.
\<close>

theorem swapchain_create_free_roundtrip:
  assumes run: "cgpu_create_swapchain (system_env V R base p n) d desc w = Inr (s, w')"
    and fresh: "\<And>a. next_addr w \<le> a \<Longrightarrow> textures w a = None \<and> swapchains w a = None"
  shows "\<exists>D S. devices w d = Some D \<and> swapchains w' s = Some S \<and> swapchain_device S = d \<and> distinct (back_buffers S)
    \<and> (\<forall>b \<in> set (back_buffers S). \<exists>t. textures w' b = Some t \<and> texture_device t = d \<and> \<not> texture_owns_image t)
    \<and> cgpu_free_swapchain (system_env V R base p n) s w'
        = Inr ((), w\<lparr>next_addr := next_addr w',
            trace := trace w' @ [VkQueue (VkDestroySwapchainKHR (pVkDevice D) (pVkSwapChain S))]\<rparr>)"
proof -
  obtain m D u S where n: "n = Suc m" and ptr: "d \<noteq> NULL" "p \<noteq> NULL" "s \<noteq> NULL" and D: "devices w d = Some D" "device_proc_table_cache D = p"
    and create: "cgpu_create_swapchain_vulkan V d desc w = Inr (s, u)" and S: "swapchains u s = Some S"
    and w': "w' = swapchains_update (\<lambda>m. m(s \<mapsto> S\<lparr>swapchain_device := d\<rparr>)) u"
    by (rule front_create_swapchain_end [OF run])
  obtain dev info tr where make: "make_swapchain V d dev info (w\<lparr>trace := trace w @ tr\<rparr>) = Inr (s, u)"
    by (rule create_swapchain_end [OF create]) (rule that)
  let ?v = "w\<lparr>trace := trace w @ tr\<rparr>"
  obtain images chain where s0: "s = next_addr ?v + length images"
    and u0: "u = ?v\<lparr>trace := trace u, next_addr := Suc s, textures := textures u, swapchains := swapchains u\<rparr>"
    and ts0: "textures u = (\<lambda>a. if next_addr ?v \<le> a \<and> a < s
       then Some (back_buffer_texture d (sci_imageFormat info) (sci_imageExtent info) (images ! (a - next_addr ?v))) else textures ?v a)"
    and chains0: "swapchains u = (swapchains ?v)(s \<mapsto> \<lparr>swapchain_device = NULL, back_buffers = [next_addr ?v ..< s],
       pVkSurface = sci_surface info, pVkSwapChain = chain\<rparr>)"
    by (rule make_swapchain_end [OF make]) (rule that)
  have u: "u = w\<lparr>trace := trace u, next_addr := Suc s, textures := textures u, swapchains := swapchains u\<rparr>"
    using u0 by simp
  note ts = ts0 [simplified] and chains = chains0 [simplified] and s = s0 [simplified]
  have bb: "back_buffers S = [next_addr w ..< s]" using S chains by auto
  have gone: "textures u |` (- {next_addr w ..< s}) = textures w"
    using fresh by (auto simp: ts restrict_map_def fun_eq_iff)
  have former: "(swapchains u)(s := None) = swapchains w"
    using fresh [of s] s by (auto simp: chains fun_eq_iff)
  have w: "w\<lparr>next_addr := a, trace := tr'\<rparr> = u\<lparr>next_addr := a, trace := tr', textures := textures w, swapchains := swapchains w\<rparr>" for a tr'
    by (subst u) simp
  have "devices u = devices w" by (subst u) simp
  then have "cgpu_free_swapchain (system_env V R base p n) s w'
      = Inr ((), w\<lparr>next_addr := next_addr w', trace := trace w' @ [VkQueue (VkDestroySwapchainKHR (pVkDevice D) (pVkSwapChain S))]\<rparr>)"
    unfolding w
    using ptr D S by (simp add: cgpu_free_swapchain_def device_table_def n table_at_Suc assertc_run deref_run proc_run w'
        vk_table_defs cgpu_free_swapchain_vulkan_def vk_do_run modify_run release_run bb gone former)
  then show ?thesis
    using D bb by (auto simp: w' ts back_buffer_texture_def Let_def)
qed


theorem swapchain_create_free_roundtrip_witness:
  "ends (cgpu_create_swapchain (system_env surface_vk sample_rs sample_base 9 2) 3 sample_chain_desc) (\<lambda>s.
   ends (cgpu_free_swapchain (system_env surface_vk sample_rs sample_base 9 2) s) (\<lambda>_ w'.
     textures w' = textures sample_world \<and> swapchains w' = swapchains sample_world)) sample_world"
proof -
  let ?E = "system_env surface_vk sample_rs sample_base 9 2"
  obtain s u S where u: "cgpu_create_swapchain_vulkan surface_vk 3 sample_chain_desc sample_world = Inr (s, u)"
    and s: "s = 102" "swapchains u s = Some S"
    using sample_swapchain_runs by (elim endsE exE conjE)
  have run: "cgpu_create_swapchain ?E 3 sample_chain_desc sample_world
      = Inr (s, swapchains_update (\<lambda>m. m(s \<mapsto> S\<lparr>swapchain_device := 3\<rparr>)) u)" (is "_ = Inr (s, ?w)")
    using u s by (simp add: cgpu_create_swapchain_def device_table_def numeral_2_eq_2 table_at_Suc assertc_run deref_run
        proc_run bindP_run store_run vk_table_defs sample_device_def sample_chain_desc_def)
  have "textures sample_world a = None \<and> swapchains sample_world a = None" if "next_addr sample_world \<le> a" for a
    using that by simp
  from swapchain_create_free_roundtrip [OF run this] show ?thesis
    by (auto simp: ends_def run)
qed

end
