(* ===== verification/Device_Facts.thy ===== *)
theory Device_Facts
  imports Vk_Sample Prog_Total
begin

text \<open>
  The end of a device: what was cached with it and what it was made of is destroyed, each once, and
  the device of the driver last.
\<close>

text \<open>A device whose parts are all there.\<close>

definition device_whole ::
    "ptr \<Rightarrow> vk_world \<Rightarrow> CGPUDeviceId \<Rightarrow> CGPUDevice_Vulkan \<Rightarrow> CGPUVkPassTable \<Rightarrow> VkUtil_DescriptorPool \<Rightarrow> bool" where
  "device_whole p w d D table P \<longleftrightarrow> 0 < d \<and> devices w d = Some D \<and> device_proc_table_cache D = p
     \<and> 0 < device_adapter D \<and> adapters w (device_adapter D) \<noteq> None
     \<and> 0 < pPassTable D \<and> pass_tables w (pPassTable D) = Some table
     \<and> 0 < pDescriptorPool D \<and> desc_pools w (pDescriptorPool D) = Some P \<and> dp_Device P = d"

text \<open>An order of the iterators that meets every key once.\<close>

definition enumerates :: "nat list \<Rightarrow> (nat \<Rightarrow> 'a option) \<Rightarrow> bool" where
  "enumerates hs m \<longleftrightarrow> distinct hs \<and> set hs = dom m"

text \<open>What destroys the contents of a cache.\<close>

lemma for_each_destroys:
  assumes "set hs \<subseteq> dom m"
    and "\<And>h v. m h = None \<or> body h v = Inr ((), v\<lparr>trace := trace v @ [call (the (m h))]\<rparr>)"
  shows "for_each hs body w = Inr ((), w\<lparr>trace := trace w @ map (\<lambda>h. call (the (m h))) hs\<rparr>)"
  using assms(1)
proof (induction hs arbitrary: w)
  case (Cons h hs)
  then have "body h w = Inr ((), w\<lparr>trace := trace w @ [call (the (m h))]\<rparr>)" using assms(2) [of h w] by auto
  then show ?case using Cons by (simp add: bindP_run)
qed simp

lemma enumerated_values: "enumerates hs m \<Longrightarrow> set (map (\<lambda>h. f (the (m h))) hs) = f ` ran m"
  by (force simp: enumerates_def ran_def)

lemma enumerated_length: "enumerates hs m \<Longrightarrow> length (map f hs) = card (dom m)"
  by (metis enumerates_def distinct_card length_map)

lemma destroy_cached_passes_run:
  assumes "enumerates (pass_order V table) (cached_renderpasses table)"
  shows "destroy_cached_passes V dev table w = Inr ((), w\<lparr>trace := trace w
    @ map (\<lambda>h. VkObject (VkDestroyRenderPass dev (crp_pass (the (cached_renderpasses table h))))) (pass_order V table)\<rparr>)"
  unfolding destroy_cached_passes_def
  by (rule for_each_destroys [where call = "\<lambda>c. VkObject (VkDestroyRenderPass dev (crp_pass c))"])
    (use assms in \<open>auto simp: enumerates_def vk_do_run split: option.split\<close>)

lemma destroy_cached_framebuffers_run:
  assumes "enumerates (framebuffer_order V table) (cached_framebuffers table)"
  shows "destroy_cached_framebuffers V dev table w = Inr ((), w\<lparr>trace := trace w
    @ map (\<lambda>h. VkObject (VkDestroyFramebuffer dev (cfb_framebuffer (the (cached_framebuffers table h))))) (framebuffer_order V table)\<rparr>)"
  unfolding destroy_cached_framebuffers_def
  by (rule for_each_destroys [where call = "\<lambda>c. VkObject (VkDestroyFramebuffer dev (cfb_framebuffer c))"])
    (use assms in \<open>auto simp: enumerates_def vk_do_run split: option.split\<close>)


definition destroyed_with ::
    "CGPUDevice_Vulkan \<Rightarrow> CGPUVkPassTable \<Rightarrow> VkUtil_DescriptorPool \<Rightarrow> vk_call set" where
  "destroyed_with D table P =
     (\<lambda>c. VkObject (VkDestroyRenderPass (pVkDevice D) (crp_pass c))) ` ran (cached_renderpasses table)
     \<union> (\<lambda>c. VkObject (VkDestroyFramebuffer (pVkDevice D) (cfb_framebuffer c))) ` ran (cached_framebuffers table)
     \<union> {VkSetup (VmaDestroyAllocator (pVmaAllocator D)), VkSetup (VkDestroyDescriptorPool (pVkDevice D) (pVkDescPool P))}
     \<union> (if dp_pMutex P \<noteq> NULL then {VkQueue (MutexDestroy (dp_pMutex P))} else {})
     \<union> (if pPipelineCache D \<noteq> VK_NULL_HANDLE then {VkSetup (VkDestroyPipelineCache (pVkDevice D) (pPipelineCache D))} else {})"

text \<open>
  Property C40. Freeing a device whose parts are all there ends well and leaks nothing: when the
  iterators of the two caches meet every key once, the driver is told, before the device itself is
  destroyed, to destroy exactly the render passes and framebuffers cached with it, its allocator,
  its descriptor pool with the mutex and its pipeline cache, each once; the device, its pass table
  and its descriptor pool leave the heap and nothing else of the world changes.
\<close>

theorem freed_device_leaks_nothing:
  assumes whole: "device_whole p w d D table P" and "0 < p"
    and passes: "enumerates (pass_order V table) (cached_renderpasses table)"
    and framebuffers: "enumerates (framebuffer_order V table) (cached_framebuffers table)"
  shows "\<exists>tr. cgpu_free_device (system_env V R base p (Suc n)) d w
      = Inr ((), w\<lparr>devices := (devices w)(d := None), desc_pools := (desc_pools w)(pDescriptorPool D := None),
          pass_tables := (pass_tables w)(pPassTable D := None),
          trace := trace w @ tr @ [VkSetup (VkDestroyDevice (pVkDevice D))]\<rparr>)
    \<and> set tr = destroyed_with D table P
    \<and> length tr = card (dom (cached_renderpasses table)) + card (dom (cached_framebuffers table)) + 2
        + of_bool (dp_pMutex P \<noteq> NULL) + of_bool (pPipelineCache D \<noteq> VK_NULL_HANDLE)"
proof -
  let ?tr = "map (\<lambda>h. VkObject (VkDestroyRenderPass (pVkDevice D) (crp_pass (the (cached_renderpasses table h))))) (pass_order V table)
    @ map (\<lambda>h. VkObject (VkDestroyFramebuffer (pVkDevice D) (cfb_framebuffer (the (cached_framebuffers table h))))) (framebuffer_order V table)
    @ [VkSetup (VmaDestroyAllocator (pVmaAllocator D)), VkSetup (VkDestroyDescriptorPool (pVkDevice D) (pVkDescPool P))]
    @ (if dp_pMutex P \<noteq> NULL then [VkQueue (MutexDestroy (dp_pMutex P))] else [])
    @ (if pPipelineCache D \<noteq> VK_NULL_HANDLE then [VkSetup (VkDestroyPipelineCache (pVkDevice D) (pPipelineCache D))] else [])"
  have free: "cgpu_free_device_vulkan V d w
      = Inr ((), w\<lparr>devices := (devices w)(d := None), desc_pools := (desc_pools w)(pDescriptorPool D := None),
          pass_tables := (pass_tables w)(pPassTable D := None),
          trace := trace w @ ?tr @ [VkSetup (VkDestroyDevice (pVkDevice D))]\<rparr>)"
    using whole unfolding device_whole_def
    by (auto simp: cgpu_free_device_vulkan_def deref_run bindP_run release_run vk_do_run
        destroy_cached_passes_run [OF passes] destroy_cached_framebuffers_run [OF framebuffers]
        VkUtil_FreeVMAAllocator_def VkUtil_FreeDescriptorPool_def VkUtil_FreePipelineCache_def)
  have "cgpu_free_device (system_env V R base p (Suc n)) d w = cgpu_free_device_vulkan V d w"
    using whole assms(2) by (auto simp: device_whole_def cgpu_free_device_def device_table_def table_at_Suc assertc_run
        deref_run checked_proc_run vk_table_defs)
  moreover have "set ?tr = destroyed_with D table P"
    using enumerated_values [OF passes, of "\<lambda>c. VkObject (VkDestroyRenderPass (pVkDevice D) (crp_pass c))"]
      enumerated_values [OF framebuffers, of "\<lambda>c. VkObject (VkDestroyFramebuffer (pVkDevice D) (cfb_framebuffer c))"]
    by (simp add: destroyed_with_def Un_assoc)
  moreover have "length ?tr = card (dom (cached_renderpasses table)) + card (dom (cached_framebuffers table)) + 2
        + of_bool (dp_pMutex P \<noteq> NULL) + of_bool (pPipelineCache D \<noteq> VK_NULL_HANDLE)"
    by (simp add: enumerated_length [OF passes, of id, simplified] enumerated_length [OF framebuffers, of id, simplified])
  ultimately show ?thesis using free by metis
qed

text \<open>The witness: the device of the sample with two passes and a framebuffer in its caches.\<close>

definition cache_vk :: vk_env where
  "cache_vk = sample_vk\<lparr>pass_order := \<lambda>_. [31, 32], framebuffer_order := \<lambda>_. [41]\<rparr>"

definition sample_caches :: CGPUVkPassTable where
  "sample_caches = \<lparr>cached_renderpasses = [31 \<mapsto> \<lparr>crp_pass = 801, crp_timestamp = 0\<rparr>, 32 \<mapsto> \<lparr>crp_pass = 802, crp_timestamp = 0\<rparr>],
     cached_framebuffers = [41 \<mapsto> \<lparr>cfb_framebuffer = 803, cfb_timestamp = 0\<rparr>]\<rparr>"

definition cache_world :: vk_world where
  "cache_world = sample_world\<lparr>pass_tables := [17 \<mapsto> sample_caches]\<rparr>"

theorem freed_device_leaks_nothing_witness:
  "ends (cgpu_free_device (system_env cache_vk sample_rs sample_base 9 2) 3) (\<lambda>_ w'.
     devices w' 3 = None \<and> last (trace w') = VkSetup (VkDestroyDevice 503)
     \<and> {VkObject (VkDestroyRenderPass 503 801), VkObject (VkDestroyRenderPass 503 802),
         VkObject (VkDestroyFramebuffer 503 803)} \<subseteq> set (trace w')) cache_world"
proof -
  have whole: "device_whole 9 cache_world 3 sample_device sample_caches \<lparr>dp_Device = 3, pVkDescPool = 640, dp_pMutex = 23\<rparr>"
    by (simp add: device_whole_def cache_world_def sample_device_def)
  have nine: "0 < (9 :: ptr)" by simp
  have "enumerates (pass_order cache_vk sample_caches) (cached_renderpasses sample_caches)"
      "enumerates (framebuffer_order cache_vk sample_caches) (cached_framebuffers sample_caches)"
    by (auto simp: enumerates_def cache_vk_def sample_caches_def)
  from freed_device_leaks_nothing [OF whole nine this, of sample_rs sample_base 1] obtain tr where run: "cgpu_free_device (system_env cache_vk sample_rs sample_base 9 (Suc 1)) 3 cache_world
      = Inr ((), cache_world\<lparr>devices := (devices cache_world)(3 := None),
          desc_pools := (desc_pools cache_world)(pDescriptorPool sample_device := None),
          pass_tables := (pass_tables cache_world)(pPassTable sample_device := None),
          trace := trace cache_world @ tr @ [VkSetup (VkDestroyDevice (pVkDevice sample_device))]\<rparr>)"
    and tr: "set tr = destroyed_with sample_device sample_caches \<lparr>dp_Device = 3, pVkDescPool = 640, dp_pMutex = 23\<rparr>"
    by (elim exE conjE)
  have "ran (cached_renderpasses sample_caches) = {\<lparr>crp_pass = 801, crp_timestamp = 0\<rparr>, \<lparr>crp_pass = 802, crp_timestamp = 0\<rparr>}"
      "ran (cached_framebuffers sample_caches) = {\<lparr>cfb_framebuffer = 803, cfb_timestamp = 0\<rparr>}"
    by (auto simp: sample_caches_def ran_map_upd)
  then have "{VkObject (VkDestroyRenderPass 503 801), VkObject (VkDestroyRenderPass 503 802),
      VkObject (VkDestroyFramebuffer 503 803)} \<subseteq> set tr"
    by (simp add: tr destroyed_with_def sample_device_def)
  then show ?thesis
    unfolding ends_def numeral_2_eq_2 using run [unfolded One_nat_def] by (intro exI conjI) (assumption, auto simp: sample_device_def)
qed

end
